(* ===== verification/Prelude.thy ===== *)
theory Prelude
  imports Main "HOL-Library.Char_ord" "HOL-Library.List_Lexorder" "HOL-Library.Sublist"
begin

text \<open>
  Shared vocabulary of the development: the Python string operations the program uses, JSON
  values, results with an error, and the generic lemmas on them.

  A Python \<open>str\<close> is a \<open>string\<close> (a list of \<open>char\<close>), each \<open>char\<close> read as the code point it
  numbers.  The model therefore covers strings over U+0000..U+00FF; every class below
  (white space, line boundaries, lower case, printable) is Python's, on that range.
  Strings compare as Python compares them, by code point, through the lexicographic
  order of \<open>HOL-Library.List_Lexorder\<close> over \<open>HOL-Library.Char_ord\<close>.
\<close>

named_theorems actions \<open>identifier, commands and flags of the planned actions\<close>
named_theorems findings \<open>identifier and severity of the diagnosed findings\<close>

section \<open>Results with an error\<close>

definition bind_r :: "'e + 'a \<Rightarrow> ('a \<Rightarrow> 'e + 'b) \<Rightarrow> 'e + 'b" where
  "bind_r r f = (case r of Inl e \<Rightarrow> Inl e | Inr a \<Rightarrow> f a)"

lemma bind_r_simps [simp]:
  "bind_r (Inl e) f = Inl e"
  "bind_r (Inr a) f = f a"
  by (simp_all add: bind_r_def)

lemma bind_r_Inr_iff: "bind_r r f = Inr b \<longleftrightarrow> (\<exists>a. r = Inr a \<and> f a = Inr b)"
  by (cases r) auto

text \<open>A list comprehension whose element expression may raise: the first error ends it.\<close>

fun map_r :: "('a \<Rightarrow> 'e + 'b) \<Rightarrow> 'a list \<Rightarrow> 'e + 'b list" where
  "map_r f [] = Inr []"
| "map_r f (x # xs) = bind_r (f x) (\<lambda>y. bind_r (map_r f xs) (\<lambda>ys. Inr (y # ys)))"

lemma map_r_Inr_length: "map_r f xs = Inr ys \<Longrightarrow> length ys = length xs"
  by (induction xs arbitrary: ys) (auto simp: bind_r_Inr_iff)

section \<open>Characters\<close>

definition cp :: "char \<Rightarrow> nat" where
  "cp c = of_char c"

definition py_isspace :: "char \<Rightarrow> bool" where
  "py_isspace c \<longleftrightarrow> cp c \<in> {9, 10, 11, 12, 13, 28, 29, 30, 31, 32, 133, 160}"

definition is_digit :: "char \<Rightarrow> bool" where
  "is_digit c \<longleftrightarrow> 48 \<le> cp c \<and> cp c \<le> 57"

definition is_lower :: "char \<Rightarrow> bool" where
  "is_lower c \<longleftrightarrow> 97 \<le> cp c \<and> cp c \<le> 122"

definition is_upper :: "char \<Rightarrow> bool" where
  "is_upper c \<longleftrightarrow> 65 \<le> cp c \<and> cp c \<le> 90"

definition is_alnum :: "char \<Rightarrow> bool" where
  "is_alnum c \<longleftrightarrow> is_lower c \<or> is_upper c \<or> is_digit c"

definition is_hex :: "char \<Rightarrow> bool" where
  "is_hex c \<longleftrightarrow> is_digit c \<or> (97 \<le> cp c \<and> cp c \<le> 102)"

text \<open>\<open>str.lower\<close> on one code point: A-Z, and U+00C0..U+00DE but the multiplication sign.\<close>

definition lower_char :: "char \<Rightarrow> char" where
  "lower_char c =
     (if is_upper c \<or> (192 \<le> cp c \<and> cp c \<le> 222 \<and> cp c \<noteq> 215)
      then char_of (cp c + 32) else c)"

definition lower :: "string \<Rightarrow> string" where
  "lower s = map lower_char s"

section \<open>Python string operations\<close>

definition lstrip :: "string \<Rightarrow> string" where
  "lstrip s = dropWhile py_isspace s"

definition rstrip :: "string \<Rightarrow> string" where
  "rstrip s = rev (dropWhile py_isspace (rev s))"

definition strip :: "string \<Rightarrow> string" where
  "strip s = rstrip (lstrip s)"

definition startswith :: "string \<Rightarrow> string \<Rightarrow> bool" where
  "startswith s p \<longleftrightarrow> take (length p) s = p"

definition endswith :: "string \<Rightarrow> string \<Rightarrow> bool" where
  "endswith s p \<longleftrightarrow> startswith (rev s) (rev p)"

definition removeprefix :: "string \<Rightarrow> string \<Rightarrow> string" where
  "removeprefix p s = (if startswith s p then drop (length p) s else s)"

text \<open>\<open>p in s\<close> for strings.\<close>

fun contains :: "string \<Rightarrow> string \<Rightarrow> bool" where
  "contains p [] \<longleftrightarrow> p = []"
| "contains p (c # s) \<longleftrightarrow> startswith (c # s) p \<or> contains p s"

text \<open>
  \<open>s.partition(sep)\<close> for a one-character separator: the part before the first one, whether
  there is one, and the part after it.  \<open>s.split(sep, 1)\<close> has the same two parts, and
  \<open>s.rpartition(sep)\<close> cuts at the last one (with an empty head when there is none).
\<close>

fun partition_at :: "char \<Rightarrow> string \<Rightarrow> string \<times> bool \<times> string" where
  "partition_at c [] = ([], False, [])"
| "partition_at c (d # s) =
     (if d = c then ([], True, s)
      else (case partition_at c s of (a, f, b) \<Rightarrow> (d # a, f, b)))"

definition rpartition_at :: "char \<Rightarrow> string \<Rightarrow> string \<times> bool \<times> string" where
  "rpartition_at c s =
     (case partition_at c (rev s) of
        (a, True, b) \<Rightarrow> (rev b, True, rev a)
      | (a, False, b) \<Rightarrow> ([], False, s))"

definition head_before :: "char \<Rightarrow> string \<Rightarrow> string" where
  "head_before c s = takeWhile (\<lambda>d. d \<noteq> c) s"

fun split_on :: "char \<Rightarrow> string \<Rightarrow> string list" where
  "split_on c [] = [[]]"
| "split_on c (d # s) =
     (if d = c then [] # split_on c s
      else (case split_on c s of [] \<Rightarrow> [[d]] | w # ws \<Rightarrow> (d # w) # ws))"

fun join :: "string \<Rightarrow> string list \<Rightarrow> string" where
  "join sep [] = []"
| "join sep [x] = x"
| "join sep (x # y # xs) = x @ sep @ join sep (y # xs)"

text \<open>
  \<open>str.splitlines\<close>: the line boundaries are LF, CR, CR LF, VT, FF, FS, GS, RS and NEL; a
  boundary at the very end opens no further line.
\<close>

definition is_linebreak :: "char \<Rightarrow> bool" where
  "is_linebreak c \<longleftrightarrow> cp c \<in> {10, 11, 12, 13, 28, 29, 30, 133}"

fun splitlines_acc :: "string \<Rightarrow> string \<Rightarrow> string list" where
  "splitlines_acc acc [] = (if acc = [] then [] else [rev acc])"
| "splitlines_acc acc [c] =
     (if is_linebreak c then [rev acc] else [rev (c # acc)])"
| "splitlines_acc acc (c # d # s) =
     (if cp c = 13 \<and> cp d = 10 then rev acc # splitlines_acc [] s
      else if is_linebreak c then rev acc # splitlines_acc [] (d # s)
      else splitlines_acc (c # acc) (d # s))"

definition splitlines :: "string \<Rightarrow> string list" where
  "splitlines s = splitlines_acc [] s"

section \<open>Decimal numbers\<close>

text \<open>\<open>str(n)\<close> of a natural number and \<open>int(s)\<close> of a string of decimal digits.\<close>

definition digit_char :: "nat \<Rightarrow> char" where
  "digit_char d = char_of (48 + d)"

fun nat_str :: "nat \<Rightarrow> string" where
  "nat_str n = (if n < 10 then [digit_char n] else nat_str (n div 10) @ [digit_char (n mod 10)])"

declare nat_str.simps [simp del]

definition int_str :: "int \<Rightarrow> string" where
  "int_str i = (if i < 0 then CHR ''-'' # nat_str (nat (- i)) else nat_str (nat i))"

definition digits_val :: "string \<Rightarrow> nat" where
  "digits_val s = foldl (\<lambda>n c. 10 * n + (cp c - 48)) 0 s"

text \<open>\<open>str.isdecimal\<close>.\<close>

definition isdecimal :: "string \<Rightarrow> bool" where
  "isdecimal s \<longleftrightarrow> s \<noteq> [] \<and> list_all is_digit s"

lemma nat_str_digits: "list_all is_digit (nat_str n)"
proof (induction n rule: nat_str.induct)
  case (1 n)
  have dig: "is_digit (digit_char d)" if "d < 10" for d
    using that by (simp add: digit_char_def is_digit_def cp_def)
  show ?case
  proof (cases "n < 10")
    case True
    then show ?thesis by (simp add: nat_str.simps [of n] dig)
  next
    case False
    with "1.IH" show ?thesis by (simp add: nat_str.simps [of n] dig)
  qed
qed

lemma nat_str_nonempty [simp]: "nat_str n \<noteq> []"
  by (subst nat_str.simps) simp

lemma digits_val_snoc: "digits_val (s @ [c]) = 10 * digits_val s + (cp c - 48)"
  by (simp add: digits_val_def)

lemma digit_char_simps [simp]:
  "digit_char 0 = CHR ''0''" "digit_char (Suc 0) = CHR ''1''" "digit_char 2 = CHR ''2''"
  "digit_char 3 = CHR ''3''" "digit_char 4 = CHR ''4''" "digit_char 5 = CHR ''5''"
  "digit_char 6 = CHR ''6''" "digit_char 7 = CHR ''7''" "digit_char 8 = CHR ''8''"
  "digit_char 9 = CHR ''9''"
  by (simp_all add: digit_char_def char_of_eq_iff)

text \<open>Printing a number and reading it back is the identity.\<close>

lemma digits_val_nat_str: "digits_val (nat_str n) = n"
proof (induction n rule: nat_str.induct)
  case (1 n)
  have cpd: "cp (digit_char d) - 48 = d" if "d < 10" for d
    using that by (simp add: digit_char_def cp_def)
  show ?case
  proof (cases "n < 10")
    case True
    then show ?thesis by (simp add: nat_str.simps [of n] digits_val_def cpd)
  next
    case False
    with "1.IH" show ?thesis by (simp add: nat_str.simps [of n] digits_val_snoc cpd)
  qed
qed

lemma isdecimal_nat_str: "isdecimal (nat_str n)"
  by (simp add: isdecimal_def nat_str_digits)

section \<open>Python's repr of a string\<close>

text \<open>
  \<open>f"{s!r}"\<close>: single quotes, or double quotes where the text has a single quote and no double
  one; backslash, the quote, tab, line feed and carriage return escaped; the other
  unprintable code points as \<open>\xhh\<close>.
\<close>

definition hex_digit :: "nat \<Rightarrow> char" where
  "hex_digit d = (if d < 10 then char_of (48 + d) else char_of (87 + d))"

definition repr_char :: "char \<Rightarrow> char \<Rightarrow> string" where
  "repr_char q c =
     (if c = q \<or> cp c = 92 then [char_of (92::nat), c]
      else if cp c = 9 then [char_of (92::nat), CHR ''t'']
      else if cp c = 10 then [char_of (92::nat), CHR ''n'']
      else if cp c = 13 then [char_of (92::nat), CHR ''r'']
      else if cp c < 32 \<or> (127 \<le> cp c \<and> cp c \<le> 160) \<or> cp c = 173
        then [char_of (92::nat), CHR ''x'', hex_digit (cp c div 16), hex_digit (cp c mod 16)]
      else [c])"

definition py_repr :: "string \<Rightarrow> string" where
  "py_repr s =
     (let q = (if char_of (39::nat) \<in> set s \<and> char_of (34::nat) \<notin> set s
               then char_of (34::nat) else char_of (39::nat))
      in [q] @ concat (map (repr_char q) s) @ [q])"

definition opt_repr :: "string option \<Rightarrow> string" where
  "opt_repr o' = (case o' of None \<Rightarrow> ''None'' | Some s \<Rightarrow> py_repr s)"

text \<open>\<open>f"{value}"\<close> of an optional string.\<close>

definition opt_text :: "string option \<Rightarrow> string" where
  "opt_text o' = (case o' of None \<Rightarrow> ''None'' | Some s \<Rightarrow> s)"

section \<open>Regular expressions with a final dollar\<close>

text \<open>
  \<open>re.match\<close> with a pattern that ends in \<open>$\<close> also accepts one line feed after the match;
  \<open>re.fullmatch\<close> does not.
\<close>

definition match_dollar :: "(string \<Rightarrow> bool) \<Rightarrow> string \<Rightarrow> bool" where
  "match_dollar p s \<longleftrightarrow> p s \<or> (s \<noteq> [] \<and> cp (last s) = 10 \<and> p (butlast s))"

definition hex_of_length :: "nat \<Rightarrow> string \<Rightarrow> bool" where
  "hex_of_length n s \<longleftrightarrow> length s = n \<and> list_all is_hex s"

section \<open>JSON values\<close>

text \<open>
  What \<open>json.loads\<close> returns.  A number with a fraction or an exponent is kept as its
  text: the program never computes with one, it only tells it from an integer.
\<close>

datatype json =
    JNull
  | JBool bool
  | JInt int
  | JFloat string
  | JStr string
  | JList "json list"
  | JObj "(string \<times> json) list"

definition jget :: "string \<Rightarrow> (string \<times> json) list \<Rightarrow> json option" where
  "jget k kvs = map_of kvs k"

definition keys :: "(string \<times> 'a) list \<Rightarrow> string list" where
  "keys kvs = map fst kvs"

text \<open>\<open>d.get(k)\<close>: a missing key reads as \<open>None\<close>.\<close>

definition jget_or_null :: "string \<Rightarrow> (string \<times> json) list \<Rightarrow> json" where
  "jget_or_null k kvs = (case map_of kvs k of None \<Rightarrow> JNull | Some v \<Rightarrow> v)"

fun is_jstr :: "json \<Rightarrow> bool" where
  "is_jstr (JStr s) = True"
| "is_jstr _ = False"

fun is_nonempty_jstr :: "json \<Rightarrow> bool" where
  "is_nonempty_jstr (JStr s) \<longleftrightarrow> s \<noteq> []"
| "is_nonempty_jstr _ \<longleftrightarrow> False"

fun is_jbool :: "json \<Rightarrow> bool" where
  "is_jbool (JBool b) = True"
| "is_jbool _ = False"

fun is_jint :: "json \<Rightarrow> bool" where
  "is_jint (JInt i) = True"
| "is_jint _ = False"

fun the_jstr :: "json \<Rightarrow> string" where
  "the_jstr (JStr s) = s"
| "the_jstr _ = []"

text \<open>A list or an object cannot be a member of a Python set: testing it raises.\<close>

fun unhashable :: "json \<Rightarrow> bool" where
  "unhashable (JList xs) = True"
| "unhashable (JObj kvs) = True"
| "unhashable _ = False"

text \<open>
  \<open>json.loads(text, object_pairs_hook=hook)\<close> of the standard library is an argument of the model:
  given the hook it calls on the pairs of each object, and the text, it returns the value or the
  exception.
\<close>

datatype 'e loads_result =
    Loaded json
  | JSONDecodeError
  | RecursionError
  | HookError 'e

type_synonym 'e json_loads =
  "((string \<times> json) list \<Rightarrow> 'e + json) \<Rightarrow> string \<Rightarrow> 'e loads_result"

section \<open>Lists\<close>

text \<open>\<open>list(dict.fromkeys(values))\<close>: the first occurrences, in order.\<close>

fun dedup_acc :: "'a list \<Rightarrow> 'a list \<Rightarrow> 'a list" where
  "dedup_acc seen [] = []"
| "dedup_acc seen (x # xs) =
     (if x \<in> set seen then dedup_acc seen xs else x # dedup_acc (x # seen) xs)"

definition dedup :: "'a list \<Rightarrow> 'a list" where
  "dedup xs = dedup_acc [] xs"

lemma dedup_acc_props:
  "set (dedup_acc seen xs) = set xs - set seen \<and> distinct (dedup_acc seen xs)"
  by (induction xs arbitrary: seen) auto

lemma set_dedup [simp]: "set (dedup xs) = set xs"
  by (simp add: dedup_def dedup_acc_props)

lemma distinct_dedup [simp]: "distinct (dedup xs)"
  by (simp add: dedup_def dedup_acc_props)

lemma dedup_Nil_iff [simp]: "dedup xs = [] \<longleftrightarrow> xs = []"
  by (metis set_dedup set_empty)

text \<open>\<open>sorted(set(values))\<close>.\<close>

definition sorted_set :: "'a::linorder list \<Rightarrow> 'a list" where
  "sorted_set xs = sort (remdups xs)"

lemma set_sorted_set [simp]: "set (sorted_set xs) = set xs"
  by (simp add: sorted_set_def)

lemma sorted_sorted_set [simp]: "sorted (sorted_set xs)"
  by (simp add: sorted_set_def)

lemma distinct_sorted_set [simp]: "distinct (sorted_set xs)"
  by (simp add: sorted_set_def)

lemma sorted_set_Nil_iff [simp]: "sorted_set xs = [] \<longleftrightarrow> xs = []"
  by (metis set_sorted_set set_empty)

section \<open>Folding a step that may fail\<close>

text \<open>
  A loop over a list whose body may raise: the state is threaded through the steps and the
  first error ends the loop.
\<close>

fun fold_e :: "('s \<Rightarrow> 'a \<Rightarrow> 'e + 's) \<Rightarrow> 's \<Rightarrow> 'a list \<Rightarrow> 'e + 's" where
  "fold_e f s [] = Inr s"
| "fold_e f s (x # xs) = bind_r (f s x) (\<lambda>s'. fold_e f s' xs)"

text \<open>
  The interface of such a loop: a step function, an invariant it keeps and a relation
  between the items already read and the state.  A client proves the step laws once and
  gets the laws of the whole run.
\<close>

locale checked_run =
  fixes stepf :: "'s \<Rightarrow> 'a \<Rightarrow> 'e + 's"
    and inv :: "'a list \<Rightarrow> 's \<Rightarrow> bool"
  assumes step_inv: "inv xs s \<Longrightarrow> stepf s x = Inr s' \<Longrightarrow> inv (xs @ [x]) s'"
begin

lemma run_append:
  "fold_e stepf s (xs @ ys) = bind_r (fold_e stepf s xs) (\<lambda>s'. fold_e stepf s' ys)"
proof (induction xs arbitrary: s)
  case Nil
  then show ?case by simp
next
  case (Cons x xs)
  then show ?case by (cases "stepf s x") auto
qed

lemma run_inv: "inv pre s \<Longrightarrow> fold_e stepf s xs = Inr s' \<Longrightarrow> inv (pre @ xs) s'"
proof (induction xs arbitrary: pre s)
  case Nil
  then show ?case by simp
next
  case (Cons x xs)
  from Cons.prems(2) obtain t where t: "stepf s x = Inr t" "fold_e stepf t xs = Inr s'"
    by (auto simp: bind_r_Inr_iff)
  from Cons.prems(1) t(1) have "inv (pre @ [x]) t" by (rule step_inv)
  from Cons.IH [OF this t(2)] show ?case by simp
qed

lemma run_split:
  assumes "fold_e stepf s (xs @ y # ys) = Inr s'"
  obtains t u where "fold_e stepf s xs = Inr t" "stepf t y = Inr u" "fold_e stepf u ys = Inr s'"
  using assms by (auto simp: run_append bind_r_Inr_iff)

lemma run_inv_at:
  assumes "inv [] s" and "fold_e stepf s (xs @ y # ys) = Inr s'"
  obtains t u where "inv xs t" "stepf t y = Inr u" "inv (xs @ [y]) u" "fold_e stepf u ys = Inr s'"
proof -
  from assms(2) obtain t u where tu: "fold_e stepf s xs = Inr t" "stepf t y = Inr u"
    "fold_e stepf u ys = Inr s'" by (rule run_split)
  from run_inv [OF assms(1) tu(1)] have "inv xs t" by simp
  with tu that show thesis using step_inv by blast
qed

end

end
