(* ===== verification/Models.thy ===== *)
theory Models
  imports Prelude
begin

text \<open>
  The data model (\<open>nvidia_converge/models.py\<close>): one record per dataclass, the fields in the
  order and with the names of the code (each with a prefix for its class), an optional value
  as \<open>option\<close>, and the properties and methods of the desired state.  The duration of a report, a
  float the program only prints, is its printed text.
\<close>

datatype severity = Info | Warning | Error

record desired_state =
  ds_role :: string
  ds_driver :: string
  ds_cuda_compat :: string
  ds_secure_boot :: string
  ds_container_runtime :: string
  ds_container_test_image :: string
  ds_fabric_manager :: bool
  ds_mig :: string
  ds_mig_profile :: string
  ds_kernel_policy :: string

record command_result =
  cr_command :: "string list"
  cr_returncode :: "int option"
  cr_stdout :: string
  cr_stderr :: string
  cr_skipped :: bool
  cr_reason :: "string option"

record finding =
  fi_id :: string
  fi_severity :: severity
  fi_summary :: string
  fi_detail :: string
  fi_evidence :: "(string \<times> json) list"
  fi_remediation :: "string option"

record package_info =
  pi_name :: string
  pi_version :: "string option"
  pi_manager :: "string option"
  pi_installed :: bool
  pi_architecture :: "string option"
  pi_epoch :: "string option"

record kernel_info =
  ki_running :: string
  ki_headers_installed :: bool
  ki_compiler :: "string option"
  ki_secure_boot_enabled :: "bool option"

record module_info =
  mi_loaded :: bool
  mi_version :: "string option"
  mi_open_module :: "bool option"
  mi_signed :: "bool option"
  mi_devices :: "string list"
  mi_installed_version :: "string option"
  mi_installed_open_module :: "bool option"
  mi_installed_signed :: "bool option"

record runtime_info =
  ri_docker_installed :: bool
  ri_nvidia_container_runtime_installed :: bool
  ri_docker_gpus_usable :: "bool option"

record cuda_compatibility_info =
  cci_version :: string
  cci_package_name :: string
  cci_package_version :: "string option"
  cci_library_path :: string
  cci_library_present :: bool
  cci_library_probe :: command_result

record mig_compute_instance =
  mci_profile :: string
  mci_profile_id :: int

record mig_gpu_instance =
  mgi_gpu_uuid :: string
  mgi_profile :: string
  mgi_profile_id :: int
  mgi_placement_start :: int
  mgi_placement_size :: int
  mgi_compute_instances :: "mig_compute_instance list"

record package_policy_selector =
  pps_identifier :: string
  pps_name :: string
  pps_kind :: string
  pps_relation :: "string option"
  pps_version :: "string option"
  pps_repositories :: "string list"

record package_policy_info =
  ppi_backend :: "string option"
  ppi_observable :: bool
  ppi_selectors :: "package_policy_selector list"
  ppi_observation :: "command_result option"

record host_audit =
  ha_timestamp :: string
  ha_os_id :: "string option"
  ha_os_version :: "string option"
  ha_package_manager :: "string option"
  ha_kernel :: kernel_info
  ha_module :: module_info
  ha_runtime :: runtime_info
  ha_packages :: "package_info list"
  ha_nvidia_smi :: command_result
  ha_nvml :: command_result
  ha_fabric_manager_active :: "bool option"
  ha_mig_mode :: "string option"
  ha_cuda_compatibility :: "cuda_compatibility_info list"
  ha_package_inventory_complete :: bool
  ha_package_inventory_result :: "command_result option"
  ha_docker_service_active :: "bool option"
  ha_docker_service_enabled :: "bool option"
  ha_docker_service_unit_file_state :: "string option"
  ha_docker_socket_active :: "bool option"
  ha_docker_socket_enabled :: "bool option"
  ha_docker_socket_unit_file_state :: "string option"
  ha_nvidia_persistenced_active :: "bool option"
  ha_nvidia_persistenced_enabled :: "bool option"
  ha_nvidia_persistenced_unit_file_state :: "string option"
  ha_fabric_manager_enabled :: "bool option"
  ha_fabric_manager_unit_file_state :: "string option"
  ha_fabric_manager_version :: "string option"
  ha_package_policy :: package_policy_info
  ha_open_kernel_module_supported :: "bool option"
  ha_mig_capable :: "bool option"
  ha_mig_mode_pending :: "string option"
  ha_fabric_manager_applicable :: "bool option"
  ha_fabric_manager_healthy :: "bool option"
  ha_fabric_manager_health_result :: "command_result option"
  ha_gpu_uuids :: "string list"
  ha_mig_geometry :: "mig_gpu_instance list"
  ha_mig_device_uuids :: "string list"
  ha_mig_geometry_complete :: bool
  ha_mig_geometry_results :: "command_result list"

record plan_action =
  pa_id :: string
  pa_description :: string
  pa_commands :: "string list list"
  pa_destructive :: bool
  pa_reason :: "string option"

record verification =
  vf_name :: string
  vf_ok :: bool
  vf_command :: "command_result option"
  vf_detail :: "string option"

record file_snapshot =
  fs_path :: string
  fs_existed :: bool
  fs_content_base64 :: "string option"
  fs_mode :: "int option"

record package_payload =
  pp_name :: string
  pp_architecture :: string
  pp_epoch :: "string option"
  pp_version :: string
  pp_format :: string
  pp_filename :: string
  pp_sha256 :: string
  pp_size_bytes :: int
  pp_verification :: string
  pp_roles :: "string list"
  pp_signer_ids :: "string list"

record package_payload_bundle =
  ppb_directory :: string
  ppb_packages :: "package_payload list"
  ppb_total_size_bytes :: int

text \<open>
  A loaded snapshot also has the attribute \<open>_source_binding\<close>, set by the loader on the object: the
  file it was read from.  It is no field of the dataclass, so it takes no part in its equality.
\<close>

record source_binding =
  sb_path :: string
  sb_content_sha256 :: string
  sb_file_metadata :: "int list"
  sb_parent_metadata :: "int list"

record rollback_snapshot =
  rs_path :: "string option"
  rs_packages :: "package_info list"
  rs_kernel :: string
  rs_module_version :: "string option"
  rs_commands :: "string list list"
  rs_schema_version :: string
  rs_created_at :: string
  rs_operation_id :: string
  rs_host_id :: string
  rs_os_id :: "string option"
  rs_os_version :: "string option"
  rs_architecture :: string
  rs_package_manager :: "string option"
  rs_introduced_packages :: "string list"
  rs_module_loaded :: bool
  rs_module_names :: "string list"
  rs_module_open_module :: "bool option"
  rs_module_signed :: "bool option"
  rs_module_installed_version :: "string option"
  rs_module_installed_open_module :: "bool option"
  rs_module_installed_signed :: "bool option"
  rs_mig_mode :: "string option"
  rs_docker_service_active :: "bool option"
  rs_docker_service_enabled :: "bool option"
  rs_docker_service_unit_file_state :: "string option"
  rs_docker_socket_active :: "bool option"
  rs_docker_socket_enabled :: "bool option"
  rs_docker_socket_unit_file_state :: "string option"
  rs_nvidia_persistenced_active :: "bool option"
  rs_nvidia_persistenced_enabled :: "bool option"
  rs_nvidia_persistenced_unit_file_state :: "string option"
  rs_fabric_manager_active :: "bool option"
  rs_fabric_manager_enabled :: "bool option"
  rs_fabric_manager_unit_file_state :: "string option"
  rs_managed_files :: "file_snapshot list"
  rs_package_payloads :: "package_payload_bundle option"
  rs_gpu_uuids :: "string list"
  rs_mig_geometry :: "mig_gpu_instance list"
  rs_integrity_sha256 :: "string option"
  rs_source_binding :: "source_binding option"

record report =
  rp_schema_version :: string
  rp_generated_at :: string
  rp_desired :: desired_state
  rp_audit :: "host_audit option"
  rp_findings :: "finding list"
  rp_plan :: "plan_action list"
  rp_command_results :: "command_result list"
  rp_verification :: "verification list"
  rp_rollback :: "rollback_snapshot option"
  rp_sbom :: "package_info list"
  rp_command :: "string option"
  rp_mode :: string
  rp_tool_version :: string
  rp_operation_id :: string
  rp_host_id :: "string option"
  rp_started_at :: "string option"
  rp_completed_at :: "string option"
  rp_duration_seconds :: "string option"
  rp_outcome :: string
  rp_exit_code :: "int option"
  rp_reboot_required :: "bool option"
  rp_incomplete :: bool
  rp_report_path :: "string option"
text \<open>Constructor calls that leave the other fields at their defaults.\<close>

definition command_result_of :: "string list \<Rightarrow> int option \<Rightarrow> string \<Rightarrow> command_result" where
  "command_result_of command returncode stderr =
     \<lparr>cr_command = command, cr_returncode = returncode, cr_stdout = '''', cr_stderr = stderr,
      cr_skipped = False, cr_reason = None\<rparr>"

lemma command_result_of_sel [simp]:
  "cr_command (command_result_of c r e) = c"
  "cr_returncode (command_result_of c r e) = r"
  "cr_stdout (command_result_of c r e) = ''''"
  "cr_stderr (command_result_of c r e) = e"
  "cr_skipped (command_result_of c r e) = False"
  "cr_reason (command_result_of c r e) = None"
  by (simp_all add: command_result_of_def)

definition skipped_result :: "string list \<Rightarrow> int option \<Rightarrow> string \<Rightarrow> command_result" where
  "skipped_result command returncode reason =
     \<lparr>cr_command = command, cr_returncode = returncode, cr_stdout = '''', cr_stderr = '''',
      cr_skipped = True, cr_reason = Some reason\<rparr>"

lemma skipped_result_sel [simp]:
  "cr_command (skipped_result c r e) = c"
  "cr_returncode (skipped_result c r e) = r"
  "cr_stdout (skipped_result c r e) = ''''"
  "cr_stderr (skipped_result c r e) = ''''"
  "cr_skipped (skipped_result c r e) = True"
  "cr_reason (skipped_result c r e) = Some e"
  by (simp_all add: skipped_result_def)

text \<open>
  The code treats a command as failed when its return code is neither 0 nor absent
  (\<open>result.returncode not in (0, None)\<close>).
\<close>

definition failed :: "command_result \<Rightarrow> bool" where
  "failed r \<longleftrightarrow> cr_returncode r \<notin> {Some 0, None}"

definition default_desired :: desired_state where
  "default_desired =
     \<lparr>ds_role = ''compute'',
      ds_driver = ''580-open'',
      ds_cuda_compat = ''none'',
      ds_secure_boot = ''signed'',
      ds_container_runtime = ''docker'',
      ds_container_test_image =
        ''nvidia/cuda:13.1.2-devel-ubuntu22.04@sha256:d8332c008e2ef270e82d286e5245e771f839645683075bba21ad9e4fa59dbcbb'',
      ds_fabric_manager = False,
      ds_mig = ''disabled'',
      ds_mig_profile = ''none'',
      ds_kernel_policy = ''pin-compatible''\<rparr>"

section \<open>Derived values of the desired state\<close>

text \<open>\<open>DesiredState.driver_major\<close>: the leading digits, else the part before the first dash.\<close>

definition driver_major :: "desired_state \<Rightarrow> string" where
  "driver_major d =
     (let ds = takeWhile is_digit (ds_driver d)
      in if ds \<noteq> [] then ds else head_before CHR ''-'' (ds_driver d))"

definition open_kernel_module :: "desired_state \<Rightarrow> bool" where
  "open_kernel_module d \<longleftrightarrow> endswith (ds_driver d) ''-open''"

definition exact_driver_version :: "desired_state \<Rightarrow> bool" where
  "exact_driver_version d \<longleftrightarrow> CHR ''.'' \<in> set (ds_driver d)"

definition driver_match_label :: "desired_state \<Rightarrow> string" where
  "driver_match_label d =
     (if exact_driver_version d then ''version '' @ ds_driver d
      else ''branch '' @ driver_major d)"

text \<open>
  \<open>re.match(r"^(\d+)(?:\.|$)", version)\<close>: the digits must be followed by a dot, by the end, or
  by a final line feed.
\<close>

definition version_branch :: "string \<Rightarrow> string option" where
  "version_branch v =
     (let ds = takeWhile is_digit v; rest = dropWhile is_digit v
      in if ds \<noteq> [] \<and> (rest = [] \<or> hd rest = CHR ''.'' \<or> map cp rest = [10])
         then Some ds else None)"

definition matches_driver_version :: "desired_state \<Rightarrow> string option \<Rightarrow> bool" where
  "matches_driver_version d version =
     (case version of
        None \<Rightarrow> False
      | Some v \<Rightarrow>
          if v = [] then False
          else if exact_driver_version d then v = ds_driver d
          else version_branch v = Some (driver_major d))"

lemma matches_driver_version_None [simp]: "\<not> matches_driver_version d None"
  by (simp add: matches_driver_version_def)

lemma default_desired_facts [simp]:
  "driver_major default_desired = ''580''"
  "open_kernel_module default_desired"
  "\<not> exact_driver_version default_desired"
  by (simp_all add: driver_major_def default_desired_def open_kernel_module_def
        exact_driver_version_def endswith_def startswith_def is_digit_def cp_def)

end
