(* ===== verification/Runner.thy ===== *)
theory Runner
  imports Models "HOL-Library.State_Monad"
begin

text \<open>
  The command runner (\<open>nvidia_converge/runner.py\<close>): the trusted path lookup, the environment of
  a child process, the bounded capture of its output, and \<open>CommandRunner.run\<close> with its private
  variant and its journaled private phase.

  The operating system is the record \<open>runner\<close>: beside the constructor's arguments it holds the
  look-ups of directories and executables and the execution of a process, each a function of the
  world \<open>'w\<close>.  A session is the world, what the two callbacks were told, the runner's own list of
  results and its private scope.  Operations are actions of the state monad on the session, and
  on every record that extends it.  Threads, signals and the wait for a process group are inside
  the execution, which reports how the process ended and what it wrote.
\<close>

section \<open>The session\<close>

datatype runner_event = Started "string list" bool | Finished command_result bool

record 'w session =
  se_world :: 'w
  se_events :: "runner_event list"
  se_results :: "command_result list"
  se_scope :: "string list option"
  se_journaled :: bool

type_synonym ('w, 'z, 'a) action = "(('w, 'z) session_scheme, 'a) state"

abbreviation give :: "'a \<Rightarrow> ('s, 'a) state" where
  "give \<equiv> State_Monad.return"

definition on_world :: "('w \<Rightarrow> 'a \<times> 'w) \<Rightarrow> ('w, 'z, 'a) action" where
  "on_world f = State (\<lambda>s. case f (se_world s) of (a, w) \<Rightarrow> (a, s\<lparr>se_world := w\<rparr>))"

definition asks :: "('s \<Rightarrow> 'a) \<Rightarrow> ('s, 'a) state" where
  "asks f = State (\<lambda>s. (f s, s))"

definition tells :: "('s \<Rightarrow> 's) \<Rightarrow> ('s, unit) state" where
  "tells f = State (\<lambda>s. ((), f s))"

lemma run_state_action [simp]:
  "run_state (on_world f) s = (case f (se_world s) of (a, w) \<Rightarrow> (a, s\<lparr>se_world := w\<rparr>))"
  "run_state (asks g) s' = (g s', s')"
  "run_state (tells h) s' = ((), h s')"
  by (simp_all add: on_world_def asks_def tells_def)

section \<open>The runner and its operating system\<close>

record process_request =
  pr_command :: "string list"
  pr_executable :: string
  pr_environment :: "(string \<times> string) list"
  pr_input :: "string option"
  pr_timeout :: int

text \<open>
  How a process ended, with the chunks read from its two streams: the spawn failed, the timeout
  expired, descendants outlived it, or it returned.
\<close>

datatype process_outcome =
    SpawnFailed string
  | TimedOut "string list" "string list"
  | LeftDescendants "string list" "string list"
  | Exited int "string list" "string list"

record 'w runner =
  ru_apply :: bool
  ru_timeout :: int
  ru_mutation_timeout :: int
  ru_executable_path :: string
  ru_environ :: "(string \<times> string) list"
  ru_home :: "string option"
  ru_trusted_directory :: "string \<Rightarrow> 'w \<Rightarrow> string option"
  ru_which :: "string \<Rightarrow> 'w \<Rightarrow> string option"
  ru_trusted_executable :: "string \<Rightarrow> 'w \<Rightarrow> string option"
  ru_decode :: "string \<Rightarrow> string"
  ru_execute :: "process_request \<Rightarrow> 'w \<Rightarrow> process_outcome \<times> 'w"

section \<open>Trusted executables\<close>

text \<open>
  \<open>ru_trusted_directory\<close> and \<open>ru_trusted_executable\<close> stand for \<open>_trusted_directory\<close> and
  \<open>_trusted_executable\<close>, which authenticate the owner and mode of every component and return the
  resolved path, or nothing when they raise.  Of a path, the parent is what comes before its last
  slash.
\<close>

definition path_parent :: "string \<Rightarrow> string" where
  "path_parent p = (case rpartition_at CHR ''/'' p of
     (parent, True, _) \<Rightarrow> (if parent = [] then ''/'' else parent) | (_, False, _) \<Rightarrow> ''.'')"

definition trusted_executable_directories :: "('w, 'r) runner_scheme \<Rightarrow> 'w \<Rightarrow> string list option" where
  "trusted_executable_directories R w =
     (let components = split_on CHR '':'' (ru_executable_path R)
      in if [] \<in> set components then None
         else those (map (\<lambda>c. ru_trusted_directory R c w) components))"

definition executable_candidate :: "('w, 'r) runner_scheme \<Rightarrow> string \<Rightarrow> 'w \<Rightarrow> string option" where
  "executable_candidate R name w =
     (if startswith name ''/'' then Some name
      else if CHR ''/'' \<in> set name then None else ru_which R name w)"

definition resolve_executable :: "('w, 'r) runner_scheme \<Rightarrow> string \<Rightarrow> 'w \<Rightarrow> string option" where
  "resolve_executable R name w =
     (case trusted_executable_directories R w of
        None \<Rightarrow> None
      | Some directories \<Rightarrow>
          if name = [] \<or> CHR 0x00 \<in> set name then None
          else
     (case executable_candidate R name w of
        None \<Rightarrow> None
      | Some candidate \<Rightarrow>
     (case ru_trusted_directory R (path_parent candidate) w of
        None \<Rightarrow> None
      | Some parent \<Rightarrow>
          if parent \<notin> set directories then None
          else
     (case ru_trusted_executable R candidate w of
        None \<Rightarrow> None
      | Some executable \<Rightarrow>
          if path_parent executable \<notin> set directories then None else Some executable))))"

section \<open>The environment of a child\<close>

definition passthrough_environment :: "string list" where
  "passthrough_environment =
     [''HTTP_PROXY'', ''HTTPS_PROXY'', ''NO_PROXY'', ''http_proxy'', ''https_proxy'', ''no_proxy'']"

definition child_environment :: "('w, 'r) runner_scheme \<Rightarrow> bool \<Rightarrow> (string \<times> string) list" where
  "child_environment R mutate =
     filter (\<lambda>(name, _). name \<in> set passthrough_environment) (ru_environ R)
     @ [(''HOME'', case ru_home R of Some h \<Rightarrow> h | None \<Rightarrow> ''/''), (''LANG'', ''C''), (''LC_ALL'', ''C''),
        (''PATH'', ru_executable_path R)]
     @ (if mutate then [(''DEBIAN_FRONTEND'', ''noninteractive''), (''NEEDRESTART_MODE'', ''l'')] else [])"

section \<open>Bounded capture\<close>

definition max_capture_bytes :: int where "max_capture_bytes = 1048576"

record bounded_capture =
  bc_limit :: int
  bc_data :: string
  bc_total :: int

definition capture_add :: "bounded_capture \<Rightarrow> string \<Rightarrow> bounded_capture" where
  "capture_add c chunk =
     (let remaining = bc_limit c - int (length (bc_data c))
      in c\<lparr>bc_total := bc_total c + int (length chunk),
          bc_data := (if 0 < remaining then bc_data c @ take (nat remaining) chunk else bc_data c)\<rparr>)"

text \<open>For evaluation: a chunk that fits is not cut.\<close>

lemma capture_add_code [code]:
  "capture_add c chunk =
     (let remaining = bc_limit c - int (length (bc_data c))
      in c\<lparr>bc_total := bc_total c + int (length chunk),
          bc_data := (if int (length chunk) \<le> remaining then bc_data c @ chunk
            else if 0 < remaining then bc_data c @ take (nat remaining) chunk else bc_data c)\<rparr>)"
  by (cases c; cases chunk) (auto simp: capture_add_def Let_def)

definition capture_text :: "(string \<Rightarrow> string) \<Rightarrow> bounded_capture \<Rightarrow> string" where
  "capture_text decode c =
     (let text = strip (decode (bc_data c))
      in if bc_limit c < bc_total c then
           strip (text @ [CHR 0x0A] @ ''[output truncated: retained first '' @ int_str (bc_limit c)
             @ '' of '' @ int_str (bc_total c) @ '' bytes]'')
         else text)"

definition capture :: "('w, 'r) runner_scheme \<Rightarrow> string list \<Rightarrow> string" where
  "capture R chunks = capture_text (ru_decode R)
     (foldl capture_add \<lparr>bc_limit = max_capture_bytes, bc_data = [], bc_total = 0\<rparr> chunks)"

section \<open>Running a command\<close>

datatype runner_error =
    CommandEmpty
  | CommandFailed "string list" string
  | PrivateScopeRequired
  | ScopeUnsupported
  | ScopeActive

definition record_external_start :: "string list \<Rightarrow> bool \<Rightarrow> ('w, 'z, unit) action" where
  "record_external_start command mutate = tells (\<lambda>s.
     if se_journaled s then s\<lparr>se_events := se_events s @ [Started command mutate]\<rparr> else s)"

definition record_external_result :: "command_result \<Rightarrow> bool \<Rightarrow> ('w, 'z, unit) action" where
  "record_external_result result mutate = tells (\<lambda>s.
     let s' = s\<lparr>se_results := se_results s @ [result]\<rparr>
     in if se_journaled s then s'\<lparr>se_events := se_events s' @ [Finished result mutate]\<rparr> else s')"

definition package_programs :: "string list" where
  "package_programs = [''apt-get'', ''dpkg'', ''dnf'', ''yum'', ''rpm'', ''zypper'']"

definition timeout_detail :: "string \<Rightarrow> int \<Rightarrow> string" where
  "timeout_detail program timeout =
     ''command process group timed out after '' @ int_str timeout @ '' seconds and was terminated''
     @ (if program \<in> set package_programs then ''; package database recovery may be required'' else [])"

definition outcome_result ::
  "('w, 'r) runner_scheme \<Rightarrow> string list \<Rightarrow> string \<Rightarrow> int \<Rightarrow> process_outcome \<Rightarrow> command_result" where
  "outcome_result R command program timeout outcome =
     (case outcome of
        SpawnFailed e \<Rightarrow> command_result_of command (Some 127) e
      | TimedOut out err \<Rightarrow>
          \<lparr>cr_command = command, cr_returncode = Some 124, cr_stdout = capture R out,
           cr_stderr = strip (capture R err @ [CHR 0x0A] @ timeout_detail program timeout),
           cr_skipped = False, cr_reason = Some ''timeout-process-group-terminated''\<rparr>
      | LeftDescendants out err \<Rightarrow>
          \<lparr>cr_command = command, cr_returncode = Some 125, cr_stdout = capture R out,
           cr_stderr = strip (capture R err @ [CHR 0x0A]
             @ ''command left descendant processes; process group was terminated''),
           cr_skipped = False, cr_reason = Some ''lingering-process-group-terminated''\<rparr>
      | Exited code out err \<Rightarrow>
          \<lparr>cr_command = command, cr_returncode = Some code, cr_stdout = capture R out,
           cr_stderr = capture R err, cr_skipped = False, cr_reason = None\<rparr>)"

text \<open>
  The body of \<open>run\<close> for a command with a program name, up to the exception for a failed command
  that may not fail; \<open>timeout\<close> is the one the code has chosen.
\<close>

definition run_program ::
  "('w, 'r) runner_scheme \<Rightarrow> int \<Rightarrow> bool \<Rightarrow> string option \<Rightarrow> string \<Rightarrow> string list \<Rightarrow> ('w, 'z, command_result) action" where
  "run_program R timeout mutate input program args = do {
     record_external_start (program # args) mutate;
     result \<leftarrow>
       (if mutate \<and> \<not> ru_apply R then give (skipped_result (program # args) None ''dry-run'')
        else do {
          executable \<leftarrow> asks (\<lambda>s. resolve_executable R program (se_world s));
          (case executable of
             None \<Rightarrow> give (command_result_of (program # args) (Some 127)
               (''trusted executable not found: '' @ program))
           | Some path \<Rightarrow> do {
               outcome \<leftarrow> on_world (ru_execute R
                 \<lparr>pr_command = program # args, pr_executable = path,
                  pr_environment = child_environment R mutate, pr_input = input, pr_timeout = timeout\<rparr>);
               give (outcome_result R (program # args) program timeout outcome)
             })
        });
     record_external_result result mutate;
     give result
   }"

definition run_timeout :: "('w, 'r) runner_scheme \<Rightarrow> bool \<Rightarrow> int" where
  "run_timeout R mutate = (if mutate then ru_mutation_timeout R else ru_timeout R)"

text \<open>An empty command fails at \<open>command[0]\<close>, after the start was recorded; a dry run never gets there.\<close>

definition run_within ::
  "('w, 'r) runner_scheme \<Rightarrow> int \<Rightarrow> bool \<Rightarrow> bool \<Rightarrow> string option \<Rightarrow> string list
   \<Rightarrow> ('w, 'z, runner_error + command_result) action" where
  "run_within R timeout mutate allow_fail input command =
     (case command of
        [] \<Rightarrow> do {
          record_external_start [] mutate;
          (if mutate \<and> \<not> ru_apply R then do {
             record_external_result (skipped_result [] None ''dry-run'') mutate;
             give (Inr (skipped_result [] None ''dry-run''))
           } else give (Inl CommandEmpty))
        }
      | program # args \<Rightarrow> do {
          result \<leftarrow> run_program R timeout mutate input program args;
          give (if \<not> allow_fail \<and> failed result
                then Inl (CommandFailed command (cr_stderr result)) else Inr result)
        })"

definition run_command ::
  "('w, 'r) runner_scheme \<Rightarrow> bool \<Rightarrow> bool \<Rightarrow> string option \<Rightarrow> string list
   \<Rightarrow> ('w, 'z, runner_error + command_result) action" where
  "run_command R mutate allow_fail input command =
     run_within R (run_timeout R mutate) mutate allow_fail input command"

text \<open>\<open>run(command, mutate=\<dots>, allow_fail=True)\<close> on a command whose program is written out.\<close>

definition run_known ::
  "('w, 'r) runner_scheme \<Rightarrow> bool \<Rightarrow> string \<Rightarrow> string list \<Rightarrow> ('w, 'z, command_result) action" where
  "run_known R mutate program args = run_program R (run_timeout R mutate) mutate None program args"

definition exists_executable :: "('w, 'r) runner_scheme \<Rightarrow> string \<Rightarrow> ('w, 'z, bool) action" where
  "exists_executable R name = asks (\<lambda>s. resolve_executable R name (se_world s) \<noteq> None)"

section \<open>Private state\<close>

definition private_scope :: "string list" where
  "private_scope = [''stage-package-payloads'']"

definition run_private_state ::
  "('w, 'r) runner_scheme \<Rightarrow> bool \<Rightarrow> string option \<Rightarrow> string list \<Rightarrow> ('w, 'z, runner_error + command_result) action" where
  "run_private_state R allow_fail input command = do {
     scope \<leftarrow> asks se_scope;
     (if scope \<noteq> Some private_scope then give (Inl PrivateScopeRequired)
      else do {
        journaled \<leftarrow> asks se_journaled;
        tells (\<lambda>s. s\<lparr>se_journaled := False\<rparr>);
        result \<leftarrow> run_within R (ru_mutation_timeout R) False allow_fail input command;
        tells (\<lambda>s. s\<lparr>se_journaled := journaled\<rparr>);
        give result
      })
   }"

text \<open>\<open>with runner.private_state_scope(command): body\<close>; an error of the body is a text.\<close>

definition private_state_scope ::
  "string list \<Rightarrow> ('w, 'z, string + 'a) action \<Rightarrow> ('w, 'z, runner_error + string + 'a) action" where
  "private_state_scope command body =
     (if command \<noteq> private_scope then give (Inl ScopeUnsupported)
      else do {
        scope \<leftarrow> asks se_scope;
        (if scope \<noteq> None then give (Inl ScopeActive)
         else do {
           record_external_start command True;
           tells (\<lambda>s. s\<lparr>se_scope := Some command\<rparr>);
           outcome \<leftarrow> body;
           record_external_result
             (case outcome of Inl e \<Rightarrow> command_result_of command (Some 1) e
              | Inr _ \<Rightarrow> command_result_of command (Some 0) []) True;
           tells (\<lambda>s. s\<lparr>se_scope := None\<rparr>);
           give (Inr outcome)
         })
      })"

end
