(* ===== verification/UnitTrust.thy ===== *)
theory UnitTrust
  imports Runner "HOL-Library.AList"
begin

text \<open>
  Trust in systemd units (\<open>nvidia_converge/gpu_safety.py\<close>): the properties \<open>systemctl show\<close>
  prints are parsed strictly, every file a unit names is authenticated, and an active service is
  bound to its process by executable, control group and start time.  Each check ends with a result
  of its own, which fails exactly when the check reports an error.

  Authenticating a file or a mask (\<open>_trusted_regular_file\<close>, \<open>_trusted_unit_mask_path\<close>) and reading
  \<open>/proc\<close> are operations of the world; the text of an error they raise is theirs.  \<open>MainPID\<close> and the
  fields of \<open>stat\<close> are taken as ASCII, for which \<open>str.isdigit\<close> and \<open>int\<close> agree.
\<close>

section \<open>Fallible actions\<close>

definition and_then ::
  "('s, 'e + 'a) state \<Rightarrow> ('a \<Rightarrow> ('s, 'e + 'b) state) \<Rightarrow> ('s, 'e + 'b) state" where
  "and_then m f = do { r \<leftarrow> m; (case r of Inl e \<Rightarrow> give (Inl e) | Inr a \<Rightarrow> f a) }"

definition ensure :: "bool \<Rightarrow> 'e \<Rightarrow> ('s, 'e + unit) state" where
  "ensure b e = give (if b then Inr () else Inl e)"

fun each_of :: "('a \<Rightarrow> ('s, 'e + unit) state) \<Rightarrow> 'a list \<Rightarrow> ('s, 'e + unit) state" where
  "each_of f [] = give (Inr ())"
| "each_of f (x # xs) = and_then (f x) (\<lambda>_. each_of f xs)"

section \<open>Pure POSIX paths\<close>

definition path_root :: "string \<Rightarrow> string" where
  "path_root p =
     (if startswith p ''///'' then ''/'' else if startswith p ''//'' then ''//''
      else if startswith p ''/'' then ''/'' else [])"

definition path_names :: "string \<Rightarrow> string list" where
  "path_names p = filter (\<lambda>c. c \<noteq> [] \<and> c \<noteq> ''.'') (split_on CHR ''/'' p)"

definition path_parts :: "string \<Rightarrow> string list" where
  "path_parts p = (if path_root p = [] then path_names p else path_root p # path_names p)"

definition path_text :: "string \<Rightarrow> string" where
  "path_text p =
     (if path_parts p = [] then ''.'' else path_root p @ join ''/'' (path_names p))"

definition path_is_absolute :: "string \<Rightarrow> bool" where
  "path_is_absolute p \<longleftrightarrow> path_root p \<noteq> []"

section \<open>What systemd prints\<close>

definition inert_properties :: "string list" where
  "inert_properties = [''Id'', ''LoadState'', ''ActiveState'', ''SubState'', ''MainPID'', ''FragmentPath'']"

definition remapping_properties :: "string list" where
  "remapping_properties =
     [''RootDirectory'', ''RootImage'', ''BindPaths'', ''BindReadOnlyPaths'', ''TemporaryFileSystem'',
      ''MountImages'', ''ExtensionImages'']"

definition service_properties :: "string list" where
  "service_properties =
     [''Id'', ''LoadState'', ''ActiveState'', ''SubState'', ''MainPID'', ''FragmentPath'', ''DropInPaths'',
      ''ExecCondition'', ''ExecStartPre'', ''ExecStart'', ''ExecStartPost'', ''ExecStop'', ''ExecStopPost'',
      ''Environment'', ''EnvironmentFiles''] @ remapping_properties"

definition docker_socket_properties :: "string list" where
  "docker_socket_properties =
     [''Id'', ''LoadState'', ''ActiveState'', ''SubState'', ''FragmentPath'', ''DropInPaths'', ''Triggers'',
      ''ExecStartPre'', ''ExecStartPost'', ''ExecStopPre'', ''ExecStopPost'',
      ''Environment'', ''EnvironmentFiles''] @ remapping_properties"

type_synonym properties = "(string \<times> string) list"

fun parse_property_lines :: "string list \<Rightarrow> properties \<Rightarrow> string list \<Rightarrow> properties option" where
  "parse_property_lines known props [] = Some props"
| "parse_property_lines known props (line # lines) =
     (if line = [] then parse_property_lines known props lines
      else case partition_at CHR ''='' line of
        (key, separator, value) \<Rightarrow>
          if \<not> separator \<or> key \<notin> set known \<or> key \<in> set (keys props) \<or> CHR 0x00 \<in> set value then None
          else parse_property_lines known (props @ [(key, value)]) lines)"

definition parse_properties :: "string list \<Rightarrow> string \<Rightarrow> properties option" where
  "parse_properties known text =
     (case parse_property_lines known [] (splitlines text) of
        None \<Rightarrow> None
      | Some props \<Rightarrow> if set (keys props) = set known then Some props else None)"

definition parse_service_properties :: "string \<Rightarrow> properties option" where
  "parse_service_properties = parse_properties service_properties"

definition parse_docker_socket_properties :: "string \<Rightarrow> properties option" where
  "parse_docker_socket_properties = parse_properties docker_socket_properties"

text \<open>\<open>properties[name]\<close>, of a name the parser has found\<close>

definition pval :: "properties \<Rightarrow> string \<Rightarrow> string" where
  "pval props name = (case map_of props name of Some v \<Rightarrow> v | None \<Rightarrow> [])"

definition parse_systemd_path_list :: "string \<Rightarrow> string list option" where
  "parse_systemd_path_list text =
     (if text = [] then Some []
      else if list_ex (\<lambda>c. py_isspace c \<and> c \<noteq> CHR '' '') text then None
      else if list_ex (\<lambda>t. t = [] \<or> CHR 0x5C \<in> set t) (split_on CHR '' '' text) then None
      else
       (let paths = map path_text (split_on CHR '' '' text)
        in if list_all path_is_absolute paths \<and> distinct paths then Some paths else None))"

text \<open>
  A group is what stands between an opening brace and the next brace, which closes it; of its
  semicolon-separated fields exactly one is \<open>path=\<close> with a word, white space around both.
\<close>

definition path_field :: "string \<Rightarrow> string option" where
  "path_field field =
     (let body = lstrip field; word = takeWhile (\<lambda>c. \<not> py_isspace c) (drop 5 body)
      in if startswith body ''path='' \<and> word \<noteq> []
            \<and> list_all py_isspace (drop (length word) (drop 5 body))
         then Some word else None)"

definition exec_group_path :: "string \<Rightarrow> string option" where
  "exec_group_path flds =
     (case List.map_filter path_field (split_on CHR '';'' flds) of
        [path] \<Rightarrow>
          if CHR 0x5C \<in> set path \<or> CHR 0x00 \<in> set path \<or> \<not> path_is_absolute path then None
          else Some (path_text path)
      | _ \<Rightarrow> None)"

function parse_exec_groups :: "string list \<Rightarrow> string \<Rightarrow> string list option" where
  "parse_exec_groups paths text =
     (case lstrip text of
        [] \<Rightarrow> Some paths
      | c # rest \<Rightarrow>
          (let flds = takeWhile (\<lambda>d. d \<noteq> CHR ''{'' \<and> d \<noteq> CHR ''}'') rest;
               after = drop (length flds) rest
           in if c \<noteq> CHR ''{'' then None
              else if take 1 after \<noteq> ''}'' then None
              else case exec_group_path flds of
                None \<Rightarrow> None
              | Some path \<Rightarrow> parse_exec_groups (paths @ [path]) (drop 1 after)))"
  by pat_completeness auto

termination
proof (relation "measure (\<lambda>(paths, text). length text)")
  fix paths t c rest flds after path
  assume "lstrip t = c # rest" and "after = drop (length flds) rest"
  then have "length (drop 1 after) < length (lstrip t)" by simp
  also have "\<dots> \<le> length t" by (simp add: lstrip_def length_dropWhile_le)
  finally show "((paths @ [path], drop 1 after), (paths, t)) \<in> measure (\<lambda>(paths, text). length text)"
    by simp
qed simp

definition parse_systemd_exec_paths :: "string \<Rightarrow> string list option" where
  "parse_systemd_exec_paths text =
     (if text = [] then Some []
      else case parse_exec_groups [] text of
        Some (p # ps) \<Rightarrow> Some (p # ps)
      | _ \<Rightarrow> None)"

text \<open>\<open>/path (ignore_errors=yes)\<close> or \<open>no\<close>, separated by single spaces\<close>

definition environment_path_char :: "char \<Rightarrow> bool" where
  "environment_path_char c \<longleftrightarrow>
     \<not> py_isspace c \<and> c \<notin> {CHR 0x5C, CHR ''('', CHR '')'', CHR 0x00}"

definition environment_file :: "string \<Rightarrow> (string \<times> string) option" where
  "environment_file text =
     (let name = takeWhile environment_path_char (drop 1 text);
          after = drop (length name) (drop 1 text)
      in if take 1 text \<noteq> ''/'' \<or> name = [] then None
         else if startswith after '' (ignore_errors=yes)'' then Some (CHR ''/'' # name, drop 20 after)
         else if startswith after '' (ignore_errors=no)'' then Some (CHR ''/'' # name, drop 19 after)
         else None)"

lemma environment_file_shorter:
  "environment_file t = Some (name, rest) \<Longrightarrow> length rest < length t"
  by (cases t) (auto simp: environment_file_def Let_def split: if_splits)

function parse_environment_files :: "string list \<Rightarrow> string \<Rightarrow> string list option" where
  "parse_environment_files paths text =
     (if text = [] then Some paths
      else case environment_file (if take 1 text = '' '' then drop 1 text else text) of
        None \<Rightarrow> None
      | Some (name, rest) \<Rightarrow>
          if path_text name \<in> set paths then None
          else parse_environment_files (paths @ [path_text name]) rest)"
  by pat_completeness auto

termination
  by (relation "measure (\<lambda>(paths, text). length text)")
     (auto dest!: environment_file_shorter split: if_splits)

definition parse_systemd_environment_files :: "string \<Rightarrow> string list option" where
  "parse_systemd_environment_files text =
     (if text = [] then Some []
      else if list_ex (\<lambda>c. py_isspace c \<and> c \<noteq> CHR '' '') text then None
      else parse_environment_files [] text)"

end
