(* ===== verification/UnitSafety.thy ===== *)
theory UnitSafety
  imports UnitTrust
begin

text \<open>
  The checks of \<open>nvidia_converge/gpu_safety.py\<close> that authenticate a launcher before it is changed:
  the Docker socket, the three trusted services and their process identities.
\<close>

section \<open>Identities and the operating system\<close>

record file_metadata =
  fm_device :: int
  fm_inode :: int
  fm_mode :: int
  fm_owner_uid :: int
  fm_size :: int
  fm_modified_ns :: int
  fm_changed_ns :: int

record trusted_unit_file_identity =
  ui_path :: string
  ui_executable :: bool
  ui_metadata :: file_metadata

record docker_socket_identity =
  di_active :: bool
  di_effective_properties :: properties
  di_files :: "trusted_unit_file_identity list"

record gpu_service_identity =
  gi_unit :: string
  gi_main_pid :: nat
  gi_process_start_time_ticks :: nat
  gi_executable_device :: int
  gi_executable_inode :: int
  gi_cgroup_path :: string

record trusted_service_spec =
  ts_unit :: string
  ts_executable :: string

record 'w unit_host = "'w runner" +
  uh_trusted_file :: "string \<Rightarrow> bool \<Rightarrow> 'w \<Rightarrow> (string + file_metadata) \<times> 'w"
  uh_mask_path :: "string \<Rightarrow> string \<Rightarrow> 'w \<Rightarrow> (string + unit) \<times> 'w"
  uh_process_stat :: "nat \<Rightarrow> 'w \<Rightarrow> (string + string) \<times> 'w"
  uh_process_executable :: "nat \<Rightarrow> 'w \<Rightarrow> (string + int \<times> int) \<times> 'w"
  uh_process_cgroup :: "nat \<Rightarrow> 'w \<Rightarrow> (string + string) \<times> 'w"

definition docker_socket_unit :: string where "docker_socket_unit = ''docker.socket''"

definition trusted_gpu_services :: "trusted_service_spec list" where
  "trusted_gpu_services =
     [\<lparr>ts_unit = ''nvidia-fabricmanager.service'', ts_executable = ''/usr/bin/nv-fabricmanager''\<rparr>,
      \<lparr>ts_unit = ''nvidia-persistenced.service'', ts_executable = ''/usr/bin/nvidia-persistenced''\<rparr>]"

definition docker_service_spec :: trusted_service_spec where
  "docker_service_spec = \<lparr>ts_unit = ''docker.service'', ts_executable = ''/usr/bin/dockerd''\<rparr>"

definition trusted_service_by_unit :: "string \<Rightarrow> trusted_service_spec option" where
  "trusted_service_by_unit u =
     find (\<lambda>s. ts_unit s = u) (trusted_gpu_services @ [docker_service_spec])"

definition command_error :: "string \<Rightarrow> command_result \<Rightarrow> string" where
  "command_error summary r =
     (let detail = (if strip (cr_stderr r) \<noteq> [] then strip (cr_stderr r) else strip (cr_stdout r));
          text = summary @ '' (exit ''
            @ (case cr_returncode r of None \<Rightarrow> ''None'' | Some code \<Rightarrow> int_str code) @ '')''
      in if detail \<noteq> [] then text @ '': '' @ detail else text)"

section \<open>The verdict of a check\<close>

text \<open>
  Every check records the start of its own pseudo command, then a result that fails when there is
  an error, and appends that result to those of the commands it ran.
\<close>

definition verdict_result :: "string list \<Rightarrow> string \<Rightarrow> string option \<Rightarrow> command_result" where
  "verdict_result command stdout error =
     \<lparr>cr_command = command, cr_returncode = Some (if error = None then 0 else 1), cr_stdout = stdout,
      cr_stderr = (case error of None \<Rightarrow> [] | Some e \<Rightarrow> e), cr_skipped = False, cr_reason = None\<rparr>"

definition report_result :: "command_result \<Rightarrow> ('w, 'z, command_result) action" where
  "report_result r = do {
     record_external_start (cr_command r) False;
     record_external_result r False;
     give r
   }"

section \<open>The Docker socket\<close>

type_synonym bound_files = "((string \<times> bool) \<times> trusted_unit_file_identity) list"

definition bind_file ::
  "('w, 'r) unit_host_scheme \<Rightarrow> bool \<Rightarrow> string \<Rightarrow> bound_files \<Rightarrow> ('w, 'z, string + bound_files) action" where
  "bind_file H executable path files =
     and_then (on_world (uh_trusted_file H path executable)) (\<lambda>metadata.
       give (Inr (AList.update (path, executable)
         \<lparr>ui_path = path, ui_executable = executable, ui_metadata = metadata\<rparr> files)))"

fun bind_files ::
  "('w, 'r) unit_host_scheme \<Rightarrow> bool \<Rightarrow> string list \<Rightarrow> bound_files \<Rightarrow> ('w, 'z, string + bound_files) action" where
  "bind_files H executable [] files = give (Inr files)"
| "bind_files H executable (path # paths) files =
     and_then (bind_file H executable path files) (bind_files H executable paths)"

definition malformed :: "string \<Rightarrow> string" where
  "malformed name = ''systemd returned malformed '' @ name"

definition parsed_by :: "(string \<Rightarrow> 'a option) \<Rightarrow> properties \<Rightarrow> string \<Rightarrow> ('s, string + 'a) state" where
  "parsed_by parse props name =
     give (case parse (pval props name) of None \<Rightarrow> Inl (malformed name) | Some x \<Rightarrow> Inr x)"

definition no_remapping :: "properties \<Rightarrow> ('s, string + unit) state" where
  "no_remapping props = each_of (\<lambda>name. ensure (pval props name = [])
     (''effective '' @ name @ '' executable-root or mount remapping is unsupported'')) remapping_properties"

fun bind_hooks ::
  "('w, 'r) unit_host_scheme \<Rightarrow> properties \<Rightarrow> string list \<Rightarrow> bound_files \<Rightarrow> ('w, 'z, string + bound_files) action" where
  "bind_hooks H props [] files = give (Inr files)"
| "bind_hooks H props (name # names) files =
     and_then (parsed_by parse_systemd_exec_paths props name) (\<lambda>paths.
     and_then (bind_files H True paths files) (bind_hooks H props names))"

definition bind_docker_socket ::
  "('w, 'r) unit_host_scheme \<Rightarrow> properties \<Rightarrow> ('w, 'z, string + bound_files) action" where
  "bind_docker_socket H props =
     and_then (ensure (pval props ''FragmentPath'' \<noteq> []) ''effective FragmentPath is missing'') (\<lambda>_.
     and_then (bind_file H False (path_text (pval props ''FragmentPath'')) []) (\<lambda>files1.
     and_then (parsed_by parse_systemd_path_list props ''DropInPaths'') (\<lambda>drop_ins.
     and_then (bind_files H False drop_ins files1) (\<lambda>files2.
     and_then (ensure (pval props ''Triggers'' = ''docker.service'')
       ''effective Triggers does not resolve exactly to docker.service'') (\<lambda>_.
     and_then (ensure (pval props ''Environment'' = [])
       ''effective inline Environment entries are unsupported'') (\<lambda>_.
     and_then (parsed_by parse_systemd_environment_files props ''EnvironmentFiles'') (\<lambda>env_files.
     and_then (bind_files H False env_files files2) (\<lambda>files3.
     and_then (no_remapping props) (\<lambda>_.
       bind_hooks H props [''ExecStartPre'', ''ExecStartPost'', ''ExecStopPre'', ''ExecStopPost''] files3)))))))))"

definition validate_docker_socket_binding ::
  "('w, 'r) unit_host_scheme \<Rightarrow> properties \<Rightarrow> ('w, 'z, string + docker_socket_identity) action" where
  "validate_docker_socket_binding H props = do {
     r \<leftarrow> bind_docker_socket H props;
     give (case r of
       Inl e \<Rightarrow> Inl (''cannot trust docker.socket: '' @ e)
     | Inr files \<Rightarrow> Inr
         \<lparr>di_active = (pval props ''ActiveState'' = ''active''),
          di_effective_properties = sort_key fst props, di_files = map snd files\<rparr>)
   }"

definition unexpected_property :: "string list \<Rightarrow> properties \<Rightarrow> string option" where
  "unexpected_property known props =
     find (\<lambda>name. name \<notin> set inert_properties \<and> pval props name \<noteq> []) known"

definition validate_inert_docker_socket_state ::
  "('w, 'r) unit_host_scheme \<Rightarrow> bool \<Rightarrow> command_result \<Rightarrow> properties \<Rightarrow> ('w, 'z, string option) action" where
  "validate_inert_docker_socket_state H allow_masked result props =
     (let load_state = pval props ''LoadState''; fragment = pval props ''FragmentPath'';
          rest = give (map_option (\<lambda>name. ''docker.socket has unexpected effective '' @ name @ '' in ''
            @ load_state @ '' state'') (unexpected_property docker_socket_properties props))
      in if \<not> allow_masked then
           give (Some ''cannot trust docker.socket for this mutation: expected an exact loaded unit'')
         else if cr_returncode result \<notin> {Some 0, Some 1, Some 4} then
           give (Some (command_error ''could not observe docker.socket'' result))
         else if pval props ''ActiveState'' \<noteq> ''inactive'' \<or> pval props ''SubState'' \<noteq> ''dead'' then
           give (Some (''docker.socket has inconsistent '' @ load_state @ '' unit state''))
         else if load_state = ''not-found'' \<and> fragment \<noteq> [] then
           give (Some ''docker.socket has inconsistent not-found fragment state'')
         else if load_state = ''masked'' then
           (if fragment = [] then give (Some ''docker.socket has inconsistent masked fragment state'')
            else do {
              r \<leftarrow> on_world (uh_mask_path H (path_text fragment) docker_socket_unit);
              (case r of
                 Inl e \<Rightarrow> give (Some (''docker.socket has untrusted masked fragment state: '' @ e))
               | Inr _ \<Rightarrow> rest)
            })
         else rest)"

definition stable_socket_states :: "(string \<times> string) list" where
  "stable_socket_states =
     [(''active'', ''listening''), (''inactive'', ''dead''), (''failed'', ''failed'')]"

definition judge_docker_socket ::
  "('w, 'r) unit_host_scheme \<Rightarrow> bool \<Rightarrow> command_result
   \<Rightarrow> ('w, 'z, docker_socket_identity option \<times> string option) action" where
  "judge_docker_socket H allow_masked result =
     (case parse_docker_socket_properties (cr_stdout result) of
        None \<Rightarrow> give (None, Some ''docker.socket returned malformed or incomplete unit state'')
      | Some props \<Rightarrow>
         (let load_state = pval props ''LoadState''; active_state = pval props ''ActiveState'';
              sub_state = pval props ''SubState''
          in if pval props ''Id'' \<noteq> docker_socket_unit then
               give (None, Some (''docker.socket resolved to unexpected unit '' @ py_repr (pval props ''Id'')))
             else if load_state \<in> {''masked'', ''not-found''} then do {
               error \<leftarrow> validate_inert_docker_socket_state H allow_masked result props;
               give (None, error)
             }
             else if cr_returncode result \<noteq> Some 0 then
               give (None, Some (command_error ''could not observe docker.socket'' result))
             else if load_state \<noteq> ''loaded'' then
               give (None, Some (''docker.socket has unsupported load state '' @ py_repr load_state))
             else if (active_state, sub_state) \<notin> set stable_socket_states then
               give (None, Some
                 (if active_state \<notin> {''active'', ''inactive'', ''failed''}
                  then ''docker.socket is in transitional state '' @ py_repr active_state
                  else ''docker.socket has an inconsistent stable unit state''))
             else do {
               r \<leftarrow> validate_docker_socket_binding H props;
               give (case r of Inl e \<Rightarrow> (None, Some e) | Inr identity \<Rightarrow> (Some identity, None))
             }))"

definition show_unit ::
  "('w, 'r) runner_scheme \<Rightarrow> string list \<Rightarrow> string \<Rightarrow> ('w, 'z, command_result) action" where
  "show_unit R known u = run_known R False ''systemctl''
     [''show'', ''--all'', ''--full'', ''--no-pager'', ''--property='' @ join '','' known, u]"

definition validate_docker_socket_identity ::
  "('w, 'r) unit_host_scheme \<Rightarrow> bool
   \<Rightarrow> ('w, 'z, command_result list \<times> docker_socket_identity option \<times> string option) action" where
  "validate_docker_socket_identity H allow_masked = do {
     available \<leftarrow> exists_executable H ''systemctl'';
     (results, identity, error) \<leftarrow>
       (if \<not> available then
          give ([], None, Some ''trusted systemctl executable is required to validate docker.socket'')
        else do {
          result \<leftarrow> show_unit H docker_socket_properties docker_socket_unit;
          (identity, error) \<leftarrow> judge_docker_socket H allow_masked result;
          give ([result], identity, error)
        });
     verdict \<leftarrow> report_result
       (verdict_result [''validate-trusted-docker-socket-unit'', docker_socket_unit] [] error);
     give (results @ [verdict], if error = None then identity else None, error)
   }"

definition validate_docker_socket_unit ::
  "('w, 'r) unit_host_scheme \<Rightarrow> bool \<Rightarrow> ('w, 'z, command_result list \<times> string option) action" where
  "validate_docker_socket_unit H allow_masked = do {
     (results, _, error) \<leftarrow> validate_docker_socket_identity H allow_masked;
     give (results, error)
   }"

fun files_unchanged ::
  "('w, 'r) unit_host_scheme \<Rightarrow> trusted_unit_file_identity list \<Rightarrow> ('w, 'z, string + unit) action" where
  "files_unchanged H [] = give (Inr ())"
| "files_unchanged H (x # xs) =
     and_then (on_world (uh_trusted_file H (path_text (ui_path x)) (ui_executable x))) (\<lambda>metadata.
     and_then (ensure (\<lparr>ui_path = path_text (ui_path x), ui_executable = ui_executable x,
         ui_metadata = metadata\<rparr> = x)
       (''trusted effective unit input changed across mask: '' @ path_text (ui_path x))) (\<lambda>_.
       files_unchanged H xs))"

definition revalidate_docker_socket_identity ::
  "('w, 'r) unit_host_scheme \<Rightarrow> docker_socket_identity
   \<Rightarrow> ('w, 'z, command_result list \<times> string option) action" where
  "revalidate_docker_socket_identity H identity = do {
     r \<leftarrow> files_unchanged H (di_files identity);
     let error = (case r of Inl e \<Rightarrow> Some (''cannot trust docker.socket: '' @ e) | Inr _ \<Rightarrow> None);
     verdict \<leftarrow> report_result
       (verdict_result [''revalidate-trusted-docker-socket-identity'', docker_socket_unit] [] error);
     give ([verdict], error)
   }"

section \<open>Trusted services\<close>

record service_observation =
  so_spec :: trusted_service_spec
  so_active :: bool
  so_main_pid :: nat
  so_fragment_path :: "string option"
  so_load_state :: string
  so_active_state :: string
  so_sub_state :: string
  so_properties :: properties
  so_identity :: "gpu_service_identity option"

text \<open>\<open>str.split()\<close>: the words between runs of white space\<close>

fun split_words :: "string \<Rightarrow> string \<Rightarrow> string list" where
  "split_words word [] = (if word = [] then [] else [rev word])"
| "split_words word (c # cs) =
     (if py_isspace c then (if word = [] then [] else [rev word]) @ split_words [] cs
      else split_words (c # word) cs)"

definition malformed_stat :: "nat \<Rightarrow> string" where
  "malformed_stat main_pid = ''MainPID '' @ nat_str main_pid @ '' returned malformed process stat data''"

definition stat_start_ticks :: "nat \<Rightarrow> string \<Rightarrow> nat option" where
  "stat_start_ticks main_pid text =
     (let line = rev (dropWhile (\<lambda>c. c = CHR 0x0A) (rev text));
          pid_text = takeWhile (\<lambda>c. c \<noteq> CHR ''('') line
      in if line = [] \<or> list_ex (\<lambda>c. c \<in> {CHR 0x0A, CHR 0x0D, CHR 0x00}) line then None
         else case rpartition_at CHR '')'' line of
           (prior, False, _) \<Rightarrow> None
         | (prior, True, tail) \<Rightarrow>
            (let flds = split_words [] tail
             in if CHR ''('' \<notin> set line \<or> pid_text = [] \<or> length prior \<le> length pid_text
                   \<or> strip pid_text \<noteq> nat_str main_pid then None
                else if length flds < 20 \<or> length (flds ! 0) \<noteq> 1 \<or> \<not> isdecimal (flds ! 19)
                   \<or> digits_val (flds ! 19) = 0 then None
                else Some (digits_val (flds ! 19))))"

definition process_start_time_ticks ::
  "('w, 'r) unit_host_scheme \<Rightarrow> nat \<Rightarrow> ('w, 'z, string + nat) action" where
  "process_start_time_ticks H main_pid =
     and_then (on_world (uh_process_stat H main_pid)) (\<lambda>text.
       give (case stat_start_ticks main_pid text of
         None \<Rightarrow> Inl (malformed_stat main_pid) | Some ticks \<Rightarrow> Inr ticks))"

fun cgroup_scan :: "string \<Rightarrow> string option \<Rightarrow> string list \<Rightarrow> string option" where
  "cgroup_scan u found [] = found"
| "cgroup_scan u found (line # lines) =
     (case partition_at CHR '':'' line of (hierarchy, separator, remainder) \<Rightarrow>
      case partition_at CHR '':'' remainder of (controllers, separator_two, cgroup_path) \<Rightarrow>
        if \<not> separator \<or> \<not> separator_two \<or> (hierarchy \<noteq> [] \<and> \<not> isdecimal hierarchy)
           \<or> CHR 0x00 \<in> set controllers then None
        else cgroup_scan u
          (if path_parts cgroup_path = [''/'', ''system.slice'', u]
           then Some (''/system.slice/'' @ u) else found) lines)"

definition service_cgroup_path :: "string \<Rightarrow> string \<Rightarrow> string option" where
  "service_cgroup_path text u = cgroup_scan u None (splitlines text)"

definition trusted_files ::
  "('w, 'r) unit_host_scheme \<Rightarrow> bool \<Rightarrow> string list \<Rightarrow> ('w, 'z, string + unit) action" where
  "trusted_files H executable = each_of (\<lambda>path.
     and_then (on_world (uh_trusted_file H path executable)) (\<lambda>_. give (Inr ())))"

definition trusted_hooks ::
  "('w, 'r) unit_host_scheme \<Rightarrow> properties \<Rightarrow> string list \<Rightarrow> ('w, 'z, string + unit) action" where
  "trusted_hooks H props = each_of (\<lambda>name.
     and_then (parsed_by parse_systemd_exec_paths props name) (trusted_files H True))"

definition pid_text :: "nat \<Rightarrow> string" where
  "pid_text main_pid = ''MainPID '' @ nat_str main_pid"

text \<open>The process behind a unit: executable, control group, and the start time read twice.\<close>

definition bind_process ::
  "('w, 'r) unit_host_scheme \<Rightarrow> trusted_service_spec \<Rightarrow> file_metadata \<Rightarrow> nat
   \<Rightarrow> ('w, 'z, string + gpu_service_identity) action" where
  "bind_process H spec executable main_pid =
     and_then (process_start_time_ticks H main_pid) (\<lambda>prior.
     and_then (on_world (uh_process_executable H main_pid)) (\<lambda>(device, inode).
     and_then (ensure (device = fm_device executable \<and> inode = fm_inode executable)
       (pid_text main_pid @ '' executable does not match '' @ ts_executable spec)) (\<lambda>_.
     and_then (on_world (uh_process_cgroup H main_pid)) (\<lambda>cgroups.
     and_then (give (case service_cgroup_path cgroups (ts_unit spec) of
         None \<Rightarrow> Inl (pid_text main_pid @ '' is not bound to '' @ ts_unit spec @ CHR 0x27 # ''s system.slice cgroup'')
       | Some path \<Rightarrow> Inr path)) (\<lambda>cgroup.
     and_then (process_start_time_ticks H main_pid) (\<lambda>after.
     and_then (ensure (after = prior) (pid_text main_pid @ '' changed identity during validation'')) (\<lambda>_.
       give (Inr \<lparr>gi_unit = ts_unit spec, gi_main_pid = main_pid, gi_process_start_time_ticks = after,
         gi_executable_device = device, gi_executable_inode = inode, gi_cgroup_path = cgroup\<rparr>))))))))"

definition bind_service ::
  "('w, 'r) unit_host_scheme \<Rightarrow> trusted_service_spec \<Rightarrow> string \<Rightarrow> nat option \<Rightarrow> properties
   \<Rightarrow> ('w, 'z, string + gpu_service_identity option) action" where
  "bind_service H spec fragment main_pid props =
     and_then (on_world (uh_trusted_file H fragment False)) (\<lambda>_.
     and_then (parsed_by parse_systemd_path_list props ''DropInPaths'') (\<lambda>drop_ins.
     and_then (trusted_files H False drop_ins) (\<lambda>_.
     and_then (ensure (pval props ''Environment'' = [])
       ''effective inline Environment entries are unsupported'') (\<lambda>_.
     and_then (parsed_by parse_systemd_environment_files props ''EnvironmentFiles'') (\<lambda>env_files.
     and_then (trusted_files H False env_files) (\<lambda>_.
     and_then (no_remapping props) (\<lambda>_.
     and_then (ensure (parse_systemd_exec_paths (pval props ''ExecStart'') = Some [ts_executable spec])
       (''effective ExecStart does not resolve to the exact expected executable '' @ ts_executable spec)) (\<lambda>_.
     and_then (on_world (uh_trusted_file H (ts_executable spec) True)) (\<lambda>executable.
     and_then (trusted_hooks H props
       [''ExecCondition'', ''ExecStartPre'', ''ExecStartPost'', ''ExecStop'', ''ExecStopPost'']) (\<lambda>_.
       case main_pid of
         None \<Rightarrow> give (Inr None)
       | Some pid \<Rightarrow> and_then (bind_process H spec executable pid) (\<lambda>identity. give (Inr (Some identity)))))))))))))"

definition validate_trusted_service_binding ::
  "('w, 'r) unit_host_scheme \<Rightarrow> trusted_service_spec \<Rightarrow> string \<Rightarrow> nat option \<Rightarrow> properties
   \<Rightarrow> ('w, 'z, command_result \<times> gpu_service_identity option \<times> string option) action" where
  "validate_trusted_service_binding H spec fragment main_pid props = do {
     let command = [''validate-trusted-gpu-service'', ts_unit spec,
           nat_str (case main_pid of None \<Rightarrow> 0 | Some pid \<Rightarrow> pid)];
     record_external_start command False;
     r \<leftarrow> bind_service H spec fragment main_pid props;
     let error = (case r of Inl e \<Rightarrow> Some (''cannot trust '' @ ts_unit spec @ '': '' @ e) | Inr _ \<Rightarrow> None);
     let result = verdict_result command [] error;
     record_external_result result False;
     give (result, (case r of Inl _ \<Rightarrow> None | Inr identity \<Rightarrow> identity), error)
   }"

definition observation_of ::
  "trusted_service_spec \<Rightarrow> bool \<Rightarrow> nat \<Rightarrow> string option \<Rightarrow> properties \<Rightarrow> gpu_service_identity option
   \<Rightarrow> service_observation" where
  "observation_of spec active main_pid fragment props identity =
     \<lparr>so_spec = spec, so_active = active, so_main_pid = main_pid, so_fragment_path = fragment,
      so_load_state = pval props ''LoadState'', so_active_state = pval props ''ActiveState'',
      so_sub_state = pval props ''SubState'', so_properties = props, so_identity = identity\<rparr>"

definition judge_service ::
  "('w, 'r) unit_host_scheme \<Rightarrow> trusted_service_spec \<Rightarrow> command_result \<Rightarrow> properties
   \<Rightarrow> ('w, 'z, command_result list \<times> (string + service_observation)) action" where
  "judge_service H spec result props =
     (let main_pid = digits_val (pval props ''MainPID'');
          active_state = pval props ''ActiveState''; sub_state = pval props ''SubState'';
          load_state = pval props ''LoadState'';
          fragment = (if pval props ''FragmentPath'' = [] then None
            else Some (path_text (pval props ''FragmentPath'')))
      in if load_state = ''not-found'' then
           give ([], if cr_returncode result \<notin> {Some 0, Some 1, Some 4} \<or> active_state \<noteq> ''inactive''
               \<or> sub_state \<noteq> ''dead'' \<or> main_pid \<noteq> 0 \<or> fragment \<noteq> None
             then Inl (ts_unit spec @ '' has inconsistent not-found unit state'')
             else Inr (observation_of spec False 0 None props None))
         else if cr_returncode result \<noteq> Some 0 then
           give ([], Inl (command_error (''could not observe '' @ ts_unit spec) result))
         else if active_state = ''active'' then
           (case fragment of
              Some path \<Rightarrow>
                if load_state \<noteq> ''loaded'' \<or> sub_state \<noteq> ''running'' \<or> main_pid = 0 then
                  give ([], Inl (ts_unit spec @ '' has an unsupported active unit state''))
                else do {
                  (bound, identity, error) \<leftarrow>
                    validate_trusted_service_binding H spec path (Some main_pid) props;
                  give ([bound],
                    case error of
                      Some e \<Rightarrow> Inl e
                    | None \<Rightarrow>
                       (if identity = None
                        then Inl (''cannot trust '' @ ts_unit spec @ '': process identity is unavailable'')
                        else Inr (observation_of spec True main_pid (Some path) props identity)))
                }
            | None \<Rightarrow> give ([], Inl (ts_unit spec @ '' has an unsupported active unit state'')))
         else if active_state \<in> {''inactive'', ''failed''} then
           give ([], if main_pid \<noteq> 0 \<or> sub_state \<notin> {''dead'', ''failed''}
             then Inl (ts_unit spec @ '' has an inconsistent inactive unit state'')
             else Inr (observation_of spec False 0 fragment props None))
         else give ([], Inl (ts_unit spec @ '' is in transitional state '' @ py_repr active_state)))"

text \<open>The results it appends, and the observation or the error\<close>

definition observe_trusted_service ::
  "('w, 'r) unit_host_scheme \<Rightarrow> trusted_service_spec
   \<Rightarrow> ('w, 'z, command_result list \<times> (string + service_observation)) action" where
  "observe_trusted_service H spec = do {
     result \<leftarrow> show_unit H service_properties (ts_unit spec);
     (more, judged) \<leftarrow>
       (case parse_service_properties (cr_stdout result) of
          None \<Rightarrow> give ([], Inl (ts_unit spec @ '' returned malformed or incomplete unit state''))
        | Some props \<Rightarrow>
            if pval props ''Id'' \<noteq> ts_unit spec then
              give ([], Inl (ts_unit spec @ '' resolved to unexpected unit '' @ py_repr (pval props ''Id'')))
            else if \<not> isdecimal (pval props ''MainPID'') then
              give ([], Inl (ts_unit spec @ '' returned an invalid MainPID''))
            else judge_service H spec result props);
     give (result # more, judged)
   }"

definition validate_inert_trusted_service_state ::
  "('w, 'r) unit_host_scheme \<Rightarrow> bool \<Rightarrow> service_observation \<Rightarrow> ('w, 'z, string option) action" where
  "validate_inert_trusted_service_state H allow_masked ob =
     (let u = ts_unit (so_spec ob); load_state = so_load_state ob; props = so_properties ob;
          fragment = pval props ''FragmentPath'';
          rest = give (map_option (\<lambda>name. ''cannot trust '' @ u @ '': unexpected effective '' @ name @ '' in ''
            @ load_state @ '' state'') (unexpected_property service_properties props))
      in if \<not> allow_masked then
           give (Some (''cannot trust '' @ u @ '' for this mutation: expected an exact loaded unit''))
         else if so_active ob \<or> so_main_pid ob \<noteq> 0 then
           give (Some (''cannot trust '' @ u @ '': inconsistent '' @ load_state @ '' process state''))
         else if load_state = ''not-found'' \<and> fragment \<noteq> [] then
           give (Some (''cannot trust '' @ u @ '': inconsistent not-found fragment state''))
         else if load_state = ''masked'' then
           (if fragment = [] then
              give (Some (''cannot trust '' @ u @ '': inconsistent masked fragment state''))
            else do {
              r \<leftarrow> on_world (uh_mask_path H (path_text fragment) u);
              (case r of
                 Inl e \<Rightarrow> give (Some (''cannot trust '' @ u @ '': untrusted masked fragment state: '' @ e))
               | Inr _ \<Rightarrow> rest)
            })
         else rest)"

definition unsupported_service_text :: string where
  "unsupported_service_text = ''unsupported trusted service; expected an exact canonical ''
     @ ''nvidia-fabricmanager.service, nvidia-persistenced.service, or docker.service unit''"

definition judge_service_unit ::
  "('w, 'r) unit_host_scheme \<Rightarrow> bool \<Rightarrow> service_observation
   \<Rightarrow> ('w, 'z, command_result list \<times> string option) action" where
  "judge_service_unit H allow_masked ob =
     (let u = ts_unit (so_spec ob)
      in if so_load_state ob = ''loaded'' then
           (case so_fragment_path ob of
              None \<Rightarrow> give ([], Some (''cannot trust '' @ u @ '': effective FragmentPath is missing''))
            | Some fragment \<Rightarrow>
                if so_active ob then give ([], None)
                else do {
                  (bound, _, error) \<leftarrow>
                    validate_trusted_service_binding H (so_spec ob) fragment None (so_properties ob);
                  give ([bound], error)
                })
         else if so_load_state ob \<in> {''masked'', ''not-found''} then do {
           error \<leftarrow> validate_inert_trusted_service_state H allow_masked ob;
           give ([], error)
         }
         else give ([], Some (''cannot trust '' @ u @ '': unsupported load state '' @ py_repr (so_load_state ob))))"

definition validate_trusted_gpu_service_unit ::
  "('w, 'r) unit_host_scheme \<Rightarrow> string \<Rightarrow> bool \<Rightarrow> ('w, 'z, command_result list \<times> string option) action" where
  "validate_trusted_gpu_service_unit H u allow_masked = do {
     available \<leftarrow> exists_executable H ''systemctl'';
     (results, error) \<leftarrow>
       (case trusted_service_by_unit u of
          None \<Rightarrow> give ([], Some unsupported_service_text)
        | Some spec \<Rightarrow>
            if \<not> available then
              give ([], Some ''trusted systemctl executable is required to validate service unit'')
            else do {
              (results, judged) \<leftarrow> observe_trusted_service H spec;
              (case judged of
                 Inl e \<Rightarrow> give (results, Some e)
               | Inr ob \<Rightarrow> do {
                   (more, error) \<leftarrow> judge_service_unit H allow_masked ob;
                   give (results @ more, error)
                 })
            });
     verdict \<leftarrow> report_result (verdict_result [''validate-trusted-gpu-service-unit'', u] [] error);
     give (results @ [verdict], error)
   }"

definition quoted :: "string \<Rightarrow> string" where
  "quoted s = CHR 0x22 # s @ [CHR 0x22]"

definition identity_json :: "gpu_service_identity \<Rightarrow> string" where
  "identity_json i =
     ''{'' @ quoted ''cgroup_path'' @ '':'' @ quoted (gi_cgroup_path i) @ '',''
     @ quoted ''executable_device'' @ '':'' @ int_str (gi_executable_device i) @ '',''
     @ quoted ''executable_inode'' @ '':'' @ int_str (gi_executable_inode i) @ '',''
     @ quoted ''main_pid'' @ '':'' @ nat_str (gi_main_pid i) @ '',''
     @ quoted ''process_start_time_ticks'' @ '':'' @ nat_str (gi_process_start_time_ticks i) @ '',''
     @ quoted ''unit'' @ '':'' @ quoted (gi_unit i) @ ''}''"

definition judge_active_service ::
  "string \<Rightarrow> gpu_service_identity option \<Rightarrow> service_observation
   \<Rightarrow> gpu_service_identity option \<times> string option" where
  "judge_active_service u expected ob =
     (if so_load_state ob \<noteq> ''loaded'' \<or> so_active_state ob \<noteq> ''active'' \<or> so_sub_state ob \<noteq> ''running''
         \<or> \<not> so_active ob \<or> so_main_pid ob = 0 \<or> so_fragment_path ob = None \<or> so_identity ob = None
      then (None, Some (''cannot trust active '' @ u
        @ '': expected an exact loaded, active, running unit with MainPID greater than 0''))
      else if expected \<noteq> None \<and> so_identity ob \<noteq> expected
      then (so_identity ob, Some (''cannot trust active '' @ u
        @ '': service process identity changed across the validation boundary''))
      else (so_identity ob, None))"

definition validate_active_trusted_gpu_service_identity ::
  "('w, 'r) unit_host_scheme \<Rightarrow> string \<Rightarrow> gpu_service_identity option
   \<Rightarrow> ('w, 'z, command_result list \<times> gpu_service_identity option \<times> string option) action" where
  "validate_active_trusted_gpu_service_identity H u expected = do {
     available \<leftarrow> exists_executable H ''systemctl'';
     (results, identity, error) \<leftarrow>
       (case trusted_service_by_unit u of
          None \<Rightarrow> give ([], None, Some unsupported_service_text)
        | Some spec \<Rightarrow>
            if (case expected of Some i \<Rightarrow> gi_unit i \<noteq> u | None \<Rightarrow> False) then
              give ([], None, Some (''expected trusted GPU service identity belongs to unexpected unit ''
                @ (case expected of Some i \<Rightarrow> py_repr (gi_unit i) | None \<Rightarrow> [])))
            else if \<not> available then
              give ([], None, Some ''trusted systemctl executable is required to validate active service'')
            else do {
              (results, judged) \<leftarrow> observe_trusted_service H spec;
              give (case judged of
                  Inl e \<Rightarrow> (results, None, Some e)
                | Inr ob \<Rightarrow> (results, judge_active_service u expected ob))
            });
     verdict \<leftarrow> report_result (verdict_result [''validate-active-trusted-gpu-service'', u]
       (case identity of None \<Rightarrow> [] | Some i \<Rightarrow> identity_json i) error);
     give (results @ [verdict], if error = None then identity else None, error)
   }"

definition process_unchanged ::
  "('w, 'r) unit_host_scheme \<Rightarrow> gpu_service_identity \<Rightarrow> ('w, 'z, string + unit) action" where
  "process_unchanged H i =
     (case trusted_service_by_unit (gi_unit i) of
        None \<Rightarrow> give (Inl ''trusted service identity names an unsupported unit'')
      | Some spec \<Rightarrow>
     and_then (on_world (uh_trusted_file H (ts_executable spec) True)) (\<lambda>executable.
     and_then (ensure (fm_device executable = gi_executable_device i \<and> fm_inode executable = gi_executable_inode i)
       ''trusted executable identity changed across mask'') (\<lambda>_.
     and_then (process_start_time_ticks H (gi_main_pid i)) (\<lambda>prior.
     and_then (on_world (uh_process_executable H (gi_main_pid i))) (\<lambda>(device, inode).
     and_then (ensure (device = gi_executable_device i \<and> inode = gi_executable_inode i)
       ''trusted service process executable changed across mask'') (\<lambda>_.
     and_then (on_world (uh_process_cgroup H (gi_main_pid i))) (\<lambda>cgroups.
     and_then (ensure (service_cgroup_path cgroups (gi_unit i) = Some (gi_cgroup_path i))
       ''trusted service process cgroup changed across mask'') (\<lambda>_.
     and_then (process_start_time_ticks H (gi_main_pid i)) (\<lambda>after.
       ensure (prior = gi_process_start_time_ticks i \<and> after = gi_process_start_time_ticks i)
         ''trusted service process identity changed across mask'')))))))))"

definition revalidate_trusted_gpu_service_process_identity ::
  "('w, 'r) unit_host_scheme \<Rightarrow> gpu_service_identity
   \<Rightarrow> ('w, 'z, command_result list \<times> string option) action" where
  "revalidate_trusted_gpu_service_process_identity H i = do {
     r \<leftarrow> process_unchanged H i;
     let error = (case r of Inl e \<Rightarrow> Some (''cannot trust active '' @ gi_unit i @ '': '' @ e) | Inr _ \<Rightarrow> None);
     verdict \<leftarrow> report_result
       (verdict_result [''revalidate-trusted-gpu-service-process-identity'', gi_unit i] [] error);
     give ([verdict], error)
   }"

end
