(* ===== verification/ManagedFiles.thy ===== *)
theory ManagedFiles
  imports UnitSafety
begin

text \<open>
  The configuration files a rollback owns (\<open>nvidia_converge/rollback.py\<close>): which paths are managed,
  how their content is captured, compared, checked before a rollback and restored.

  The text of a file is kept as its UTF-8 bytes: the trusted reader refuses a file that is not
  UTF-8, and two texts are equal exactly when their bytes are.  Reading, inspecting, writing and
  unlinking through trusted directories (\<open>files.py\<close>) are operations of the world.  The wording that
  Python's decoders give their exceptions is left out of the messages that quote it.
\<close>

section \<open>Base 64 and UTF-8\<close>

definition b64_alphabet :: string where
  "b64_alphabet = ''ABCDEFGHIJKLMNOPQRSTUVWXYZabcdefghijklmnopqrstuvwxyz0123456789+/''"

definition b64_char :: "nat \<Rightarrow> char" where
  "b64_char n = b64_alphabet ! n"

definition b64_value :: "char \<Rightarrow> nat option" where
  "b64_value c = map_of (zip b64_alphabet [0..<64]) c"

fun b64encode :: "string \<Rightarrow> string" where
  "b64encode [] = []"
| "b64encode [a] =
     (let x = cp a in [b64_char (x div 4), b64_char (x mod 4 * 16), CHR ''='', CHR ''=''])"
| "b64encode [a, b] =
     (let x = cp a; y = cp b
      in [b64_char (x div 4), b64_char (x mod 4 * 16 + y div 16), b64_char (y mod 16 * 4), CHR ''=''])"
| "b64encode (a # b # c # rest) =
     (let x = cp a; y = cp b; z = cp c
      in [b64_char (x div 4), b64_char (x mod 4 * 16 + y div 16), b64_char (y mod 16 * 4 + z div 64),
          b64_char (z mod 64)] @ b64encode rest)"

fun b64_bytes :: "nat list \<Rightarrow> string" where
  "b64_bytes (p # q # r # s # rest) =
     [char_of (p * 4 + q div 16), char_of (q mod 16 * 16 + r div 4), char_of (r mod 4 * 64 + s)]
     @ b64_bytes rest"
| "b64_bytes [p, q, r] = [char_of (p * 4 + q div 16), char_of (q mod 16 * 16 + r div 4)]"
| "b64_bytes [p, q] = [char_of (p * 4 + q div 16)]"
| "b64_bytes _ = []"

text \<open>
  \<open>base64.b64decode(text, validate=True)\<close>: the alphabet and at most two padding characters, of
  which a last group of two needs both and a last group of three one.
\<close>

definition b64decode :: "string \<Rightarrow> string option" where
  "b64decode s =
     (let body = takeWhile (\<lambda>c. c \<noteq> CHR ''='') s; padding = drop (length body) s;
          group = length body mod 4
      in if list_all (\<lambda>c. c = CHR ''='') padding \<and> length padding \<le> 2
            \<and> group \<noteq> 1 \<and> (group = 2 \<longrightarrow> length padding = 2) \<and> (group = 3 \<longrightarrow> padding \<noteq> [])
         then map_option b64_bytes (those (map b64_value body)) else None)"

definition is_continuation :: "nat \<Rightarrow> bool" where
  "is_continuation n \<longleftrightarrow> 128 \<le> n \<and> n \<le> 191"

fun utf8_valid :: "nat list \<Rightarrow> bool" where
  "utf8_valid [] \<longleftrightarrow> True"
| "utf8_valid (a # rest) \<longleftrightarrow>
     (if a < 128 then utf8_valid rest
      else if 194 \<le> a \<and> a \<le> 223 then
        (case rest of b # rest' \<Rightarrow> is_continuation b \<and> utf8_valid rest' | _ \<Rightarrow> False)
      else if 224 \<le> a \<and> a \<le> 239 then
        (case rest of
           b # c # rest' \<Rightarrow>
             is_continuation b \<and> is_continuation c \<and> (a = 224 \<longrightarrow> 160 \<le> b) \<and> (a = 237 \<longrightarrow> b \<le> 159)
             \<and> utf8_valid rest'
         | _ \<Rightarrow> False)
      else if 240 \<le> a \<and> a \<le> 244 then
        (case rest of
           b # c # d # rest' \<Rightarrow>
             is_continuation b \<and> is_continuation c \<and> is_continuation d
             \<and> (a = 240 \<longrightarrow> 144 \<le> b) \<and> (a = 244 \<longrightarrow> b \<le> 143) \<and> utf8_valid rest'
         | _ \<Rightarrow> False)
      else False)"

definition is_utf8 :: "string \<Rightarrow> bool" where
  "is_utf8 s \<longleftrightarrow> utf8_valid (map cp s)"

text \<open>\<open>base64.b64decode(text, validate=True).decode("utf-8")\<close>, as bytes\<close>

definition decoded_text :: "string \<Rightarrow> string option" where
  "decoded_text s =
     (case b64decode s of Some bytes \<Rightarrow> (if is_utf8 bytes then Some bytes else None) | None \<Rightarrow> None)"

section \<open>Managed paths\<close>

definition max_managed_file_bytes :: int where "max_managed_file_bytes = 1048576"

definition docker_config_path :: string where
  "docker_config_path = ''/etc/docker/daemon.json''"

definition dnf_module_path :: string where
  "dnf_module_path = ''/etc/dnf/modules.d/nvidia-driver.module''"

definition dnf_module_failsafe_directory :: string where
  "dnf_module_failsafe_directory = ''/var/lib/dnf/modulefailsafe''"

definition zypper_lock_path :: string where
  "zypper_lock_path = ''/etc/zypp/locks''"

text \<open>\<open>nvidia-driver:[1-9]\d{2,3}-(?:open|dkms):[A-Za-z0-9][A-Za-z0-9_.+@-]{0,127}\.yaml\<close>\<close>

definition failsafe_stream :: "string \<Rightarrow> bool" where
  "failsafe_stream s \<longleftrightarrow>
     (case partition_at CHR ''-'' s of
        (branch, True, flavor) \<Rightarrow>
          length branch \<in> {3, 4} \<and> list_all is_digit branch \<and> hd branch \<noteq> CHR ''0''
          \<and> flavor \<in> {''open'', ''dkms''}
      | _ \<Rightarrow> False)"

definition failsafe_file :: "string \<Rightarrow> bool" where
  "failsafe_file s \<longleftrightarrow>
     endswith s ''.yaml''
     \<and> (let stem = take (length s - 5) s
        in stem \<noteq> [] \<and> length stem \<le> 128 \<and> is_alnum (hd stem)
           \<and> list_all (\<lambda>c. is_alnum c \<or> c \<in> set ''_.+@-'') stem)"

definition dnf_module_failsafe_path :: "string \<Rightarrow> bool" where
  "dnf_module_failsafe_path path \<longleftrightarrow>
     (let prefix = dnf_module_failsafe_directory @ ''/nvidia-driver:''
      in startswith path prefix
         \<and> (case partition_at CHR '':'' (drop (length prefix) path) of
              (stream, True, file_part) \<Rightarrow> failsafe_stream stream \<and> failsafe_file file_part
            | _ \<Rightarrow> False))"

definition is_managed_path :: "string \<Rightarrow> bool" where
  "is_managed_path path \<longleftrightarrow>
     path \<in> {docker_config_path, dnf_module_path, zypper_lock_path} \<or> dnf_module_failsafe_path path"

section \<open>The file system\<close>

datatype file_read =
    FileMissing
  | FileUnreadable string
  | FileText string int

record 'w file_host = "'w unit_host" +
  fh_read :: "string \<Rightarrow> 'w \<Rightarrow> file_read"
  fh_singly_linked :: "string \<Rightarrow> 'w \<Rightarrow> string + bool option"
  fh_write :: "string \<Rightarrow> string \<Rightarrow> int \<Rightarrow> 'w \<Rightarrow> (string + unit) \<times> 'w"
  fh_unlink :: "string \<Rightarrow> 'w \<Rightarrow> (string + unit) \<times> 'w"

section \<open>Capture and comparison\<close>

datatype snapshot_error =
    FailsafeNotManaged
  | CaptureFailed string string

definition captured_paths ::
  "string option \<Rightarrow> string option \<Rightarrow> snapshot_error + string list" where
  "captured_paths pm failsafe =
     (if pm \<in> {Some ''dnf'', Some ''yum''} then
        (case failsafe of
           None \<Rightarrow> Inr [docker_config_path, dnf_module_path]
         | Some path \<Rightarrow>
             if pm \<noteq> Some ''dnf'' \<or> \<not> is_managed_path path then Inl FailsafeNotManaged
             else Inr [docker_config_path, dnf_module_path, path])
      else if pm = Some ''zypper'' then Inr [docker_config_path, zypper_lock_path]
      else Inr [docker_config_path])"

definition capture_file :: "('w, 'r) file_host_scheme \<Rightarrow> 'w \<Rightarrow> string \<Rightarrow> snapshot_error + file_snapshot" where
  "capture_file H w path =
     (case fh_read H path w of
        FileMissing \<Rightarrow>
          Inr \<lparr>fs_path = path, fs_existed = False, fs_content_base64 = None, fs_mode = None\<rparr>
      | FileUnreadable e \<Rightarrow> Inl (CaptureFailed path e)
      | FileText content mode \<Rightarrow>
          Inr \<lparr>fs_path = path, fs_existed = True, fs_content_base64 = Some (b64encode content),
               fs_mode = Some mode\<rparr>)"

definition capture_managed_files ::
  "('w, 'r) file_host_scheme \<Rightarrow> 'w \<Rightarrow> string option \<Rightarrow> string option
   \<Rightarrow> snapshot_error + file_snapshot list" where
  "capture_managed_files H w pm failsafe =
     bind_r (captured_paths pm failsafe) (map_r (capture_file H w))"

definition managed_file_matches :: "('w, 'r) file_host_scheme \<Rightarrow> 'w \<Rightarrow> file_snapshot \<Rightarrow> bool" where
  "managed_file_matches H w f =
     (case fh_read H (fs_path f) w of
        FileMissing \<Rightarrow> \<not> fs_existed f
      | FileUnreadable _ \<Rightarrow> False
      | FileText current mode \<Rightarrow>
          if \<not> fs_existed f then False
          else if fs_mode f \<noteq> Some mode then False
          else case decoded_text (case fs_content_base64 f of None \<Rightarrow> [] | Some s \<Rightarrow> s) of
            None \<Rightarrow> False
          | Some expected \<Rightarrow> current = expected)"

section \<open>Before a rollback\<close>

definition managed_files_command :: "string list" where
  "managed_files_command = [''rollback-precondition'', ''managed-files'']"

definition baseline_error :: "file_snapshot \<Rightarrow> string option" where
  "baseline_error f =
     (if \<not> is_managed_path (fs_path f)
        then Some (''rollback file target is outside the managed path set: '' @ fs_path f)
      else if fs_existed f then
       (case (fs_content_base64 f, fs_mode f) of
          (Some content, Some mode) \<Rightarrow>
           (case decoded_text content of
              None \<Rightarrow> Some (''rollback file baseline is invalid for '' @ fs_path f)
            | Some bytes \<Rightarrow>
                if max_managed_file_bytes < int (length bytes) \<or> \<not> (0 \<le> mode \<and> mode \<le> 511)
                then Some (''rollback file baseline exceeds safety bounds: '' @ fs_path f) else None)
        | _ \<Rightarrow> Some (''rollback file baseline is incomplete: '' @ fs_path f))
      else if fs_content_base64 f \<noteq> None \<or> fs_mode f \<noteq> None
        then Some (''absent rollback file baseline carries content or mode: '' @ fs_path f)
      else None)"

definition target_error :: "('w, 'r) file_host_scheme \<Rightarrow> 'w \<Rightarrow> file_snapshot \<Rightarrow> string option" where
  "target_error H w f =
     (if managed_file_matches H w f then None
      else case fh_singly_linked H (fs_path f) w of
        Inl e \<Rightarrow> Some (''cannot inspect '' @ fs_path f @ '': '' @ e)
      | Inr (Some False) \<Rightarrow>
          Some (''rollback file target is not a singly linked regular file: '' @ fs_path f)
      | Inr _ \<Rightarrow> None)"

fun managed_file_restore_precondition ::
  "('w, 'r) file_host_scheme \<Rightarrow> 'w \<Rightarrow> file_snapshot list \<Rightarrow> command_result option" where
  "managed_file_restore_precondition H w [] = None"
| "managed_file_restore_precondition H w (f # fs) =
     (case baseline_error f of
        Some e \<Rightarrow> Some (command_result_of managed_files_command (Some 1) e)
      | None \<Rightarrow>
     (case target_error H w f of
        Some e \<Rightarrow> Some (command_result_of managed_files_command (Some 1) e)
      | None \<Rightarrow> managed_file_restore_precondition H w fs))"

section \<open>Restoring\<close>

definition restore_rank :: "file_snapshot \<Rightarrow> nat" where
  "restore_rank f =
     (if fs_path f = docker_config_path then 0
      else if fs_path f \<in> {dnf_module_path, zypper_lock_path} then 1
      else if dnf_module_failsafe_path (fs_path f) then 2 else 3)"

definition write_baseline ::
  "('w, 'r) file_host_scheme \<Rightarrow> file_snapshot \<Rightarrow> ('w, 'z, string + unit) action" where
  "write_baseline H f =
     (if fs_existed f then
       (case (fs_content_base64 f, fs_mode f) of
          (Some content, Some mode) \<Rightarrow>
           (case decoded_text content of
              None \<Rightarrow> give (Inl ''invalid base64-encoded text'')
            | Some bytes \<Rightarrow> on_world (fh_write H (fs_path f) bytes mode))
        | _ \<Rightarrow> give (Inl (''rollback file baseline is incomplete: '' @ fs_path f)))
      else on_world (fh_unlink H (fs_path f)))"

definition restore_command :: "file_snapshot \<Rightarrow> string list" where
  "restore_command f = [''restore-file'', fs_path f]"

definition restore_managed_file ::
  "('w, 'r) file_host_scheme \<Rightarrow> file_snapshot \<Rightarrow> ('w, 'z, command_result) action" where
  "restore_managed_file H f = do {
     record_external_start (restore_command f) True;
     matches \<leftarrow> asks (\<lambda>s. managed_file_matches H (se_world s) f);
     result \<leftarrow>
       (if matches then give (skipped_result (restore_command f) (Some 0) ''already-restored'')
        else if \<not> ru_apply H then give (skipped_result (restore_command f) None ''dry-run'')
        else do {
          r \<leftarrow> write_baseline H f;
          give (case r of
            Inl e \<Rightarrow> command_result_of (restore_command f) (Some 1) e
          | Inr _ \<Rightarrow> command_result_of (restore_command f) (Some 0) [])
        });
     record_external_result result True;
     give result
   }"

fun restore_files ::
  "('w, 'r) file_host_scheme \<Rightarrow> file_snapshot list \<Rightarrow> ('w, 'z, command_result list) action" where
  "restore_files H [] = give []"
| "restore_files H (f # fs) = do {
     result \<leftarrow> restore_managed_file H f;
     results \<leftarrow> restore_files H fs;
     give (result # results)
   }"

definition restore_managed_files ::
  "('w, 'r) file_host_scheme \<Rightarrow> file_snapshot list \<Rightarrow> ('w, 'z, command_result list) action" where
  "restore_managed_files H fs = restore_files H (sort_key restore_rank fs)"

end
