(* ===== verification/RollbackCommands.thy ===== *)
theory RollbackCommands
  imports Models
begin

text \<open>
  The package commands of a rollback (\<open>nvidia_converge/rollback.py\<close>): the specs that name a
  package to each manager, the delta between the snapshot and the host, the commands built from
  it, and the allow-list a stored command has to pass (\<open>audit.py\<close> and
  \<open>dnf_transaction.py\<close> give the two helpers they use).

  The text of the embedded DNF script is the argument \<open>script\<close>.  The directory and the file
  name of a payload are single path components, which the loader of a snapshot checks, so
  joining them to the snapshot's directory is concatenation.
\<close>

datatype rollback_error =
    PayloadsRequirePath
  | ManifestOmitsIdentity string
  | NoRetainedPayloads
  | AptRemovalAssertion
  | ZypperRemovalAssertion
  | CommandsNotArray
  | TooManyCommands
  | CommandNotArray nat
  | CommandTooLong nat
  | CommandEntriesInvalid nat
  | CommandUnsupported nat
  | NotRequiredString string
  | NotOptionalString string
  | NotBoolean string
  | NotUnitFileState string

section \<open>Package specs\<close>

text \<open>The truth value of an optional string, and \<open>value or ""\<close>.\<close>

definition truthy :: "string option \<Rightarrow> bool" where
  "truthy x \<longleftrightarrow> x \<noteq> None \<and> x \<noteq> Some []"

definition or_empty :: "string option \<Rightarrow> string" where
  "or_empty x = (case x of None \<Rightarrow> [] | Some s \<Rightarrow> s)"

definition epoch_prefix :: "package_info \<Rightarrow> string" where
  "epoch_prefix p = (if truthy (pi_epoch p) then or_empty (pi_epoch p) @ '':'' else [])"

definition arch_suffix :: "string \<Rightarrow> package_info \<Rightarrow> string" where
  "arch_suffix separator p =
     (if truthy (pi_architecture p) then separator @ or_empty (pi_architecture p) else [])"

definition interesting_package :: "string \<Rightarrow> bool" where
  "interesting_package name \<longleftrightarrow>
     list_ex (startswith name)
       [''nvidia'', ''libnvidia'', ''cuda'', ''docker-ce'', ''linux-headers-'', ''kernel-devel-'']
     \<or> name \<in> set [''build-essential'', ''containerd.io'', ''docker-buildx-plugin'',
          ''docker-compose-plugin'', ''gcc'', ''kernel-devel'', ''kernel-headers'', ''make'',
          ''nvidia-container-toolkit'']
     \<or> name \<in> set [''kernel-default-devel'', ''kernel-azure-devel'', ''kernel-64k-devel'']"

definition rpm_package_spec :: "package_info \<Rightarrow> string" where
  "rpm_package_spec p =
     pi_name p @ ''-'' @ epoch_prefix p @ opt_text (pi_version p) @ arch_suffix ''.'' p"

definition zypper_package_spec :: "package_info \<Rightarrow> string" where
  "zypper_package_spec p =
     pi_name p @ arch_suffix ''.'' p @ ''='' @ epoch_prefix p @ opt_text (pi_version p)"

definition apt_package_spec :: "package_info \<Rightarrow> string" where
  "apt_package_spec p = pi_name p @ arch_suffix '':'' p @ ''='' @ opt_text (pi_version p)"

type_synonym package_identity = "string \<times> string option \<times> string option \<times> string option"

definition package_state_identity :: "package_info \<Rightarrow> package_identity" where
  "package_state_identity p = (pi_name p, pi_architecture p, pi_epoch p, pi_version p)"

definition format_package_identity :: "package_identity \<Rightarrow> string" where
  "format_package_identity = (\<lambda>(name, architecture, epoch, version).
     name @ (if truthy architecture then '':'' @ or_empty architecture else [])
     @ (if truthy version
        then ''='' @ (if truthy epoch then or_empty epoch @ '':'' else []) @ or_empty version
        else []))"

definition package_removal_spec :: "string \<Rightarrow> package_info \<Rightarrow> string list" where
  "package_removal_spec pm p =
     (if pm = ''apt-get'' then [pi_name p @ arch_suffix '':'' p]
      else if pm = ''dnf'' \<or> pm = ''yum'' then [rpm_package_spec p]
      else if pm = ''zypper'' then
        [pi_name p @ arch_suffix ''.'' p
         @ (if truthy (pi_version p) then ''='' @ epoch_prefix p @ or_empty (pi_version p) else [])]
      else [])"

definition package_removal_specs :: "package_info list \<Rightarrow> string option \<Rightarrow> string list" where
  "package_removal_specs packages pm =
     (case pm of None \<Rightarrow> []
      | Some manager \<Rightarrow> sorted_set (concat (map (package_removal_spec manager) packages)))"

definition package_tracking_names :: "string \<Rightarrow> string list \<Rightarrow> string \<Rightarrow> string list" where
  "package_tracking_names pm targets krelease = dedup
     (map (\<lambda>target.
        let name = head_before CHR ''='' target
        in if (pm = ''dnf'' \<or> pm = ''yum'') \<and> name = ''kernel-devel-'' @ krelease
           then ''kernel-devel'' else name) targets)"

section \<open>Commands\<close>

definition dnf_local_transaction_command ::
  "string \<Rightarrow> bool \<Rightarrow> string list \<Rightarrow> string list \<Rightarrow> string list \<Rightarrow> string list \<Rightarrow> string list" where
  "dnf_local_transaction_command script apply restore_paths remove_specs expected_installs
     expected_removals =
     [''python3'', ''-I'', ''-c'', script, if apply then ''--apply'' else ''--check'']
     @ restore_paths @ [''--remove''] @ remove_specs @ [''--expect-install''] @ expected_installs
     @ [''--expect-remove''] @ expected_removals"

definition remove_commands ::
  "string option \<Rightarrow> string list \<Rightarrow> bool \<Rightarrow> rollback_error + string list list" where
  "remove_commands pm packages exact =
     (if packages = [] then Inr []
      else case pm of
        None \<Rightarrow> Inr []
      | Some m \<Rightarrow>
          if m = ''apt-get'' then Inl AptRemovalAssertion
          else if m = ''dnf'' \<or> m = ''yum'' then Inr
            [[m, ''--disablerepo=*'', ''--disableplugin=versionlock'', ''--noautoremove'',
              if exact then ''remove-nevra'' else ''remove-n'', ''-y''] @ packages]
          else if m = ''zypper'' then Inl ZypperRemovalAssertion
          else Inr [])"

definition apt_install_prefix :: "string list" where
  "apt_install_prefix =
     [''apt-get'', ''install'', ''-y'', ''--allow-change-held-packages'', ''--allow-downgrades'',
      ''--no-download'', ''--no-install-recommends'', ''--purge'']"

definition zypper_install_prefix :: "string list" where
  "zypper_install_prefix =
     [''zypper'', ''--non-interactive'', ''--disable-repositories'', ''--no-refresh'', ''install'',
      ''--oldpackage'', ''--no-recommends'', ''--no-force-resolution'']"

definition restorable_packages :: "package_info list \<Rightarrow> package_info list" where
  "restorable_packages packages =
     filter (\<lambda>p. pi_installed p \<and> truthy (pi_version p) \<and> interesting_package (pi_name p)) packages"

text \<open>\<open>str(Path(snapshot_path).parent / directory / filename)\<close>\<close>

definition payload_path :: "string \<Rightarrow> string \<Rightarrow> string \<Rightarrow> string" where
  "payload_path snapshot_path directory filename =
     (case rpartition_at CHR ''/'' snapshot_path of
        (parent, True, _) \<Rightarrow> parent @ ''/'' @ directory @ ''/'' @ filename
      | (_, False, _) \<Rightarrow> directory @ ''/'' @ filename)"

text \<open>The payload of an identity; of several with one identity a dictionary keeps the last.\<close>

definition payload_of ::
  "package_payload_bundle \<Rightarrow> package_info \<Rightarrow> package_payload option" where
  "payload_of bundle p =
     map_of (rev (map (\<lambda>x. ((pp_name x, pp_architecture x, pp_epoch x, pp_version x), x))
                    (filter (\<lambda>x. ''baseline'' \<in> set (pp_roles x)) (ppb_packages bundle))))
       (pi_name p, or_empty (pi_architecture p), pi_epoch p, or_empty (pi_version p))"

definition local_payload ::
  "package_payload_bundle \<Rightarrow> string \<Rightarrow> package_info \<Rightarrow> rollback_error + string" where
  "local_payload bundle snapshot_path p =
     (case payload_of bundle p of
        None \<Rightarrow> Inl (ManifestOmitsIdentity (format_package_identity
          (pi_name p, Some (or_empty (pi_architecture p)), pi_epoch p,
           Some (or_empty (pi_version p)))))
      | Some x \<Rightarrow> Inr (payload_path snapshot_path (ppb_directory bundle) (pp_filename x)))"

definition local_payloads ::
  "package_info list \<Rightarrow> string option \<Rightarrow> package_payload_bundle option
   \<Rightarrow> rollback_error + string list option" where
  "local_payloads installed snapshot_path bundle =
     (case bundle of
        Some b \<Rightarrow>
          (case snapshot_path of
             None \<Rightarrow> Inl PayloadsRequirePath
           | Some path \<Rightarrow> bind_r (map_r (local_payload b path) installed) (\<lambda>paths. Inr (Some paths)))
      | None \<Rightarrow> (case snapshot_path of Some _ \<Rightarrow> Inl NoRetainedPayloads | None \<Rightarrow> Inr None))"

definition manager_specs ::
  "string \<Rightarrow> (package_info \<Rightarrow> string) \<Rightarrow> package_info list \<Rightarrow> string list option \<Rightarrow> string list" where
  "manager_specs manager spec installed payloads =
     (case payloads of
        Some paths \<Rightarrow> paths
      | None \<Rightarrow> map spec (filter (\<lambda>p. pi_manager p = Some manager) installed))"

definition dnf_rollback_commands ::
  "string \<Rightarrow> string \<Rightarrow> package_info list \<Rightarrow> string list option \<Rightarrow> string list \<Rightarrow> bool
   \<Rightarrow> string list option \<Rightarrow> string list option \<Rightarrow> rollback_error + string list list" where
  "dnf_rollback_commands script m installed payloads remove_specs exact expected_installs
     expected_removals =
     (let specs = manager_specs ''rpm'' rpm_package_spec installed payloads
      in if payloads \<noteq> None then
           (let installs = sort (case expected_installs of Some xs \<Rightarrow> xs
                  | None \<Rightarrow> map rpm_package_spec (filter (\<lambda>p. pi_manager p = Some ''rpm'') installed));
                removals = sort (case expected_removals of Some xs \<Rightarrow> xs | None \<Rightarrow> remove_specs)
            in Inr (if specs \<noteq> [] \<or> remove_specs \<noteq> []
                    then [dnf_local_transaction_command script True specs remove_specs installs removals]
                    else []))
         else bind_r (remove_commands (Some m) remove_specs exact) (\<lambda>removal.
           Inr ((if specs \<noteq> [] then
                   [[m, ''--disablerepo=*'', ''--disableplugin=versionlock'', ''--noautoremove'',
                     ''--setopt=localpkg_gpgcheck=1'', ''install-nevra'', ''-y''] @ specs]
                 else []) @ removal)))"

definition rollback_commands ::
  "string \<Rightarrow> package_info list \<Rightarrow> string option \<Rightarrow> string list \<Rightarrow> bool \<Rightarrow> string option
   \<Rightarrow> package_payload_bundle option \<Rightarrow> string list option \<Rightarrow> string list option
   \<Rightarrow> rollback_error + string list list" where
  "rollback_commands script packages pm remove_packages exact snapshot_path bundle
     expected_installs expected_removals =
     (let installed = restorable_packages packages;
          remove_specs = sorted_set remove_packages
      in bind_r (local_payloads installed snapshot_path bundle) (\<lambda>payloads.
        case pm of
          None \<Rightarrow> Inr []
        | Some m \<Rightarrow>
            if m = ''apt-get'' then
              (let operands = manager_specs ''apt'' apt_package_spec installed payloads
                     @ map (\<lambda>p. p @ ''-'') remove_specs
               in Inr (if operands \<noteq> [] then [apt_install_prefix @ operands] else []))
            else if m = ''dnf'' \<or> m = ''yum'' then
              dnf_rollback_commands script m installed payloads remove_specs exact
                expected_installs expected_removals
            else if m = ''zypper'' then
              (let operands = manager_specs ''rpm'' zypper_package_spec installed payloads
                     @ map (\<lambda>p. ''-'' @ p) remove_specs
               in Inr (if operands \<noteq> [] then [zypper_install_prefix @ [''--''] @ operands] else []))
            else Inr []))"

section \<open>The delta between a snapshot and the host\<close>

definition package_slot :: "package_info \<Rightarrow> string \<times> string option" where
  "package_slot p = (pi_name p, pi_architecture p)"

definition installed_packages :: "package_info list \<Rightarrow> package_info list" where
  "installed_packages = filter pi_installed"

definition packages_to_restore :: "package_info list \<Rightarrow> package_info list \<Rightarrow> package_info list" where
  "packages_to_restore baseline current =
     filter (\<lambda>p. pi_installed p \<and> truthy (pi_version p)
         \<and> package_state_identity p \<notin> set (map package_state_identity (installed_packages current)))
       baseline"

definition added_packages :: "package_info list \<Rightarrow> package_info list \<Rightarrow> package_info list" where
  "added_packages baseline current =
     (let baseline_states = set (map package_state_identity (installed_packages baseline));
          baseline_slots = set (map package_slot (installed_packages baseline));
          current_baseline_slots = set (map package_slot
            (filter (\<lambda>p. package_state_identity p \<in> baseline_states) (installed_packages current)))
      in filter (\<lambda>p. pi_installed p \<and> package_state_identity p \<notin> baseline_states
            \<and> (package_slot p \<notin> baseline_slots \<or> package_slot p \<in> current_baseline_slots)) current)"

definition restored_rpm_packages :: "package_info list \<Rightarrow> package_info list" where
  "restored_rpm_packages restore =
     filter (\<lambda>p. pi_installed p \<and> pi_manager p = Some ''rpm'' \<and> truthy (pi_version p)
         \<and> interesting_package (pi_name p)) restore"

definition expected_rpm_removals ::
  "package_info list \<Rightarrow> package_info list \<Rightarrow> package_info list \<Rightarrow> string list \<Rightarrow> string list" where
  "expected_rpm_removals baseline current restore remove_packages =
     (let baseline_states = set (map package_state_identity (installed_packages baseline));
          restore_slots = set (map package_slot (restored_rpm_packages restore))
      in sorted_set (remove_packages
           @ map rpm_package_spec
               (filter (\<lambda>p. pi_installed p \<and> pi_manager p = Some ''rpm'' \<and> truthy (pi_version p)
                    \<and> package_slot p \<in> restore_slots
                    \<and> package_state_identity p \<notin> baseline_states) current)))"

definition rollback_package_commands ::
  "string \<Rightarrow> rollback_snapshot \<Rightarrow> host_audit option \<Rightarrow> rollback_error + string list list" where
  "rollback_package_commands script snapshot current_audit =
     (case current_audit of
        None \<Rightarrow>
          rollback_commands script (rs_packages snapshot) (rs_package_manager snapshot)
            (rs_introduced_packages snapshot) False (rs_path snapshot) (rs_package_payloads snapshot)
            None None
      | Some audit \<Rightarrow>
         (let current = ha_packages audit;
              baseline = rs_packages snapshot;
              restore = packages_to_restore baseline current;
              remove_packages = package_removal_specs (added_packages baseline current)
                (rs_package_manager snapshot);
              rpm = rs_package_manager snapshot \<in> {Some ''dnf'', Some ''yum''}
          in rollback_commands script restore (rs_package_manager snapshot) remove_packages True
               (rs_path snapshot) (rs_package_payloads snapshot)
               (if rpm then Some (sort (map rpm_package_spec (restored_rpm_packages restore))) else None)
               (if rpm then Some (expected_rpm_removals baseline current restore remove_packages)
                else None)))"

section \<open>The allow-list\<close>

definition is_spec_char :: "char \<Rightarrow> bool" where
  "is_spec_char c \<longleftrightarrow> is_alnum c \<or> c \<in> set ''.+_:-''"

definition is_version_char :: "char \<Rightarrow> bool" where
  "is_version_char c \<longleftrightarrow> is_alnum c \<or> c \<in> set ''.+:~_-''"

definition spec_word :: "(char \<Rightarrow> bool) \<Rightarrow> string \<Rightarrow> bool" where
  "spec_word ok s \<longleftrightarrow> (case s of [] \<Rightarrow> False | c # cs \<Rightarrow> is_alnum c \<and> list_all ok cs)"

text \<open>\<open>re.match\<close> with \<open>^[A-Za-z0-9][A-Za-z0-9.+_:-]*(?:=[A-Za-z0-9][A-Za-z0-9.+:~_-]*)?$\<close>\<close>

definition valid_package_spec :: "string \<Rightarrow> bool" where
  "valid_package_spec spec \<longleftrightarrow>
     \<not> startswith spec ''-''
     \<and> match_dollar (\<lambda>s. case partition_at CHR ''='' s of
          (name, found, version) \<Rightarrow>
            spec_word is_spec_char name \<and> (found \<longrightarrow> spec_word is_version_char version)) spec"

definition valid_package_specs :: "string list \<Rightarrow> bool" where
  "valid_package_specs specs \<longleftrightarrow> specs \<noteq> [] \<and> list_all valid_package_spec specs"

text \<open>
  An absolute path equal to its normal form has a single leading slash and components that are
  neither empty nor \<open>.\<close> nor \<open>..\<close>; its parent's name is the component before the last.
\<close>

definition plain_component :: "string \<Rightarrow> bool" where
  "plain_component c \<longleftrightarrow> c \<noteq> [] \<and> c \<noteq> ''.'' \<and> c \<noteq> ''..''"

definition payload_filename :: "string \<Rightarrow> string \<Rightarrow> bool" where
  "payload_filename extension name \<longleftrightarrow>
     hex_of_length 64 (take 64 name) \<and> drop 64 name = ''.'' @ extension"

definition valid_local_payload_path :: "string \<Rightarrow> string \<Rightarrow> bool" where
  "valid_local_payload_path extension value \<longleftrightarrow>
     (case split_on CHR ''/'' value of
        [] # components \<Rightarrow>
          list_all plain_component components
          \<and> (case rev components of
               filename # parent # _ \<Rightarrow>
                 endswith parent ''.payloads'' \<and> payload_filename extension filename
             | _ \<Rightarrow> False)
      | _ \<Rightarrow> False)"

text \<open>\<open>list.index(x, start)\<close> and the slices around it: what is before the first marker and after.\<close>

definition cut_at :: "string \<Rightarrow> string list \<Rightarrow> (string list \<times> string list) option" where
  "cut_at marker xs =
     (if marker \<in> set xs
      then Some (takeWhile (\<lambda>x. x \<noteq> marker) xs, tl (dropWhile (\<lambda>x. x \<noteq> marker) xs))
      else None)"

definition allowed_dnf_transaction :: "string list \<Rightarrow> bool" where
  "allowed_dnf_transaction command \<longleftrightarrow>
     (case cut_at ''--remove'' (drop 5 command) of
        None \<Rightarrow> False
      | Some (restore_paths, rest) \<Rightarrow>
     (case cut_at ''--expect-install'' rest of
        None \<Rightarrow> False
      | Some (remove_specs, rest') \<Rightarrow>
     (case cut_at ''--expect-remove'' rest' of
        None \<Rightarrow> False
      | Some (expected_installs, expected_removals) \<Rightarrow>
          count_list command ''--remove'' = 1
          \<and> count_list command ''--expect-install'' = 1
          \<and> count_list command ''--expect-remove'' = 1
          \<and> (restore_paths \<noteq> [] \<or> remove_specs \<noteq> [])
          \<and> length restore_paths = length expected_installs
          \<and> distinct restore_paths \<and> distinct remove_specs
          \<and> distinct expected_installs \<and> distinct expected_removals
          \<and> list_all (valid_local_payload_path ''rpm'') restore_paths
          \<and> (remove_specs = [] \<or> valid_package_specs remove_specs)
          \<and> (expected_installs = [] \<or> valid_package_specs expected_installs)
          \<and> (expected_removals = [] \<or> valid_package_specs expected_removals))))"

definition is_rpm_manager :: "string list \<Rightarrow> bool" where
  "is_rpm_manager command \<longleftrightarrow> take 1 command \<in> {[''dnf''], [''yum'']}"

definition allowed_rollback_command :: "string \<Rightarrow> string list \<Rightarrow> bool" where
  "allowed_rollback_command script command \<longleftrightarrow>
     (if take 5 command = [''python3'', ''-I'', ''-c'', script, ''--apply'']
        then allowed_dnf_transaction command
      else if take 8 command = apt_install_prefix
        then drop 8 command \<noteq> []
          \<and> list_all (\<lambda>operand. if endswith operand ''-''
                then valid_package_spec (butlast operand)
                else valid_local_payload_path ''deb'' operand) (drop 8 command)
      else if 8 \<le> length command \<and> is_rpm_manager command
              \<and> take 6 (drop 1 command) =
                  [''--disablerepo=*'', ''--disableplugin=versionlock'', ''--noautoremove'',
                   ''--setopt=localpkg_gpgcheck=1'', ''install'', ''-y'']
        then list_all (valid_local_payload_path ''rpm'') (drop 7 command)
      else if 7 \<le> length command \<and> is_rpm_manager command
              \<and> take 5 (drop 1 command) =
                  [''--disablerepo=*'', ''--disableplugin=versionlock'', ''--noautoremove'',
                   ''remove-nevra'', ''-y'']
        then valid_package_specs (drop 6 command)
      else if 7 \<le> length command \<and> is_rpm_manager command
              \<and> take 5 (drop 1 command) =
                  [''--disablerepo=*'', ''--disableplugin=versionlock'', ''--noautoremove'',
                   ''remove-n'', ''-y'']
        then valid_package_specs (drop 6 command)
      else if take 8 command = zypper_install_prefix
        then 10 \<le> length command \<and> take 1 (drop 8 command) = [''--'']
          \<and> list_all (\<lambda>operand. if startswith operand ''-''
                then valid_package_spec (drop 1 operand)
                else valid_local_payload_path ''rpm'' operand) (drop 9 command)
      else False)"

section \<open>Loading the stored commands\<close>

definition max_snapshot_commands :: nat where "max_snapshot_commands = 256"
definition max_command_parts :: nat where "max_command_parts = 4096"

definition load_command :: "string \<Rightarrow> nat \<Rightarrow> json \<Rightarrow> rollback_error + string list" where
  "load_command script index v =
     (case v of
        JList (x # xs) \<Rightarrow>
          if max_command_parts < length (x # xs) then Inl (CommandTooLong index)
          else if \<not> list_all is_nonempty_jstr (x # xs) then Inl (CommandEntriesInvalid index)
          else if \<not> allowed_rollback_command script (map the_jstr (x # xs))
            then Inl (CommandUnsupported index)
          else Inr (map the_jstr (x # xs))
      | _ \<Rightarrow> Inl (CommandNotArray index))"

definition load_commands :: "string \<Rightarrow> json \<Rightarrow> rollback_error + string list list" where
  "load_commands script v =
     (case v of
        JList commands \<Rightarrow>
          if max_snapshot_commands < length commands then Inl TooManyCommands
          else map_r (\<lambda>(i, c). load_command script i c) (enumerate 0 commands)
      | _ \<Rightarrow> Inl CommandsNotArray)"

definition required_string :: "json \<Rightarrow> string \<Rightarrow> rollback_error + string" where
  "required_string v name =
     (if is_nonempty_jstr v then Inr (the_jstr v) else Inl (NotRequiredString name))"

definition optional_string :: "json \<Rightarrow> string \<Rightarrow> rollback_error + string option" where
  "optional_string v name =
     (if v = JNull then Inr None
      else if is_nonempty_jstr v then Inr (Some (the_jstr v)) else Inl (NotOptionalString name))"

definition optional_package_string :: "json \<Rightarrow> string \<Rightarrow> rollback_error + string option" where
  "optional_package_string v name = (if v = JStr [] then Inr None else optional_string v name)"

definition required_boolean :: "json \<Rightarrow> string \<Rightarrow> rollback_error + bool" where
  "required_boolean v name = (case v of JBool b \<Rightarrow> Inr b | _ \<Rightarrow> Inl (NotBoolean name))"

definition optional_boolean :: "json \<Rightarrow> string \<Rightarrow> rollback_error + bool option" where
  "optional_boolean v name =
     (if v = JNull then Inr None else map_sum id Some (required_boolean v name))"

end
