(* ===== verification/RollbackUnits.thy ===== *)
theory RollbackUnits
  imports ManagedFiles RollbackCommands
begin

text \<open>
  The launchers during a rollback (\<open>nvidia_converge/rollback.py\<close>, with the reader of
  \<open>systemctl show\<close> of \<open>audit.py\<close>): the consistency of their recorded states, the quarantine that
  masks and stops one, and the three steps that give it back, of which each names one unit.
\<close>

section \<open>The transactional units\<close>

definition snapshot_unit_file_states :: "string list" where
  "snapshot_unit_file_states = [''enabled'', ''disabled'', ''static'', ''masked'', ''not-found'']"

definition docker_service_unit :: string where "docker_service_unit = ''docker.service''"
definition nvidia_persistenced_unit :: string where
  "nvidia_persistenced_unit = ''nvidia-persistenced.service''"
definition fabric_manager_unit :: string where
  "fabric_manager_unit = ''nvidia-fabricmanager.service''"

definition service_stop_order :: "string list" where
  "service_stop_order =
     [docker_socket_unit, docker_service_unit, nvidia_persistenced_unit, fabric_manager_unit]"

definition service_activity_restore_order :: "string list" where
  "service_activity_restore_order =
     [fabric_manager_unit, nvidia_persistenced_unit, docker_service_unit, docker_socket_unit]"

text \<open>Of each unit, in the stop order: active, enabled, and the state of its unit file.\<close>

record unit_state =
  us_active :: "bool option"
  us_enabled :: "bool option"
  us_file_state :: "string option"

type_synonym unit_states = "(string \<times> unit_state) list"

definition audit_units :: "host_audit \<Rightarrow> unit_states" where
  "audit_units a =
     [(docker_socket_unit, \<lparr>us_active = ha_docker_socket_active a,
        us_enabled = ha_docker_socket_enabled a, us_file_state = ha_docker_socket_unit_file_state a\<rparr>),
      (docker_service_unit, \<lparr>us_active = ha_docker_service_active a,
        us_enabled = ha_docker_service_enabled a, us_file_state = ha_docker_service_unit_file_state a\<rparr>),
      (nvidia_persistenced_unit, \<lparr>us_active = ha_nvidia_persistenced_active a,
        us_enabled = ha_nvidia_persistenced_enabled a,
        us_file_state = ha_nvidia_persistenced_unit_file_state a\<rparr>),
      (fabric_manager_unit, \<lparr>us_active = ha_fabric_manager_active a,
        us_enabled = ha_fabric_manager_enabled a, us_file_state = ha_fabric_manager_unit_file_state a\<rparr>)]"

definition snapshot_units :: "rollback_snapshot \<Rightarrow> unit_states" where
  "snapshot_units s =
     [(docker_socket_unit, \<lparr>us_active = rs_docker_socket_active s,
        us_enabled = rs_docker_socket_enabled s, us_file_state = rs_docker_socket_unit_file_state s\<rparr>),
      (docker_service_unit, \<lparr>us_active = rs_docker_service_active s,
        us_enabled = rs_docker_service_enabled s, us_file_state = rs_docker_service_unit_file_state s\<rparr>),
      (nvidia_persistenced_unit, \<lparr>us_active = rs_nvidia_persistenced_active s,
        us_enabled = rs_nvidia_persistenced_enabled s,
        us_file_state = rs_nvidia_persistenced_unit_file_state s\<rparr>),
      (fabric_manager_unit, \<lparr>us_active = rs_fabric_manager_active s,
        us_enabled = rs_fabric_manager_enabled s, us_file_state = rs_fabric_manager_unit_file_state s\<rparr>)]"

definition unknown_unit :: unit_state where
  "unknown_unit = \<lparr>us_active = None, us_enabled = None, us_file_state = None\<rparr>"

definition unit_of :: "unit_states \<Rightarrow> string \<Rightarrow> unit_state" where
  "unit_of us u = (case map_of us u of Some x \<Rightarrow> x | None \<Rightarrow> unknown_unit)"

definition unit_state_consistency_error :: "string \<Rightarrow> unit_state \<Rightarrow> string option" where
  "unit_state_consistency_error u x =
     (if us_file_state x \<notin> Some ` set snapshot_unit_file_states
        then Some (u @ '' has unsupported unit-file state '' @ opt_repr (us_file_state x))
      else if us_active x = None \<or> us_enabled x = None
        then Some (u @ '' has unknown active or enabled state'')
      else if us_enabled x \<noteq> Some (us_file_state x = Some ''enabled'')
        then Some (u @ '' enabled state contradicts '' @ opt_repr (us_file_state x))
      else if us_file_state x \<in> {Some ''masked'', Some ''not-found''} \<and> us_active x = Some True
        then Some (u @ '' cannot be active while '' @ opt_text (us_file_state x))
      else None)"

fun units_consistency_error :: "unit_states \<Rightarrow> string option" where
  "units_consistency_error [] = None"
| "units_consistency_error ((u, x) # us) =
     (case unit_state_consistency_error u x of Some e \<Rightarrow> Some e | None \<Rightarrow> units_consistency_error us)"

definition service_state_consistency_error :: "host_audit \<Rightarrow> string option" where
  "service_state_consistency_error a = units_consistency_error (audit_units a)"

definition snapshot_service_state_consistency_error :: "rollback_snapshot \<Rightarrow> string option" where
  "snapshot_service_state_consistency_error s = units_consistency_error (snapshot_units s)"

section \<open>Observing a unit\<close>

definition output_truncated :: string where "output_truncated = ''[output truncated:''"

fun strict_properties :: "properties \<Rightarrow> string list \<Rightarrow> properties option" where
  "strict_properties props [] = Some props"
| "strict_properties props (line # lines) =
     (case partition_at CHR ''='' line of
        (key, separator, value) \<Rightarrow>
          if \<not> separator \<or> key \<in> set (keys props) then None
          else strict_properties (props @ [(key, value)]) lines)"

definition state_properties :: "string list" where
  "state_properties = [''Id'', ''LoadState'', ''ActiveState'', ''UnitFileState'']"

definition observed_properties :: "command_result \<Rightarrow> properties option" where
  "observed_properties r =
     (if cr_returncode r \<noteq> Some 0 \<or> contains output_truncated (cr_stdout r)
         \<or> contains output_truncated (cr_stderr r) then None
      else case strict_properties [] (splitlines (cr_stdout r)) of
        None \<Rightarrow> None
      | Some props \<Rightarrow> if set (keys props) = set state_properties then Some props else None)"

definition restorable_unit_file_states :: "string list" where
  "restorable_unit_file_states = [''enabled'', ''disabled'', ''static'', ''masked'']"

definition parse_service_state :: "command_result \<Rightarrow> string \<Rightarrow> unit_state" where
  "parse_service_state r u =
     (case observed_properties r of
        None \<Rightarrow> unknown_unit
      | Some props \<Rightarrow>
         (let load_state = pval props ''LoadState''; active_state = pval props ''ActiveState'';
              file_state = pval props ''UnitFileState'';
              active = (if active_state = ''active'' then Some True
                else if active_state \<in> {''inactive'', ''failed''} then Some False else None)
          in if pval props ''Id'' \<noteq> u then unknown_unit
             else if load_state = ''not-found'' then
               (if active_state \<noteq> ''inactive'' \<or> file_state \<noteq> [] then unknown_unit
                else \<lparr>us_active = Some False, us_enabled = Some False, us_file_state = Some ''not-found''\<rparr>)
             else if load_state \<notin> {''loaded'', ''masked''} then unknown_unit
             else if file_state \<notin> set restorable_unit_file_states then unknown_unit
             else if load_state = ''masked'' \<and> file_state \<noteq> ''masked'' then unknown_unit
             else if load_state = ''loaded'' \<and> file_state = ''masked'' then unknown_unit
             else if file_state = ''masked'' \<and> active \<noteq> Some False then unknown_unit
             else \<lparr>us_active = active, us_enabled = Some (file_state = ''enabled''),
                   us_file_state = Some file_state\<rparr>))"

definition parse_masked_unit_file_state :: "command_result \<Rightarrow> string \<Rightarrow> unit_state option" where
  "parse_masked_unit_file_state r u =
     (case observed_properties r of
        None \<Rightarrow> None
      | Some props \<Rightarrow>
          if pval props ''Id'' \<noteq> u \<or> pval props ''LoadState'' \<notin> {''loaded'', ''masked''}
             \<or> pval props ''UnitFileState'' \<noteq> ''masked'' then None
          else if pval props ''ActiveState'' = ''active'' then
            Some \<lparr>us_active = Some True, us_enabled = Some False, us_file_state = Some ''masked''\<rparr>
          else if pval props ''ActiveState'' \<in> {''inactive'', ''failed''} then
            Some \<lparr>us_active = Some False, us_enabled = Some False, us_file_state = Some ''masked''\<rparr>
          else None)"

definition judge_unit_state :: "command_result \<Rightarrow> string \<Rightarrow> unit_state" where
  "judge_unit_state r u =
     (let x = parse_service_state r u
      in if us_active x = None
         then (case parse_masked_unit_file_state r u of Some y \<Rightarrow> y | None \<Rightarrow> x) else x)"

definition observe_service_state ::
  "('w, 'r) runner_scheme \<Rightarrow> string \<Rightarrow> ('w, 'z, command_result \<times> unit_state) action" where
  "observe_service_state R u = do {
     r \<leftarrow> run_known R False ''systemctl''
       [''show'', ''--no-pager'', ''--property=Id'', ''--property=LoadState'',
        ''--property=ActiveState'', ''--property=UnitFileState'', u];
     give (r, judge_unit_state r u)
   }"

definition systemctl ::
  "('w, 'r) runner_scheme \<Rightarrow> string list \<Rightarrow> string \<Rightarrow> ('w, 'z, command_result) action" where
  "systemctl R verbs u = run_known R True ''systemctl'' (verbs @ [u])"

section \<open>Quarantine\<close>

datatype launcher_identity =
    SocketIdentity docker_socket_identity
  | ServiceIdentity gpu_service_identity

definition quarantine_failure :: "string \<Rightarrow> string \<Rightarrow> ('w, 'z, command_result) action" where
  "quarantine_failure u text = report_result
     (command_result_of [''rollback-precondition'', ''service-quarantine'', u] (Some 1) text)"

text \<open>The check before the mask: its results, the identity it binds, and its error.\<close>

definition trust_launcher ::
  "('w, 'r) unit_host_scheme \<Rightarrow> string \<Rightarrow> bool
   \<Rightarrow> ('w, 'z, command_result list \<times> launcher_identity option \<times> string option) action" where
  "trust_launcher H u active =
     (if u = docker_socket_unit then do {
        (results, identity, error) \<leftarrow> validate_docker_socket_identity H True;
        give (results, map_option SocketIdentity identity, error)
      }
      else if active then do {
        (results, identity, error) \<leftarrow> validate_active_trusted_gpu_service_identity H u None;
        give (results, map_option ServiceIdentity identity, error)
      }
      else do {
        (results, error) \<leftarrow> validate_trusted_gpu_service_unit H u True;
        give (results, None, error)
      })"

text \<open>The check before the stop of a unit that is active behind its mask.\<close>

definition identity_failure :: "string \<Rightarrow> ('w, 'z, command_result list \<times> string option) action" where
  "identity_failure u =
     (let error = u @ '' became active without a pre-mask trusted identity''
      in do {
        failure \<leftarrow> report_result (command_result_of
          [''rollback-precondition'', ''service-process-identity'', u] (Some 1) error);
        give ([failure], Some error)
      })"

definition retrust_launcher ::
  "('w, 'r) unit_host_scheme \<Rightarrow> string \<Rightarrow> launcher_identity option
   \<Rightarrow> ('w, 'z, command_result list \<times> string option) action" where
  "retrust_launcher H u identity =
     (case identity of
        Some (SocketIdentity i) \<Rightarrow> revalidate_docker_socket_identity H i
      | Some (ServiceIdentity i) \<Rightarrow> revalidate_trusted_gpu_service_process_identity H i
      | None \<Rightarrow> identity_failure u)"

definition proves_quarantine :: "command_result \<Rightarrow> unit_state \<Rightarrow> bool" where
  "proves_quarantine r x \<longleftrightarrow>
     cr_returncode r = Some 0 \<and> us_active x = Some False \<and> us_file_state x = Some ''masked''"

definition conclude_quarantine ::
  "string \<Rightarrow> command_result list \<Rightarrow> command_result \<Rightarrow> unit_state \<Rightarrow> ('w, 'z, command_result list) action" where
  "conclude_quarantine u results r x =
     (if proves_quarantine r x then give results
      else do {
        failure \<leftarrow> quarantine_failure u
          ''fresh systemd state does not prove inactive/masked quarantine'';
        give (results @ [failure])
      })"

definition stop_masked ::
  "('w, 'r) unit_host_scheme \<Rightarrow> string \<Rightarrow> launcher_identity option \<Rightarrow> command_result list
   \<Rightarrow> ('w, 'z, command_result list) action" where
  "stop_masked H u identity results = do {
     (checks, error) \<leftarrow> retrust_launcher H u identity;
     (if error \<noteq> None then give (results @ checks)
      else do {
        stopped \<leftarrow> systemctl H [''stop''] u;
        (if failed stopped then give (results @ checks @ [stopped])
         else do {
           (observation, x) \<leftarrow> observe_service_state H u;
           conclude_quarantine u (results @ checks @ [stopped, observation]) observation x
         })
      })
   }"

definition mask_trusted ::
  "('w, 'r) unit_host_scheme \<Rightarrow> string \<Rightarrow> launcher_identity option \<Rightarrow> command_result list
   \<Rightarrow> ('w, 'z, command_result list) action" where
  "mask_trusted H u identity results = do {
     masked \<leftarrow> systemctl H [''mask''] u;
     (if failed masked then give (results @ [masked])
      else do {
        (observation, x) \<leftarrow> observe_service_state H u;
        (if cr_returncode observation \<noteq> Some 0 \<or> us_active x = None \<or> us_file_state x \<noteq> Some ''masked''
         then do {
           failure \<leftarrow> quarantine_failure u (''fresh systemd state does not prove the launcher was masked ''
             @ ''before its activity transition'');
           give (results @ [masked, observation, failure])
         }
         else if us_active x = Some True then stop_masked H u identity (results @ [masked, observation])
         else conclude_quarantine u (results @ [masked, observation]) observation x)
      })
   }"

definition quarantine_service ::
  "('w, 'r) unit_host_scheme \<Rightarrow> string \<Rightarrow> ('w, 'z, command_result list) action" where
  "quarantine_service H u = do {
     (prior, x) \<leftarrow> observe_service_state H u;
     (if cr_returncode prior \<noteq> Some 0 \<or> us_active x = None \<or> us_file_state x = None then do {
        failure \<leftarrow> quarantine_failure u ''launcher state is incomplete before quarantine'';
        give [prior, failure]
      }
      else do {
        (checks, identity, error) \<leftarrow> trust_launcher H u (us_active x = Some True);
        (if error \<noteq> None then give (prior # checks)
         else mask_trusted H u identity (prior # checks))
      })
   }"

section \<open>Giving a unit back\<close>

definition validate_launcher_mutation ::
  "('w, 'r) unit_host_scheme \<Rightarrow> string \<Rightarrow> bool \<Rightarrow> ('w, 'z, command_result list \<times> bool) action" where
  "validate_launcher_mutation H u allow_masked =
     (if \<not> ru_apply H then give ([], True)
      else do {
        (results, error) \<leftarrow>
          (if u = docker_socket_unit then validate_docker_socket_unit H allow_masked
           else validate_trusted_gpu_service_unit H u allow_masked);
        give (results, error = None)
      })"

text \<open>A change of a launcher that is made only when the check before it passes.\<close>

definition launcher_mutation ::
  "('w, 'r) unit_host_scheme \<Rightarrow> string \<Rightarrow> bool \<Rightarrow> string list \<Rightarrow> ('w, 'z, command_result list) action" where
  "launcher_mutation H u allow_masked verbs = do {
     (results, trusted) \<leftarrow> validate_launcher_mutation H u allow_masked;
     (if \<not> trusted then give results
      else do {
        r \<leftarrow> systemctl H verbs u;
        give (results @ [r])
      })
   }"

definition unit_file_failure :: "string \<Rightarrow> string \<Rightarrow> command_result" where
  "unit_file_failure u text =
     command_result_of [''rollback-precondition'', ''service-unit-file-state'', u] (Some 1) text"

definition known_file_state :: "string option \<Rightarrow> bool" where
  "known_file_state x \<longleftrightarrow> x \<in> Some ` set snapshot_unit_file_states"

definition prepared_unit_file_state :: "string \<Rightarrow> string" where
  "prepared_unit_file_state target = (if target = ''enabled'' then ''disabled'' else target)"

definition prepared_file_state :: "string option \<Rightarrow> string option" where
  "prepared_file_state target = map_option prepared_unit_file_state target"

definition unmask_launcher ::
  "('w, 'r) unit_host_scheme \<Rightarrow> string \<Rightarrow> string option \<Rightarrow> ('w, 'z, command_result list) action" where
  "unmask_launcher H u target = do {
     (results, trusted) \<leftarrow> validate_launcher_mutation H u True;
     (if \<not> trusted then give results
      else do {
        r \<leftarrow> systemctl H [''unmask''] u;
        (if failed r then give (results @ [r])
         else if target \<in> {Some ''enabled'', Some ''disabled''} then do {
           more \<leftarrow> launcher_mutation H u False [''disable''];
           give (results @ [r] @ more)
         }
         else give (results @ [r]))
      })
   }"

definition prepare_service_for_activity ::
  "('w, 'r) unit_host_scheme \<Rightarrow> string \<Rightarrow> string option \<Rightarrow> string option
   \<Rightarrow> ('w, 'z, command_result list) action" where
  "prepare_service_for_activity H u target current =
     (if \<not> known_file_state target then
        give [unit_file_failure u (''cannot prepare '' @ u @ '': snapshot unit-file state ''
          @ opt_repr target @ '' is unknown or unsupported'')]
      else if \<not> known_file_state current then
        give [unit_file_failure u (''cannot prepare '' @ u @ '': current unit-file state ''
          @ opt_repr current @ '' is unknown or unsupported'')]
      else if current = prepared_file_state target then give []
      else if current \<noteq> Some ''masked'' then
        give [unit_file_failure u (''cannot prepare '' @ u @ '' from '' @ opt_repr current
          @ ''; the unit must remain transaction-masked'')]
      else if target = Some ''masked'' then give []
      else unmask_launcher H u target)"

definition restore_service_unit_file_state ::
  "('w, 'r) unit_host_scheme \<Rightarrow> string \<Rightarrow> string option \<Rightarrow> string option
   \<Rightarrow> ('w, 'z, command_result list) action" where
  "restore_service_unit_file_state H u target current =
     (if target = current then give []
      else if \<not> known_file_state target then
        give [unit_file_failure u (''cannot restore '' @ u @ '': snapshot unit-file state ''
          @ opt_repr target @ '' is unknown or unsupported'')]
      else if \<not> known_file_state current then
        give [unit_file_failure u (''cannot restore '' @ u @ '': current unit-file state ''
          @ opt_repr current @ '' is unknown or unsupported'')]
      else if current \<noteq> prepared_file_state target then
        give [unit_file_failure u (''cannot finalize '' @ u @ '' from '' @ opt_repr current
          @ ''; expected prepared state '' @ opt_repr (prepared_file_state target))]
      else if target \<noteq> Some ''enabled'' then give []
      else launcher_mutation H u False [''enable''])"

definition restore_service_activity ::
  "('w, 'r) unit_host_scheme \<Rightarrow> string \<Rightarrow> bool option \<Rightarrow> bool option
   \<Rightarrow> ('w, 'z, command_result list) action" where
  "restore_service_activity H u active current =
     (if active \<noteq> None \<and> active \<noteq> current
      then launcher_mutation H u False [if active = Some True then ''start'' else ''stop'']
      else give [])"

section \<open>The staged interface\<close>

definition scope_failure :: "string \<Rightarrow> command_result" where
  "scope_failure text =
     command_result_of [''rollback-precondition'', ''service-restore-scope''] (Some 1) text"

definition unsupported_units :: "string set \<Rightarrow> string list" where
  "unsupported_units units = sorted_list_of_set (units - set service_activity_restore_order)"

text \<open>\<open>step\<close> is what the request does with its one unit; \<open>what\<close> names it in the refusal.\<close>

definition single_unit ::
  "string \<Rightarrow> string set \<Rightarrow> (string \<Rightarrow> ('w, 'z, command_result list) action)
   \<Rightarrow> ('w, 'z, command_result list) action" where
  "single_unit what units step =
     (if card units \<noteq> 1 then
        give [scope_failure (''rollback service '' @ what @ '' must be committed one unit at a time'')]
      else if unsupported_units units \<noteq> [] then
        give [scope_failure (''unsupported rollback service unit(s): ''
          @ join '', '' (unsupported_units units))]
      else step (the_elem units))"

definition restore_one_activity ::
  "('w, 'r) unit_host_scheme \<Rightarrow> rollback_snapshot \<Rightarrow> host_audit \<Rightarrow> string
   \<Rightarrow> ('w, 'z, command_result list) action" where
  "restore_one_activity H snapshot audit u =
     (let target = unit_of (snapshot_units snapshot) u; current = unit_of (audit_units audit) u
      in if us_active target = None \<or> us_active current = None then
           give [command_result_of [''rollback-precondition'', ''service-state'', u] (Some 1)
             (''cannot restore '' @ u @ '' activity exactly: current or snapshot active state is unknown'')]
         else if \<not> known_file_state (us_file_state target) \<or> us_file_state current = None
                 \<or> us_file_state current \<noteq> prepared_file_state (us_file_state target) then
           give [unit_file_failure u (''cannot restore '' @ u
             @ '' activity until its current unit-file state is safely prepared for the rollback ''
             @ ''activity commit'')]
         else restore_service_activity H u (us_active target) (us_active current))"

definition restore_rollback_service_activity ::
  "('w, 'r) unit_host_scheme \<Rightarrow> rollback_snapshot \<Rightarrow> host_audit \<Rightarrow> string set
   \<Rightarrow> ('w, 'z, command_result list) action" where
  "restore_rollback_service_activity H snapshot audit units =
     single_unit ''activity'' units (restore_one_activity H snapshot audit)"

definition prepare_rollback_service_activity ::
  "('w, 'r) unit_host_scheme \<Rightarrow> rollback_snapshot \<Rightarrow> host_audit \<Rightarrow> string set
   \<Rightarrow> ('w, 'z, command_result list) action" where
  "prepare_rollback_service_activity H snapshot audit units =
     single_unit ''preparation'' units (\<lambda>u. prepare_service_for_activity H u
       (us_file_state (unit_of (snapshot_units snapshot) u))
       (us_file_state (unit_of (audit_units audit) u)))"

definition restore_rollback_service_enablement ::
  "('w, 'r) unit_host_scheme \<Rightarrow> rollback_snapshot \<Rightarrow> host_audit \<Rightarrow> string set
   \<Rightarrow> ('w, 'z, command_result list) action" where
  "restore_rollback_service_enablement H snapshot audit units =
     single_unit ''enablement'' units (\<lambda>u. restore_service_unit_file_state H u
       (us_file_state (unit_of (snapshot_units snapshot) u))
       (us_file_state (unit_of (audit_units audit) u)))"

end
