(* ===== verification/Mig.thy ===== *)
theory Mig
  imports Models
begin

text \<open>
  Multi-instance GPU geometry (\<open>nvidia_converge/mig.py\<close>): the one geometry the program
  creates, the geometries rollback can recreate, and the exact commands of both.
\<close>

definition normalize_profile :: "string \<Rightarrow> string" where
  "normalize_profile profile = lower (strip (removeprefix ''MIG '' profile))"

text \<open>
  The two patterns \<open>[1-9]\d*g\..+\<close> and \<open>[1-9]\d*c\.([1-9]\d*g\..+)\<close>, matched over the whole
  profile: the leading number and what follows the letter and the dot (\<open>.\<close> matches
  everything but a line feed).
\<close>

definition sliced_profile :: "char \<Rightarrow> string \<Rightarrow> (string \<times> string) option" where
  "sliced_profile letter s =
     (let ds = takeWhile is_digit s
      in (case dropWhile is_digit s of
            l # d # rest \<Rightarrow>
              if ds \<noteq> [] \<and> hd ds \<noteq> CHR ''0'' \<and> l = letter \<and> d = CHR ''.'' \<and> rest \<noteq> []
                 \<and> list_all (\<lambda>c. cp c \<noteq> 10) rest
              then Some (ds, rest) else None
          | _ \<Rightarrow> None))"

definition compute_instance_uses_full_gpu_instance :: "mig_gpu_instance \<Rightarrow> bool" where
  "compute_instance_uses_full_gpu_instance instance' =
     (case mgi_compute_instances instance' of
        [] \<Rightarrow> False
      | compute # _ \<Rightarrow>
          (let gpu_profile = normalize_profile (mgi_profile instance');
               compute_profile = normalize_profile (mci_profile compute)
           in compute_profile = gpu_profile \<or>
              (case (sliced_profile CHR ''g'' gpu_profile,
                     sliced_profile CHR ''c'' compute_profile) of
                 (Some (gpu_slices, _), Some (compute_slices, gpu)) \<Rightarrow>
                   sliced_profile CHR ''g'' gpu \<noteq> None \<and> gpu = gpu_profile
                   \<and> compute_slices = gpu_slices
               | _ \<Rightarrow> False)))"

text \<open>
  Both predicates test the lengths before they index, in the order of the code's
  conjunction, so no element is read that is not there.
\<close>

fun full_mig_geometry_matches :: "mig_gpu_instance list \<Rightarrow> string list \<Rightarrow> bool" where
  "full_mig_geometry_matches [g] [uuid] \<longleftrightarrow>
     mgi_gpu_uuid g = uuid
     \<and> mgi_profile_id g = 0
     \<and> mgi_placement_start g = 0
     \<and> length (mgi_compute_instances g) = 1
     \<and> compute_instance_uses_full_gpu_instance g"
| "full_mig_geometry_matches _ _ \<longleftrightarrow> False"

fun restorable_mig_geometry :: "mig_gpu_instance list \<Rightarrow> string list \<Rightarrow> bool" where
  "restorable_mig_geometry [] _ \<longleftrightarrow> True"
| "restorable_mig_geometry [g] [uuid] \<longleftrightarrow>
     mgi_gpu_uuid g = uuid
     \<and> length (mgi_compute_instances g) = 1
     \<and> compute_instance_uses_full_gpu_instance g"
| "restorable_mig_geometry _ _ \<longleftrightarrow> False"

datatype mig_error = NotSafelyRestorable

definition mig_geometry_create_command ::
  "string \<Rightarrow> mig_gpu_instance list \<Rightarrow> mig_error + string list option" where
  "mig_geometry_create_command gpu_uuid geometry =
     (case geometry of
        [] \<Rightarrow> Inr None
      | instance' # _ \<Rightarrow>
          if \<not> restorable_mig_geometry geometry [gpu_uuid] then Inl NotSafelyRestorable
          else Inr (Some
            [''nvidia-smi'', ''mig'', ''-i'', gpu_uuid, ''-cgi'',
             int_str (mgi_profile_id instance') @ '':'' @ int_str (mgi_placement_start instance'),
             ''-C'']))"

definition desired_full_mig_geometry_command :: "string \<Rightarrow> string list" where
  "desired_full_mig_geometry_command gpu_uuid =
     [''nvidia-smi'', ''mig'', ''-i'', gpu_uuid, ''-cgi'', ''0:0'', ''-C'']"

definition mig_geometry_destroy_commands :: "string \<Rightarrow> string list list" where
  "mig_geometry_destroy_commands gpu_uuid =
     [[''nvidia-smi'', ''mig'', ''-i'', gpu_uuid, ''-dci''],
      [''nvidia-smi'', ''mig'', ''-i'', gpu_uuid, ''-dgi'']]"

section \<open>Lemmas\<close>

lemma full_geometryE:
  assumes "full_mig_geometry_matches geometry uuids"
  obtains g uuid where "geometry = [g]" "uuids = [uuid]" "mgi_gpu_uuid g = uuid"
    "mgi_profile_id g = 0" "mgi_placement_start g = 0"
    "length (mgi_compute_instances g) = 1" "compute_instance_uses_full_gpu_instance g"
  using assms by (cases "(geometry, uuids)" rule: full_mig_geometry_matches.cases) auto

lemma restorable_nonemptyE:
  assumes "restorable_mig_geometry geometry uuids" and "geometry \<noteq> []"
  obtains g uuid where "geometry = [g]" "uuids = [uuid]" "mgi_gpu_uuid g = uuid"
    "length (mgi_compute_instances g) = 1" "compute_instance_uses_full_gpu_instance g"
  using assms by (cases "(geometry, uuids)" rule: restorable_mig_geometry.cases) auto

lemma full_geometry_restorable:
  "full_mig_geometry_matches geometry uuids \<Longrightarrow> restorable_mig_geometry geometry uuids"
  by (elim full_geometryE) simp

lemma int_str_0 [simp]: "int_str 0 = ''0''"
  by (simp add: int_str_def nat_str.simps)

text \<open>The recreation command of the desired geometry is the command that first created it.\<close>

lemma create_command_of_full:
  assumes "full_mig_geometry_matches geometry uuids"
  shows "mig_geometry_create_command (hd uuids) geometry
    = Inr (Some (desired_full_mig_geometry_command (hd uuids)))"
  using assms
  by (elim full_geometryE)
     (simp add: mig_geometry_create_command_def desired_full_mig_geometry_command_def)

end
