(* ===== verification/MigAudit.thy ===== *)
theory MigAudit
  imports RollbackUnits Mig
begin

text \<open>
  What the program reads about MIG: the modes of every GPU and the geometry of its GPU and
  compute instances (\<open>nvidia_converge/audit.py\<close>), and the fresh observation a rollback makes of both
  (\<open>nvidia_converge/rollback.py\<close>).  The tables of \<open>nvidia-smi\<close> are parsed row by row; \<open>\d\<close> is an
  ASCII digit.
\<close>

section \<open>Rows of a table\<close>

text \<open>
  A cursor is the text still to be matched.  The patterns never have to give back what a repeated
  class has taken, because the classes that follow each other are disjoint.
\<close>

type_synonym cursor = "string option"

definition then_word :: "string \<Rightarrow> cursor \<Rightarrow> cursor" where
  "then_word w cur = (case cur of None \<Rightarrow> None
     | Some s \<Rightarrow> if startswith s w then Some (drop (length w) s) else None)"

definition then_space :: "cursor \<Rightarrow> cursor" where
  "then_space cur = map_option lstrip cur"

definition then_space1 :: "cursor \<Rightarrow> cursor" where
  "then_space1 cur = (case cur of Some (c # s) \<Rightarrow> if py_isspace c then Some (lstrip s) else None
     | _ \<Rightarrow> None)"

definition then_run :: "(char \<Rightarrow> bool) \<Rightarrow> cursor \<Rightarrow> (string \<times> string) option" where
  "then_run p cur = (case cur of None \<Rightarrow> None
     | Some s \<Rightarrow> if takeWhile p s = [] then None else Some (takeWhile p s, dropWhile p s))"

definition profile_char :: "char \<Rightarrow> bool" where
  "profile_char c \<longleftrightarrow> is_alnum c \<or> c \<in> set ''.+_-''"

text \<open>\<open>| <n> MIG <profile> <profile id> <instance id> <start>:<size> |\<close>\<close>

definition gpu_instance_prefix :: "string \<Rightarrow> cursor" where
  "gpu_instance_prefix line =
     (case then_run is_digit (then_space (then_word ''|'' (Some line))) of
        None \<Rightarrow> None
      | Some (_, s) \<Rightarrow> then_space1 (then_word ''MIG'' (then_space1 (Some s))))"

definition gpu_instance_row :: "string \<Rightarrow> (string \<times> nat \<times> nat \<times> nat \<times> nat) option" where
  "gpu_instance_row line =
     (case then_run profile_char (gpu_instance_prefix line) of None \<Rightarrow> None | Some (profile, s1) \<Rightarrow>
      case then_run is_digit (then_space1 (Some s1)) of None \<Rightarrow> None | Some (profile_id, s2) \<Rightarrow>
      case then_run is_digit (then_space1 (Some s2)) of None \<Rightarrow> None | Some (instance_id, s3) \<Rightarrow>
      case then_run is_digit (then_space1 (Some s3)) of None \<Rightarrow> None | Some (start, s4) \<Rightarrow>
      case then_run is_digit (then_word '':'' (Some s4)) of None \<Rightarrow> None | Some (extent, s5) \<Rightarrow>
        if then_word ''|'' (then_space (Some s5)) = Some [] then
          Some (profile, digits_val profile_id, digits_val instance_id, digits_val start, digits_val extent)
        else None)"

text \<open>\<open>| <n> <GPU instance id> MIG <profile> <profile id> <instance id> |\<close>\<close>

definition compute_instance_prefix :: "string \<Rightarrow> (string \<times> string) option" where
  "compute_instance_prefix line =
     (case then_run is_digit (then_space (then_word ''|'' (Some line))) of None \<Rightarrow> None | Some (_, s1) \<Rightarrow>
      case then_run is_digit (then_space1 (Some s1)) of None \<Rightarrow> None | Some (gpu_instance_id, s2) \<Rightarrow>
      case then_space1 (then_word ''MIG'' (then_space1 (Some s2))) of None \<Rightarrow> None
      | Some s3 \<Rightarrow> Some (gpu_instance_id, s3))"

definition compute_instance_row :: "string \<Rightarrow> (nat \<times> string \<times> nat \<times> nat) option" where
  "compute_instance_row line =
     (case compute_instance_prefix line of None \<Rightarrow> None | Some (gpu_instance_id, s1) \<Rightarrow>
      case then_run profile_char (Some s1) of None \<Rightarrow> None | Some (profile, s2) \<Rightarrow>
      case then_run is_digit (then_space1 (Some s2)) of None \<Rightarrow> None | Some (profile_id, s3) \<Rightarrow>
      case then_run is_digit (then_space1 (Some s3)) of None \<Rightarrow> None | Some (instance_id, s4) \<Rightarrow>
        if then_word ''|'' (then_space (Some s4)) = Some [] then
          Some (digits_val gpu_instance_id, profile, digits_val profile_id, digits_val instance_id)
        else None)"

text \<open>\<open>re.search\<close>: a match that starts at some position.\<close>

fun found_in :: "(string \<Rightarrow> bool) \<Rightarrow> string \<Rightarrow> bool" where
  "found_in p [] \<longleftrightarrow> p []"
| "found_in p (c # s) \<longleftrightarrow> p (c # s) \<or> found_in p s"

fun spaced_words :: "string list \<Rightarrow> string \<Rightarrow> bool" where
  "spaced_words [] s \<longleftrightarrow> True"
| "spaced_words [w] s \<longleftrightarrow> startswith s w"
| "spaced_words (w # ws) s \<longleftrightarrow>
     (case then_space1 (then_word w (Some s)) of None \<Rightarrow> False | Some s' \<Rightarrow> spaced_words ws s')"

definition parse_mig_gpu_instances :: "string \<Rightarrow> string \<Rightarrow> (nat \<times> mig_gpu_instance) list option" where
  "parse_mig_gpu_instances output gpu_uuid =
     (if found_in (spaced_words [''no'', ''gpu'', ''instances'', ''found'']) (lower output) then Some []
      else
       (let candidates = map strip
              (filter (found_in (\<lambda>s. gpu_instance_prefix s \<noteq> None)) (splitlines output));
            rows = map gpu_instance_row candidates
        in if candidates = [] \<or> None \<in> set rows then None
           else
            (let parsed = List.map_filter id rows;
                 instances = map (\<lambda>(profile, profile_id, instance_id, start, extent). (instance_id,
                   \<lparr>mgi_gpu_uuid = gpu_uuid, mgi_profile = profile, mgi_profile_id = int profile_id,
                    mgi_placement_start = int start, mgi_placement_size = int extent,
                    mgi_compute_instances = []\<rparr>)) parsed
             in if \<not> distinct (map fst instances) then None
                else Some (sort_key (\<lambda>(i, g). mgi_placement_start g) (sort_key fst instances)))))"

definition parse_mig_compute_instances ::
  "string \<Rightarrow> (nat \<times> nat \<times> mig_compute_instance) list option" where
  "parse_mig_compute_instances output =
     (if found_in (spaced_words [''no'', ''compute'', ''instances'', ''found'']) (lower output) then Some []
      else
       (let candidates = map strip
              (filter (found_in (\<lambda>s. compute_instance_prefix s \<noteq> None)) (splitlines output));
            rows = map compute_instance_row candidates
        in if candidates = [] \<or> None \<in> set rows then None
           else
            (let instances = map (\<lambda>(gpu_instance_id, profile, profile_id, instance_id).
                   (gpu_instance_id, instance_id,
                    \<lparr>mci_profile = profile, mci_profile_id = int profile_id\<rparr>)) (List.map_filter id rows)
             in if \<not> distinct (map (\<lambda>(g, i, _). (g, i)) instances) then None
                else Some (sort_key fst (sort_key (\<lambda>(g, i, _). i) instances)))))"

section \<open>Device identifiers\<close>

definition uuid_char :: "char \<Rightarrow> bool" where
  "uuid_char c \<longleftrightarrow> is_digit c \<or> (65 \<le> cp c \<and> cp c \<le> 70) \<or> (97 \<le> cp c \<and> cp c \<le> 102) \<or> c = CHR ''-''"

definition device_uuid :: "string \<Rightarrow> string \<Rightarrow> bool" where
  "device_uuid kind s \<longleftrightarrow>
     startswith s kind \<and> 16 \<le> length (drop (length kind) s) \<and> list_all uuid_char (drop (length kind) s)"

text \<open>\<open>\<dots>(UUID: <kind>\<dots>)\<close> at the end of a line: what stands before the last parenthesis, and the UUID.\<close>

definition trailing_uuid :: "string \<Rightarrow> string \<Rightarrow> (string \<times> string) option" where
  "trailing_uuid kind line =
     (case rpartition_at CHR ''('' line of
        (prior, True, tail) \<Rightarrow>
         (case then_space (then_word ''UUID:'' (Some tail)) of
            None \<Rightarrow> None
          | Some s \<Rightarrow>
              if endswith s '')'' \<and> device_uuid kind (butlast s) then Some (prior, butlast s) else None)
      | _ \<Rightarrow> None)"

definition gpu_line :: "string \<Rightarrow> string option" where
  "gpu_line line =
     (case trailing_uuid ''GPU-'' line of
        None \<Rightarrow> None
      | Some (prior, uuid) \<Rightarrow>
     (case then_run is_digit (then_space1 (then_word ''GPU'' (Some prior))) of
        None \<Rightarrow> None
      | Some (_, s) \<Rightarrow> if startswith s '':'' then Some uuid else None))"

text \<open>\<open>MIG <anything> Device <n>: (UUID: <uuid>)\<close>, read from the right\<close>

definition mig_line :: "string \<Rightarrow> string option" where
  "mig_line line =
     (case trailing_uuid ''MIG-'' line of
        None \<Rightarrow> None
      | Some (prior, uuid) \<Rightarrow>
         (let left = rev (rstrip prior); digits = takeWhile is_digit (drop 1 left);
              rest = drop (length digits) (drop 1 left); spaced = dropWhile py_isspace rest;
              middle = drop 3 (rev (drop 6 spaced))
          in if take 1 left = '':'' \<and> digits \<noteq> [] \<and> spaced \<noteq> rest \<and> startswith spaced (rev ''Device'')
                \<and> startswith (rev (drop 6 spaced)) ''MIG''
                \<and> 3 \<le> length middle \<and> py_isspace (hd middle) \<and> py_isspace (last middle)
             then Some uuid else None))"

fun scan_devices ::
  "string list \<Rightarrow> string option \<Rightarrow> (string \<times> string) list \<Rightarrow> string list
   \<Rightarrow> (string \<times> string) list option" where
  "scan_devices gpu_uuids current found [] = Some found"
| "scan_devices gpu_uuids current found (raw # lines) =
     (let line = strip raw
      in case gpu_line line of
           Some uuid \<Rightarrow>
             if uuid \<notin> set gpu_uuids then None else scan_devices gpu_uuids (Some uuid) found lines
         | None \<Rightarrow>
        (case mig_line line of
           Some uuid \<Rightarrow>
            (case current of
               None \<Rightarrow> None
             | Some gpu \<Rightarrow>
                 if uuid \<in> set (map snd found) then None
                 else scan_devices gpu_uuids current (found @ [(gpu, uuid)]) lines)
         | None \<Rightarrow>
             if contains ''UUID:'' line \<and> contains ''MIG-'' line then None
             else scan_devices gpu_uuids current found lines))"

text \<open>The devices of each GPU, as pairs in the order they were printed.\<close>

definition parse_mig_device_uuids :: "string \<Rightarrow> string list \<Rightarrow> (string \<times> string) list option" where
  "parse_mig_device_uuids output gpu_uuids = scan_devices gpu_uuids None [] (splitlines output)"

section \<open>Modes\<close>

definition aggregate_mig_modes :: "string list \<Rightarrow> string option" where
  "aggregate_mig_modes modes =
     (let normalized = set (map (\<lambda>m. if m = ''n/a'' then ''disabled'' else m) modes)
      in if normalized = {''enabled''} then Some ''enabled''
         else if normalized = {''disabled''} then Some ''disabled''
         else if normalized = {''enabled'', ''disabled''} then Some ''mixed''
         else None)"

definition csv_rows :: "string \<Rightarrow> string list list" where
  "csv_rows output =
     map (\<lambda>line. map strip (split_on CHR '','' line)) (filter (\<lambda>line. strip line \<noteq> []) (splitlines output))"

definition mig_mode_text :: "string \<Rightarrow> bool" where
  "mig_mode_text s \<longleftrightarrow> lower s \<in> {''enabled'', ''disabled'', ''n/a''}"

definition mode_row_of :: "string \<Rightarrow> string list \<Rightarrow> bool" where
  "mode_row_of uuid row \<longleftrightarrow>
     (case row of [u, current, pending] \<Rightarrow> u = uuid \<and> mig_mode_text current \<and> mig_mode_text pending
      | _ \<Rightarrow> False)"

section \<open>Geometry\<close>

definition lists_instances :: "command_result \<Rightarrow> bool" where
  "lists_instances r \<longleftrightarrow> cr_returncode r = Some 0 \<and> \<not> contains output_truncated (cr_stdout r)"

definition with_compute_instances ::
  "(nat \<times> mig_gpu_instance) list \<Rightarrow> (nat \<times> nat \<times> mig_compute_instance) list \<Rightarrow> mig_gpu_instance list" where
  "with_compute_instances gpus computes =
     map (\<lambda>(i, g). g\<lparr>mgi_compute_instances := map (\<lambda>(_, _, c). c) (filter (\<lambda>(g, _, _). g = i) computes)\<rparr>) gpus"

text \<open>The instances of one GPU, or nothing, with the results of the commands it ran.\<close>

definition audit_gpu_geometry ::
  "('w, 'r) runner_scheme \<Rightarrow> string \<Rightarrow> ('w, 'z, command_result list \<times> mig_gpu_instance list option) action" where
  "audit_gpu_geometry R uuid = do {
     gpus \<leftarrow> run_known R False ''nvidia-smi'' [''mig'', ''-i'', uuid, ''-lgi''];
     (case (if lists_instances gpus then parse_mig_gpu_instances (cr_stdout gpus) uuid else None) of
        None \<Rightarrow> give ([gpus], None)
      | Some instances \<Rightarrow>
          if instances = [] then give ([gpus], Some [])
          else do {
            cis \<leftarrow> run_known R False ''nvidia-smi'' [''mig'', ''-i'', uuid, ''-lci''];
            (case (if lists_instances cis then parse_mig_compute_instances (cr_stdout cis) else None) of
               None \<Rightarrow> give ([gpus, cis], None)
             | Some computes \<Rightarrow>
                 if \<not> set (map fst computes) \<subseteq> set (map fst instances) then give ([gpus, cis], None)
                 else give ([gpus, cis], Some (with_compute_instances instances computes)))
          })
   }"

fun audit_geometries ::
  "('w, 'r) runner_scheme \<Rightarrow> string list \<Rightarrow> ('w, 'z, command_result list \<times> mig_gpu_instance list option) action" where
  "audit_geometries R [] = give ([], Some [])"
| "audit_geometries R (uuid # uuids) = do {
     (results, found) \<leftarrow> audit_gpu_geometry R uuid;
     (case found of
        None \<Rightarrow> give (results, None)
      | Some geometry \<Rightarrow> do {
          (more, rest) \<leftarrow> audit_geometries R uuids;
          give (results @ more, map_option ((@) geometry) rest)
        })
   }"

definition index_of :: "string list \<Rightarrow> string \<Rightarrow> nat" where
  "index_of xs x = length (takeWhile (\<lambda>y. y \<noteq> x) xs)"

definition sort_geometry :: "string list \<Rightarrow> mig_gpu_instance list \<Rightarrow> mig_gpu_instance list" where
  "sort_geometry uuids geometry =
     sort_key (\<lambda>g. index_of uuids (mgi_gpu_uuid g))
       (sort_key mgi_placement_start (sort_key mgi_profile_id geometry))"

record geometry_audit =
  ga_geometry :: "mig_gpu_instance list"
  ga_device_uuids :: "string list"
  ga_complete :: bool
  ga_results :: "command_result list"

definition no_geometry :: "bool \<Rightarrow> command_result list \<Rightarrow> geometry_audit" where
  "no_geometry complete results =
     \<lparr>ga_geometry = [], ga_device_uuids = [], ga_complete = complete, ga_results = results\<rparr>"

definition audit_mig_geometry ::
  "('w, 'r) runner_scheme \<Rightarrow> string option \<Rightarrow> string option \<Rightarrow> string list
   \<Rightarrow> ('w, 'z, geometry_audit) action" where
  "audit_mig_geometry R mode pending uuids =
     (if mode = Some ''disabled'' \<and> pending = Some ''disabled'' \<and> uuids \<noteq> [] then give (no_geometry True [])
      else if mode \<noteq> Some ''enabled'' \<or> pending \<noteq> Some ''enabled'' \<or> uuids = [] then give (no_geometry False [])
      else do {
        available \<leftarrow> exists_executable R ''nvidia-smi'';
        (if \<not> available then give (no_geometry False [])
         else do {
           (results, found) \<leftarrow> audit_geometries R uuids;
           (case found of
              None \<Rightarrow> give (no_geometry False results)
            | Some geometry \<Rightarrow> do {
                listed \<leftarrow> run_known R False ''nvidia-smi'' [''-L''];
                (case (if lists_instances listed then parse_mig_device_uuids (cr_stdout listed) uuids else None) of
                   None \<Rightarrow> give (no_geometry False (results @ [listed]))
                 | Some devices \<Rightarrow>
                    (let mig_uuids = concat (map (\<lambda>u. map snd (filter (\<lambda>d. fst d = u) devices)) uuids)
                     in if length mig_uuids \<noteq> sum_list (map (\<lambda>g. length (mgi_compute_instances g)) geometry)
                        then give (no_geometry False (results @ [listed]))
                        else give \<lparr>ga_geometry = sort_geometry uuids geometry, ga_device_uuids = mig_uuids,
                               ga_complete = True, ga_results = results @ [listed]\<rparr>))
              })
         })
      })"

section \<open>The fresh observation of a rollback\<close>

definition observe_rollback_mig_state ::
  "('w, 'r) runner_scheme \<Rightarrow> string list
   \<Rightarrow> ('w, 'z, command_result \<times> string option \<times> string option) action" where
  "observe_rollback_mig_state R expected = do {
     r \<leftarrow> run_known R False ''nvidia-smi''
       [''--query-gpu=uuid,mig.mode.current,mig.mode.pending'', ''--format=csv,noheader,nounits''];
     (let rows = csv_rows (cr_stdout r)
      in if cr_returncode r \<noteq> Some 0 \<or> contains output_truncated (cr_stdout r)
            \<or> contains output_truncated (cr_stderr r) then give (r, None, None)
         else if rows = [] \<or> \<not> list_all2 mode_row_of expected rows then give (r, None, None)
         else give (r, aggregate_mig_modes (map (\<lambda>row. lower (row ! 1)) rows),
                       aggregate_mig_modes (map (\<lambda>row. lower (row ! 2)) rows)))
   }"

record mig_observation =
  mo_results :: "command_result list"
  mo_current :: "string option"
  mo_pending :: "string option"
  mo_geometry :: "mig_gpu_instance list"
  mo_complete :: bool

definition fresh_rollback_mig_observation ::
  "('w, 'r) runner_scheme \<Rightarrow> string list \<Rightarrow> ('w, 'z, mig_observation) action" where
  "fresh_rollback_mig_observation R uuids = do {
     (r, current, pending) \<leftarrow> observe_rollback_mig_state R uuids;
     (if current = None \<or> pending = None then
        give \<lparr>mo_results = [r], mo_current = None, mo_pending = None, mo_geometry = [], mo_complete = False\<rparr>
      else do {
        g \<leftarrow> audit_mig_geometry R current pending uuids;
        give \<lparr>mo_results = r # ga_results g, mo_current = current, mo_pending = pending,
          mo_geometry = ga_geometry g, mo_complete = ga_complete g\<rparr>
      })
   }"

datatype mig_status = MigFailed | MigPendingReboot | MigStable

definition mig_failure :: "string list \<Rightarrow> string \<Rightarrow> ('w, 'z, command_result) action" where
  "mig_failure names text =
     report_result (command_result_of (''rollback-precondition'' # names) (Some 1) text)"

definition refresh_rollback_mig_state ::
  "('w, 'r) runner_scheme \<Rightarrow> rollback_snapshot \<Rightarrow> string
   \<Rightarrow> ('w, 'z, command_result list \<times> mig_status \<times> string option \<times> mig_gpu_instance list) action" where
  "refresh_rollback_mig_state R snapshot stage = do {
     o' \<leftarrow> fresh_rollback_mig_observation R (rs_gpu_uuids snapshot);
     (if mo_current o' = None \<or> mo_pending o' = None then do {
        failure \<leftarrow> mig_failure [''mig-observation'', stage]
          ''fresh UUID-bound MIG mode observation is incomplete'';
        give (mo_results o' @ [failure], MigFailed, None, [])
      }
      else if mo_current o' \<noteq> mo_pending o' then
        (if mo_pending o' = rs_mig_mode snapshot then do {
           marker \<leftarrow> report_result
             \<lparr>cr_command = [''rollback'', ''mig-reboot-pending''], cr_returncode = Some 0, cr_stdout = [],
              cr_stderr = ''MIG target '' @ opt_text (mo_pending o') @ '' is pending while current mode is ''
                @ opt_text (mo_current o') @ ''; geometry restoration is deferred until reboot'',
              cr_skipped = True, cr_reason = Some ''reboot-required''\<rparr>;
           give (mo_results o' @ [marker], MigPendingReboot, mo_current o', [])
         }
         else do {
           failure \<leftarrow> mig_failure [''mig-pending'', stage]
             (''fresh MIG state is current='' @ opt_text (mo_current o') @ '', pending=''
              @ opt_text (mo_pending o') @ '', not target='' @ opt_text (rs_mig_mode snapshot));
           give (mo_results o' @ [failure], MigFailed, mo_current o', [])
         })
      else if \<not> mo_complete o' then do {
        failure \<leftarrow> mig_failure [''mig-geometry-observation'', stage]
          ''fresh MIG geometry observation is incomplete'';
        give (mo_results o' @ [failure], MigFailed, mo_current o', [])
      }
      else give (mo_results o', MigStable, mo_current o', mo_geometry o'))
   }"

end
