(* ===== verification/Payloads.thy ===== *)
theory Payloads
  imports ManagedFiles RollbackCommands
begin

text \<open>
  The retained package payloads of a snapshot (\<open>nvidia_converge/package_payloads.py\<close>): their
  identities, the manifest a bundle has to match, the inspection of each file through the package
  tools, and \<open>validate_package_payloads\<close> with every check in the order of the code.

  The directory of a bundle is opened, listed, fingerprinted and its files are hashed by operations
  of the world; each may find the world moved on since the last one.  A path is the text of the
  \<open>Path\<close> object the code has.
\<close>

section \<open>Normalised paths\<close>

text \<open>\<open>os.path.normpath\<close>; the components read so far are kept in reverse.\<close>

fun normal_names :: "bool \<Rightarrow> string list \<Rightarrow> string list \<Rightarrow> string list" where
  "normal_names absolute done [] = rev done"
| "normal_names absolute done (c # cs) =
     (if c = [] \<or> c = ''.'' then normal_names absolute done cs
      else if c \<noteq> ''..'' \<or> (\<not> absolute \<and> done = []) \<or> (done \<noteq> [] \<and> hd done = ''..'')
        then normal_names absolute (c # done) cs
      else normal_names absolute (tl done) cs)"

definition normpath :: "string \<Rightarrow> string" where
  "normpath p =
     (let q = path_root p @ join ''/'' (normal_names (path_root p \<noteq> []) [] (split_on CHR ''/'' p))
      in if q = [] then ''.'' else q)"

text \<open>\<open>os.path.abspath\<close> in the working directory \<open>cwd\<close>\<close>

definition abspath :: "string \<Rightarrow> string \<Rightarrow> string" where
  "abspath cwd p =
     normpath (if startswith p ''/'' then p else if endswith cwd ''/'' then cwd @ p else cwd @ ''/'' @ p)"

definition path_name :: "string \<Rightarrow> string" where
  "path_name p = (case rev (path_names p) of [] \<Rightarrow> [] | name # _ \<Rightarrow> name)"

definition path_join :: "string \<Rightarrow> string \<Rightarrow> string" where
  "path_join parent name = (if endswith parent ''/'' then parent @ name else parent @ ''/'' @ name)"

text \<open>The bytes a name takes on disk, in UTF-8\<close>

definition encoded_length :: "string \<Rightarrow> nat" where
  "encoded_length s = sum_list (map (\<lambda>c. if cp c < 128 then 1 else 2) s)"

definition safe_component :: "string \<Rightarrow> bool" where
  "safe_component name \<longleftrightarrow>
     name \<noteq> [] \<and> name \<notin> {''.'', ''..''} \<and> CHR ''/'' \<notin> set name \<and> CHR 0x00 \<notin> set name
     \<and> encoded_length name \<le> 255"

text \<open>\<open>PackagePayloadError\<close>, and what escapes it: \<open>OSError\<close> or \<open>BoundedFileError\<close>\<close>

datatype check_error = Refused string | SystemError string

definition normalized_absolute :: "string \<Rightarrow> check_error + string" where
  "normalized_absolute p =
     (if path_root p \<noteq> ''/'' then Inl (Refused ''rollback snapshot path must be absolute'')
      else if path_text (normpath p) \<noteq> p \<or> ''..'' \<in> set (path_names p)
        then Inl (Refused ''rollback snapshot path must be normalized'')
      else Inr (path_text (normpath p)))"

definition payload_bundle_directory :: "string \<Rightarrow> check_error + string" where
  "payload_bundle_directory snapshot_path =
     bind_r (normalized_absolute snapshot_path) (\<lambda>normalized.
       let name = path_name normalized @ ''.payloads''
       in if safe_component name then Inr name
          else Inl (Refused ''rollback snapshot name cannot bind a payload bundle''))"

section \<open>Identities\<close>

type_synonym payload_identity = "string \<times> string \<times> string option \<times> string"

definition info_identity :: "package_info \<Rightarrow> payload_identity" where
  "info_identity p =
     (pi_name p, or_empty (pi_architecture p), pi_epoch p, or_empty (pi_version p))"

definition entry_identity :: "package_payload \<Rightarrow> payload_identity" where
  "entry_identity e = (pp_name e, pp_architecture e, pp_epoch e, pp_version e)"

definition format_identity :: "payload_identity \<Rightarrow> string" where
  "format_identity = (\<lambda>(name, architecture, epoch, version).
     name @ '':'' @ architecture @ ''='' @ (if truthy epoch then or_empty epoch @ '':'' else []) @ version)"

definition command_diagnostic :: "command_result \<Rightarrow> string" where
  "command_diagnostic r =
     (if strip (cr_stderr r) \<noteq> [] then strip (cr_stderr r)
      else if strip (cr_stdout r) \<noteq> [] then strip (cr_stdout r)
      else ''command exited with status ''
        @ (case cr_returncode r of None \<Rightarrow> ''None'' | Some n \<Rightarrow> int_str n))"

text \<open>The checks of the requested packages, one package after another.\<close>

fun requested_identities ::
  "string \<Rightarrow> payload_identity list \<Rightarrow> package_info list \<Rightarrow> check_error + unit" where
  "requested_identities manager seen [] = Inr ()"
| "requested_identities manager seen (p # ps) =
     (case info_identity p of (name, architecture, epoch, version) \<Rightarrow>
       if \<not> pi_installed p \<or> pi_manager p \<noteq> Some manager \<or> name = [] \<or> architecture = [] \<or> version = []
         then Inl (Refused
           ''rollback package payload staging requires complete installed package identities'')
       else if info_identity p \<in> set seen
         then Inl (Refused ''rollback baseline package identities are not unique'')
       else requested_identities manager (info_identity p # seen) ps)"

definition validate_requested_packages :: "package_info list \<Rightarrow> string \<Rightarrow> check_error + unit" where
  "validate_requested_packages packages pm =
     (if pm \<notin> {''apt-get'', ''dnf'', ''yum'', ''zypper''}
        then Inl (Refused (''rollback package payload staging is unsupported for '' @ pm))
      else requested_identities (if pm = ''apt-get'' then ''apt'' else ''rpm'') [] packages)"

section \<open>What the RPM tools print of a signature\<close>

text \<open>A word character of \<open>re\<close>: a letter, a digit or a number sign of Latin-1, or an underscore\<close>

definition is_word_char :: "char \<Rightarrow> bool" where
  "is_word_char c \<longleftrightarrow>
     is_alnum c \<or> cp c = 95 \<or> cp c \<in> {170, 178, 179, 181, 185, 186, 188, 189, 190}
     \<or> (192 \<le> cp c \<and> cp c \<noteq> 215 \<and> cp c \<noteq> 247)"

definition ends_word :: "char option \<Rightarrow> bool" where
  "ends_word c = (case c of None \<Rightarrow> False | Some x \<Rightarrow> is_word_char x)"

definition next_char :: "string \<Rightarrow> char option" where
  "next_char s = (case s of [] \<Rightarrow> None | c # _ \<Rightarrow> Some c)"

text \<open>\<open>\b\<close> between the character before a position and the text after it\<close>

definition boundary :: "char option \<Rightarrow> string \<Rightarrow> bool" where
  "boundary prior s \<longleftrightarrow> ends_word prior \<noteq> ends_word (next_char s)"

text \<open>\<open>re.search\<close> for what \<open>m\<close> matches at a position\<close>

fun search_at :: "(char option \<Rightarrow> string \<Rightarrow> bool) \<Rightarrow> char option \<Rightarrow> string \<Rightarrow> bool" where
  "search_at m prior [] = m prior []"
| "search_at m prior (c # s) = (m prior (c # s) \<or> search_at m (Some c) s)"

text \<open>\<open>\bword\b\<close>, ignoring case; the word is given in lower case\<close>

definition whole_word :: "string \<Rightarrow> char option \<Rightarrow> string \<Rightarrow> bool" where
  "whole_word w prior s \<longleftrightarrow>
     boundary prior s \<and> startswith (lower s) w \<and> boundary (Some (last w)) (drop (length w) s)"

text \<open>\<open>\b(?:NOT OK|NOKEY|NOTTRUSTED|UNSIGNED)\b\<close>\<close>

definition untrusted_signature :: "string \<Rightarrow> bool" where
  "untrusted_signature s =
     list_ex (\<lambda>w. search_at (whole_word w) None s) [''not ok'', ''nokey'', ''nottrusted'', ''unsigned'']"

text \<open>\<open>\b(?:signature|gpg|pgp)s?\b.*\bOK\b\<close>: the rest is on the same line.\<close>

definition signature_word :: "char option \<Rightarrow> string \<Rightarrow> bool" where
  "signature_word prior s =
     list_ex (\<lambda>w. whole_word w prior s
       \<and> search_at (whole_word ''ok'') (Some (last w)) (takeWhile (\<lambda>c. cp c \<noteq> 10) (drop (length w) s)))
       [''signature'', ''signatures'', ''gpg'', ''gpgs'', ''pgp'', ''pgps'']"

definition trusted_signature :: "string \<Rightarrow> bool" where
  "trusted_signature s = search_at signature_word None s"

text \<open>\<open>key ID ([0-9A-Fa-f]{8,40})\<close>, ignoring case: all matches, from left to right\<close>

definition key_digits :: "string \<Rightarrow> string" where
  "key_digits s = take 40 (takeWhile is_hex (lower s))"

function signer_ids :: "string \<Rightarrow> string list" where
  "signer_ids s =
     (case s of
        [] \<Rightarrow> []
      | _ # rest \<Rightarrow>
          let digits = key_digits (drop 7 s)
          in if startswith (lower s) ''key id '' \<and> 8 \<le> length digits
             then digits # signer_ids (drop (7 + length digits) s)
             else signer_ids rest)"
  by auto
termination
  by (relation "measure length") auto

section \<open>Inspecting one file\<close>

definition split_rows :: "string \<Rightarrow> string list list" where
  "split_rows out = map (split_on (char_of (9::nat))) (filter (\<lambda>line. line \<noteq> []) (splitlines out))"

text \<open>The single row of \<open>n\<close> filled columns, if that is all there is\<close>

definition single_row :: "nat \<Rightarrow> string \<Rightarrow> string list option" where
  "single_row n out =
     (case split_rows out of
        [row] \<Rightarrow> if length row = n \<and> [] \<notin> set row then Some row else None
      | _ \<Rightarrow> None)"

definition deb_query :: "string \<Rightarrow> string list" where
  "deb_query path =
     [''--show'', ''--showformat=${Package}'' @ [CHR 0x5C] @ ''t${Version}'' @ [CHR 0x5C]
        @ ''t${Architecture}'' @ [CHR 0x5C] @ ''n'', path]"

definition rpm_query :: "string \<Rightarrow> string list" where
  "rpm_query path =
     [''-qp'', ''--qf'', ''%{NAME}'' @ [CHR 0x5C] @ ''t%{EPOCHNUM}'' @ [CHR 0x5C]
        @ ''t%{VERSION}-%{RELEASE}'' @ [CHR 0x5C] @ ''t%{ARCH}'' @ [CHR 0x5C] @ ''n'', path]"

definition inspect_deb ::
  "('w, 'r) runner_scheme \<Rightarrow> string \<Rightarrow> ('w, 'z, check_error + payload_identity \<times> string list) action" where
  "inspect_deb R path = do {
     result \<leftarrow> run_known R False ''dpkg-deb'' (deb_query path);
     give (if cr_returncode result \<noteq> Some 0 then Inl (Refused
         (''cannot inspect retained DEB payload '' @ path_name path @ '': '' @ command_diagnostic result))
       else case single_row 3 (cr_stdout result) of
         Some [name, version, architecture] \<Rightarrow> Inr ((name, architecture, None, version), [])
       | _ \<Rightarrow> Inl (Refused
           (''retained DEB payload has an invalid package header: '' @ path_name path)))
   }"

definition valid_epoch :: "string \<Rightarrow> bool" where
  "valid_epoch s \<longleftrightarrow> s = ''(none)'' \<or> (s \<noteq> [] \<and> list_all is_digit s)"

definition judge_signature :: "string \<Rightarrow> command_result \<Rightarrow> check_error + string list" where
  "judge_signature path signature =
     (let printed = cr_stdout signature @ [CHR 0x0A] @ cr_stderr signature;
          ids = sorted_set (signer_ids printed)
      in if cr_returncode signature \<noteq> Some 0 \<or> untrusted_signature printed \<or> \<not> trusted_signature printed
           then Inl (Refused (''retained RPM payload lacks a trusted signature: '' @ path_name path
             @ '': '' @ command_diagnostic signature))
         else if ids = [] then Inl (Refused
           (''retained RPM payload signature has no signer identity: '' @ path_name path))
         else Inr ids)"

definition inspect_rpm ::
  "('w, 'r) runner_scheme \<Rightarrow> string \<Rightarrow> ('w, 'z, check_error + payload_identity \<times> string list) action" where
  "inspect_rpm R path = do {
     query \<leftarrow> run_known R False ''rpm'' (rpm_query path);
     (if cr_returncode query \<noteq> Some 0 then give (Inl (Refused
         (''cannot inspect retained RPM payload '' @ path_name path @ '': '' @ command_diagnostic query)))
      else case single_row 4 (cr_stdout query) of
        Some [name, epoch, version, architecture] \<Rightarrow>
          if \<not> valid_epoch epoch then give (Inl (Refused
            (''retained RPM payload has an invalid epoch: '' @ path_name path)))
          else do {
            signature \<leftarrow> run_known R False ''rpmkeys'' [''--checksig'', ''--verbose'', path];
            give (bind_r (judge_signature path signature) (\<lambda>ids.
              Inr ((name, architecture, if epoch \<in> {''0'', ''(none)''} then None else Some epoch, version), ids)))
          }
      | _ \<Rightarrow> give (Inl (Refused
          (''retained RPM payload has an invalid package header: '' @ path_name path))))
   }"

definition inspect_payload ::
  "('w, 'r) runner_scheme \<Rightarrow> string \<Rightarrow> string \<Rightarrow> ('w, 'z, check_error + payload_identity \<times> string list) action" where
  "inspect_payload R path pm = (if pm = ''apt-get'' then inspect_deb R path else inspect_rpm R path)"

section \<open>The manifest of a bundle\<close>

definition max_package_payload_bytes :: int where "max_package_payload_bytes = 8589934592"
definition max_package_payload_total_bytes :: int where "max_package_payload_total_bytes = 68719476736"
definition max_baseline_package_payloads :: int where "max_baseline_package_payloads = 4096"
definition max_package_payload_entries :: int where "max_package_payload_entries = 8192"

definition payload_format :: "string \<Rightarrow> string" where
  "payload_format pm = (if pm = ''apt-get'' then ''deb'' else ''rpm'')"

definition payload_verification :: "string \<Rightarrow> string" where
  "payload_verification pm = (if pm = ''apt-get'' then ''apt-repository'' else ''rpm-signature'')"

definition valid_signer_id :: "string \<Rightarrow> bool" where
  "valid_signer_id s \<longleftrightarrow> 8 \<le> length s \<and> length s \<le> 40 \<and> list_all is_hex s"

definition valid_entry :: "string \<Rightarrow> package_payload \<Rightarrow> bool" where
  "valid_entry pm e \<longleftrightarrow>
     pp_format e = payload_format pm
     \<and> pp_verification e = payload_verification pm
     \<and> hex_of_length 64 (pp_sha256 e)
     \<and> pp_filename e = pp_sha256 e @ (if pp_format e = ''deb'' then ''.deb'' else ''.rpm'')
     \<and> 0 < pp_size_bytes e \<and> pp_size_bytes e \<le> max_package_payload_bytes
     \<and> pp_roles e \<noteq> [] \<and> distinct (pp_roles e)
     \<and> set (pp_roles e) \<subseteq> {''baseline'', ''forward''}
     \<and> \<not> (pp_format e = ''deb'' \<and> pp_signer_ids e \<noteq> [])
     \<and> \<not> (pp_format e = ''rpm'' \<and> pp_signer_ids e = [])
     \<and> list_all valid_signer_id (pp_signer_ids e)"

definition identities_with_role :: "string \<Rightarrow> package_payload_bundle \<Rightarrow> payload_identity set" where
  "identities_with_role role bundle =
     set (map entry_identity (filter (\<lambda>e. role \<in> set (pp_roles e)) (ppb_packages bundle)))"

text \<open>The checks before the bundle is opened; \<open>forward\<close> is the optional resolved transaction.\<close>

definition check_manifest ::
  "string \<Rightarrow> package_payload_bundle \<Rightarrow> package_info list \<Rightarrow> string \<Rightarrow> package_info list option
   \<Rightarrow> check_error + unit" where
  "check_manifest snapshot_path bundle packages pm forward =
     bind_r (validate_requested_packages packages pm) (\<lambda>_.
     if max_baseline_package_payloads < int (length packages)
       then Inl (Refused ''rollback baseline package count exceeds the limit'')
     else if max_package_payload_entries < int (length (ppb_packages bundle))
       then Inl (Refused ''package payload bundle entry count exceeds the limit'')
     else
     bind_r (case forward of None \<Rightarrow> Inr () | Some fs \<Rightarrow> validate_requested_packages fs pm) (\<lambda>_.
     bind_r (payload_bundle_directory snapshot_path) (\<lambda>expected_directory.
     if ppb_directory bundle \<noteq> expected_directory
       then Inl (Refused ''rollback package payload directory is not bound to the snapshot path'')
     else if \<not> distinct (map info_identity packages)
       then Inl (Refused ''rollback baseline package identities are not unique'')
     else if \<not> distinct (map entry_identity (ppb_packages bundle))
         \<or> identities_with_role ''baseline'' bundle \<noteq> set (map info_identity packages)
       then Inl (Refused
         ''rollback package payload manifest is not one-to-one with baseline packages'')
     else if (case forward of None \<Rightarrow> False
           | Some fs \<Rightarrow> identities_with_role ''forward'' bundle \<noteq> set (map info_identity fs))
       then Inl (Refused
         ''rollback package payload manifest does not match the resolved forward transaction'')
     else if \<not> distinct (map pp_filename (ppb_packages bundle))
       then Inl (Refused ''rollback package payload filenames are not unique'')
     else Inr ())))"

section \<open>The bundle on disk\<close>

text \<open>
  \<open>ph_open\<close>: \<open>open_private_directory\<close>, a descriptor; \<open>ph_fingerprint\<close>: the metadata of an open
  directory that must not change; \<open>ph_list\<close>: its names; \<open>ph_hash\<close>: \<open>_hash_bound_file\<close>, the digest
  and the size of a private file of it.
\<close>

record 'w payload_host = "'w file_host" +
  ph_open :: "string \<Rightarrow> 'w \<Rightarrow> (string + nat) \<times> 'w"
  ph_fingerprint :: "nat \<Rightarrow> 'w \<Rightarrow> (string + int list) \<times> 'w"
  ph_list :: "nat \<Rightarrow> 'w \<Rightarrow> (string + string list) \<times> 'w"
  ph_hash :: "nat \<Rightarrow> string \<Rightarrow> 'w \<Rightarrow> (check_error + string \<times> int) \<times> 'w"

text \<open>A system call whose \<open>OSError\<close> the code turns into a refusal, and one where it escapes\<close>

definition refusing ::
  "string \<Rightarrow> ('w \<Rightarrow> (string + 'a) \<times> 'w) \<Rightarrow> ('w, 'z, check_error + 'a) action" where
  "refusing lead f = do {
     r \<leftarrow> on_world f;
     give (case r of Inl e \<Rightarrow> Inl (Refused (lead @ e)) | Inr a \<Rightarrow> Inr a)
   }"

definition escaping :: "('w \<Rightarrow> (string + 'a) \<times> 'w) \<Rightarrow> ('w, 'z, check_error + 'a) action" where
  "escaping f = do {
     r \<leftarrow> on_world f;
     give (case r of Inl e \<Rightarrow> Inl (SystemError e) | Inr a \<Rightarrow> Inr a)
   }"

definition cannot_validate :: string where
  "cannot_validate = ''cannot validate rollback package payload bundle: ''"

definition hash_payload ::
  "('w, 'r) payload_host_scheme \<Rightarrow> nat \<Rightarrow> string \<Rightarrow> ('w, 'z, check_error + string \<times> int) action" where
  "hash_payload H fd name = do {
     r \<leftarrow> on_world (ph_hash H fd name);
     give (case r of
       Inl (SystemError e) \<Rightarrow> Inl (Refused (cannot_validate @ e))
     | Inl (Refused e) \<Rightarrow> Inl (Refused e)
     | Inr a \<Rightarrow> Inr a)
   }"

text \<open>One entry: \<open>inspect\<close> tells whether a runner was given.  Its value is the size of the file.\<close>

definition validate_entry ::
  "('w, 'r) payload_host_scheme \<Rightarrow> bool \<Rightarrow> nat \<Rightarrow> string \<Rightarrow> string \<Rightarrow> package_payload
   \<Rightarrow> ('w, 'z, check_error + int) action" where
  "validate_entry H inspect fd bundle_path pm e =
     and_then (ensure (valid_entry pm e) (Refused
       (''rollback package payload manifest is invalid for '' @ format_identity (entry_identity e)))) (\<lambda>_.
     and_then (hash_payload H fd (pp_filename e)) (\<lambda>(digest, size).
     and_then (ensure (digest = pp_sha256 e \<and> size = pp_size_bytes e) (Refused
       (''rollback package payload bytes changed for '' @ format_identity (entry_identity e)))) (\<lambda>_.
     if \<not> inspect then give (Inr size)
     else and_then (inspect_payload H (path_join bundle_path (pp_filename e)) pm) (\<lambda>(observed, ids).
       and_then (ensure (observed = entry_identity e \<and> ids = pp_signer_ids e) (Refused
         (''rollback package payload header or signature changed for ''
           @ format_identity (entry_identity e)))) (\<lambda>_. give (Inr size))))))"

fun validate_entries ::
  "('w, 'r) payload_host_scheme \<Rightarrow> bool \<Rightarrow> nat \<Rightarrow> string \<Rightarrow> string \<Rightarrow> int \<Rightarrow> package_payload list
   \<Rightarrow> ('w, 'z, check_error + int \<times> (payload_identity \<times> string) list) action" where
  "validate_entries H inspect fd bundle_path pm so_far [] = give (Inr (so_far, []))"
| "validate_entries H inspect fd bundle_path pm so_far (e # es) =
     and_then (validate_entry H inspect fd bundle_path pm e) (\<lambda>size.
     and_then (ensure (so_far + size \<le> max_package_payload_total_bytes) (Refused
       ''rollback package payload bundle exceeds the total size limit'')) (\<lambda>_.
     and_then (validate_entries H inspect fd bundle_path pm (so_far + size) es) (\<lambda>(final, paths).
       give (Inr (final, (entry_identity e, path_join bundle_path (pp_filename e)) # paths)))))"

definition validate_bundle ::
  "('w, 'r) payload_host_scheme \<Rightarrow> bool \<Rightarrow> string \<Rightarrow> package_payload_bundle \<Rightarrow> string
   \<Rightarrow> ('w, 'z, check_error + (payload_identity \<times> string) list) action" where
  "validate_bundle H inspect bundle_path bundle pm =
     and_then (refusing ''cannot open private rollback package payload bundle: '' (ph_open H bundle_path)) (\<lambda>fd.
     and_then (escaping (ph_fingerprint H fd)) (\<lambda>prior.
     and_then (refusing cannot_validate (ph_list H fd)) (\<lambda>names.
     and_then (ensure (set names = set (map pp_filename (ppb_packages bundle))) (Refused
       ''rollback package payload bundle contains missing or unmanifested files'')) (\<lambda>_.
     and_then (validate_entries H inspect fd bundle_path pm 0 (ppb_packages bundle)) (\<lambda>(size, paths).
     and_then (ensure (size = ppb_total_size_bytes bundle) (Refused
       ''rollback package payload bundle total size is inconsistent'')) (\<lambda>_.
     and_then (refusing cannot_validate (ph_fingerprint H fd)) (\<lambda>after.
     and_then (ensure (prior = after) (Refused
       ''rollback package payload directory changed during validation'')) (\<lambda>_.
     and_then (escaping (ph_open H bundle_path)) (\<lambda>rebound.
     and_then (escaping (ph_fingerprint H rebound)) (\<lambda>again.
     and_then (ensure (prior = again) (Refused
       ''rollback package payload directory binding changed during validation'')) (\<lambda>_.
       give (Inr paths))))))))))))"

definition validate_package_payloads ::
  "('w, 'r) payload_host_scheme \<Rightarrow> bool \<Rightarrow> string \<Rightarrow> package_payload_bundle \<Rightarrow> package_info list \<Rightarrow> string
   \<Rightarrow> package_info list option \<Rightarrow> ('w, 'z, check_error + (payload_identity \<times> string) list) action" where
  "validate_package_payloads H inspect snapshot_path bundle packages pm forward =
     (case normalized_absolute snapshot_path of
        Inl e \<Rightarrow> give (Inl e)
      | Inr source \<Rightarrow>
     (case check_manifest source bundle packages pm forward of
        Inl e \<Rightarrow> give (Inl e)
      | Inr _ \<Rightarrow> validate_bundle H inspect (path_join (path_parent source) (ppb_directory bundle)) bundle pm))"

end
