(* ===== verification/ModuleSafety.thy ===== *)
theory ModuleSafety
  imports Prelude
begin

text \<open>
  The unload order of the loaded NVIDIA modules (\<open>nvidia_converge/module_safety.py\<close>): a
  depth-first walk of \<open>/sys/module/<module>/holders\<close> that lists every module after the modules
  holding it, and refuses cycles, unknown holders and entries it cannot read.

  What the walk reads of \<open>/sys/module\<close> is a record of three observations, each an error text
  or the value; the state of the walk is its four local variables.  The call depth is bounded by
  an argument, as Python's is: running out is \<open>RecursionDepth\<close>, and six calls are enough.
\<close>

record sysfs =
  sf_modules :: "string + string list"
  sf_is_directory :: "string \<Rightarrow> string + bool"
  sf_holders :: "string \<Rightarrow> string + string list"

datatype module_error =
    CannotInspectModules string
  | HolderDisappeared string string
  | NotADirectory string
  | DependencyCycle string
  | CannotInspectHolders string string
  | UnsupportedDependents string "string list"
  | RecursionDepth

definition known_nvidia_modules :: "string list" where
  "known_nvidia_modules =
     [''nvidia'', ''nvidia_drm'', ''nvidia_fs'', ''nvidia_modeset'', ''nvidia_peermem'',
      ''nvidia_uvm'']"

record unload_state =
  us_loaded :: "string set"
  us_visiting :: "string set"
  us_visited :: "string set"
  us_ordered :: "string list"

definition require_module_directory :: "sysfs \<Rightarrow> string \<Rightarrow> module_error + unit" where
  "require_module_directory fs m =
     (case sf_is_directory fs m of
        Inl e \<Rightarrow> Inl (HolderDisappeared m e)
      | Inr is_dir \<Rightarrow> if is_dir then Inr () else Inl (NotADirectory m))"

fun require_module_directories :: "sysfs \<Rightarrow> string list \<Rightarrow> module_error + unit" where
  "require_module_directories fs [] = Inr ()"
| "require_module_directories fs (m # ms) =
     bind_r (require_module_directory fs m) (\<lambda>_. require_module_directories fs ms)"

lemma bind_r_cong [fundef_cong]:
  "x = y \<Longrightarrow> (\<And>v. y = Inr v \<Longrightarrow> f v = g v) \<Longrightarrow> bind_r x f = bind_r y g"
  by (cases y) simp_all

function visit :: "sysfs \<Rightarrow> nat \<Rightarrow> string \<Rightarrow> unload_state \<Rightarrow> module_error + unload_state"
  and visit_holders ::
    "sysfs \<Rightarrow> nat \<Rightarrow> string list \<Rightarrow> unload_state \<Rightarrow> module_error + unload_state" where
  "visit fs fuel m st =
     (if m \<in> us_visited st \<or> m \<notin> us_loaded st then Inr st
      else if m \<in> us_visiting st then Inl (DependencyCycle m)
      else case fuel of
        0 \<Rightarrow> Inl RecursionDepth
      | Suc n \<Rightarrow>
         (case sf_holders fs m of
            Inl e \<Rightarrow> Inl (CannotInspectHolders m e)
          | Inr names \<Rightarrow>
             if filter (\<lambda>h. h \<notin> set known_nvidia_modules) (sort names) \<noteq> []
             then Inl (UnsupportedDependents m
                    (filter (\<lambda>h. h \<notin> set known_nvidia_modules) (sort names)))
             else bind_r
               (visit_holders fs n (sort names) (st\<lparr>us_visiting := insert m (us_visiting st)\<rparr>))
               (\<lambda>st'. Inr (st'\<lparr>us_visiting := us_visiting st' - {m},
                    us_visited := insert m (us_visited st'),
                    us_ordered := us_ordered st' @ [m]\<rparr>))))"
| "visit_holders fs fuel [] st = Inr st"
| "visit_holders fs fuel (h # hs) st =
     bind_r (require_module_directory fs h) (\<lambda>_.
     bind_r (visit fs fuel h (st\<lparr>us_loaded := insert h (us_loaded st)\<rparr>)) (\<lambda>st'.
       visit_holders fs fuel hs st'))"
  by pat_completeness auto

termination
  by (relation "measures [\<lambda>x. case x of Inl (_, n, _) \<Rightarrow> n | Inr (_, n, _) \<Rightarrow> n,
        \<lambda>x. case x of Inl _ \<Rightarrow> 0 | Inr (_, _, hs, _) \<Rightarrow> Suc (length hs)]") auto

fun visit_all :: "sysfs \<Rightarrow> nat \<Rightarrow> string list \<Rightarrow> unload_state \<Rightarrow> module_error + unload_state" where
  "visit_all fs fuel [] st = Inr st"
| "visit_all fs fuel (m # ms) st = bind_r (visit fs fuel m st) (visit_all fs fuel ms)"

text \<open>
  The modules checked first are the known ones that are loaded; the code takes them in the
  order of a Python set, here in the order of the list of known modules (the order decides
  only which of several bad entries the error names).
\<close>

definition initial_state :: "string set \<Rightarrow> unload_state" where
  "initial_state loaded =
     \<lparr>us_loaded = loaded, us_visiting = {}, us_visited = {}, us_ordered = []\<rparr>"

definition nvidia_module_unload_order ::
  "sysfs \<Rightarrow> nat \<Rightarrow> module_error + string list" where
  "nvidia_module_unload_order fs fuel =
     (case sf_modules fs of
        Inl e \<Rightarrow> Inl (CannotInspectModules e)
      | Inr names \<Rightarrow>
         (let loaded = filter (\<lambda>m. m \<in> set names) known_nvidia_modules
          in bind_r (require_module_directories fs loaded) (\<lambda>_.
             if loaded = [] then Inr []
             else bind_r (visit fs fuel ''nvidia'' (initial_state (set loaded))) (\<lambda>st.
               bind_r (visit_all fs fuel (sorted_list_of_set (us_loaded st)) st) (\<lambda>st'.
                 Inr (us_ordered st'))))))"

declare visit.simps [simp del]

section \<open>The invariant of the walk\<close>

text \<open>Every module comes after all of its holders.\<close>

definition holders_first :: "sysfs \<Rightarrow> string list \<Rightarrow> bool" where
  "holders_first fs order \<longleftrightarrow>
     (\<forall>i < length order. case sf_holders fs (order ! i) of
        Inl _ \<Rightarrow> False | Inr hs \<Rightarrow> set hs \<subseteq> set (take i order))"

lemma holders_first_snoc:
  "holders_first fs xs \<Longrightarrow> sf_holders fs m = Inr hs \<Longrightarrow> set hs \<subseteq> set xs
   \<Longrightarrow> holders_first fs (xs @ [m])"
  by (auto simp: holders_first_def nth_append less_Suc_eq split: sum.splits)

definition directory :: "sysfs \<Rightarrow> string \<Rightarrow> bool" where
  "directory fs m \<longleftrightarrow> require_module_directory fs m = Inr ()"

definition walk_inv :: "sysfs \<Rightarrow> unload_state \<Rightarrow> bool" where
  "walk_inv fs st \<longleftrightarrow>
     distinct (us_ordered st) \<and> set (us_ordered st) = us_visited st
     \<and> us_visited st \<subseteq> us_loaded st \<and> us_visiting st \<subseteq> us_loaded st
     \<and> us_visited st \<inter> us_visiting st = {}
     \<and> us_loaded st \<subseteq> set known_nvidia_modules \<and> (\<forall>m \<in> us_loaded st. directory fs m)
     \<and> holders_first fs (us_ordered st)"

definition grows :: "unload_state \<Rightarrow> unload_state \<Rightarrow> bool" where
  "grows st st' \<longleftrightarrow>
     us_visiting st' = us_visiting st \<and> us_loaded st \<subseteq> us_loaded st'
     \<and> us_visited st \<subseteq> us_visited st'"

lemma grows_refl [simp]: "grows st st" by (simp add: grows_def)

lemma grows_trans: "grows a b \<Longrightarrow> grows b c \<Longrightarrow> grows a c"
  by (auto simp: grows_def)

definition depth_left :: "unload_state \<Rightarrow> nat" where
  "depth_left st = card (set known_nvidia_modules - us_visiting st)"

definition walked ::
  "sysfs \<Rightarrow> nat \<Rightarrow> string set \<Rightarrow> unload_state \<Rightarrow> module_error + unload_state \<Rightarrow> bool" where
  "walked fs fuel goal st r \<longleftrightarrow>
     (case r of
        Inr st' \<Rightarrow> walk_inv fs st' \<and> grows st st' \<and> goal \<subseteq> us_visited st'
      | Inl e \<Rightarrow> depth_left st \<le> fuel \<longrightarrow> e \<noteq> RecursionDepth)"

lemma require_module_directory_error: "require_module_directory fs m = Inl e \<Longrightarrow> e \<noteq> RecursionDepth"
  by (auto simp: require_module_directory_def split: sum.splits if_splits)

lemma depth_left_visiting:
  assumes "m \<in> set known_nvidia_modules" "m \<notin> us_visiting st"
  shows "depth_left st = Suc (depth_left (st\<lparr>us_visiting := insert m (us_visiting st)\<rparr>))"
proof -
  have "set known_nvidia_modules - insert m (us_visiting st)
      = (set known_nvidia_modules - us_visiting st) - {m}" by blast
  with assms show ?thesis
    using card.remove [of "set known_nvidia_modules - us_visiting st" m] by (simp add: depth_left_def)
qed

lemma visit_walked:
  "walk_inv fs st \<Longrightarrow> walked fs fuel ({m} \<inter> us_loaded st) st (visit fs fuel m st)"
  "walk_inv fs st \<Longrightarrow> set hs \<subseteq> set known_nvidia_modules \<Longrightarrow>
     walked fs fuel (set hs) st (visit_holders fs fuel hs st)"
proof (induction fs fuel m st and fs fuel hs st rule: visit_visit_holders.induct)
  case (1 fs fuel m st)
  show ?case
  proof (cases "m \<in> us_visited st \<or> m \<notin> us_loaded st \<or> m \<in> us_visiting st \<or> fuel = 0
      \<or> (\<exists>e. sf_holders fs m = Inl e)")
    case True
    have "m \<in> us_loaded st \<Longrightarrow> m \<notin> us_visiting st \<Longrightarrow> depth_left st \<noteq> 0"
      using 1(2) depth_left_visiting [of m st] by (auto simp: walk_inv_def)
    with True 1(2) show ?thesis
      by (auto simp: visit.simps walked_def split: nat.split sum.split)
  next
    case False
    then obtain n names where go: "m \<notin> us_visited st" "m \<in> us_loaded st" "m \<notin> us_visiting st"
      and fuel: "fuel = Suc n" and names: "sf_holders fs m = Inr names"
      by (cases fuel; cases "sf_holders fs m") auto
    show ?thesis
    proof (cases "filter (\<lambda>h. h \<notin> set known_nvidia_modules) (sort names) = []")
      case False
      then show ?thesis by (simp add: visit.simps walked_def go fuel names)
    next
      case known: True
      let ?st = "st\<lparr>us_visiting := insert m (us_visiting st)\<rparr>"
      have sub: "set (sort names) \<subseteq> set known_nvidia_modules"
        using known by (auto simp: filter_empty_conv)
      have inv: "walk_inv fs ?st" using 1(2) go by (auto simp: walk_inv_def)
      have m: "m \<in> set known_nvidia_modules" using 1(2) go(2) by (auto simp: walk_inv_def)
      have rec: "walked fs n (set (sort names)) ?st (visit_holders fs n (sort names) ?st)"
        by (rule 1(1)) (use go fuel names known inv sub in auto)
      show ?thesis
      proof (cases "visit_holders fs n (sort names) ?st")
        case (Inl e)
        with rec depth_left_visiting [OF m go(3)] show ?thesis
          by (simp add: visit.simps walked_def go fuel names known)
      next
        case (Inr st')
        with rec have st': "walk_inv fs st'" "grows ?st st'" "set names \<subseteq> us_visited st'"
          by (simp_all add: walked_def)
        have vis: "us_visiting st' = insert m (us_visiting st)" and fresh: "m \<notin> us_visited st'"
          and loaded: "m \<in> us_loaded st'"
          using st'(1,2) by (auto simp: grows_def walk_inv_def)
        let ?fin = "st'\<lparr>us_visiting := us_visiting st' - {m},
              us_visited := insert m (us_visited st'), us_ordered := us_ordered st' @ [m]\<rparr>"
        have "holders_first fs (us_ordered st' @ [m])"
          by (rule holders_first_snoc) (use st' names in \<open>auto simp: walk_inv_def\<close>)
        then have "walk_inv fs ?fin"
          using st'(1) fresh loaded by (auto simp: walk_inv_def)
        moreover have "grows st ?fin" using st'(2) vis go(3) by (auto simp: grows_def)
        ultimately show ?thesis
          using Inr by (simp add: visit.simps walked_def go fuel names known)
      qed
    qed
  qed
next
  case (2 fs fuel st)
  then show ?case by (simp add: walked_def)
next
  case (3 fs fuel h hs st)
  let ?st = "st\<lparr>us_loaded := insert h (us_loaded st)\<rparr>"
  have depth: "depth_left ?st = depth_left st" by (simp add: depth_left_def)
  show ?case
  proof (cases "require_module_directory fs h")
    case (Inl e)
    then show ?thesis by (auto simp: walked_def dest: require_module_directory_error)
  next
    case dir: (Inr u)
    then have inv: "walk_inv fs ?st"
      using 3(3,4) by (auto simp: walk_inv_def directory_def)
    note first = 3(1) [OF dir inv]
    show ?thesis
    proof (cases "visit fs fuel h ?st")
      case (Inl e)
      with first dir depth show ?thesis by (simp add: walked_def)
    next
      case (Inr st1)
      with first have st1: "walk_inv fs st1" "grows ?st st1" "h \<in> us_visited st1"
        by (auto simp: walked_def)
      from 3(2) [OF dir Inr st1(1)] 3(4)
      have rest: "walked fs fuel (set hs) st1 (visit_holders fs fuel hs st1)" by simp
      have "depth_left st1 = depth_left st" "grows st st1"
        using st1(2) by (auto simp: depth_left_def grows_def)
      with rest st1 dir Inr show ?thesis
        by (auto simp: walked_def grows_def split: sum.splits)
    qed
  qed
qed

lemma visit_all_walked:
  assumes "walk_inv fs st" and "set ms \<subseteq> us_loaded st"
  shows "walked fs fuel (set ms) st (visit_all fs fuel ms st)"
  using assms
proof (induction ms arbitrary: st)
  case Nil
  then show ?case by (simp add: walked_def)
next
  case (Cons m ms)
  note first = visit_walked(1) [OF Cons.prems(1), of fuel m]
  show ?case
  proof (cases "visit fs fuel m st")
    case (Inl e)
    with first show ?thesis by (simp add: walked_def)
  next
    case (Inr st1)
    with first Cons.prems(2) have st1: "walk_inv fs st1" "grows st st1" "m \<in> us_visited st1"
      by (auto simp: walked_def)
    with Cons.IH [OF st1(1)] Cons.prems(2)
    have rest: "walked fs fuel (set ms) st1 (visit_all fs fuel ms st1)" by (auto simp: grows_def)
    have "depth_left st1 = depth_left st" using st1(2) by (simp add: depth_left_def grows_def)
    with rest st1 Inr show ?thesis by (auto simp: walked_def grows_def split: sum.splits)
  qed
qed

lemma require_module_directories_directory:
  "require_module_directories fs ms = Inr () \<longleftrightarrow> (\<forall>m \<in> set ms. directory fs m)"
  by (induction ms) (auto simp: bind_r_Inr_iff directory_def)

lemma require_module_directories_error:
  "require_module_directories fs ms = Inl e \<Longrightarrow> e \<noteq> RecursionDepth"
proof (induction ms)
  case (Cons m ms)
  then show ?case
    by (cases "require_module_directory fs m") (auto dest: require_module_directory_error)
qed simp

lemma depth_left_initial [simp]: "depth_left (initial_state loaded) = 6"
  by (simp add: depth_left_def initial_state_def known_nvidia_modules_def)

lemma initial_inv:
  assumes "loaded \<subseteq> set known_nvidia_modules" and "\<forall>m \<in> loaded. directory fs m"
  shows "walk_inv fs (initial_state loaded)"
  using assms by (simp add: walk_inv_def initial_state_def holders_first_def)

text \<open>The walk of the whole function, on the modules it starts from.\<close>

lemma unload_walk:
  assumes "loaded \<subseteq> set known_nvidia_modules" and "\<forall>m \<in> loaded. directory fs m"
  shows "walked fs fuel loaded (initial_state loaded)
    (bind_r (visit fs fuel ''nvidia'' (initial_state loaded)) (\<lambda>st.
       visit_all fs fuel (sorted_list_of_set (us_loaded st)) st))"
proof (cases "visit fs fuel ''nvidia'' (initial_state loaded)")
  case (Inl e)
  with visit_walked(1) [OF initial_inv [OF assms], of fuel "''nvidia''"] show ?thesis
    by (simp add: walked_def)
next
  case (Inr st)
  with visit_walked(1) [OF initial_inv [OF assms], of fuel "''nvidia''"]
  have st: "walk_inv fs st" "grows (initial_state loaded) st" by (auto simp: walked_def)
  have "finite (us_loaded st)"
    using st(1) finite_subset [of "us_loaded st" "set known_nvidia_modules"] by (auto simp: walk_inv_def)
  then have "set (sorted_list_of_set (us_loaded st)) = us_loaded st" by simp
  with visit_all_walked [OF st(1), of "sorted_list_of_set (us_loaded st)" fuel] st(2)
  have all: "walked fs fuel (us_loaded st) st (visit_all fs fuel (sorted_list_of_set (us_loaded st)) st)"
    by simp
  have "depth_left st = depth_left (initial_state loaded)" "loaded \<subseteq> us_loaded st"
    using st(2) by (auto simp: depth_left_def grows_def initial_state_def)
  with all st Inr show ?thesis by (auto simp: walked_def grows_def split: sum.splits)
qed

section \<open>The unload order\<close>

text \<open>C28. A returned unload order has no module twice, holds every loaded NVIDIA module and only
  known ones, each a directory of \<open>/sys/module\<close>, and lists every module after all the modules that
  hold it.\<close>

theorem unload_order_sound:
  assumes "nvidia_module_unload_order fs fuel = Inr order"
  shows "\<exists>names. sf_modules fs = Inr names
    \<and> distinct order \<and> holders_first fs order
    \<and> set names \<inter> set known_nvidia_modules \<subseteq> set order
    \<and> set order \<subseteq> set known_nvidia_modules
    \<and> (\<forall>m \<in> set order. sf_is_directory fs m = Inr True)"
proof -
  from assms obtain names where names: "sf_modules fs = Inr names"
    by (auto simp: nvidia_module_unload_order_def split: sum.splits)
  define loaded where "loaded = filter (\<lambda>m. m \<in> set names) known_nvidia_modules"
  note run = assms [unfolded nvidia_module_unload_order_def names Let_def sum.case,
      folded loaded_def]
  have dirs: "\<forall>m \<in> set loaded. directory fs m"
    using run require_module_directories_directory [of fs loaded] by (auto simp: bind_r_Inr_iff)
  have sub: "set loaded \<subseteq> set known_nvidia_modules" by (auto simp: loaded_def)
  show ?thesis
  proof (cases "loaded = []")
    case True
    then have "order = []" using run by (auto simp: bind_r_Inr_iff)
    moreover have "set names \<inter> set known_nvidia_modules = {}"
      using True by (auto simp: loaded_def filter_empty_conv)
    ultimately show ?thesis using names by (simp add: holders_first_def)
  next
    case False
    with run obtain st where st:
      "bind_r (visit fs fuel ''nvidia'' (initial_state (set loaded))) (\<lambda>st.
         visit_all fs fuel (sorted_list_of_set (us_loaded st)) st) = Inr st" "order = us_ordered st"
      by (auto simp: bind_r_Inr_iff)
    with unload_walk [OF sub dirs, of fuel]
    have inv: "walk_inv fs st" "set loaded \<subseteq> us_visited st" by (auto simp: walked_def)
    have dir: "sf_is_directory fs m = Inr True" if "directory fs m" for m
      using that
      by (auto simp: directory_def require_module_directory_def split: sum.splits if_splits)
    have "set names \<inter> set known_nvidia_modules \<subseteq> set order"
      using inv by (auto simp: loaded_def walk_inv_def st(2))
    moreover have "distinct order" "holders_first fs order" "set order \<subseteq> set known_nvidia_modules"
      "\<forall>m \<in> set order. sf_is_directory fs m = Inr True"
      using inv(1) dir by (auto simp: walk_inv_def st(2))
    ultimately show ?thesis using names by simp
  qed
qed

definition sample_sysfs :: sysfs where
  "sample_sysfs =
     \<lparr>sf_modules = Inr [''ext4'', ''nvidia'', ''nvidia_uvm'', ''nvidia_drm'', ''nvidia_modeset''],
      sf_is_directory = (\<lambda>_. Inr True),
      sf_holders = (\<lambda>m. Inr (if m = ''nvidia'' then [''nvidia_uvm'', ''nvidia_modeset'']
        else if m = ''nvidia_modeset'' then [''nvidia_drm''] else []))\<rparr>"

lemma sample_unload_order:
  "nvidia_module_unload_order sample_sysfs 6
    = Inr [''nvidia_drm'', ''nvidia_modeset'', ''nvidia_uvm'', ''nvidia'']"
  by code_simp

theorem unload_order_sound_witness:
  "holders_first sample_sysfs [''nvidia_drm'', ''nvidia_modeset'', ''nvidia_uvm'', ''nvidia'']"
  using unload_order_sound [OF sample_unload_order] by blast

text \<open>C35. The walk ends: with a call depth of six or more the function never runs out of it, whatever
  the holders, cycles included.\<close>

theorem unload_order_terminates:
  assumes "6 \<le> fuel"
  shows "nvidia_module_unload_order fs fuel \<noteq> Inl RecursionDepth"
proof
  assume fail: "nvidia_module_unload_order fs fuel = Inl RecursionDepth"
  then obtain names where names: "sf_modules fs = Inr names"
    by (auto simp: nvidia_module_unload_order_def split: sum.splits)
  define loaded where "loaded = filter (\<lambda>m. m \<in> set names) known_nvidia_modules"
  note run = fail [unfolded nvidia_module_unload_order_def names Let_def sum.case,
      folded loaded_def]
  have dirs: "\<forall>m \<in> set loaded. directory fs m"
    using run require_module_directories_error [of fs loaded]
      require_module_directories_directory [of fs loaded]
    by (cases "require_module_directories fs loaded") auto
  have sub: "set loaded \<subseteq> set known_nvidia_modules" by (auto simp: loaded_def)
  from dirs have ok: "require_module_directories fs loaded = Inr ()"
    by (simp add: require_module_directories_directory)
  from run have "bind_r (visit fs fuel ''nvidia'' (initial_state (set loaded))) (\<lambda>st.
         visit_all fs fuel (sorted_list_of_set (us_loaded st)) st) = Inl RecursionDepth"
    unfolding ok bind_r_simps
    by (cases "visit fs fuel ''nvidia'' (initial_state (set loaded))"; cases "loaded = []")
       (auto simp: bind_r_def split: sum.splits)
  with unload_walk [OF sub dirs, of fuel] assms show False by (simp add: walked_def)
qed

definition cyclic_sysfs :: sysfs where
  "cyclic_sysfs = sample_sysfs \<lparr>sf_holders := (\<lambda>m. Inr [''nvidia''])\<rparr>"

theorem unload_order_terminates_witness:
  "nvidia_module_unload_order cyclic_sysfs 6 \<noteq> Inl RecursionDepth
   \<and> nvidia_module_unload_order cyclic_sysfs 6 = Inl (DependencyCycle ''nvidia'')"
  using unload_order_terminates [of 6 cyclic_sysfs] by (rule conjI) (simp, code_simp)

end
