(* ===== verification/SnapshotLoad.thy ===== *)
theory SnapshotLoad
  imports Payloads RollbackUnits ModuleSafety
begin

text \<open>
  Reading a snapshot back (\<open>load_snapshot\<close> of \<open>nvidia_converge/rollback.py\<close>): every field with its
  checks in the order of the code, the consistency of the whole, the integrity digest over the
  canonical JSON text, the payload bundle, and the binding to the file it came from.

  A refusal is the text of the \<open>RollbackSnapshotError\<close>; the wording that the JSON decoder gives its
  own exceptions is left out.  SHA-256, \<open>json.loads\<close>, \<open>datetime.fromisoformat\<close> and the trusted read
  of the file are arguments.
\<close>

section \<open>Canonical JSON text\<close>

text \<open>\<open>json.dumps(value, ensure_ascii=True, separators=(",", ":"), sort_keys=True)\<close>\<close>

definition short_escape :: "char \<Rightarrow> string option" where
  "short_escape c =
     (if cp c = 34 \<or> cp c = 92 then Some [c]
      else map_of [(8, ''b''), (9, ''t''), (10, ''n''), (12, ''f''), (13, ''r'')] (cp c))"

definition json_char :: "char \<Rightarrow> string" where
  "json_char c =
     (case short_escape c of
        Some e \<Rightarrow> CHR 0x5C # e
      | None \<Rightarrow>
          if 32 \<le> cp c \<and> cp c \<le> 126 then [c]
          else [CHR 0x5C] @ ''u00'' @ [hex_digit (cp c div 16), hex_digit (cp c mod 16)])"

definition json_string :: "string \<Rightarrow> string" where
  "json_string s = ''\"'' @ concat (map json_char s) @ ''\"''"

fun json_dumps :: "json \<Rightarrow> string" where
  "json_dumps JNull = ''null''"
| "json_dumps (JBool b) = (if b then ''true'' else ''false'')"
| "json_dumps (JInt i) = int_str i"
| "json_dumps (JFloat s) = s"
| "json_dumps (JStr s) = json_string s"
| "json_dumps (JList xs) = ''['' @ join '','' (map json_dumps xs) @ '']''"
| "json_dumps (JObj kvs) = ''{''
     @ join '','' (map snd (sort_key fst (map (\<lambda>(k, v). (k, json_string k @ '':'' @ json_dumps v)) kvs)))
     @ ''}''"

section \<open>A snapshot as JSON\<close>

text \<open>\<open>dataclasses.asdict\<close>\<close>

definition json_opt :: "('a \<Rightarrow> json) \<Rightarrow> 'a option \<Rightarrow> json" where
  "json_opt f x = (case x of None \<Rightarrow> JNull | Some a \<Rightarrow> f a)"

definition json_strs :: "string list \<Rightarrow> json" where
  "json_strs xs = JList (map JStr xs)"

definition package_json :: "package_info \<Rightarrow> json" where
  "package_json p = JObj
     [(''name'', JStr (pi_name p)), (''version'', json_opt JStr (pi_version p)),
      (''manager'', json_opt JStr (pi_manager p)), (''installed'', JBool (pi_installed p)),
      (''architecture'', json_opt JStr (pi_architecture p)), (''epoch'', json_opt JStr (pi_epoch p))]"

definition payload_json :: "package_payload \<Rightarrow> json" where
  "payload_json e = JObj
     [(''name'', JStr (pp_name e)), (''architecture'', JStr (pp_architecture e)),
      (''epoch'', json_opt JStr (pp_epoch e)), (''version'', JStr (pp_version e)),
      (''format'', JStr (pp_format e)), (''filename'', JStr (pp_filename e)),
      (''sha256'', JStr (pp_sha256 e)), (''size_bytes'', JInt (pp_size_bytes e)),
      (''verification'', JStr (pp_verification e)), (''roles'', json_strs (pp_roles e)),
      (''signer_ids'', json_strs (pp_signer_ids e))]"

definition bundle_json :: "package_payload_bundle \<Rightarrow> json" where
  "bundle_json b = JObj
     [(''directory'', JStr (ppb_directory b)), (''packages'', JList (map payload_json (ppb_packages b))),
      (''total_size_bytes'', JInt (ppb_total_size_bytes b))]"

definition managed_file_json :: "file_snapshot \<Rightarrow> json" where
  "managed_file_json f = JObj
     [(''path'', JStr (fs_path f)), (''existed'', JBool (fs_existed f)),
      (''content_base64'', json_opt JStr (fs_content_base64 f)), (''mode'', json_opt JInt (fs_mode f))]"

definition compute_json :: "mig_compute_instance \<Rightarrow> json" where
  "compute_json c = JObj
     [(''profile'', JStr (mci_profile c)), (''profile_id'', JInt (mci_profile_id c))]"

definition instance_json :: "mig_gpu_instance \<Rightarrow> json" where
  "instance_json g = JObj
     [(''gpu_uuid'', JStr (mgi_gpu_uuid g)), (''profile'', JStr (mgi_profile g)),
      (''profile_id'', JInt (mgi_profile_id g)), (''placement_start'', JInt (mgi_placement_start g)),
      (''placement_size'', JInt (mgi_placement_size g)),
      (''compute_instances'', JList (map compute_json (mgi_compute_instances g)))]"

definition snapshot_fields :: "rollback_snapshot \<Rightarrow> (string \<times> json) list" where
  "snapshot_fields s =
     [(''path'', json_opt JStr (rs_path s)), (''packages'', JList (map package_json (rs_packages s))),
      (''kernel'', JStr (rs_kernel s)), (''module_version'', json_opt JStr (rs_module_version s)),
      (''commands'', JList (map json_strs (rs_commands s))),
      (''schema_version'', JStr (rs_schema_version s)), (''created_at'', JStr (rs_created_at s)),
      (''operation_id'', JStr (rs_operation_id s)), (''host_id'', JStr (rs_host_id s)),
      (''os_id'', json_opt JStr (rs_os_id s)), (''os_version'', json_opt JStr (rs_os_version s)),
      (''architecture'', JStr (rs_architecture s)),
      (''package_manager'', json_opt JStr (rs_package_manager s)),
      (''introduced_packages'', json_strs (rs_introduced_packages s)),
      (''module_loaded'', JBool (rs_module_loaded s)), (''module_names'', json_strs (rs_module_names s)),
      (''module_open_module'', json_opt JBool (rs_module_open_module s)),
      (''module_signed'', json_opt JBool (rs_module_signed s)),
      (''module_installed_version'', json_opt JStr (rs_module_installed_version s)),
      (''module_installed_open_module'', json_opt JBool (rs_module_installed_open_module s)),
      (''module_installed_signed'', json_opt JBool (rs_module_installed_signed s)),
      (''mig_mode'', json_opt JStr (rs_mig_mode s)),
      (''docker_service_active'', json_opt JBool (rs_docker_service_active s)),
      (''docker_service_enabled'', json_opt JBool (rs_docker_service_enabled s)),
      (''docker_service_unit_file_state'', json_opt JStr (rs_docker_service_unit_file_state s)),
      (''docker_socket_active'', json_opt JBool (rs_docker_socket_active s)),
      (''docker_socket_enabled'', json_opt JBool (rs_docker_socket_enabled s)),
      (''docker_socket_unit_file_state'', json_opt JStr (rs_docker_socket_unit_file_state s)),
      (''nvidia_persistenced_active'', json_opt JBool (rs_nvidia_persistenced_active s)),
      (''nvidia_persistenced_enabled'', json_opt JBool (rs_nvidia_persistenced_enabled s)),
      (''nvidia_persistenced_unit_file_state'', json_opt JStr (rs_nvidia_persistenced_unit_file_state s)),
      (''fabric_manager_active'', json_opt JBool (rs_fabric_manager_active s)),
      (''fabric_manager_enabled'', json_opt JBool (rs_fabric_manager_enabled s)),
      (''fabric_manager_unit_file_state'', json_opt JStr (rs_fabric_manager_unit_file_state s)),
      (''managed_files'', JList (map managed_file_json (rs_managed_files s))),
      (''package_payloads'', json_opt bundle_json (rs_package_payloads s)),
      (''gpu_uuids'', json_strs (rs_gpu_uuids s)),
      (''mig_geometry'', JList (map instance_json (rs_mig_geometry s))),
      (''integrity_sha256'', json_opt JStr (rs_integrity_sha256 s))]"

definition snapshot_integrity :: "(string \<Rightarrow> string) \<Rightarrow> rollback_snapshot \<Rightarrow> string" where
  "snapshot_integrity sha256 s =
     sha256 (json_dumps (JObj (filter (\<lambda>(k, _). k \<noteq> ''integrity_sha256'') (snapshot_fields s))))"

section \<open>Single fields\<close>

text \<open>The texts of the refusals that the command builder and the field checks give\<close>

definition rollback_error_text :: "rollback_error \<Rightarrow> string" where
  "rollback_error_text e =
     (case e of
        PayloadsRequirePath \<Rightarrow> ''rollback package payloads require an exact snapshot path''
      | ManifestOmitsIdentity identity \<Rightarrow>
          ''rollback package payload manifest omits baseline identity '' @ identity
      | NoRetainedPayloads \<Rightarrow> ''applicable rollback snapshot has no retained package payloads''
      | AptRemovalAssertion \<Rightarrow> ''APT removals must be part of one install transaction''
      | ZypperRemovalAssertion \<Rightarrow> ''Zypper removals must be part of one install transaction''
      | CommandsNotArray \<Rightarrow> ''rollback snapshot commands must be an array''
      | TooManyCommands \<Rightarrow> ''rollback snapshot commands exceeds 256 entries''
      | CommandNotArray i \<Rightarrow>
          ''rollback snapshot commands['' @ nat_str i @ ''] must be a non-empty array''
      | CommandTooLong i \<Rightarrow> ''rollback snapshot commands['' @ nat_str i @ ''] is too long''
      | CommandEntriesInvalid i \<Rightarrow>
          ''rollback snapshot commands['' @ nat_str i @ ''] entries must be non-empty strings''
      | CommandUnsupported i \<Rightarrow>
          ''rollback snapshot commands['' @ nat_str i @ ''] is not a supported rollback command''
      | NotRequiredString name \<Rightarrow> ''rollback snapshot '' @ name @ '' must be a non-empty string''
      | NotOptionalString name \<Rightarrow> ''rollback snapshot '' @ name @ '' must be null or a non-empty string''
      | NotBoolean name \<Rightarrow> ''rollback snapshot '' @ name @ '' must be a boolean''
      | NotUnitFileState name \<Rightarrow>
          ''rollback snapshot '' @ name @ '' is not a supported exact systemd state'')"

definition worded :: "rollback_error + 'a \<Rightarrow> string + 'a" where
  "worded r = (case r of Inl e \<Rightarrow> Inl (rollback_error_text e) | Inr a \<Rightarrow> Inr a)"

text \<open>Refuse with a text after \<open>rollback snapshot\<close>, or go on.\<close>

definition demand :: "bool \<Rightarrow> string \<Rightarrow> string + 'a \<Rightarrow> string + 'a" where
  "demand b message go = (if b then go else Inl (''rollback snapshot '' @ message))"

definition string_field :: "(string \<times> json) list \<Rightarrow> string \<Rightarrow> string \<Rightarrow> string + string" where
  "string_field d key name = worded (required_string (jget_or_null key d) name)"

definition opt_string_field :: "(string \<times> json) list \<Rightarrow> string \<Rightarrow> string + string option" where
  "opt_string_field d key = worded (optional_string (jget_or_null key d) key)"

definition bool_field :: "(string \<times> json) list \<Rightarrow> string \<Rightarrow> string + bool" where
  "bool_field d key = worded (required_boolean (jget_or_null key d) key)"

definition opt_bool_field :: "(string \<times> json) list \<Rightarrow> string \<Rightarrow> string + bool option" where
  "opt_bool_field d key = worded (optional_boolean (jget_or_null key d) key)"

definition required_unit_file_state :: "json \<Rightarrow> string \<Rightarrow> rollback_error + string" where
  "required_unit_file_state v name =
     bind_r (required_string v name) (\<lambda>state.
       if state \<in> set snapshot_unit_file_states then Inr state else Inl (NotUnitFileState name))"

definition nonnegative_integer :: "json \<Rightarrow> string \<Rightarrow> int \<Rightarrow> string + int" where
  "nonnegative_integer v name minimum =
     (case v of
        JInt i \<Rightarrow> demand (minimum \<le> i) (name @ '' must be an integer >= '' @ int_str minimum) (Inr i)
      | _ \<Rightarrow> Inl (''rollback snapshot '' @ name @ '' must be an integer >= '' @ int_str minimum))"

text \<open>A name with an index\<close>

definition indexed :: "string \<Rightarrow> nat \<Rightarrow> string" where
  "indexed name i = name @ ''['' @ nat_str i @ '']''"

section \<open>MIG geometry\<close>

definition max_mig_gpu_instances :: nat where "max_mig_gpu_instances = 64"
definition max_mig_compute_instances :: nat where "max_mig_compute_instances = 64"

text \<open>\<open>[A-Za-z0-9][A-Za-z0-9.+_-]{0,63}\<close>\<close>

definition profile_name :: "string \<Rightarrow> bool" where
  "profile_name s \<longleftrightarrow>
     (case s of
        [] \<Rightarrow> False
      | c # cs \<Rightarrow> is_alnum c \<and> length cs \<le> 63 \<and> list_all (\<lambda>c. is_alnum c \<or> c \<in> set ''.+_-'') cs)"

definition load_mig_profile :: "(string \<times> json) list \<Rightarrow> string \<Rightarrow> string + string" where
  "load_mig_profile d name =
     bind_r (string_field d ''profile'' (name @ ''.profile'')) (\<lambda>profile.
       demand (profile_name profile) (name @ ''.profile is invalid'') (Inr profile))"

definition load_compute_instance :: "string \<Rightarrow> nat \<Rightarrow> json \<Rightarrow> string + mig_compute_instance" where
  "load_compute_instance name i v =
     (case v of
        JObj d \<Rightarrow>
          demand (set (keys d) = {''profile'', ''profile_id''}) (indexed name i @ '' has invalid fields'')
            (bind_r (load_mig_profile d (indexed name i)) (\<lambda>profile.
             bind_r (nonnegative_integer (jget_or_null ''profile_id'' d)
               (indexed name i @ ''.profile_id'') 0) (\<lambda>profile_id.
               Inr \<lparr>mci_profile = profile, mci_profile_id = profile_id\<rparr>)))
      | _ \<Rightarrow> Inl (''rollback snapshot '' @ indexed name i @ '' has invalid fields''))"

definition load_compute_instances :: "string \<Rightarrow> json \<Rightarrow> string + mig_compute_instance list" where
  "load_compute_instances name v =
     (case v of
        JList cs \<Rightarrow>
          if max_mig_compute_instances < length cs
          then Inl ''rollback snapshot MIG compute instance count exceeds the supported maximum''
          else map_r (\<lambda>(i, c). load_compute_instance (name @ ''.compute_instances'') i c) (enumerate 0 cs)
      | _ \<Rightarrow> Inl (''rollback snapshot '' @ name @ ''.compute_instances must be an array''))"

definition instance_fields :: "string list" where
  "instance_fields =
     [''compute_instances'', ''gpu_uuid'', ''placement_size'', ''placement_start'', ''profile'', ''profile_id'']"

definition load_gpu_instance ::
  "string list \<Rightarrow> (string \<times> int) list \<Rightarrow> nat \<Rightarrow> json \<Rightarrow> string + mig_gpu_instance" where
  "load_gpu_instance uuids placements i v =
     (let name = indexed ''mig_geometry'' i
      in case v of
        JObj d \<Rightarrow>
          demand (set (keys d) = set instance_fields) (name @ '' has invalid fields'') (
          bind_r (string_field d ''gpu_uuid'' (name @ ''.gpu_uuid'')) (\<lambda>gpu_uuid.
          demand (gpu_uuid \<in> set uuids) (name @ '' references an unknown GPU UUID'') (
          bind_r (load_mig_profile d name) (\<lambda>profile.
          bind_r (nonnegative_integer (jget_or_null ''profile_id'' d) (name @ ''.profile_id'') 0) (\<lambda>profile_id.
          bind_r (nonnegative_integer (jget_or_null ''placement_start'' d)
            (name @ ''.placement_start'') 0) (\<lambda>placement_start.
          bind_r (nonnegative_integer (jget_or_null ''placement_size'' d)
            (name @ ''.placement_size'') 1) (\<lambda>placement_size.
          demand ((gpu_uuid, placement_start) \<notin> set placements)
            ''mig_geometry contains duplicate GPU placements'' (
          bind_r (load_compute_instances name (jget_or_null ''compute_instances'' d)) (\<lambda>compute_instances.
            Inr \<lparr>mgi_gpu_uuid = gpu_uuid, mgi_profile = profile, mgi_profile_id = profile_id,
                 mgi_placement_start = placement_start, mgi_placement_size = placement_size,
                 mgi_compute_instances = compute_instances\<rparr>)))))))))
      | _ \<Rightarrow> Inl (''rollback snapshot '' @ name @ '' must be an object''))"

fun load_gpu_instances ::
  "string list \<Rightarrow> (string \<times> int) list \<Rightarrow> (nat \<times> json) list \<Rightarrow> string + mig_gpu_instance list" where
  "load_gpu_instances uuids placements [] = Inr []"
| "load_gpu_instances uuids placements ((i, v) # rest) =
     bind_r (load_gpu_instance uuids placements i v) (\<lambda>g.
     bind_r (load_gpu_instances uuids ((mgi_gpu_uuid g, mgi_placement_start g) # placements) rest) (\<lambda>gs.
       Inr (g # gs)))"

definition load_mig_geometry :: "json \<Rightarrow> string list \<Rightarrow> string + mig_gpu_instance list" where
  "load_mig_geometry v uuids =
     (case v of
        JList gs \<Rightarrow>
          demand (length gs \<le> max_mig_gpu_instances) ''mig_geometry exceeds 64 entries''
            (load_gpu_instances uuids [] (enumerate 0 gs))
      | _ \<Rightarrow> Inl ''rollback snapshot mig_geometry must be an array'')"

section \<open>Packages\<close>

definition max_snapshot_packages :: int where "max_snapshot_packages = 4096"

definition package_fields :: "string list" where
  "package_fields = [''architecture'', ''epoch'', ''installed'', ''manager'', ''name'', ''version'']"

definition opt_package_field :: "(string \<times> json) list \<Rightarrow> string \<Rightarrow> string \<Rightarrow> string + string option" where
  "opt_package_field d name key = worded (optional_package_string (jget_or_null key d) (name @ ''.'' @ key))"

definition load_package :: "nat \<Rightarrow> json \<Rightarrow> string + package_info" where
  "load_package i v =
     (let name = indexed ''packages'' i
      in case v of
        JObj d \<Rightarrow>
          demand (set (keys d) = set package_fields)
            (name @ '' must contain exactly: '' @ join '', '' package_fields) (
          bind_r (string_field d ''name'' (name @ ''.name'')) (\<lambda>pname.
          demand (interesting_package pname) (name @ ''.name is outside the NVIDIA stack scope'') (
          bind_r (opt_package_field d name ''version'') (\<lambda>version.
          bind_r (opt_package_field d name ''manager'') (\<lambda>manager.
          bind_r (opt_package_field d name ''architecture'') (\<lambda>architecture.
          bind_r (opt_package_field d name ''epoch'') (\<lambda>epoch.
          demand (jget_or_null ''installed'' d = JBool True) (name @ ''.installed must be true'') (
          demand (version \<noteq> None) (name @ ''.version must be known'') (
          demand (architecture \<noteq> None) (name @ ''.architecture must be known'') (
            Inr \<lparr>pi_name = pname, pi_version = version, pi_manager = manager, pi_installed = True,
                 pi_architecture = architecture, pi_epoch = epoch\<rparr>))))))))))
      | _ \<Rightarrow> Inl (''rollback snapshot '' @ name @ '' must be an object''))"

definition load_packages :: "json \<Rightarrow> string + package_info list" where
  "load_packages v =
     (case v of
        JList ps \<Rightarrow>
          demand (int (length ps) \<le> max_snapshot_packages) ''packages exceeds 4096 entries''
            (bind_r (map_r (\<lambda>(i, p). load_package i p) (enumerate 0 ps)) (\<lambda>packages.
              demand (distinct (map package_state_identity packages)) ''packages contains duplicates''
                (Inr packages)))
      | _ \<Rightarrow> Inl ''rollback snapshot packages must be an array'')"

definition load_introduced_package :: "nat \<Rightarrow> json \<Rightarrow> string + string" where
  "load_introduced_package i v =
     bind_r (worded (required_string v (indexed ''introduced_packages'' i))) (\<lambda>name.
       demand (interesting_package name \<and> valid_package_spec name)
         (indexed ''introduced_packages'' i @ '' is outside the NVIDIA stack scope'') (Inr name))"

definition load_introduced_packages :: "json \<Rightarrow> string + string list" where
  "load_introduced_packages v =
     (case v of
        JList ps \<Rightarrow>
          demand (int (length ps) \<le> max_snapshot_packages) ''introduced_packages exceeds 4096 entries''
            (bind_r (map_r (\<lambda>(i, p). load_introduced_package i p) (enumerate 0 ps)) (\<lambda>packages.
              demand (distinct packages) ''introduced_packages contains duplicates'' (Inr packages)))
      | _ \<Rightarrow> Inl ''rollback snapshot introduced_packages must be an array'')"

section \<open>Payload manifest\<close>

text \<open>A list of different strings, from an allowed set or of a given form\<close>

definition load_payload_string_set ::
  "json \<Rightarrow> string \<Rightarrow> string list option \<Rightarrow> (string \<Rightarrow> bool) option \<Rightarrow> bool \<Rightarrow> string + string list" where
  "load_payload_string_set v name allowed pattern nonempty =
     (case v of
        JList xs \<Rightarrow>
          demand (list_all is_jstr xs) (name @ '' must be a string array'') (
          let items = map the_jstr xs
          in demand (\<not> (nonempty \<and> items = []) \<and> distinct items) (name @ '' must contain unique values'') (
             demand (case allowed of None \<Rightarrow> True | Some as \<Rightarrow> set items \<subseteq> set as)
               (name @ '' contains unsupported values'') (
             demand (case pattern of None \<Rightarrow> True | Some p \<Rightarrow> list_all p items)
               (name @ '' contains invalid values'') (Inr items))))
      | _ \<Rightarrow> Inl (''rollback snapshot '' @ name @ '' must be a string array''))"

definition payload_fields :: "string list" where
  "payload_fields =
     [''architecture'', ''epoch'', ''filename'', ''format'', ''name'', ''roles'', ''sha256'', ''signer_ids'',
      ''size_bytes'', ''verification'', ''version'']"

definition payload_provenance :: "string \<Rightarrow> string \<Rightarrow> string \<Rightarrow> string \<Rightarrow> string \<Rightarrow> bool" where
  "payload_provenance pm format verification digest filename \<longleftrightarrow>
     format = payload_format pm \<and> verification = payload_verification pm
     \<and> hex_of_length 64 digest \<and> filename = digest @ ''.'' @ format"

definition load_payload :: "string \<Rightarrow> nat \<Rightarrow> json \<Rightarrow> string + package_payload" where
  "load_payload pm i v =
     (let name = indexed ''package_payloads.packages'' i; part = (\<lambda>key. name @ ''.'' @ key)
      in case v of
        JObj d \<Rightarrow>
          demand (set (keys d) = set payload_fields) (name @ '' has invalid fields'') (
          bind_r (string_field d ''name'' (part ''name'')) (\<lambda>pname.
          demand (interesting_package pname) (part ''name is outside the package scope'') (
          bind_r (string_field d ''architecture'' (part ''architecture'')) (\<lambda>architecture.
          bind_r (string_field d ''version'' (part ''version'')) (\<lambda>version.
          bind_r (opt_package_field d name ''epoch'') (\<lambda>epoch.
          bind_r (string_field d ''format'' (part ''format'')) (\<lambda>format.
          bind_r (string_field d ''verification'' (part ''verification'')) (\<lambda>verification.
          bind_r (string_field d ''filename'' (part ''filename'')) (\<lambda>filename.
          bind_r (string_field d ''sha256'' (part ''sha256'')) (\<lambda>digest.
          demand (payload_provenance pm format verification digest filename)
            (name @ '' has invalid payload provenance'') (
          bind_r (nonnegative_integer (jget_or_null ''size_bytes'' d) (part ''size_bytes'') 1) (\<lambda>size_bytes.
          bind_r (load_payload_string_set (jget_or_null ''roles'' d) (part ''roles'')
            (Some [''baseline'', ''forward'']) None True) (\<lambda>roles.
          bind_r (load_payload_string_set (jget_or_null ''signer_ids'' d) (part ''signer_ids'')
            None (Some valid_signer_id) (format = ''rpm'')) (\<lambda>signers.
          demand (\<not> (format = ''deb'' \<and> signers \<noteq> []))
            (part ''signer_ids must be empty for DEB payloads'') (
            Inr \<lparr>pp_name = pname, pp_architecture = architecture, pp_epoch = epoch, pp_version = version,
                 pp_format = format, pp_filename = filename, pp_sha256 = digest, pp_size_bytes = size_bytes,
                 pp_verification = verification, pp_roles = roles, pp_signer_ids = signers\<rparr>)))))))))))))))
      | _ \<Rightarrow> Inl (''rollback snapshot '' @ name @ '' has invalid fields''))"

definition entry_state :: "package_payload \<Rightarrow> package_identity" where
  "entry_state e = (pp_name e, Some (pp_architecture e), pp_epoch e, Some (pp_version e))"

definition load_payload_list ::
  "json \<Rightarrow> string \<Rightarrow> package_info list \<Rightarrow> string \<Rightarrow> json \<Rightarrow> string + package_payload_bundle" where
  "load_payload_list v pm baseline folder declared =
     (case v of
        JList raw \<Rightarrow>
          if 2 * max_snapshot_packages < int (length raw)
          then Inl ''rollback snapshot package payload manifest exceeds the supported entry count''
          else
          bind_r (map_r (\<lambda>(i, e). load_payload pm i e) (enumerate 0 raw)) (\<lambda>payloads.
          demand (distinct (map entry_state payloads))
            ''package payload manifest contains duplicate identities'' (
          demand (distinct (map pp_filename payloads)) ''package payload manifest contains duplicate files'' (
          demand (set (map entry_state (filter (\<lambda>e. ''baseline'' \<in> set (pp_roles e)) payloads))
              = set (map package_state_identity baseline))
            ''package payload manifest is not one-to-one with baseline packages'' (
          bind_r (nonnegative_integer declared ''package_payloads.total_size_bytes'' 0) (\<lambda>total_size.
          demand (total_size = sum_list (map pp_size_bytes payloads))
            ''package payload total size is inconsistent'' (
            Inr \<lparr>ppb_directory = folder, ppb_packages = payloads, ppb_total_size_bytes = total_size\<rparr>))))))
      | _ \<Rightarrow> Inl ''rollback snapshot package_payloads.packages must be an array'')"

definition check_error_text :: "check_error \<Rightarrow> string" where
  "check_error_text e = (case e of Refused text \<Rightarrow> text | SystemError text \<Rightarrow> text)"

definition load_package_payloads ::
  "json \<Rightarrow> string \<Rightarrow> package_info list \<Rightarrow> string \<Rightarrow> string + package_payload_bundle" where
  "load_package_payloads v pm baseline snapshot_path =
     (let shape = ''rollback snapshot package_payloads must contain exactly: directory, packages, total_size_bytes''
      in case v of
        JObj d \<Rightarrow>
          if set (keys d) \<noteq> {''directory'', ''packages'', ''total_size_bytes''} then Inl shape
          else
          bind_r (string_field d ''directory'' ''package_payloads.directory'') (\<lambda>folder.
          case payload_bundle_directory (path_text snapshot_path) of
            Inl e \<Rightarrow> Inl (''rollback snapshot package payload path is invalid: '' @ check_error_text e)
          | Inr expected \<Rightarrow>
              demand (folder = expected) ''package payload directory is not bound to its path''
                (load_payload_list (jget_or_null ''packages'' d) pm baseline folder
                  (jget_or_null ''total_size_bytes'' d)))
      | _ \<Rightarrow> Inl shape)"


section \<open>Modules, GPUs and managed files\<close>

definition allowed_nvidia_modules :: "string list" where
  "allowed_nvidia_modules =
     [''nvidia'', ''nvidia_drm'', ''nvidia_fs'', ''nvidia_modeset'', ''nvidia_peermem'', ''nvidia_uvm'']"

definition load_module_names :: "json \<Rightarrow> bool \<Rightarrow> string + string list" where
  "load_module_names v loaded =
     (let shape = ''rollback snapshot module_names must contain only supported NVIDIA modules''
      in case v of
        JList xs \<Rightarrow>
          if \<not> (list_all is_jstr xs \<and> list_all (\<lambda>x. the_jstr x \<in> set allowed_nvidia_modules) xs)
          then Inl shape
          else
          demand (distinct (map the_jstr xs)) ''module_names contains duplicates'' (
          demand (loaded = (''nvidia'' \<in> set (map the_jstr xs)))
            ''module_names is inconsistent with module_loaded'' (Inr (map the_jstr xs)))
      | _ \<Rightarrow> Inl shape)"

text \<open>\<open>GPU-[A-Fa-f0-9-]{16,}\<close>\<close>

definition gpu_uuid_form :: "string \<Rightarrow> bool" where
  "gpu_uuid_form s \<longleftrightarrow>
     startswith s ''GPU-'' \<and> 20 \<le> length s
     \<and> list_all (\<lambda>c. is_hex c \<or> (65 \<le> cp c \<and> cp c \<le> 70) \<or> c = CHR ''-'') (drop 4 s)"

definition load_gpu_uuids :: "json \<Rightarrow> string + string list" where
  "load_gpu_uuids v =
     (case v of
        JList (x # xs) \<Rightarrow>
          demand (length (x # xs) \<le> 64) ''gpu_uuids exceeds 64 entries'' (
          demand (list_all is_jstr (x # xs) \<and> list_all (\<lambda>x. gpu_uuid_form (the_jstr x)) (x # xs))
            ''gpu_uuids contains an invalid GPU UUID'' (
          demand (distinct (map the_jstr (x # xs))) ''gpu_uuids contains duplicates''
            (Inr (map the_jstr (x # xs)))))
      | _ \<Rightarrow> Inl ''rollback snapshot gpu_uuids must be a non-empty array'')"

definition file_mode :: "json \<Rightarrow> int option" where
  "file_mode v = (case v of JInt i \<Rightarrow> if 0 \<le> i \<and> i \<le> 511 then Some i else None | _ \<Rightarrow> None)"

definition load_file_content :: "string \<Rightarrow> string \<Rightarrow> bool \<Rightarrow> string option \<Rightarrow> json \<Rightarrow> string + file_snapshot" where
  "load_file_content name path existed content mode =
     (if existed then
        demand (content \<noteq> None \<and> file_mode mode \<noteq> None) (name @ '' lacks restorable content/mode'') (
        case decoded_text (or_empty content) of
          None \<Rightarrow> Inl (''rollback snapshot '' @ name @ ''.content_base64 is invalid'')
        | Some bytes \<Rightarrow>
            demand (int (length bytes) \<le> max_managed_file_bytes) (name @ '' content is too large'')
              (Inr \<lparr>fs_path = path, fs_existed = True, fs_content_base64 = content,
                    fs_mode = file_mode mode\<rparr>))
      else
        demand (content = None \<and> mode = JNull) (name @ '' records content for an absent file'')
          (Inr \<lparr>fs_path = path, fs_existed = False, fs_content_base64 = None, fs_mode = None\<rparr>))"

definition load_managed_file :: "nat \<Rightarrow> json \<Rightarrow> string + file_snapshot" where
  "load_managed_file i v =
     (let name = indexed ''managed_files'' i
      in case v of
        JObj d \<Rightarrow>
          demand (set (keys d) = {''content_base64'', ''existed'', ''mode'', ''path''})
            (name @ '' has invalid fields'') (
          bind_r (string_field d ''path'' (name @ ''.path'')) (\<lambda>path.
          demand (is_managed_path path) (name @ ''.path is not managed'') (
          bind_r (worded (required_boolean (jget_or_null ''existed'' d) (name @ ''.existed''))) (\<lambda>existed.
          bind_r (worded (optional_string (jget_or_null ''content_base64'' d)
            (name @ ''.content_base64''))) (\<lambda>content.
            load_file_content name path existed content (jget_or_null ''mode'' d))))))
      | _ \<Rightarrow> Inl (''rollback snapshot '' @ name @ '' has invalid fields''))"

definition expected_managed_paths :: "string \<Rightarrow> string list" where
  "expected_managed_paths pm =
     [docker_config_path] @ (if pm \<in> {''dnf'', ''yum''} then [dnf_module_path] else [])
     @ (if pm = ''zypper'' then [zypper_lock_path] else [])"

definition canonical_managed_paths :: "string \<Rightarrow> string list \<Rightarrow> string list" where
  "canonical_managed_paths pm actual =
     expected_managed_paths pm
     @ (if pm \<in> {''dnf'', ''yum''}
        then sorted_set (filter (\<lambda>p. p \<notin> set (expected_managed_paths pm)) actual) else [])"

definition load_managed_files :: "json \<Rightarrow> string \<Rightarrow> string + file_snapshot list" where
  "load_managed_files v pm =
     (case v of
        JList fs \<Rightarrow>
          bind_r (map_r (\<lambda>(i, f). load_managed_file i f) (enumerate 0 fs)) (\<lambda>files.
          let actual = map fs_path files; dynamic = dedup (filter dnf_module_failsafe_path actual)
          in demand (pm = ''dnf'' \<longrightarrow> length dynamic = 1) ''must have one DNF module fail-safe target'' (
             demand (set actual
                   = set (expected_managed_paths pm @ (if pm = ''dnf'' then dynamic else []))
                 \<and> distinct actual)
               ''managed_files does not match its package manager'' (
             demand (actual = canonical_managed_paths pm actual)
               ''managed_files is not in canonical restore order'' (Inr files))))
      | _ \<Rightarrow> Inl ''rollback snapshot managed_files must be an array'')"


section \<open>The document\<close>

definition required_fields :: "string list" where
  "required_fields =
     [''architecture'', ''commands'', ''created_at'', ''operation_id'', ''host_id'', ''integrity_sha256'',
      ''introduced_packages'', ''kernel'', ''managed_files'', ''module_loaded'', ''module_names'',
      ''module_open_module'', ''module_signed'', ''module_installed_version'',
      ''module_installed_open_module'', ''module_installed_signed'', ''module_version'', ''mig_geometry'',
      ''mig_mode'', ''docker_service_active'', ''docker_service_enabled'',
      ''docker_service_unit_file_state'', ''docker_socket_active'', ''docker_socket_enabled'',
      ''docker_socket_unit_file_state'', ''nvidia_persistenced_active'', ''nvidia_persistenced_enabled'',
      ''nvidia_persistenced_unit_file_state'', ''fabric_manager_active'', ''fabric_manager_enabled'',
      ''fabric_manager_unit_file_state'', ''gpu_uuids'', ''os_id'', ''os_version'', ''package_manager'',
      ''package_payloads'', ''packages'', ''path'', ''schema_version'']"

definition check_fields :: "(string \<times> json) list \<Rightarrow> string + unit" where
  "check_fields d =
     (let missing = sorted_set (filter (\<lambda>k. k \<notin> set (keys d)) required_fields);
          unknown = sorted_set (filter (\<lambda>k. k \<notin> set required_fields) (keys d))
      in demand (missing = []) (''missing required field(s): '' @ join '', '' missing) (
         demand (unknown = []) (''contains unknown field(s): '' @ join '', '' unknown) (Inr ())))"

definition snapshot_schema_version :: string where "snapshot_schema_version = ''2.6''"

text \<open>The constructor call is split: each group of fields is read and set on the snapshot so far.\<close>

definition blank_snapshot :: rollback_snapshot where
  "blank_snapshot =
     \<lparr>rs_path = None, rs_packages = [], rs_kernel = [], rs_module_version = None, rs_commands = [],
      rs_schema_version = [], rs_created_at = [], rs_operation_id = [], rs_host_id = [], rs_os_id = None,
      rs_os_version = None, rs_architecture = [], rs_package_manager = None, rs_introduced_packages = [],
      rs_module_loaded = False, rs_module_names = [], rs_module_open_module = None,
      rs_module_signed = None, rs_module_installed_version = None, rs_module_installed_open_module = None,
      rs_module_installed_signed = None, rs_mig_mode = None, rs_docker_service_active = None,
      rs_docker_service_enabled = None, rs_docker_service_unit_file_state = None,
      rs_docker_socket_active = None, rs_docker_socket_enabled = None,
      rs_docker_socket_unit_file_state = None, rs_nvidia_persistenced_active = None,
      rs_nvidia_persistenced_enabled = None, rs_nvidia_persistenced_unit_file_state = None,
      rs_fabric_manager_active = None, rs_fabric_manager_enabled = None,
      rs_fabric_manager_unit_file_state = None, rs_managed_files = [], rs_package_payloads = None,
      rs_gpu_uuids = [], rs_mig_geometry = [], rs_integrity_sha256 = None, rs_source_binding = None\<rparr>"

definition read_identity ::
  "(string \<Rightarrow> bool) \<Rightarrow> string \<Rightarrow> (string \<times> json) list \<Rightarrow> rollback_snapshot \<Rightarrow> string + rollback_snapshot" where
  "read_identity timestamp source d s =
     bind_r (string_field d ''schema_version'' ''schema_version'') (\<lambda>schema.
     if schema \<noteq> snapshot_schema_version
       then Inl (''unsupported rollback snapshot schema_version '' @ py_repr schema @ ''; expected ''
         @ snapshot_schema_version)
     else
     bind_r (string_field d ''path'' ''path'') (\<lambda>path.
     demand (path_text path = source) ''path binding does not match the loaded file'' (
     bind_r (string_field d ''created_at'' ''created_at'') (\<lambda>created_at.
     demand (timestamp created_at) ''created_at must be an ISO-8601 timestamp'' (
     bind_r (string_field d ''operation_id'' ''operation_id'') (\<lambda>operation_id.
     demand (hex_of_length 32 operation_id)
       ''operation_id must be a 32-character lowercase hex identifier'' (
     bind_r (string_field d ''host_id'' ''host_id'') (\<lambda>host_id.
     bind_r (opt_string_field d ''os_id'') (\<lambda>os_id.
     bind_r (opt_string_field d ''os_version'') (\<lambda>os_version.
     bind_r (string_field d ''architecture'' ''architecture'') (\<lambda>architecture.
     bind_r (string_field d ''package_manager'' ''package_manager'') (\<lambda>pm.
     demand (pm \<in> {''apt-get'', ''dnf'', ''yum'', ''zypper''}) ''package_manager is not supported'' (
     bind_r (string_field d ''kernel'' ''kernel'') (\<lambda>krelease.
       Inr (s\<lparr>rs_schema_version := schema, rs_path := Some path, rs_created_at := created_at,
              rs_operation_id := operation_id, rs_host_id := host_id, rs_os_id := os_id,
              rs_os_version := os_version, rs_architecture := architecture,
              rs_package_manager := Some pm, rs_kernel := krelease\<rparr>)))))))))))))))"

definition read_modules :: "(string \<times> json) list \<Rightarrow> rollback_snapshot \<Rightarrow> string + rollback_snapshot" where
  "read_modules d s =
     bind_r (opt_string_field d ''module_version'') (\<lambda>version.
     bind_r (bool_field d ''module_loaded'') (\<lambda>loaded.
     bind_r (load_module_names (jget_or_null ''module_names'' d) loaded) (\<lambda>names.
     bind_r (opt_bool_field d ''module_open_module'') (\<lambda>open_module.
     bind_r (opt_bool_field d ''module_signed'') (\<lambda>signed.
     bind_r (opt_string_field d ''module_installed_version'') (\<lambda>installed_version.
     bind_r (opt_bool_field d ''module_installed_open_module'') (\<lambda>installed_open.
     bind_r (opt_bool_field d ''module_installed_signed'') (\<lambda>installed_signed.
     bind_r (opt_string_field d ''mig_mode'') (\<lambda>mode.
     demand (mode \<in> {None, Some ''enabled'', Some ''disabled''}) ''mig_mode is invalid''
       (Inr (s\<lparr>rs_module_version := version, rs_module_loaded := loaded, rs_module_names := names,
              rs_module_open_module := open_module, rs_module_signed := signed,
              rs_module_installed_version := installed_version,
              rs_module_installed_open_module := installed_open,
              rs_module_installed_signed := installed_signed, rs_mig_mode := mode\<rparr>)))))))))))"

text \<open>The three fields of one unit\<close>

definition read_unit :: "(string \<times> json) list \<Rightarrow> string \<Rightarrow> string + unit_state" where
  "read_unit d unit_name =
     bind_r (bool_field d (unit_name @ ''_active'')) (\<lambda>active.
     bind_r (bool_field d (unit_name @ ''_enabled'')) (\<lambda>enabled.
     bind_r (worded (required_unit_file_state (jget_or_null (unit_name @ ''_unit_file_state'') d)
       (unit_name @ ''_unit_file_state''))) (\<lambda>state.
       Inr \<lparr>us_active = Some active, us_enabled = Some enabled, us_file_state = Some state\<rparr>)))"

definition read_units :: "(string \<times> json) list \<Rightarrow> rollback_snapshot \<Rightarrow> string + rollback_snapshot" where
  "read_units d s =
     bind_r (read_unit d ''docker_service'') (\<lambda>service.
     bind_r (read_unit d ''docker_socket'') (\<lambda>socket.
     bind_r (read_unit d ''nvidia_persistenced'') (\<lambda>persistenced.
     bind_r (read_unit d ''fabric_manager'') (\<lambda>fabric.
       Inr (s\<lparr>rs_docker_service_active := us_active service, rs_docker_service_enabled := us_enabled service,
              rs_docker_service_unit_file_state := us_file_state service,
              rs_docker_socket_active := us_active socket, rs_docker_socket_enabled := us_enabled socket,
              rs_docker_socket_unit_file_state := us_file_state socket,
              rs_nvidia_persistenced_active := us_active persistenced,
              rs_nvidia_persistenced_enabled := us_enabled persistenced,
              rs_nvidia_persistenced_unit_file_state := us_file_state persistenced,
              rs_fabric_manager_active := us_active fabric, rs_fabric_manager_enabled := us_enabled fabric,
              rs_fabric_manager_unit_file_state := us_file_state fabric\<rparr>)))))"

definition read_gpus :: "(string \<times> json) list \<Rightarrow> rollback_snapshot \<Rightarrow> string + rollback_snapshot" where
  "read_gpus d s =
     bind_r (load_gpu_uuids (jget_or_null ''gpu_uuids'' d)) (\<lambda>uuids.
     bind_r (load_mig_geometry (jget_or_null ''mig_geometry'' d) uuids) (\<lambda>geometry.
     demand (\<not> (rs_mig_mode s = Some ''disabled'' \<and> geometry \<noteq> []))
       ''cannot contain MIG geometry while mig_mode is disabled''
       (Inr (s\<lparr>rs_gpu_uuids := uuids, rs_mig_geometry := geometry\<rparr>))))"

text \<open>The package manager and the path are known here.\<close>

definition read_packages ::
  "string \<Rightarrow> (string \<times> json) list \<Rightarrow> rollback_snapshot \<Rightarrow> string + rollback_snapshot" where
  "read_packages script d s =
     (let pm = or_empty (rs_package_manager s); manager = (if pm = ''apt-get'' then ''apt'' else ''rpm'')
      in
     bind_r (load_packages (jget_or_null ''packages'' d)) (\<lambda>packages.
     let mismatched = sort (map pi_name (filter (\<lambda>p. pi_manager p \<noteq> Some manager) packages))
     in demand (mismatched = []) (''packages do not match package_manager: '' @ join '', '' mismatched) (
     bind_r (load_introduced_packages (jget_or_null ''introduced_packages'' d)) (\<lambda>introduced.
     bind_r (load_package_payloads (jget_or_null ''package_payloads'' d) pm packages
       (or_empty (rs_path s))) (\<lambda>payloads.
     bind_r (load_managed_files (jget_or_null ''managed_files'' d) pm) (\<lambda>files.
     bind_r (worded (load_commands script (jget_or_null ''commands'' d))) (\<lambda>commands.
       Inr (s\<lparr>rs_packages := packages, rs_introduced_packages := introduced,
              rs_package_payloads := Some payloads, rs_managed_files := files,
              rs_commands := commands\<rparr>))))))))"

definition read_integrity :: "(string \<times> json) list \<Rightarrow> rollback_snapshot \<Rightarrow> string + rollback_snapshot" where
  "read_integrity d s =
     bind_r (string_field d ''integrity_sha256'' ''integrity_sha256'') (\<lambda>integrity.
       demand (hex_of_length 64 integrity) ''integrity_sha256 must be a lowercase SHA-256 digest''
         (Inr (s\<lparr>rs_integrity_sha256 := Some integrity\<rparr>)))"

text \<open>What the whole has to satisfy\<close>

definition check_whole ::
  "(string \<Rightarrow> string) \<Rightarrow> string \<Rightarrow> rollback_snapshot \<Rightarrow> string + rollback_snapshot" where
  "check_whole sha256 script s =
     (case snapshot_service_state_consistency_error s of
        Some e \<Rightarrow> Inl (''rollback snapshot has inconsistent transactional service state: '' @ e)
      | None \<Rightarrow>
          bind_r (worded (rollback_commands script (rs_packages s) (rs_package_manager s)
            (rs_introduced_packages s) False (rs_path s) (rs_package_payloads s) None None)) (\<lambda>expected.
          demand (rs_commands s = expected)
            ''commands are inconsistent with its declarative package state'' (
          demand (rs_integrity_sha256 s = Some (snapshot_integrity sha256 s)) ''integrity check failed''
            (Inr s))))"

definition read_snapshot ::
  "(string \<Rightarrow> string) \<Rightarrow> (string \<Rightarrow> bool) \<Rightarrow> string \<Rightarrow> string \<Rightarrow> json \<Rightarrow> string + rollback_snapshot" where
  "read_snapshot sha256 timestamp script source v =
     (case v of
        JObj d \<Rightarrow>
          bind_r (check_fields d) (\<lambda>_.
          bind_r (read_identity timestamp source d blank_snapshot) (\<lambda>s1.
          bind_r (read_modules d s1) (\<lambda>s2.
          bind_r (read_units d s2) (\<lambda>s3.
          bind_r (read_gpus d s3) (\<lambda>s4.
          bind_r (read_packages script d s4) (\<lambda>s5.
          bind_r (read_integrity d s5) (\<lambda>s6.
            check_whole sha256 script s6)))))))
      | _ \<Rightarrow> Inl ''rollback snapshot must be a JSON object'')"

end
