(* ===== verification/SnapshotTrust.thy ===== *)
theory SnapshotTrust
  imports SnapshotLoad
begin

text \<open>
  Which snapshot a rollback trusts (\<open>nvidia_converge/rollback.py\<close>): \<open>load_snapshot\<close> around the
  reading of the document, the identity of the host, and \<open>validate_snapshot_for_apply\<close>, which
  reloads the file, compares it with the object at hand, binds it to this host and validates the
  retained payloads with the package tools.
\<close>

section \<open>Loading\<close>

text \<open>
  What the trusted read of a file gives: the \<open>strerror\<close> of an \<open>OSError\<close>, the text of a
  \<open>BoundedFileError\<close>, or the content with the permission bits and the two fingerprints.
\<close>

datatype trusted_read =
    ReadFailed string
  | ReadRefused string
  | ReadText string int "int list" "int list"

text \<open>
  \<open>sn_sha256\<close>: the digest of the UTF-8 encoding of a text; \<open>sn_timestamp\<close>: what
  \<open>datetime.fromisoformat\<close> accepts; \<open>sn_owner\<close>: the owner \<open>lstat\<close> reports; \<open>sn_machine_id\<close>: the
  bounded read of \<open>/etc/machine-id\<close>; \<open>sn_node\<close> and \<open>sn_machine\<close>: what \<open>platform\<close> reports.
\<close>

record 'w snapshot_host = "'w payload_host" +
  sn_cwd :: string
  sn_euid :: int
  sn_read :: "string \<Rightarrow> bool \<Rightarrow> 'w \<Rightarrow> trusted_read \<times> 'w"
  sn_loads :: "string json_loads"
  sn_sha256 :: "string \<Rightarrow> string"
  sn_timestamp :: "string \<Rightarrow> bool"
  sn_script :: string
  sn_owner :: "string \<Rightarrow> 'w \<Rightarrow> (string + int) \<times> 'w"
  sn_machine_id :: "'w \<Rightarrow> (string + string) \<times> 'w"
  sn_node :: string
  sn_machine :: string

definition max_snapshot_bytes :: int where "max_snapshot_bytes = 4194304"

text \<open>\<open>_object_without_duplicates\<close>\<close>

fun first_duplicate :: "string list \<Rightarrow> (string \<times> json) list \<Rightarrow> string option" where
  "first_duplicate seen [] = None"
| "first_duplicate seen ((k, _) # kvs) = (if k \<in> set seen then Some k else first_duplicate (k # seen) kvs)"

definition snapshot_without_duplicates :: "(string \<times> json) list \<Rightarrow> string + json" where
  "snapshot_without_duplicates kvs =
     (case first_duplicate [] kvs of
        Some k \<Rightarrow> Inl (''duplicate JSON key: '' @ py_repr k)
      | None \<Rightarrow> Inr (JObj kvs))"

definition parse_snapshot ::
  "('w, 'r) snapshot_host_scheme \<Rightarrow> string \<Rightarrow> bool \<Rightarrow> trusted_read \<Rightarrow> string + json" where
  "parse_snapshot H path private source =
     (case source of
        ReadFailed e \<Rightarrow> Inl (''cannot read rollback snapshot '' @ py_repr path @ '': '' @ e)
      | ReadRefused e \<Rightarrow> Inl (''cannot read rollback snapshot '' @ py_repr path @ '': '' @ e)
      | ReadText content mode _ _ \<Rightarrow>
          if private \<and> mode mod 64 \<noteq> 0
          then Inl (''cannot read rollback snapshot '' @ py_repr path
            @ '': rollback snapshot file must be private to the effective uid'')
          else case sn_loads H snapshot_without_duplicates content of
            Loaded v \<Rightarrow> Inr v
          | JSONDecodeError \<Rightarrow> Inl (''invalid rollback snapshot JSON '' @ py_repr path)
          | HookError e \<Rightarrow> Inl (''invalid rollback snapshot JSON '' @ py_repr path @ '': '' @ e)
          | RecursionError \<Rightarrow> Inl ''rollback snapshot structure is too deeply nested'')"

definition bind_source ::
  "('w, 'r) snapshot_host_scheme \<Rightarrow> string \<Rightarrow> trusted_read \<Rightarrow> rollback_snapshot \<Rightarrow> rollback_snapshot" where
  "bind_source H source_path source s =
     (case source of
        ReadText content _ file_metadata parent_metadata \<Rightarrow>
          s\<lparr>rs_source_binding := Some \<lparr>sb_path = source_path, sb_content_sha256 = sn_sha256 H content,
            sb_file_metadata = file_metadata, sb_parent_metadata = parent_metadata\<rparr>\<rparr>
      | _ \<Rightarrow> s)"

text \<open>The payload bundle of the snapshot that was read; a \<open>PackagePayloadError\<close> is reworded.\<close>

definition check_bundle ::
  "('w, 'r) snapshot_host_scheme \<Rightarrow> bool \<Rightarrow> string \<Rightarrow> string \<Rightarrow> rollback_snapshot \<Rightarrow> ('w, 'z, check_error + unit) action" where
  "check_bundle H inspect lead path s =
     (case rs_package_payloads s of
        None \<Rightarrow> give (Inl (Refused ''applied rollback snapshot has no retained package payload authority''))
      | Some bundle \<Rightarrow> do {
          r \<leftarrow> validate_package_payloads H inspect (path_text path) bundle (rs_packages s)
                (or_empty (rs_package_manager s)) None;
          give (case r of
            Inl (Refused e) \<Rightarrow> Inl (Refused (lead @ e))
          | Inl (SystemError e) \<Rightarrow> Inl (SystemError e)
          | Inr _ \<Rightarrow> Inr ())
        })"

definition load_snapshot ::
  "('w, 'r) snapshot_host_scheme \<Rightarrow> string \<Rightarrow> bool \<Rightarrow> ('w, 'z, check_error + rollback_snapshot) action" where
  "load_snapshot H path private =
     (let source_path = path_text (abspath (sn_cwd H) path)
      in do {
        source \<leftarrow> on_world (sn_read H source_path private);
        (case bind_r (parse_snapshot H path private source)
            (read_snapshot (sn_sha256 H) (sn_timestamp H) (sn_script H) source_path) of
           Inl e \<Rightarrow> give (Inl (Refused e))
         | Inr s \<Rightarrow>
             and_then (check_bundle H False ''rollback snapshot package payloads are unusable: ''
               (or_empty (rs_path s)) s) (\<lambda>_. give (Inr (bind_source H source_path source s))))
      })"

section \<open>The identity of the host\<close>

definition host_identity :: "('w, 'r) snapshot_host_scheme \<Rightarrow> ('w, 'z, check_error + string) action" where
  "host_identity H = do {
     r \<leftarrow> on_world (sn_machine_id H);
     (let machine_id = (case r of Inl _ \<Rightarrow> [] | Inr t \<Rightarrow> lower (strip t))
      in give (if hex_of_length 32 machine_id then Inr (''machine-id-sha256:'' @ sn_sha256 H machine_id)
         else if strip (sn_node H) = []
           then Inl (Refused ''cannot determine a stable host identity for rollback binding'')
         else Inr (''hostname-sha256:'' @ sn_sha256 H (strip (sn_node H)))))
   }"

section \<open>Before a snapshot is applied\<close>

definition snapshot_dir :: string where "snapshot_dir = ''/var/lib/nvidia-converge/snapshots''"

definition without_binding :: "rollback_snapshot \<Rightarrow> rollback_snapshot" where
  "without_binding s = s\<lparr>rs_source_binding := None\<rparr>"

definition not_private_text :: string where
  "not_private_text = ''applied rollback snapshot must be a private, singly linked regular ''
     @ ''file owned by the effective uid''"

definition check_owner :: "('w, 'r) snapshot_host_scheme \<Rightarrow> string \<Rightarrow> ('w, 'z, check_error + unit) action" where
  "check_owner H source = do {
     r \<leftarrow> on_world (sn_owner H source);
     give (case r of
       Inl e \<Rightarrow> Inl (Refused (''cannot validate rollback snapshot trust: '' @ e))
     | Inr uid \<Rightarrow> if uid \<noteq> sn_euid H then Inl (Refused not_private_text) else Inr ())
   }"

text \<open>The file is loaded again and has to give the same object with the same binding.\<close>

definition check_source ::
  "('w, 'r) snapshot_host_scheme \<Rightarrow> string \<Rightarrow> rollback_snapshot \<Rightarrow> ('w, 'z, check_error + unit) action" where
  "check_source H source s =
     (if rs_source_binding s = None then give (Inl (Refused
        ''applied rollback requires the exact object returned by trusted snapshot loading''))
      else do {
        r \<leftarrow> load_snapshot H source True;
        give (case r of
          Inl (Refused e) \<Rightarrow> Inl (Refused e)
        | Inl (SystemError e) \<Rightarrow> Inl (Refused (''cannot validate rollback snapshot trust: '' @ e))
        | Inr trusted \<Rightarrow>
            if rs_source_binding trusted \<noteq> rs_source_binding s
                \<or> without_binding trusted \<noteq> without_binding s
            then Inl (Refused ''rollback snapshot file or trusted ancestry changed after loading'')
            else Inr ())
      })"

definition host_mismatches ::
  "('w, 'r) snapshot_host_scheme \<Rightarrow> string \<Rightarrow> rollback_snapshot \<Rightarrow> host_audit \<Rightarrow> string list" where
  "host_mismatches H identity s audit =
     map fst (filter (\<lambda>(_, same). \<not> same)
       [(''host_id'', rs_host_id s = identity), (''os_id'', rs_os_id s = ha_os_id audit),
        (''os_version'', rs_os_version s = ha_os_version audit),
        (''architecture'', rs_architecture s = sn_machine H),
        (''package_manager'', rs_package_manager s = ha_package_manager audit)])"

definition check_host ::
  "('w, 'r) snapshot_host_scheme \<Rightarrow> rollback_snapshot \<Rightarrow> host_audit \<Rightarrow> ('w, 'z, check_error + unit) action" where
  "check_host H s audit =
     and_then (host_identity H) (\<lambda>identity.
       ensure (host_mismatches H identity s audit = [])
         (Refused (''rollback snapshot does not belong to the current host/backend: ''
           @ join '', '' (host_mismatches H identity s audit))))"

text \<open>\<open>inspect\<close> tells whether the caller passes its runner, with which the packages are opened.\<close>

definition validate_snapshot_for_apply ::
  "('w, 'r) snapshot_host_scheme \<Rightarrow> bool \<Rightarrow> rollback_snapshot \<Rightarrow> string \<Rightarrow> host_audit \<Rightarrow> ('w, 'z, check_error + unit) action" where
  "validate_snapshot_for_apply H inspect s source_path audit =
     (let source = path_text (abspath (sn_cwd H) source_path); path = or_empty (rs_path s)
      in
      and_then (ensure (path_parent source = snapshot_dir)
        (Refused (''applied rollback snapshots must be stored directly in '' @ snapshot_dir))) (\<lambda>_.
      and_then (ensure (path \<noteq> [] \<and> path_is_absolute path \<and> path_text (abspath (sn_cwd H) path) = source)
        (Refused ''rollback snapshot path binding does not match the loaded file'')) (\<lambda>_.
      and_then (check_owner H source) (\<lambda>_.
      and_then (check_source H source s) (\<lambda>_.
      and_then (check_host H s audit) (\<lambda>_.
      and_then (ensure (rs_package_payloads s \<noteq> None \<and> rs_package_manager s \<noteq> None)
        (Refused ''applied rollback snapshot has no retained package payload authority'')) (\<lambda>_.
        check_bundle H inspect ''rollback package payload validation failed: '' source s)))))))"

end
