(* ===== verification/PreflightRollback.thy ===== *)
theory PreflightRollback
  imports SnapshotTrust
begin

text \<open>
  The solver gate of a rollback (\<open>nvidia_converge/preflight.py\<close>): which packages a rollback command
  restores and removes, the simulated transaction of each package manager, its parser, and the
  comparison of the reported transaction with the exact package sets.

  A dictionary is the list of its items in insertion order, read from the end, where the last value
  of a key is; a set that is only printed in order is a list without duplicates.  The XML reader is
  an argument, as is \<open>json.loads\<close>.  The ellipsis that closes a shortened diagnostic is written as
  three dots.
\<close>

section \<open>Diagnostics\<close>

definition diagnostic_limit :: nat where "diagnostic_limit = 512"

text \<open>The model's characters are the 256 of one byte: the ellipsis character is written as three dots.\<close>

definition diagnostic :: "command_result \<Rightarrow> string" where
  "diagnostic r =
     (let err = strip (cr_stderr r); out = (if err \<noteq> [] then err else strip (cr_stdout r))
      in if out = [] then []
         else let line = strip (hd (splitlines out))
              in if length line \<le> diagnostic_limit then line
                 else take (diagnostic_limit - 1) line @ ''...'')"

definition diagnostic_suffix :: "command_result \<Rightarrow> string" where
  "diagnostic_suffix r =
     (if diagnostic r \<noteq> [] then '': '' @ diagnostic r
      else '' (exit '' @ (case cr_returncode r of None \<Rightarrow> ''None'' | Some n \<Rightarrow> int_str n) @ '')'')"

definition truncated_output :: "command_result \<Rightarrow> bool" where
  "truncated_output r \<longleftrightarrow>
     contains output_truncated (cr_stdout r) \<or> contains output_truncated (cr_stderr r)"

section \<open>The operands of a command\<close>

text \<open>The part of a list before and after the first element equal to \<open>x\<close>\<close>

fun split_at :: "'a \<Rightarrow> 'a list \<Rightarrow> ('a list \<times> 'a list) option" where
  "split_at x [] = None"
| "split_at x (y # ys) =
     (if y = x then Some ([], ys) else map_option (\<lambda>(a, b). (y # a, b)) (split_at x ys))"

definition dashed :: "string \<Rightarrow> bool" where "dashed s \<longleftrightarrow> startswith s ''-''"

definition is_local_transaction :: "string \<Rightarrow> string list \<Rightarrow> bool" where
  "is_local_transaction script command \<longleftrightarrow> take 4 command = [''python3'', ''-I'', ''-c'', script]"

text \<open>The operands after the first of the given operations\<close>

definition after_operation :: "string set \<Rightarrow> string list \<Rightarrow> string list" where
  "after_operation operations command =
     filter (\<lambda>p. \<not> dashed p) (tl (dropWhile (\<lambda>p. p \<notin> operations) command))"

definition rollback_restore_specs :: "string \<Rightarrow> string list \<Rightarrow> string list" where
  "rollback_restore_specs script command =
     (if is_local_transaction script command then
        (case split_at ''--remove'' (drop 5 command) of None \<Rightarrow> [] | Some (restored, _) \<Rightarrow> restored)
      else if take 2 command = [''apt-get'', ''install''] then
        filter (\<lambda>p. \<not> dashed p \<and> \<not> endswith p ''-'') (drop 2 command)
      else if command \<noteq> [] \<and> hd command \<in> {''dnf'', ''yum''} then
        (if ''install-nevra'' \<in> set command then after_operation {''install-nevra''} command
         else if ''install'' \<in> set command then after_operation {''install''} command else [])
      else if take 2 command = [''zypper'', ''--non-interactive''] then
        (case split_at ''--'' command of None \<Rightarrow> [] | Some (_, operands) \<Rightarrow> filter (\<lambda>p. \<not> dashed p) operands)
      else [])"

definition rollback_remove_specs :: "string \<Rightarrow> string list \<Rightarrow> string list" where
  "rollback_remove_specs script command =
     (if is_local_transaction script command then
        (case split_at ''--remove'' (drop 5 command) of
           None \<Rightarrow> []
         | Some (_, rest) \<Rightarrow>
             (case split_at ''--expect-install'' rest of None \<Rightarrow> [] | Some (removed, _) \<Rightarrow> removed))
      else if take 2 command = [''apt-get'', ''install''] then
        map butlast (filter (\<lambda>p. \<not> dashed p \<and> endswith p ''-'') (drop 2 command))
      else if command \<noteq> [] \<and> hd command \<in> {''dnf'', ''yum''} then
        after_operation {''remove'', ''remove-n'', ''remove-nevra''} command
      else if take 2 command = [''zypper'', ''--non-interactive''] then
        (case split_at ''--'' command of None \<Rightarrow> [] | Some (_, operands) \<Rightarrow> map tl (filter dashed operands))
      else [])"

section \<open>Identities\<close>

type_synonym apt_package = "string \<times> string \<times> string"

definition apt_restore_spec :: "package_info \<Rightarrow> string option" where
  "apt_restore_spec p =
     (if \<not> pi_installed p \<or> pi_manager p \<noteq> Some ''apt'' \<or> \<not> truthy (pi_version p) then None
      else Some (pi_name p @ arch_suffix '':'' p @ ''='' @ or_empty (pi_version p)))"

definition apt_remove_spec :: "package_info \<Rightarrow> string option" where
  "apt_remove_spec p =
     (if \<not> pi_installed p \<or> pi_manager p \<noteq> Some ''apt'' then None
      else Some (pi_name p @ arch_suffix '':'' p))"

definition apt_identity :: "string \<Rightarrow> package_info \<Rightarrow> apt_package option" where
  "apt_identity native p =
     (if \<not> pi_installed p \<or> pi_manager p \<noteq> Some ''apt'' \<or> \<not> truthy (pi_version p) then None
      else Some (pi_name p, if truthy (pi_architecture p) then or_empty (pi_architecture p) else native,
        or_empty (pi_version p)))"

definition format_apt_identity :: "apt_package \<Rightarrow> string" where
  "format_apt_identity = (\<lambda>(name, architecture, version). name @ '':'' @ architecture @ ''='' @ version)"

definition format_payload_identity :: "package_info \<Rightarrow> string" where
  "format_payload_identity p =
     pi_name p @ '':'' @ (if truthy (pi_architecture p) then or_empty (pi_architecture p) else ''unknown'')
     @ ''='' @ epoch_prefix p @ (if truthy (pi_version p) then or_empty (pi_version p) else ''unknown'')"

definition snapshot_payload_operand :: "rollback_snapshot \<Rightarrow> package_info \<Rightarrow> string" where
  "snapshot_payload_operand s p =
     (case (rs_path s, rs_package_payloads s) of
        (Some path, Some bundle) \<Rightarrow>
         (case filter (\<lambda>e. ''baseline'' \<in> set (pp_roles e) \<and> entry_identity e = info_identity p)
             (ppb_packages bundle) of
            [] \<Rightarrow> []
          | e # _ \<Rightarrow> payload_path path (ppb_directory bundle) (pp_filename e))
      | _ \<Rightarrow>
          if rs_package_manager s = Some ''apt-get'' then or_empty (apt_restore_spec p)
          else if rs_package_manager s \<in> {Some ''dnf'', Some ''yum''} then rpm_package_spec p
          else if rs_package_manager s = Some ''zypper'' then zypper_package_spec p
          else [])"

section \<open>The APT simulation\<close>

text \<open>\<open>s.split()\<close>: the runs of characters that are not white space\<close>

fun words_acc :: "string \<Rightarrow> string \<Rightarrow> string list" where
  "words_acc word [] = (if word = [] then [] else [rev word])"
| "words_acc word (c # s) =
     (if py_isspace c then (if word = [] then words_acc [] s else rev word # words_acc [] s)
      else words_acc (c # word) s)"

definition words :: "string \<Rightarrow> string list" where
  "words s = words_acc [] s"

text \<open>\<open>[a-z0-9][a-z0-9-]*\<close>, and the same with plus and dot\<close>

definition architecture_form :: "string \<Rightarrow> bool" where
  "architecture_form s \<longleftrightarrow>
     s \<noteq> [] \<and> hd s \<noteq> CHR ''-'' \<and> list_all (\<lambda>c. is_lower c \<or> is_digit c \<or> c = CHR ''-'') s"

definition package_form :: "string \<Rightarrow> bool" where
  "package_form s \<longleftrightarrow>
     s \<noteq> [] \<and> (is_lower (hd s) \<or> is_digit (hd s))
     \<and> list_all (\<lambda>c. is_lower c \<or> is_digit c \<or> c \<in> set ''+.-'') s"

definition parse_apt_package_token :: "string \<Rightarrow> (string \<times> string option) option" where
  "parse_apt_package_token token =
     (case partition_at CHR '':'' token of
        (name, found, architecture) \<Rightarrow>
          if package_form name \<and> (found \<longrightarrow> architecture_form architecture)
          then Some (name, if found then Some architecture else None) else None)"

text \<open>A word in brackets that are not closed inside it\<close>

definition bracketed :: "string \<Rightarrow> string option" where
  "bracketed w =
     (if 3 \<le> length w \<and> hd w = CHR ''['' \<and> last w = CHR '']'' \<and> CHR '']'' \<notin> set (butlast w)
      then Some (butlast (tl w)) else None)"

text \<open>
  \<open>Inst\s+(\S+)(?:\s+\[([^\]\s]+)\])?\s+\((\S+)(?:\s+.*)?\s+\[([a-z0-9][a-z0-9-]*)\]\)\<close>: the package, the
  replaced version, the version and the architecture.  Each group is a word or a part of one, and
  the last word closes the line.
\<close>

definition closing_architecture :: "string \<Rightarrow> string option" where
  "closing_architecture w =
     (if w \<noteq> [] \<and> last w = CHR '')'' then
        (case bracketed (butlast w) of
           Some a \<Rightarrow> if architecture_form a then Some a else None
         | None \<Rightarrow> None)
      else None)"

definition install_tail :: "string list \<Rightarrow> (string \<times> string) option" where
  "install_tail ws =
     (case ws of
        (CHR ''('' # version) # w # rest \<Rightarrow>
          if version = [] then None
          else map_option (\<lambda>a. (version, a)) (closing_architecture (last (w # rest)))
      | _ \<Rightarrow> None)"

definition match_install :: "string \<Rightarrow> (string \<times> string option \<times> string \<times> string) option" where
  "match_install line =
     (if line = [] \<or> py_isspace (last line) then None
      else case words line of
        inst # package # w # rest \<Rightarrow>
          if inst \<noteq> ''Inst'' then None
          else (case install_tail (w # rest) of
            Some (version, a) \<Rightarrow> Some (package, None, version, a)
          | None \<Rightarrow>
             (case (bracketed w, install_tail rest) of
                (Some old, Some (version, a)) \<Rightarrow> Some (package, Some old, version, a)
              | _ \<Rightarrow> None))
      | _ \<Rightarrow> None)"

text \<open>\<open>Remv\s+(\S+)\s+\[([^\]\s]+)\](?:\s+.*)?\<close>\<close>

definition match_remove :: "string \<Rightarrow> (string \<times> string) option" where
  "match_remove line =
     (case words line of
        remv # package # w # _ \<Rightarrow>
          if remv \<noteq> ''Remv'' then None else map_option (\<lambda>v. (package, v)) (bracketed w)
      | _ \<Rightarrow> None)"

record apt_install =
  ai_name :: string
  ai_architecture :: string
  ai_version :: string
  ai_old :: "string option"

type_synonym apt_removal = "string \<times> string option \<times> string"

definition parse_install_line :: "string \<Rightarrow> apt_install option" where
  "parse_install_line line =
     (case match_install line of
        None \<Rightarrow> None
      | Some (token, old, version, architecture) \<Rightarrow>
         (case parse_apt_package_token token of
            None \<Rightarrow> None
          | Some (name, explicit) \<Rightarrow>
              if explicit \<notin> {None, Some architecture} then None
              else Some \<lparr>ai_name = name, ai_architecture = architecture, ai_version = version,
                ai_old = old\<rparr>))"

definition parse_remove_line :: "string \<Rightarrow> apt_removal option" where
  "parse_remove_line line =
     (case match_remove line of
        None \<Rightarrow> None
      | Some (token, version) \<Rightarrow>
          map_option (\<lambda>(name, architecture). (name, architecture, version)) (parse_apt_package_token token))"

definition install_slot :: "apt_install \<Rightarrow> string \<times> string" where
  "install_slot i = (ai_name i, ai_architecture i)"

text \<open>The installs and removals of the lines, in order; a repeated slot or removal is malformed.\<close>

fun parse_apt_lines ::
  "apt_install list \<Rightarrow> apt_removal list \<Rightarrow> string list \<Rightarrow> (apt_install list \<times> apt_removal list) option" where
  "parse_apt_lines installs removals [] = Some (installs, removals)"
| "parse_apt_lines installs removals (line # lines) =
     (if startswith line ''Inst '' then
       (case parse_install_line line of
          None \<Rightarrow> None
        | Some i \<Rightarrow>
            if install_slot i \<in> set (map install_slot installs) then None
            else parse_apt_lines (installs @ [i]) removals lines)
      else if startswith line ''Remv '' then
       (case parse_remove_line line of
          None \<Rightarrow> None
        | Some r \<Rightarrow>
            if r \<in> set removals then None else parse_apt_lines installs (removals @ [r]) lines)
      else parse_apt_lines installs removals lines)"

definition parse_apt_transaction :: "command_result \<Rightarrow> (apt_install list \<times> apt_removal list) option" where
  "parse_apt_transaction r =
     (if truncated_output r then None else parse_apt_lines [] [] (splitlines (cr_stdout r)))"

definition resolve_apt_removal ::
  "apt_removal \<Rightarrow> apt_package list \<Rightarrow> string \<Rightarrow> apt_package option" where
  "resolve_apt_removal removal candidates native =
     (case removal of (name, explicit, version) \<Rightarrow>
       let matches = dedup (filter (\<lambda>(n, a, v). n = name \<and> v = version \<and> explicit \<in> {None, Some a}) candidates);
           natives = filter (\<lambda>(n, a, v). a = native) matches
       in if length matches = 1 then Some (hd matches)
          else if explicit \<noteq> None then None
          else if length natives = 1 then Some (hd natives) else None)"

section \<open>The verdict on an APT transaction\<close>

type_synonym 'a spec_map = "(string \<times> 'a) list"

text \<open>The exact identity each restore operand of the snapshot stands for\<close>

fun apt_baseline ::
  "rollback_snapshot \<Rightarrow> string \<Rightarrow> apt_package spec_map \<Rightarrow> package_info list \<Rightarrow> apt_package spec_map option" where
  "apt_baseline s native known [] = Some known"
| "apt_baseline s native known (p # ps) =
     (let spec = snapshot_payload_operand s p
      in case apt_identity native p of
        None \<Rightarrow> apt_baseline s native known ps
      | Some identity \<Rightarrow>
          if spec = [] then apt_baseline s native known ps
          else if spec \<in> fst ` set known then None
          else apt_baseline s native (known @ [(spec, identity)]) ps)"

definition apt_slot :: "apt_package \<Rightarrow> string \<times> string" where
  "apt_slot = (\<lambda>(name, architecture, version). (name, architecture))"

fun apt_inventory ::
  "string \<Rightarrow> apt_package spec_map \<Rightarrow> package_info list \<Rightarrow> apt_package spec_map option" where
  "apt_inventory native known [] = Some known"
| "apt_inventory native known (p # ps) =
     (case (apt_remove_spec p, apt_identity native p) of
        (Some spec, Some identity) \<Rightarrow>
          if spec \<in> fst ` set known \<or> apt_slot identity \<in> apt_slot ` snd ` set known then None
          else apt_inventory native (known @ [(spec, identity)]) ps
      | _ \<Rightarrow> apt_inventory native known ps)"

definition current_in_slot :: "apt_package spec_map \<Rightarrow> string \<times> string \<Rightarrow> apt_package option" where
  "current_in_slot known slot = map_of (map (\<lambda>(_, identity). (apt_slot identity, identity)) known) slot"

text \<open>An install replaces what the inventory has in its slot, or nothing.\<close>

definition replacement_error :: "apt_package spec_map \<Rightarrow> apt_install \<Rightarrow> string option" where
  "replacement_error known i =
     (case current_in_slot known (install_slot i) of
        None \<Rightarrow> map_option (\<lambda>old. ''solver reported an unobserved replaced package: ''
          @ format_apt_identity (ai_name i, ai_architecture i, old)) (ai_old i)
      | Some (name, architecture, version) \<Rightarrow>
          if ai_old i \<noteq> Some version
          then Some (''solver replacement does not match the current exact package: ''
            @ format_apt_identity (name, architecture, version))
          else None)"

fun first_error :: "('a \<Rightarrow> 'b option) \<Rightarrow> 'a list \<Rightarrow> 'b option" where
  "first_error f [] = None"
| "first_error f (x # xs) = (case f x of Some e \<Rightarrow> Some e | None \<Rightarrow> first_error f xs)"

definition install_identity :: "apt_install \<Rightarrow> apt_package" where
  "install_identity i = (ai_name i, ai_architecture i, ai_version i)"

text \<open>The four ways in which what was observed may differ from what was expected\<close>

definition set_error ::
  "('a \<Rightarrow> string) \<Rightarrow> string list \<Rightarrow> 'a list \<Rightarrow> 'a list \<Rightarrow> 'a list \<Rightarrow> 'a list \<Rightarrow> string option" where
  "set_error format texts observed_installs expected_installs observed_removals expected_removals =
     (let minus = (\<lambda>xs ys. dedup (filter (\<lambda>x. x \<notin> set ys) xs));
          show_all = (\<lambda>xs. join '', '' (sort (map format xs)))
      in if minus observed_installs expected_installs \<noteq> []
           then Some (texts ! 0 @ show_all (minus observed_installs expected_installs))
         else if minus expected_installs observed_installs \<noteq> []
           then Some (texts ! 1 @ show_all (minus expected_installs observed_installs))
         else if minus observed_removals expected_removals \<noteq> []
           then Some (texts ! 2 @ show_all (minus observed_removals expected_removals))
         else if minus expected_removals observed_removals \<noteq> []
           then Some (texts ! 3 @ show_all (minus expected_removals observed_removals))
         else None)"

definition apt_set_texts :: "string list" where
  "apt_set_texts =
     [''solver would install a package outside the exact baseline: '',
      ''solver omitted an exact baseline restore: '',
      ''solver would remove a package outside the exact rollback set: '',
      ''solver omitted an exact rollback removal: '']"

definition judge_apt_transaction ::
  "apt_install list \<Rightarrow> apt_removal list \<Rightarrow> apt_package spec_map \<Rightarrow> apt_package spec_map
   \<Rightarrow> string list \<Rightarrow> string list \<Rightarrow> string \<Rightarrow> string option" where
  "judge_apt_transaction installs removals baseline inventory restore_specs remove_specs native =
     (if \<not> set restore_specs \<subseteq> fst ` set baseline \<or> \<not> set remove_specs \<subseteq> fst ` set inventory
        then Some ''transaction operands are not bound to exact APT package inventory''
      else case first_error (replacement_error inventory) installs of
        Some e \<Rightarrow> Some e
      | None \<Rightarrow>
         (let resolved = map (\<lambda>r. resolve_apt_removal r (map snd inventory) native) removals
          in if None \<in> set resolved
               then Some ''solver removal is not bound to one current exact package identity''
             else set_error format_apt_identity apt_set_texts
               (map install_identity installs) (map (the \<circ> map_of baseline) restore_specs)
               (map the resolved) (map (the \<circ> map_of inventory) remove_specs)))"

definition apt_rollback_transaction_error ::
  "command_result \<Rightarrow> rollback_snapshot \<Rightarrow> host_audit \<Rightarrow> string list \<Rightarrow> string list \<Rightarrow> string \<Rightarrow> string option" where
  "apt_rollback_transaction_error r s audit restore_specs remove_specs native =
     (case parse_apt_transaction r of
        None \<Rightarrow> Some ''machine-readable transaction actions are malformed or truncated''
      | Some (installs, removals) \<Rightarrow>
     (case apt_baseline s native [] (rs_packages s) of
        None \<Rightarrow> Some ''the package baseline contains duplicate APT restore identities''
      | Some baseline \<Rightarrow>
     (case apt_inventory native [] (ha_packages audit) of
        None \<Rightarrow> Some ''the current APT inventory contains duplicate package slots''
      | Some inventory \<Rightarrow>
          judge_apt_transaction installs removals baseline inventory restore_specs remove_specs native)))"

section \<open>The gate\<close>

text \<open>\<open>pf_xml\<close>: \<open>parse_bounded_xml\<close>, which refuses an unsafe or malformed document.\<close>

datatype xml = Element string "(string \<times> string) list" "xml list"

record 'w preflight_host = "'w snapshot_host" +
  pf_xml :: "string \<Rightarrow> xml option"

text \<open>
  A \<open>PackagePreflightError\<close> with its message and results, or what escapes: a
  \<open>RollbackSnapshotError\<close> of the command builder, an \<open>OSError\<close>, the \<open>RecursionError\<close> of the JSON
  reader, the \<open>IndexError\<close> of an empty command.
\<close>

datatype preflight_error =
    SolverRefused string "command_result list"
  | BuilderRaised rollback_error
  | PreflightSystem string
  | PreflightRecursion
  | PreflightIndex

definition check_retained ::
  "('w, 'r) snapshot_host_scheme \<Rightarrow> rollback_snapshot \<Rightarrow> ('w, 'z, preflight_error + command_result list) action" where
  "check_retained H s =
     (case (rs_path s, rs_package_payloads s, rs_package_manager s) of
        (Some path, Some bundle, Some pm) \<Rightarrow> do {
          r \<leftarrow> validate_package_payloads H True (path_text path) bundle (rs_packages s) pm None;
          give (case r of
            Inl (Refused e) \<Rightarrow> Inl (SolverRefused (''retained rollback package payload validation failed: '' @ e) [])
          | Inl (SystemError e) \<Rightarrow> Inl (PreflightSystem e)
          | Inr _ \<Rightarrow> Inr [command_result_of [''validate-package-payloads''] (Some 0) []])
        }
      | _ \<Rightarrow> give (Inl (SolverRefused
          ''applicable rollback snapshot has no retained package payload bundle'' [])))"

section \<open>APT\<close>

definition apt_native_architecture ::
  "('w, 'r) runner_scheme \<Rightarrow> string \<Rightarrow> ('w, 'z, preflight_error + command_result \<times> string) action" where
  "apt_native_architecture R purpose = do {
     r \<leftarrow> run_known R False ''dpkg'' [''--print-architecture''];
     give (let architecture = strip (cr_stdout r)
       in if cr_returncode r \<noteq> Some 0 \<or> truncated_output r \<or> \<not> architecture_form architecture
          then Inl (SolverRefused (''APT could not bind the '' @ purpose
            @ '' transaction to the native architecture'' @ diagnostic_suffix r) [r])
          else Inr (r, architecture))
   }"

text \<open>The command with an option after the program\<close>

definition run_simulation ::
  "('w, 'r) runner_scheme \<Rightarrow> string \<Rightarrow> string list \<Rightarrow> ('w, 'z, preflight_error + command_result) action" where
  "run_simulation R option command =
     (case command of
        [] \<Rightarrow> give (Inl PreflightIndex)
      | program # args \<Rightarrow> do { r \<leftarrow> run_known R False program (option # args); give (Inr r) })"

definition preflight_apt_rollback ::
  "('w, 'r) snapshot_host_scheme \<Rightarrow> rollback_snapshot \<Rightarrow> host_audit \<Rightarrow> command_result list
   \<Rightarrow> string list list \<Rightarrow> string list \<Rightarrow> string list
   \<Rightarrow> ('w, 'z, preflight_error + command_result list) action" where
  "preflight_apt_rollback H s audit retained commands restore_specs remove_specs =
     and_then (ensure (length commands = 1)
       (SolverRefused ''APT rollback must resolve as one atomic solver transaction'' [])) (\<lambda>_.
     and_then (apt_native_architecture H ''exact rollback'') (\<lambda>(architecture_result, native).
     and_then (run_simulation H ''--simulate'' (hd commands)) (\<lambda>r.
       let results = retained @ [architecture_result, r];
           error = apt_rollback_transaction_error r s audit restore_specs remove_specs native
       in and_then (ensure (cr_returncode r = Some 0 \<and> error = None) (SolverRefused
            (''APT could not safely resolve the exact rollback transaction''
              @ (if cr_returncode r \<noteq> Some 0 then diagnostic_suffix r else '': '' @ opt_text error)) results))
          (\<lambda>_. give (Inr results)))))"

section \<open>DNF\<close>

definition by_spec :: "(package_info \<Rightarrow> string) \<Rightarrow> package_info list \<Rightarrow> package_info spec_map" where
  "by_spec spec packages = rev (map (\<lambda>p. (spec p, p)) packages)"

definition rpm_packages :: "package_info list \<Rightarrow> package_info list" where
  "rpm_packages packages = filter (\<lambda>p. pi_installed p \<and> pi_manager p = Some ''rpm'') packages"

definition unknown_specs :: "string list \<Rightarrow> 'a spec_map \<Rightarrow> string list" where
  "unknown_specs specs known = sorted_set (filter (\<lambda>x. x \<notin> fst ` set known) specs)"

definition strict_loads :: "string json_loads \<Rightarrow> command_result \<Rightarrow> preflight_error + json option" where
  "strict_loads loads r =
     (if truncated_output r then Inr None
      else case loads snapshot_without_duplicates (cr_stdout r) of
        Loaded v \<Rightarrow> Inr (Some v)
      | RecursionError \<Rightarrow> Inl PreflightRecursion
      | _ \<Rightarrow> Inr None)"

definition parse_dnf_transaction ::
  "string json_loads \<Rightarrow> command_result \<Rightarrow> preflight_error + (string list \<times> string list) option" where
  "parse_dnf_transaction loads r =
     bind_r (strict_loads loads r) (\<lambda>v. Inr (case v of
       Some (JObj d) \<Rightarrow>
        (case (jget_or_null ''install'' d, jget_or_null ''remove'' d) of
           (JList xs, JList ys) \<Rightarrow>
             if set (keys d) = {''install'', ''remove''} \<and> list_all is_nonempty_jstr (xs @ ys)
                 \<and> distinct xs \<and> distinct ys
             then Some (map the_jstr xs, map the_jstr ys) else None
         | _ \<Rightarrow> None)
     | _ \<Rightarrow> None))"

text \<open>The sets the transaction has to have: installs, and removals with the replaced packages\<close>

definition expected_dnf_installs :: "package_info spec_map \<Rightarrow> string list \<Rightarrow> string list" where
  "expected_dnf_installs baseline restore_specs =
     sorted_set (map (rpm_package_spec \<circ> the \<circ> map_of baseline) restore_specs)"

definition expected_dnf_removals ::
  "package_info spec_map \<Rightarrow> package_info spec_map \<Rightarrow> string list \<Rightarrow> string list \<Rightarrow> string list" where
  "expected_dnf_removals baseline current restore_specs remove_specs =
     (let slots = set (map (package_slot \<circ> the \<circ> map_of baseline) restore_specs)
      in sorted_set (remove_specs
           @ filter (\<lambda>x. package_slot (the (map_of current x)) \<in> slots
               \<and> x \<notin> set (expected_dnf_installs baseline restore_specs)) (map fst current)))"

definition dnf_set_texts :: "string list" where
  "dnf_set_texts =
     [''; solver would install packages outside the exact baseline: '',
      ''; solver omitted exact baseline restores: '',
      ''; solver would remove packages outside the exact rollback set: '',
      ''; solver omitted exact rollback removals: '']"

definition judge_dnf_transaction ::
  "command_result \<Rightarrow> (string list \<times> string list) option \<Rightarrow> string list \<Rightarrow> string list \<Rightarrow> string option" where
  "judge_dnf_transaction r transaction installs removals =
     (if cr_returncode r \<noteq> Some 0
        then Some (''RPM rollback could not resolve the exact retained local transaction'' @ diagnostic_suffix r)
      else case transaction of
        None \<Rightarrow> Some (''RPM rollback could not resolve the exact retained local transaction''
          @ '': solver emitted malformed or truncated transaction evidence'')
      | Some (observed_installs, observed_removals) \<Rightarrow>
          map_option (\<lambda>detail. ''RPM rollback cannot safely apply the resolved transaction'' @ detail)
            (set_error id dnf_set_texts observed_installs installs observed_removals removals))"

definition preflight_dnf_transaction ::
  "('w, 'r) snapshot_host_scheme \<Rightarrow> rollback_snapshot \<Rightarrow> host_audit \<Rightarrow> command_result list
   \<Rightarrow> string list list \<Rightarrow> string list \<Rightarrow> string list
   \<Rightarrow> ('w, 'z, preflight_error + command_result list) action" where
  "preflight_dnf_transaction H s audit retained commands restore_specs remove_specs =
     (let current = by_spec rpm_package_spec (rpm_packages (ha_packages audit));
          baseline = by_spec (snapshot_payload_operand s) (rpm_packages (rs_packages s))
      in
      and_then (ensure (unknown_specs remove_specs current = []) (SolverRefused
        (''RPM rollback removal set is not bound to the current exact package inventory: ''
          @ join '', '' (unknown_specs remove_specs current)) retained)) (\<lambda>_.
      and_then (ensure (unknown_specs restore_specs baseline = []) (SolverRefused
        (''RPM rollback restore set is not bound to the exact package baseline: ''
          @ join '', '' (unknown_specs restore_specs baseline)) retained)) (\<lambda>_.
        let installs = expected_dnf_installs baseline restore_specs;
            removals = expected_dnf_removals baseline current restore_specs remove_specs;
            transaction = (\<lambda>apply. dnf_local_transaction_command (sn_script H) apply restore_specs
              remove_specs installs removals)
        in
        and_then (ensure (commands = [transaction True]) (SolverRefused
          ''RPM rollback execution is not bound to the exact proven transaction'' retained)) (\<lambda>_. do {
          r \<leftarrow> run_known H False ''python3'' (tl (transaction False));
          and_then (give (parse_dnf_transaction (sn_loads H) r)) (\<lambda>observed.
            let error = judge_dnf_transaction r observed installs removals
            in and_then (ensure (error = None) (SolverRefused (opt_text error) (retained @ [r])))
                 (\<lambda>_. give (Inr (retained @ [r]))))
        }))))"

section \<open>Zypper\<close>

type_synonym zypper_package = "string \<times> string \<times> string"

definition zypper_change_actions :: "string list" where
  "zypper_change_actions =
     [''to-change-arch'', ''to-downgrade'', ''to-downgrade-change-arch'', ''to-install'', ''to-reinstall'',
      ''to-upgrade'', ''to-upgrade-change-arch'']"

text \<open>\<open>int(s)\<close>: a sign, then groups of digits between single underscores, in white space\<close>

definition py_int :: "string \<Rightarrow> int option" where
  "py_int s =
     (let t = strip s; negative = startswith t ''-'';
          digits = (if negative \<or> startswith t ''+'' then tl t else t);
          groups = split_on CHR ''_'' digits
      in if list_all (\<lambda>g. g \<noteq> [] \<and> list_all is_digit g) groups
         then Some (let n = int (digits_val (concat groups)) in if negative then - n else n) else None)"

definition transaction_field :: "string \<Rightarrow> bool" where
  "transaction_field s \<longleftrightarrow> s \<noteq> [] \<and> \<not> list_ex py_isspace s"

definition attribute :: "string \<Rightarrow> (string \<times> string) list \<Rightarrow> string" where
  "attribute name attributes = or_empty (map_of attributes name)"

fun parse_solvable :: "string \<Rightarrow> xml \<Rightarrow> (string \<times> zypper_package) option" where
  "parse_solvable action (Element tag attributes _) =
     (let identity = (attribute ''name'' attributes, attribute ''edition'' attributes, attribute ''arch'' attributes)
      in if tag = ''solvable'' \<and> map_of attributes ''kind'' = Some ''package''
            \<and> map_of attributes ''status'' \<in> {Some ''installed'', Some ''not-installed'', Some ''other-version''}
            \<and> (case identity of (name, edition, arch) \<Rightarrow> list_all transaction_field [name, edition, arch])
         then Some (action, identity) else None)"

fun parse_group :: "xml \<Rightarrow> (string \<times> zypper_package) list option" where
  "parse_group (Element tag _ children) =
     (if tag \<notin> set (''to-remove'' # zypper_change_actions) \<or> children = [] then None
      else those (map (parse_solvable tag) children))"

fun is_summary :: "xml \<Rightarrow> bool" where
  "is_summary (Element tag _ _) \<longleftrightarrow> tag = ''install-summary''"

fun parse_summary :: "xml \<Rightarrow> (string \<times> zypper_package) list option" where
  "parse_summary (Element _ attributes groups) =
     (case Option.bind (map_of attributes ''packages-to-change'') py_int of
        None \<Rightarrow> None
      | Some n \<Rightarrow>
         (case those (map parse_group groups) of
            None \<Rightarrow> None
          | Some actions \<Rightarrow>
              if distinct (concat actions) \<and> n = int (length (concat actions))
              then Some (concat actions) else None))"

definition parse_zypper_transaction ::
  "(string \<Rightarrow> xml option) \<Rightarrow> command_result \<Rightarrow> (string \<times> zypper_package) list option" where
  "parse_zypper_transaction xml_of r =
     (if truncated_output r then None
      else case xml_of (cr_stdout r) of
        Some (Element tag _ children) \<Rightarrow>
          if tag \<noteq> ''stream'' then None
          else (case filter is_summary children of [summary] \<Rightarrow> parse_summary summary | _ \<Rightarrow> None)
      | None \<Rightarrow> None)"

definition zypper_identity :: "package_info \<Rightarrow> zypper_package" where
  "zypper_identity p = (pi_name p, epoch_prefix p @ opt_text (pi_version p), opt_text (pi_architecture p))"

definition format_zypper_identity :: "zypper_package \<Rightarrow> string" where
  "format_zypper_identity = (\<lambda>(name, edition, arch). name @ ''.'' @ arch @ ''='' @ edition)"

definition complete_package :: "package_info \<Rightarrow> bool" where
  "complete_package p \<longleftrightarrow> pi_installed p \<and> truthy (pi_version p) \<and> truthy (pi_architecture p)"

definition zypper_replacements :: "zypper_package list \<Rightarrow> package_info list \<Rightarrow> zypper_package list" where
  "zypper_replacements restores packages =
     (let slots = map (\<lambda>(name, edition, arch). (name, Some arch)) restores
      in map zypper_identity (filter (\<lambda>p. complete_package p \<and> package_slot p \<in> set slots) packages))"

text \<open>What one reported action does: an error, or an observed removal (\<open>Inl\<close>) or restore (\<open>Inr\<close>)\<close>

definition judge_zypper_action ::
  "zypper_package list \<Rightarrow> zypper_package list \<Rightarrow> string \<times> zypper_package \<Rightarrow> string option" where
  "judge_zypper_action restores removable = (\<lambda>(action, identity).
     if action = ''to-remove'' then
       (if identity \<notin> set removable
        then Some (''solver would remove a package outside the exact rollback set: ''
          @ format_zypper_identity identity) else None)
     else if action \<in> set zypper_change_actions then
       (if identity \<notin> set restores
        then Some (''solver would change a package outside the exact baseline set: ''
          @ format_zypper_identity identity) else None)
     else Some (''solver reported unsupported action '' @ py_repr action))"

definition zypper_missing :: "string \<Rightarrow> zypper_package list \<Rightarrow> zypper_package list \<Rightarrow> string option" where
  "zypper_missing text_before expected observed =
     (let missing = dedup (filter (\<lambda>x. x \<notin> set observed) expected)
      in if missing = [] then None
         else Some (text_before @ join '', '' (sort (map format_zypper_identity missing))))"

definition zypper_rollback_transaction_error ::
  "(string \<Rightarrow> xml option) \<Rightarrow> command_result \<Rightarrow> rollback_snapshot \<Rightarrow> host_audit \<Rightarrow> string list
   \<Rightarrow> string list \<Rightarrow> string option" where
  "zypper_rollback_transaction_error xml_of r s audit restore_specs remove_specs =
     (case parse_zypper_transaction xml_of r of
        None \<Rightarrow> Some ''machine-readable transaction summary is missing or malformed''
      | Some actions \<Rightarrow>
         (let baseline = by_spec (snapshot_payload_operand s)
                (filter complete_package (rpm_packages (rs_packages s)));
              inventory = by_spec zypper_package_spec
                (filter complete_package (rpm_packages (ha_packages audit)))
          in if unknown_specs restore_specs baseline \<noteq> [] \<or> unknown_specs remove_specs inventory \<noteq> []
               then Some ''transaction operands are not bound to exact package inventory''
             else
              (let restores = map (zypper_identity \<circ> the \<circ> map_of baseline) restore_specs;
                   removals = map (zypper_identity \<circ> the \<circ> map_of inventory) remove_specs;
                   removable = removals @ zypper_replacements restores (ha_packages audit)
               in case first_error (judge_zypper_action restores removable) actions of
                 Some e \<Rightarrow> Some e
               | None \<Rightarrow>
                  (case zypper_missing ''solver omitted exact baseline restore: '' restores
                      (map snd (filter (\<lambda>(action, _). action \<noteq> ''to-remove'') actions)) of
                     Some e \<Rightarrow> Some e
                   | None \<Rightarrow> zypper_missing ''solver omitted exact removal: '' removals
                       (map snd (filter (\<lambda>(action, _). action = ''to-remove'') actions))))))"

definition zypper_simulation :: "string list \<Rightarrow> string list" where
  "zypper_simulation args =
     takeWhile (\<lambda>p. p \<noteq> ''--'') args @ [''--dry-run''] @ dropWhile (\<lambda>p. p \<noteq> ''--'') args"

definition preflight_zypper_rollback ::
  "('w, 'r) preflight_host_scheme \<Rightarrow> rollback_snapshot \<Rightarrow> host_audit \<Rightarrow> command_result list
   \<Rightarrow> string list list \<Rightarrow> string list \<Rightarrow> string list
   \<Rightarrow> ('w, 'z, preflight_error + command_result list) action" where
  "preflight_zypper_rollback H s audit retained commands restore_specs remove_specs =
     and_then (ensure (length commands = 1)
       (SolverRefused ''Zypper rollback must resolve as one atomic solver transaction'' [])) (\<lambda>_.
     and_then (run_simulation H ''--xmlout''
       (case hd commands of [] \<Rightarrow> [] | program # args \<Rightarrow> program # zypper_simulation args)) (\<lambda>r.
       let results = retained @ [r];
           error = zypper_rollback_transaction_error (pf_xml H) r s audit restore_specs remove_specs
       in and_then (ensure (cr_returncode r = Some 0 \<and> error = None) (SolverRefused
            (''Zypper could not resolve the exact rollback transaction''
              @ (if truthy error then '': '' @ opt_text error else diagnostic_suffix r)) results))
          (\<lambda>_. give (Inr results))))"

section \<open>The whole gate\<close>

definition preflight_package_rollback ::
  "('w, 'r) preflight_host_scheme \<Rightarrow> rollback_snapshot \<Rightarrow> host_audit
   \<Rightarrow> ('w, 'z, preflight_error + command_result list) action" where
  "preflight_package_rollback H s audit =
     and_then (check_retained H s) (\<lambda>retained.
     case rollback_package_commands (sn_script H) s (Some audit) of
       Inl e \<Rightarrow> give (Inl (BuilderRaised e))
     | Inr commands \<Rightarrow>
         if commands = [] then give (Inr retained)
         else
          (let restore_specs = concat (map (rollback_restore_specs (sn_script H)) commands);
               remove_specs = concat (map (rollback_remove_specs (sn_script H)) commands);
               pm = rs_package_manager s
           in if pm = Some ''apt-get'' then
                preflight_apt_rollback H s audit retained commands restore_specs remove_specs
              else if pm \<in> {Some ''dnf'', Some ''yum''} then
                preflight_dnf_transaction H s audit retained commands restore_specs remove_specs
              else if pm = Some ''zypper'' then
                preflight_zypper_rollback H s audit retained commands restore_specs remove_specs
              else give (Inl (SolverRefused
                (''rollback preflight is not implemented for '' @ opt_text pm) []))))"

end
