(* ===== verification/RollbackApply.thy ===== *)
theory RollbackApply
  imports MigAudit PreflightRollback
begin

text \<open>
  Applying a rollback (\<open>apply_rollback\<close> of \<open>nvidia_converge/rollback.py\<close>): the gates, the
  quarantine of the launchers, package commands, managed files, kernel modules, MIG, and the
  optional return of the launchers, with every early return.

  A stage is an action whose value is a \<open>flow\<close>: go on with local values, return results, or raise.\<close>

section \<open>Flow of control\<close>

datatype rollback_exception =
    RollbackRaised rollback_error
  | RunnerRaised runner_error
  | GeometryRaised mig_error
  | SystemRaised string
  | RecursionRaised
  | IndexRaised
  | MigModeMissing
  | GpuMissing

datatype 'a flow =
    Go 'a
  | Return "command_result list"
  | Raise rollback_exception

definition proceed ::
  "('s, 'a flow) state \<Rightarrow> ('a \<Rightarrow> ('s, 'b flow) state) \<Rightarrow> ('s, 'b flow) state" where
  "proceed m f = do {
     r \<leftarrow> m;
     (case r of Go a \<Rightarrow> f a | Return results \<Rightarrow> give (Return results) | Raise e \<Rightarrow> give (Raise e))
   }"

record 'w rollback_host = "'w preflight_host" +
  rh_sysfs :: "'w \<Rightarrow> sysfs"

definition precondition :: "string list \<Rightarrow> string \<Rightarrow> command_result" where
  "precondition names text = command_result_of (''rollback-precondition'' # names) (Some 1) text"

definition refuse_with :: "string list \<Rightarrow> string \<Rightarrow> ('s, 'a flow) state" where
  "refuse_with names text = give (Return [precondition names text])"

definition refuse_if :: "bool \<Rightarrow> string list \<Rightarrow> string \<Rightarrow> ('s, unit flow) state" where
  "refuse_if b names text = (if b then refuse_with names text else give (Go ()))"

text \<open>Append results, and return all of them when one has failed.\<close>

definition extend_or_return ::
  "command_result list \<Rightarrow> command_result list \<Rightarrow> ('s, command_result list flow) state" where
  "extend_or_return results added =
     give (if list_ex failed added then Return (results @ added) else Go (results @ added))"

section \<open>Authority and package solver\<close>

definition check_authority ::
  "('w, 'r) rollback_host_scheme \<Rightarrow> rollback_snapshot \<Rightarrow> host_audit \<Rightarrow> ('w, 'z, unit flow) action" where
  "check_authority H snapshot audit =
     (case rs_path snapshot of
        None \<Rightarrow> refuse_with [''snapshot-authority'']
          (''an applied rollback requires a trusted snapshot loaded from its exact private source path'')
      | Some path \<Rightarrow> do {
          r \<leftarrow> validate_snapshot_for_apply H True snapshot path audit;
          (case r of
             Inl (Refused e) \<Rightarrow> refuse_with [''snapshot-authority''] e
           | Inl (SystemError e) \<Rightarrow> give (Raise (SystemRaised e))
           | Inr _ \<Rightarrow> give (Go ()))
        })"

definition solver_command :: "string list" where
  "solver_command = [''rollback-precondition'', ''package-solver'']"

definition check_solver ::
  "('w, 'r) rollback_host_scheme \<Rightarrow> rollback_snapshot \<Rightarrow> host_audit
   \<Rightarrow> ('w, 'z, command_result list flow) action" where
  "check_solver H snapshot audit = do {
     record_external_start solver_command False;
     r \<leftarrow> preflight_package_rollback H snapshot audit;
     (case r of
        Inl (SolverRefused e results) \<Rightarrow> do {
          record_external_result (command_result_of solver_command (Some 1) e) False;
          give (Return (results @ [command_result_of solver_command (Some 1) e]))
        }
      | Inl (BuilderRaised e) \<Rightarrow> give (Raise (RollbackRaised e))
      | Inl (PreflightSystem e) \<Rightarrow> give (Raise (SystemRaised e))
      | Inl PreflightRecursion \<Rightarrow> give (Raise RecursionRaised)
      | Inl PreflightIndex \<Rightarrow> give (Raise IndexRaised)
      | Inr results \<Rightarrow> do {
          record_external_result (command_result_of solver_command (Some 0) []) False;
          give (Go (results @ [command_result_of solver_command (Some 0) []]))
        })
   }"

definition initial_gates ::
  "('w, 'r) rollback_host_scheme \<Rightarrow> rollback_snapshot \<Rightarrow> host_audit option
   \<Rightarrow> ('w, 'z, command_result list flow) action" where
  "initial_gates H snapshot current =
     (if \<not> ru_apply H then give (Go [])
      else case current of
        None \<Rightarrow> refuse_with [''current-audit''] ''an applied rollback requires a current host audit''
      | Some audit \<Rightarrow> proceed (check_authority H snapshot audit) (\<lambda>_. check_solver H snapshot audit))"

definition state_gates ::
  "('w, 'r) rollback_host_scheme \<Rightarrow> rollback_snapshot \<Rightarrow> host_audit option \<Rightarrow> bool
   \<Rightarrow> ('w, 'z, string list list flow) action" where
  "state_gates H snapshot current restore_services =
     proceed (refuse_if (ru_apply H \<and> restore_services) [''staged-service-restore'']
       (''applied rollback service state must be restored with the single-unit prepare, activity, and ''
        @ ''final enablement APIs so every stage can be re-audited'')) (\<lambda>_.
     proceed (refuse_if (ru_apply H
         \<and> (case current of Some a \<Rightarrow> ha_gpu_uuids a \<noteq> rs_gpu_uuids snapshot | None \<Rightarrow> False))
       [''gpu-inventory'']
       ''current GPU UUID inventory does not exactly match the rollback snapshot'') (\<lambda>_.
     case rollback_package_commands (sn_script H) snapshot current of
       Inl e \<Rightarrow> give (Raise (RollbackRaised e))
     | Inr commands \<Rightarrow>
     proceed (refuse_if (ru_apply H
         \<and> (case current of Some a \<Rightarrow> \<not> ha_mig_geometry_complete a | None \<Rightarrow> False))
       [''mig-geometry'']
       (''an applied rollback requires a complete current MIG GI/CI geometry observation'')) (\<lambda>_.
     proceed (refuse_if (ru_apply H
         \<and> (case current of
              Some a \<Rightarrow> ha_mig_mode a = Some ''disabled''
                \<and> (ha_mig_geometry a \<noteq> [] \<or> ha_mig_device_uuids a \<noteq> [])
            | None \<Rightarrow> False))
       [''mig-state-consistency'']
       ''current MIG mode is disabled but MIG instances remain visible'') (\<lambda>_.
       give (Go commands)))))"

section \<open>Kernel modules\<close>

definition module_error_text :: "module_error \<Rightarrow> string" where
  "module_error_text e =
     (case e of
        CannotInspectModules x \<Rightarrow> ''cannot inspect loaded kernel modules: '' @ x
      | HolderDisappeared m x \<Rightarrow>
          ''loaded module holder '' @ m @ '' disappeared during inspection: '' @ x
      | NotADirectory m \<Rightarrow> ''loaded module entry '' @ m @ '' is not a directory''
      | DependencyCycle m \<Rightarrow> ''loaded NVIDIA module dependency cycle includes '' @ m
      | CannotInspectHolders m x \<Rightarrow> ''cannot inspect loaded module holders for '' @ m @ '': '' @ x
      | UnsupportedDependents m names \<Rightarrow>
          ''loaded module '' @ m @ '' has unsupported dependents: '' @ join '', '' names
      | RecursionDepth \<Rightarrow> ''maximum recursion depth exceeded'')"

text \<open>Six nested calls are enough for the walk.\<close>

definition unload_order :: "('w, 'r) rollback_host_scheme \<Rightarrow> 'w \<Rightarrow> module_error + string list" where
  "unload_order H w = nvidia_module_unload_order (rh_sysfs H w) 6"

definition inspect_command :: "string list" where
  "inspect_command = [''inspect-module-dependencies'']"

text \<open>\<open>expected\<close> is the audit's word on the base module, when there is one to compare.\<close>

definition inspect_modules ::
  "('w, 'r) rollback_host_scheme \<Rightarrow> bool option
   \<Rightarrow> ('w, 'z, command_result \<times> string list option) action" where
  "inspect_modules H expected = do {
     record_external_start inspect_command False;
     order \<leftarrow> asks (\<lambda>s. unload_order H (se_world s));
     (let judged = (case order of
            Inl e \<Rightarrow> Inl (module_error_text e)
          | Inr names \<Rightarrow>
              if expected \<notin> {None, Some (''nvidia'' \<in> set names)}
              then Inl ''loaded NVIDIA module audit does not match the current sysfs graph''
              else Inr names);
          result = (case judged of
            Inl e \<Rightarrow> command_result_of inspect_command (Some 1) e
          | Inr _ \<Rightarrow> command_result_of inspect_command (Some 0) [])
      in do {
        record_external_result result False;
        give (result, case judged of Inl _ \<Rightarrow> None | Inr names \<Rightarrow> Some names)
      })
   }"

definition check_files ::
  "('w, 'r) rollback_host_scheme \<Rightarrow> rollback_snapshot \<Rightarrow> ('w, 'z, unit flow) action" where
  "check_files H snapshot = do {
     record_external_start managed_files_command False;
     refusal \<leftarrow> asks (\<lambda>s. managed_file_restore_precondition H (se_world s) (rs_managed_files snapshot));
     (case refusal of
        Some r \<Rightarrow> do { record_external_result r False; give (Return [r]) }
      | None \<Rightarrow> do {
          record_external_result (command_result_of managed_files_command (Some 0) []) False;
          give (Go ())
        })
   }"

definition default_unload_order :: "string list" where
  "default_unload_order =
     [''nvidia_peermem'', ''nvidia_fs'', ''nvidia_uvm'', ''nvidia_drm'', ''nvidia_modeset'', ''nvidia'']"

text \<open>The loaded modules, in unload order, and the order a dry run prints.\<close>

definition current_modules ::
  "('w, 'r) rollback_host_scheme \<Rightarrow> rollback_snapshot \<Rightarrow> host_audit option
   \<Rightarrow> ('w, 'z, (string list \<times> string list) flow) action" where
  "current_modules H snapshot current =
     (if \<not> ru_apply H then
        give (Go (if (case current of Some a \<Rightarrow> mi_loaded (ha_module a) | None \<Rightarrow> False)
                  then [''nvidia''] else [], default_unload_order))
      else do {
        (result, names) \<leftarrow> inspect_modules H (map_option (\<lambda>a. mi_loaded (ha_module a)) current);
        (case names of
           None \<Rightarrow> give (Return [result])
         | Some order \<Rightarrow> proceed (check_files H snapshot) (\<lambda>_. give (Go (order, order))))
      })"

definition snapshot_modules :: "rollback_snapshot \<Rightarrow> string list" where
  "snapshot_modules snapshot =
     (if rs_module_loaded snapshot \<and> rs_module_names snapshot = [] then [''nvidia'']
      else rs_module_names snapshot)"

definition module_matches ::
  "rollback_snapshot \<Rightarrow> host_audit option \<Rightarrow> string list \<Rightarrow> bool" where
  "module_matches snapshot current names \<longleftrightarrow>
     (case current of
        None \<Rightarrow> False
      | Some a \<Rightarrow>
         (let m = ha_module a
          in mi_loaded m = rs_module_loaded snapshot
             \<and> mi_version m = rs_module_version snapshot
             \<and> mi_open_module m = rs_module_open_module snapshot
             \<and> mi_signed m = rs_module_signed snapshot
             \<and> mi_installed_version m = rs_module_installed_version snapshot
             \<and> mi_installed_open_module m = rs_module_installed_open_module snapshot
             \<and> mi_installed_signed m = rs_module_installed_signed snapshot
             \<and> names = snapshot_modules snapshot))"

section \<open>What has to change\<close>

definition mig_changed :: "rollback_snapshot \<Rightarrow> host_audit option \<Rightarrow> bool" where
  "mig_changed snapshot current \<longleftrightarrow>
     rs_mig_mode snapshot \<in> {Some ''enabled'', Some ''disabled''}
     \<and> (case current of
          None \<Rightarrow> True
        | Some a \<Rightarrow> ha_mig_mode a \<noteq> rs_mig_mode snapshot \<or> ha_mig_geometry a \<noteq> rs_mig_geometry snapshot)"

definition units_of_audit :: "host_audit option \<Rightarrow> unit_states" where
  "units_of_audit current = (case current of Some a \<Rightarrow> audit_units a | None \<Rightarrow> [])"

definition unit_state_known :: "unit_state \<Rightarrow> bool" where
  "unit_state_known x \<longleftrightarrow> us_active x \<noteq> None \<and> us_enabled x \<noteq> None \<and> us_file_state x \<noteq> None"

definition service_state_changed :: "rollback_snapshot \<Rightarrow> host_audit option \<Rightarrow> bool" where
  "service_state_changed snapshot current \<longleftrightarrow>
     list_ex (\<lambda>u. let x = unit_of (units_of_audit current) u; y = unit_of (snapshot_units snapshot) u
        in unit_state_known x \<and> unit_state_known y \<and> x \<noteq> y) service_stop_order"

text \<open>The local values that stay fixed once the gates are passed.\<close>

record rollback_plan =
  rp_commands :: "string list list"
  rp_unload_order :: "string list"
  rp_module_matches :: bool
  rp_unload_needed :: bool
  rp_reset_expected :: bool
  rp_mig_changed :: bool
  rp_mig_restore :: bool
  rp_mutates :: bool

definition plan_rollback ::
  "rollback_snapshot \<Rightarrow> host_audit option \<Rightarrow> string list list \<Rightarrow> bool \<Rightarrow> string list \<Rightarrow> string list
   \<Rightarrow> rollback_plan" where
  "plan_rollback snapshot current commands files_changed names order =
     (let matches = module_matches snapshot current names;
          unload = names \<noteq> [] \<and> \<not> matches;
          reset = unload \<or> (rs_module_loaded snapshot \<and> \<not> matches);
          mig = mig_changed snapshot current;
          restore = mig \<or> (reset \<and> rs_mig_mode snapshot = Some ''enabled'')
      in \<lparr>rp_commands = commands, rp_unload_order = order, rp_module_matches = matches,
          rp_unload_needed = unload, rp_reset_expected = reset, rp_mig_changed = mig,
          rp_mig_restore = restore,
          rp_mutates = commands \<noteq> [] \<or> \<not> matches \<or> restore \<or> files_changed
            \<or> service_state_changed snapshot current\<rparr>)"

definition mig_gates ::
  "rollback_snapshot \<Rightarrow> rollback_plan \<Rightarrow> ('s, unit flow) state" where
  "mig_gates snapshot plan =
     proceed (refuse_if (rp_mig_restore plan \<and> length (rs_gpu_uuids snapshot) \<noteq> 1) [''mig-transaction-scope'']
       (''MIG rollback is qualified only for one UUID-bound GPU; refusing a potentially partial ''
        @ ''multi-GPU transition'')) (\<lambda>_.
     refuse_if (rp_mig_restore plan
         \<and> \<not> restorable_mig_geometry (rs_mig_geometry snapshot) (rs_gpu_uuids snapshot))
       [''mig-rollback-geometry'']
       (''the snapshot MIG layout cannot be recreated exactly; only empty geometry or one GI ''
        @ ''containing one full CI is qualified''))"

definition unknown_state_names :: "unit_state \<Rightarrow> unit_state \<Rightarrow> string list" where
  "unknown_state_names x y =
     (if us_active x = None then [''current active''] else [])
     @ (if us_enabled x = None then [''current enabled''] else [])
     @ (if us_file_state x = None then [''current unit-file''] else [])
     @ (if us_active y = None then [''snapshot active''] else [])
     @ (if us_enabled y = None then [''snapshot enabled''] else [])
     @ (if us_file_state y = None then [''snapshot unit-file''] else [])"

fun unknown_unit_refusal :: "unit_states \<Rightarrow> unit_states \<Rightarrow> string list \<Rightarrow> command_result option" where
  "unknown_unit_refusal xs ys [] = None"
| "unknown_unit_refusal xs ys (u # us) =
     (let names = unknown_state_names (unit_of xs u) (unit_of ys u)
      in if names \<noteq> [] then Some (precondition [''service-state'', u]
           (''cannot safely quiesce '' @ u @ '': '' @ join '', '' names @ '' state is unknown''))
         else unknown_unit_refusal xs ys us)"

definition service_refusal ::
  "rollback_snapshot \<Rightarrow> host_audit option \<Rightarrow> command_result option" where
  "service_refusal snapshot current =
     (case map_option service_state_consistency_error current of
        Some (Some e) \<Rightarrow> Some (precondition [''current-service-state'']
          (''current transactional service state is inconsistent: '' @ e))
      | Some None \<Rightarrow>
         (case snapshot_service_state_consistency_error snapshot of
            Some e \<Rightarrow> Some (precondition [''snapshot-service-state'']
              (''snapshot transactional service state is inconsistent: '' @ e))
          | None \<Rightarrow> unknown_unit_refusal (units_of_audit current) (snapshot_units snapshot) service_stop_order)
      | None \<Rightarrow> unknown_unit_refusal [] (snapshot_units snapshot) service_stop_order)"

definition service_gates ::
  "('w, 'r) rollback_host_scheme \<Rightarrow> rollback_snapshot \<Rightarrow> host_audit option \<Rightarrow> rollback_plan
   \<Rightarrow> command_result list \<Rightarrow> ('w, 'z, unit flow) action" where
  "service_gates H snapshot current plan results =
     give (if \<not> (ru_apply H \<and> rp_mutates plan) then Go ()
       else case service_refusal snapshot current of
         Some r \<Rightarrow> Return (results @ [r])
       | None \<Rightarrow> Go ())"

section \<open>Quiescing the launchers\<close>

definition masked_unit :: unit_state where
  "masked_unit = \<lparr>us_active = Some False, us_enabled = Some False, us_file_state = Some ''masked''\<rparr>"

definition note_masked :: "string \<Rightarrow> unit_states \<Rightarrow> unit_states" where
  "note_masked u us = AList.update u masked_unit us"

text \<open>A dry run prints what a rollback without a running system would do.\<close>

definition dry_stop ::
  "('w, 'r) rollback_host_scheme \<Rightarrow> string \<Rightarrow> string option \<Rightarrow> ('w, 'z, command_result list) action" where
  "dry_stop H u file_state =
     (if file_state = Some ''enabled'' then do { r \<leftarrow> systemctl H [''disable'', ''--now''] u; give [r] }
      else if file_state \<in> {Some ''disabled'', Some ''static''} then do {
        r \<leftarrow> systemctl H [''stop''] u;
        give [r]
      }
      else give [])"

definition quiesce_unit ::
  "('w, 'r) rollback_host_scheme \<Rightarrow> string \<Rightarrow> unit_states \<Rightarrow> command_result list
   \<Rightarrow> ('w, 'z, (unit_states \<times> command_result list) flow) action" where
  "quiesce_unit H u us results =
     (if \<not> ru_apply H then do {
        stopped \<leftarrow> dry_stop H u (us_file_state (unit_of us u));
        (if list_ex failed (take 1 (rev (results @ stopped))) then give (Return (results @ stopped))
         else do {
           masked \<leftarrow> systemctl H [''mask'', ''--now''] u;
           give (if failed masked then Return (results @ stopped @ [masked])
                 else Go (note_masked u us, results @ stopped @ [masked]))
         })
      }
      else do {
        quarantined \<leftarrow> quarantine_service H u;
        proceed (extend_or_return results quarantined) (\<lambda>all. give (Go (note_masked u us, all)))
      })"

fun quiesce_units ::
  "('w, 'r) rollback_host_scheme \<Rightarrow> string list \<Rightarrow> unit_states \<Rightarrow> command_result list
   \<Rightarrow> ('w, 'z, (unit_states \<times> command_result list) flow) action" where
  "quiesce_units H [] us results = give (Go (us, results))"
| "quiesce_units H (u # rest) us results =
     proceed (quiesce_unit H u us results) (\<lambda>(us', results'). quiesce_units H rest us' results')"

section \<open>Packages and files\<close>

definition payloads_command :: "string list" where
  "payloads_command = [''rollback-precondition'', ''package-payloads'']"

definition conclude_payloads ::
  "command_result list \<Rightarrow> command_result \<Rightarrow> ('w, 'z, command_result list flow) action" where
  "conclude_payloads results verdict = do {
     record_external_result verdict False;
     extend_or_return results [verdict]
   }"

text \<open>An \<open>OSError\<close> that escapes the validation leaves the recorded start without a result.\<close>

definition check_payloads ::
  "('w, 'r) rollback_host_scheme \<Rightarrow> rollback_snapshot \<Rightarrow> string list list \<Rightarrow> command_result list
   \<Rightarrow> ('w, 'z, command_result list flow) action" where
  "check_payloads H snapshot commands results =
     (if \<not> (ru_apply H \<and> commands \<noteq> []) then give (Go results)
      else do {
        record_external_start payloads_command False;
        checked \<leftarrow> (case (rs_path snapshot, rs_package_payloads snapshot) of
            (Some path, Some bundle) \<Rightarrow>
              validate_package_payloads H True (path_text path) bundle (rs_packages snapshot)
                (or_empty (rs_package_manager snapshot)) None
          | _ \<Rightarrow> give (Inl (Refused ''applicable rollback snapshot has no retained package payloads'')));
        (case checked of
           Inl (SystemError e) \<Rightarrow> give (Raise (SystemRaised e))
         | Inl (Refused e) \<Rightarrow> conclude_payloads results (command_result_of payloads_command (Some 1)
             (''retained rollback package payload validation failed: '' @ e))
         | Inr _ \<Rightarrow> conclude_payloads results (command_result_of payloads_command (Some 0) []))
      })"

fun run_mutations ::
  "('w, 'r) runner_scheme \<Rightarrow> string list list \<Rightarrow> command_result list
   \<Rightarrow> ('w, 'z, command_result list flow) action" where
  "run_mutations R [] results = give (Go results)"
| "run_mutations R (c # cs) results = do {
     r \<leftarrow> run_command R True True None c;
     (case r of
        Inl e \<Rightarrow> give (Raise (RunnerRaised e))
      | Inr result \<Rightarrow>
          if failed result then give (Return (results @ [result]))
          else run_mutations R cs (results @ [result]))
   }"

definition restore_stage ::
  "('w, 'r) rollback_host_scheme \<Rightarrow> rollback_snapshot \<Rightarrow> command_result list
   \<Rightarrow> ('w, 'z, command_result list flow) action" where
  "restore_stage H snapshot results = do {
     restored \<leftarrow> restore_managed_files H (rs_managed_files snapshot);
     extend_or_return results restored
   }"

section \<open>The second look at the launchers and the module graph\<close>

text \<open>Package scripts may have started a unit again.\<close>

definition second_look ::
  "('w, 'r) rollback_host_scheme \<Rightarrow> rollback_snapshot \<Rightarrow> rollback_plan \<Rightarrow> unit_states
   \<Rightarrow> command_result list \<Rightarrow> ('w, 'z, (rollback_plan \<times> unit_states \<times> command_result list) flow) action" where
  "second_look H snapshot plan us results =
     (if \<not> ru_apply H then give (Go (plan, us, results))
      else proceed (if rp_mutates plan then quiesce_units H service_stop_order us results
                    else give (Go (us, results))) (\<lambda>(us', results'). do {
        (result, names) \<leftarrow> inspect_modules H None;
        (case names of
           None \<Rightarrow> give (Return (results' @ [result]))
         | Some order \<Rightarrow>
            (let unload = order \<noteq> [] \<and> \<not> rp_module_matches plan;
                 reset = unload \<or> (rs_module_loaded snapshot \<and> \<not> rp_module_matches plan)
             in give (Go (plan\<lparr>rp_unload_order := order, rp_unload_needed := unload, rp_reset_expected := reset,
                  rp_mig_restore := rp_mig_changed plan \<or> (reset \<and> rs_mig_mode snapshot = Some ''enabled'')\<rparr>,
                us', results' @ [result]))))
      }))"

definition module_stage ::
  "('w, 'r) rollback_host_scheme \<Rightarrow> rollback_snapshot \<Rightarrow> rollback_plan \<Rightarrow> command_result list
   \<Rightarrow> ('w, 'z, command_result list flow) action" where
  "module_stage H snapshot plan results =
     proceed (if rp_unload_needed plan
              then run_mutations H [[''modprobe'', ''-r''] @ rp_unload_order plan] results
              else give (Go results)) (\<lambda>results'.
       if rs_module_loaded snapshot \<and> \<not> rp_module_matches plan
       then run_mutations H (map (\<lambda>m. [''modprobe'', m]) (rev (snapshot_modules snapshot))) results'
       else give (Go results'))"

section \<open>MIG\<close>

text \<open>Mode and geometry as last observed.\<close>

type_synonym mig_view = "string option \<times> mig_gpu_instance list"

definition refresh_stage ::
  "('w, 'r) rollback_host_scheme \<Rightarrow> rollback_snapshot \<Rightarrow> string \<Rightarrow> mig_view \<Rightarrow> command_result list
   \<Rightarrow> ('w, 'z, (mig_view \<times> command_result list) flow) action" where
  "refresh_stage H snapshot stage view results =
     (if \<not> ru_apply H then give (Go (view, results))
      else do {
        (more, status, mode, geometry) \<leftarrow> refresh_rollback_mig_state H snapshot stage;
        give (if status = MigStable then Go ((mode, geometry), results @ more) else Return (results @ more))
      })"

fun destroy_stage ::
  "('w, 'r) rollback_host_scheme \<Rightarrow> rollback_snapshot \<Rightarrow> string list list \<Rightarrow> mig_view \<Rightarrow> command_result list
   \<Rightarrow> ('w, 'z, (mig_view \<times> command_result list) flow) action" where
  "destroy_stage H snapshot [] view results = give (Go (view, results))"
| "destroy_stage H snapshot (c # cs) view results =
     proceed (run_mutations H [c] results) (\<lambda>results'.
     proceed (refresh_stage H snapshot ''post-geometry-destroy'' view results') (\<lambda>(view', results'').
       destroy_stage H snapshot cs view' results''))"

definition mode_stage ::
  "('w, 'r) rollback_host_scheme \<Rightarrow> rollback_snapshot \<Rightarrow> string \<Rightarrow> mig_view \<Rightarrow> command_result list
   \<Rightarrow> ('w, 'z, (mig_view \<times> command_result list) flow) action" where
  "mode_stage H snapshot gpu view results =
     proceed (run_mutations H [[''nvidia-smi'', ''-i'', gpu, ''-mig'',
         if rs_mig_mode snapshot = Some ''enabled'' then ''1'' else ''0'']] results) (\<lambda>results'.
       refresh_stage H snapshot ''post-mode-change'' view results')"

definition create_stage ::
  "('w, 'r) rollback_host_scheme \<Rightarrow> rollback_snapshot \<Rightarrow> string \<Rightarrow> mig_view \<Rightarrow> command_result list
   \<Rightarrow> ('w, 'z, command_result list flow) action" where
  "create_stage H snapshot gpu view results =
     (case mig_geometry_create_command gpu (rs_mig_geometry snapshot) of
        Inl e \<Rightarrow> give (Raise (GeometryRaised e))
      | Inr None \<Rightarrow> give (Go results)
      | Inr (Some command) \<Rightarrow>
          proceed (run_mutations H [command] results) (\<lambda>results'.
          proceed (refresh_stage H snapshot ''post-geometry-create'' view results') (\<lambda>((mode, geometry), results'').
            if ru_apply H \<and> geometry \<noteq> rs_mig_geometry snapshot then do {
              failure \<leftarrow> report_result (precondition [''mig-geometry-mismatch'']
                (''fresh MIG geometry does not exactly match the rollback snapshot after creation''));
              give (Return (results'' @ [failure]))
            }
            else give (Go results''))))"

definition mig_restore_stage ::
  "('w, 'r) rollback_host_scheme \<Rightarrow> rollback_snapshot \<Rightarrow> bool \<Rightarrow> mig_view \<Rightarrow> command_result list
   \<Rightarrow> ('w, 'z, command_result list flow) action" where
  "mig_restore_stage H snapshot reset view results =
     (if rs_mig_mode snapshot = None then give (Raise MigModeMissing)
      else case rs_gpu_uuids snapshot of
        [] \<Rightarrow> give (Raise GpuMissing)
      | gpu # _ \<Rightarrow>
          proceed
            (if \<not> reset \<and> fst view = Some ''enabled'' \<and> snd view \<noteq> []
                \<and> (rs_mig_mode snapshot = Some ''disabled'' \<or> snd view \<noteq> rs_mig_geometry snapshot)
             then destroy_stage H snapshot (mig_geometry_destroy_commands gpu) view results
             else give (Go (view, results))) (\<lambda>(view1, results1).
          proceed
            (if reset \<or> fst view1 \<noteq> rs_mig_mode snapshot then mode_stage H snapshot gpu view1 results1
             else give (Go (view1, results1))) (\<lambda>(view2, results2).
            if rs_mig_mode snapshot = Some ''enabled'' \<and> snd view2 \<noteq> rs_mig_geometry snapshot
            then create_stage H snapshot gpu view2 results2
            else give (Go results2))))"

definition mig_stage ::
  "('w, 'r) rollback_host_scheme \<Rightarrow> rollback_snapshot \<Rightarrow> host_audit option \<Rightarrow> rollback_plan
   \<Rightarrow> command_result list \<Rightarrow> ('w, 'z, command_result list flow) action" where
  "mig_stage H snapshot current plan results =
     (let view = (case current of Some a \<Rightarrow> (ha_mig_mode a, ha_mig_geometry a) | None \<Rightarrow> (None, []));
          look = ru_apply H \<and> (rp_mig_restore plan \<or> rp_commands plan \<noteq> [] \<or> rp_unload_needed plan
            \<or> (rs_module_loaded snapshot \<and> \<not> rp_module_matches plan))
      in proceed (if look then refresh_stage H snapshot ''post-package-module'' view results
                  else give (Go (view, results))) (\<lambda>(view', results').
           if (if look then fst view' \<noteq> rs_mig_mode snapshot \<or> snd view' \<noteq> rs_mig_geometry snapshot
               else rp_mig_restore plan)
           then mig_restore_stage H snapshot (rp_reset_expected plan) view' results'
           else give (Go results')))"

section \<open>Giving the launchers back\<close>

text \<open>A dry run shows these steps too; an applied rollback takes them one unit at a time.\<close>

definition set_file_state :: "string \<Rightarrow> string option \<Rightarrow> unit_states \<Rightarrow> unit_states" where
  "set_file_state u x us = AList.update u ((unit_of us u)\<lparr>us_file_state := x\<rparr>) us"

definition set_active :: "string \<Rightarrow> bool option \<Rightarrow> unit_states \<Rightarrow> unit_states" where
  "set_active u x us = AList.update u ((unit_of us u)\<lparr>us_active := x\<rparr>) us"

text \<open>One pass over the units: the step of each, and how its state is updated when it did something.\<close>

fun unit_pass ::
  "(string \<Rightarrow> unit_states \<Rightarrow> ('w, 'z, command_result list) action) \<Rightarrow> (string \<Rightarrow> unit_states \<Rightarrow> unit_states)
   \<Rightarrow> string list \<Rightarrow> unit_states \<Rightarrow> command_result list
   \<Rightarrow> ('w, 'z, (unit_states \<times> command_result list) flow) action" where
  "unit_pass step update [] us results = give (Go (us, results))"
| "unit_pass step update (u # rest) us results = do {
     more \<leftarrow> step u us;
     proceed (extend_or_return results more) (\<lambda>all.
       unit_pass step update rest (if more = [] then us else update u us) all)
   }"

definition prepare_pass ::
  "('w, 'r) rollback_host_scheme \<Rightarrow> rollback_snapshot \<Rightarrow> unit_states \<Rightarrow> command_result list
   \<Rightarrow> ('w, 'z, (unit_states \<times> command_result list) flow) action" where
  "prepare_pass H snapshot =
     (let target = (\<lambda>u. us_file_state (unit_of (snapshot_units snapshot) u))
      in unit_pass (\<lambda>u us. prepare_service_for_activity H u (target u) (us_file_state (unit_of us u)))
           (\<lambda>u. set_file_state u (prepared_file_state (target u))) service_activity_restore_order)"

definition activity_step ::
  "('w, 'r) rollback_host_scheme \<Rightarrow> rollback_snapshot \<Rightarrow> string \<Rightarrow> unit_states
   \<Rightarrow> ('w, 'z, command_result list) action" where
  "activity_step H snapshot u us =
     (let target = unit_of (snapshot_units snapshot) u; current = unit_of us u;
          prepared = (if known_file_state (us_file_state target)
            then prepared_file_state (us_file_state target) else None)
      in if us_file_state current \<noteq> prepared then
           give [unit_file_failure u (''cannot restore '' @ u
             @ '' activity until its unit-file state has been safely prepared'')]
         else restore_service_activity H u (us_active target) (us_active current))"

definition activity_pass ::
  "('w, 'r) rollback_host_scheme \<Rightarrow> rollback_snapshot \<Rightarrow> unit_states \<Rightarrow> command_result list
   \<Rightarrow> ('w, 'z, (unit_states \<times> command_result list) flow) action" where
  "activity_pass H snapshot =
     unit_pass (activity_step H snapshot)
       (\<lambda>u. set_active u (us_active (unit_of (snapshot_units snapshot) u))) service_activity_restore_order"

definition enablement_pass ::
  "('w, 'r) rollback_host_scheme \<Rightarrow> rollback_snapshot \<Rightarrow> unit_states \<Rightarrow> command_result list
   \<Rightarrow> ('w, 'z, (unit_states \<times> command_result list) flow) action" where
  "enablement_pass H snapshot =
     (let target = (\<lambda>u. us_file_state (unit_of (snapshot_units snapshot) u))
      in unit_pass (\<lambda>u us. restore_service_unit_file_state H u (target u) (us_file_state (unit_of us u)))
           (\<lambda>u. set_file_state u (target u)) service_activity_restore_order)"

definition services_differ :: "rollback_snapshot \<Rightarrow> unit_states \<Rightarrow> bool" where
  "services_differ snapshot us \<longleftrightarrow>
     list_ex (\<lambda>u. let x = unit_of us u; y = unit_of (snapshot_units snapshot) u
        in us_active y \<noteq> us_active x \<or> us_file_state y \<noteq> us_file_state x) service_activity_restore_order"

definition rollback_skip :: "string list \<Rightarrow> string \<Rightarrow> command_result" where
  "rollback_skip names reason = skipped_result (''rollback'' # names) (Some 0) reason"

definition closing_results ::
  "rollback_snapshot \<Rightarrow> bool \<Rightarrow> unit_states \<Rightarrow> command_result list \<Rightarrow> command_result list" where
  "closing_results snapshot all_restored us results =
     (let results' = results @ (if \<not> all_restored \<and> services_differ snapshot us
            then [rollback_skip [''service-state''] ''deferred''] else [])
      in if results' = [] then [rollback_skip [] ''already-restored''] else results')"

definition service_stage ::
  "('w, 'r) rollback_host_scheme \<Rightarrow> rollback_snapshot \<Rightarrow> bool \<Rightarrow> bool \<Rightarrow> unit_states \<Rightarrow> command_result list
   \<Rightarrow> ('w, 'z, command_result list flow) action" where
  "service_stage H snapshot enablement activity us results =
     proceed (if enablement \<or> activity then prepare_pass H snapshot us results
              else give (Go (us, results))) (\<lambda>(us1, results1).
     proceed (if activity then activity_pass H snapshot us1 results1
              else give (Go (us1, results1))) (\<lambda>(us2, results2).
     proceed (if enablement then enablement_pass H snapshot us2 results2
              else give (Go (us2, results2))) (\<lambda>(us3, results3).
       give (Go (closing_results snapshot (enablement \<and> activity) us3 results3)))))"

section \<open>The whole rollback\<close>

text \<open>Everything after the gates.\<close>

definition perform_rollback ::
  "('w, 'r) rollback_host_scheme \<Rightarrow> rollback_snapshot \<Rightarrow> host_audit option \<Rightarrow> bool \<Rightarrow> bool \<Rightarrow> rollback_plan
   \<Rightarrow> command_result list \<Rightarrow> ('w, 'z, command_result list flow) action" where
  "perform_rollback H snapshot current enablement activity plan results =
     proceed (if rp_mutates plan then quiesce_units H service_stop_order (units_of_audit current) results
              else give (Go (units_of_audit current, results))) (\<lambda>(us, results1).
     proceed (check_payloads H snapshot (rp_commands plan) results1) (\<lambda>results2.
     proceed (run_mutations H (rp_commands plan) results2) (\<lambda>results3.
     proceed (restore_stage H snapshot results3) (\<lambda>results4.
     proceed (second_look H snapshot plan us results4) (\<lambda>(plan', us', results5).
     proceed (module_stage H snapshot plan' results5) (\<lambda>results6.
     proceed (mig_stage H snapshot current plan' results6) (\<lambda>results7.
       service_stage H snapshot enablement activity us' results7)))))))"

text \<open>Everything after the authority and the solver\<close>

definition gated_rollback ::
  "('w, 'r) rollback_host_scheme \<Rightarrow> rollback_snapshot \<Rightarrow> host_audit option \<Rightarrow> bool \<Rightarrow> bool
   \<Rightarrow> command_result list \<Rightarrow> ('w, 'z, command_result list flow) action" where
  "gated_rollback H snapshot current enablement activity results =
     proceed (state_gates H snapshot current (enablement \<or> activity)) (\<lambda>commands. do {
       files_changed \<leftarrow> asks (\<lambda>s. list_ex (\<lambda>f. \<not> managed_file_matches H (se_world s) f)
         (rs_managed_files snapshot));
       proceed (current_modules H snapshot current) (\<lambda>(names, order).
         let plan = plan_rollback snapshot current commands files_changed names order
         in proceed (mig_gates snapshot plan) (\<lambda>_.
            proceed (service_gates H snapshot current plan results) (\<lambda>_.
              perform_rollback H snapshot current enablement activity plan results)))
     })"

definition apply_rollback ::
  "('w, 'r) rollback_host_scheme \<Rightarrow> rollback_snapshot \<Rightarrow> host_audit option \<Rightarrow> bool \<Rightarrow> bool
   \<Rightarrow> ('w, 'z, command_result list flow) action" where
  "apply_rollback H snapshot current enablement activity =
     proceed (initial_gates H snapshot current) (gated_rollback H snapshot current enablement activity)"

end
