(* ===== verification/Emits.thy ===== *)
theory Emits
  imports Runner
begin

text \<open>
  What an action tells the journal: a calculus over the actions of the runner.  \<open>emits m Q\<close> says
  that, from every journaled session, \<open>m\<close> only appends events and that its value and the
  appended events satisfy \<open>Q\<close>.  The rules, collected in \<open>emits_intros\<close> and \<open>quiet_intros\<close>, follow the
  structure of an action backwards.
\<close>

named_theorems emits_intros "what an action appends to the journal"
named_theorems quiet_intros "actions that append no mutating event"

definition emits ::
  "(('w, 'z) session_scheme, 'a) state \<Rightarrow> ('a \<Rightarrow> runner_event list \<Rightarrow> bool) \<Rightarrow> bool" where
  "emits m Q \<longleftrightarrow> (\<forall>s. se_journaled s \<longrightarrow>
     (case run_state m s of (a, s') \<Rightarrow>
        se_journaled s' \<and> (\<exists>es. se_events s' = se_events s @ es \<and> Q a es)))"

lemma emitsI:
  assumes "\<And>s. se_journaled s \<Longrightarrow> case run_state m s of (a, s') \<Rightarrow>
      se_journaled s' \<and> (\<exists>es. se_events s' = se_events s @ es \<and> Q a es)"
  shows "emits m Q"
  using assms by (simp add: emits_def)

lemma emitsD:
  assumes "emits m Q" "se_journaled s" "run_state m s = (a, s')"
  obtains es where "se_journaled s'" "se_events s' = se_events s @ es" "Q a es"
  using assms unfolding emits_def by fastforce

lemma emits_run:
  assumes "emits m Q" "se_journaled s" "run_state m s = (a, s')" "se_events s' = se_events s @ es"
  shows "Q a es"
  by (rule emitsD [OF assms(1-3)]) (use assms(4) in simp)

lemma emits_weaken: "emits m P \<Longrightarrow> (\<And>a es. P a es \<Longrightarrow> Q a es) \<Longrightarrow> emits m Q"
  unfolding emits_def by fastforce

lemma emits_conj: "emits m P \<Longrightarrow> emits m Q \<Longrightarrow> emits m (\<lambda>a es. P a es \<and> Q a es)"
  unfolding emits_def by fastforce

lemma emits_give [emits_intros]: "Q a [] \<Longrightarrow> emits (give a) Q"
  by (simp add: emits_def)

lemma emits_bind [emits_intros]:
  fixes m :: "(('w, 'z) session_scheme, 'a) state"
  assumes "emits m (\<lambda>a xs. emits (f a) (\<lambda>b ys. Q b (xs @ ys)))"
  shows "emits (State_Monad.bind m f) Q"
proof (rule emitsI)
  fix s :: "('w, 'z) session_scheme"
  assume "se_journaled s"
  with assms obtain a s1 xs where 1: "run_state m s = (a, s1)" "se_journaled s1"
    "se_events s1 = se_events s @ xs" "emits (f a) (\<lambda>b ys. Q b (xs @ ys))"
    unfolding emits_def [of m] by (cases "run_state m s") fastforce
  from 1(4,2) obtain b s2 ys where "run_state (f a) s1 = (b, s2)" "se_journaled s2"
    "se_events s2 = se_events s1 @ ys" "Q b (xs @ ys)"
    unfolding emits_def by (cases "run_state (f a) s1") fastforce
  with 1 show "case run_state (State_Monad.bind m f) s of (b, s') \<Rightarrow>
      se_journaled s' \<and> (\<exists>es. se_events s' = se_events s @ es \<and> Q b es)"
    by simp
qed

lemma emits_then:
  assumes "emits m P" and "\<And>a xs. P a xs \<Longrightarrow> emits (f a) (\<lambda>b ys. Q b (xs @ ys))"
  shows "emits (State_Monad.bind m f) Q"
  by (rule emits_bind) (rule emits_weaken [OF assms])

lemma emits_asks [emits_intros]: "(\<And>a. Q a []) \<Longrightarrow> emits (asks f) Q"
  by (simp add: emits_def)

lemma emits_on_world [emits_intros]: "(\<And>a. Q a []) \<Longrightarrow> emits (on_world f) Q"
  by (simp add: emits_def split: prod.splits)

lemma emits_start [emits_intros]: "Q () [Started c m] \<Longrightarrow> emits (record_external_start c m) Q"
  by (simp add: emits_def record_external_start_def)

lemma emits_result [emits_intros]: "Q () [Finished r m] \<Longrightarrow> emits (record_external_result r m) Q"
  by (simp add: emits_def record_external_result_def Let_def)

lemma emits_if [emits_intros]:
  "(b \<Longrightarrow> emits m Q) \<Longrightarrow> (\<not> b \<Longrightarrow> emits n Q) \<Longrightarrow> emits (if b then m else n) Q"
  by simp

lemma emits_let [emits_intros]: "emits (f x) Q \<Longrightarrow> emits (Let x f) Q"
  by simp

lemma emits_option [emits_intros]:
  "(x = None \<Longrightarrow> emits m Q) \<Longrightarrow> (\<And>a. x = Some a \<Longrightarrow> emits (f a) Q) \<Longrightarrow> emits (case x of None \<Rightarrow> m | Some a \<Rightarrow> f a) Q"
  by (cases x) simp_all

lemma emits_sum [emits_intros]:
  "(\<And>e. x = Inl e \<Longrightarrow> emits (f e) Q) \<Longrightarrow> (\<And>a. x = Inr a \<Longrightarrow> emits (g a) Q)
   \<Longrightarrow> emits (case x of Inl e \<Rightarrow> f e | Inr a \<Rightarrow> g a) Q"
  by (cases x) simp_all

lemma emits_prod [emits_intros]:
  "(\<And>a b. x = (a, b) \<Longrightarrow> emits (f a b) Q) \<Longrightarrow> emits (case x of (a, b) \<Rightarrow> f a b) Q"
  by (cases x) simp_all

lemma emits_list [emits_intros]:
  "(x = [] \<Longrightarrow> emits m Q) \<Longrightarrow> (\<And>y ys. x = y # ys \<Longrightarrow> emits (f y ys) Q)
   \<Longrightarrow> emits (case x of [] \<Rightarrow> m | y # ys \<Rightarrow> f y ys) Q"
  by (cases x) simp_all

section \<open>Running a command\<close>

lemma outcome_result_facts [simp]:
  "cr_command (outcome_result R c p t out) = c"
  "cr_returncode (outcome_result R c p t out) \<noteq> None"
  "cr_skipped (outcome_result R c p t out) = False"
  by (simp_all add: outcome_result_def split: process_outcome.splits)

text \<open>What is known of the result of a command: its command line, and whether it was run at all.\<close>

definition result_of_run :: "('w, 'r) runner_scheme \<Rightarrow> bool \<Rightarrow> string list \<Rightarrow> command_result \<Rightarrow> bool" where
  "result_of_run R mutate command r \<longleftrightarrow>
     cr_command r = command \<and> cr_skipped r = (mutate \<and> \<not> ru_apply R)
     \<and> (cr_returncode r = None \<longleftrightarrow> mutate \<and> \<not> ru_apply R)"

lemma result_of_run_intros:
  "mutate \<and> \<not> ru_apply R \<Longrightarrow> result_of_run R mutate c (skipped_result c None reason)"
  "\<not> (mutate \<and> \<not> ru_apply R) \<Longrightarrow> result_of_run R mutate c (command_result_of c (Some n) e)"
  "\<not> (mutate \<and> \<not> ru_apply R) \<Longrightarrow> result_of_run R mutate c (outcome_result R c p t out)"
  by (auto simp: result_of_run_def)

lemma emits_run_program [emits_intros]:
  assumes "\<And>r. result_of_run R mutate (program # args) r
    \<Longrightarrow> Q r [Started (program # args) mutate, Finished r mutate]"
  shows "emits (run_program R timeout mutate input program args) Q"
  unfolding run_program_def
  by (intro emits_intros; unfold append.simps) (rule assms, rule result_of_run_intros, assumption)+

lemma emits_run_known [emits_intros]:
  assumes "\<And>r. result_of_run R mutate (program # args) r
    \<Longrightarrow> Q r [Started (program # args) mutate, Finished r mutate]"
  shows "emits (run_known R mutate program args) Q"
  unfolding run_known_def using assms by (intro emits_intros)

section \<open>Actions without mutating events\<close>

text \<open>
  An event is plain when it changes nothing and does not observe the state of a unit in the form
  the quarantine relies on.
\<close>

definition unit_query :: "string list \<Rightarrow> bool" where
  "unit_query c \<longleftrightarrow> take 3 c = [''systemctl'', ''show'', ''--no-pager'']"

fun plain_event :: "runner_event \<Rightarrow> bool" where
  "plain_event (Started _ m) = (\<not> m)"
| "plain_event (Finished r m) = (\<not> m \<and> \<not> unit_query (cr_command r))"

definition quiet :: "runner_event list \<Rightarrow> bool" where
  "quiet es \<longleftrightarrow> list_all plain_event es"

lemma quiet_simps [simp]:
  "quiet []" "quiet (e # es) \<longleftrightarrow> plain_event e \<and> quiet es"
  "quiet (xs @ ys) \<longleftrightarrow> quiet xs \<and> quiet ys"
  by (simp_all add: quiet_def)

lemma unit_query_hd [simp]:
  "p \<noteq> ''systemctl'' \<Longrightarrow> \<not> unit_query (p # args)" "\<not> unit_query []"
  by (simp_all add: unit_query_def)

definition silent :: "(('w, 'z) session_scheme, 'a) state \<Rightarrow> bool" where
  "silent m \<longleftrightarrow> emits m (\<lambda>_ es. quiet es)"

lemma silent_bind [quiet_intros]:
  "silent m \<Longrightarrow> (\<And>a. silent (f a)) \<Longrightarrow> silent (State_Monad.bind m f)"
  unfolding silent_def by (rule emits_then) (auto elim: emits_weaken)

lemma silent_basic [quiet_intros]:
  "silent (give a)" "silent (asks f)" "silent (on_world g)"
  "silent (record_external_start c False)"
  unfolding silent_def by (intro emits_intros; simp)+

lemma silent_result [quiet_intros]:
  "\<not> unit_query (cr_command r) \<Longrightarrow> silent (record_external_result r False)"
  unfolding silent_def by (intro emits_intros) simp

lemma silent_run_known [quiet_intros]:
  "\<not> unit_query (program # args) \<Longrightarrow> silent (run_known R False program args)"
  unfolding silent_def by (intro emits_intros) (simp add: result_of_run_def)

lemma silent_cases [quiet_intros]:
  "silent m \<Longrightarrow> silent n \<Longrightarrow> silent (if b then m else n)"
  "silent (f x) \<Longrightarrow> silent (Let x f)"
  "silent m \<Longrightarrow> (\<And>a. silent (g a)) \<Longrightarrow> silent (case y of None \<Rightarrow> m | Some a \<Rightarrow> g a)"
  "(\<And>e. silent (h e)) \<Longrightarrow> (\<And>a. silent (k a)) \<Longrightarrow> silent (case z of Inl e \<Rightarrow> h e | Inr a \<Rightarrow> k a)"
  "(\<And>a b. silent (l a b)) \<Longrightarrow> silent (case p of (a, b) \<Rightarrow> l a b)"
  unfolding silent_def by (intro emits_intros; assumption)+

lemma silent_exists [quiet_intros]: "silent (exists_executable R name)"
  unfolding exists_executable_def by (intro quiet_intros)

lemma emits_silent:
  assumes "silent m" and "\<And>a es. quiet es \<Longrightarrow> Q a es"
  shows "emits m Q"
  using assms(1) unfolding silent_def by (rule emits_weaken) (rule assms(2))

lemma emits_after_silent:
  assumes "silent m" and "\<And>a xs. quiet xs \<Longrightarrow> emits (f a) (\<lambda>b ys. Q b (xs @ ys))"
  shows "emits (State_Monad.bind m f) Q"
  by (rule emits_then [OF assms(1) [unfolded silent_def]]) (rule assms(2))

end
