(* ===== verification/UnitChecks.thy ===== *)
theory UnitChecks
  imports UnitSafety Emits
begin

text \<open>
  The contract of a trust check, as the interface the rollback relies on: it appends no mutating
  event, and an error it reports comes with a failed result.  The checks of \<open>gpu_safety.py\<close> keep it.
\<close>

section \<open>Silent actions\<close>

lemma silent_and_then [quiet_intros]:
  "silent m \<Longrightarrow> (\<And>a. silent (f a)) \<Longrightarrow> silent (and_then m f)"
  unfolding and_then_def by (intro quiet_intros)

lemma silent_ensure [quiet_intros]: "silent (ensure b e)"
  unfolding ensure_def by (intro quiet_intros)

lemma silent_each_of [quiet_intros]: "(\<And>x. silent (f x)) \<Longrightarrow> silent (each_of f xs)"
  by (induction xs) (auto intro!: quiet_intros)

lemma silent_report_result [quiet_intros]:
  "\<not> unit_query (cr_command r) \<Longrightarrow> silent (report_result r)"
  unfolding report_result_def by (intro quiet_intros)

lemma silent_parsed_by [quiet_intros]: "silent (parsed_by parse props name)"
  unfolding parsed_by_def by (intro quiet_intros)

lemma silent_show_unit [quiet_intros]: "silent (show_unit R known u)"
  unfolding show_unit_def by (intro quiet_intros) (simp add: unit_query_def)

lemma silent_no_remapping [quiet_intros]: "silent (no_remapping props)"
  unfolding no_remapping_def by (intro quiet_intros)

lemma silent_bind_files [quiet_intros]: "silent (bind_files H e paths files)"
  by (induction paths arbitrary: files) (auto simp: bind_file_def intro!: quiet_intros)

lemma silent_bind_file [quiet_intros]: "silent (bind_file H e path files)"
  unfolding bind_file_def by (intro quiet_intros)

lemma silent_bind_hooks [quiet_intros]: "silent (bind_hooks H props names files)"
  by (induction names arbitrary: files) (auto intro!: quiet_intros)

lemma silent_socket_binding [quiet_intros]: "silent (validate_docker_socket_binding H props)"
  unfolding validate_docker_socket_binding_def bind_docker_socket_def by (intro quiet_intros)

lemma silent_judge_socket [quiet_intros]: "silent (judge_docker_socket H allow r)"
  unfolding judge_docker_socket_def validate_inert_docker_socket_state_def by (intro quiet_intros)

lemma silent_trusted [quiet_intros]:
  "silent (trusted_files H e paths)" "silent (trusted_hooks H props names)"
  "silent (process_start_time_ticks H pid)"
  unfolding trusted_files_def trusted_hooks_def process_start_time_ticks_def
  by (intro quiet_intros)+

lemma silent_bind_service [quiet_intros]:
  "silent (bind_process H spec executable pid)" "silent (bind_service H spec fragment main_pid props)"
  unfolding bind_process_def bind_service_def trusted_files_def trusted_hooks_def by (intro quiet_intros)+

lemma silent_service_binding [quiet_intros]:
  "silent (validate_trusted_service_binding H spec fragment main_pid props)"
  unfolding validate_trusted_service_binding_def by (intro quiet_intros) (simp add: verdict_result_def)

lemma silent_observe_service [quiet_intros]: "silent (observe_trusted_service H spec)"
  unfolding observe_trusted_service_def judge_service_def by (intro quiet_intros)

lemma silent_judge_unit [quiet_intros]: "silent (judge_service_unit H allow ob)"
  unfolding judge_service_unit_def validate_inert_trusted_service_state_def by (intro quiet_intros)

lemma silent_files_unchanged [quiet_intros]: "silent (files_unchanged H xs)"
  by (induction xs) (auto intro!: quiet_intros)

lemma silent_process_unchanged [quiet_intros]: "silent (process_unchanged H i)"
  unfolding process_unchanged_def by (intro quiet_intros)

section \<open>The contract of a check\<close>

text \<open>The verdict of a check is its last result, which fails exactly when there is an error.\<close>

definition sound_verdict :: "command_result list \<Rightarrow> string option \<Rightarrow> runner_event list \<Rightarrow> bool" where
  "sound_verdict results error es \<longleftrightarrow>
     quiet es \<and> results \<noteq> [] \<and> (failed (last results) \<longleftrightarrow> error \<noteq> None)"

lemma verdict_facts [simp]:
  "failed (verdict_result command out error) \<longleftrightarrow> error \<noteq> None"
  "cr_command (verdict_result command out error) = command"
  by (simp_all add: failed_def verdict_result_def)

locale trust_check =
  fixes check :: "(('w, 'z) session_scheme, 'c) state"
    and results :: "'c \<Rightarrow> command_result list"
    and error :: "'c \<Rightarrow> string option"
  assumes sound: "emits check (\<lambda>r es. sound_verdict (results r) (error r) es)"
begin

text \<open>A check that did not pass leaves a failed result.\<close>

lemma gate: "emits check (\<lambda>r es. quiet es \<and> (error r = None \<or> list_ex failed (results r)))"
proof (rule emits_weaken [OF sound])
  fix r es
  assume "sound_verdict (results r) (error r) es"
  then show "quiet es \<and> (error r = None \<or> list_ex failed (results r))"
    using last_in_set [of "results r"] by (auto simp: sound_verdict_def list_ex_iff)
qed

lemma quiet_check: "silent check"
  unfolding silent_def by (rule emits_weaken [OF sound]) (simp add: sound_verdict_def)

end

lemma emits_report [emits_intros]:
  "Q r [Started (cr_command r) False, Finished r False] \<Longrightarrow> emits (report_result r) Q"
  unfolding report_result_def by (intro emits_intros) simp

section \<open>The checks keep the contract\<close>

interpretation socket_identity: trust_check "validate_docker_socket_identity H allow"
    fst "\<lambda>r. snd (snd r)" for H allow
proof
  show "emits (validate_docker_socket_identity H allow)
      (\<lambda>r es. sound_verdict (fst r) (snd (snd r)) es)"
    unfolding validate_docker_socket_identity_def
    by (rule emits_after_silent, intro quiet_intros)+
      (auto simp: sound_verdict_def intro!: emits_intros)
qed

interpretation service_identity: trust_check "validate_active_trusted_gpu_service_identity H u expected"
    fst "\<lambda>r. snd (snd r)" for H u expected
proof
  show "emits (validate_active_trusted_gpu_service_identity H u expected)
      (\<lambda>r es. sound_verdict (fst r) (snd (snd r)) es)"
    unfolding validate_active_trusted_gpu_service_identity_def
    by (rule emits_after_silent, intro quiet_intros)+
      (auto simp: sound_verdict_def intro!: emits_intros)
qed

interpretation service_unit: trust_check "validate_trusted_gpu_service_unit H u allow" fst snd for H u allow
proof
  show "emits (validate_trusted_gpu_service_unit H u allow) (\<lambda>r es. sound_verdict (fst r) (snd r) es)"
    unfolding validate_trusted_gpu_service_unit_def
    by (rule emits_after_silent, intro quiet_intros)+
      (auto simp: sound_verdict_def intro!: emits_intros)
qed

interpretation socket_unit: trust_check "validate_docker_socket_unit H allow" fst snd for H allow
proof
  show "emits (validate_docker_socket_unit H allow) (\<lambda>r es. sound_verdict (fst r) (snd r) es)"
    unfolding validate_docker_socket_unit_def
    by (rule emits_then [OF socket_identity.sound]) (auto intro!: emits_intros)
qed

interpretation socket_again: trust_check "revalidate_docker_socket_identity H i" fst snd for H i
proof
  show "emits (revalidate_docker_socket_identity H i) (\<lambda>r es. sound_verdict (fst r) (snd r) es)"
    unfolding revalidate_docker_socket_identity_def Let_def
    by (rule emits_after_silent, intro quiet_intros)
      (auto simp: sound_verdict_def intro!: emits_intros)
qed

interpretation process_again: trust_check "revalidate_trusted_gpu_service_process_identity H i"
    fst snd for H i
proof
  show "emits (revalidate_trusted_gpu_service_process_identity H i)
      (\<lambda>r es. sound_verdict (fst r) (snd r) es)"
    unfolding revalidate_trusted_gpu_service_process_identity_def Let_def
    by (rule emits_after_silent, intro quiet_intros)
      (auto simp: sound_verdict_def intro!: emits_intros)
qed

end
