(* ===== verification/RollbackProtocol.thy ===== *)
theory RollbackProtocol
  imports RollbackApply UnitChecks
begin

text \<open>
  The protocol of a rollback, as an automaton over the events of the runner: what may be changed
  after what.  The launchers come first; a change that is not a change of a launcher is carried out
  only while the last observation of every launcher proves it masked and inactive; packages,
  managed files, kernel modules and MIG follow in this order; after a failed change there is no
  further one, except that the remaining managed files are still restored.

  \<open>follows p s m Q\<close> says that the action \<open>m\<close>, run from session \<open>s\<close> with the automaton at \<open>p\<close>, is
  accepted, and that its value, the automaton and the session satisfy \<open>Q\<close> afterwards.
\<close>

section \<open>Phases\<close>

datatype rollback_phase = Packages | Files | Modules | MigLayout

fun phase_rank :: "rollback_phase \<Rightarrow> nat" where
  "phase_rank Packages = 0" | "phase_rank Files = 1" | "phase_rank Modules = 2" | "phase_rank MigLayout = 3"

instantiation rollback_phase :: linorder
begin

definition less_eq_rollback_phase :: "rollback_phase \<Rightarrow> rollback_phase \<Rightarrow> bool" where
  "less_eq_rollback_phase x y \<longleftrightarrow> phase_rank x \<le> phase_rank y"

definition less_rollback_phase :: "rollback_phase \<Rightarrow> rollback_phase \<Rightarrow> bool" where
  "less_rollback_phase x y \<longleftrightarrow> phase_rank x < phase_rank y"

instance
proof
  fix x y z :: rollback_phase
  show "x \<le> y \<Longrightarrow> y \<le> x \<Longrightarrow> x = y"
    by (cases x; cases y) (simp_all add: less_eq_rollback_phase_def)
qed (auto simp: less_eq_rollback_phase_def less_rollback_phase_def)

end

lemma phase_order [simp]: "Packages \<le> k" "k \<le> MigLayout" "Files \<le> Modules"
  by (cases k; simp add: less_eq_rollback_phase_def)+

text \<open>A change of a launcher has no phase; every other program stands for the packages.\<close>

definition mutation_phase :: "string list \<Rightarrow> rollback_phase option" where
  "mutation_phase c =
     (case c of
        [] \<Rightarrow> Some Packages
      | p # _ \<Rightarrow>
          if p = ''systemctl'' then None
          else if p = ''restore-file'' then Some Files
          else if p = ''modprobe'' then Some Modules
          else if p = ''nvidia-smi'' then Some MigLayout
          else Some Packages)"

section \<open>The automaton\<close>

record protocol =
  pt_quarantined :: "string list"
  pt_phase :: rollback_phase
  pt_failed :: "string list option"

definition protocol_start :: protocol where
  "protocol_start = \<lparr>pt_quarantined = [], pt_phase = Packages, pt_failed = None\<rparr>"

definition may_follow :: "string list option \<Rightarrow> string list \<Rightarrow> bool" where
  "may_follow prior c \<longleftrightarrow>
     (case prior of
        None \<Rightarrow> True
      | Some b \<Rightarrow> mutation_phase b = Some Files \<and> mutation_phase c = Some Files)"

definition releases :: "string list \<Rightarrow> bool" where
  "releases c \<longleftrightarrow> take 2 c \<in> set [[''systemctl'', ''unmask''], [''systemctl'', ''start''], [''systemctl'', ''enable'']]"

definition observed :: "command_result \<Rightarrow> string list \<Rightarrow> string list" where
  "observed r qs =
     (if unit_query (cr_command r) then
       (let u = last (cr_command r)
        in if proves_quarantine r (judge_unit_state r u) then List.insert u qs else removeAll u qs)
      else qs)"

definition launchers_quarantined :: "protocol \<Rightarrow> bool" where
  "launchers_quarantined p \<longleftrightarrow> list_all (\<lambda>u. u \<in> set (pt_quarantined p)) service_stop_order"

fun protocol_step :: "protocol \<Rightarrow> runner_event \<Rightarrow> protocol option" where
  "protocol_step p (Started c mutate) =
     (if \<not> mutate then Some p
      else if \<not> may_follow (pt_failed p) c then None
      else case mutation_phase c of
        None \<Rightarrow> Some (if releases c then p\<lparr>pt_quarantined := removeAll (last c) (pt_quarantined p)\<rparr> else p)
      | Some k \<Rightarrow> if k < pt_phase p then None else Some (p\<lparr>pt_phase := k\<rparr>))"
| "protocol_step p (Finished r mutate) =
     (if \<not> mutate then Some (p\<lparr>pt_quarantined := observed r (pt_quarantined p)\<rparr>)
      else if mutation_phase (cr_command r) \<noteq> None \<and> \<not> cr_skipped r \<and> \<not> launchers_quarantined p then None
      else Some (if failed r then p\<lparr>pt_failed := Some (cr_command r)\<rparr> else p))"

fun run_protocol :: "protocol \<Rightarrow> runner_event list \<Rightarrow> protocol option" where
  "run_protocol p [] = Some p"
| "run_protocol p (e # es) =
     (case protocol_step p e of None \<Rightarrow> None | Some p' \<Rightarrow> run_protocol p' es)"

definition accepted :: "runner_event list \<Rightarrow> bool" where
  "accepted es \<longleftrightarrow> run_protocol protocol_start es \<noteq> None"

lemma run_protocol_append [simp]:
  "run_protocol p (xs @ ys) = (case run_protocol p xs of None \<Rightarrow> None | Some p' \<Rightarrow> run_protocol p' ys)"
  by (induction xs arbitrary: p) (auto split: option.splits)

lemma plain_step: "plain_event e \<Longrightarrow> protocol_step p e = Some p"
  by (cases e) (auto simp: observed_def)

lemma quiet_run: "quiet es \<Longrightarrow> run_protocol p es = Some p"
  by (induction es) (auto simp: plain_step simp del: protocol_step.simps)

section \<open>What an accepted trace says\<close>

text \<open>The phases of the changes that were begun, in order.\<close>

fun phases_begun :: "runner_event list \<Rightarrow> rollback_phase list" where
  "phases_begun [] = []"
| "phases_begun (Started c True # es) =
     (case mutation_phase c of None \<Rightarrow> phases_begun es | Some k \<Rightarrow> k # phases_begun es)"
| "phases_begun (_ # es) = phases_begun es"

lemma sorted_phases:
  assumes "run_protocol p es = Some p'"
  shows "sorted (phases_begun es) \<and> list_all (\<lambda>k. pt_phase p \<le> k) (phases_begun es)"
  using assms
proof (induction es arbitrary: p rule: phases_begun.induct)
  case (2 c es)
  from "2.prems" obtain q where q: "protocol_step p (Started c True) = Some q" "run_protocol q es = Some p'"
    by (auto split: option.splits)
  from q(1) have "case mutation_phase c of None \<Rightarrow> pt_phase q = pt_phase p
      | Some k \<Rightarrow> pt_phase p \<le> k \<and> pt_phase q = k"
    by (auto split: option.splits if_splits)
  with "2.IH" [OF _ q(2)] show ?case
    by (cases "mutation_phase c") (auto simp: list_all_iff sorted_simps(2) "2.IH" [OF _ q(2)] dest: order_trans)
qed (fastforce split: option.splits if_splits)+

text \<open>No change is begun after a failed one, the files apart.\<close>

fun stops_at_failure :: "string list option \<Rightarrow> runner_event list \<Rightarrow> bool" where
  "stops_at_failure b [] = True"
| "stops_at_failure b (Started c True # es) = (may_follow b c \<and> stops_at_failure b es)"
| "stops_at_failure b (Finished r True # es) =
     stops_at_failure (if failed r then Some (cr_command r) else b) es"
| "stops_at_failure b (_ # es) = stops_at_failure b es"

lemma run_protocol_Cons:
  assumes "run_protocol p (e # es) = Some p'"
  obtains q where "protocol_step p e = Some q" "run_protocol q es = Some p'"
  using assms by (auto split: option.splits)

lemma accepted_stops: "run_protocol p es = Some p' \<Longrightarrow> stops_at_failure (pt_failed p) es"
proof (induction es arbitrary: p)
  case (Cons e es)
  from Cons.prems obtain q where q: "protocol_step p e = Some q" "run_protocol q es = Some p'"
    by (rule run_protocol_Cons)
  obtain x m where "e = Started x m \<or> (\<exists>r. e = Finished r m)" by (cases e) auto
  with q(1) Cons.IH [OF q(2)] show ?case
    by (cases m) (auto split: option.splits if_splits)
qed simp

text \<open>The units proved masked and inactive after some events.\<close>

fun quarantine_after :: "string list \<Rightarrow> runner_event list \<Rightarrow> string list" where
  "quarantine_after qs [] = qs"
| "quarantine_after qs (Started c True # es) =
     quarantine_after (if mutation_phase c = None \<and> releases c then removeAll (last c) qs else qs) es"
| "quarantine_after qs (Finished r False # es) = quarantine_after (observed r qs) es"
| "quarantine_after qs (_ # es) = quarantine_after qs es"

lemma run_quarantine:
  "run_protocol p es = Some p' \<Longrightarrow> pt_quarantined p' = quarantine_after (pt_quarantined p) es"
proof (induction es arbitrary: p)
  case (Cons e es)
  from Cons.prems obtain q where q: "protocol_step p e = Some q" "run_protocol q es = Some p'"
    by (rule run_protocol_Cons)
  obtain x m where "e = Started x m \<or> (\<exists>r. e = Finished r m)" by (cases e) auto
  with q(1) Cons.IH [OF q(2)] show ?case
    by (cases m) (auto split: option.splits if_splits)
qed simp

text \<open>A change carried out finds every launcher proved masked and inactive.\<close>

lemma accepted_quarantine:
  assumes "run_protocol p (xs @ Finished r True # ys) \<noteq> None"
    and "mutation_phase (cr_command r) \<noteq> None" "\<not> cr_skipped r" "u \<in> set service_stop_order"
  shows "u \<in> set (quarantine_after (pt_quarantined p) xs)"
proof -
  from assms(1) obtain q where q: "run_protocol p xs = Some q" "protocol_step q (Finished r True) \<noteq> None"
    by (auto split: option.splits)
  from q(2) assms(2-4) have "u \<in> set (pt_quarantined q)"
    by (auto simp: launchers_quarantined_def list_all_iff split: if_splits)
  then show ?thesis by (simp add: run_quarantine [OF q(1)])
qed

end
