(* ===== verification/RollbackTrace.thy ===== *)
theory RollbackTrace
  imports RollbackProtocol
begin

text \<open>
  How an action moves the automaton of \<open>RollbackProtocol\<close>: \<open>follows p s m Q\<close> says that the action
  \<open>m\<close>, run from session \<open>s\<close> with the automaton at \<open>p\<close>, is accepted, and that its value, the
  automaton and the session satisfy \<open>Q\<close> afterwards.  The rules, collected in \<open>follows_intros\<close>,
  follow the structure of an action; the lemmas below them treat the steps of a rollback.
\<close>

named_theorems follows_intros "how an action moves the protocol automaton"

definition follows ::
  "protocol \<Rightarrow> ('w, 'z) session_scheme \<Rightarrow> (('w, 'z) session_scheme, 'a) state
   \<Rightarrow> ('a \<Rightarrow> protocol \<Rightarrow> ('w, 'z) session_scheme \<Rightarrow> bool) \<Rightarrow> bool" where
  "follows p s m Q \<longleftrightarrow> (se_journaled s \<longrightarrow>
     (case run_state m s of (a, s') \<Rightarrow> se_journaled s' \<and>
        (\<exists>es p'. se_events s' = se_events s @ es \<and> run_protocol p es = Some p' \<and> Q a p' s')))"

lemma follows_weaken:
  "follows p s m P \<Longrightarrow> (\<And>a p' s'. P a p' s' \<Longrightarrow> Q a p' s') \<Longrightarrow> follows p s m Q"
  unfolding follows_def by fastforce

lemma follows_emits:
  assumes "emits m P" and "\<And>a es s'. P a es \<Longrightarrow> \<exists>p'. run_protocol p es = Some p' \<and> Q a p' s'"
  shows "follows p s m Q"
  using assms unfolding emits_def follows_def by fastforce

lemma follows_quiet:
  assumes "emits m (\<lambda>a es. quiet es \<and> P a)" and "\<And>a s'. P a \<Longrightarrow> Q a p s'"
  shows "follows p s m Q"
  by (rule follows_emits [OF assms(1)]) (use assms(2) quiet_run in blast)

lemma follows_silent: "silent m \<Longrightarrow> (\<And>a s'. Q a p s') \<Longrightarrow> follows p s m Q"
  by (rule follows_quiet [where P = "\<lambda>_. True"]) (simp_all add: silent_def)

lemma follows_accepted:
  assumes "\<And>s. follows protocol_start s m (\<lambda>_ _ _. True)"
  shows "emits m (\<lambda>_ es. accepted es)"
proof (rule emitsI)
  fix s :: "('a, 'b) session_scheme"
  assume "se_journaled s"
  with assms [of s] show "case run_state m s of (a, s') \<Rightarrow> se_journaled s' \<and>
      (\<exists>es. se_events s' = se_events s @ es \<and> accepted es)"
    unfolding follows_def accepted_def by (cases "run_state m s") fastforce
qed

lemma follows_give [follows_intros]: "Q a p s \<Longrightarrow> follows p s (give a) Q"
  by (simp add: follows_def)

lemma follows_asks [follows_intros]: "Q (f s) p s \<Longrightarrow> follows p s (asks f) Q"
  by (simp add: follows_def)

lemma follows_bind [follows_intros]:
  fixes m :: "(('w, 'z) session_scheme, 'a) state"
  assumes "follows p s m (\<lambda>a p' s'. follows p' s' (f a) Q)"
  shows "follows p s (State_Monad.bind m f) Q"
  unfolding follows_def
proof
  assume "se_journaled s"
  with assms obtain a s1 xs q where 1: "run_state m s = (a, s1)" "se_journaled s1"
    "se_events s1 = se_events s @ xs" "run_protocol p xs = Some q" "follows q s1 (f a) Q"
    unfolding follows_def [of p] by (cases "run_state m s") fastforce
  from 1(5,2) obtain b s2 ys p' where "run_state (f a) s1 = (b, s2)" "se_journaled s2"
    "se_events s2 = se_events s1 @ ys" "run_protocol q ys = Some p'" "Q b p' s2"
    unfolding follows_def by (cases "run_state (f a) s1") fastforce
  with 1 show "case run_state (State_Monad.bind m f) s of (b, s') \<Rightarrow> se_journaled s' \<and>
      (\<exists>es p'. se_events s' = se_events s @ es \<and> run_protocol p es = Some p' \<and> Q b p' s')"
    by simp
qed

lemma follows_then:
  assumes "follows p s m P" and "\<And>a p' s'. P a p' s' \<Longrightarrow> follows p' s' (f a) Q"
  shows "follows p s (State_Monad.bind m f) Q"
  by (rule follows_bind) (rule follows_weaken [OF assms])

lemma follows_cases [follows_intros]:
  "(b \<Longrightarrow> follows p s m Q) \<Longrightarrow> (\<not> b \<Longrightarrow> follows p s n Q) \<Longrightarrow> follows p s (if b then m else n) Q"
  "follows p s (f x) Q \<Longrightarrow> follows p s (Let x f) Q"
  "(y = None \<Longrightarrow> follows p s m Q) \<Longrightarrow> (\<And>a. y = Some a \<Longrightarrow> follows p s (g a) Q)
   \<Longrightarrow> follows p s (case y of None \<Rightarrow> m | Some a \<Rightarrow> g a) Q"
  "(\<And>e. z = Inl e \<Longrightarrow> follows p s (h e) Q) \<Longrightarrow> (\<And>a. z = Inr a \<Longrightarrow> follows p s (k a) Q)
   \<Longrightarrow> follows p s (case z of Inl e \<Rightarrow> h e | Inr a \<Rightarrow> k a) Q"
  "(\<And>a b. c = (a, b) \<Longrightarrow> follows p s (l a b) Q) \<Longrightarrow> follows p s (case c of (a, b) \<Rightarrow> l a b) Q"
  by (auto split: option.splits sum.splits prod.splits)

text \<open>A stage goes on, or ends the function.\<close>

lemma follows_proceed:
  assumes "follows p s m P"
    and "\<And>a p' s'. P (Go a) p' s' \<Longrightarrow> follows p' s' (f a) Q"
    and "\<And>rs p' s'. P (Return rs) p' s' \<Longrightarrow> Q (Return rs) p' s'"
    and "\<And>e p' s'. P (Raise e) p' s' \<Longrightarrow> Q (Raise e) p' s'"
  shows "follows p s (proceed m f) Q"
  unfolding proceed_def
proof (rule follows_then [OF assms(1)])
  fix r p' s'
  assume "P r p' s'"
  then show "follows p' s' (case r of Go a \<Rightarrow> f a | Return results \<Rightarrow> give (Return results)
      | Raise e \<Rightarrow> give (Raise e)) Q"
    using assms(2-4) by (cases r) (auto intro: follows_intros)
qed

section \<open>One command\<close>

lemma dry_not_failed [simp]: "result_of_run R True c r \<Longrightarrow> \<not> ru_apply R \<Longrightarrow> \<not> failed r"
  by (simp add: result_of_run_def failed_def)

text \<open>A change of packages, modules or MIG.\<close>

definition change_allowed :: "('w, 'r) runner_scheme \<Rightarrow> rollback_phase \<Rightarrow> protocol \<Rightarrow> bool" where
  "change_allowed R k p \<longleftrightarrow>
     pt_failed p = None \<and> pt_phase p \<le> k \<and> (ru_apply R \<longrightarrow> launchers_quarantined p)"

definition after_change :: "rollback_phase \<Rightarrow> string list \<Rightarrow> bool \<Rightarrow> protocol \<Rightarrow> protocol" where
  "after_change k c bad p = p\<lparr>pt_phase := k, pt_failed := if bad then Some c else None\<rparr>"

lemma change_run:
  assumes "mutation_phase c = Some k" "change_allowed R k p" "result_of_run R True c r"
  shows "run_protocol p [Started c True, Finished r True] = Some (after_change k c (failed r) p)"
  using assms
  by (auto simp: change_allowed_def may_follow_def result_of_run_def after_change_def
      launchers_quarantined_def not_less)

lemma follows_run_command:
  assumes "mutation_phase c = Some k" "change_allowed R k p"
    and "\<And>e q s'. Q (Inl e) q s'"
    and "\<And>r s'. Q (Inr r) (after_change k c (failed r) p) s'"
  shows "follows p s (run_command R True True None c) Q"
proof (rule follows_emits)
  show "emits (run_command R True True None c)
      (\<lambda>a es. case a of Inl e \<Rightarrow> es = [Started c True]
        | Inr r \<Rightarrow> result_of_run R True c r \<and> es = [Started c True, Finished r True])"
    unfolding run_command_def run_within_def
    by (cases c) (auto intro!: emits_intros simp: result_of_run_def)
next
  fix a :: "runner_error + command_result" and es s'
  assume *: "case a of Inl e \<Rightarrow> es = [Started c True]
    | Inr r \<Rightarrow> result_of_run R True c r \<and> es = [Started c True, Finished r True]"
  show "\<exists>p'. run_protocol p es = Some p' \<and> Q a p' s'"
  proof (cases a)
    case (Inl e)
    with * assms(1,2) have "run_protocol p es \<noteq> None"
      by (auto simp: change_allowed_def may_follow_def not_less)
    with Inl assms(3) show ?thesis by blast
  next
    case (Inr r)
    with * have "es = [Started c True, Finished r True]" "result_of_run R True c r" by simp_all
    with change_run [OF assms(1,2)] Inr assms(4) show ?thesis by metis
  qed
qed

text \<open>A change of a launcher.\<close>

definition after_launcher :: "string list \<Rightarrow> bool \<Rightarrow> protocol \<Rightarrow> protocol" where
  "after_launcher c bad p =
     p\<lparr>pt_quarantined := if releases c then removeAll (last c) (pt_quarantined p) else pt_quarantined p,
       pt_failed := if bad then Some c else None\<rparr>"

lemma follows_systemctl:
  assumes "pt_failed p = None"
    and "\<And>r s'. (\<not> ru_apply R \<Longrightarrow> \<not> failed r)
      \<Longrightarrow> Q r (after_launcher (''systemctl'' # verbs @ [u]) (failed r) p) s'"
  shows "follows p s (systemctl R verbs u) Q"
  unfolding systemctl_def
proof (rule follows_emits [where P = "\<lambda>r es. result_of_run R True (''systemctl'' # verbs @ [u]) r
    \<and> es = [Started (''systemctl'' # verbs @ [u]) True, Finished r True]"])
  show "emits (run_known R True ''systemctl'' (verbs @ [u])) (\<lambda>r es.
      result_of_run R True (''systemctl'' # verbs @ [u]) r
      \<and> es = [Started (''systemctl'' # verbs @ [u]) True, Finished r True])"
    by (intro emits_intros) simp
next
  fix r es s'
  let ?c = "''systemctl'' # verbs @ [u]"
  assume *: "result_of_run R True ?c r \<and> es = [Started ?c True, Finished r True]"
  then have "run_protocol p es = Some (after_launcher ?c (failed r) p)"
    using assms(1) by (auto simp: may_follow_def mutation_phase_def result_of_run_def after_launcher_def)
  with * assms(2) dry_not_failed show "\<exists>p'. run_protocol p es = Some p' \<and> Q r p' s'" by blast
qed

text \<open>An observation of a unit.\<close>

definition unit_query_command :: "string \<Rightarrow> string list" where
  "unit_query_command u =
     [''systemctl'', ''show'', ''--no-pager'', ''--property=Id'', ''--property=LoadState'',
      ''--property=ActiveState'', ''--property=UnitFileState'', u]"

lemma emits_observe:
  "emits (observe_service_state R u) (\<lambda>a es. snd a = judge_unit_state (fst a) u
     \<and> cr_command (fst a) = unit_query_command u
     \<and> es = [Started (unit_query_command u) False, Finished (fst a) False])"
  unfolding observe_service_state_def unit_query_command_def
  by (intro emits_intros) (simp add: result_of_run_def)

definition after_observation :: "string \<Rightarrow> bool \<Rightarrow> protocol \<Rightarrow> protocol" where
  "after_observation u proved p = p\<lparr>pt_quarantined :=
     if proved then List.insert u (pt_quarantined p) else removeAll u (pt_quarantined p)\<rparr>"

lemma follows_observe:
  assumes "\<And>r s'. Q (r, judge_unit_state r u)
    (after_observation u (proves_quarantine r (judge_unit_state r u)) p) s'"
  shows "follows p s (observe_service_state R u) Q"
proof (rule follows_emits [OF emits_observe])
  fix a es s'
  assume *: "snd a = judge_unit_state (fst a) u \<and> cr_command (fst a) = unit_query_command u
    \<and> es = [Started (unit_query_command u) False, Finished (fst a) False]"
  then have "run_protocol p es
      = Some (after_observation u (proves_quarantine (fst a) (judge_unit_state (fst a) u)) p)"
    by (simp add: observed_def unit_query_def unit_query_command_def after_observation_def)
  with * assms [of "fst a" s'] show "\<exists>p'. run_protocol p es = Some p' \<and> Q a p' s'"
    by (metis prod.collapse)
qed

section \<open>Single events and the world\<close>

lemma follows_started:
  assumes "case protocol_step p (Started c m) of None \<Rightarrow> False
    | Some q \<Rightarrow> (\<forall>s'. se_world s' = se_world s \<longrightarrow> Q () q s')"
  shows "follows p s (record_external_start c m) Q"
  unfolding follows_def record_external_start_def using assms
  by (auto intro!: exI [of _ "[Started c m]"] simp del: protocol_step.simps split: option.splits)

lemma follows_finished:
  assumes "case protocol_step p (Finished r m) of None \<Rightarrow> False
    | Some q \<Rightarrow> (\<forall>s'. se_world s' = se_world s \<longrightarrow> Q () q s')"
  shows "follows p s (record_external_result r m) Q"
  unfolding follows_def record_external_result_def Let_def using assms
  by (auto intro!: exI [of _ "[Finished r m]"] simp del: protocol_step.simps split: option.splits)

lemma follows_on_world: "(\<And>a s'. Q a p s') \<Longrightarrow> follows p s (on_world f) Q"
  by (simp add: follows_def split: prod.splits)

text \<open>Actions that look at the world and leave it as it is.\<close>

named_theorems still_intros "silent actions that leave the world as it is"

definition still :: "(('w, 'z) session_scheme, 'a) state \<Rightarrow> bool" where
  "still m \<longleftrightarrow> silent m \<and> (\<forall>s. se_world (snd (run_state m s)) = se_world s)"

lemma still_bind [still_intros]: "still m \<Longrightarrow> (\<And>a. still (f a)) \<Longrightarrow> still (State_Monad.bind m f)"
  unfolding still_def by (auto intro: silent_bind split: prod.splits) (metis snd_conv)

lemma still_asks_then:
  fixes g :: "'b \<Rightarrow> (('w, 'z) session_scheme, 'a) state"
  assumes "\<And>s. still (g (f s))"
  shows "still (State_Monad.bind (asks f) g)"
proof -
  have run: "run_state (State_Monad.bind (asks f) g) s = run_state (g (f s)) s" for s
    by simp
  have "silent (State_Monad.bind (asks f) g)"
    unfolding silent_def
  proof (rule emitsI)
    fix s :: "('w, 'z) session_scheme"
    assume "se_journaled s"
    moreover have "emits (g (f s)) (\<lambda>_ es. quiet es)"
      using assms [of s] unfolding still_def silent_def by (rule conjunct1)
    ultimately show "case run_state (State_Monad.bind (asks f) g) s of (a, s') \<Rightarrow>
        se_journaled s' \<and> (\<exists>es. se_events s' = se_events s @ es \<and> quiet es)"
      unfolding run emits_def by (elim allE impE)
  qed
  moreover have "se_world (snd (run_state (g (f s)) s)) = se_world s" for s
    using assms [of s] unfolding still_def by (elim conjE allE)
  ultimately show ?thesis by (simp add: still_def)
qed

lemma record_keeps_world [simp]:
  "se_world (snd (run_state (record_external_start c m) s)) = se_world s"
  "se_world (snd (run_state (record_external_result r m) s)) = se_world s"
  by (simp_all add: record_external_start_def record_external_result_def Let_def)

lemma still_basic [still_intros]:
  "still (give a)" "still (asks f)" "still (record_external_start c False)"
  unfolding still_def by (auto intro: quiet_intros)

lemma still_result [still_intros]:
  "\<not> unit_query (cr_command r) \<Longrightarrow> still (record_external_result r False)"
  unfolding still_def by (auto intro: quiet_intros)

lemma still_cases [still_intros]:
  "still m \<Longrightarrow> still n \<Longrightarrow> still (if b then m else n)"
  "still (f x) \<Longrightarrow> still (Let x f)"
  "still m \<Longrightarrow> (\<And>a. y = Some a \<Longrightarrow> still (g a)) \<Longrightarrow> still (case y of None \<Rightarrow> m | Some a \<Rightarrow> g a)"
  "(\<And>a b. still (l a b)) \<Longrightarrow> still (case c of (a, b) \<Rightarrow> l a b)"
  by (simp_all split: option.splits prod.splits)

lemma follows_still:
  assumes "still m" and "\<And>a s'. se_world s' = se_world s \<Longrightarrow> Q a p s'"
  shows "follows p s m Q"
  unfolding follows_def
proof
  assume j: "se_journaled s"
  obtain a s' where run: "run_state m s = (a, s')" by (cases "run_state m s")
  from assms(1) have "silent m" "se_world s' = se_world s"
    using run unfolding still_def by (metis snd_conv)+
  moreover from this(1) j run obtain es where "se_journaled s'" "se_events s' = se_events s @ es" "quiet es"
    unfolding silent_def by (rule emitsD)
  ultimately show "case run_state m s of (a, s') \<Rightarrow> se_journaled s' \<and>
      (\<exists>es p'. se_events s' = se_events s @ es \<and> run_protocol p es = Some p' \<and> Q a p' s')"
    using run assms(2) quiet_run by auto
qed

end
