(* ===== verification/RollbackSteps.thy ===== *)
theory RollbackSteps
  imports RollbackTrace
begin

text \<open>
  The stages of \<open>apply_rollback\<close> against the protocol: the quarantine of the launchers, the changes
  of packages, files, modules and MIG, and the steps that give the launchers back.
\<close>

section \<open>The launchers' checks\<close>

interpretation launcher: trust_check "trust_launcher H u active" fst "\<lambda>r. snd (snd r)" for H u active
proof
  show "emits (trust_launcher H u active) (\<lambda>r es. sound_verdict (fst r) (snd (snd r)) es)"
    unfolding trust_launcher_def
    by (intro emits_if emits_then [OF socket_identity.sound] emits_then [OF service_identity.sound]
        emits_then [OF service_unit.sound]) (auto intro!: emits_intros)
qed

interpretation launcher_again: trust_check "retrust_launcher H u identity" fst snd for H u identity
proof
  have "emits (identity_failure u) (\<lambda>r es. sound_verdict (fst r) (snd r) es)"
    unfolding identity_failure_def Let_def
    by (intro emits_intros) (simp add: sound_verdict_def failed_def unit_query_def)
  then show "emits (retrust_launcher H u identity) (\<lambda>r es. sound_verdict (fst r) (snd r) es)"
    unfolding retrust_launcher_def
    using socket_again.sound process_again.sound
    by (auto split: option.splits launcher_identity.splits)
qed

section \<open>Quarantine\<close>

text \<open>What holds after a quarantine whose results have no failure.\<close>

definition quarantine_done :: "string \<Rightarrow> protocol \<Rightarrow> command_result list \<Rightarrow> protocol \<Rightarrow> bool" where
  "quarantine_done u p results p' \<longleftrightarrow> list_ex failed results
     \<or> (pt_failed p' = None \<and> pt_phase p' = pt_phase p
        \<and> set (pt_quarantined p') = insert u (set (pt_quarantined p)))"

lemma after_observation_simps [simp]:
  "pt_failed (after_observation u proved p) = pt_failed p"
  "pt_phase (after_observation u proved p) = pt_phase p"
  "set (pt_quarantined (after_observation u proved p))
   = (if proved then insert u (set (pt_quarantined p)) else set (pt_quarantined p) - {u})"
  by (simp_all add: after_observation_def)

lemma after_launcher_simps [simp]:
  "pt_failed (after_launcher c bad p) = (if bad then Some c else None)"
  "pt_phase (after_launcher c bad p) = pt_phase p"
  "set (pt_quarantined (after_launcher c bad p))
   = (if releases c then set (pt_quarantined p) - {last c} else set (pt_quarantined p))"
  by (simp_all add: after_launcher_def)

lemma no_release [simp]:
  "\<not> releases [''systemctl'', ''mask'', u]" "\<not> releases [''systemctl'', ''stop'', u]"
  by (simp_all add: releases_def)

lemma silent_failures [quiet_intros]:
  "silent (quarantine_failure u text)"
  unfolding quarantine_failure_def by (intro quiet_intros) (simp add: unit_query_def)

lemma follows_failure:
  assumes "\<And>r s'. failed r \<Longrightarrow> Q r p s'"
  shows "follows p s (quarantine_failure u text) Q"
proof (rule follows_quiet [where P = failed])
  show "emits (quarantine_failure u text) (\<lambda>r es. quiet es \<and> failed r)"
    unfolding quarantine_failure_def by (intro emits_intros) (simp add: failed_def unit_query_def)
qed (rule assms)

lemma follows_conclude:
  assumes "Q = (\<lambda>rs p' s'. quarantine_done u p0 rs p')"
    and "proves_quarantine r x \<Longrightarrow> quarantine_done u p0 results p"
  shows "follows p s (conclude_quarantine u results r x) Q"
  unfolding conclude_quarantine_def assms(1)
  by (intro follows_intros follows_failure) (use assms(2) in \<open>auto simp: quarantine_done_def\<close>)

lemma follows_stop_masked:
  assumes "pt_failed p = None" "pt_phase p = pt_phase p0" "set (pt_quarantined p) \<union> {u} = set (pt_quarantined p0) \<union> {u}"
  shows "follows p s (stop_masked H u identity results) (\<lambda>rs p' s'. quarantine_done u p0 rs p')"
  unfolding stop_masked_def
  apply (intro follows_bind follows_quiet [OF launcher_again.gate] follows_intros)
  subgoal by (auto simp: quarantine_done_def)
  subgoal
    apply (intro follows_systemctl follows_intros)
    subgoal using assms(1) .
    subgoal by (auto simp: quarantine_done_def)
    subgoal
      apply (intro follows_observe follows_intros follows_conclude)
       apply (rule refl)
      using assms apply (auto simp: quarantine_done_def)
      done
    done
  done

lemma follows_mask_trusted:
  assumes "pt_failed p = None" "pt_phase p = pt_phase p0" "set (pt_quarantined p) \<union> {u} = set (pt_quarantined p0) \<union> {u}"
  shows "follows p s (mask_trusted H u identity results) (\<lambda>rs p' s'. quarantine_done u p0 rs p')"
  unfolding mask_trusted_def
  apply (intro follows_bind follows_systemctl follows_intros)
  subgoal using assms(1) .
  subgoal by (auto simp: quarantine_done_def)
  subgoal
    apply (intro follows_bind follows_observe follows_intros follows_failure follows_conclude
        follows_stop_masked; (rule refl)?)
    using assms apply (auto simp: quarantine_done_def proves_quarantine_def)
    done
  done

lemma follows_quarantine_service:
  assumes "pt_failed p = None"
  shows "follows p s (quarantine_service H u) (\<lambda>rs p' s'. quarantine_done u p rs p')"
  unfolding quarantine_service_def
  apply (intro follows_bind follows_observe follows_intros follows_failure)
  subgoal by (auto simp: quarantine_done_def)
  subgoal
    apply (intro follows_bind follows_quiet [OF launcher.gate] follows_intros)
    subgoal by (auto simp: quarantine_done_def)
    subgoal by (rule follows_mask_trusted) (use assms in auto)
    done
  done

text \<open>After the launchers: nothing has failed, the phase is the same, and none was released.\<close>

definition quiesced :: "('w, 'r) runner_scheme \<Rightarrow> string list \<Rightarrow> protocol \<Rightarrow> protocol \<Rightarrow> bool" where
  "quiesced R units p p' \<longleftrightarrow> pt_failed p' = None \<and> pt_phase p' = pt_phase p
     \<and> (ru_apply R \<longrightarrow> set units \<union> set (pt_quarantined p) \<subseteq> set (pt_quarantined p'))"

definition goes_on :: "'a flow \<Rightarrow> bool" where
  "goes_on r \<longleftrightarrow> (case r of Go _ \<Rightarrow> True | _ \<Rightarrow> False)"

lemma goes_on_simps [simp]: "goes_on (Go a)" "\<not> goes_on (Return rs)" "\<not> goes_on (Raise e)"
  by (simp_all add: goes_on_def)

lemma follows_proceed_go:
  assumes "follows p s m (\<lambda>r p' s'. goes_on r \<longrightarrow> P p')"
    and "\<And>a p' s'. P p' \<Longrightarrow> follows p' s' (f a) (\<lambda>r p' s'. goes_on r \<longrightarrow> Q p')"
  shows "follows p s (proceed m f) (\<lambda>r p' s'. goes_on r \<longrightarrow> Q p')"
  by (rule follows_proceed [OF assms(1)]) (simp_all add: assms(2))

lemma follows_quiesce_unit:
  assumes "pt_failed p = None"
  shows "follows p s (quiesce_unit H u us results) (\<lambda>r p' s'. goes_on r \<longrightarrow> quiesced H [u] p p')"
  unfolding quiesce_unit_def
proof (rule follows_cases(1))
  assume dry: "\<not> ru_apply H"
  then show "follows p s (State_Monad.bind (dry_stop H u (us_file_state (unit_of us u))) (\<lambda>stopped.
      if list_ex failed (take 1 (rev (results @ stopped))) then give (Return (results @ stopped))
      else State_Monad.bind (systemctl H [''mask'', ''--now''] u) (\<lambda>masked.
        give (if failed masked then Return (results @ stopped @ [masked])
              else Go (note_masked u us, results @ stopped @ [masked])))))
      (\<lambda>r p' s'. goes_on r \<longrightarrow> quiesced H [u] p p')"
    unfolding dry_stop_def
    by (intro follows_bind follows_systemctl follows_intros) (auto simp: assms quiesced_def dry)
next
  assume "\<not> \<not> ru_apply H"
  show "follows p s (State_Monad.bind (quarantine_service H u) (\<lambda>quarantined.
      proceed (extend_or_return results quarantined) (\<lambda>all. give (Go (note_masked u us, all)))))
      (\<lambda>r p' s'. goes_on r \<longrightarrow> quiesced H [u] p p')"
    apply (rule follows_then [OF follows_quarantine_service [OF assms]])
    unfolding extend_or_return_def proceed_def
    by (intro follows_intros) (auto simp: quarantine_done_def quiesced_def intro!: follows_intros)
qed

lemma follows_quiesce_units:
  assumes "pt_failed p = None"
  shows "follows p s (quiesce_units H units us results) (\<lambda>r p' s'. goes_on r \<longrightarrow> quiesced H units p p')"
  using assms
proof (induction units arbitrary: p s us results)
  case Nil
  then show ?case by (auto simp: quiesced_def intro: follows_intros)
next
  case (Cons u units)
  show ?case
    unfolding quiesce_units.simps
    apply (rule follows_proceed_go [OF follows_quiesce_unit [OF Cons.prems]])
    apply (intro follows_intros)
    apply (rule follows_weaken [OF Cons.IH])
     apply (auto simp: quiesced_def)
    done
qed

section \<open>Packages\<close>

definition all_in_phase :: "rollback_phase \<Rightarrow> string list list \<Rightarrow> bool" where
  "all_in_phase k cs \<longleftrightarrow> list_all (\<lambda>c. mutation_phase c = Some k) cs"

lemma all_in_phase_simps [simp]:
  "all_in_phase k []" "all_in_phase k (c # cs) \<longleftrightarrow> mutation_phase c = Some k \<and> all_in_phase k cs"
  "all_in_phase k (xs @ ys) \<longleftrightarrow> all_in_phase k xs \<and> all_in_phase k ys"
  by (simp_all add: all_in_phase_def)

lemma mutation_phase_package:
  "mutation_phase (p # args) = Some Packages
   \<longleftrightarrow> p \<notin> set [''systemctl'', ''restore-file'', ''modprobe'', ''nvidia-smi'']"
  by (simp add: mutation_phase_def)

lemma dnf_commands_phase:
  assumes "dnf_rollback_commands script m installed payloads removals exact installs expected = Inr cs"
    and "m = ''dnf'' \<or> m = ''yum''"
  shows "all_in_phase Packages cs"
proof -
  have "remove_commands (Some m) removals exact = Inr xs \<Longrightarrow> all_in_phase Packages xs" for xs
    using assms(2) by (auto simp: remove_commands_def mutation_phase_package split: if_splits)
  with assms show ?thesis
    by (auto simp: dnf_rollback_commands_def dnf_local_transaction_command_def Let_def bind_r_Inr_iff
        mutation_phase_package split: if_splits)
qed

lemma rollback_commands_phase:
  assumes "rollback_commands script packages pm removals exact path bundle installs expected = Inr cs"
  shows "all_in_phase Packages cs"
proof -
  from assms obtain payloads where "local_payloads (restorable_packages packages) path bundle = Inr payloads"
    by (auto simp: rollback_commands_def Let_def bind_r_Inr_iff)
  note run = assms [unfolded rollback_commands_def Let_def this bind_r_simps]
  show ?thesis
  proof (cases pm)
    case None
    with run show ?thesis by simp
  next
    case (Some m)
    consider "m = ''apt-get''" | "m = ''dnf'' \<or> m = ''yum''" | "m = ''zypper''"
      | "m \<notin> set [''apt-get'', ''dnf'', ''yum'', ''zypper'']" by fastforce
    then show ?thesis
    proof cases
      case 2
      with run Some show ?thesis by (intro dnf_commands_phase) auto
    qed (use run Some in \<open>auto simp: apt_install_prefix_def zypper_install_prefix_def mutation_phase_package
        split: if_splits\<close>)
  qed
qed

lemma package_commands_phase:
  "rollback_package_commands script snapshot current = Inr cs \<Longrightarrow> all_in_phase Packages cs"
  by (auto simp: rollback_package_commands_def Let_def split: option.splits dest: rollback_commands_phase)

lemma after_change_simps [simp]:
  "pt_failed (after_change k c bad p) = (if bad then Some c else None)"
  "pt_phase (after_change k c bad p) = k"
  "pt_quarantined (after_change k c bad p) = pt_quarantined p"
  by (simp_all add: after_change_def)

lemma follows_run_mutations:
  fixes s :: "('w, 'z) session_scheme"
  assumes "all_in_phase k cs" "change_allowed R k p"
  shows "follows p s (run_mutations R cs results)
    (\<lambda>r p' s'. goes_on r \<longrightarrow> change_allowed R k p' \<and> pt_quarantined p' = pt_quarantined p)"
  using assms
proof (induction cs arbitrary: p s results)
  case Nil
  then show ?case by (auto intro: follows_intros)
next
  case (Cons c cs)
  show ?case
    unfolding run_mutations.simps
  proof (rule follows_bind, rule follows_run_command [where k = k])
    fix r :: command_result and s' :: "('w, 'z) session_scheme"
    let ?p = "after_change k c (failed r) p"
    have "change_allowed R k ?p" if "\<not> failed r"
      using that Cons.prems by (simp add: change_allowed_def launchers_quarantined_def)
    then show "follows ?p s' (case Inr r of Inl e \<Rightarrow> give (Raise (RunnerRaised e))
        | Inr result \<Rightarrow> if failed result then give (Return (results @ [result]))
          else run_mutations R cs (results @ [result]))
        (\<lambda>r p' s'. goes_on r \<longrightarrow> change_allowed R k p' \<and> pt_quarantined p' = pt_quarantined p)"
      using Cons.IH [of ?p s'] Cons.prems(1) by (auto intro: follows_give)
  qed (use Cons.prems in \<open>auto intro: follows_give\<close>)
qed

section \<open>Managed files\<close>

definition restore_allowed :: "('w, 'r) file_host_scheme \<Rightarrow> file_snapshot list \<Rightarrow> 'w \<Rightarrow> protocol \<Rightarrow> bool" where
  "restore_allowed H fs w p \<longleftrightarrow> may_follow (pt_failed p) [''restore-file''] \<and> pt_phase p \<le> Files
     \<and> (ru_apply H \<longrightarrow> launchers_quarantined p \<or> list_all (managed_file_matches H w) fs)"

definition restored :: "('w, 'r) file_host_scheme \<Rightarrow> file_snapshot list \<Rightarrow> 'w \<Rightarrow> protocol
    \<Rightarrow> command_result list \<Rightarrow> protocol \<Rightarrow> 'w \<Rightarrow> bool" where
  "restored H fs w p results p' w' \<longleftrightarrow>
     may_follow (pt_failed p') [''restore-file''] \<and> pt_phase p' \<le> Files
     \<and> pt_quarantined p' = pt_quarantined p
     \<and> (\<not> list_ex failed results \<longrightarrow> pt_failed p' = pt_failed p)
     \<and> (list_all (managed_file_matches H w) fs \<longrightarrow> w' = w)"

lemma mutation_phase_restore [simp]: "mutation_phase (restore_command f) = Some Files"
  by (simp add: mutation_phase_def restore_command_def)

lemma may_follow_restore [simp]:
  "may_follow b (restore_command f) \<longleftrightarrow> may_follow b [''restore-file'']"
  by (simp add: may_follow_def mutation_phase_def restore_command_def split: option.splits)

lemma failed_restore [simp]: "may_follow (Some (restore_command f)) [''restore-file'']"
  by (simp add: may_follow_def mutation_phase_def restore_command_def)

lemma follows_write_baseline: "(\<And>a s'. Q a p s') \<Longrightarrow> follows p s (write_baseline H f) Q"
  unfolding write_baseline_def by (intro follows_intros follows_on_world) auto

lemma follows_restore_file:
  assumes "restore_allowed H [f] (se_world s) p"
  shows "follows p s (restore_managed_file H f)
    (\<lambda>r p' s'. restored H [f] (se_world s) p [r] p' (se_world s'))"
  unfolding restore_managed_file_def
  using assms
  by (intro follows_bind follows_started)
    (auto simp: restore_allowed_def restored_def failed_def launchers_quarantined_def not_less
      intro!: follows_bind follows_asks follows_cases follows_finished follows_give follows_write_baseline
      split: option.splits sum.splits)

lemma follows_restore_files:
  fixes s :: "('w, 'z) session_scheme"
  assumes "restore_allowed H fs (se_world s) p"
  shows "follows p s (restore_files H fs) (\<lambda>rs p' s'. restored H fs (se_world s) p rs p' (se_world s'))"
  using assms
proof (induction fs arbitrary: p s)
  case Nil
  then show ?case by (auto simp: restored_def restore_allowed_def intro: follows_give)
next
  case (Cons f fs)
  have first: "restore_allowed H [f] (se_world s) p"
    using Cons.prems by (auto simp: restore_allowed_def)
  show ?case
    unfolding restore_files.simps
  proof (rule follows_then [OF follows_restore_file [OF first]], rule follows_bind)
    fix r p1 and s1 :: "('w, 'z) session_scheme"
    assume 1: "restored H [f] (se_world s) p [r] p1 (se_world s1)"
    with Cons.prems have "restore_allowed H fs (se_world s1) p1"
      by (auto simp: restore_allowed_def restored_def launchers_quarantined_def)
    from Cons.IH [OF this] show "follows p1 s1 (restore_files H fs) (\<lambda>rs p' s'.
        follows p' s' (give (r # rs)) (\<lambda>rs p' s'. restored H (f # fs) (se_world s) p rs p' (se_world s')))"
      by (rule follows_weaken) (use 1 in \<open>auto simp: restored_def intro: follows_give\<close>)
  qed
qed

lemma follows_restore_stage:
  assumes "restore_allowed H (rs_managed_files snapshot) (se_world s) p"
  shows "follows p s (restore_stage H snapshot results) (\<lambda>r p' s'. goes_on r \<longrightarrow>
    pt_failed p' = pt_failed p \<and> pt_phase p' \<le> Files \<and> pt_quarantined p' = pt_quarantined p)"
proof -
  let ?fs = "sort_key restore_rank (rs_managed_files snapshot)"
  have "restore_allowed H ?fs (se_world s) p"
    using assms by (simp add: restore_allowed_def list_all_iff)
  then show ?thesis
    unfolding restore_stage_def restore_managed_files_def extend_or_return_def
    by (rule follows_then [OF follows_restore_files]) (auto simp: restored_def intro!: follows_give)
qed

section \<open>Looking again\<close>

lemma still_inspect_modules [still_intros]: "still (inspect_modules H expected)"
  unfolding inspect_modules_def
  by (intro still_intros) (simp add: inspect_command_def split: sum.splits)

lemma still_check_files [still_intros]: "still (check_files H snapshot)"
proof -
  have "managed_file_restore_precondition H w fs = Some r \<Longrightarrow> \<not> unit_query (cr_command r)" for w fs r
    by (induction fs) (auto simp: managed_files_command_def split: option.splits)
  then show ?thesis
    unfolding check_files_def
    by (intro still_bind still_asks_then still_intros) (simp add: managed_files_command_def | blast)+
qed

lemma still_current_modules: "still (current_modules H snapshot current)"
  unfolding current_modules_def proceed_def
  by (intro still_intros) (auto intro!: still_intros split: flow.splits)

text \<open>The protocol between two stages: nothing has failed, and an applied rollback that changes
  something has its launchers in quarantine.\<close>

definition between :: "('w, 'r) runner_scheme \<Rightarrow> bool \<Rightarrow> rollback_phase \<Rightarrow> protocol \<Rightarrow> bool" where
  "between R mutates k p \<longleftrightarrow> pt_failed p = None \<and> pt_phase p \<le> k
     \<and> (ru_apply R \<longrightarrow> mutates \<longrightarrow> launchers_quarantined p)"

lemma between_change: "between R True k p \<longleftrightarrow> change_allowed R k p"
  by (simp add: between_def change_allowed_def)

lemma between_later: "between R mutates k p \<Longrightarrow> k \<le> k' \<Longrightarrow> between R mutates k' p"
  by (auto simp: between_def)

lemma quiesced_between:
  "quiesced R service_stop_order p p' \<Longrightarrow> pt_phase p \<le> k \<Longrightarrow> between R True k p'"
  by (auto simp: between_def quiesced_def launchers_quarantined_def list_all_iff)

lemma follows_quiesce_first:
  assumes "pt_failed p = None" "pt_phase p \<le> k"
  shows "follows p s (if mutates then quiesce_units H service_stop_order us results
      else give (Go (us, results))) (\<lambda>r p' s'. goes_on r \<longrightarrow> between H mutates k p')"
proof (rule follows_cases(1))
  assume mutates
  then show "follows p s (quiesce_units H service_stop_order us results)
      (\<lambda>r p' s'. goes_on r \<longrightarrow> between H mutates k p')"
    by (intro follows_weaken [OF follows_quiesce_units [OF assms(1)]])
      (simp add: quiesced_between [OF _ assms(2)])
qed (use assms in \<open>auto simp: between_def intro: follows_give\<close>)

text \<open>What the second look may change of the plan.\<close>

definition replanned :: "rollback_snapshot \<Rightarrow> rollback_plan \<Rightarrow> rollback_plan \<Rightarrow> bool" where
  "replanned snapshot plan plan' \<longleftrightarrow>
     rp_commands plan' = rp_commands plan \<and> rp_module_matches plan' = rp_module_matches plan
     \<and> rp_mutates plan' = rp_mutates plan
     \<and> (rp_module_matches plan \<and> \<not> rp_unload_needed plan \<and> \<not> rp_mig_changed plan \<and> \<not> rp_mig_restore plan
        \<longrightarrow> \<not> rp_unload_needed plan' \<and> \<not> rp_mig_restore plan')"

lemma follows_second_look:
  assumes "between H (rp_mutates plan) k p"
  shows "follows p s (second_look H snapshot plan us results) (\<lambda>r p' s'.
    (case r of Go (plan', _) \<Rightarrow> replanned snapshot plan plan' \<and> between H (rp_mutates plan) k p' | _ \<Rightarrow> True))"
  unfolding second_look_def
proof (intro follows_cases)
  show "follows p s (give (Go (plan, us, results))) (\<lambda>r p' s'.
      case r of Go (plan', _) \<Rightarrow> replanned snapshot plan plan' \<and> between H (rp_mutates plan) k p' | _ \<Rightarrow> True)"
    using assms by (intro follows_give) (simp add: replanned_def)
next
  have "pt_failed p = None" "pt_phase p \<le> k"
    using assms by (simp_all add: between_def)
  note first = follows_quiesce_first [OF this]
  show "follows p s (proceed (if rp_mutates plan then quiesce_units H service_stop_order us results
      else give (Go (us, results))) (\<lambda>(us', results'). do {
        (result, names) \<leftarrow> inspect_modules H None;
        (case names of
           None \<Rightarrow> give (Return (results' @ [result]))
         | Some order \<Rightarrow>
            (let unload = order \<noteq> [] \<and> \<not> rp_module_matches plan;
                 reset = unload \<or> (rs_module_loaded snapshot \<and> \<not> rp_module_matches plan)
             in give (Go (plan\<lparr>rp_unload_order := order, rp_unload_needed := unload, rp_reset_expected := reset,
                  rp_mig_restore := rp_mig_changed plan \<or> (reset \<and> rs_mig_mode snapshot = Some ''enabled'')\<rparr>,
                us', results' @ [result]))))
      })) (\<lambda>r p' s'.
      case r of Go (plan', _) \<Rightarrow> replanned snapshot plan plan' \<and> between H (rp_mutates plan) k p' | _ \<Rightarrow> True)"
    by (rule follows_proceed [OF first])
      (auto simp: replanned_def Let_def intro!: follows_cases follows_bind follows_still [OF still_inspect_modules] follows_give)
qed

section \<open>Modules and MIG\<close>

text \<open>A stage that changes things in one phase.\<close>

definition stays :: "('w, 'r) runner_scheme \<Rightarrow> rollback_phase \<Rightarrow> 'a flow \<Rightarrow> protocol \<Rightarrow> bool" where
  "stays R k r p' \<longleftrightarrow> (goes_on r \<longrightarrow> change_allowed R k p')"

lemma stays_Go [simp]: "stays R k (Go a) p \<longleftrightarrow> change_allowed R k p"
  and stays_end [simp]: "stays R k (Return rs) p" "stays R k (Raise e) p"
  by (simp_all add: stays_def)

lemma follows_stays_proceed:
  assumes "follows p s m (\<lambda>r p' s'. stays R k r p')"
    and "\<And>a p' s'. change_allowed R k p' \<Longrightarrow> follows p' s' (f a) (\<lambda>r p' s'. stays R k r p')"
  shows "follows p s (proceed m f) (\<lambda>r p' s'. stays R k r p')"
  by (rule follows_proceed [OF assms(1)]) (simp_all add: assms(2))

lemma follows_commands:
  assumes "all_in_phase k cs" "change_allowed R k p"
  shows "follows p s (run_mutations R cs results) (\<lambda>r p' s'. stays R k r p')"
  by (rule follows_weaken [OF follows_run_mutations [OF assms]]) (simp add: stays_def)

lemma follows_stays_silent:
  assumes "silent m" "change_allowed R k p"
  shows "follows p s m (\<lambda>r p' s'. stays R k r p')"
  by (rule follows_silent [OF assms(1)]) (simp add: stays_def assms(2))

lemma follows_stays_cases:
  "(b \<Longrightarrow> follows p s m (\<lambda>r p' s'. stays R k r p')) \<Longrightarrow> (\<not> b \<Longrightarrow> follows p s n (\<lambda>r p' s'. stays R k r p'))
   \<Longrightarrow> follows p s (if b then m else n) (\<lambda>r p' s'. stays R k r p')"
  "follows p s (l (fst c) (snd c)) (\<lambda>r p' s'. stays R k r p')
   \<Longrightarrow> follows p s (case c of (a, b) \<Rightarrow> l a b) (\<lambda>r p' s'. stays R k r p')"
  by (auto split: prod.splits)

lemma modprobe_phase [simp]:
  "mutation_phase (''modprobe'' # args) = Some Modules"
  "all_in_phase Modules (map (\<lambda>m. [''modprobe'', m]) names)"
  by (simp_all add: all_in_phase_def mutation_phase_def list_all_iff)

lemma follows_module_stage:
  assumes "change_allowed H Modules p"
  shows "follows p s (module_stage H snapshot plan results) (\<lambda>r p' s'. stays H Modules r p')"
  unfolding module_stage_def
  by (intro follows_stays_proceed follows_stays_cases follows_commands follows_give)
    (simp_all add: assms)

lemma mig_phase [simp]: "mutation_phase (''nvidia-smi'' # args) = Some MigLayout"
  by (simp add: mutation_phase_def)

lemma silent_mig_observation [quiet_intros]: "silent (fresh_rollback_mig_observation R uuids)"
proof -
  have "silent (audit_geometries R xs)" for xs
    by (induction xs) (auto simp: audit_gpu_geometry_def intro!: quiet_intros)
  then show ?thesis
    unfolding fresh_rollback_mig_observation_def observe_rollback_mig_state_def audit_mig_geometry_def Let_def
    by (intro quiet_intros; simp?)
qed

lemma silent_refresh [quiet_intros]: "silent (refresh_rollback_mig_state R snapshot stage)"
  unfolding refresh_rollback_mig_state_def mig_failure_def
  by (intro quiet_intros; simp?)

lemma silent_refresh_stage [quiet_intros]: "silent (refresh_stage H snapshot stage view results)"
  unfolding refresh_stage_def by (intro quiet_intros; simp?)

lemma follows_destroy_stage:
  assumes "all_in_phase MigLayout cs" "change_allowed H MigLayout p"
  shows "follows p s (destroy_stage H snapshot cs view results) (\<lambda>r p' s'. stays H MigLayout r p')"
  using assms
proof (induction cs arbitrary: p s view results)
  case (Cons c cs)
  then show ?case
    unfolding destroy_stage.simps
    by (intro follows_stays_proceed follows_stays_cases follows_commands follows_stays_silent
        silent_refresh_stage Cons.IH) simp_all
qed (auto intro: follows_give)

lemma follows_mode_stage:
  assumes "change_allowed H MigLayout p"
  shows "follows p s (mode_stage H snapshot gpu view results) (\<lambda>r p' s'. stays H MigLayout r p')"
  unfolding mode_stage_def
  by (intro follows_stays_proceed follows_commands follows_stays_silent silent_refresh_stage) (simp_all add: assms)

lemma create_command_phase:
  "mig_geometry_create_command gpu geometry = Inr (Some c) \<Longrightarrow> mutation_phase c = Some MigLayout"
  by (auto simp: mig_geometry_create_command_def split: list.splits if_splits)

lemma follows_create_stage:
  assumes "change_allowed H MigLayout p"
  shows "follows p s (create_stage H snapshot gpu view results) (\<lambda>r p' s'. stays H MigLayout r p')"
  unfolding create_stage_def
  using assms
  by (intro follows_cases(3,4) follows_stays_proceed follows_stays_cases follows_commands
      follows_stays_silent silent_refresh_stage)
    (auto simp: precondition_def create_command_phase intro!: quiet_intros)

lemma follows_mig_restore_stage:
  assumes "change_allowed H MigLayout p"
  shows "follows p s (mig_restore_stage H snapshot reset view results) (\<lambda>r p' s'. stays H MigLayout r p')"
  unfolding mig_restore_stage_def
proof (rule follows_cases(1))
  show "follows p s (give (Raise MigModeMissing)) (\<lambda>r p' s'. stays H MigLayout r p')"
    by (rule follows_give) simp
next
  show "follows p s (case rs_gpu_uuids snapshot of [] \<Rightarrow> give (Raise GpuMissing)
      | gpu # _ \<Rightarrow>
          proceed
            (if \<not> reset \<and> fst view = Some ''enabled'' \<and> snd view \<noteq> []
                \<and> (rs_mig_mode snapshot = Some ''disabled'' \<or> snd view \<noteq> rs_mig_geometry snapshot)
             then destroy_stage H snapshot (mig_geometry_destroy_commands gpu) view results
             else give (Go (view, results))) (\<lambda>(view1, results1).
          proceed
            (if reset \<or> fst view1 \<noteq> rs_mig_mode snapshot then mode_stage H snapshot gpu view1 results1
             else give (Go (view1, results1))) (\<lambda>(view2, results2).
            if rs_mig_mode snapshot = Some ''enabled'' \<and> snd view2 \<noteq> rs_mig_geometry snapshot
            then create_stage H snapshot gpu view2 results2
            else give (Go results2))))
      (\<lambda>r p' s'. stays H MigLayout r p')"
  proof (cases "rs_gpu_uuids snapshot")
    case (Cons gpu rest)
    show ?thesis
      unfolding Cons list.case
      by (intro follows_stays_proceed follows_stays_cases follows_destroy_stage follows_mode_stage
          follows_create_stage follows_give)
        (simp_all add: assms mig_geometry_destroy_commands_def)
  qed (auto intro: follows_give)
qed

lemma follows_mig_stage:
  assumes "change_allowed H MigLayout p"
  shows "follows p s (mig_stage H snapshot current plan results) (\<lambda>r p' s'. stays H MigLayout r p')"
  unfolding mig_stage_def Let_def
  by (intro follows_stays_proceed follows_stays_cases follows_mig_restore_stage follows_stays_silent
      silent_refresh_stage follows_give) (simp_all add: assms)

section \<open>Giving the launchers back\<close>

lemma follows_trusted_mutation:
  assumes "\<And>r s'. snd r \<or> list_ex failed (fst r) \<Longrightarrow> Q r p s'"
  shows "follows p s (validate_launcher_mutation H u allow) Q"
proof (rule follows_quiet)
  show "emits (validate_launcher_mutation H u allow) (\<lambda>r es. quiet es \<and> (snd r \<or> list_ex failed (fst r)))"
    unfolding validate_launcher_mutation_def
    by (intro emits_if emits_then [OF socket_unit.gate] emits_then [OF service_unit.gate] emits_bind)
      (auto intro!: emits_intros emits_weaken [OF socket_unit.gate] emits_weaken [OF service_unit.gate])
qed (rule assms)

text \<open>A step for one unit either fails or leaves the protocol without a failure.\<close>

definition settled :: "command_result list \<Rightarrow> protocol \<Rightarrow> bool" where
  "settled results p \<longleftrightarrow> list_ex failed results \<or> pt_failed p = None"

lemma settled_simps [simp]:
  "settled (xs @ ys) p \<longleftrightarrow> list_ex failed xs \<or> settled ys p"
  "pt_failed p = None \<Longrightarrow> settled xs p"
  "failed x \<Longrightarrow> settled [x] p"
  "settled [r] (after_launcher c (failed r) p)"
  by (auto simp: settled_def)

lemma follows_launcher_mutation:
  assumes "pt_failed p = None"
  shows "follows p s (launcher_mutation H u allow verbs) (\<lambda>rs p' s'. settled rs p')"
  unfolding launcher_mutation_def
  apply (intro follows_bind follows_trusted_mutation follows_cases)
  subgoal by (rule follows_give) (simp add: settled_def)
  subgoal by (intro follows_bind follows_systemctl follows_give assms) auto
  done

lemma follows_unmask_launcher:
  assumes "pt_failed p = None"
  shows "follows p s (unmask_launcher H u target) (\<lambda>rs p' s'. settled rs p')"
  unfolding unmask_launcher_def
  apply (intro follows_bind follows_trusted_mutation follows_cases)
  subgoal by (rule follows_give) (simp add: settled_def)
  subgoal
    apply (intro follows_bind follows_systemctl follows_cases follows_give assms)
    apply (auto simp: settled_def intro!: follows_give follows_weaken [OF follows_launcher_mutation])
    done
  done

locale launcher_step =
  fixes step :: "string \<Rightarrow> unit_states \<Rightarrow> ('w, 'z, command_result list) action"
  assumes step_settled: "pt_failed p = None \<Longrightarrow> follows p s (step u us) (\<lambda>rs p' s'. settled rs p')"
begin

lemma pass:
  assumes "pt_failed p = None"
  shows "follows p s (unit_pass step update units us results) (\<lambda>r p' s'. goes_on r \<longrightarrow> pt_failed p' = None)"
  using assms
proof (induction units arbitrary: p s us results)
  case (Cons u units)
  show ?case
    unfolding unit_pass.simps extend_or_return_def proceed_def
    by (rule follows_then [OF step_settled [OF Cons.prems]])
      (auto simp: settled_def Cons.IH intro!: follows_bind follows_give)
qed (auto intro: follows_give)

end

interpretation prepare: launcher_step
  "\<lambda>u us. prepare_service_for_activity H u (target u) (us_file_state (unit_of us u))" for H target
  by unfold_locales
    (auto simp: prepare_service_for_activity_def unit_file_failure_def
      intro!: follows_cases follows_give follows_unmask_launcher)

interpretation activity: launcher_step "activity_step H snapshot" for H snapshot
  by unfold_locales
    (auto simp: activity_step_def restore_service_activity_def unit_file_failure_def Let_def
      intro!: follows_cases follows_give follows_launcher_mutation)

interpretation enablement: launcher_step
  "\<lambda>u us. restore_service_unit_file_state H u (target u) (us_file_state (unit_of us u))" for H target
  by unfold_locales
    (auto simp: restore_service_unit_file_state_def unit_file_failure_def
      intro!: follows_cases follows_give follows_launcher_mutation)

lemma follows_service_stage:
  assumes "pt_failed p = None"
  shows "follows p s (service_stage H snapshot enablement activity us results) (\<lambda>_ _ _. True)"
proof -
  have "follows p s (service_stage H snapshot enablement activity us results)
      (\<lambda>r p' s'. goes_on r \<longrightarrow> pt_failed p' = None)"
    unfolding service_stage_def prepare_pass_def activity_pass_def enablement_pass_def Let_def
    by (intro follows_proceed_go [where P = "\<lambda>p. pt_failed p = None"] follows_cases prepare.pass activity.pass
        enablement.pass follows_give impI assms; simp?)
  then show ?thesis by (rule follows_weaken) simp
qed

end
