(* ===== verification/PayloadChecks.thy ===== *)
theory PayloadChecks
  imports UnitChecks PreflightRollback
begin

text \<open>
  The validation of payloads and of the snapshot file and the solver gate are silent: they observe
  through the package tools and change nothing.
\<close>

lemma silent_system_call [quiet_intros]:
  "silent (refusing lead f)" "silent (escaping f)"
  unfolding refusing_def escaping_def by (intro quiet_intros)+

lemma silent_check_error [quiet_intros]:
  "(\<And>t. silent (f t)) \<Longrightarrow> (\<And>t. silent (g t)) \<Longrightarrow> silent (case e of Refused t \<Rightarrow> f t | SystemError t \<Rightarrow> g t)"
  by (cases e) simp_all

lemma silent_inspect_payload [quiet_intros]: "silent (inspect_payload R path pm)"
proof -
  have deb: "silent (inspect_deb R path)"
    unfolding inspect_deb_def by (intro quiet_intros) simp
  have rows: "silent (case x of Some [a, b, c, d] \<Rightarrow> f a b c d | _ \<Rightarrow> m)"
    if "silent m" "\<And>a b c d. silent (f a b c d)" for x m f
    using that by (auto split: option.split list.split)
  have "silent (inspect_rpm R path)"
    unfolding inspect_rpm_def by (intro quiet_intros rows) simp_all
  with deb show ?thesis unfolding inspect_payload_def by (intro quiet_intros)
qed

lemma silent_validate_entry [quiet_intros]: "silent (validate_entry H inspect fd path pm e)"
  unfolding validate_entry_def hash_payload_def by (intro quiet_intros)

lemma silent_validate_entries [quiet_intros]: "silent (validate_entries H inspect fd path pm n es)"
  by (induction es arbitrary: n) (auto intro!: quiet_intros)

lemma silent_validate_payloads [quiet_intros]:
  "silent (validate_package_payloads H inspect path bundle packages pm forward)"
  unfolding validate_package_payloads_def validate_bundle_def by (intro quiet_intros)

lemma silent_check_bundle [quiet_intros]: "silent (check_bundle H inspect lead path s)"
  unfolding check_bundle_def by (intro quiet_intros)

lemma silent_load_snapshot [quiet_intros]: "silent (load_snapshot H path private)"
  unfolding load_snapshot_def by (intro quiet_intros)

lemma silent_validate_snapshot [quiet_intros]:
  "silent (validate_snapshot_for_apply H inspect s path audit)"
  unfolding validate_snapshot_for_apply_def check_owner_def check_source_def check_host_def host_identity_def
  by (intro quiet_intros)

lemma silent_run_simulation [quiet_intros]:
  "option \<noteq> ''show'' \<Longrightarrow> silent (run_simulation R option command)"
  unfolding run_simulation_def
  by (cases command) (auto intro!: quiet_intros simp: unit_query_def)

lemma silent_native_architecture [quiet_intros]: "silent (apt_native_architecture R purpose)"
  unfolding apt_native_architecture_def by (intro quiet_intros) simp

lemma silent_manager_preflight [quiet_intros]:
  "silent (preflight_apt_rollback H s audit rs cs restored removed)"
  "silent (preflight_dnf_transaction H s audit rs cs restored removed)"
  "silent (preflight_zypper_rollback Z s audit rs cs restored removed)"
  unfolding preflight_apt_rollback_def preflight_dnf_transaction_def preflight_zypper_rollback_def Let_def
  by (intro quiet_intros; simp)+

lemma silent_retained [quiet_intros]: "silent (check_retained H s)"
  unfolding check_retained_def by (auto intro!: quiet_intros split: option.splits)

lemma silent_preflight_rollback [quiet_intros]: "silent (preflight_package_rollback H s audit)"
  unfolding preflight_package_rollback_def Let_def by (intro quiet_intros)

end
