(* ===== verification/RollbackSafety.thy ===== *)
theory RollbackSafety
  imports RollbackSteps PayloadChecks
begin

text \<open>
  Every trace of a rollback is one the protocol accepts, and what follows from it: the order of the
  changes, the stop at the first failure, and the quarantine every change relies on.
\<close>

section \<open>The gates\<close>

definition reads_only :: "protocol \<Rightarrow> protocol \<Rightarrow> bool" where
  "reads_only p p' \<longleftrightarrow> pt_failed p' = pt_failed p \<and> pt_phase p' = pt_phase p"

lemma silent_check_solver: "silent (check_solver H snapshot audit)"
  unfolding check_solver_def
  by (auto intro!: quiet_intros simp: solver_command_def split: preflight_error.split sum.split)

lemma silent_check_authority: "silent (check_authority H snapshot audit)"
  unfolding check_authority_def refuse_with_def by (intro quiet_intros)

lemma silent_proceed: "silent m \<Longrightarrow> (\<And>a. silent (f a)) \<Longrightarrow> silent (proceed m f)"
  unfolding proceed_def by (auto intro!: quiet_intros split: flow.splits)

lemma silent_initial_gates: "silent (initial_gates H snapshot current)"
  unfolding initial_gates_def refuse_with_def
  by (intro quiet_intros silent_check_authority silent_check_solver silent_proceed)

lemma follows_initial_gates: "follows p s (initial_gates H snapshot current) (\<lambda>_ p' s'. reads_only p p')"
  by (rule follows_silent [OF silent_initial_gates]) (simp add: reads_only_def)

lemma proceed_give [simp]:
  "proceed (give (Go a)) f = f a" "proceed (give (Return rs)) f = give (Return rs)"
  "proceed (give (Raise e)) f = give (Raise e)"
  by (simp_all add: proceed_def)

lemma refuse_if_give:
  "refuse_if b names text = give (if b then Return [precondition names text] else Go ())"
  by (simp add: refuse_if_def refuse_with_def)

text \<open>The gates over the snapshot and the audit only compute; the commands they pass are packages'.\<close>

lemma state_gates_give:
  "\<exists>r. state_gates H snapshot current restore = give r \<and> (\<forall>cs. r = Go cs \<longrightarrow> all_in_phase Packages cs)"
  unfolding state_gates_def refuse_if_give
  by (auto split: sum.splits dest: package_commands_phase)

lemma mig_gates_give: "\<exists>r. mig_gates snapshot plan = give r"
  unfolding mig_gates_def refuse_if_give by (auto simp del: One_nat_def)

section \<open>After the gates\<close>

lemma silent_check_payloads: "silent (check_payloads H snapshot commands results)"
  unfolding check_payloads_def conclude_payloads_def extend_or_return_def
  by (auto intro!: quiet_intros simp: payloads_command_def split: check_error.split sum.split option.split)

lemma between_change_if:
  "between R m k p \<Longrightarrow> (ru_apply R \<Longrightarrow> m) \<Longrightarrow> change_allowed R k p"
  by (auto simp: between_def change_allowed_def)

lemma change_later: "change_allowed R k p \<Longrightarrow> k \<le> k' \<Longrightarrow> change_allowed R k' p"
  by (auto simp: change_allowed_def)

lemma change_between: "change_allowed R k p \<Longrightarrow> between R m k p"
  by (auto simp: between_def change_allowed_def)

text \<open>A rollback that changes something, or that is not applied.\<close>

lemma follows_perform_changing:
  assumes "pt_failed p = None" "pt_phase p \<le> Packages" "all_in_phase Packages (rp_commands plan)"
    and apply_changes: "ru_apply H \<Longrightarrow> rp_mutates plan"
  shows "follows p s (perform_rollback H snapshot current enablement activity plan results)
    (\<lambda>r p' s'. goes_on r \<longrightarrow> True)"
proof -
  let ?I = "\<lambda>k. change_allowed H k"
  have quiesce: "follows p s (if rp_mutates plan then quiesce_units H service_stop_order us results
      else give (Go (us, results))) (\<lambda>r p' s'. goes_on r \<longrightarrow> ?I Packages p')" for us results
    by (rule follows_weaken [OF follows_quiesce_first [OF assms(1,2)]])
      (use between_change_if [OF _ apply_changes] in blast)
  have restore: "follows p s (restore_stage H snapshot results) (\<lambda>r p' s'. goes_on r \<longrightarrow> ?I Files p')"
    if "?I Packages p" for p and s :: "('a, 'c) session_scheme" and results
    using that order_trans [of _ Packages Files]
    by (intro follows_weaken [OF follows_restore_stage])
      (auto simp: restore_allowed_def change_allowed_def may_follow_def launchers_quarantined_def)
  have "?I Modules q" if "between H (rp_mutates plan) Files q" for q
    by (rule change_later [OF between_change_if [OF that apply_changes]]) simp_all
  then have look: "follows p s (second_look H snapshot plan us results)
      (\<lambda>r p' s'. goes_on r \<longrightarrow> ?I Modules p')"
    if "?I Files p" for p and s :: "('a, 'c) session_scheme" and us results
    by (intro follows_weaken [OF follows_second_look [OF change_between [OF that]]])
      (auto split: flow.splits)
  show ?thesis
    unfolding perform_rollback_def
    apply (rule follows_proceed_go [OF quiesce], rule follows_cases(5))
    apply (rule follows_proceed_go [where P = "?I Packages"], rule follows_silent [OF silent_check_payloads], simp)
    apply (rule follows_proceed_go [where P = "?I Packages"], rule follows_commands [unfolded stays_def])
    using assms(3) apply simp
     apply assumption
    apply (rule follows_proceed_go [OF restore], assumption)
    apply (rule follows_proceed_go [OF look], assumption)
    apply (rule follows_cases(5))+
    apply (rule follows_proceed_go [OF follows_module_stage [unfolded stays_def]], assumption)
    apply (rule follows_proceed_go [OF follows_mig_stage [unfolded stays_def]])
     apply (erule change_later, simp)
    apply (rule follows_weaken [OF follows_service_stage])
     apply (simp_all add: change_allowed_def)
    done
qed

text \<open>An applied rollback that has nothing to change finds every file as it was.\<close>

lemma follows_perform_unchanged:
  fixes s :: "('w, 'z) session_scheme"
  assumes p: "pt_failed p = None" "pt_phase p \<le> Packages"
    and plan: "plan = plan_rollback snapshot current commands files_changed names order"
    and files: "files_changed \<longleftrightarrow> list_ex (\<lambda>f. \<not> managed_file_matches H (se_world s) f) (rs_managed_files snapshot)"
    and same: "\<not> rp_mutates plan"
  shows "follows p s (perform_rollback H snapshot current enablement activity plan results)
    (\<lambda>r p' s'. goes_on r \<longrightarrow> True)"
proof -
  have plan_facts: "rp_commands plan = []" "rp_module_matches plan" "\<not> rp_mig_restore plan"
    "\<not> rp_mig_changed plan" "\<not> rp_unload_needed plan" "\<not> files_changed"
    using plan same by (auto simp: plan_rollback_def Let_def)
  have "list_all (managed_file_matches H (se_world s)) (rs_managed_files snapshot)"
    using plan_facts(6) files by (simp add: list_ex_iff list_all_iff)
  then have "restore_allowed H (rs_managed_files snapshot) (se_world s) p"
    using p order_trans [of "pt_phase p" Packages Files] by (simp add: restore_allowed_def may_follow_def)
  then have restore: "follows p s (restore_stage H snapshot results)
      (\<lambda>r p' s'. goes_on r \<longrightarrow> between H False Files p')" for results
    by (intro follows_weaken [OF follows_restore_stage]) (use p in \<open>auto simp: between_def\<close>)
  have module: "module_stage H snapshot plan' rs = give (Go rs)"
    and mig: "mig_stage H snapshot current plan' rs = (give (Go rs) :: ('w, 'z, command_result list flow) action)"
    if "replanned snapshot plan plan'" for plan' rs
    using that plan_facts by (simp_all add: replanned_def module_stage_def mig_stage_def Let_def)
  have look: "follows q t (second_look H snapshot plan us rs) (\<lambda>r p' s'.
      (case r of Go (plan', _) \<Rightarrow> replanned snapshot plan plan' \<and> between H False Files p' | _ \<Rightarrow> True))"
    if "between H False Files q" for q and t :: "('w, 'z) session_scheme" and us rs
    by (rule follows_weaken [OF follows_second_look [where k = Files]])
      (use that same in \<open>auto split: flow.splits\<close>)
  have short: "perform_rollback H snapshot current enablement activity plan results
      = proceed (restore_stage H snapshot results) (\<lambda>results4.
        proceed (second_look H snapshot plan (units_of_audit current) results4) (\<lambda>(plan', us', results5).
        proceed (module_stage H snapshot plan' results5) (\<lambda>results6.
        proceed (mig_stage H snapshot current plan' results6) (\<lambda>results7.
          service_stage H snapshot enablement activity us' results7))))"
    using same plan_facts(1) by (simp add: perform_rollback_def check_payloads_def)
  show ?thesis
    unfolding short
    by (rule follows_proceed_go [OF restore], rule follows_proceed [OF look], assumption)
      (auto simp: module mig between_def intro: follows_weaken [OF follows_service_stage])
qed

section \<open>The whole function\<close>

lemma follows_gated_rollback:
  fixes s :: "('w, 'z) session_scheme"
  assumes "reads_only protocol_start p"
  shows "follows p s (gated_rollback H snapshot current enablement activity results) (\<lambda>_ _ _. True)"
proof -
  obtain gates where gates: "state_gates H snapshot current (enablement \<or> activity)
      = (give gates :: ('w, 'z, string list list flow) action)"
    "\<And>cs. gates = Go cs \<Longrightarrow> all_in_phase Packages cs"
    using state_gates_give [of H snapshot current "enablement \<or> activity"] by blast
  have perform: "follows p s1 (proceed (mig_gates snapshot plan) (\<lambda>_.
      proceed (service_gates H snapshot current plan results) (\<lambda>_.
        perform_rollback H snapshot current enablement activity plan results))) (\<lambda>_ _ _. True)"
    if p: "pt_failed p = None" "pt_phase p \<le> Packages" and commands: "all_in_phase Packages commands"
      and plan: "plan = plan_rollback snapshot current commands files_changed names order"
      and files: "files_changed \<longleftrightarrow>
        list_ex (\<lambda>f. \<not> managed_file_matches H (se_world s1) f) (rs_managed_files snapshot)"
    for p and s1 :: "('w, 'z) session_scheme" and plan commands files_changed names order results
  proof -
    have "rp_commands plan = commands" by (simp add: plan plan_rollback_def Let_def)
    then have "follows p s1 (perform_rollback H snapshot current enablement activity plan results)
        (\<lambda>r p' s'. goes_on r \<longrightarrow> True)"
      using follows_perform_changing [OF p, of plan H s1 snapshot current enablement activity results]
        follows_perform_unchanged [OF p plan files, of enablement activity results] commands
      by (cases "rp_mutates plan") auto
    moreover obtain r where "mig_gates snapshot plan = (give r :: ('w, 'z, unit flow) action)"
      using mig_gates_give by blast
    ultimately show ?thesis
      by (cases r) (auto simp: service_gates_def intro: follows_give split: option.splits)
  qed
  have after_gates: "follows p s1 (do {
       files_changed \<leftarrow> asks (\<lambda>s. list_ex (\<lambda>f. \<not> managed_file_matches H (se_world s) f)
         (rs_managed_files snapshot));
       proceed (current_modules H snapshot current) (\<lambda>(names, order).
         let plan = plan_rollback snapshot current commands files_changed names order
         in proceed (mig_gates snapshot plan) (\<lambda>_.
            proceed (service_gates H snapshot current plan results) (\<lambda>_.
              perform_rollback H snapshot current enablement activity plan results)))
     }) (\<lambda>_ _ _. True)"
    if "reads_only protocol_start p" "all_in_phase Packages commands"
    for p and s1 :: "('w, 'z) session_scheme" and commands results
    using that unfolding Let_def
    by (intro follows_bind follows_asks follows_proceed [OF follows_still [OF still_current_modules,
          where Q = "\<lambda>_ p' s'. p' = p \<and> se_world s' = se_world s1"]] follows_cases(5))
      (auto intro!: perform simp: reads_only_def protocol_start_def)
  show ?thesis
    unfolding gated_rollback_def gates(1)
    by (cases gates) (auto intro: follows_give after_gates [OF assms] dest: gates(2))
qed

lemma follows_apply_rollback:
  "follows protocol_start s (apply_rollback H snapshot current enablement activity) (\<lambda>_ _ _. True)"
  unfolding apply_rollback_def
  by (rule follows_proceed [OF follows_initial_gates]) (auto intro: follows_give follows_gated_rollback)

lemma emits_gated_rollback:
  "emits (gated_rollback H snapshot current enablement activity results) (\<lambda>_ _. True)"
  by (rule emits_weaken [OF follows_accepted [OF follows_gated_rollback]]) (simp_all add: reads_only_def)


end
