(* ===== verification/Samples.thy ===== *)
theory Samples
  imports Models
begin

text \<open>
  Concrete hosts the witnesses are evaluated on: a compute host on Ubuntu 24.04 that already
  runs the default desired state, and the same host with the module unloaded and the container
  toolkit missing, with MIG enabled in the full geometry, and as an empty RHEL 8 host.
\<close>

definition ran :: "string list \<Rightarrow> command_result" where
  "ran command = command_result_of command (Some 0) ''''"

definition pin_selector :: package_policy_selector where
  "pin_selector =
     \<lparr>pps_identifier = ''nvidia-driver-pinning-580'', pps_name = ''nvidia-driver-pinning-580'',
      pps_kind = ''package'', pps_relation = None, pps_version = None, pps_repositories = []\<rparr>"

definition sample_module :: module_info where
  "sample_module =
     \<lparr>mi_loaded = True, mi_version = Some ''580.95.05'', mi_open_module = Some True,
      mi_signed = Some True, mi_devices = [''/dev/nvidia0''],
      mi_installed_version = Some ''580.95.05'', mi_installed_open_module = Some True,
      mi_installed_signed = Some True\<rparr>"

definition sample_audit :: host_audit where
  "sample_audit =
     \<lparr>ha_timestamp = ''2026-01-02T03:04:05+00:00'',
      ha_os_id = Some ''ubuntu'', ha_os_version = Some ''24.04'',
      ha_package_manager = Some ''apt-get'',
      ha_kernel = \<lparr>ki_running = ''6.8.0-60-generic'', ki_headers_installed = True,
        ki_compiler = Some ''gcc'', ki_secure_boot_enabled = Some True\<rparr>,
      ha_module = sample_module,
      ha_runtime = \<lparr>ri_docker_installed = True, ri_nvidia_container_runtime_installed = True,
        ri_docker_gpus_usable = Some True\<rparr>,
      ha_packages = [], ha_nvidia_smi = ran [''nvidia-smi''], ha_nvml = ran [''nvml''],
      ha_fabric_manager_active = None, ha_mig_mode = Some ''disabled'',
      ha_cuda_compatibility = [], ha_package_inventory_complete = True,
      ha_package_inventory_result = None,
      ha_docker_service_active = Some True, ha_docker_service_enabled = Some True,
      ha_docker_service_unit_file_state = Some ''enabled'',
      ha_docker_socket_active = Some True, ha_docker_socket_enabled = Some True,
      ha_docker_socket_unit_file_state = Some ''enabled'',
      ha_nvidia_persistenced_active = Some True, ha_nvidia_persistenced_enabled = Some True,
      ha_nvidia_persistenced_unit_file_state = Some ''enabled'',
      ha_fabric_manager_enabled = None, ha_fabric_manager_unit_file_state = None,
      ha_fabric_manager_version = None,
      ha_package_policy = \<lparr>ppi_backend = Some ''apt-get'', ppi_observable = True,
        ppi_selectors = [pin_selector], ppi_observation = None\<rparr>,
      ha_open_kernel_module_supported = Some True, ha_mig_capable = Some True,
      ha_mig_mode_pending = Some ''disabled'', ha_fabric_manager_applicable = Some False,
      ha_fabric_manager_healthy = None, ha_fabric_manager_health_result = None,
      ha_gpu_uuids = [''GPU-1''], ha_mig_geometry = [], ha_mig_device_uuids = [],
      ha_mig_geometry_complete = True, ha_mig_geometry_results = []\<rparr>"

definition drifted_audit :: host_audit where
  "drifted_audit = sample_audit
     \<lparr>ha_module := sample_module \<lparr>mi_loaded := False\<rparr>,
      ha_runtime := \<lparr>ri_docker_installed = True, ri_nvidia_container_runtime_installed = False,
        ri_docker_gpus_usable = Some False\<rparr>\<rparr>"

definition full_instance :: mig_gpu_instance where
  "full_instance =
     \<lparr>mgi_gpu_uuid = ''GPU-1'', mgi_profile = ''7g.80gb'', mgi_profile_id = 0,
      mgi_placement_start = 0, mgi_placement_size = 8,
      mgi_compute_instances = [\<lparr>mci_profile = ''7g.80gb'', mci_profile_id = 4\<rparr>]\<rparr>"

definition mig_audit :: host_audit where
  "mig_audit = sample_audit
     \<lparr>ha_mig_mode := Some ''enabled'', ha_mig_mode_pending := Some ''enabled'',
      ha_mig_geometry := [full_instance], ha_mig_device_uuids := [''MIG-1'']\<rparr>"

definition rhel_audit :: host_audit where
  "rhel_audit = sample_audit
     \<lparr>ha_os_id := Some ''rhel'', ha_os_version := Some ''8.10'',
      ha_package_manager := Some ''dnf'',
      ha_kernel := \<lparr>ki_running = ''4.18.0-553.el8_10.x86_64'', ki_headers_installed = True,
        ki_compiler = Some ''gcc'', ki_secure_boot_enabled = Some True\<rparr>,
      ha_module := \<lparr>mi_loaded = False, mi_version = None, mi_open_module = None,
        mi_signed = None, mi_devices = [], mi_installed_version = None,
        mi_installed_open_module = None, mi_installed_signed = None\<rparr>,
      ha_package_policy := \<lparr>ppi_backend = Some ''dnf'', ppi_observable = True,
        ppi_selectors = [], ppi_observation = None\<rparr>\<rparr>"

end
