(* ===== verification/RollbackSample.thy ===== *)
theory RollbackSample
  imports RollbackApply Samples
begin

text \<open>
  A host the witnesses of the rollback are evaluated on.  Its world counts the commands that were
  run and the files that were changed; every command succeeds and prints nothing.  The snapshot has
  an older driver module and no container configuration.
\<close>

definition sample_host :: "bool \<Rightarrow> nat rollback_host" where
  "sample_host apply =
     \<lparr>ru_apply = apply, ru_timeout = 30, ru_mutation_timeout = 600, ru_executable_path = ''/usr/bin'',
      ru_environ = [], ru_home = None, ru_trusted_directory = (\<lambda>d _. Some d),
      ru_which = (\<lambda>name _. Some (''/usr/bin/'' @ name)), ru_trusted_executable = (\<lambda>p _. Some p),
      ru_decode = (\<lambda>s. s),
      ru_execute = (\<lambda>_ w. (Exited 0 [] [], Suc w)),
      uh_trusted_file = (\<lambda>_ _ w. (Inl ''no such file'', w)), uh_mask_path = (\<lambda>_ _ w. (Inr (), w)),
      uh_process_stat = (\<lambda>_ w. (Inl ''no such process'', w)),
      uh_process_executable = (\<lambda>_ w. (Inl ''no such process'', w)),
      uh_process_cgroup = (\<lambda>_ w. (Inl ''no such process'', w)),
      fh_read = (\<lambda>_ _. FileText ''{}'' 420), fh_singly_linked = (\<lambda>_ _. Inr (Some True)),
      fh_write = (\<lambda>_ _ _ w. (Inr (), Suc w)), fh_unlink = (\<lambda>_ w. (Inr (), Suc w)),
      ph_open = (\<lambda>_ w. (Inr 3, w)), ph_fingerprint = (\<lambda>_ w. (Inr [], w)), ph_list = (\<lambda>_ w. (Inr [], w)),
      ph_hash = (\<lambda>_ _ w. (Inl (Refused ''no such file''), w)),
      sn_cwd = ''/'', sn_euid = 0,
      sn_read = (\<lambda>_ _ w. (ReadFailed ''no such file'', w)), sn_loads = (\<lambda>_ _. JSONDecodeError),
      sn_sha256 = (\<lambda>s. s), sn_timestamp = (\<lambda>_. True), sn_script = ''import dnf'',
      sn_owner = (\<lambda>_ w. (Inr 0, w)), sn_machine_id = (\<lambda>w. (Inl ''no such file'', w)),
      sn_node = ''node'', sn_machine = ''x86_64'',
      pf_xml = (\<lambda>_. None),
      rh_sysfs = (\<lambda>_. \<lparr>sf_modules = Inr [''nvidia''], sf_is_directory = (\<lambda>_. Inr True), sf_holders = (\<lambda>_. Inr [])\<rparr>)\<rparr>"

definition rollback_audit :: host_audit where
  "rollback_audit = sample_audit
     \<lparr>ha_docker_service_active := Some False, ha_docker_service_enabled := Some False,
      ha_docker_service_unit_file_state := Some ''not-found'',
      ha_docker_socket_active := Some False, ha_docker_socket_enabled := Some False,
      ha_docker_socket_unit_file_state := Some ''not-found'',
      ha_nvidia_persistenced_active := Some False, ha_nvidia_persistenced_enabled := Some False,
      ha_nvidia_persistenced_unit_file_state := Some ''not-found'',
      ha_fabric_manager_active := Some False, ha_fabric_manager_enabled := Some False,
      ha_fabric_manager_unit_file_state := Some ''not-found''\<rparr>"

definition sample_snapshot :: rollback_snapshot where
  "sample_snapshot =
     \<lparr>rs_path = Some ''/var/lib/nvidia-converge/op.json'', rs_packages = [],
      rs_kernel = ''6.8.0-60-generic'', rs_module_version = Some ''580.65.06'', rs_commands = [],
      rs_schema_version = ''1'', rs_created_at = [], rs_operation_id = ''op'', rs_host_id = ''host'',
      rs_os_id = Some ''ubuntu'', rs_os_version = Some ''24.04'', rs_architecture = ''x86_64'',
      rs_package_manager = Some ''apt-get'', rs_introduced_packages = [], rs_module_loaded = True,
      rs_module_names = [''nvidia''], rs_module_open_module = Some True, rs_module_signed = Some True,
      rs_module_installed_version = Some ''580.65.06'', rs_module_installed_open_module = Some True,
      rs_module_installed_signed = Some True, rs_mig_mode = Some ''disabled'',
      rs_docker_service_active = Some False, rs_docker_service_enabled = Some False,
      rs_docker_service_unit_file_state = Some ''not-found'',
      rs_docker_socket_active = Some False, rs_docker_socket_enabled = Some False,
      rs_docker_socket_unit_file_state = Some ''not-found'',
      rs_nvidia_persistenced_active = Some False, rs_nvidia_persistenced_enabled = Some False,
      rs_nvidia_persistenced_unit_file_state = Some ''not-found'',
      rs_fabric_manager_active = Some False, rs_fabric_manager_enabled = Some False,
      rs_fabric_manager_unit_file_state = Some ''not-found'',
      rs_managed_files = [\<lparr>fs_path = docker_config_path, fs_existed = False, fs_content_base64 = None,
        fs_mode = None\<rparr>],
      rs_package_payloads = Some \<lparr>ppb_directory = ''op.payloads'', ppb_packages = [],
        ppb_total_size_bytes = 0\<rparr>, rs_gpu_uuids = [''GPU-1''], rs_mig_geometry = [],
      rs_integrity_sha256 = None, rs_source_binding = None\<rparr>"

definition sample_session :: "nat session" where
  "sample_session =
     \<lparr>se_world = 0, se_events = [], se_results = [], se_scope = None, se_journaled = True\<rparr>"

end
