(* ===== verification/SnapshotSample.thy ===== *)
theory SnapshotSample
  imports RollbackSample
begin

text \<open>
  A snapshot as it is stored, and the host it belongs to: one retained package, the modules and the
  launchers as they are.  The world of the host counts the commands that were run.
\<close>

definition payload_digest :: string where "payload_digest = replicate 64 CHR ''a''"

definition stored_path :: string where
  "stored_path = ''/var/lib/nvidia-converge/snapshots/op.json''"

definition stored_payload :: package_payload where
  "stored_payload =
     \<lparr>pp_name = ''nvidia-utils'', pp_architecture = ''amd64'', pp_epoch = None, pp_version = ''580'',
      pp_format = ''deb'', pp_filename = payload_digest @ ''.deb'', pp_sha256 = payload_digest,
      pp_size_bytes = 7, pp_verification = ''apt-repository'', pp_roles = [''baseline''],
      pp_signer_ids = []\<rparr>"

definition stored_snapshot :: rollback_snapshot where
  "stored_snapshot = sample_snapshot
     \<lparr>rs_path := Some stored_path,
      rs_packages := [\<lparr>pi_name = ''nvidia-utils'', pi_version = Some ''580'', pi_manager = Some ''apt'',
        pi_installed = True, pi_architecture = Some ''amd64'', pi_epoch = None\<rparr>],
      rs_commands := [apt_install_prefix
        @ [payload_path stored_path ''op.json.payloads'' (payload_digest @ ''.deb'')]],
      rs_schema_version := ''2.6'', rs_created_at := ''2026-01-02T03:04:05+00:00'',
      rs_operation_id := replicate 32 CHR ''0'', rs_host_id := ''hostname-sha256:'' @ payload_digest,
      rs_module_version := Some ''580.95.05'', rs_module_installed_version := Some ''580.95.05'',
      rs_package_payloads := Some \<lparr>ppb_directory = ''op.json.payloads'', ppb_packages = [stored_payload],
        ppb_total_size_bytes = 7\<rparr>,
      rs_gpu_uuids := [''GPU-00000000-0000-0000-0000-000000000000''],
      rs_integrity_sha256 := Some payload_digest,
      rs_source_binding := Some \<lparr>sb_path = stored_path, sb_content_sha256 = payload_digest,
        sb_file_metadata = [1], sb_parent_metadata = [2]\<rparr>\<rparr>"

definition stored_audit :: host_audit where
  "stored_audit = rollback_audit
     \<lparr>ha_packages := rs_packages stored_snapshot, ha_gpu_uuids := rs_gpu_uuids stored_snapshot\<rparr>"

text \<open>Every file has the same digest there, and \<open>dpkg-deb\<close> shows the retained package.\<close>

definition stored_host :: "nat rollback_host" where
  "stored_host = (sample_host True)
     \<lparr>ru_execute := (\<lambda>_ w. (Exited 0 [''nvidia-utils'' @ [CHR 0x09] @ ''580'' @ [CHR 0x09] @ ''amd64''] [], Suc w)),
      fh_read := (\<lambda>_ _. FileMissing),
      ph_list := (\<lambda>_ w. (Inr [payload_digest @ ''.deb''], w)),
      ph_hash := (\<lambda>_ _ w. (Inr (payload_digest, 7), w)),
      sn_read := (\<lambda>_ _ w. (ReadText [] 384 [1] [2], w)),
      sn_loads := (\<lambda>_ _. Loaded (JObj (snapshot_fields stored_snapshot))),
      sn_sha256 := (\<lambda>_. payload_digest)\<rparr>"

section \<open>The stored snapshot passes the gates\<close>

lemma stored_host_fields [simp]:
  "ru_apply stored_host" "sn_cwd stored_host = ''/''" "sn_euid stored_host = 0" "sn_node stored_host = ''node''"
  "sn_machine stored_host = ''x86_64''" "sn_script stored_host = ''import dnf''"
  "sn_read stored_host = (\<lambda>_ _ w. (ReadText [] 384 [1] [2], w))"
  "sn_loads stored_host = (\<lambda>_ _. Loaded (JObj (snapshot_fields stored_snapshot)))"
  "sn_sha256 stored_host = (\<lambda>_. payload_digest)" "sn_timestamp stored_host = (\<lambda>_. True)"
  "sn_owner stored_host = (\<lambda>_ w. (Inr 0, w))" "sn_machine_id stored_host = (\<lambda>w. (Inl ''no such file'', w))"
  "ph_open stored_host = (\<lambda>_ w. (Inr 3, w))" "ph_fingerprint stored_host = (\<lambda>_ w. (Inr [], w))"
  "ph_list stored_host = (\<lambda>_ w. (Inr [payload_digest @ ''.deb''], w))"
  "ph_hash stored_host = (\<lambda>_ _ w. (Inr (payload_digest, 7), w))"
  by (simp_all add: stored_host_def sample_host_def)

abbreviation stored_bundle :: package_payload_bundle where
  "stored_bundle \<equiv> \<lparr>ppb_directory = ''op.json.payloads'', ppb_packages = [stored_payload], ppb_total_size_bytes = 7\<rparr>"

lemma stored_checks:
  "path_text stored_path = stored_path" "path_text (abspath ''/'' stored_path) = stored_path"
  "path_parent stored_path = snapshot_dir" "path_is_absolute stored_path" "stored_path \<noteq> []"
  "normalized_absolute stored_path = Inr stored_path"
  "check_manifest stored_path stored_bundle (rs_packages stored_snapshot) ''apt-get'' None = Inr ()"
  "valid_entry ''apt-get'' stored_payload"
  "rollback_package_commands ''import dnf'' stored_snapshot (Some stored_audit) = Inr []"
  by code_simp+

lemma stored_snapshot_fields [simp]:
  "rs_path stored_snapshot = Some stored_path" "rs_package_payloads stored_snapshot = Some stored_bundle"
  "rs_package_manager stored_snapshot = Some ''apt-get''" "rs_packages stored_snapshot \<noteq> []"
  by (simp_all add: stored_snapshot_def sample_snapshot_def)

text \<open>A run of the package tool in any session\<close>

definition shown_package :: string where
  "shown_package = ''nvidia-utils'' @ [CHR 0x09] @ ''580'' @ [CHR 0x09] @ ''amd64''"

lemma stored_run:
  "resolve_executable stored_host ''dpkg-deb'' w = Some ''/usr/bin/dpkg-deb''"
  "capture stored_host [shown_package] = shown_package" "capture stored_host [] = []"
  "single_row 3 shown_package = Some [''nvidia-utils'', ''580'', ''amd64'']"
  by code_simp+

lemma stored_execute: "ru_execute stored_host = (\<lambda>_ w. (Exited 0 [shown_package] [], Suc w))"
  by (simp add: stored_host_def shown_package_def)

lemma stored_inspect:
  "fst (run_state (inspect_payload stored_host path ''apt-get'') s)
    = Inr ((''nvidia-utils'', ''amd64'', None, ''580''), [])"
  by (simp add: inspect_payload_def inspect_deb_def run_known_def run_program_def stored_run stored_execute
      outcome_result_def split: prod.split)

lemma run_and_then:
  "fst (run_state m s) = Inr a \<Longrightarrow> run_state (and_then m f) s = run_state (f a) (snd (run_state m s))"
  by (cases "run_state m s") (simp add: and_then_def)

lemma run_ensure [simp]: "run_state (ensure b e) s = (if b then Inr () else Inl e, s)"
  by (simp add: ensure_def)

lemma run_calls [simp]:
  "run_state (refusing lead f) s = (case f (se_world s) of
     (Inl e, w) \<Rightarrow> (Inl (Refused (lead @ e)), s\<lparr>se_world := w\<rparr>) | (Inr a, w) \<Rightarrow> (Inr a, s\<lparr>se_world := w\<rparr>))"
  "run_state (escaping f) s = (case f (se_world s) of
     (Inl e, w) \<Rightarrow> (Inl (SystemError e), s\<lparr>se_world := w\<rparr>) | (Inr a, w) \<Rightarrow> (Inr a, s\<lparr>se_world := w\<rparr>))"
  by (auto simp: refusing_def escaping_def split: prod.split sum.split)

lemma stored_entry: "fst (run_state (validate_entry stored_host inspect 3 path ''apt-get'' stored_payload) s) = Inr 7"
proof -
  have "entry_identity stored_payload = (''nvidia-utils'', ''amd64'', None, ''580'')"
    "pp_sha256 stored_payload = payload_digest" "pp_size_bytes stored_payload = 7" "pp_signer_ids stored_payload = []"
    by (simp_all add: entry_identity_def stored_payload_def)
  then show ?thesis
    by (simp add: validate_entry_def run_and_then hash_payload_def stored_checks stored_inspect)
qed

lemma stored_validate:
  "\<exists>paths. fst (run_state (validate_package_payloads stored_host inspect stored_path stored_bundle
     (rs_packages stored_snapshot) ''apt-get'' None) s) = Inr paths"
proof -
  have "pp_filename stored_payload = payload_digest @ ''.deb''" by (simp add: stored_payload_def)
  then show ?thesis
    by (simp add: validate_package_payloads_def stored_checks validate_bundle_def run_and_then stored_entry
        max_package_payload_total_bytes_def)
qed

lemma stored_read:
  "read_snapshot (\<lambda>_. payload_digest) (\<lambda>_. True) ''import dnf'' stored_path
     (JObj (snapshot_fields stored_snapshot)) = Inr (without_binding stored_snapshot)"
  by code_simp

lemma stored_bundle_check:
  "fst (run_state (check_bundle stored_host inspect lead stored_path stored_snapshot) s) = Inr ()"
  "fst (run_state (check_bundle stored_host inspect lead stored_path (without_binding stored_snapshot)) s) = Inr ()"
  using stored_validate [of inspect s]
  by (auto simp: check_bundle_def stored_checks without_binding_def or_empty_def split: prod.split)

lemma stored_load: "fst (run_state (load_snapshot stored_host stored_path True) s) = Inr stored_snapshot"
proof -
  have "(without_binding stored_snapshot)\<lparr>rs_source_binding := Some \<lparr>sb_path = stored_path,
      sb_content_sha256 = payload_digest, sb_file_metadata = [1], sb_parent_metadata = [2]\<rparr>\<rparr> = stored_snapshot"
    by (simp add: without_binding_def stored_snapshot_def)
  moreover have "rs_path (without_binding stored_snapshot) = Some stored_path"
    by (simp add: without_binding_def)
  ultimately show ?thesis
    by (simp add: load_snapshot_def stored_checks parse_snapshot_def stored_read run_and_then stored_bundle_check
        bind_source_def or_empty_def)
qed

lemma stored_source: "fst (run_state (check_source stored_host stored_path stored_snapshot) s) = Inr ()"
  using stored_load [of s]
  by (auto simp: check_source_def stored_snapshot_def [THEN arg_cong [where f = rs_source_binding]] split: prod.split)

lemma stored_identity: "fst (run_state (check_host stored_host stored_snapshot stored_audit) s) = Inr ()"
proof -
  have "host_mismatches stored_host (''hostname-sha256:'' @ payload_digest) stored_snapshot stored_audit = []"
    by code_simp
  moreover have "\<not> hex_of_length 32 []" "strip ''node'' = ''node''" by code_simp+
  moreover have "fst (run_state (host_identity stored_host) s) = Inr (''hostname-sha256:'' @ payload_digest)"
    using calculation(2,3) by (simp add: host_identity_def)
  ultimately show ?thesis by (simp only: check_host_def run_and_then run_ensure) simp
qed

lemma stored_trusted:
  "fst (run_state (validate_snapshot_for_apply stored_host inspect stored_snapshot stored_path stored_audit) s) = Inr ()"
  by (simp add: validate_snapshot_for_apply_def stored_checks or_empty_def run_and_then check_owner_def
      stored_source stored_identity stored_bundle_check)

lemma run_proceed:
  "fst (run_state m s) = Go a \<Longrightarrow> run_state (proceed m f) s = run_state (f a) (snd (run_state m s))"
  by (cases "run_state m s") (simp add: proceed_def)

text \<open>Nothing has to be restored, so the solver is not asked.\<close>

lemma stored_preflight:
  "\<exists>results. fst (run_state (preflight_package_rollback stored_host stored_snapshot stored_audit) s) = Inr results"
proof -
  have "\<exists>results. fst (run_state (check_retained stored_host stored_snapshot) s) = Inr results"
    using stored_validate [of True s] by (auto simp: check_retained_def stored_checks split: prod.split)
  then show ?thesis
    by (auto simp: preflight_package_rollback_def run_and_then stored_checks)
qed

lemma stored_gates:
  "\<exists>results. fst (run_state (initial_gates stored_host stored_snapshot (Some stored_audit)) s) = Go results"
proof -
  have "fst (run_state (check_authority stored_host stored_snapshot stored_audit) s) = Go ()"
    using stored_trusted [of True s] by (auto simp: check_authority_def split: prod.split)
  moreover have "\<exists>results. fst (run_state (check_solver stored_host stored_snapshot stored_audit) t) = Go results"
    for t :: "(nat, 'a) session_scheme"
    using stored_preflight [of "snd (run_state (record_external_start solver_command False) t)"]
    by (auto simp: check_solver_def split: prod.split)
  ultimately show ?thesis
    by (simp add: initial_gates_def run_proceed)
qed

end
