(* ===== verification/Journal.thy ===== *)
theory Journal
  imports Prelude
begin

text \<open>
  The operation journal (\<open>_parse_journal\<close>, \<open>_validate_event_stream\<close> and their helpers in
  \<open>nvidia_converge/recovery.py\<close>).  An event is the object \<open>json.loads\<close> returned, as the list of
  its pairs; the loop over the events is \<open>fold_e\<close> over a state record that holds the loop's
  local variables.  A test \<open>value in set\<close> raises \<open>TypeError\<close> for a list or an object, which is
  the constructor \<open>PyTypeError\<close>.  A field read as \<open>event["x"]\<close> is read after
  \<open>_validate_event_fields\<close> has found it, so the missing-key case does not arise.
\<close>

type_synonym event = "(string \<times> json) list"

type_synonym snapshot_binding = "string \<times> string \<times> string \<times> string"

datatype journal_reason =
    NotUtf8 | EmptyOrUnrepairable | TooManyEvents | InvalidJsonEvent | EventNotObject
  | DuplicateEventKey string
  | NotStarted | UnknownEvent | InvalidOperationId | InvalidTimestamp | UnexpectedEventFields
  | MixesOperationIds | EventAfterTerminal | EventAfterSeal | RestartsOperation
  | InvalidCommandEvent | CommandOverlap | MutationBeforeSnapshot
  | FinishMismatch | InvalidFinish
  | MisplacedSnapshot | InvalidSnapshotBinding
  | ReleaseOutsidePhase | ReleaseBindingMismatch | InvalidReleaseOrder
  | CompletesPending | InvalidCompletion | SealsWithoutSnapshot
  | MisplacedPersistenceFailure | InvalidPersistenceFailure
  | InvalidRecovery | ConflictingBindings

datatype journal_error = RecoveryStateError journal_reason | PyTypeError | PyRecursionError

section \<open>Patterns and constants\<close>

definition max_journal_events :: nat where "max_journal_events = 100000"

definition is_operation_id :: "string \<Rightarrow> bool" where "is_operation_id = hex_of_length 32"

definition is_sha256 :: "string \<Rightarrow> bool" where "is_sha256 = hex_of_length 64"

text \<open>\<open>(?:machine-id|hostname)-sha256:[a-f0-9]{64}\<close>\<close>

definition is_host_id :: "string \<Rightarrow> bool" where
  "is_host_id s \<longleftrightarrow>
     (startswith s ''machine-id-sha256:'' \<and> is_sha256 (drop (length ''machine-id-sha256:'') s))
     \<or> (startswith s ''hostname-sha256:'' \<and> is_sha256 (drop (length ''hostname-sha256:'') s))"

definition safe_private_state_commands :: "string list list" where
  "safe_private_state_commands = [[''persist-rollback-snapshot''], [''stage-package-payloads'']]"

definition release_targets_known :: "string list" where
  "release_targets_known = [''install-target'', ''operation-target'', ''rollback-baseline'']"

definition known_events :: "string list" where
  "known_events =
     [''operation-started'', ''rollback-snapshot-persisted'', ''launcher-release-authorized'',
      ''command-started'', ''command-finished'', ''operation-completed'',
      ''report-persistence-failed'', ''operation-recovered'']"

definition binding_fields :: "string list" where
  "binding_fields =
     [''snapshot_path'', ''snapshot_integrity_sha256'', ''snapshot_operation_id'',
      ''snapshot_host_id'']"

definition event_details :: "string \<Rightarrow> string list" where
  "event_details name =
     (if name = ''operation-started'' then []
      else if name = ''rollback-snapshot-persisted'' then binding_fields
      else if name = ''launcher-release-authorized'' then ''release_target'' # binding_fields
      else if name = ''command-started'' then [''command'', ''mutating'']
      else if name = ''command-finished''
        then [''command'', ''mutating'', ''returncode'', ''skipped'', ''reason'']
      else if name = ''operation-completed'' then [''exit_code'', ''incomplete'', ''outcome'']
      else if name = ''report-persistence-failed'' then [''error'']
      else ''recovery_operation_id'' # binding_fields)"

section \<open>Reading an event\<close>

definition event_is :: "string \<Rightarrow> event \<Rightarrow> bool" where
  "event_is name ev \<longleftrightarrow> jget_or_null ''event'' ev = JStr name"

definition event_command :: "event \<Rightarrow> string list" where
  "event_command ev =
     (case jget_or_null ''command'' ev of JList xs \<Rightarrow> map the_jstr xs | _ \<Rightarrow> [])"

definition event_mutating :: "event \<Rightarrow> bool" where
  "event_mutating ev \<longleftrightarrow> jget_or_null ''mutating'' ev = JBool True"

definition unsafe_mutation :: "event \<Rightarrow> bool" where
  "unsafe_mutation ev \<longleftrightarrow>
     event_mutating ev \<and> event_command ev \<notin> set safe_private_state_commands"

definition valid_command_event :: "event \<Rightarrow> bool" where
  "valid_command_event ev \<longleftrightarrow>
     is_jbool (jget_or_null ''mutating'' ev)
     \<and> (case jget_or_null ''command'' ev of
          JList xs \<Rightarrow> xs \<noteq> [] \<and> list_all is_nonempty_jstr xs | _ \<Rightarrow> False)"

definition snapshot_event_binding :: "event \<Rightarrow> journal_error + snapshot_binding" where
  "snapshot_event_binding ev =
     (case (jget_or_null ''snapshot_path'' ev, jget_or_null ''snapshot_integrity_sha256'' ev,
            jget_or_null ''snapshot_operation_id'' ev, jget_or_null ''snapshot_host_id'' ev) of
        (JStr path, JStr integrity, JStr operation_id, JStr host_id) \<Rightarrow>
          if startswith path ''/'' \<and> is_sha256 integrity \<and> is_operation_id operation_id
             \<and> is_host_id host_id
          then Inr (path, integrity, operation_id, host_id)
          else Inl (RecoveryStateError InvalidSnapshotBinding)
      | _ \<Rightarrow> Inl (RecoveryStateError InvalidSnapshotBinding))"

definition valid_finish :: "event \<Rightarrow> bool" where
  "valid_finish ev \<longleftrightarrow>
     is_jbool (jget_or_null ''skipped'' ev)
     \<and> (case jget_or_null ''returncode'' ev of JNull \<Rightarrow> True | JInt _ \<Rightarrow> True | _ \<Rightarrow> False)
     \<and> (case jget_or_null ''reason'' ev of JNull \<Rightarrow> True | JStr _ \<Rightarrow> True | _ \<Rightarrow> False)"

definition validate_completion_event :: "event \<Rightarrow> journal_error + unit" where
  "validate_completion_event ev =
     (case (jget_or_null ''exit_code'' ev, jget_or_null ''incomplete'' ev) of
        (JInt exit_code, JBool incomplete) \<Rightarrow>
          (let outcome = jget_or_null ''outcome'' ev
           in if unhashable outcome then Inl PyTypeError
              else if outcome \<notin> {JStr ''succeeded'', JStr ''failed''}
                      \<or> (exit_code = 0) \<noteq> (outcome = JStr ''succeeded'')
                      \<or> (incomplete \<and> outcome \<noteq> JStr ''failed'')
                then Inl (RecoveryStateError InvalidCompletion)
              else Inr ())
      | _ \<Rightarrow> Inl (RecoveryStateError InvalidCompletion))"

definition release_invalid :: "string \<Rightarrow> string list \<Rightarrow> bool \<Rightarrow> bool" where
  "release_invalid target targets host_mutation_possible \<longleftrightarrow>
     target \<notin> set release_targets_known \<or> target \<in> set targets
     \<or> (target \<in> {''install-target'', ''operation-target''} \<and> targets \<noteq> [])
     \<or> (target = ''rollback-baseline''
        \<and> targets \<notin> {[], [''install-target''], [''operation-target'']})
     \<or> \<not> host_mutation_possible"

section \<open>The event loop\<close>

record stream_state =
  js_index :: nat
  js_operation_id :: "string option"
  js_pending :: "(string list \<times> bool) option"
  js_binding :: "snapshot_binding option"
  js_targets :: "string list"
  js_host_mutation :: bool
  js_completion_seen :: bool
  js_persistence_failure_seen :: bool
  js_sealed :: bool
  js_terminal :: bool
  js_terminal_allows_failure :: bool

definition initial_stream :: stream_state where
  "initial_stream =
     \<lparr>js_index = 0, js_operation_id = None, js_pending = None, js_binding = None, js_targets = [],
      js_host_mutation = False, js_completion_seen = False, js_persistence_failure_seen = False,
      js_sealed = False, js_terminal = False, js_terminal_allows_failure = False\<rparr>"

abbreviation refuse :: "journal_reason \<Rightarrow> journal_error + 'a" where
  "refuse reason \<equiv> Inl (RecoveryStateError reason)"

definition on_started :: "stream_state \<Rightarrow> event \<Rightarrow> journal_error + stream_state" where
  "on_started st ev = (if js_index st \<noteq> 0 then refuse RestartsOperation else Inr st)"

definition on_command_started :: "stream_state \<Rightarrow> event \<Rightarrow> journal_error + stream_state" where
  "on_command_started st ev =
     (if \<not> valid_command_event ev then refuse InvalidCommandEvent
      else if js_pending st \<noteq> None then refuse CommandOverlap
      else if unsafe_mutation ev \<and> js_binding st = None then refuse MutationBeforeSnapshot
      else Inr (st\<lparr>js_host_mutation := js_host_mutation st \<or> unsafe_mutation ev,
                   js_pending := Some (event_command ev, event_mutating ev)\<rparr>))"

definition on_command_finished :: "stream_state \<Rightarrow> event \<Rightarrow> journal_error + stream_state" where
  "on_command_finished st ev =
     (if \<not> valid_command_event ev then refuse InvalidCommandEvent
      else if js_pending st \<noteq> Some (event_command ev, event_mutating ev) then refuse FinishMismatch
      else if \<not> valid_finish ev then refuse InvalidFinish
      else Inr (st\<lparr>js_pending := None\<rparr>))"

definition on_snapshot :: "stream_state \<Rightarrow> event \<Rightarrow> journal_error + stream_state" where
  "on_snapshot st ev =
     (if js_pending st \<noteq> None \<or> js_binding st \<noteq> None then refuse MisplacedSnapshot
      else bind_r (snapshot_event_binding ev) (\<lambda>b. Inr (st\<lparr>js_binding := Some b\<rparr>)))"

definition on_release :: "stream_state \<Rightarrow> event \<Rightarrow> journal_error + stream_state" where
  "on_release st ev =
     (if js_pending st \<noteq> None \<or> js_binding st = None then refuse ReleaseOutsidePhase
      else bind_r (snapshot_event_binding ev) (\<lambda>b.
        if js_binding st \<noteq> Some b then refuse ReleaseBindingMismatch
        else if unhashable (jget_or_null ''release_target'' ev) then Inl PyTypeError
        else case jget_or_null ''release_target'' ev of
          JStr target \<Rightarrow>
            if release_invalid target (js_targets st) (js_host_mutation st)
            then refuse InvalidReleaseOrder
            else Inr (st\<lparr>js_targets := js_targets st @ [target]\<rparr>)
        | _ \<Rightarrow> refuse InvalidReleaseOrder))"

definition on_completed :: "stream_state \<Rightarrow> event \<Rightarrow> journal_error + stream_state" where
  "on_completed st ev =
     (if js_pending st \<noteq> None \<or> js_completion_seen st then refuse CompletesPending
      else bind_r (validate_completion_event ev) (\<lambda>_.
        if jget_or_null ''incomplete'' ev = JBool False
        then Inr (st\<lparr>js_completion_seen := True, js_terminal := True,
                     js_terminal_allows_failure := True\<rparr>)
        else if js_binding st = None then refuse SealsWithoutSnapshot
        else Inr (st\<lparr>js_completion_seen := True, js_host_mutation := True, js_sealed := True\<rparr>)))"

definition on_persistence_failed :: "stream_state \<Rightarrow> event \<Rightarrow> journal_error + stream_state" where
  "on_persistence_failed st ev =
     (if js_pending st \<noteq> None \<or> js_persistence_failure_seen st
        then refuse MisplacedPersistenceFailure
      else if \<not> is_nonempty_jstr (jget_or_null ''error'' ev) then refuse InvalidPersistenceFailure
      else Inr (st\<lparr>js_persistence_failure_seen := True, js_terminal := False,
                   js_terminal_allows_failure := False, js_sealed := True\<rparr>))"

definition on_recovered :: "stream_state \<Rightarrow> event \<Rightarrow> journal_error + stream_state" where
  "on_recovered st ev =
     (case jget_or_null ''recovery_operation_id'' ev of
        JStr recovery_id \<Rightarrow>
          if \<not> is_operation_id recovery_id \<or> Some recovery_id = js_operation_id st
             \<or> js_binding st = None \<or> \<not> js_host_mutation st then refuse InvalidRecovery
          else bind_r (snapshot_event_binding ev) (\<lambda>b.
            if Some b \<noteq> js_binding st then refuse InvalidRecovery
            else Inr (st\<lparr>js_terminal := True, js_terminal_allows_failure := False\<rparr>))
      | _ \<Rightarrow> refuse InvalidRecovery)"

definition dispatch_event ::
  "string \<Rightarrow> stream_state \<Rightarrow> event \<Rightarrow> journal_error + stream_state" where
  "dispatch_event name st ev =
     (if name = ''operation-started'' then on_started st ev
      else if name = ''command-started'' then on_command_started st ev
      else if name = ''command-finished'' then on_command_finished st ev
      else if name = ''rollback-snapshot-persisted'' then on_snapshot st ev
      else if name = ''launcher-release-authorized'' then on_release st ev
      else if name = ''operation-completed'' then on_completed st ev
      else if name = ''report-persistence-failed'' then on_persistence_failed st ev
      else on_recovered st ev)"

definition validate_event_fields :: "string \<Rightarrow> event \<Rightarrow> journal_error + unit" where
  "validate_event_fields name ev =
     (if set (keys ev) \<noteq> {''event'', ''operation_id'', ''timestamp''} \<union> set (event_details name)
      then refuse UnexpectedEventFields else Inr ())"

text \<open>What the loop checks of every event: its name, operation and timestamp.\<close>

definition event_header :: "event \<Rightarrow> journal_error + string \<times> string" where
  "event_header ev =
     (let event_name = jget_or_null ''event'' ev
      in if unhashable event_name then Inl PyTypeError
         else if event_name \<notin> JStr ` set known_events then refuse UnknownEvent
         else case jget_or_null ''operation_id'' ev of
           JStr operation_id \<Rightarrow>
             if \<not> is_operation_id operation_id then refuse InvalidOperationId
             else if \<not> is_nonempty_jstr (jget_or_null ''timestamp'' ev) then refuse InvalidTimestamp
             else bind_r (validate_event_fields (the_jstr event_name) ev) (\<lambda>_.
               Inr (the_jstr event_name, operation_id))
         | _ \<Rightarrow> refuse InvalidOperationId)"

definition validate_event :: "stream_state \<Rightarrow> event \<Rightarrow> journal_error + stream_state" where
  "validate_event st ev =
     bind_r (event_header ev) (\<lambda>(name, operation_id).
       if js_operation_id st \<noteq> None \<and> js_operation_id st \<noteq> Some operation_id
         then refuse MixesOperationIds
       else if js_terminal st
               \<and> \<not> (js_terminal_allows_failure st \<and> name = ''report-persistence-failed'')
         then refuse EventAfterTerminal
       else if js_sealed st \<and> name \<notin> {''operation-recovered'', ''report-persistence-failed''}
         then refuse EventAfterSeal
       else bind_r (dispatch_event name (st\<lparr>js_operation_id := Some operation_id\<rparr>) ev) (\<lambda>st'.
         Inr (st'\<lparr>js_index := Suc (js_index st')\<rparr>)))"

definition validate_event_stream :: "event list \<Rightarrow> journal_error + string" where
  "validate_event_stream events =
     (case events of
        [] \<Rightarrow> refuse NotStarted
      | ev # _ \<Rightarrow>
          if jget_or_null ''event'' ev \<noteq> JStr ''operation-started'' then refuse NotStarted
          else bind_r (fold_e validate_event initial_stream events) (\<lambda>st.
            Inr (the (js_operation_id st))))"

section \<open>Parsing a journal\<close>

fun event_without_duplicates :: "event \<Rightarrow> event \<Rightarrow> journal_error + json" where
  "event_without_duplicates result [] = Inr (JObj result)"
| "event_without_duplicates result ((key, value) # pairs) =
     (if key \<in> set (keys result) then refuse (DuplicateEventKey key)
      else event_without_duplicates (result @ [(key, value)]) pairs)"

definition load_event :: "journal_error json_loads \<Rightarrow> string \<Rightarrow> journal_error + event" where
  "load_event loads line =
     (case loads (event_without_duplicates []) line of
        JSONDecodeError \<Rightarrow> refuse InvalidJsonEvent
      | HookError (RecoveryStateError e) \<Rightarrow> refuse InvalidJsonEvent
      | HookError e \<Rightarrow> Inl e
      | RecursionError \<Rightarrow> Inl PyRecursionError
      | Loaded (JObj ev) \<Rightarrow> Inr ev
      | Loaded _ \<Rightarrow> refuse EventNotObject)"

record unresolved_operation =
  uo_journal_path :: string
  uo_operation_id :: string
  uo_snapshot_path :: "string option"
  uo_snapshot_integrity_sha256 :: "string option"
  uo_snapshot_operation_id :: "string option"
  uo_snapshot_host_id :: "string option"
  uo_launcher_release_target :: "string option"
  uo_host_mutation_possible :: bool

record parsed_journal =
  pj_operation_id :: string
  pj_operation :: "unresolved_operation option"
  pj_completion :: "event option"
  pj_persistence_failed :: bool
  pj_recovery_operation_id :: "string option"
  pj_private_snapshot_artifacts_possible :: bool
  pj_snapshot_binding_present :: bool

definition last_opt :: "'a list \<Rightarrow> 'a option" where
  "last_opt xs = (if xs = [] then None else Some (last xs))"

definition event_text :: "string \<Rightarrow> event \<Rightarrow> string" where
  "event_text field ev = the_jstr (jget_or_null field ev)"

definition event_binding :: "event \<Rightarrow> snapshot_binding" where
  "event_binding ev =
     (event_text ''snapshot_path'' ev, event_text ''snapshot_integrity_sha256'' ev,
      event_text ''snapshot_operation_id'' ev, event_text ''snapshot_host_id'' ev)"

definition is_incomplete :: "event \<Rightarrow> bool" where
  "is_incomplete ev \<longleftrightarrow> jget_or_null ''incomplete'' ev = JBool True"

definition host_mutation_possible :: "event list \<Rightarrow> bool" where
  "host_mutation_possible events \<longleftrightarrow>
     list_ex (\<lambda>ev. event_is ''command-started'' ev \<and> unsafe_mutation ev) events
     \<or> (case last_opt (filter (event_is ''operation-completed'') events) of
          None \<Rightarrow> False | Some completion \<Rightarrow> is_incomplete completion)"

definition summarize_journal ::
  "string \<Rightarrow> string \<Rightarrow> event list \<Rightarrow> journal_error + parsed_journal" where
  "summarize_journal path operation_id events =
     (let recovery_events = filter (event_is ''operation-recovered'') events;
          completions = filter (event_is ''operation-completed'') events;
          snapshot_events = filter (event_is ''rollback-snapshot-persisted'') events;
          release_events = filter (event_is ''launcher-release-authorized'') events;
          bindings = remdups (map event_binding snapshot_events)
      in if snapshot_events \<noteq> [] \<and> length bindings \<noteq> 1 then refuse ConflictingBindings
         else
          (let binding = last_opt bindings;
               operation =
                 \<lparr>uo_journal_path = path, uo_operation_id = operation_id,
                  uo_snapshot_path = map_option (\<lambda>(p, _, _, _). p) binding,
                  uo_snapshot_integrity_sha256 = map_option (\<lambda>(_, i, _, _). i) binding,
                  uo_snapshot_operation_id = map_option (\<lambda>(_, _, oid, _). oid) binding,
                  uo_snapshot_host_id = map_option (\<lambda>(_, _, _, h). h) binding,
                  uo_launcher_release_target =
                    map_option (event_text ''release_target'') (last_opt release_events),
                  uo_host_mutation_possible = host_mutation_possible events\<rparr>
           in Inr
             \<lparr>pj_operation_id = operation_id,
              pj_operation = (if host_mutation_possible events then Some operation else None),
              pj_completion = last_opt completions,
              pj_persistence_failed = list_ex (event_is ''report-persistence-failed'') events,
              pj_recovery_operation_id =
                map_option (event_text ''recovery_operation_id'') (last_opt recovery_events),
              pj_private_snapshot_artifacts_possible =
                list_ex (\<lambda>ev. event_is ''command-started'' ev \<and> event_mutating ev
                   \<and> event_command ev \<in> set safe_private_state_commands) events,
              pj_snapshot_binding_present = snapshot_events \<noteq> []\<rparr>))"

text \<open>\<open>bytes.decode("utf-8")\<close> is the argument \<open>decode\<close>: no text for an invalid encoding.\<close>

definition parse_journal ::
  "(string \<Rightarrow> string option) \<Rightarrow> journal_error json_loads \<Rightarrow> string \<Rightarrow> string
   \<Rightarrow> journal_error + parsed_journal" where
  "parse_journal decode loads path payload =
     (case decode payload of
        None \<Rightarrow> refuse NotUtf8
      | Some text \<Rightarrow>
          if text = [] \<or> cp (last text) \<noteq> 10 then refuse EmptyOrUnrepairable
          else if length (splitlines text) > max_journal_events then refuse TooManyEvents
          else bind_r (map_r (load_event loads) (splitlines text)) (\<lambda>events.
            bind_r (validate_event_stream events) (\<lambda>operation_id.
              summarize_journal path operation_id events)))"

end
