(* ===== verification/JournalProps.thy ===== *)
theory JournalProps
  imports Journal
begin

text \<open>
  What a validated journal guarantees.  The loop is an instance of the interface
  \<open>checked_run\<close> of the prelude, once for each invariant; each property is then a fact about
  the events alone.
\<close>

section \<open>What a step does\<close>

lemma event_header_Inr:
  assumes "event_header ev = Inr (name, operation_id)"
  shows "jget_or_null ''event'' ev = JStr name" "name \<in> set known_events"
    "jget_or_null ''operation_id'' ev = JStr operation_id" "is_operation_id operation_id"
    "set (keys ev) = {''event'', ''operation_id'', ''timestamp''} \<union> set (event_details name)"
proof -
  have "jget_or_null ''event'' ev \<in> JStr ` set known_events"
    using assms unfolding event_header_def Let_def by (rule contrapos_pp) simp
  then obtain n where n: "jget_or_null ''event'' ev = JStr n" "n \<in> set known_events" by blast
  note run = assms [unfolded event_header_def Let_def n(1)]
  have mem: "JStr n \<in> JStr ` set known_events" using n(2) by blast
  obtain i where i: "jget_or_null ''operation_id'' ev = JStr i"
    using run mem by (cases "jget_or_null ''operation_id'' ev") simp_all
  have fin: "is_operation_id i" "validate_event_fields n ev = Inr ()" "name = n" "operation_id = i"
    using run mem by (auto simp: i bind_r_Inr_iff split: if_splits)
  show "jget_or_null ''event'' ev = JStr name" "name \<in> set known_events"
    "jget_or_null ''operation_id'' ev = JStr operation_id" "is_operation_id operation_id"
    using n i fin by simp_all
  show "set (keys ev) = {''event'', ''operation_id'', ''timestamp''} \<union> set (event_details name)"
    using fin(2,3) by (auto simp: validate_event_fields_def split: if_splits)
qed

lemma on_started_Inr: "on_started st ev = Inr st' \<longleftrightarrow> js_index st = 0 \<and> st' = st"
  by (auto simp: on_started_def)

lemma on_command_started_Inr:
  "on_command_started st ev = Inr st' \<longleftrightarrow>
     valid_command_event ev \<and> js_pending st = None \<and> (unsafe_mutation ev \<longrightarrow> js_binding st \<noteq> None)
     \<and> st' = st\<lparr>js_host_mutation := js_host_mutation st \<or> unsafe_mutation ev,
               js_pending := Some (event_command ev, event_mutating ev)\<rparr>"
  by (auto simp: on_command_started_def simp del: not_None_eq)

lemma on_command_finished_Inr:
  "on_command_finished st ev = Inr st' \<longleftrightarrow>
     valid_command_event ev \<and> js_pending st = Some (event_command ev, event_mutating ev)
     \<and> valid_finish ev \<and> st' = st\<lparr>js_pending := None\<rparr>"
  by (auto simp: on_command_finished_def simp del: not_None_eq)

lemma snapshot_event_binding_Inr:
  "snapshot_event_binding ev = Inr b \<Longrightarrow> b = event_binding ev"
  by (auto simp: snapshot_event_binding_def event_binding_def event_text_def
        split: json.splits if_splits)

lemma on_snapshot_Inr:
  "on_snapshot st ev = Inr st' \<longleftrightarrow>
     js_pending st = None \<and> js_binding st = None \<and> snapshot_event_binding ev = Inr (event_binding ev)
     \<and> st' = st\<lparr>js_binding := Some (event_binding ev)\<rparr>"
  by (auto simp: on_snapshot_def bind_r_Inr_iff simp del: not_None_eq split_paired_Ex dest: snapshot_event_binding_Inr)

lemma on_release_Inr:
  "on_release st ev = Inr st' \<longleftrightarrow>
     js_pending st = None \<and> snapshot_event_binding ev = Inr (event_binding ev)
     \<and> js_binding st = Some (event_binding ev)
     \<and> jget_or_null ''release_target'' ev = JStr (event_text ''release_target'' ev)
     \<and> \<not> release_invalid (event_text ''release_target'' ev) (js_targets st) (js_host_mutation st)
     \<and> st' = st\<lparr>js_targets := js_targets st @ [event_text ''release_target'' ev]\<rparr>"
  by (cases "jget_or_null ''release_target'' ev")
     (auto simp: on_release_def bind_r_Inr_iff event_text_def simp del: not_None_eq dest: snapshot_event_binding_Inr)

lemma on_completed_Inr:
  "on_completed st ev = Inr st' \<longleftrightarrow>
     js_pending st = None \<and> \<not> js_completion_seen st \<and> validate_completion_event ev = Inr ()
     \<and> (if jget_or_null ''incomplete'' ev = JBool False
        then st' = st\<lparr>js_completion_seen := True, js_terminal := True,
                     js_terminal_allows_failure := True\<rparr>
        else js_binding st \<noteq> None
          \<and> st' = st\<lparr>js_completion_seen := True, js_host_mutation := True, js_sealed := True\<rparr>)"
  by (auto simp: on_completed_def bind_r_Inr_iff simp del: not_None_eq)

lemma on_persistence_failed_Inr:
  "on_persistence_failed st ev = Inr st' \<longleftrightarrow>
     js_pending st = None \<and> \<not> js_persistence_failure_seen st
     \<and> is_nonempty_jstr (jget_or_null ''error'' ev)
     \<and> st' = st\<lparr>js_persistence_failure_seen := True, js_terminal := False,
               js_terminal_allows_failure := False, js_sealed := True\<rparr>"
  by (auto simp: on_persistence_failed_def simp del: not_None_eq)

lemma on_recovered_Inr:
  "on_recovered st ev = Inr st' \<longleftrightarrow>
     (\<exists>recovery_id. jget_or_null ''recovery_operation_id'' ev = JStr recovery_id
       \<and> is_operation_id recovery_id \<and> Some recovery_id \<noteq> js_operation_id st)
     \<and> js_host_mutation st \<and> snapshot_event_binding ev = Inr (event_binding ev)
     \<and> js_binding st = Some (event_binding ev)
     \<and> st' = st\<lparr>js_terminal := True, js_terminal_allows_failure := False\<rparr>"
  by (cases "jget_or_null ''recovery_operation_id'' ev")
     (auto simp: on_recovered_def bind_r_Inr_iff simp del: not_None_eq split_paired_Ex dest: snapshot_event_binding_Inr)

lemmas handler_Inr = on_started_Inr on_command_started_Inr on_command_finished_Inr on_snapshot_Inr
  on_release_Inr on_completed_Inr on_persistence_failed_Inr on_recovered_Inr

lemma validate_event_Inr:
  assumes "validate_event st ev = Inr st'"
  obtains name operation_id st1 where
    "event_header ev = Inr (name, operation_id)"
    "js_operation_id st = None \<or> js_operation_id st = Some operation_id"
    "js_terminal st \<longrightarrow> js_terminal_allows_failure st \<and> name = ''report-persistence-failed''"
    "js_sealed st \<longrightarrow> name \<in> {''operation-recovered'', ''report-persistence-failed''}"
    "dispatch_event name (st\<lparr>js_operation_id := Some operation_id\<rparr>) ev = Inr st1"
    "st' = st1\<lparr>js_index := Suc (js_index st1)\<rparr>"
  using assms
  by (auto simp: validate_event_def bind_r_Inr_iff split: prod.splits if_splits)

text \<open>The eight transitions of the loop, as a step relation over the state and the event.\<close>

inductive event_step :: "stream_state \<Rightarrow> event \<Rightarrow> stream_state \<Rightarrow> bool" where
  started: "event_is ''operation-started'' ev \<Longrightarrow> on_started st ev = Inr st' \<Longrightarrow> event_step st ev st'"
| command_started: "event_is ''command-started'' ev \<Longrightarrow> on_command_started st ev = Inr st'
    \<Longrightarrow> event_step st ev st'"
| command_finished: "event_is ''command-finished'' ev \<Longrightarrow> on_command_finished st ev = Inr st'
    \<Longrightarrow> event_step st ev st'"
| snapshot: "event_is ''rollback-snapshot-persisted'' ev \<Longrightarrow> on_snapshot st ev = Inr st'
    \<Longrightarrow> event_step st ev st'"
| release: "event_is ''launcher-release-authorized'' ev \<Longrightarrow> on_release st ev = Inr st'
    \<Longrightarrow> event_step st ev st'"
| completed: "event_is ''operation-completed'' ev \<Longrightarrow> on_completed st ev = Inr st'
    \<Longrightarrow> event_step st ev st'"
| persistence_failed: "event_is ''report-persistence-failed'' ev \<Longrightarrow> on_persistence_failed st ev = Inr st'
    \<Longrightarrow> event_step st ev st'"
| recovered: "event_is ''operation-recovered'' ev \<Longrightarrow> on_recovered st ev = Inr st'
    \<Longrightarrow> event_step st ev st'"

lemma dispatch_step:
  assumes "jget_or_null ''event'' ev = JStr name" and "name \<in> set known_events"
    and "dispatch_event name st ev = Inr st'"
  shows "event_step st ev st'"
  using assms
  by (auto simp: dispatch_event_def known_events_def event_is_def intro: event_step.intros
        split: if_splits)

lemma validate_event_step:
  assumes "validate_event st ev = Inr st'"
  obtains operation_id st1 where
    "jget_or_null ''operation_id'' ev = JStr operation_id" "is_operation_id operation_id"
    "js_operation_id st = None \<or> js_operation_id st = Some operation_id"
    "js_terminal st \<longrightarrow> js_terminal_allows_failure st \<and> event_is ''report-persistence-failed'' ev"
    "js_sealed st \<longrightarrow> event_is ''operation-recovered'' ev \<or> event_is ''report-persistence-failed'' ev"
    "event_step (st\<lparr>js_operation_id := Some operation_id\<rparr>) ev st1"
    "st' = st1\<lparr>js_index := Suc (js_index st1)\<rparr>"
  using assms
proof (rule validate_event_Inr)
  fix name operation_id st1
  assume h: "event_header ev = Inr (name, operation_id)"
    and rest: "js_operation_id st = None \<or> js_operation_id st = Some operation_id"
    "js_terminal st \<longrightarrow> js_terminal_allows_failure st \<and> name = ''report-persistence-failed''"
    "js_sealed st \<longrightarrow> name \<in> {''operation-recovered'', ''report-persistence-failed''}"
    and d: "dispatch_event name (st\<lparr>js_operation_id := Some operation_id\<rparr>) ev = Inr st1"
    and st': "st' = st1\<lparr>js_index := Suc (js_index st1)\<rparr>"
  note hd = event_header_Inr [OF h]
  show thesis
    by (rule that [OF hd(3,4) rest(1) _ _ dispatch_step [OF hd(1,2) d] st'])
       (use rest hd(1) in \<open>auto simp: event_is_def\<close>)
qed

lemma event_is_unique: "event_is n ev \<Longrightarrow> event_is m ev \<longleftrightarrow> m = n"
  by (auto simp: event_is_def)

section \<open>Invariants of the loop\<close>

abbreviation snapshots :: "event list \<Rightarrow> event list" where
  "snapshots \<equiv> filter (event_is ''rollback-snapshot-persisted'')"

abbreviation completions :: "event list \<Rightarrow> event list" where
  "completions \<equiv> filter (event_is ''operation-completed'')"

abbreviation persistence_failures :: "event list \<Rightarrow> event list" where
  "persistence_failures \<equiv> filter (event_is ''report-persistence-failed'')"

text \<open>Events that say the host may have changed.\<close>

definition mutated :: "event list \<Rightarrow> bool" where
  "mutated events \<longleftrightarrow>
     list_ex (\<lambda>ev. event_is ''command-started'' ev \<and> unsafe_mutation ev) events
     \<or> list_ex (\<lambda>ev. event_is ''operation-completed'' ev \<and> is_incomplete ev) events"

definition binding_inv :: "event list \<Rightarrow> stream_state \<Rightarrow> bool" where
  "binding_inv events st \<longleftrightarrow>
     js_binding st = map_option event_binding (last_opt (snapshots events))
     \<and> length (snapshots events) \<le> 1
     \<and> (\<forall>s \<in> set (snapshots events). snapshot_event_binding s = Inr (event_binding s))
     \<and> (js_host_mutation st \<longleftrightarrow> mutated events)
     \<and> (mutated events \<longrightarrow> snapshots events \<noteq> [])"

definition count_inv :: "event list \<Rightarrow> stream_state \<Rightarrow> bool" where
  "count_inv events st \<longleftrightarrow>
     js_index st = length events
     \<and> (js_completion_seen st \<longleftrightarrow> completions events \<noteq> []) \<and> length (completions events) \<le> 1
     \<and> (js_persistence_failure_seen st \<longleftrightarrow> persistence_failures events \<noteq> [])
     \<and> length (persistence_failures events) \<le> 1
     \<and> (\<forall>ev \<in> set (tl events). \<not> event_is ''operation-started'' ev)
     \<and> (events \<noteq> [] \<longrightarrow> js_operation_id st \<noteq> None)
     \<and> (\<forall>ev \<in> set events. \<exists>i. js_operation_id st = Some i
           \<and> jget_or_null ''operation_id'' ev = JStr i \<and> is_operation_id i)"

lemma last_opt_simps [simp]: "last_opt [] = None" "last_opt (xs @ [x]) = Some x" "last_opt [x] = Some x"
  by (simp_all add: last_opt_def)

lemma last_opt_None [simp]: "last_opt xs = None \<longleftrightarrow> xs = []"
  by (simp add: last_opt_def)

lemma mutated_snoc:
  "mutated (xs @ [ev]) \<longleftrightarrow> mutated xs \<or> (event_is ''command-started'' ev \<and> unsafe_mutation ev)
     \<or> (event_is ''operation-completed'' ev \<and> is_incomplete ev)"
  by (auto simp: mutated_def)

lemma validated_incomplete:
  assumes "validate_completion_event ev = Inr ()"
  shows "is_incomplete ev \<longleftrightarrow> jget_or_null ''incomplete'' ev \<noteq> JBool False"
  using assms
  by (cases "jget_or_null ''incomplete'' ev"; cases "jget_or_null ''exit_code'' ev")
     (auto simp: validate_completion_event_def is_incomplete_def)

lemma binding_step:
  assumes "event_step st ev st'" and "binding_inv xs st"
  shows "binding_inv (xs @ [ev]) st'"
  using assms
proof (induction rule: event_step.induct)
  case (completed ev st st')
  then show ?case
    by (auto simp: binding_inv_def handler_Inr mutated_snoc event_is_unique validated_incomplete
          simp del: not_None_eq split: if_splits)
qed (auto simp: binding_inv_def handler_Inr mutated_snoc event_is_unique simp del: not_None_eq)

interpretation binding: checked_run validate_event binding_inv
proof
  fix xs st ev st'
  assume inv: "binding_inv xs st" and step: "validate_event st ev = Inr st'"
  from step show "binding_inv (xs @ [ev]) st'"
  proof (rule validate_event_step)
    fix i st1
    assume "event_step (st\<lparr>js_operation_id := Some i\<rparr>) ev st1"
      and st': "st' = st1\<lparr>js_index := Suc (js_index st1)\<rparr>"
    moreover have "binding_inv xs (st\<lparr>js_operation_id := Some i\<rparr>)" using inv by (simp add: binding_inv_def)
    ultimately have "binding_inv (xs @ [ev]) st1" by (intro binding_step)
    then show ?thesis unfolding st' by (simp add: binding_inv_def)
  qed
qed

lemma event_step_frame:
  "event_step st ev st' \<Longrightarrow> js_index st' = js_index st \<and> js_operation_id st' = js_operation_id st"
  by (induction rule: event_step.induct) (auto simp: handler_Inr split: if_splits)

lemma event_step_counts:
  assumes "event_step st ev st'"
  shows "js_completion_seen st' \<longleftrightarrow> js_completion_seen st \<or> event_is ''operation-completed'' ev"
    and "js_persistence_failure_seen st' \<longleftrightarrow>
      js_persistence_failure_seen st \<or> event_is ''report-persistence-failed'' ev"
    and "event_is ''operation-completed'' ev \<Longrightarrow> \<not> js_completion_seen st"
    and "event_is ''report-persistence-failed'' ev \<Longrightarrow> \<not> js_persistence_failure_seen st"
    and "event_is ''operation-started'' ev \<Longrightarrow> js_index st = 0"
  using assms by (induction rule: event_step.induct)
    (auto simp: handler_Inr event_is_unique split: if_splits)

interpretation counts: checked_run validate_event count_inv
proof
  fix xs st ev st'
  assume inv: "count_inv xs st" and step: "validate_event st ev = Inr st'"
  from step show "count_inv (xs @ [ev]) st'"
  proof (rule validate_event_step)
    fix i st1
    assume op: "jget_or_null ''operation_id'' ev = JStr i" "is_operation_id i"
      "js_operation_id st = None \<or> js_operation_id st = Some i"
      and run: "event_step (st\<lparr>js_operation_id := Some i\<rparr>) ev st1"
      and st': "st' = st1\<lparr>js_index := Suc (js_index st1)\<rparr>"
    note fr = event_step_frame [OF run] and c = event_step_counts [OF run]
    have "js_index st1 = length xs" "js_operation_id st1 = Some i"
      using inv fr by (simp_all add: count_inv_def)
    moreover have "\<forall>e \<in> set (tl (xs @ [ev])). \<not> event_is ''operation-started'' e"
      using inv c(5) by (cases xs) (auto simp: count_inv_def)
    moreover have "\<forall>e \<in> set (xs @ [ev]). jget_or_null ''operation_id'' e = JStr i \<and> is_operation_id i"
      using inv op by (auto simp: count_inv_def)
    moreover have "js_completion_seen st1 \<longleftrightarrow> completions (xs @ [ev]) \<noteq> []"
      "length (completions (xs @ [ev])) \<le> 1"
      using inv c(1,3) by (auto simp: count_inv_def)
    moreover have "js_persistence_failure_seen st1 \<longleftrightarrow> persistence_failures (xs @ [ev]) \<noteq> []"
      "length (persistence_failures (xs @ [ev])) \<le> 1"
      using inv c(2,4) by (auto simp: count_inv_def)
    ultimately show ?thesis
      unfolding st' count_inv_def by simp
  qed
qed

lemma initial_invs: "binding_inv [] initial_stream" "count_inv [] initial_stream"
  by (simp_all add: binding_inv_def count_inv_def initial_stream_def mutated_def)

lemma validate_event_stream_Inr:
  assumes "validate_event_stream events = Inr operation_id"
  obtains st where "fold_e validate_event initial_stream events = Inr st"
    "js_operation_id st = Some operation_id" "binding_inv events st" "count_inv events st"
    "events \<noteq> []" "event_is ''operation-started'' (hd events)"
proof -
  from assms obtain st where run: "fold_e validate_event initial_stream events = Inr st"
    and ne: "events \<noteq> []" "event_is ''operation-started'' (hd events)"
    and id: "operation_id = the (js_operation_id st)"
    by (auto simp: validate_event_stream_def event_is_def bind_r_Inr_iff split: list.splits if_splits)
  from binding.run_inv [OF initial_invs(1) run] counts.run_inv [OF initial_invs(2) run]
  have "binding_inv events st" "count_inv events st" by simp_all
  moreover from this ne id have "js_operation_id st = Some operation_id" by (simp add: count_inv_def)
  ultimately show thesis using run ne by (intro that) simp_all
qed

end
