(* ===== verification/RollbackJournal.thy ===== *)
theory RollbackJournal
  imports RollbackSafety SnapshotSample JournalProps
begin

text \<open>
  What the operation journal gets to see of a rollback: the two callbacks the command line installs
  on the runner (\<open>nvidia_converge/cli.py\<close>) append one journal event per runner event, and recovery
  reads the journal with \<open>validate_event_stream\<close>.
\<close>

section \<open>The callbacks\<close>

text \<open>\<open>append_report_journal\<close> puts the name, the operation and the time in front of the details.\<close>

definition journal_event :: "string \<Rightarrow> string \<Rightarrow> string \<Rightarrow> (string \<times> json) list \<Rightarrow> event" where
  "journal_event operation_id timestamp name details =
     [(''event'', JStr name), (''operation_id'', JStr operation_id), (''timestamp'', JStr timestamp)]
     @ details"

fun callback_event :: "string \<Rightarrow> string \<Rightarrow> runner_event \<Rightarrow> event" where
  "callback_event operation_id timestamp (Started command mutate) =
     journal_event operation_id timestamp ''command-started''
       [(''command'', json_strs command), (''mutating'', JBool mutate)]"
| "callback_event operation_id timestamp (Finished r mutate) =
     journal_event operation_id timestamp ''command-finished''
       [(''command'', json_strs (cr_command r)), (''mutating'', JBool mutate),
        (''returncode'', json_opt JInt (cr_returncode r)), (''skipped'', JBool (cr_skipped r)),
        (''reason'', json_opt JStr (cr_reason r))]"

text \<open>The events of a run; \<open>clock\<close> gives the time of each.\<close>

definition journaled :: "string \<Rightarrow> (nat \<Rightarrow> string) \<Rightarrow> nat \<Rightarrow> runner_event list \<Rightarrow> event list" where
  "journaled operation_id clock n es =
     map (\<lambda>(i, e). callback_event operation_id (clock i) e) (enumerate n es)"

section \<open>Overlapping commands\<close>

text \<open>A command starts right after another one has started.\<close>

definition overlaps :: "runner_event list \<Rightarrow> bool" where
  "overlaps es \<longleftrightarrow> (\<exists>pre c m c' m' post. es = pre @ Started c m # Started c' m' # post)"

lemma overlaps_append: "overlaps es \<Longrightarrow> overlaps (xs @ es @ ys)"
proof -
  assume "overlaps es"
  then obtain pre c m c' m' post where "es = pre @ Started c m # Started c' m' # post"
    by (auto simp: overlaps_def)
  then have "xs @ es @ ys = (xs @ pre) @ Started c m # Started c' m' # (post @ ys)" by simp
  then show ?thesis unfolding overlaps_def by blast
qed

lemma started_event: "event_is ''command-started'' (callback_event op t (Started c m))"
  by (simp add: journal_event_def event_is_def jget_or_null_def)

lemma overlapping_starts_refused:
  assumes "event_is ''command-started'' a" "event_is ''command-started'' b"
  shows "validate_event_stream (pre @ a # b # post) \<noteq> Inr operation_id"
proof
  assume "validate_event_stream (pre @ a # b # post) = Inr operation_id"
  then obtain st where "fold_e validate_event initial_stream (pre @ a # b # post) = Inr st"
    by (rule validate_event_stream_Inr)
  then obtain s1 s2 s3 where 1: "validate_event s1 a = Inr s2" "validate_event s2 b = Inr s3"
    by (auto simp: counts.run_append bind_r_Inr_iff)
  have "js_pending s2 \<noteq> None"
    by (rule validate_event_step [OF 1(1)])
      (use assms(1) in \<open>auto elim!: event_step.cases simp: on_command_started_Inr event_is_def\<close>)
  moreover have "js_pending s2 = None"
    by (rule validate_event_step [OF 1(2)])
      (use assms(2) in \<open>auto elim!: event_step.cases simp: on_command_started_Inr event_is_def\<close>)
  ultimately show False by simp
qed

lemma overlaps_refused:
  assumes "overlaps es"
  shows "validate_event_stream (pre @ journaled op clock n es @ post) \<noteq> Inr operation_id"
proof -
  from assms obtain xs c m c' m' ys where es: "es = xs @ Started c m # Started c' m' # ys"
    by (auto simp: overlaps_def)
  have "pre @ journaled op clock n es @ post
      = (pre @ journaled op clock n xs) @ callback_event op (clock (n + length xs)) (Started c m)
        # callback_event op (clock (Suc (n + length xs))) (Started c' m')
        # journaled op clock (Suc (Suc (n + length xs))) ys @ post"
    by (simp add: es journaled_def enumerate_append_eq)
  then show ?thesis
    by (simp only:) (intro overlapping_starts_refused started_event)
qed

section \<open>The solver gate inspects every retained payload\<close>

definition opens :: "runner_event list \<Rightarrow> bool" where
  "opens es \<longleftrightarrow> (\<exists>c m rest. es = Started c m # rest)"

lemma opens_append [simp]: "opens xs \<Longrightarrow> opens (xs @ ys)"
  by (auto simp: opens_def)

lemma emits_and_then:
  assumes "emits m (\<lambda>r xs. case r of Inl e \<Rightarrow> Q (Inl e) xs | Inr a \<Rightarrow> emits (f a) (\<lambda>b ys. Q b (xs @ ys)))"
  shows "emits (and_then m f) Q"
  unfolding and_then_def
  by (rule emits_then [OF assms]) (auto intro: emits_give split: sum.splits)

lemma emits_any: "silent m \<Longrightarrow> emits m (\<lambda>_ _. True)"
  unfolding silent_def by (erule emits_weaken) simp

definition succeeded :: "'e + 'a \<Rightarrow> bool" where "succeeded r \<longleftrightarrow> (\<exists>a. r = Inr a)"

text \<open>An action that has started a command by the time it succeeds\<close>

definition starts :: "(('w, 'z) session_scheme, 'e + 'a) state \<Rightarrow> bool" where
  "starts m \<longleftrightarrow> emits m (\<lambda>r es. succeeded r \<longrightarrow> opens es)"

lemma starts_first:
  assumes "starts m" "\<And>a. silent (f a)"
  shows "starts (and_then m f)"
  unfolding starts_def
proof (rule emits_and_then, rule emits_weaken [OF assms(1) [unfolded starts_def]])
  fix r :: "'c + 'd" and xs
  assume opened: "succeeded r \<longrightarrow> opens xs"
  show "case r of Inl e \<Rightarrow> succeeded (Inl e :: 'c + 'e) \<longrightarrow> opens xs
      | Inr a \<Rightarrow> emits (f a) (\<lambda>b ys. succeeded b \<longrightarrow> opens (xs @ ys))"
    using opened by (auto simp: succeeded_def split: sum.splits intro: emits_weaken [OF emits_any [OF assms(2)]])
qed

text \<open>Nothing is emitted by a step that only computes or calls the system.\<close>

definition mute :: "(('w, 'z) session_scheme, 'a) state \<Rightarrow> bool" where
  "mute m \<longleftrightarrow> emits m (\<lambda>_ es. es = [])"

lemma mute_steps:
  "mute (ensure b e)" "mute (give a)" "mute (refusing lead g)" "mute (escaping g)" "mute (hash_payload H fd name)"
  unfolding mute_def ensure_def refusing_def escaping_def hash_payload_def
  by (intro emits_bind emits_on_world emits_give refl; simp)+

lemma starts_then:
  assumes "mute m" "\<And>a. starts (f a)"
  shows "starts (and_then m f)"
  unfolding starts_def
proof (rule emits_and_then, rule emits_weaken [OF assms(1) [unfolded mute_def]])
  fix r :: "'c + 'd" and xs :: "runner_event list"
  assume "xs = []"
  with assms(2) show "case r of Inl e \<Rightarrow> succeeded (Inl e :: 'c + 'e) \<longrightarrow> opens xs
      | Inr a \<Rightarrow> emits (f a) (\<lambda>b ys. succeeded b \<longrightarrow> opens (xs @ ys))"
    by (auto simp: succeeded_def starts_def split: sum.splits)
qed

lemma starts_run:
  assumes "\<And>a. silent (f a)"
  shows "starts (State_Monad.bind (run_known R False program args) f)"
proof -
  have "emits (run_known R False program args) (\<lambda>_ es. opens es)"
    by (intro emits_intros) (auto simp: opens_def)
  then show ?thesis
    unfolding starts_def by (rule emits_then) (auto intro: emits_weaken [OF emits_any [OF assms]])
qed

lemma starts_cases:
  "(\<And>a b. starts (f a b)) \<Longrightarrow> starts (case p of (a, b) \<Rightarrow> f a b)" "starts (give (Inl e))"
  by (auto simp: starts_def succeeded_def intro: emits_give split: prod.split)

lemma starts_inspect: "starts (inspect_payload R path pm)"
  unfolding inspect_payload_def inspect_deb_def inspect_rpm_def
  by (auto intro!: starts_run quiet_intros split: option.split list.split)

lemma starts_entry: "starts (validate_entry H True fd path pm e)"
  unfolding validate_entry_def if_not_P if_P
  by (intro starts_then mute_steps starts_cases) (auto intro!: starts_first starts_inspect quiet_intros)

lemma starts_entries: "es \<noteq> [] \<Longrightarrow> starts (validate_entries H True fd path pm n es)"
  by (cases es) (auto intro!: starts_first starts_entry quiet_intros)

lemma starts_bundle:
  assumes "ppb_packages bundle \<noteq> []"
  shows "starts (validate_bundle H True path bundle pm)"
  unfolding validate_bundle_def
  by ((rule starts_then, rule mute_steps)+, rule starts_first [OF starts_entries [OF assms]])
    (intro quiet_intros)

lemma starts_payloads:
  assumes "packages \<noteq> []"
  shows "starts (validate_package_payloads H True path bundle packages pm forward)"
proof -
  have "ppb_packages bundle \<noteq> []" if "check_manifest source bundle packages pm forward = Inr ()" for source
    using that assms
    by (auto simp: check_manifest_def identities_with_role_def bind_r_Inr_iff split: if_splits)
  then show ?thesis
    unfolding validate_package_payloads_def
    by (auto intro: starts_cases starts_bundle split: sum.split)
qed

lemma starts_retained:
  assumes "rs_packages s \<noteq> []"
  shows "starts (check_retained H s)"
proof -
  have step: "starts (do { r \<leftarrow> validate_package_payloads H True path b (rs_packages s) pm None; give (f r) })"
    if "\<And>r. succeeded (f r) \<Longrightarrow> succeeded r" for path b pm f
    unfolding starts_def
    by (rule emits_then [OF starts_payloads [OF assms, unfolded starts_def]])
      (use that in \<open>auto intro!: emits_give\<close>)
  show ?thesis
    unfolding check_retained_def
    by (auto intro!: starts_cases step simp: succeeded_def split: option.splits check_error.splits sum.splits)
qed

lemma starts_preflight:
  assumes "rs_packages s \<noteq> []"
  shows "starts (preflight_package_rollback H s audit)"
  unfolding preflight_package_rollback_def
  by (rule starts_first [OF starts_retained [OF assms]])
    (auto intro!: quiet_intros simp: Let_def split: sum.split)

lemma overlaps_solver:
  assumes "rs_packages s \<noteq> []"
  shows "emits (check_solver H s audit) (\<lambda>r es. goes_on r \<longrightarrow> overlaps es)"
  unfolding check_solver_def
proof (rule emits_bind, rule emits_start, rule emits_bind,
    rule emits_weaken [OF starts_preflight [OF assms, unfolded starts_def]])
  fix r :: "preflight_error + command_result list" and xs
  assume opened: "succeeded r \<longrightarrow> opens xs"
  have over: "overlaps ([Started solver_command False] @ xs @ ys)" if "opens xs" for ys
    using that unfolding opens_def overlaps_def by fastforce
  show "emits (case r of
      Inl (SolverRefused e results) \<Rightarrow> do {
        record_external_result (command_result_of solver_command (Some 1) e) False;
        give (Return (results @ [command_result_of solver_command (Some 1) e]))
      }
    | Inl (BuilderRaised e) \<Rightarrow> give (Raise (RollbackRaised e))
    | Inl (PreflightSystem e) \<Rightarrow> give (Raise (SystemRaised e))
    | Inl PreflightRecursion \<Rightarrow> give (Raise RecursionRaised)
    | Inl PreflightIndex \<Rightarrow> give (Raise IndexRaised)
    | Inr results \<Rightarrow> do {
        record_external_result (command_result_of solver_command (Some 0) []) False;
        give (Go (results @ [command_result_of solver_command (Some 0) []]))
      }) (\<lambda>r ys. goes_on r \<longrightarrow> overlaps ([Started solver_command False] @ xs @ ys))"
    using opened over
    by (auto simp: succeeded_def intro!: emits_bind emits_result emits_give
        split: sum.split preflight_error.split)
qed

section \<open>The journal of an applied rollback\<close>

lemma overlaps_initial_gates:
  assumes "ru_apply H" "rs_packages s \<noteq> []"
  shows "emits (initial_gates H s current) (\<lambda>r es. goes_on r \<longrightarrow> overlaps es)"
proof (cases current)
  case (Some audit)
  have "emits (proceed (check_authority H s audit) (\<lambda>_. check_solver H s audit))
      (\<lambda>r es. goes_on r \<longrightarrow> overlaps es)"
    unfolding proceed_def
    by (rule emits_after_silent [OF silent_check_authority])
      (auto intro!: emits_give emits_weaken [OF overlaps_solver [OF assms(2)]]
        dest: overlaps_append [where ys = "[]"] split: flow.splits)
  then show ?thesis using assms(1) Some by (simp add: initial_gates_def)
qed (auto simp: initial_gates_def assms(1) refuse_with_def intro: emits_give)

text \<open>No journal that holds these events, whatever was journaled before and after them, is read.\<close>

definition journal_unreadable :: "runner_event list \<Rightarrow> bool" where
  "journal_unreadable es \<longleftrightarrow> (\<forall>pre post operation_id clock n result.
     validate_event_stream (pre @ journaled operation_id clock n es @ post) \<noteq> Inr result)"

lemma overlaps_unreadable: "overlaps es \<Longrightarrow> journal_unreadable es"
  by (simp add: journal_unreadable_def overlaps_refused)



end
