(* ===== verification/SnapshotTypes.thy ===== *)
theory SnapshotTypes
  imports SnapshotLoad
begin

text \<open>
  The type of a stored snapshot: what the loader of \<open>nvidia_converge/rollback.py\<close> promises of the
  object it returns, part by part, and the two directions for each part.  Whatever the document, the
  part that was read is well-formed; and a well-formed part, written as JSON, is read back as itself.
\<close>

section \<open>Lists with an index\<close>

lemma map_r_typed:
  assumes "map_r (\<lambda>(i, v). f i v) (enumerate n vs) = Inr xs" "\<And>i v x. f i v = Inr x \<Longrightarrow> P x"
  shows "list_all P xs"
  using assms(1)
proof (induction vs arbitrary: n xs)
  case (Cons v vs)
  then show ?case by (auto simp: bind_r_Inr_iff intro: assms(2))
qed simp

lemma map_r_round:
  "list_all (\<lambda>x. \<forall>i. f i (g x) = Inr x) xs \<Longrightarrow> map_r (\<lambda>(i, v). f i v) (enumerate n (map g xs)) = Inr xs"
  by (induction xs arbitrary: n) auto

lemma demand_Inr_iff: "demand b e go = Inr x \<longleftrightarrow> b \<and> go = Inr x"
  by (simp add: demand_def)

lemma demand_True [simp]: "demand True e go = go"
  by (simp add: demand_def)

lemma worded_Inr_iff: "worded r = Inr x \<longleftrightarrow> r = Inr x"
  by (auto simp: worded_def split: sum.split)

lemma worded_Inr [simp]: "worded (Inr x) = Inr x"
  by (simp add: worded_def)

section \<open>Fields\<close>

text \<open>Null or a text that is not empty\<close>

definition filled :: "string option \<Rightarrow> bool" where
  "filled x \<longleftrightarrow> x \<noteq> Some []"

lemma required_string_Inr_iff: "required_string v name = Inr s \<longleftrightarrow> v = JStr s \<and> s \<noteq> []"
  by (cases v) (auto simp: required_string_def)

lemma optional_string_Inr_iff: "optional_string v name = Inr x \<longleftrightarrow> v = json_opt JStr x \<and> filled x"
  by (cases v; cases x) (auto simp: optional_string_def json_opt_def filled_def)

lemma optional_package_string_typed: "optional_package_string v name = Inr x \<Longrightarrow> filled x"
  by (auto simp: optional_package_string_def optional_string_Inr_iff filled_def split: if_splits)

lemma optional_package_string_round:
  "filled x \<Longrightarrow> optional_package_string (json_opt JStr x) name = Inr x"
  by (cases x) (auto simp: optional_package_string_def optional_string_Inr_iff filled_def json_opt_def)

lemma required_boolean_Inr_iff: "required_boolean v name = Inr b \<longleftrightarrow> v = JBool b"
  by (cases v) (auto simp: required_boolean_def)

lemma optional_boolean_round [simp]: "optional_boolean (json_opt JBool x) name = Inr x"
  by (cases x) (auto simp: optional_boolean_def json_opt_def required_boolean_def)

lemma nonnegative_integer_Inr_iff: "nonnegative_integer v name m = Inr i \<longleftrightarrow> v = JInt i \<and> m \<le> i"
  by (cases v) (auto simp: nonnegative_integer_def demand_Inr_iff)

lemmas field_iffs = required_string_Inr_iff optional_string_Inr_iff required_boolean_Inr_iff
  nonnegative_integer_Inr_iff worded_Inr_iff demand_Inr_iff bind_r_Inr_iff

lemmas field_defs = string_field_def opt_string_field_def bool_field_def opt_bool_field_def
  opt_package_field_def

text \<open>A list of JSON strings is the JSON of a list of strings.\<close>

lemma json_strings: "list_all is_jstr vs \<Longrightarrow> vs = map JStr (map the_jstr vs)"
  by (induction vs) (auto elim: is_jstr.elims)

section \<open>Packages\<close>

definition well_formed_package :: "package_info \<Rightarrow> bool" where
  "well_formed_package p \<longleftrightarrow>
     pi_name p \<noteq> [] \<and> interesting_package (pi_name p) \<and> pi_installed p
     \<and> pi_version p \<noteq> None \<and> pi_architecture p \<noteq> None
     \<and> list_all filled [pi_version p, pi_manager p, pi_architecture p, pi_epoch p]"

definition well_formed_packages :: "package_info list \<Rightarrow> bool" where
  "well_formed_packages ps \<longleftrightarrow>
     int (length ps) \<le> max_snapshot_packages \<and> list_all well_formed_package ps
     \<and> distinct (map package_state_identity ps)"

lemma load_package_typed: "load_package i v = Inr p \<Longrightarrow> well_formed_package p"
  by (cases v) (auto simp: load_package_def Let_def field_defs field_iffs well_formed_package_def
      dest: optional_package_string_typed)

lemma load_package_round: "well_formed_package p \<Longrightarrow> load_package i (package_json p) = Inr p"
  by (cases p) (auto simp: load_package_def Let_def package_json_def well_formed_package_def field_defs
      required_string_def optional_package_string_round jget_or_null_def keys_def package_fields_def
      insert_commute)

lemma load_packages_typed: "load_packages v = Inr ps \<Longrightarrow> well_formed_packages ps"
  by (cases v) (auto simp: load_packages_def well_formed_packages_def field_iffs
      dest: map_r_Inr_length intro: map_r_typed load_package_typed)

lemma load_packages_round:
  "well_formed_packages ps \<Longrightarrow> load_packages (JList (map package_json ps)) = Inr ps"
  by (auto simp: load_packages_def well_formed_packages_def list_all_iff load_package_round map_r_round)

definition well_formed_introduced :: "string list \<Rightarrow> bool" where
  "well_formed_introduced names \<longleftrightarrow>
     int (length names) \<le> max_snapshot_packages \<and> distinct names
     \<and> list_all (\<lambda>n. n \<noteq> [] \<and> interesting_package n \<and> valid_package_spec n) names"

lemma load_introduced_typed: "load_introduced_packages v = Inr names \<Longrightarrow> well_formed_introduced names"
  by (cases v) (auto simp: load_introduced_packages_def load_introduced_package_def
      well_formed_introduced_def field_iffs dest: map_r_Inr_length intro: map_r_typed)

lemma load_introduced_round:
  assumes "well_formed_introduced names"
  shows "load_introduced_packages (json_strs names) = Inr names"
proof -
  have "map_r (\<lambda>(i, v). load_introduced_package i v) (enumerate 0 (map JStr names)) = Inr names"
    using assms by (intro map_r_round)
      (simp add: well_formed_introduced_def list_all_iff load_introduced_package_def required_string_def)
  then show ?thesis
    using assms by (simp add: load_introduced_packages_def json_strs_def well_formed_introduced_def)
qed

section \<open>The payload manifest\<close>

definition well_formed_payload :: "string \<Rightarrow> package_payload \<Rightarrow> bool" where
  "well_formed_payload pm e \<longleftrightarrow>
     list_all (\<lambda>x. x \<noteq> []) [pp_name e, pp_architecture e, pp_version e, pp_filename e, pp_sha256 e]
     \<and> interesting_package (pp_name e) \<and> filled (pp_epoch e)
     \<and> payload_provenance pm (pp_format e) (pp_verification e) (pp_sha256 e) (pp_filename e)
     \<and> 1 \<le> pp_size_bytes e
     \<and> pp_roles e \<noteq> [] \<and> distinct (pp_roles e) \<and> set (pp_roles e) \<subseteq> {''baseline'', ''forward''}
     \<and> distinct (pp_signer_ids e) \<and> list_all valid_signer_id (pp_signer_ids e)
     \<and> (pp_signer_ids e = []) = (pp_format e = ''deb'')"

definition well_formed_bundle ::
  "string \<Rightarrow> string \<Rightarrow> package_info list \<Rightarrow> package_payload_bundle \<Rightarrow> bool" where
  "well_formed_bundle pm path baseline b \<longleftrightarrow>
     payload_bundle_directory (path_text path) = Inr (ppb_directory b) \<and> ppb_directory b \<noteq> []
     \<and> int (length (ppb_packages b)) \<le> 2 * max_snapshot_packages
     \<and> list_all (well_formed_payload pm) (ppb_packages b)
     \<and> distinct (map entry_state (ppb_packages b)) \<and> distinct (map pp_filename (ppb_packages b))
     \<and> set (map entry_state (filter (\<lambda>e. ''baseline'' \<in> set (pp_roles e)) (ppb_packages b)))
        = set (map package_state_identity baseline)
     \<and> ppb_total_size_bytes b = sum_list (map pp_size_bytes (ppb_packages b))
     \<and> 0 \<le> ppb_total_size_bytes b"

lemma string_set_typed:
  "load_payload_string_set v name allowed pattern nonempty = Inr xs \<Longrightarrow>
     distinct xs \<and> (nonempty \<longrightarrow> xs \<noteq> []) \<and> (case allowed of None \<Rightarrow> True | Some as \<Rightarrow> set xs \<subseteq> set as)
     \<and> (case pattern of None \<Rightarrow> True | Some p \<Rightarrow> list_all p xs)"
  by (auto simp: load_payload_string_set_def field_iffs Let_def split: json.splits)

lemma string_set_round:
  assumes "distinct xs" "nonempty \<longrightarrow> xs \<noteq> []" "case allowed of None \<Rightarrow> True | Some as \<Rightarrow> set xs \<subseteq> set as"
    "case pattern of None \<Rightarrow> True | Some p \<Rightarrow> list_all p xs"
  shows "load_payload_string_set (json_strs xs) name allowed pattern nonempty = Inr xs"
proof -
  have "map the_jstr (map JStr xs) = xs" by (induction xs) auto
  moreover have "list_all is_jstr (map JStr xs)" by (induction xs) auto
  ultimately show ?thesis
    using assms by (auto simp: load_payload_string_set_def json_strs_def demand_def Let_def)
qed

lemma payload_formats: "payload_format pm \<in> {''deb'', ''rpm''}"
  by (simp add: payload_format_def)

lemma load_payload_typed:
  assumes "load_payload pm i v = Inr e"
  shows "well_formed_payload pm e"
  using assms payload_formats [of pm]
  by (cases v) (auto simp: load_payload_def Let_def field_defs field_iffs well_formed_payload_def
      payload_provenance_def dest!: optional_package_string_typed string_set_typed)

lemma provenance_filled:
  "payload_provenance pm form verification digest filename \<Longrightarrow> form \<noteq> [] \<and> verification \<noteq> []"
  by (auto simp: payload_provenance_def payload_format_def payload_verification_def)

lemma payload_reads:
  obtains d where "payload_json e = JObj d" "set (keys d) = set payload_fields"
    "jget_or_null ''name'' d = JStr (pp_name e)" "jget_or_null ''architecture'' d = JStr (pp_architecture e)"
    "jget_or_null ''epoch'' d = json_opt JStr (pp_epoch e)" "jget_or_null ''version'' d = JStr (pp_version e)"
    "jget_or_null ''format'' d = JStr (pp_format e)" "jget_or_null ''filename'' d = JStr (pp_filename e)"
    "jget_or_null ''sha256'' d = JStr (pp_sha256 e)" "jget_or_null ''size_bytes'' d = JInt (pp_size_bytes e)"
    "jget_or_null ''verification'' d = JStr (pp_verification e)"
    "jget_or_null ''roles'' d = json_strs (pp_roles e)"
    "jget_or_null ''signer_ids'' d = json_strs (pp_signer_ids e)"
proof -
  obtain d where d: "payload_json e = JObj d" by (simp add: payload_json_def)
  have "set (keys d) = set payload_fields"
    using d by (auto simp: payload_json_def keys_def payload_fields_def)
  then show thesis
    using that [OF d] d by (auto simp: payload_json_def jget_or_null_def)
qed

lemma load_payload_round:
  assumes e: "well_formed_payload pm e"
  shows "load_payload pm i (payload_json e) = Inr e"
proof -
  obtain d where d: "payload_json e = JObj d" "set (keys d) = set payload_fields"
    "jget_or_null ''name'' d = JStr (pp_name e)" "jget_or_null ''architecture'' d = JStr (pp_architecture e)"
    "jget_or_null ''epoch'' d = json_opt JStr (pp_epoch e)" "jget_or_null ''version'' d = JStr (pp_version e)"
    "jget_or_null ''format'' d = JStr (pp_format e)" "jget_or_null ''filename'' d = JStr (pp_filename e)"
    "jget_or_null ''sha256'' d = JStr (pp_sha256 e)" "jget_or_null ''size_bytes'' d = JInt (pp_size_bytes e)"
    "jget_or_null ''verification'' d = JStr (pp_verification e)"
    "jget_or_null ''roles'' d = json_strs (pp_roles e)"
    "jget_or_null ''signer_ids'' d = json_strs (pp_signer_ids e)"
    by (rule payload_reads)
  have texts: "pp_name e \<noteq> []" "pp_architecture e \<noteq> []" "pp_version e \<noteq> []" "pp_filename e \<noteq> []"
    "pp_sha256 e \<noteq> []" "pp_format e \<noteq> []" "pp_verification e \<noteq> []" "interesting_package (pp_name e)"
    "payload_provenance pm (pp_format e) (pp_verification e) (pp_sha256 e) (pp_filename e)"
    "filled (pp_epoch e)" "1 \<le> pp_size_bytes e"
    using e by (auto simp: well_formed_payload_def dest: provenance_filled)
  have roles: "load_payload_string_set (json_strs (pp_roles e)) name (Some [''baseline'', ''forward'']) None True
      = Inr (pp_roles e)" for name
    using e by (intro string_set_round) (auto simp: well_formed_payload_def)
  have signers: "load_payload_string_set (json_strs (pp_signer_ids e)) name None (Some valid_signer_id)
      (pp_format e = ''rpm'') = Inr (pp_signer_ids e)" for name
    using e by (intro string_set_round) (auto simp: well_formed_payload_def)
  have "\<not> (pp_format e = ''deb'' \<and> pp_signer_ids e \<noteq> [])"
    using e by (auto simp: well_formed_payload_def)
  then show ?thesis
    by (simp add: load_payload_def Let_def d texts field_defs required_string_def
        optional_package_string_round nonnegative_integer_def roles signers)
qed

lemma load_payload_list_typed:
  assumes "load_payload_list v pm baseline folder declared = Inr b"
    and "payload_bundle_directory (path_text path) = Inr folder" "folder \<noteq> []"
  shows "well_formed_bundle pm path baseline b"
proof -
  obtain raw es where raw: "v = JList raw" "int (length raw) \<le> 2 * max_snapshot_packages"
    and es: "map_r (\<lambda>(i, e). load_payload pm i e) (enumerate 0 raw) = Inr es"
    and b: "distinct (map entry_state es)" "distinct (map pp_filename es)"
      "set (map entry_state (filter (\<lambda>e. ''baseline'' \<in> set (pp_roles e)) es))
        = set (map package_state_identity baseline)"
      "b = \<lparr>ppb_directory = folder, ppb_packages = es,
        ppb_total_size_bytes = sum_list (map pp_size_bytes es)\<rparr>" "0 \<le> sum_list (map pp_size_bytes es)"
    using assms(1) by (cases v) (auto simp: load_payload_list_def field_iffs split: if_splits)
  moreover have "list_all (well_formed_payload pm) es"
    using es by (rule map_r_typed) (rule load_payload_typed)
  moreover have "length es = length raw" using map_r_Inr_length [OF es] by simp
  ultimately show ?thesis
    using assms(2,3) by (simp add: well_formed_bundle_def)
qed

lemma load_package_payloads_typed:
  assumes "load_package_payloads v pm baseline path = Inr b"
  shows "well_formed_bundle pm path baseline b"
proof -
  obtain d where v: "v = JObj d" using assms by (cases v) (simp_all add: load_package_payloads_def Let_def)
  obtain folder where "string_field d ''directory'' ''package_payloads.directory'' = Inr folder"
    and rest: "(case payload_bundle_directory (path_text path) of
        Inl e \<Rightarrow> Inl (''rollback snapshot package payload path is invalid: '' @ check_error_text e)
      | Inr expected \<Rightarrow> demand (folder = expected) ''package payload directory is not bound to its path''
          (load_payload_list (jget_or_null ''packages'' d) pm baseline folder
            (jget_or_null ''total_size_bytes'' d))) = Inr b"
    using assms unfolding v load_package_payloads_def Let_def json.case bind_r_Inr_iff
    by (simp only: split: if_split_asm) (simp_all add: bind_r_Inr_iff, blast)
  then have "folder \<noteq> []" by (simp add: string_field_def field_iffs)
  then show ?thesis
    using rest by (auto simp: demand_Inr_iff split: sum.splits intro: load_payload_list_typed)
qed

lemma load_package_payloads_round:
  assumes "well_formed_bundle pm path baseline b"
  shows "load_package_payloads (bundle_json b) pm baseline path = Inr b"
proof -
  have entries: "map_r (\<lambda>(i, e). load_payload pm i e) (enumerate 0 (map payload_json (ppb_packages b)))
      = Inr (ppb_packages b)"
    using assms by (intro map_r_round) (auto simp: well_formed_bundle_def list_all_iff load_payload_round)
  have "load_payload_list (JList (map payload_json (ppb_packages b))) pm baseline (ppb_directory b)
      (JInt (ppb_total_size_bytes b)) = Inr b"
    using assms entries
    by (cases b) (simp add: load_payload_list_def well_formed_bundle_def nonnegative_integer_def not_less)
  moreover obtain d where "bundle_json b = JObj d" "set (keys d) = {''directory'', ''packages'', ''total_size_bytes''}"
    "jget_or_null ''directory'' d = JStr (ppb_directory b)"
    "jget_or_null ''packages'' d = JList (map payload_json (ppb_packages b))"
    "jget_or_null ''total_size_bytes'' d = JInt (ppb_total_size_bytes b)"
    by (simp add: bundle_json_def keys_def jget_or_null_def)
  moreover have "payload_bundle_directory (path_text path) = Inr (ppb_directory b)" "ppb_directory b \<noteq> []"
    using assms by (simp_all add: well_formed_bundle_def)
  ultimately show ?thesis
    by (simp add: load_package_payloads_def field_defs required_string_def)
qed

section \<open>MIG geometry\<close>

definition well_formed_compute :: "mig_compute_instance \<Rightarrow> bool" where
  "well_formed_compute c \<longleftrightarrow> profile_name (mci_profile c) \<and> 0 \<le> mci_profile_id c"

definition well_formed_instance :: "string list \<Rightarrow> mig_gpu_instance \<Rightarrow> bool" where
  "well_formed_instance uuids g \<longleftrightarrow>
     mgi_gpu_uuid g \<noteq> [] \<and> mgi_gpu_uuid g \<in> set uuids \<and> profile_name (mgi_profile g)
     \<and> 0 \<le> mgi_profile_id g \<and> 0 \<le> mgi_placement_start g \<and> 1 \<le> mgi_placement_size g
     \<and> length (mgi_compute_instances g) \<le> max_mig_compute_instances
     \<and> list_all well_formed_compute (mgi_compute_instances g)"

definition gpu_placement :: "mig_gpu_instance \<Rightarrow> string \<times> int" where
  "gpu_placement g = (mgi_gpu_uuid g, mgi_placement_start g)"

definition well_formed_geometry :: "string list \<Rightarrow> mig_gpu_instance list \<Rightarrow> bool" where
  "well_formed_geometry uuids gs \<longleftrightarrow>
     length gs \<le> max_mig_gpu_instances \<and> list_all (well_formed_instance uuids) gs
     \<and> distinct (map gpu_placement gs)"

lemma profile_name_filled: "profile_name s \<Longrightarrow> s \<noteq> []"
  by (auto simp: profile_name_def)

lemma load_compute_typed: "load_compute_instance name i v = Inr c \<Longrightarrow> well_formed_compute c"
  by (cases v) (clarsimp simp: load_compute_instance_def load_mig_profile_def well_formed_compute_def field_iffs)+

lemma load_compute_round:
  assumes "well_formed_compute c"
  shows "load_compute_instance name i (compute_json c) = Inr c"
proof -
  obtain d where "compute_json c = JObj d" "set (keys d) = {''profile'', ''profile_id''}"
    "jget_or_null ''profile'' d = JStr (mci_profile c)" "jget_or_null ''profile_id'' d = JInt (mci_profile_id c)"
    by (simp add: compute_json_def keys_def jget_or_null_def)
  then show ?thesis
    using assms profile_name_filled [of "mci_profile c"]
    by (simp add: load_compute_instance_def load_mig_profile_def well_formed_compute_def field_defs
        required_string_def nonnegative_integer_def)
qed

lemma load_computes_typed:
  assumes "load_compute_instances name v = Inr cs"
  shows "length cs \<le> max_mig_compute_instances \<and> list_all well_formed_compute cs"
proof -
  obtain raw where "length raw \<le> max_mig_compute_instances"
    and cs: "map_r (\<lambda>(i, c). load_compute_instance (name @ ''.compute_instances'') i c) (enumerate 0 raw) = Inr cs"
    using assms by (cases v) (auto simp: load_compute_instances_def not_less split: if_split_asm)
  then show ?thesis using map_r_Inr_length [OF cs] map_r_typed [OF cs load_compute_typed] by simp
qed

lemma load_computes_round:
  assumes "length cs \<le> max_mig_compute_instances" "list_all well_formed_compute cs"
  shows "load_compute_instances name (JList (map compute_json cs)) = Inr cs"
proof -
  have "map_r (\<lambda>(i, c). load_compute_instance (name @ ''.compute_instances'') i c)
      (enumerate 0 (map compute_json cs)) = Inr cs"
    using assms by (intro map_r_round) (simp add: list_all_iff load_compute_round)
  then show ?thesis using assms by (simp add: load_compute_instances_def)
qed

lemma load_instance_typed:
  assumes "load_gpu_instance uuids placements i v = Inr g"
  shows "well_formed_instance uuids g \<and> gpu_placement g \<notin> set placements"
  using assms by (cases v) (auto simp: load_gpu_instance_def load_mig_profile_def Let_def field_defs field_iffs
      well_formed_instance_def gpu_placement_def dest: load_computes_typed)

lemma load_instance_round:
  assumes g: "well_formed_instance uuids g" "gpu_placement g \<notin> set placements"
  shows "load_gpu_instance uuids placements i (instance_json g) = Inr g"
proof -
  obtain d where d: "instance_json g = JObj d" "set (keys d) = set instance_fields"
    "jget_or_null ''gpu_uuid'' d = JStr (mgi_gpu_uuid g)" "jget_or_null ''profile'' d = JStr (mgi_profile g)"
    "jget_or_null ''profile_id'' d = JInt (mgi_profile_id g)"
    "jget_or_null ''placement_start'' d = JInt (mgi_placement_start g)"
    "jget_or_null ''placement_size'' d = JInt (mgi_placement_size g)"
    "jget_or_null ''compute_instances'' d = JList (map compute_json (mgi_compute_instances g))"
    by (simp add: instance_json_def keys_def jget_or_null_def instance_fields_def insert_commute)
  moreover have "load_compute_instances name (JList (map compute_json (mgi_compute_instances g)))
      = Inr (mgi_compute_instances g)" for name
    using g by (intro load_computes_round) (simp_all add: well_formed_instance_def)
  ultimately show ?thesis
    using g profile_name_filled [of "mgi_profile g"]
    by (simp add: load_gpu_instance_def load_mig_profile_def Let_def field_defs required_string_def
        nonnegative_integer_def well_formed_instance_def gpu_placement_def)
qed

lemma load_instances_typed:
  "load_gpu_instances uuids placements vs = Inr gs \<Longrightarrow>
     length gs = length vs \<and> list_all (well_formed_instance uuids) gs \<and> distinct (map gpu_placement gs)
     \<and> set (map gpu_placement gs) \<inter> set placements = {}"
  by (induction uuids placements vs arbitrary: gs rule: load_gpu_instances.induct)
    (fastforce simp: bind_r_Inr_iff gpu_placement_def dest: load_instance_typed)+

lemma load_instances_round:
  "list_all (well_formed_instance uuids) gs \<Longrightarrow> distinct (map gpu_placement gs)
   \<Longrightarrow> set (map gpu_placement gs) \<inter> set placements = {}
   \<Longrightarrow> load_gpu_instances uuids placements (enumerate n (map instance_json gs)) = Inr gs"
  by (induction gs arbitrary: n placements) (auto simp: load_instance_round gpu_placement_def)

lemma load_geometry_typed: "load_mig_geometry v uuids = Inr gs \<Longrightarrow> well_formed_geometry uuids gs"
  by (cases v) (auto simp: load_mig_geometry_def well_formed_geometry_def field_iffs dest: load_instances_typed)

lemma load_geometry_round:
  "well_formed_geometry uuids gs \<Longrightarrow> load_mig_geometry (JList (map instance_json gs)) uuids = Inr gs"
  by (simp add: load_mig_geometry_def well_formed_geometry_def load_instances_round)

section \<open>Modules, GPUs and managed files\<close>

definition well_formed_modules :: "bool \<Rightarrow> string list \<Rightarrow> bool" where
  "well_formed_modules loaded names \<longleftrightarrow>
     set names \<subseteq> set allowed_nvidia_modules \<and> distinct names \<and> loaded = (''nvidia'' \<in> set names)"

definition well_formed_uuids :: "string list \<Rightarrow> bool" where
  "well_formed_uuids uuids \<longleftrightarrow>
     uuids \<noteq> [] \<and> length uuids \<le> 64 \<and> list_all gpu_uuid_form uuids \<and> distinct uuids"

lemma the_strings [simp]: "map (the_jstr \<circ> JStr) xs = xs"
  by (induction xs) auto

lemma string_images [simp]: "the_jstr ` JStr ` A = A"
  by (auto simp: image_image)

lemma are_strings [simp]: "list_all (is_jstr \<circ> JStr) xs"
  by (induction xs) auto

lemma load_modules_typed: "load_module_names v loaded = Inr names \<Longrightarrow> well_formed_modules loaded names"
  by (cases v) (auto simp: load_module_names_def Let_def field_iffs well_formed_modules_def list_all_iff
      split: if_splits)

lemma load_modules_round:
  "well_formed_modules loaded names \<Longrightarrow> load_module_names (json_strs names) loaded = Inr names"
  by (simp add: load_module_names_def json_strs_def well_formed_modules_def list_all_iff list.pred_map subset_iff
      demand_def Let_def)

lemma load_uuids_typed: "load_gpu_uuids v = Inr uuids \<Longrightarrow> well_formed_uuids uuids"
  by (auto simp: load_gpu_uuids_def field_iffs well_formed_uuids_def list_all_iff
      split: json.splits list.splits)

lemma load_uuids_round: "well_formed_uuids uuids \<Longrightarrow> load_gpu_uuids (json_strs uuids) = Inr uuids"
  by (cases uuids) (simp_all add: load_gpu_uuids_def json_strs_def well_formed_uuids_def demand_def list.pred_map
      list_all_iff)

text \<open>An existing file has its content and mode; its content is not empty.\<close>

definition well_formed_file :: "file_snapshot \<Rightarrow> bool" where
  "well_formed_file f \<longleftrightarrow>
     fs_path f \<noteq> [] \<and> is_managed_path (fs_path f)
     \<and> (case (fs_existed f, fs_content_base64 f, fs_mode f) of
          (True, Some content, Some mode) \<Rightarrow>
            content \<noteq> [] \<and> 0 \<le> mode \<and> mode \<le> 511
            \<and> (case decoded_text content of None \<Rightarrow> False | Some bytes \<Rightarrow> int (length bytes) \<le> max_managed_file_bytes)
        | (False, None, None) \<Rightarrow> True
        | _ \<Rightarrow> False)"

definition well_formed_files :: "string \<Rightarrow> file_snapshot list \<Rightarrow> bool" where
  "well_formed_files pm files \<longleftrightarrow>
     (let paths = map fs_path files; dynamic = dedup (filter dnf_module_failsafe_path paths)
      in list_all well_formed_file files \<and> distinct paths \<and> (pm = ''dnf'' \<longrightarrow> length dynamic = 1)
         \<and> set paths = set (expected_managed_paths pm @ (if pm = ''dnf'' then dynamic else []))
         \<and> paths = canonical_managed_paths pm paths)"

lemma file_mode_Some: "file_mode v = Some m \<longleftrightarrow> v = JInt m \<and> 0 \<le> m \<and> m \<le> 511"
  by (cases v) (auto simp: file_mode_def)

lemma load_file_content_typed:
  assumes f: "load_file_content name path existed content mode = Inr f"
    and path: "path \<noteq> []" "is_managed_path path" "filled content"
  shows "well_formed_file f"
proof (cases existed)
  case True
  then obtain shown bits bytes where "content = Some shown" "file_mode mode = Some bits"
    "decoded_text shown = Some bytes" "int (length bytes) \<le> max_managed_file_bytes"
    "f = \<lparr>fs_path = path, fs_existed = True, fs_content_base64 = Some shown, fs_mode = Some bits\<rparr>"
    using f by (auto simp: load_file_content_def demand_Inr_iff or_empty_def split: option.split_asm)
  then show ?thesis using path by (simp add: well_formed_file_def filled_def file_mode_Some)
next
  case False
  then show ?thesis using f path by (auto simp: load_file_content_def well_formed_file_def demand_Inr_iff)
qed

lemma load_file_typed:
  assumes "load_managed_file i v = Inr f"
  shows "well_formed_file f"
proof -
  obtain d where v: "v = JObj d" using assms by (cases v) (simp_all add: load_managed_file_def Let_def)
  show ?thesis
    using assms unfolding v load_managed_file_def Let_def json.case demand_Inr_iff bind_r_Inr_iff
    by (clarsimp simp: field_defs field_iffs load_file_content_typed)
qed

lemma load_file_content_round:
  assumes f: "well_formed_file f"
  shows "load_file_content name (fs_path f) (fs_existed f) (fs_content_base64 f) (json_opt JInt (fs_mode f)) = Inr f"
proof (cases "fs_existed f")
  case True
  then obtain shown bits bytes where "fs_content_base64 f = Some shown" "fs_mode f = Some bits" "shown \<noteq> []"
    "0 \<le> bits" "bits \<le> 511" "decoded_text shown = Some bytes" "int (length bytes) \<le> max_managed_file_bytes"
    using f by (auto simp: well_formed_file_def split: option.split_asm)
  then show ?thesis using True by (simp add: load_file_content_def json_opt_def or_empty_def file_mode_def)
next
  case False
  then have "fs_content_base64 f = None" "fs_mode f = None"
    using f by (auto simp: well_formed_file_def split: option.split_asm)
  then show ?thesis using False by (simp add: load_file_content_def json_opt_def)
qed

lemma load_file_round:
  assumes f: "well_formed_file f"
  shows "load_managed_file i (managed_file_json f) = Inr f"
proof -
  obtain d where d: "managed_file_json f = JObj d"
    "set (keys d) = {''content_base64'', ''existed'', ''mode'', ''path''}"
    "jget_or_null ''path'' d = JStr (fs_path f)" "jget_or_null ''existed'' d = JBool (fs_existed f)"
    "jget_or_null ''content_base64'' d = json_opt JStr (fs_content_base64 f)"
    "jget_or_null ''mode'' d = json_opt JInt (fs_mode f)"
    by (simp add: managed_file_json_def keys_def jget_or_null_def insert_commute)
  have path: "fs_path f \<noteq> []" "is_managed_path (fs_path f)" "filled (fs_content_base64 f)"
    using f by (auto simp: well_formed_file_def filled_def split: option.split_asm bool.split_asm)
  have "string_field d ''path'' name = Inr (fs_path f)"
    "worded (required_boolean (jget_or_null ''existed'' d) name) = Inr (fs_existed f)"
    "worded (optional_string (jget_or_null ''content_base64'' d) name) = Inr (fs_content_base64 f)" for name
    using path by (simp_all add: d field_defs field_iffs)
  then show ?thesis
    using path load_file_content_round [OF f] by (simp add: load_managed_file_def d Let_def)
qed

lemma load_files_typed:
  assumes "load_managed_files v pm = Inr files"
  shows "well_formed_files pm files"
proof -
  obtain raw where "v = JList raw"
    and files: "map_r (\<lambda>(i, f). load_managed_file i f) (enumerate 0 raw) = Inr files"
    using assms by (cases v) (auto simp: load_managed_files_def field_iffs Let_def)
  then show ?thesis
    using assms map_r_typed [OF files load_file_typed]
    by (simp add: load_managed_files_def well_formed_files_def demand_Inr_iff Let_def)
qed

lemma load_files_round:
  assumes "well_formed_files pm files"
  shows "load_managed_files (JList (map managed_file_json files)) pm = Inr files"
proof -
  have "map_r (\<lambda>(i, f). load_managed_file i f) (enumerate 0 (map managed_file_json files)) = Inr files"
    using assms by (intro map_r_round) (simp add: well_formed_files_def Let_def list_all_iff load_file_round)
  then show ?thesis
    using assms by (simp add: load_managed_files_def well_formed_files_def demand_Inr_iff Let_def)
qed

section \<open>Commands\<close>

definition well_formed_command :: "string \<Rightarrow> string list \<Rightarrow> bool" where
  "well_formed_command script command \<longleftrightarrow>
     command \<noteq> [] \<and> length command \<le> max_command_parts \<and> list_all (\<lambda>p. p \<noteq> []) command
     \<and> allowed_rollback_command script command"

definition well_formed_commands :: "string \<Rightarrow> string list list \<Rightarrow> bool" where
  "well_formed_commands script commands \<longleftrightarrow>
     length commands \<le> max_snapshot_commands \<and> list_all (well_formed_command script) commands"

lemma filled_strings: "list_all is_nonempty_jstr vs \<Longrightarrow> list_all (\<lambda>p. p \<noteq> []) (map the_jstr vs)"
  by (induction vs) (auto elim: is_nonempty_jstr.elims)

lemma strings_filled: "list_all (\<lambda>p. p \<noteq> []) xs \<Longrightarrow> list_all is_nonempty_jstr (map JStr xs)"
  by (induction xs) auto

lemma load_command_typed:
  assumes "load_command script i v = Inr command"
  shows "well_formed_command script command"
proof -
  obtain x xs where "v = JList (x # xs)" using assms by (auto simp: load_command_def split: json.splits list.splits)
  then show ?thesis
    using assms filled_strings [of "x # xs"]
    by (auto simp: load_command_def well_formed_command_def not_less split: if_split_asm)
qed

lemma load_command_round:
  assumes "well_formed_command script command"
  shows "load_command script i (json_strs command) = Inr command"
proof -
  obtain p ps where "command = p # ps" using assms by (cases command) (auto simp: well_formed_command_def)
  then show ?thesis
    using assms strings_filled [of command]
    by (auto simp: load_command_def json_strs_def well_formed_command_def not_less)
qed

lemma load_commands_typed:
  assumes "load_commands script v = Inr commands"
  shows "well_formed_commands script commands"
proof -
  obtain raw where "length raw \<le> max_snapshot_commands"
    and commands: "map_r (\<lambda>(i, c). load_command script i c) (enumerate 0 raw) = Inr commands"
    using assms by (cases v) (auto simp: load_commands_def not_less split: if_split_asm)
  then show ?thesis
    using map_r_Inr_length [OF commands] map_r_typed [OF commands load_command_typed]
    by (simp add: well_formed_commands_def)
qed

lemma load_commands_round:
  assumes "well_formed_commands script commands"
  shows "load_commands script (JList (map json_strs commands)) = Inr commands"
proof -
  have "map_r (\<lambda>(i, c). load_command script i c) (enumerate 0 (map json_strs commands)) = Inr commands"
    using assms by (intro map_r_round) (simp add: well_formed_commands_def list_all_iff load_command_round)
  then show ?thesis using assms by (simp add: load_commands_def well_formed_commands_def)
qed

end
