(* ===== verification/SnapshotWhole.thy ===== *)
theory SnapshotWhole
  imports SnapshotTypes
begin

text \<open>
  The snapshot as a whole.  Its type is the conjunction of five groups, one for each step of the
  loader; a step keeps the groups read before it.  The loader returns only snapshots of the type, and
  a snapshot of the type, written field by field, is loaded as itself (theory \<open>SnapshotRoundtrip\<close>).
\<close>

section \<open>The type\<close>

definition bound_path :: "string \<Rightarrow> string option \<Rightarrow> bool" where
  "bound_path source x \<longleftrightarrow> (case x of None \<Rightarrow> False | Some path \<Rightarrow> path \<noteq> [] \<and> path_text path = source)"

definition known_manager :: "string option \<Rightarrow> bool" where
  "known_manager x \<longleftrightarrow> x \<in> {Some ''apt-get'', Some ''dnf'', Some ''yum'', Some ''zypper''}"

definition identity_ok :: "(string \<Rightarrow> bool) \<Rightarrow> string \<Rightarrow> rollback_snapshot \<Rightarrow> bool" where
  "identity_ok timestamp source s \<longleftrightarrow>
     rs_schema_version s = snapshot_schema_version
     \<and> bound_path source (rs_path s)
     \<and> rs_created_at s \<noteq> [] \<and> timestamp (rs_created_at s) \<and> hex_of_length 32 (rs_operation_id s)
     \<and> rs_host_id s \<noteq> [] \<and> filled (rs_os_id s) \<and> filled (rs_os_version s) \<and> rs_architecture s \<noteq> []
     \<and> known_manager (rs_package_manager s) \<and> rs_kernel s \<noteq> []"

definition modules_ok :: "rollback_snapshot \<Rightarrow> bool" where
  "modules_ok s \<longleftrightarrow>
     filled (rs_module_version s) \<and> filled (rs_module_installed_version s)
     \<and> well_formed_modules (rs_module_loaded s) (rs_module_names s)
     \<and> rs_mig_mode s \<in> {None, Some ''enabled'', Some ''disabled''}"

definition gpus_ok :: "rollback_snapshot \<Rightarrow> bool" where
  "gpus_ok s \<longleftrightarrow>
     well_formed_uuids (rs_gpu_uuids s) \<and> well_formed_geometry (rs_gpu_uuids s) (rs_mig_geometry s)
     \<and> \<not> (rs_mig_mode s = Some ''disabled'' \<and> rs_mig_geometry s \<noteq> [])"

definition backend_of :: "string \<Rightarrow> string" where
  "backend_of pm = (if pm = ''apt-get'' then ''apt'' else ''rpm'')"

definition bundle_ok ::
  "string \<Rightarrow> string \<Rightarrow> package_info list \<Rightarrow> package_payload_bundle option \<Rightarrow> bool" where
  "bundle_ok pm path packages payloads \<longleftrightarrow>
     (case payloads of None \<Rightarrow> False | Some b \<Rightarrow> well_formed_bundle pm path packages b)"

definition packages_ok :: "string \<Rightarrow> rollback_snapshot \<Rightarrow> bool" where
  "packages_ok script s \<longleftrightarrow>
     well_formed_packages (rs_packages s)
     \<and> list_all (\<lambda>p. pi_manager p = Some (backend_of (or_empty (rs_package_manager s)))) (rs_packages s)
     \<and> well_formed_introduced (rs_introduced_packages s)
     \<and> bundle_ok (or_empty (rs_package_manager s)) (or_empty (rs_path s)) (rs_packages s) (rs_package_payloads s)
     \<and> well_formed_files (or_empty (rs_package_manager s)) (rs_managed_files s)
     \<and> well_formed_commands script (rs_commands s)"

definition whole_ok :: "(string \<Rightarrow> string) \<Rightarrow> string \<Rightarrow> rollback_snapshot \<Rightarrow> bool" where
  "whole_ok sha256 script s \<longleftrightarrow>
     snapshot_service_state_consistency_error s = None
     \<and> rollback_commands script (rs_packages s) (rs_package_manager s) (rs_introduced_packages s) False
         (rs_path s) (rs_package_payloads s) None None = Inr (rs_commands s)
     \<and> rs_integrity_sha256 s = Some (snapshot_integrity sha256 s)
     \<and> hex_of_length 64 (snapshot_integrity sha256 s)"

definition well_formed_snapshot ::
  "(string \<Rightarrow> string) \<Rightarrow> (string \<Rightarrow> bool) \<Rightarrow> string \<Rightarrow> string \<Rightarrow> rollback_snapshot \<Rightarrow> bool" where
  "well_formed_snapshot sha256 timestamp script source s \<longleftrightarrow>
     identity_ok timestamp source s \<and> modules_ok s \<and> gpus_ok s \<and> packages_ok script s
     \<and> whole_ok sha256 script s \<and> rs_source_binding s = None"

section \<open>What the loader returns\<close>

text \<open>Each step gives its group, and keeps the groups of the steps before it.\<close>

lemma refuse_Inr_iff: "(if b then Inl e else go) = Inr x \<longleftrightarrow> \<not> b \<and> go = Inr x"
  by simp

lemmas chain_iffs = bind_r_Inr_iff demand_Inr_iff refuse_Inr_iff

lemma supported_manager: "pm \<in> {''apt-get'', ''dnf'', ''yum'', ''zypper''} \<longleftrightarrow> known_manager (Some pm)"
  by (simp add: known_manager_def)

lemma read_identity_typed:
  "read_identity timestamp source d s = Inr s' \<Longrightarrow>
     identity_ok timestamp source s' \<and> rs_source_binding s' = rs_source_binding s"
  unfolding read_identity_def chain_iffs sum.inject supported_manager not_not
  by (elim exE conjE, hypsubst) (simp add: identity_ok_def bound_path_def string_field_def opt_string_field_def
      worded_Inr_iff required_string_Inr_iff optional_string_Inr_iff)

lemma read_modules_typed:
  "read_modules d s = Inr s' \<Longrightarrow>
     modules_ok s' \<and> identity_ok timestamp source s' = identity_ok timestamp source s
     \<and> rs_source_binding s' = rs_source_binding s"
  unfolding read_modules_def chain_iffs sum.inject
  by (elim exE conjE, hypsubst) (simp add: modules_ok_def identity_ok_def opt_string_field_def worded_Inr_iff
      optional_string_Inr_iff load_modules_typed)

lemma read_units_typed:
  "read_units d s = Inr s' \<Longrightarrow>
     modules_ok s' = modules_ok s \<and> identity_ok timestamp source s' = identity_ok timestamp source s
     \<and> rs_source_binding s' = rs_source_binding s"
  unfolding read_units_def chain_iffs
  by (elim exE conjE) (auto simp: modules_ok_def identity_ok_def)

lemma read_gpus_typed:
  "read_gpus d s = Inr s' \<Longrightarrow>
     gpus_ok s' \<and> modules_ok s' = modules_ok s \<and> identity_ok timestamp source s' = identity_ok timestamp source s
     \<and> rs_source_binding s' = rs_source_binding s"
  unfolding read_gpus_def chain_iffs
  by (elim exE conjE) (auto simp: gpus_ok_def modules_ok_def identity_ok_def
      dest: load_uuids_typed load_geometry_typed)

lemma no_mismatch:
  fixes f :: "'a \<Rightarrow> string"
  shows "sort (map f (filter P xs)) = [] \<longleftrightarrow> list_all (\<lambda>x. \<not> P x) xs"
proof -
  have "sort ys = [] \<longleftrightarrow> ys = []" for ys :: "string list"
    by (metis length_0_conv length_sort)
  then show ?thesis by (simp add: filter_empty_conv list_all_iff)
qed

lemma read_packages_typed:
  "read_packages script d s = Inr s' \<Longrightarrow>
     packages_ok script s' \<and> gpus_ok s' = gpus_ok s \<and> modules_ok s' = modules_ok s
     \<and> identity_ok timestamp source s' = identity_ok timestamp source s
     \<and> rs_source_binding s' = rs_source_binding s"
  unfolding read_packages_def Let_def chain_iffs no_mismatch not_not backend_of_def [symmetric] worded_Inr_iff
    sum.inject
  by (elim exE conjE, hypsubst) (simp add: packages_ok_def gpus_ok_def modules_ok_def identity_ok_def bundle_ok_def,
      blast intro: load_packages_typed load_introduced_typed load_package_payloads_typed load_files_typed
        load_commands_typed)

lemma read_integrity_typed:
  "read_integrity d s = Inr s' \<Longrightarrow>
     (\<exists>digest. rs_integrity_sha256 s' = Some digest \<and> hex_of_length 64 digest)
     \<and> packages_ok script s' = packages_ok script s \<and> gpus_ok s' = gpus_ok s
     \<and> modules_ok s' = modules_ok s \<and> identity_ok timestamp source s' = identity_ok timestamp source s
     \<and> rs_source_binding s' = rs_source_binding s"
  unfolding read_integrity_def chain_iffs
  by (elim exE conjE) (auto simp: packages_ok_def gpus_ok_def modules_ok_def identity_ok_def)

lemma check_whole_Inr_iff:
  "check_whole sha256 script s = Inr s' \<longleftrightarrow>
     s' = s \<and> snapshot_service_state_consistency_error s = None
     \<and> rollback_commands script (rs_packages s) (rs_package_manager s) (rs_introduced_packages s) False
         (rs_path s) (rs_package_payloads s) None None = Inr (rs_commands s)
     \<and> rs_integrity_sha256 s = Some (snapshot_integrity sha256 s)"
  by (auto simp: check_whole_def chain_iffs worded_Inr_iff split: option.split)

lemma read_snapshot_well_formed:
  assumes "read_snapshot sha256 timestamp script source v = Inr s"
  shows "well_formed_snapshot sha256 timestamp script source s"
proof -
  obtain d s1 s2 s3 s4 s5 s6 where
    "read_identity timestamp source d blank_snapshot = Inr s1" "read_modules d s1 = Inr s2"
    "read_units d s2 = Inr s3" "read_gpus d s3 = Inr s4" "read_packages script d s4 = Inr s5"
    "read_integrity d s5 = Inr s6" "check_whole sha256 script s6 = Inr s"
    using assms by (cases v) (auto simp: read_snapshot_def bind_r_Inr_iff)
  show ?thesis
    using read_identity_typed [OF \<open>read_identity timestamp source d blank_snapshot = Inr s1\<close>]
      read_modules_typed [OF \<open>read_modules d s1 = Inr s2\<close>, of timestamp source]
      read_units_typed [OF \<open>read_units d s2 = Inr s3\<close>, of timestamp source]
      read_gpus_typed [OF \<open>read_gpus d s3 = Inr s4\<close>, of timestamp source]
      read_packages_typed [OF \<open>read_packages script d s4 = Inr s5\<close>, of timestamp source]
      read_integrity_typed [OF \<open>read_integrity d s5 = Inr s6\<close>, of script timestamp source]
      \<open>check_whole sha256 script s6 = Inr s\<close>
    by (auto simp: check_whole_Inr_iff well_formed_snapshot_def whole_ok_def blank_snapshot_def)
qed

end
