(* ===== verification/SnapshotRoundtrip.thy ===== *)
theory SnapshotRoundtrip
  imports SnapshotWhole
begin

text \<open>
  A snapshot of the type, written field by field, is loaded as itself.
\<close>

section \<open>What is loaded back\<close>

lemma snapshot_reads:
  "jget_or_null ''path'' (snapshot_fields s) = json_opt JStr (rs_path s)"
  "jget_or_null ''packages'' (snapshot_fields s) = JList (map package_json (rs_packages s))"
  "jget_or_null ''kernel'' (snapshot_fields s) = JStr (rs_kernel s)"
  "jget_or_null ''module_version'' (snapshot_fields s) = json_opt JStr (rs_module_version s)"
  "jget_or_null ''commands'' (snapshot_fields s) = JList (map json_strs (rs_commands s))"
  "jget_or_null ''schema_version'' (snapshot_fields s) = JStr (rs_schema_version s)"
  "jget_or_null ''created_at'' (snapshot_fields s) = JStr (rs_created_at s)"
  "jget_or_null ''operation_id'' (snapshot_fields s) = JStr (rs_operation_id s)"
  "jget_or_null ''host_id'' (snapshot_fields s) = JStr (rs_host_id s)"
  "jget_or_null ''os_id'' (snapshot_fields s) = json_opt JStr (rs_os_id s)"
  "jget_or_null ''os_version'' (snapshot_fields s) = json_opt JStr (rs_os_version s)"
  "jget_or_null ''architecture'' (snapshot_fields s) = JStr (rs_architecture s)"
  "jget_or_null ''package_manager'' (snapshot_fields s) = json_opt JStr (rs_package_manager s)"
  "jget_or_null ''introduced_packages'' (snapshot_fields s) = json_strs (rs_introduced_packages s)"
  "jget_or_null ''module_loaded'' (snapshot_fields s) = JBool (rs_module_loaded s)"
  "jget_or_null ''module_names'' (snapshot_fields s) = json_strs (rs_module_names s)"
  "jget_or_null ''module_open_module'' (snapshot_fields s) = json_opt JBool (rs_module_open_module s)"
  "jget_or_null ''module_signed'' (snapshot_fields s) = json_opt JBool (rs_module_signed s)"
  "jget_or_null ''module_installed_version'' (snapshot_fields s) = json_opt JStr (rs_module_installed_version s)"
  "jget_or_null ''module_installed_open_module'' (snapshot_fields s) = json_opt JBool (rs_module_installed_open_module s)"
  "jget_or_null ''module_installed_signed'' (snapshot_fields s) = json_opt JBool (rs_module_installed_signed s)"
  "jget_or_null ''mig_mode'' (snapshot_fields s) = json_opt JStr (rs_mig_mode s)"
  "jget_or_null ''docker_service_active'' (snapshot_fields s) = json_opt JBool (rs_docker_service_active s)"
  "jget_or_null ''docker_service_enabled'' (snapshot_fields s) = json_opt JBool (rs_docker_service_enabled s)"
  "jget_or_null ''docker_service_unit_file_state'' (snapshot_fields s) = json_opt JStr (rs_docker_service_unit_file_state s)"
  "jget_or_null ''docker_socket_active'' (snapshot_fields s) = json_opt JBool (rs_docker_socket_active s)"
  "jget_or_null ''docker_socket_enabled'' (snapshot_fields s) = json_opt JBool (rs_docker_socket_enabled s)"
  "jget_or_null ''docker_socket_unit_file_state'' (snapshot_fields s) = json_opt JStr (rs_docker_socket_unit_file_state s)"
  "jget_or_null ''nvidia_persistenced_active'' (snapshot_fields s) = json_opt JBool (rs_nvidia_persistenced_active s)"
  "jget_or_null ''nvidia_persistenced_enabled'' (snapshot_fields s) = json_opt JBool (rs_nvidia_persistenced_enabled s)"
  "jget_or_null ''nvidia_persistenced_unit_file_state'' (snapshot_fields s) = json_opt JStr (rs_nvidia_persistenced_unit_file_state s)"
  "jget_or_null ''fabric_manager_active'' (snapshot_fields s) = json_opt JBool (rs_fabric_manager_active s)"
  "jget_or_null ''fabric_manager_enabled'' (snapshot_fields s) = json_opt JBool (rs_fabric_manager_enabled s)"
  "jget_or_null ''fabric_manager_unit_file_state'' (snapshot_fields s) = json_opt JStr (rs_fabric_manager_unit_file_state s)"
  "jget_or_null ''managed_files'' (snapshot_fields s) = JList (map managed_file_json (rs_managed_files s))"
  "jget_or_null ''package_payloads'' (snapshot_fields s) = json_opt bundle_json (rs_package_payloads s)"
  "jget_or_null ''gpu_uuids'' (snapshot_fields s) = json_strs (rs_gpu_uuids s)"
  "jget_or_null ''mig_geometry'' (snapshot_fields s) = JList (map instance_json (rs_mig_geometry s))"
  "jget_or_null ''integrity_sha256'' (snapshot_fields s) = json_opt JStr (rs_integrity_sha256 s)"
  by (simp_all add: snapshot_fields_def jget_or_null_def)

definition snapshot_keys :: "string list" where
  "snapshot_keys = keys (snapshot_fields blank_snapshot)"

lemma snapshot_fields_keys: "keys (snapshot_fields s) = snapshot_keys"
  by (simp add: snapshot_keys_def snapshot_fields_def keys_def)

lemma known_snapshot_keys:
  "filter (\<lambda>k. k \<notin> set snapshot_keys) required_fields = []"
  "filter (\<lambda>k. k \<notin> set required_fields) snapshot_keys = []"
  by code_simp+

lemma snapshot_fields_complete: "check_fields (snapshot_fields s) = Inr ()"
  by (simp add: check_fields_def snapshot_fields_keys known_snapshot_keys sorted_set_def)

lemma string_field_round: "jget_or_null k d = JStr x \<Longrightarrow> x \<noteq> [] \<Longrightarrow> string_field d k name = Inr x"
  by (simp add: string_field_def required_string_def)

lemma opt_string_field_round: "jget_or_null k d = json_opt JStr x \<Longrightarrow> filled x \<Longrightarrow> opt_string_field d k = Inr x"
  by (simp add: opt_string_field_def worded_Inr_iff optional_string_Inr_iff)

lemma bool_field_round: "jget_or_null k d = JBool b \<Longrightarrow> bool_field d k = Inr b"
  by (simp add: bool_field_def required_boolean_def)

lemma opt_bool_field_round: "jget_or_null k d = json_opt JBool x \<Longrightarrow> opt_bool_field d k = Inr x"
  by (simp add: opt_bool_field_def)

lemma read_identity_round:
  assumes s: "identity_ok timestamp source s"
  shows "read_identity timestamp source (snapshot_fields s) x = Inr (x\<lparr>rs_schema_version := rs_schema_version s,
     rs_path := rs_path s, rs_created_at := rs_created_at s, rs_operation_id := rs_operation_id s,
     rs_host_id := rs_host_id s, rs_os_id := rs_os_id s, rs_os_version := rs_os_version s,
     rs_architecture := rs_architecture s, rs_package_manager := rs_package_manager s,
     rs_kernel := rs_kernel s\<rparr>)"
proof -
  obtain path pm where path: "rs_path s = Some path" "path \<noteq> []" "path_text path = source"
    and pm: "rs_package_manager s = Some pm" "known_manager (Some pm)"
    using s by (auto simp: identity_ok_def bound_path_def known_manager_def split: option.split_asm)
  then have "pm \<noteq> []" by (auto simp: known_manager_def)
  have filled: "rs_schema_version s \<noteq> []" "rs_operation_id s \<noteq> []" "rs_created_at s \<noteq> []" "rs_host_id s \<noteq> []"
    "rs_architecture s \<noteq> []" "rs_kernel s \<noteq> []" "filled (rs_os_id s)" "filled (rs_os_version s)"
    using s by (auto simp: identity_ok_def hex_of_length_def snapshot_schema_version_def)
  let ?d = "snapshot_fields s"
  have reads: "string_field ?d ''schema_version'' ''schema_version'' = Inr (rs_schema_version s)"
    "string_field ?d ''path'' ''path'' = Inr path"
    "string_field ?d ''created_at'' ''created_at'' = Inr (rs_created_at s)"
    "string_field ?d ''operation_id'' ''operation_id'' = Inr (rs_operation_id s)"
    "string_field ?d ''host_id'' ''host_id'' = Inr (rs_host_id s)"
    "opt_string_field ?d ''os_id'' = Inr (rs_os_id s)" "opt_string_field ?d ''os_version'' = Inr (rs_os_version s)"
    "string_field ?d ''architecture'' ''architecture'' = Inr (rs_architecture s)"
    "string_field ?d ''package_manager'' ''package_manager'' = Inr pm"
    "string_field ?d ''kernel'' ''kernel'' = Inr (rs_kernel s)"
    using path pm \<open>pm \<noteq> []\<close> filled
    by (simp_all add: string_field_round opt_string_field_round snapshot_reads json_opt_def)
  show ?thesis
    using s path pm
    by (simp only: read_identity_def reads supported_manager bind_r_simps demand_True identity_ok_def
        not_True_eq_False if_False simp_thms)
qed

lemma known_mode: "m \<in> {None, Some ''enabled'', Some ''disabled''} \<Longrightarrow> filled m"
  by (auto simp: filled_def)

lemma read_modules_round:
  assumes s: "modules_ok s"
  shows "read_modules (snapshot_fields s) x = Inr (x\<lparr>rs_module_version := rs_module_version s,
     rs_module_loaded := rs_module_loaded s, rs_module_names := rs_module_names s,
     rs_module_open_module := rs_module_open_module s, rs_module_signed := rs_module_signed s,
     rs_module_installed_version := rs_module_installed_version s,
     rs_module_installed_open_module := rs_module_installed_open_module s,
     rs_module_installed_signed := rs_module_installed_signed s, rs_mig_mode := rs_mig_mode s\<rparr>)"
proof -
  let ?d = "snapshot_fields s"
  have mode: "rs_mig_mode s \<in> {None, Some ''enabled'', Some ''disabled''}" using s by (simp add: modules_ok_def)
  have reads: "opt_string_field ?d ''module_version'' = Inr (rs_module_version s)"
    "bool_field ?d ''module_loaded'' = Inr (rs_module_loaded s)"
    "opt_bool_field ?d ''module_open_module'' = Inr (rs_module_open_module s)"
    "opt_bool_field ?d ''module_signed'' = Inr (rs_module_signed s)"
    "opt_string_field ?d ''module_installed_version'' = Inr (rs_module_installed_version s)"
    "opt_bool_field ?d ''module_installed_open_module'' = Inr (rs_module_installed_open_module s)"
    "opt_bool_field ?d ''module_installed_signed'' = Inr (rs_module_installed_signed s)"
    "opt_string_field ?d ''mig_mode'' = Inr (rs_mig_mode s)"
    using s known_mode [OF mode]
    by (simp_all add: opt_string_field_round bool_field_round opt_bool_field_round snapshot_reads modules_ok_def)
  have "load_module_names (jget_or_null ''module_names'' ?d) (rs_module_loaded s) = Inr (rs_module_names s)"
    using s by (simp add: snapshot_reads load_modules_round modules_ok_def)
  then show ?thesis
    using mode by (simp only: read_modules_def reads bind_r_simps demand_True simp_thms)
qed

lemma known_unit:
  assumes "unit_state_consistency_error u x = None"
  obtains active enabled state where "us_active x = Some active" "us_enabled x = Some enabled"
    "us_file_state x = Some state" "state \<in> set snapshot_unit_file_states"
  using assms by (auto simp: unit_state_consistency_error_def split: if_split_asm)

lemma unit_file_state_round:
  "state \<in> set snapshot_unit_file_states \<Longrightarrow> required_unit_file_state (JStr state) name = Inr state"
  by (auto simp: required_unit_file_state_def required_string_def snapshot_unit_file_states_def)

lemma read_unit_round:
  assumes "unit_state_consistency_error u x = None"
    "jget_or_null (name @ ''_active'') d = json_opt JBool (us_active x)"
    "jget_or_null (name @ ''_enabled'') d = json_opt JBool (us_enabled x)"
    "jget_or_null (name @ ''_unit_file_state'') d = json_opt JStr (us_file_state x)"
  shows "read_unit d name = Inr x"
proof -
  obtain active enabled state where "us_active x = Some active" "us_enabled x = Some enabled"
    "us_file_state x = Some state" "state \<in> set snapshot_unit_file_states"
    using assms(1) by (rule known_unit)
  then show ?thesis
    using assms(2-) by (cases x) (simp add: read_unit_def bool_field_round unit_file_state_round json_opt_def)
qed

lemma read_units_round:
  assumes s: "snapshot_service_state_consistency_error s = None"
  shows "read_units (snapshot_fields s) x = Inr (x\<lparr>rs_docker_service_active := rs_docker_service_active s,
     rs_docker_service_enabled := rs_docker_service_enabled s,
     rs_docker_service_unit_file_state := rs_docker_service_unit_file_state s,
     rs_docker_socket_active := rs_docker_socket_active s, rs_docker_socket_enabled := rs_docker_socket_enabled s,
     rs_docker_socket_unit_file_state := rs_docker_socket_unit_file_state s,
     rs_nvidia_persistenced_active := rs_nvidia_persistenced_active s,
     rs_nvidia_persistenced_enabled := rs_nvidia_persistenced_enabled s,
     rs_nvidia_persistenced_unit_file_state := rs_nvidia_persistenced_unit_file_state s,
     rs_fabric_manager_active := rs_fabric_manager_active s,
     rs_fabric_manager_enabled := rs_fabric_manager_enabled s,
     rs_fabric_manager_unit_file_state := rs_fabric_manager_unit_file_state s\<rparr>)"
proof -
  let ?d = "snapshot_fields s"
  let ?u = "\<lambda>a e f. \<lparr>us_active = a, us_enabled = e, us_file_state = f\<rparr>"
  have "read_unit ?d ''docker_service'' = Inr (?u (rs_docker_service_active s) (rs_docker_service_enabled s)
      (rs_docker_service_unit_file_state s))"
    by (rule read_unit_round [of docker_service_unit]; use s in
      \<open>simp add: snapshot_service_state_consistency_error_def snapshot_units_def snapshot_reads split: option.splits\<close>)
  moreover have "read_unit ?d ''docker_socket'' = Inr (?u (rs_docker_socket_active s) (rs_docker_socket_enabled s)
      (rs_docker_socket_unit_file_state s))"
    by (rule read_unit_round [of docker_socket_unit]; use s in
      \<open>simp add: snapshot_service_state_consistency_error_def snapshot_units_def snapshot_reads split: option.splits\<close>)
  moreover have "read_unit ?d ''nvidia_persistenced'' = Inr (?u (rs_nvidia_persistenced_active s)
      (rs_nvidia_persistenced_enabled s) (rs_nvidia_persistenced_unit_file_state s))"
    by (rule read_unit_round [of nvidia_persistenced_unit]; use s in
      \<open>simp add: snapshot_service_state_consistency_error_def snapshot_units_def snapshot_reads split: option.splits\<close>)
  moreover have "read_unit ?d ''fabric_manager'' = Inr (?u (rs_fabric_manager_active s) (rs_fabric_manager_enabled s)
      (rs_fabric_manager_unit_file_state s))"
    by (rule read_unit_round [of fabric_manager_unit]; use s in
      \<open>simp add: snapshot_service_state_consistency_error_def snapshot_units_def snapshot_reads split: option.splits\<close>)
  ultimately show ?thesis by (simp add: read_units_def)
qed

lemma read_gpus_round:
  assumes s: "gpus_ok s" and x: "rs_mig_mode x = rs_mig_mode s"
  shows "read_gpus (snapshot_fields s) x = Inr (x\<lparr>rs_gpu_uuids := rs_gpu_uuids s, rs_mig_geometry := rs_mig_geometry s\<rparr>)"
  using s x by (simp add: read_gpus_def snapshot_reads gpus_ok_def load_uuids_round load_geometry_round demand_def)

lemma read_packages_round:
  assumes s: "packages_ok script s" and x: "rs_package_manager x = rs_package_manager s" "rs_path x = rs_path s"
  shows "read_packages script (snapshot_fields s) x = Inr (x\<lparr>rs_packages := rs_packages s,
     rs_introduced_packages := rs_introduced_packages s, rs_package_payloads := rs_package_payloads s,
     rs_managed_files := rs_managed_files s, rs_commands := rs_commands s\<rparr>)"
proof -
  obtain b where b: "rs_package_payloads s = Some b"
    "well_formed_bundle (or_empty (rs_package_manager s)) (or_empty (rs_path s)) (rs_packages s) b"
    using s by (auto simp: packages_ok_def bundle_ok_def split: option.split_asm)
  have reads: "load_packages (jget_or_null ''packages'' (snapshot_fields s)) = Inr (rs_packages s)"
    "load_introduced_packages (jget_or_null ''introduced_packages'' (snapshot_fields s)) = Inr (rs_introduced_packages s)"
    "load_package_payloads (jget_or_null ''package_payloads'' (snapshot_fields s)) (or_empty (rs_package_manager s))
      (rs_packages s) (or_empty (rs_path s)) = Inr b"
    "load_managed_files (jget_or_null ''managed_files'' (snapshot_fields s)) (or_empty (rs_package_manager s))
      = Inr (rs_managed_files s)"
    "load_commands script (jget_or_null ''commands'' (snapshot_fields s)) = Inr (rs_commands s)"
    using s b by (simp_all add: packages_ok_def snapshot_reads json_opt_def load_packages_round load_introduced_round
      load_package_payloads_round load_files_round load_commands_round)
  have "sort (map pi_name (filter (\<lambda>p. pi_manager p \<noteq> Some (backend_of (or_empty (rs_package_manager s))))
      (rs_packages s))) = []"
    unfolding no_mismatch using s by (simp add: packages_ok_def)
  then show ?thesis
    unfolding read_packages_def Let_def backend_of_def [symmetric]
    by (simp only: reads x worded_Inr bind_r_simps demand_True simp_thms b)
qed

lemma read_integrity_round:
  assumes "rs_integrity_sha256 s = Some digest" "hex_of_length 64 digest"
  shows "read_integrity (snapshot_fields s) x = Inr (x\<lparr>rs_integrity_sha256 := rs_integrity_sha256 s\<rparr>)"
proof -
  have "digest \<noteq> []" using assms(2) by (auto simp: hex_of_length_def)
  then show ?thesis
    using assms by (simp add: read_integrity_def string_field_round snapshot_reads json_opt_def)
qed

lemma all_fields_set:
  assumes "rs_source_binding s = None"
  shows "blank_snapshot\<lparr>rs_schema_version := rs_schema_version s, rs_path := rs_path s, rs_created_at
     := rs_created_at s, rs_operation_id := rs_operation_id s, rs_host_id := rs_host_id s, rs_os_id
     := rs_os_id s, rs_os_version := rs_os_version s, rs_architecture := rs_architecture s,
     rs_package_manager := rs_package_manager s, rs_kernel := rs_kernel s\<rparr>
     \<lparr>rs_module_version := rs_module_version s, rs_module_loaded := rs_module_loaded s,
     rs_module_names := rs_module_names s, rs_module_open_module := rs_module_open_module s,
     rs_module_signed := rs_module_signed s, rs_module_installed_version :=
     rs_module_installed_version s, rs_module_installed_open_module :=
     rs_module_installed_open_module s, rs_module_installed_signed := rs_module_installed_signed s,
     rs_mig_mode := rs_mig_mode s\<rparr> \<lparr>rs_docker_service_active :=
     rs_docker_service_active s, rs_docker_service_enabled := rs_docker_service_enabled s,
     rs_docker_service_unit_file_state := rs_docker_service_unit_file_state s,
     rs_docker_socket_active := rs_docker_socket_active s, rs_docker_socket_enabled :=
     rs_docker_socket_enabled s, rs_docker_socket_unit_file_state :=
     rs_docker_socket_unit_file_state s, rs_nvidia_persistenced_active :=
     rs_nvidia_persistenced_active s, rs_nvidia_persistenced_enabled :=
     rs_nvidia_persistenced_enabled s, rs_nvidia_persistenced_unit_file_state :=
     rs_nvidia_persistenced_unit_file_state s, rs_fabric_manager_active := rs_fabric_manager_active
     s, rs_fabric_manager_enabled := rs_fabric_manager_enabled s, rs_fabric_manager_unit_file_state
     := rs_fabric_manager_unit_file_state s\<rparr> \<lparr>rs_gpu_uuids := rs_gpu_uuids s,
     rs_mig_geometry := rs_mig_geometry s\<rparr> \<lparr>rs_packages := rs_packages s,
     rs_introduced_packages := rs_introduced_packages s, rs_package_payloads := rs_package_payloads
     s, rs_managed_files := rs_managed_files s, rs_commands := rs_commands s\<rparr>
     \<lparr>rs_integrity_sha256 := rs_integrity_sha256 s\<rparr> = s"
  using assms by (cases s) (simp add: blank_snapshot_def)

lemma snapshot_loads_back:
  assumes s: "well_formed_snapshot sha256 timestamp script source s"
  shows "read_snapshot sha256 timestamp script source (JObj (snapshot_fields s)) = Inr s"
proof -
  note ok = s [unfolded well_formed_snapshot_def whole_ok_def]
  have "read_integrity (snapshot_fields s) x = Inr (x\<lparr>rs_integrity_sha256 := rs_integrity_sha256 s\<rparr>)" for x
    using ok by (intro read_integrity_round) auto
  moreover have "identity_ok timestamp source s" "modules_ok s" "gpus_ok s" "packages_ok script s"
    "snapshot_service_state_consistency_error s = None" "rs_source_binding s = None"
    using ok by auto
  ultimately have "read_snapshot sha256 timestamp script source (JObj (snapshot_fields s)) = check_whole sha256 script s"
    by (simp add: read_snapshot_def snapshot_fields_complete read_identity_round read_modules_round
        read_units_round read_gpus_round read_packages_round all_fields_set)
  then show ?thesis using ok by (simp add: check_whole_Inr_iff)
qed

end
