(* ===== verification/SnapshotProps.thy ===== *)
theory SnapshotProps
  imports SnapshotRoundtrip SnapshotSample
begin

text \<open>
  What loading a snapshot means: the type of the loaded object, and the round trip of the document.
\<close>

lemma loaded_snapshot_read:
  assumes "fst (run_state (load_snapshot H path private) st) = Inr s"
  obtains v where "read_snapshot (sn_sha256 H) (sn_timestamp H) (sn_script H) (path_text (abspath (sn_cwd H) path)) v
    = Inr (without_binding s)"
proof -
  let ?source = "path_text (abspath (sn_cwd H) path)"
  obtain source st' where run: "run_state (on_world (sn_read H ?source private)) st = (source, st')"
    by (cases "run_state (on_world (sn_read H ?source private)) st")
  obtain v t where v: "read_snapshot (sn_sha256 H) (sn_timestamp H) (sn_script H) ?source v = Inr t"
    and s: "s = bind_source H ?source source t"
    using assms run by (auto simp: load_snapshot_def Let_def and_then_def bind_r_Inr_iff
        split: sum.split_asm prod.split_asm)
  have "rs_source_binding t = None"
    using read_snapshot_well_formed [OF v] by (simp add: well_formed_snapshot_def)
  then have "without_binding s = t"
    unfolding s by (cases t) (auto simp: bind_source_def without_binding_def split: trusted_read.split)
  then show thesis using that v by blast
qed

text \<open>C19. Whatever the file holds, a snapshot that loading returns has the type of a snapshot: every field
  of the right form, packages, payloads, GPUs, placements and managed files without duplicates, a payload
  manifest that is one-to-one with the packages, only commands of the allow-list, exactly those the builder
  makes from the declared packages, a consistent launcher state, and the digest of its own content.\<close>

theorem loaded_snapshot_typed:
  assumes "fst (run_state (load_snapshot H path private) st) = Inr s"
  shows "well_formed_snapshot (sn_sha256 H) (sn_timestamp H) (sn_script H) (path_text (abspath (sn_cwd H) path))
    (without_binding s)"
  using assms by (rule loaded_snapshot_read) (rule read_snapshot_well_formed)

theorem loaded_snapshot_typed_witness:
  "well_formed_snapshot (\<lambda>_. payload_digest) (\<lambda>_. True) ''import dnf'' stored_path (without_binding stored_snapshot)"
proof -
  have "sn_sha256 stored_host = (\<lambda>_. payload_digest)" "sn_timestamp stored_host = (\<lambda>_. True)"
    "sn_script stored_host = ''import dnf''" "path_text (abspath (sn_cwd stored_host) stored_path) = stored_path"
    by (simp_all add: stored_checks)
  then show ?thesis
    using loaded_snapshot_typed [OF stored_load [of "sample_session"]] by simp
qed

text \<open>C20. Round trip: a snapshot written field by field is loaded as itself exactly when it has the type; so
  the loader refuses no snapshot of the type and the writer loses no field.\<close>

theorem snapshot_round_trip:
  "read_snapshot sha256 timestamp script source (JObj (snapshot_fields s)) = Inr s
     \<longleftrightarrow> well_formed_snapshot sha256 timestamp script source s"
  using snapshot_loads_back read_snapshot_well_formed by blast

end
