(* ===== verification/CudaCompat.thy ===== *)
theory CudaCompat
  imports Models
begin

text \<open>
  CUDA compatibility (\<open>nvidia_converge/cuda_compat.py\<close>): the vendor's forward-compatibility
  matrix, the native minor-version driver floor, and the names of the compatibility
  packages.  The ctypes probe script run on the host is not modelled.
\<close>

datatype compat_status = Compatible | NotApplicable | Unsupported | Unknown

definition cuda_forward_compatibility :: "(string \<times> (string \<times> compat_status) list) list" where
  "cuda_forward_compatibility = [
  (''12.2'', [(''535'', NotApplicable), (''570'', Unsupported), (''580'', Unsupported), (''590'', Unsupported), (''595'', Unsupported), (''610'', Unsupported)]),
  (''12.3'', [(''535'', Compatible), (''570'', Unsupported), (''580'', Unsupported), (''590'', Unsupported), (''595'', Unsupported), (''610'', Unsupported)]),
  (''12.4'', [(''535'', Compatible), (''570'', Unsupported), (''580'', Unsupported), (''590'', Unsupported), (''595'', Unsupported), (''610'', Unsupported)]),
  (''12.5'', [(''535'', Compatible), (''570'', Unsupported), (''580'', Unsupported), (''590'', Unsupported), (''595'', Unsupported), (''610'', Unsupported)]),
  (''12.6'', [(''535'', Compatible), (''570'', Unsupported), (''580'', Unsupported), (''590'', Unsupported), (''595'', Unsupported), (''610'', Unsupported)]),
  (''12.8'', [(''535'', Compatible), (''570'', NotApplicable), (''580'', Unsupported), (''590'', Unsupported), (''595'', Unsupported), (''610'', Unsupported)]),
  (''12.9'', [(''535'', Compatible), (''570'', Compatible), (''580'', Unsupported), (''590'', Unsupported), (''595'', Unsupported), (''610'', Unsupported)]),
  (''13.0'', [(''535'', Compatible), (''570'', Compatible), (''580'', NotApplicable), (''590'', Unsupported), (''595'', Unsupported), (''610'', Unsupported)]),
  (''13.1'', [(''535'', Compatible), (''570'', Compatible), (''580'', Compatible), (''590'', NotApplicable), (''595'', Unsupported), (''610'', Unsupported)]),
  (''13.2'', [(''535'', Compatible), (''570'', Compatible), (''580'', Compatible), (''590'', Compatible), (''595'', NotApplicable), (''610'', Unsupported)]),
  (''13.3'', [(''535'', Compatible), (''570'', Compatible), (''580'', Compatible), (''590'', Compatible), (''595'', Compatible), (''610'', NotApplicable)])]"

definition cuda_minor_compatibility_minimum :: "(string \<times> nat) list" where
  "cuda_minor_compatibility_minimum = [(''12'', 525), (''13'', 580)]"

definition cuda_compat_package_name :: "string \<Rightarrow> string" where
  "cuda_compat_package_name version =
     ''cuda-compat-'' @ map (\<lambda>c. if c = CHR ''.'' then CHR ''-'' else c) version"

definition cuda_forward_compatibility_status :: "string \<Rightarrow> string \<Rightarrow> compat_status" where
  "cuda_forward_compatibility_status major version =
     (case map_of cuda_forward_compatibility version of
        None \<Rightarrow> Unknown
      | Some row \<Rightarrow> (case map_of row major of None \<Rightarrow> Unknown | Some s \<Rightarrow> s))"

definition cuda_minor_compatibility_minimum_driver :: "string \<Rightarrow> nat option" where
  "cuda_minor_compatibility_minimum_driver version =
     (if map_of cuda_forward_compatibility version = None then None
      else (case partition_at CHR ''.'' version of
              (major, separator, minor) \<Rightarrow>
                if \<not> separator then None
                else map_of cuda_minor_compatibility_minimum major))"

definition cuda_minor_compatibility_status :: "string \<Rightarrow> string \<Rightarrow> compat_status" where
  "cuda_minor_compatibility_status major version =
     (case cuda_minor_compatibility_minimum_driver version of
        None \<Rightarrow> Unknown
      | Some minimum \<Rightarrow>
          if \<not> isdecimal major then Unknown
          else if minimum \<le> digits_val major then Compatible else Unsupported)"

definition cuda_compat_library_path :: "string \<Rightarrow> string" where
  "cuda_compat_library_path version = ''/usr/local/cuda-'' @ version @ ''/compat/libcuda.so.1''"

text \<open>\<open>^cuda-compat-(\d+)-(\d+)$\<close>, the whole name: the two digit groups, joined by a dot.\<close>

definition cuda_compat_version_from_package :: "string \<Rightarrow> string option" where
  "cuda_compat_version_from_package name =
     (if startswith name ''cuda-compat-''
      then (case partition_at CHR ''-'' (drop (length ''cuda-compat-'') name) of
              (major, separator, minor) \<Rightarrow>
                if separator \<and> isdecimal major \<and> isdecimal minor
                then Some (major @ ''.'' @ minor) else None)
      else None)"

definition find_cuda_compat_package :: "string \<Rightarrow> package_info list \<Rightarrow> package_info option" where
  "find_cuda_compat_package version packages =
     find (\<lambda>p. pi_installed p \<and> pi_name p = cuda_compat_package_name version) packages"

definition find_cuda_compatibility ::
  "string \<Rightarrow> cuda_compatibility_info list \<Rightarrow> cuda_compatibility_info option" where
  "find_cuda_compatibility version observations =
     find (\<lambda>ob. cci_version ob = version) observations"

section \<open>Lemmas\<close>

lemma minimum_driver_values:
  "cuda_minor_compatibility_minimum_driver version = Some n \<Longrightarrow> n = 525 \<or> n = 580"
  by (auto simp: cuda_minor_compatibility_minimum_driver_def cuda_minor_compatibility_minimum_def
        split: if_splits prod.splits)

lemma minor_status_cases:
  "cuda_minor_compatibility_status major version \<in> {Compatible, Unsupported, Unknown}"
  by (simp add: cuda_minor_compatibility_status_def split: option.split)

lemma minor_compatibleD:
  assumes "cuda_minor_compatibility_status major version = Compatible"
  obtains n where "cuda_minor_compatibility_minimum_driver version = Some n"
    "isdecimal major" "n \<le> digits_val major"
  using assms
  by (auto simp: cuda_minor_compatibility_status_def split: option.splits if_splits)

text \<open>A newer driver branch never loses native compatibility.\<close>

lemma minor_compatible_mono:
  assumes "cuda_minor_compatibility_status major version = Compatible"
    and "isdecimal major'" and "digits_val major \<le> digits_val major'"
  shows "cuda_minor_compatibility_status major' version = Compatible"
  using assms by (auto simp: cuda_minor_compatibility_status_def split: option.splits if_splits)

lemma partition_at_append:
  "c \<notin> set a \<Longrightarrow> partition_at c (a @ c # b) = (a, True, b)"
  by (induction a) auto

lemma isdecimal_no: "isdecimal s \<Longrightarrow> \<not> is_digit c \<Longrightarrow> c \<notin> set s"
  by (auto simp: isdecimal_def list_all_iff)

text \<open>A package name determines the CUDA version it was built from.\<close>

lemma version_from_package_name:
  assumes "isdecimal major" and "isdecimal minor"
  shows "cuda_compat_version_from_package (cuda_compat_package_name (major @ ''.'' @ minor))
    = Some (major @ ''.'' @ minor)"
proof -
  have nd: "CHR ''-'' \<notin> set major" "CHR ''.'' \<notin> set major" "CHR ''.'' \<notin> set minor"
    using assms isdecimal_no by (auto simp: is_digit_def cp_def)
  then have same: "map (\<lambda>c. if c = CHR ''.'' then CHR ''-'' else c) major = major"
    "map (\<lambda>c. if c = CHR ''.'' then CHR ''-'' else c) minor = minor"
    by (auto intro!: map_idI)
  show ?thesis
    using assms nd
    by (simp add: cuda_compat_version_from_package_def cuda_compat_package_name_def same
          startswith_def partition_at_append)
qed

end
