(* ===== verification/Desired.thy ===== *)
theory Desired
  imports CudaCompat
begin

text \<open>
  The desired state (\<open>nvidia_converge/desired.py\<close>): reading the configuration file, the small
  YAML subset, the field checks, and the qualification of the container image against the
  driver branch.  Reading the file and \<open>json.loads\<close> are arguments of the model (the file reader
  returns the text or an error; the JSON reader is given the hook it calls on each object).
\<close>

datatype desired_error =
    CannotRead string
  | InvalidJson
  | TooDeeplyNested
  | InvalidFile yaml_error
  | UnexpectedWrapperFields "string list"
  | NotAnObject
  | UnknownFields "string list"
  | FabricManagerNotBool
  | FieldNotString string
  | FieldNotAllowed string
  | DriverPattern
  | CudaCompatPattern
  | CudaCompatNotNone
  | MigProfileMismatch string
  | ImageNotPinned
  | ImageWithoutCudaVersion
  | ImageNotDevel
  | ImageCudaUnknown string
  | ImageCudaUnsupported string "nat option"
  and yaml_error =
    UnsupportedLine string
  | DuplicateOrEmptyKey string
  | DuplicateJsonKey string
  | JsonNotAnObject
  | MixedQuoting string
  | NestedQuoting string
  | StrayQuote string
  | UnbalancedQuoting string

section \<open>Patterns\<close>

text \<open>\<open>\d+\.\d+\<close> and \<open>\d+\.\d+\.\d+\<close>, the whole text.\<close>

definition is_version2 :: "string \<Rightarrow> bool" where
  "is_version2 s \<longleftrightarrow> (case split_on CHR ''.'' s of [a, b] \<Rightarrow> isdecimal a \<and> isdecimal b | _ \<Rightarrow> False)"

definition is_version3 :: "string \<Rightarrow> bool" where
  "is_version3 s \<longleftrightarrow>
     (case split_on CHR ''.'' s of [a, b, c] \<Rightarrow> isdecimal a \<and> isdecimal b \<and> isdecimal c | _ \<Rightarrow> False)"

text \<open>\<open>^\d+(?:-open|\.\d+(?:\.\d+)?)?$\<close>\<close>

definition driver_pattern :: "string \<Rightarrow> bool" where
  "driver_pattern = match_dollar (\<lambda>s.
     isdecimal s \<or> (endswith s ''-open'' \<and> isdecimal (take (length s - length ''-open'') s))
     \<or> is_version2 s \<or> is_version3 s)"

text \<open>\<open>^(?:none|\d+\.\d+)$\<close>\<close>

definition cuda_compat_pattern :: "string \<Rightarrow> bool" where
  "cuda_compat_pattern = match_dollar (\<lambda>s. s = ''none'' \<or> is_version2 s)"

text \<open>\<open>^nvidia/cuda:[A-Za-z0-9][A-Za-z0-9._-]{0,127}@sha256:[a-f0-9]{64}$\<close>\<close>

definition is_tag_char :: "char \<Rightarrow> bool" where
  "is_tag_char c \<longleftrightarrow> is_alnum c \<or> c \<in> {CHR ''.'', CHR ''_'', CHR ''-''}"

definition is_image_tag :: "string \<Rightarrow> bool" where
  "is_image_tag t \<longleftrightarrow>
     (case t of [] \<Rightarrow> False
      | c # cs \<Rightarrow> is_alnum c \<and> length cs \<le> 127 \<and> list_all is_tag_char cs)"

definition container_image_pattern :: "string \<Rightarrow> bool" where
  "container_image_pattern = match_dollar (\<lambda>s.
     startswith s ''nvidia/cuda:''
     \<and> (case partition_at CHR ''@'' (drop (length ''nvidia/cuda:'') s) of
          (tag, found, digest) \<Rightarrow>
            found \<and> is_image_tag tag \<and> startswith digest ''sha256:''
            \<and> hex_of_length 64 (drop (length ''sha256:'') digest)))"

text \<open>\<open>^(?P<version>\d+\.\d+\.\d+)(?:-|$)\<close>, matched at the start of the tag: the version.\<close>

definition container_cuda_tag :: "string \<Rightarrow> string option" where
  "container_cuda_tag tag =
     (let v = head_before CHR ''-'' tag
      in if is_version3 v then Some v
         else if v = tag \<and> v \<noteq> [] \<and> cp (last v) = 10 \<and> is_version3 (butlast v) then Some (butlast v)
         else None)"

text \<open>\<open>^\d+\.\d+\.\d+(?:-[A-Za-z0-9._]+)*-devel(?:-[A-Za-z0-9._]+)*$\<close>, the whole tag.\<close>

definition container_devel_tag_pattern :: "string \<Rightarrow> bool" where
  "container_devel_tag_pattern tag \<longleftrightarrow>
     (case split_on CHR ''-'' tag of
        [] \<Rightarrow> False
      | v # parts \<Rightarrow>
          is_version3 v \<and> ''devel'' \<in> set parts
          \<and> list_all (\<lambda>p. p \<noteq> [] \<and> list_all (\<lambda>c. is_alnum c \<or> c \<in> {CHR ''.'', CHR ''_''}) p) parts)"

section \<open>The CUDA version of the image\<close>

definition image_tag :: "string \<Rightarrow> string" where
  "image_tag img = head_before CHR ''@'' (removeprefix ''nvidia/cuda:'' img)"

definition container_cuda_full_version :: "string \<Rightarrow> string option" where
  "container_cuda_full_version img =
     (if \<not> startswith img ''nvidia/cuda:'' then None
      else container_cuda_tag (image_tag img))"

definition container_cuda_version :: "string \<Rightarrow> string option" where
  "container_cuda_version img =
     (case container_cuda_full_version img of
        None \<Rightarrow> None
      | Some v \<Rightarrow> Some (case rpartition_at CHR ''.'' v of
                          (major_minor, found, patch) \<Rightarrow> if found then major_minor else v))"

definition container_cuda_minor_compatibility_status ::
  "desired_state \<Rightarrow> string option \<Rightarrow> compat_status" where
  "container_cuda_minor_compatibility_status d major =
     (case container_cuda_version (ds_container_test_image d) of
        None \<Rightarrow> Unknown
      | Some version \<Rightarrow>
          cuda_minor_compatibility_status
            (case major of Some (c # cs) \<Rightarrow> c # cs | _ \<Rightarrow> driver_major d) version)"

section \<open>Field checks\<close>

definition allowed_values :: "(string \<times> (desired_state \<Rightarrow> string) \<times> string list) list" where
  "allowed_values =
     [(''role'', ds_role, [''compute'']),
      (''secure_boot'', ds_secure_boot, [''signed'', ''disabled'']),
      (''container_runtime'', ds_container_runtime, [''docker'']),
      (''mig'', ds_mig, [''disabled'', ''enabled'']),
      (''mig_profile'', ds_mig_profile, [''none'', ''full'']),
      (''kernel_policy'', ds_kernel_policy, [''pin-compatible''])]"

definition validate_desired :: "desired_state \<Rightarrow> desired_error + unit" where
  "validate_desired d =
     (case find (\<lambda>(field, get, allowed). get d \<notin> set allowed) allowed_values of
        Some (field, _, _) \<Rightarrow> Inl (FieldNotAllowed field)
      | None \<Rightarrow>
      if \<not> driver_pattern (ds_driver d) then Inl DriverPattern
      else if \<not> cuda_compat_pattern (ds_cuda_compat d) then Inl CudaCompatPattern
      else if ds_cuda_compat d \<noteq> ''none'' then Inl CudaCompatNotNone
      else
        let expected = (if ds_mig d = ''enabled'' then ''full'' else ''none'')
        in if ds_mig_profile d \<noteq> expected then Inl (MigProfileMismatch expected)
      else if \<not> container_image_pattern (ds_container_test_image d) then Inl ImageNotPinned
      else (case container_cuda_version (ds_container_test_image d) of
              None \<Rightarrow> Inl ImageWithoutCudaVersion
            | Some version \<Rightarrow>
                if \<not> container_devel_tag_pattern (image_tag (ds_container_test_image d))
                then Inl ImageNotDevel
                else (case container_cuda_minor_compatibility_status d None of
                        Unknown \<Rightarrow> Inl (ImageCudaUnknown version)
                      | Unsupported \<Rightarrow>
                          Inl (ImageCudaUnsupported version
                            (cuda_minor_compatibility_minimum_driver version))
                      | _ \<Rightarrow> Inr ())))"

text \<open>
  \<open>_DESIRED_FIELDS\<close> is a Python set; only the field an error names depends on its order, and
  the model takes the order of the dataclass.
\<close>

definition desired_fields :: "string list" where
  "desired_fields =
     [''role'', ''driver'', ''cuda_compat'', ''secure_boot'', ''container_runtime'',
      ''container_test_image'', ''fabric_manager'', ''mig'', ''mig_profile'', ''kernel_policy'']"

text \<open>\<open>DesiredState(**values)\<close>: a given field replaces the default.\<close>

definition str_field :: "string \<Rightarrow> (string \<times> json) list \<Rightarrow> string \<Rightarrow> string" where
  "str_field k values dflt = (case map_of values k of Some (JStr s) \<Rightarrow> s | _ \<Rightarrow> dflt)"

definition desired_of_values :: "(string \<times> json) list \<Rightarrow> desired_state" where
  "desired_of_values values =
     \<lparr>ds_role = str_field ''role'' values (ds_role default_desired),
      ds_driver = str_field ''driver'' values (ds_driver default_desired),
      ds_cuda_compat = str_field ''cuda_compat'' values (ds_cuda_compat default_desired),
      ds_secure_boot = str_field ''secure_boot'' values (ds_secure_boot default_desired),
      ds_container_runtime =
        str_field ''container_runtime'' values (ds_container_runtime default_desired),
      ds_container_test_image =
        str_field ''container_test_image'' values (ds_container_test_image default_desired),
      ds_fabric_manager =
        (case map_of values ''fabric_manager'' of Some (JBool b) \<Rightarrow> b
         | _ \<Rightarrow> ds_fabric_manager default_desired),
      ds_mig = str_field ''mig'' values (ds_mig default_desired),
      ds_mig_profile = str_field ''mig_profile'' values (ds_mig_profile default_desired),
      ds_kernel_policy = str_field ''kernel_policy'' values (ds_kernel_policy default_desired)\<rparr>"

definition build_desired :: "(string \<times> json) list \<Rightarrow> desired_error + desired_state" where
  "build_desired values =
     (if (case map_of values ''fabric_manager'' of None \<Rightarrow> False | Some v \<Rightarrow> \<not> is_jbool v)
      then Inl FabricManagerNotBool
      else (case find (\<lambda>(field, v). field \<noteq> ''fabric_manager'' \<and> \<not> is_jstr v) values of
              Some (field, _) \<Rightarrow> Inl (FieldNotString field)
            | None \<Rightarrow>
                bind_r (validate_desired (desired_of_values values))
                  (\<lambda>_. Inr (desired_of_values values))))"

section \<open>The YAML subset\<close>

text \<open>
  \<open>_strip_inline_comment\<close>: the loop state is the open quote and the previous character; the
  already read prefix is kept reversed.
\<close>

fun strip_comment_loop :: "char option \<Rightarrow> string \<Rightarrow> string \<Rightarrow> string option" where
  "strip_comment_loop quote done' [] =
     (if quote \<noteq> None then None else Some (rev done'))"
| "strip_comment_loop quote done' (c # s) =
     (let quote' =
        (if cp c = 39 \<or> cp c = 34
         then (if quote = Some c then None else if quote = None then Some c else quote)
         else quote)
      in if c = CHR ''#'' \<and> quote' = None \<and> (done' = [] \<or> py_isspace (hd done'))
         then Some (rstrip (rev done'))
         else strip_comment_loop quote' (c # done') s)"

definition strip_inline_comment :: "string \<Rightarrow> yaml_error + string" where
  "strip_inline_comment value =
     (case strip_comment_loop None [] value of
        None \<Rightarrow> Inl (UnbalancedQuoting value) | Some v \<Rightarrow> Inr v)"

definition is_quote :: "char \<Rightarrow> bool" where
  "is_quote c \<longleftrightarrow> cp c = 39 \<or> cp c = 34"

definition coerce_scalar :: "string \<Rightarrow> yaml_error + json" where
  "coerce_scalar value =
     (let starts_quoted = (value \<noteq> [] \<and> is_quote (hd value));
          ends_quoted = (value \<noteq> [] \<and> is_quote (last value))
      in if starts_quoted \<or> ends_quoted then
           (if \<not> starts_quoted \<or> \<not> ends_quoted \<or> hd value \<noteq> last value
            then Inl (MixedQuoting value)
            else if list_ex is_quote (butlast (tl value)) then Inl (NestedQuoting value)
            else Inr (JStr (butlast (tl value))))
         else if list_ex is_quote value then Inl (StrayQuote value)
         else if lower value = ''true'' then Inr (JBool True)
         else if lower value = ''false'' then Inr (JBool False)
         else Inr (JStr value))"

text \<open>
  The parser's dictionaries are mutable and the stack holds references to them.  Each
  dictionary is reached by one path of keys from the root and no entry is ever replaced, so
  the model keeps the root and a stack of paths, and writes through the path.
\<close>

fun dict_at :: "string list \<Rightarrow> (string \<times> json) list \<Rightarrow> (string \<times> json) list" where
  "dict_at [] root = root"
| "dict_at (k # ks) root =
     (case map_of root k of Some (JObj kvs) \<Rightarrow> dict_at ks kvs | _ \<Rightarrow> [])"

fun dict_put :: "string list \<Rightarrow> string \<Rightarrow> json \<Rightarrow> (string \<times> json) list \<Rightarrow> (string \<times> json) list" where
  "dict_put [] key v root = root @ [(key, v)]"
| "dict_put (k # ks) key v root =
     map (\<lambda>(k', w). if k' = k then (k', case w of JObj kvs \<Rightarrow> JObj (dict_put ks key v kvs) | _ \<Rightarrow> w)
                    else (k', w)) root"

type_synonym yaml_state = "(string \<times> json) list \<times> (int \<times> string list) list"

fun pop_deeper :: "int \<Rightarrow> (int \<times> string list) list \<Rightarrow> (int \<times> string list) list" where
  "pop_deeper indent [] = []"
| "pop_deeper indent ((i, p) # stack) =
     (if indent \<le> i then pop_deeper indent stack else (i, p) # stack)"

definition skipped_line :: "string \<Rightarrow> bool" where
  "skipped_line stripped \<longleftrightarrow>
     stripped = [] \<or> startswith stripped ''#'' \<or> stripped = ''---'' \<or> stripped = ''...''"

definition yaml_line :: "yaml_state \<Rightarrow> string \<Rightarrow> yaml_error + yaml_state" where
  "yaml_line st raw_line =
     (case st of (root, stack) \<Rightarrow>
      let stripped = strip raw_line
      in if skipped_line stripped then Inr st
         else
           let indent = int (length (takeWhile (\<lambda>c. c = CHR '' '') raw_line))
           in if CHR '':'' \<notin> set raw_line then Inl (UnsupportedLine raw_line)
              else (case partition_at CHR '':'' stripped of (key, _, value) \<Rightarrow>
                let stack' = pop_deeper indent stack;
                    path = (case stack' of [] \<Rightarrow> [] | (_, p) # _ \<Rightarrow> p);
                    parent = dict_at path root
                in if key = [] \<or> key \<in> set (keys parent)
                   then Inl (DuplicateOrEmptyKey (if key = [] then ''<empty>'' else key))
                   else bind_r (strip_inline_comment (strip value)) (\<lambda>value.
                     if value = []
                     then Inr (dict_put path key (JObj []) root, (indent, path @ [key]) # stack')
                     else bind_r (coerce_scalar value) (\<lambda>v.
                       Inr (dict_put path key v root, stack')))))"

definition parse_simple_yaml :: "string \<Rightarrow> yaml_error + (string \<times> json) list" where
  "parse_simple_yaml text =
     bind_r (fold_e yaml_line ([], [(-1, [])]) (splitlines text)) (\<lambda>(root, _). Inr root)"

section \<open>Loading\<close>

fun object_without_duplicates :: "(string \<times> json) list \<Rightarrow> (string \<times> json) list \<Rightarrow> yaml_error + json" where
  "object_without_duplicates result [] = Inr (JObj result)"
| "object_without_duplicates result ((key, value) # pairs) =
     (if key \<in> set (keys result) then Inl (DuplicateJsonKey key)
      else object_without_duplicates (result @ [(key, value)]) pairs)"

definition parse_structured ::
  "yaml_error json_loads \<Rightarrow> string \<Rightarrow> desired_error + (string \<times> json) list" where
  "parse_structured loads text =
     (let stripped = lstrip text
      in if startswith stripped ''{'' \<or> startswith stripped ''['' then
           (case loads (object_without_duplicates []) text of
              JSONDecodeError \<Rightarrow> Inl InvalidJson
            | RecursionError \<Rightarrow> Inl TooDeeplyNested
            | HookError e \<Rightarrow> Inl (InvalidFile e)
            | Loaded (JObj kvs) \<Rightarrow> Inr kvs
            | Loaded _ \<Rightarrow> Inl (InvalidFile JsonNotAnObject))
         else (case parse_simple_yaml text of
                 Inl e \<Rightarrow> Inl (InvalidFile e) | Inr kvs \<Rightarrow> Inr kvs))"

definition load_desired_text :: "yaml_error json_loads \<Rightarrow> string \<Rightarrow> desired_error + desired_state" where
  "load_desired_text loads text =
     bind_r (parse_structured loads text) (\<lambda>data.
       if ''desired'' \<in> set (keys data) \<and> set (keys data) \<noteq> {''desired''}
       then Inl (UnexpectedWrapperFields (sorted_set (filter (\<lambda>k. k \<noteq> ''desired'') (keys data))))
       else (case (case map_of data ''desired'' of None \<Rightarrow> JObj data | Some v \<Rightarrow> v) of
               JObj desired \<Rightarrow>
                 (let unknown = sorted_set (filter (\<lambda>k. k \<notin> set desired_fields) (keys desired))
                  in if unknown \<noteq> [] then Inl (UnknownFields unknown)
                     else build_desired
                       (List.map_filter (\<lambda>f. map_option (Pair f) (map_of desired f)) desired_fields))
             | _ \<Rightarrow> Inl NotAnObject))"

definition load_desired ::
  "yaml_error json_loads \<Rightarrow> (string \<Rightarrow> string + string) \<Rightarrow> string option \<Rightarrow> desired_error + desired_state" where
  "load_desired loads read path =
     (case path of
        None \<Rightarrow> Inr default_desired
      | Some [] \<Rightarrow> Inr default_desired
      | Some p \<Rightarrow> (case read p of Inl e \<Rightarrow> Inl (CannotRead e) | Inr text \<Rightarrow> load_desired_text loads text))"

section \<open>What an accepted state satisfies\<close>

text \<open>
  The contract the rest of the program relies on, stated without the validator: fixed
  roles, one MIG profile per mode, an image pinned by digest, and a driver branch at or above
  the native floor of the image's CUDA version.
\<close>

definition digest_pinned :: "string \<Rightarrow> bool" where
  "digest_pinned img \<longleftrightarrow>
     (\<exists>tag digest eol. img = ''nvidia/cuda:'' @ tag @ ''@sha256:'' @ digest @ eol
        \<and> is_image_tag tag \<and> hex_of_length 64 digest \<and> map cp eol \<in> {[], [10]})"

definition desired_contract :: "desired_state \<Rightarrow> bool" where
  "desired_contract d \<longleftrightarrow>
     ds_role d = ''compute'' \<and> ds_container_runtime d = ''docker''
     \<and> ds_kernel_policy d = ''pin-compatible'' \<and> ds_secure_boot d \<in> {''signed'', ''disabled''}
     \<and> ds_cuda_compat d = ''none''
     \<and> ((ds_mig d = ''enabled'' \<and> ds_mig_profile d = ''full'')
        \<or> (ds_mig d = ''disabled'' \<and> ds_mig_profile d = ''none''))
     \<and> digest_pinned (ds_container_test_image d)
     \<and> isdecimal (driver_major d)
     \<and> (\<exists>version n. container_cuda_version (ds_container_test_image d) = Some version
          \<and> cuda_minor_compatibility_minimum_driver version = Some n
          \<and> n \<le> digits_val (driver_major d))"

lemma partition_at_found: "partition_at c s = (a, True, b) \<Longrightarrow> s = a @ c # b"
  by (induction s arbitrary: a) (auto split: if_splits prod.splits)

lemma startswith_split: "startswith s p \<Longrightarrow> s = p @ drop (length p) s"
  by (metis append_take_drop_id startswith_def)

lemma container_image_pattern_pinned:
  assumes "container_image_pattern img"
  shows "digest_pinned img"
proof -
  have core: "\<exists>tag digest. t = ''nvidia/cuda:'' @ tag @ ''@sha256:'' @ digest
      \<and> is_image_tag tag \<and> hex_of_length 64 digest"
    if pre: "startswith t ''nvidia/cuda:''"
      and part: "case partition_at CHR ''@'' (drop (length ''nvidia/cuda:'') t) of
          (tag, found, digest) \<Rightarrow> found \<and> is_image_tag tag \<and> startswith digest ''sha256:''
            \<and> hex_of_length 64 (drop (length ''sha256:'') digest)" for t
  proof -
    obtain tag found digest
      where p: "partition_at CHR ''@'' (drop (length ''nvidia/cuda:'') t) = (tag, found, digest)"
      by (cases "partition_at CHR ''@'' (drop (length ''nvidia/cuda:'') t)") auto
    with part have ok: "found" "is_image_tag tag" "startswith digest ''sha256:''"
      "hex_of_length 64 (drop (length ''sha256:'') digest)" by auto
    from p ok(1) have "drop (length ''nvidia/cuda:'') t = tag @ CHR ''@'' # digest"
      using partition_at_found by auto
    moreover have "digest = ''sha256:'' @ drop (length ''sha256:'') digest"
      using ok(3) by (rule startswith_split)
    moreover have "t = ''nvidia/cuda:'' @ drop (length ''nvidia/cuda:'') t"
      using pre by (rule startswith_split)
    ultimately have "t = ''nvidia/cuda:'' @ tag @ ''@sha256:'' @ drop (length ''sha256:'') digest"
      by (metis append_Cons append_Nil append_assoc)
    with ok show ?thesis by blast
  qed
  from assms consider
      (plain) "startswith img ''nvidia/cuda:''"
        "case partition_at CHR ''@'' (drop (length ''nvidia/cuda:'') img) of
          (tag, found, digest) \<Rightarrow> found \<and> is_image_tag tag \<and> startswith digest ''sha256:''
            \<and> hex_of_length 64 (drop (length ''sha256:'') digest)"
    | (eol) "img \<noteq> []" "cp (last img) = 10" "startswith (butlast img) ''nvidia/cuda:''"
        "case partition_at CHR ''@'' (drop (length ''nvidia/cuda:'') (butlast img)) of
          (tag, found, digest) \<Rightarrow> found \<and> is_image_tag tag \<and> startswith digest ''sha256:''
            \<and> hex_of_length 64 (drop (length ''sha256:'') digest)"
    by (auto simp: container_image_pattern_def match_dollar_def)
  then show ?thesis
  proof cases
    case plain
    from core [OF plain] show ?thesis
      unfolding digest_pinned_def by (metis append_Nil2 insertI1 list.map_disc_iff)
  next
    case eol
    from core [OF eol(3,4)] obtain tag digest where
      b: "butlast img = ''nvidia/cuda:'' @ tag @ ''@sha256:'' @ digest"
      "is_image_tag tag" "hex_of_length 64 digest" by blast
    have "img = ''nvidia/cuda:'' @ tag @ ''@sha256:'' @ digest @ [last img]"
      using append_butlast_last_id [OF eol(1)] b(1) by (metis append_assoc)
    moreover have "map cp [last img] \<in> {[], [10]}" using eol(2) by simp
    ultimately show ?thesis unfolding digest_pinned_def using b(2,3)
      by (intro exI [of _ tag] exI [of _ digest] exI [of _ "[last img]"] conjI)
  qed
qed

lemma validate_desired_contract:
  assumes "validate_desired d = Inr ()"
  shows "desired_contract d"
proof -
  from assms have fields: "find (\<lambda>(field, get, allowed). get d \<notin> set allowed) allowed_values = None"
    by (auto simp: validate_desired_def split: option.splits)
  note rest = assms [unfolded validate_desired_def fields, simplified]
  obtain version where v: "container_cuda_version (ds_container_test_image d) = Some version"
    using rest by (auto simp: Let_def split: option.splits if_splits)
  have "container_cuda_minor_compatibility_status d None \<notin> {Unknown, Unsupported}"
    using rest v by (auto simp: Let_def split: option.splits if_splits compat_status.splits)
  then have "cuda_minor_compatibility_status (driver_major d) version = Compatible"
    using minor_status_cases [of "driver_major d" version] v
    by (auto simp: container_cuda_minor_compatibility_status_def)
  then obtain n where n: "cuda_minor_compatibility_minimum_driver version = Some n"
    "isdecimal (driver_major d)" "n \<le> digits_val (driver_major d)" by (rule minor_compatibleD)
  have pin: "digest_pinned (ds_container_test_image d)"
    using rest by (intro container_image_pattern_pinned) (auto simp: Let_def split: if_splits)
  have "ds_cuda_compat d = ''none''" using rest by (auto split: if_splits)
  moreover have "ds_mig_profile d = (if ds_mig d = ''enabled'' then ''full'' else ''none'')"
    using rest by (auto simp: Let_def split: if_splits)
  ultimately show ?thesis
    using fields v n pin unfolding desired_contract_def
    by (auto simp: allowed_values_def split: if_splits)
qed

lemma build_desired_valid:
  "build_desired values = Inr d \<Longrightarrow> validate_desired d = Inr ()"
  by (auto simp: build_desired_def bind_r_Inr_iff split: if_splits option.splits)

lemma load_desired_text_valid:
  "load_desired_text loads text = Inr d \<Longrightarrow> validate_desired d = Inr ()"
  by (auto simp: load_desired_text_def bind_r_Inr_iff Let_def
        split: if_splits option.splits json.splits dest!: build_desired_valid)

lemma default_desired_valid: "validate_desired default_desired = Inr ()"
  by code_simp

end
