(* ===== verification/DesiredRoundtrip.thy ===== *)
theory DesiredRoundtrip
  imports Desired
begin

text \<open>
  The README's file format against the parser of \<open>Desired\<close>: a writer for the documented layout
  (the \<open>desired:\<close> wrapper and one indented \<open>field: value\<close> line per field) and the lemmas that
  reading its output gives the state back.
\<close>

definition newline :: char where
  "newline = CHR 0x0A"

definition yaml_field :: "string \<Rightarrow> string \<Rightarrow> string" where
  "yaml_field k v = ''  '' @ k @ '': '' @ v"

definition yaml_fields :: "desired_state \<Rightarrow> (string \<times> string) list" where
  "yaml_fields d =
     [(''role'', ds_role d), (''driver'', ds_driver d), (''cuda_compat'', ds_cuda_compat d),
      (''secure_boot'', ds_secure_boot d), (''container_runtime'', ds_container_runtime d),
      (''container_test_image'', ds_container_test_image d),
      (''fabric_manager'', if ds_fabric_manager d then ''true'' else ''false''),
      (''mig'', ds_mig d), (''mig_profile'', ds_mig_profile d),
      (''kernel_policy'', ds_kernel_policy d)]"

definition render_lines :: "string list \<Rightarrow> string" where
  "render_lines ls = concat (map (\<lambda>l. l @ [newline]) ls)"

definition render_desired :: "desired_state \<Rightarrow> string" where
  "render_desired d =
     render_lines (''desired:'' # map (\<lambda>(k, v). yaml_field k v) (yaml_fields d))"

section \<open>Lines\<close>

lemma linebreak_newline [simp]: "is_linebreak newline"
  by (simp add: is_linebreak_def newline_def cp_def)

lemma newline_not_cr [simp]: "cp newline = 10"
  by (simp add: newline_def cp_def)

lemma splitlines_acc_line:
  "list_all (\<lambda>c. \<not> is_linebreak c) l \<Longrightarrow>
   splitlines_acc acc (l @ newline # rest) = (rev acc @ l) # splitlines rest"
proof (induction l arbitrary: acc)
  case Nil
  show ?case by (cases rest) (simp_all add: splitlines_def)
next
  case (Cons c l)
  then have c: "\<not> is_linebreak c" by simp
  then have "cp c \<noteq> 13" by (auto simp: is_linebreak_def)
  with c Cons show ?case by (cases l) simp_all
qed

lemma splitlines_render_lines:
  "list_all (list_all (\<lambda>c. \<not> is_linebreak c)) ls \<Longrightarrow> splitlines (render_lines ls) = ls"
proof (induction ls)
  case Nil
  show ?case by (simp add: render_lines_def splitlines_def)
next
  case (Cons l ls)
  then show ?case
    using splitlines_acc_line [of l "[]" "render_lines ls"]
    by (simp add: render_lines_def splitlines_def [of "l @ newline # _"])
qed

section \<open>Scalars\<close>

text \<open>A value the writer may print as it is.\<close>

definition plain_char :: "char \<Rightarrow> bool" where
  "plain_char c \<longleftrightarrow> \<not> py_isspace c \<and> \<not> is_linebreak c \<and> \<not> is_quote c \<and> c \<noteq> CHR ''#''"

definition plain :: "string \<Rightarrow> bool" where
  "plain v \<longleftrightarrow> v \<noteq> [] \<and> list_all plain_char v"

lemma dropWhile_none: "xs \<noteq> [] \<Longrightarrow> \<not> p (hd xs) \<Longrightarrow> dropWhile p xs = xs"
  by (cases xs) auto

lemma strip_bounded:
  assumes "s \<noteq> []" and "\<not> py_isspace (hd s)" and "\<not> py_isspace (last s)"
  shows "strip s = s"
  using assms by (simp add: strip_def lstrip_def rstrip_def dropWhile_none hd_rev)

lemma strip_space: "py_isspace c \<Longrightarrow> strip (c # s) = strip s"
  by (simp add: strip_def lstrip_def)

lemma isspace_blank [simp]: "py_isspace CHR '' ''"
  by (simp add: py_isspace_def cp_def)

lemma plain_ends:
  assumes "plain v"
  shows "v \<noteq> []" "\<not> py_isspace (hd v)" "\<not> py_isspace (last v)"
    "\<not> is_quote (hd v)" "\<not> is_quote (last v)"
  using assms by (auto simp: plain_def plain_char_def list_all_iff)

lemma strip_plain: "plain v \<Longrightarrow> strip v = v"
  by (simp add: strip_bounded plain_ends)

lemma strip_comment_plain:
  "list_all plain_char v \<Longrightarrow> strip_comment_loop None done' v = Some (rev done' @ v)"
  by (induction v arbitrary: done') (auto simp: plain_char_def is_quote_def)

lemma strip_inline_comment_plain: "plain v \<Longrightarrow> strip_inline_comment v = Inr v"
  by (simp add: strip_inline_comment_def strip_comment_plain plain_def)

lemma no_quotes_plain: "plain v \<Longrightarrow> \<not> list_ex is_quote v"
  by (auto simp: plain_def list_all_iff list_ex_iff plain_char_def)

definition scalar_value :: "string \<Rightarrow> json" where
  "scalar_value v =
     (if lower v = ''true'' then JBool True else if lower v = ''false'' then JBool False else JStr v)"

lemma coerce_scalar_plain: "plain v \<Longrightarrow> coerce_scalar v = Inr (scalar_value v)"
  by (simp add: coerce_scalar_def plain_ends no_quotes_plain scalar_value_def)

section \<open>One field line\<close>

definition inside :: "(string \<times> json) list \<Rightarrow> yaml_state" where
  "inside kvs = ([(''desired'', JObj kvs)], [(0, [''desired'']), (-1, [])])"

text \<open>A field name: printable, no colon, and no line of its own.\<close>

definition field_name :: "string \<Rightarrow> bool" where
  "field_name k \<longleftrightarrow> plain k \<and> CHR '':'' \<notin> set k"

lemma yaml_line_field:
  assumes k: "field_name k" and v: "plain v" and fresh: "k \<notin> set (keys kvs)"
  shows "yaml_line (inside kvs) (yaml_field k v) = Inr (inside (kvs @ [(k, scalar_value v)]))"
proof -
  have pk: "plain k" and nc: "CHR '':'' \<notin> set k" using k by (auto simp: field_name_def)
  have blank: "CHR '' '' \<noteq> hd k" using plain_ends(2) [OF pk] isspace_blank by metis
  have stripped: "strip (yaml_field k v) = k @ CHR '':'' # CHR '' '' # v"
  proof -
    have "strip (yaml_field k v) = strip (k @ CHR '':'' # CHR '' '' # v)"
      by (simp add: yaml_field_def strip_space)
    moreover have "strip (k @ CHR '':'' # CHR '' '' # v) = k @ CHR '':'' # CHR '' '' # v"
      using plain_ends [OF pk] plain_ends [OF v] by (intro strip_bounded) auto
    ultimately show ?thesis by simp
  qed
  have hdk: "hd k \<noteq> CHR ''#''" and kne: "k \<noteq> []"
    using pk by (auto simp: plain_def plain_char_def list_all_iff)
  have colon: "CHR '':'' \<in> set (k @ CHR '':'' # CHR '' '' # v)" by simp
  have ns: "\<not> skipped_line (k @ CHR '':'' # CHR '' '' # v)"
  proof -
    have other: "k @ CHR '':'' # CHR '' '' # v \<noteq> w" if "CHR '':'' \<notin> set w" for w
      using colon that by metis
    have "\<not> startswith (k @ CHR '':'' # CHR '' '' # v) ''#''" using hdk kne by (cases k) (auto simp: startswith_def)
    with other show ?thesis by (simp add: skipped_line_def)
  qed
  have indent: "takeWhile (\<lambda>c. c = CHR '' '') (yaml_field k v) = ''  ''"
    using blank kne by (cases k) (auto simp: yaml_field_def)
  have part: "partition_at CHR '':'' (k @ CHR '':'' # CHR '' '' # v) = (k, True, CHR '' '' # v)"
    using nc by (simp add: partition_at_append)
  show ?thesis
    using fresh kne v plain_ends(1) [OF v]
    by (simp add: yaml_line_def inside_def stripped ns indent part Let_def
          strip_space strip_plain strip_inline_comment_plain coerce_scalar_plain keys_def)
       (simp add: yaml_field_def)
qed

lemma yaml_lines_fields:
  assumes "list_all (\<lambda>(k, v). field_name k \<and> plain v) fvs"
    and "distinct (keys kvs @ map fst fvs)"
  shows "fold_e yaml_line (inside kvs) (map (\<lambda>(k, v). yaml_field k v) fvs)
    = Inr (inside (kvs @ map (\<lambda>(k, v). (k, scalar_value v)) fvs))"
  using assms
proof (induction fvs arbitrary: kvs)
  case Nil
  then show ?case by simp
next
  case (Cons f fvs)
  obtain k v where f: "f = (k, v)" by force
  with Cons.prems have "yaml_line (inside kvs) (yaml_field k v)
      = Inr (inside (kvs @ [(k, scalar_value v)]))"
    by (intro yaml_line_field) auto
  moreover have "distinct (keys (kvs @ [(k, scalar_value v)]) @ map fst fvs)"
    using Cons.prems(2) f by (auto simp: keys_def)
  ultimately show ?case
    using Cons.IH [of "kvs @ [(k, scalar_value v)]"] Cons.prems(1) f by simp
qed

lemma yaml_line_wrapper: "yaml_line ([], [(-1, [])]) ''desired:'' = Inr (inside [])"
  by code_simp

section \<open>The whole file\<close>

lemma parse_rendered:
  assumes "list_all (\<lambda>(k, v). field_name k \<and> plain v) (yaml_fields d)"
  shows "parse_simple_yaml (render_desired d)
    = Inr [(''desired'', JObj (map (\<lambda>(k, v). (k, scalar_value v)) (yaml_fields d)))]"
proof -
  let ?fs = "map (\<lambda>(k, v). yaml_field k v) (yaml_fields d)"
  have nb: "list_all (\<lambda>c. \<not> is_linebreak c) (yaml_field k v)" if "field_name k" "plain v" for k v
    using that
    by (auto simp: yaml_field_def field_name_def plain_def list_all_iff plain_char_def is_linebreak_def cp_def)
  have "list_all (list_all (\<lambda>c. \<not> is_linebreak c)) (''desired:'' # ?fs)"
    using assms nb by (auto simp: list_all_iff is_linebreak_def cp_def)
  then have lines: "splitlines (render_desired d) = ''desired:'' # ?fs"
    unfolding render_desired_def by (rule splitlines_render_lines)
  have "distinct (keys [] @ map fst (yaml_fields d))"
    by (simp add: yaml_fields_def keys_def)
  from yaml_lines_fields [OF assms this]
  show ?thesis
    by (simp add: parse_simple_yaml_def lines yaml_line_wrapper inside_def)
qed

section \<open>Valid states print plainly\<close>

lemma plain_digit: "is_digit c \<Longrightarrow> plain_char c"
  by (auto simp: is_digit_def plain_char_def py_isspace_def is_linebreak_def is_quote_def cp_def)

lemma plain_alnum: "is_alnum c \<Longrightarrow> plain_char c"
  by (auto simp: is_alnum_def is_lower_def is_upper_def is_digit_def plain_char_def
        py_isspace_def is_linebreak_def is_quote_def cp_def)

lemma plain_literals [simp]:
  "plain_char CHR ''-''" "plain_char CHR ''.''" "plain_char CHR ''_''" "plain_char CHR '':''"
  "plain_char CHR ''/''" "plain_char CHR ''@''"
  by (simp_all add: plain_char_def py_isspace_def is_linebreak_def is_quote_def cp_def)

lemma plain_hex: "is_hex c \<Longrightarrow> plain_char c"
  by (auto simp: is_hex_def intro: plain_digit)
     (auto simp: plain_char_def py_isspace_def is_linebreak_def is_quote_def cp_def)

lemma plain_tag_char: "is_tag_char c \<Longrightarrow> plain_char c"
  by (auto simp: is_tag_char_def plain_alnum)

lemma join_split_on: "join [c] (split_on c s) = s"
proof (induction c s rule: split_on.induct)
  case (1 c)
  then show ?case by simp
next
  case (2 c d s)
  have glue: "join [c] ((d # w) # ws) = d # join [c] (w # ws)" for w ws
    by (cases ws) auto
  show ?case
  proof (cases "split_on c s")
    case Nil
    with 2 show ?thesis by auto
  next
    case (Cons w ws)
    with 2 glue show ?thesis by auto
  qed
qed

text \<open>What the driver pattern accepts starts with a digit and has no character to quote.\<close>

lemma driver_core_plain:
  assumes "isdecimal s \<or> (endswith s ''-open'' \<and> isdecimal (take (length s - length ''-open'') s))
     \<or> is_version2 s \<or> is_version3 s"
  shows "plain s \<and> is_digit (hd s)"
proof -
  have dec_plain: "plain a \<and> is_digit (hd a) \<and> list_all plain_char a" if "isdecimal a" for a
    using that by (cases a) (auto simp: isdecimal_def plain_def list_all_iff plain_digit)
  consider (dec) "isdecimal s"
    | (flavor) "endswith s ''-open''" "isdecimal (take (length s - length ''-open'') s)"
    | (v2) a b where "split_on CHR ''.'' s = [a, b]" "isdecimal a" "isdecimal b"
    | (v3) a b c where "split_on CHR ''.'' s = [a, b, c]" "isdecimal a" "isdecimal b" "isdecimal c"
    using assms by (auto simp: is_version2_def is_version3_def split: list.splits)
  then show ?thesis
  proof cases
    case dec
    then show ?thesis using dec_plain by blast
  next
    case flavor
    let ?n = "take (length s - length ''-open'') s"
    have "s = ?n @ ''-open''"
    proof -
      from flavor(1) have "take (length ''-open'') (rev s) = rev ''-open''"
        by (simp add: endswith_def startswith_def)
      then have "rev (drop (length s - length ''-open'') s) = rev ''-open''"
        by (simp add: take_rev)
      then have "drop (length s - length ''-open'') s = ''-open''" using rev_is_rev_conv by metis
      then show ?thesis by (metis append_take_drop_id)
    qed
    moreover have "plain (?n @ ''-open'') \<and> is_digit (hd (?n @ ''-open''))"
      using dec_plain [OF flavor(2)] by (auto simp: plain_def plain_alnum is_alnum_def is_lower_def cp_def)
    ultimately show ?thesis by metis
  next
    case v2
    have "s = a @ ''.'' @ b" using join_split_on [of "CHR ''.''" s] v2(1) by simp
    then show ?thesis using dec_plain [OF v2(2)] dec_plain [OF v2(3)] by (auto simp: plain_def)
  next
    case v3
    have "s = a @ ''.'' @ b @ ''.'' @ c" using join_split_on [of "CHR ''.''" s] v3(1) by simp
    then show ?thesis using dec_plain [OF v3(2)] dec_plain [OF v3(3)] dec_plain [OF v3(4)] by (auto simp: plain_def)
  qed
qed

definition no_final_newline :: "string \<Rightarrow> bool" where
  "no_final_newline s \<longleftrightarrow> s = [] \<or> cp (last s) \<noteq> 10"

lemma match_dollar_exact: "match_dollar p s \<Longrightarrow> no_final_newline s \<Longrightarrow> p s"
  by (auto simp: match_dollar_def no_final_newline_def)

lemma driver_pattern_plain:
  "driver_pattern s \<Longrightarrow> no_final_newline s \<Longrightarrow> plain s \<and> is_digit (hd s)"
  unfolding driver_pattern_def by (drule (1) match_dollar_exact) (rule driver_core_plain)

lemma digest_pinned_plain:
  assumes "digest_pinned s" and "no_final_newline s"
  shows "plain s \<and> hd s = CHR ''n''"
proof -
  from assms(1) obtain tag digest eol where s: "s = ''nvidia/cuda:'' @ tag @ ''@sha256:'' @ digest @ eol"
    and t: "is_image_tag tag" and h: "hex_of_length 64 digest" and e: "map cp eol \<in> {[], [10]}"
    by (auto simp: digest_pinned_def)
  have "eol = []"
    using assms(2) e unfolding s by (cases eol) (auto simp: no_final_newline_def)
  moreover have "list_all plain_char tag"
    using t by (cases tag) (auto simp: is_image_tag_def list_all_iff plain_alnum plain_tag_char)
  moreover have "list_all plain_char digest"
    using h by (auto simp: hex_of_length_def list_all_iff plain_hex)
  ultimately show ?thesis
    by (simp add: s plain_def) (simp add: plain_alnum is_alnum_def is_lower_def is_digit_def cp_def)
qed

lemma scalar_value_str:
  assumes "is_digit (hd v) \<or> hd v = CHR ''n''" and "v \<noteq> []"
  shows "scalar_value v = JStr v"
  using assms
  by (cases v)
     (auto simp: scalar_value_def lower_def lower_char_def is_digit_def is_upper_def cp_def
        split: if_splits)

section \<open>Loading the rendered file\<close>

lemma yaml_fields_plain:
  assumes "desired_contract d" and "driver_pattern (ds_driver d)"
    and "no_final_newline (ds_driver d)" and "no_final_newline (ds_container_test_image d)"
  shows "list_all (\<lambda>(k, v). field_name k \<and> plain v) (yaml_fields d)"
proof -
  have names: "list_all field_name desired_fields"
    by code_simp
  have lits: "list_all plain [''compute'', ''docker'', ''pin-compatible'', ''signed'', ''disabled'',
     ''none'', ''enabled'', ''full'', ''true'', ''false'']"
    by code_simp
  have "plain (ds_driver d)" using driver_pattern_plain assms(2,3) by blast
  moreover have "plain (ds_container_test_image d)"
    using digest_pinned_plain assms(1,4) by (auto simp: desired_contract_def)
  ultimately show ?thesis
    using names lits assms(1)
    by (auto simp: yaml_fields_def desired_contract_def desired_fields_def)
qed

lemma yaml_values:
  assumes "desired_contract d" and "driver_pattern (ds_driver d)"
    and "no_final_newline (ds_driver d)" and "no_final_newline (ds_container_test_image d)"
  shows "map (\<lambda>(k, v). (k, scalar_value v)) (yaml_fields d) =
    [(''role'', JStr (ds_role d)), (''driver'', JStr (ds_driver d)),
     (''cuda_compat'', JStr (ds_cuda_compat d)), (''secure_boot'', JStr (ds_secure_boot d)),
     (''container_runtime'', JStr (ds_container_runtime d)),
     (''container_test_image'', JStr (ds_container_test_image d)),
     (''fabric_manager'', JBool (ds_fabric_manager d)),
     (''mig'', JStr (ds_mig d)), (''mig_profile'', JStr (ds_mig_profile d)),
     (''kernel_policy'', JStr (ds_kernel_policy d))]"
proof -
  have lits: "scalar_value ''compute'' = JStr ''compute''" "scalar_value ''docker'' = JStr ''docker''"
    "scalar_value ''pin-compatible'' = JStr ''pin-compatible''"
    "scalar_value ''signed'' = JStr ''signed''" "scalar_value ''disabled'' = JStr ''disabled''"
    "scalar_value ''none'' = JStr ''none''" "scalar_value ''enabled'' = JStr ''enabled''"
    "scalar_value ''full'' = JStr ''full''"
    "scalar_value ''true'' = JBool True" "scalar_value ''false'' = JBool False"
    by code_simp+
  have "scalar_value (ds_driver d) = JStr (ds_driver d)"
    using driver_pattern_plain [OF assms(2,3)] by (auto intro!: scalar_value_str simp: plain_def)
  moreover have "scalar_value (ds_container_test_image d) = JStr (ds_container_test_image d)"
    using digest_pinned_plain [OF _ assms(4)] assms(1)
    by (auto intro!: scalar_value_str simp: plain_def desired_contract_def)
  ultimately show ?thesis
    using lits assms(1) by (auto simp: yaml_fields_def desired_contract_def)
qed

lemma desired_of_own_values:
  "desired_of_values
    [(''role'', JStr (ds_role d)), (''driver'', JStr (ds_driver d)),
     (''cuda_compat'', JStr (ds_cuda_compat d)), (''secure_boot'', JStr (ds_secure_boot d)),
     (''container_runtime'', JStr (ds_container_runtime d)),
     (''container_test_image'', JStr (ds_container_test_image d)),
     (''fabric_manager'', JBool (ds_fabric_manager d)),
     (''mig'', JStr (ds_mig d)), (''mig_profile'', JStr (ds_mig_profile d)),
     (''kernel_policy'', JStr (ds_kernel_policy d))] = (d :: desired_state)"
  by (simp add: desired_of_values_def str_field_def)

lemma load_own_values:
  assumes "validate_desired d = Inr ()"
  shows "build_desired (List.map_filter (\<lambda>f. map_option (Pair f) (map_of
    [(''role'', JStr (ds_role d)), (''driver'', JStr (ds_driver d)),
     (''cuda_compat'', JStr (ds_cuda_compat d)), (''secure_boot'', JStr (ds_secure_boot d)),
     (''container_runtime'', JStr (ds_container_runtime d)),
     (''container_test_image'', JStr (ds_container_test_image d)),
     (''fabric_manager'', JBool (ds_fabric_manager d)),
     (''mig'', JStr (ds_mig d)), (''mig_profile'', JStr (ds_mig_profile d)),
     (''kernel_policy'', JStr (ds_kernel_policy d))] f)) desired_fields) = Inr d"
  using assms
  by (simp add: desired_fields_def map_filter_simps build_desired_def desired_of_own_values)

text \<open>Every accepted state, written in the README's layout, is read back as itself.\<close>

lemma yaml_roundtrip:
  assumes valid: "validate_desired d = Inr ()"
    and nl: "no_final_newline (ds_driver d)" "no_final_newline (ds_container_test_image d)"
  shows "load_desired_text loads (render_desired d) = Inr d"
proof -
  have c: "desired_contract d" using valid by (rule validate_desired_contract)
  have dp: "driver_pattern (ds_driver d)"
    using valid by (auto simp: validate_desired_def split: option.splits if_splits)
  note parsed = parse_rendered [OF yaml_fields_plain [OF c dp nl], unfolded yaml_values [OF c dp nl]]
  have "\<exists>rest. render_desired d = CHR ''d'' # rest"
    by (simp add: render_desired_def render_lines_def)
  then have "parse_structured loads (render_desired d) = Inr
      [(''desired'', JObj (map (\<lambda>(k, v). (k, scalar_value v)) (yaml_fields d)))]"
    using parsed yaml_values [OF c dp nl]
    by (auto simp: parse_structured_def lstrip_def startswith_def py_isspace_def cp_def)
  then show ?thesis
    using load_own_values [OF valid] yaml_values [OF c dp nl]
    by (simp add: load_desired_text_def keys_def desired_fields_def)
qed

end
