(* ===== verification/DesiredTheorems.thy ===== *)
theory DesiredTheorems
  imports DesiredRoundtrip Mig
begin

text \<open>
  The properties of the desired state and of the MIG commands, each with a witness.
\<close>

text \<open>Whatever the configuration file holds, a state that loading returns meets the contract of
  the program: fixed roles, one MIG profile per mode, an image of NVIDIA's CUDA repository pinned
  by digest, and a driver branch at or above the native floor of the image's CUDA version.\<close>

theorem load_desired_sound:
  assumes "load_desired loads read path = Inr d"
  shows "desired_contract d"
proof -
  have "validate_desired d = Inr ()"
    using assms default_desired_valid
    by (auto simp: load_desired_def load_desired_text_valid split: option.splits list.splits sum.splits)
  then show ?thesis by (rule validate_desired_contract)
qed

theorem load_desired_sound_witness: "desired_contract default_desired"
proof (rule load_desired_sound)
  show "load_desired (\<lambda>_ _. JSONDecodeError) (\<lambda>_. Inl ''absent'') None = Inr default_desired"
    by (simp add: load_desired_def)
qed



text \<open>The driver pattern accepts a final line feed, and the accepted state is not the one it
  names: \<open>580-open\<close> with a line feed is validated, but selects the closed kernel module.\<close>

definition newline_desired :: desired_state where
  "newline_desired = default_desired \<lparr>ds_driver := ''580-open'' @ [CHR 0x0A]\<rparr>"

theorem trailing_newline_accepted:
  "validate_desired newline_desired = Inr () \<and> open_kernel_module default_desired
   \<and> \<not> open_kernel_module newline_desired"
proof (intro conjI)
  show "validate_desired newline_desired = Inr ()" by code_simp
  show "open_kernel_module default_desired" by code_simp
  show "\<not> open_kernel_module newline_desired" by code_simp
qed

text \<open>The desired full geometry is one that rollback can recreate, and the command that recreates it
  is the command that creates it.\<close>

theorem full_geometry_round_trip:
  assumes "full_mig_geometry_matches geometry uuids"
  shows "restorable_mig_geometry geometry uuids
    \<and> mig_geometry_create_command (hd uuids) geometry
        = Inr (Some (desired_full_mig_geometry_command (hd uuids)))"
  using assms full_geometry_restorable create_command_of_full by blast

definition full_sample :: mig_gpu_instance where
  "full_sample =
     \<lparr>mgi_gpu_uuid = ''GPU-1'', mgi_profile = ''MIG 7g.80gb'', mgi_profile_id = 0,
      mgi_placement_start = 0, mgi_placement_size = 8,
      mgi_compute_instances = [\<lparr>mci_profile = ''MIG 7c.7g.80gb'', mci_profile_id = 4\<rparr>]\<rparr>"

theorem full_geometry_round_trip_witness:
  "mig_geometry_create_command ''GPU-1'' [full_sample]
     = Inr (Some (desired_full_mig_geometry_command ''GPU-1''))"
proof -
  have "full_mig_geometry_matches [full_sample] [''GPU-1'']" by code_simp
  from full_geometry_round_trip [OF this] show ?thesis by simp
qed

end
