(* ===== verification/PlanActions.thy ===== *)
theory PlanActions
  imports Models
begin

text \<open>
  The actions a plan can hold (\<open>PlanAction(...)\<close> in \<open>nvidia_converge/planner.py\<close>): one constant
  per call of the constructor, with its texts; commands and reasons that depend on the
  host are arguments.  The collection \<open>actions\<close> has the identifier, the commands and the
  destructive flag of each, so that proofs never unfold the texts.
\<close>

definition act_unsupported_package_manager :: plan_action where
  \<open>act_unsupported_package_manager =
     \<lparr>pa_id = ''unsupported.package-manager'',
      pa_description = ''Cannot converge without a supported package manager.'',
      pa_commands = [],
      pa_destructive = False,
      pa_reason = Some ''No apt/dnf/yum/zypper found''\<rparr>\<close>

definition act_unsupported_mig_rollback_baseline :: plan_action where
  \<open>act_unsupported_mig_rollback_baseline =
     \<lparr>pa_id = ''unsupported.mig-rollback-baseline'',
      pa_description = ''Cannot safely converge a mixed per-GPU MIG baseline.'',
      pa_commands = [],
      pa_destructive = False,
      pa_reason = Some ''Rollback schema v2.6 records exact UUID-bound MIG geometry, but mixed per-GPU transitions are not transactionally qualified. Normalize MIG mode manually before convergence.''\<rparr>\<close>

definition act_unsupported_mig_transaction_scope :: plan_action where
  \<open>act_unsupported_mig_transaction_scope =
     \<lparr>pa_id = ''unsupported.mig-transaction-scope'',
      pa_description = ''Cannot safely mutate MIG mode for this GPU topology.'',
      pa_commands = [],
      pa_destructive = False,
      pa_reason = Some ''Applied MIG changes are qualified only for exactly one observed stable GPU UUID; multi-GPU updates can partially succeed and cannot yet be compensated transactionally.''\<rparr>\<close>

definition act_unsupported_mig_geometry_unobservable :: plan_action where
  \<open>act_unsupported_mig_geometry_unobservable =
     \<lparr>pa_id = ''unsupported.mig-geometry-unobservable'',
      pa_description = ''Cannot safely mutate MIG without a complete GI/CI baseline.'',
      pa_commands = [],
      pa_destructive = False,
      pa_reason = Some ''Applied MIG changes require complete UUID-bound GPU-instance, compute-instance, and MIG-device observations so rollback cannot silently lose a pre-existing partition.''\<rparr>\<close>

definition act_unsupported_mig_rollback_geometry :: plan_action where
  \<open>act_unsupported_mig_rollback_geometry =
     \<lparr>pa_id = ''unsupported.mig-rollback-geometry'',
      pa_description = ''Cannot safely restore the observed MIG geometry.'',
      pa_commands = [],
      pa_destructive = False,
      pa_reason = Some ''Transactional MIG changes are qualified only from an empty baseline or one GPU instance containing one full-size compute instance. Complex GI/CI layouts must be managed with a dedicated partition manager.''\<rparr>\<close>

definition act_unsupported_precondition :: "string \<Rightarrow> plan_action" where
  \<open>act_unsupported_precondition reason =
     \<lparr>pa_id = ''unsupported.precondition'',
      pa_description = ''Cannot safely mutate the host while required preconditions are unresolved.'',
      pa_commands = [],
      pa_destructive = False,
      pa_reason = Some reason\<rparr>\<close>

definition act_unsupported_module_reset_mig_transaction_scope :: plan_action where
  \<open>act_unsupported_module_reset_mig_transaction_scope =
     \<lparr>pa_id = ''unsupported.module-reset-mig-transaction-scope'',
      pa_description = ''Cannot safely reset the module under this MIG topology.'',
      pa_commands = [],
      pa_destructive = False,
      pa_reason = Some ''A module reset destroys MIG geometry and is qualified only for exactly one stable GPU UUID.''\<rparr>\<close>

definition act_unsupported_module_reset_mig_geometry_unobservable :: plan_action where
  \<open>act_unsupported_module_reset_mig_geometry_unobservable =
     \<lparr>pa_id = ''unsupported.module-reset-mig-geometry-unobservable'',
      pa_description = ''Cannot safely reset the module without exact MIG geometry.'',
      pa_commands = [],
      pa_destructive = False,
      pa_reason = Some ''The current GI/CI baseline must be completely observable before a module reset can destroy and later reconcile it.''\<rparr>\<close>

definition act_unsupported_module_reset_mig_rollback_geometry :: plan_action where
  \<open>act_unsupported_module_reset_mig_rollback_geometry =
     \<lparr>pa_id = ''unsupported.module-reset-mig-rollback-geometry'',
      pa_description = ''Cannot safely restore MIG geometry after a module reset.'',
      pa_commands = [],
      pa_destructive = False,
      pa_reason = Some ''Only empty geometry or one full-profile GI containing one full-size CI is transactionally qualified.''\<rparr>\<close>

definition act_unsupported_package_policy_staging :: plan_action where
  \<open>act_unsupported_package_policy_staging =
     \<lparr>pa_id = ''unsupported.package-policy-staging'',
      pa_description = ''Stage the desired package policy before resolving NVIDIA packages.'',
      pa_commands = [],
      pa_destructive = False,
      pa_reason = Some ''The active package policy differs from desired state, so the planned NVIDIA transaction cannot yet be preflighted against the policy it will use. Run `nvidia-converge lock --apply` in the maintenance window, then re-audit and rerun install.''\<rparr>\<close>

definition act_snapshot_current_state :: plan_action where
  \<open>act_snapshot_current_state =
     \<lparr>pa_id = ''snapshot.current-state'',
      pa_description = ''Record installed NVIDIA packages and kernel/module state before changes.'',
      pa_commands = [[''nvidia-converge'', ''snapshot'', ''--apply'']],
      pa_destructive = False,
      pa_reason = Some ''Required for rollback.''\<rparr>\<close>

definition act_install_packages :: "string list list \<Rightarrow> string \<Rightarrow> plan_action" where
  \<open>act_install_packages commands reason =
     \<lparr>pa_id = ''install.packages'',
      pa_description = ''Install only package components that differ from observed desired state.'',
      pa_commands = commands,
      pa_destructive = True,
      pa_reason = Some reason\<rparr>\<close>

definition act_prepare_mig_geometry_teardown :: "string list list \<Rightarrow> plan_action" where
  \<open>act_prepare_mig_geometry_teardown commands =
     \<lparr>pa_id = ''prepare.mig-geometry-teardown'',
      pa_description = ''Destroy the exact UUID-bound MIG geometry before resetting the module.'',
      pa_commands = commands,
      pa_destructive = True,
      pa_reason = Some ''A module reset destroys MIG devices; explicit teardown keeps the transition observable and compensatable.''\<rparr>\<close>

definition act_prepare_module :: "string \<Rightarrow> plan_action" where
  \<open>act_prepare_module reason =
     \<lparr>pa_id = ''prepare.module'',
      pa_description = ''Load the selected on-disk NVIDIA module stack.'',
      pa_commands = [],
      pa_destructive = True,
      pa_reason = Some reason\<rparr>\<close>

definition act_disable_mig :: "string list list \<Rightarrow> plan_action" where
  \<open>act_disable_mig commands =
     \<lparr>pa_id = ''disable.mig'',
      pa_description = ''Destroy the UUID-bound GPU's MIG instances, then disable MIG mode.'',
      pa_commands = commands,
      pa_destructive = True,
      pa_reason = Some ''Destroys the current GI/CI and may require a GPU reset.''\<rparr>\<close>

definition act_enable_mig :: "string list list \<Rightarrow> plan_action" where
  \<open>act_enable_mig commands =
     \<lparr>pa_id = ''enable.mig'',
      pa_description = ''Enable MIG and create one full-profile GI with its default full CI.'',
      pa_commands = commands,
      pa_destructive = True,
      pa_reason = Some ''May require a GPU reset and creates a new MIG device UUID.''\<rparr>\<close>

definition act_configure_mig_geometry :: "string list list \<Rightarrow> plan_action" where
  \<open>act_configure_mig_geometry commands =
     \<lparr>pa_id = ''configure.mig-geometry'',
      pa_description = ''Replace drifted MIG geometry with one full-profile GI and full CI.'',
      pa_commands = commands,
      pa_destructive = True,
      pa_reason = Some ''Destroys and recreates the UUID-bound GPU's MIG instances.''\<rparr>\<close>

definition act_reconcile_mig_after_module :: plan_action where
  \<open>act_reconcile_mig_after_module =
     \<lparr>pa_id = ''reconcile.mig-after-module'',
      pa_description = ''Reobserve and reconcile MIG mode and UUID-bound geometry after module reset.'',
      pa_commands = [],
      pa_destructive = True,
      pa_reason = Some ''A module reset can destroy MIG devices, so applied execution derives the exact MIG command only from a fresh post-reset audit.''\<rparr>\<close>

definition act_configure_docker_runtime :: "string list list \<Rightarrow> plan_action" where
  \<open>act_configure_docker_runtime commands =
     \<lparr>pa_id = ''configure.docker-runtime'',
      pa_description = ''Configure Docker to use the NVIDIA container runtime.'',
      pa_commands = commands,
      pa_destructive = True,
      pa_reason = Some ''Configures Docker while stopped, then starts it exactly once before an immediate GPU-workload checkpoint.''\<rparr>\<close>

definition act_verify_stack :: plan_action where
  \<open>act_verify_stack =
     \<lparr>pa_id = ''verify.stack'',
      pa_description = ''Validate module, nvidia-smi, NVML, and container GPU access.'',
      pa_commands = [[''nvidia-converge'', ''verify'']],
      pa_destructive = True,
      pa_reason = Some ''Post-convergence validation launches a temporary GPU-bound Docker container and therefore requires the same maintenance window and active-workload gate as host convergence.''\<rparr>\<close>

definition act_service_docker_enable :: plan_action where
  \<open>act_service_docker_enable =
     \<lparr>pa_id = ''service.docker'',
      pa_description = ''Enable Docker persistently without starting it yet.'',
      pa_commands = [[''systemctl'', ''enable'', ''docker.service'']],
      pa_destructive = False,
      pa_reason = Some ''Docker remains inactive until runtime configuration is complete.''\<rparr>\<close>

definition act_service_docker_enable_now :: plan_action where
  \<open>act_service_docker_enable_now =
     \<lparr>pa_id = ''service.docker'',
      pa_description = ''Enable Docker persistently and start it for the current boot.'',
      pa_commands = [[''systemctl'', ''enable'', ''--now'', ''docker.service'']],
      pa_destructive = True,
      pa_reason = Some ''Starting Docker can make queued containers runnable.''\<rparr>\<close>

definition act_service_docker_start :: plan_action where
  \<open>act_service_docker_start =
     \<lparr>pa_id = ''service.docker'',
      pa_description = ''Start Docker for the current boot.'',
      pa_commands = [[''systemctl'', ''start'', ''docker.service'']],
      pa_destructive = True,
      pa_reason = Some ''Starting Docker can make queued containers runnable.''\<rparr>\<close>

definition act_service_docker_enable_active :: plan_action where
  \<open>act_service_docker_enable_active =
     \<lparr>pa_id = ''service.docker'',
      pa_description = ''Enable the active Docker service persistently at boot.'',
      pa_commands = [[''systemctl'', ''enable'', ''docker.service'']],
      pa_destructive = False,
      pa_reason = Some ''Changes Docker's boot-persistent unit state.''\<rparr>\<close>

definition act_unsupported_mig_state_unobservable :: plan_action where
  \<open>act_unsupported_mig_state_unobservable =
     \<lparr>pa_id = ''unsupported.mig-state-unobservable'',
      pa_description = ''Cannot reconcile MIG from an unknown current mode.'',
      pa_commands = [],
      pa_destructive = False,
      pa_reason = Some ''Post-module-reset MIG mode was not exactly observable.''\<rparr>\<close>

definition act_unsupported_mig_pending_unobservable :: plan_action where
  \<open>act_unsupported_mig_pending_unobservable =
     \<lparr>pa_id = ''unsupported.mig-pending-unobservable'',
      pa_description = ''Cannot reconcile MIG with an unknown pending mode.'',
      pa_commands = [],
      pa_destructive = False,
      pa_reason = Some ''Post-module-reset pending MIG mode was not observable.''\<rparr>\<close>

definition act_unsupported_mig_pending_conflict :: plan_action where
  \<open>act_unsupported_mig_pending_conflict =
     \<lparr>pa_id = ''unsupported.mig-pending-conflict'',
      pa_description = ''Cannot reconcile MIG across a conflicting pending transition.'',
      pa_commands = [],
      pa_destructive = False,
      pa_reason = Some ''Pending MIG mode differs from both current and desired state; reboot or normalize it before another mutation.''\<rparr>\<close>

definition act_unsupported_mig_transaction_scope_now :: plan_action where
  \<open>act_unsupported_mig_transaction_scope_now =
     \<lparr>pa_id = ''unsupported.mig-transaction-scope'',
      pa_description = ''Cannot safely mutate MIG mode for this GPU topology.'',
      pa_commands = [],
      pa_destructive = False,
      pa_reason = Some ''MIG reconciliation is qualified for exactly one stable GPU UUID.''\<rparr>\<close>

definition act_unsupported_mig_geometry_unobservable_now :: plan_action where
  \<open>act_unsupported_mig_geometry_unobservable_now =
     \<lparr>pa_id = ''unsupported.mig-geometry-unobservable'',
      pa_description = ''Cannot safely reconcile MIG without complete GI/CI state.'',
      pa_commands = [],
      pa_destructive = False,
      pa_reason = Some ''Post-module-reset MIG geometry is incomplete.''\<rparr>\<close>

definition act_unsupported_mig_rollback_geometry_now :: plan_action where
  \<open>act_unsupported_mig_rollback_geometry_now =
     \<lparr>pa_id = ''unsupported.mig-rollback-geometry'',
      pa_description = ''Cannot safely reconcile the observed MIG geometry.'',
      pa_commands = [],
      pa_destructive = False,
      pa_reason = Some ''Observed MIG geometry is outside the exact rollback model.''\<rparr>\<close>

definition act_disable_mig_now :: "string list list \<Rightarrow> plan_action" where
  \<open>act_disable_mig_now commands =
     \<lparr>pa_id = ''disable.mig'',
      pa_description = ''Destroy the UUID-bound GPU's MIG instances, then disable MIG mode.'',
      pa_commands = commands,
      pa_destructive = True,
      pa_reason = Some ''Destroys current GI/CI state and may require a GPU reset.''\<rparr>\<close>

definition act_enable_mig_now :: "string list list \<Rightarrow> plan_action" where
  \<open>act_enable_mig_now commands =
     \<lparr>pa_id = ''enable.mig'',
      pa_description = ''Enable MIG and create one full-profile GI with its default full CI.'',
      pa_commands = commands,
      pa_destructive = True,
      pa_reason = Some ''Enables MIG and creates the exact supported geometry.''\<rparr>\<close>

definition act_configure_mig_geometry_now :: "string list list \<Rightarrow> plan_action" where
  \<open>act_configure_mig_geometry_now commands =
     \<lparr>pa_id = ''configure.mig-geometry'',
      pa_description = ''Replace drifted MIG geometry with one full-profile GI and full CI.'',
      pa_commands = commands,
      pa_destructive = True,
      pa_reason = Some ''Reconciles exact UUID-bound MIG geometry after module preparation.''\<rparr>\<close>

definition act_lock_apt :: "string list list \<Rightarrow> plan_action" where
  \<open>act_lock_apt commands =
     \<lparr>pa_id = ''lock.apt'',
      pa_description = ''Select the NVIDIA driver branch or exact version with the vendor APT pinning package.'',
      pa_commands = commands,
      pa_destructive = True,
      pa_reason = Some ''Apply NVIDIA's package-wide pin before resolving the driver meta-package.''\<rparr>\<close>

definition act_lock_rpm :: "string list list \<Rightarrow> plan_action" where
  \<open>act_lock_rpm commands =
     \<lparr>pa_id = ''lock.rpm'',
      pa_description = ''Select the NVIDIA DNF module stream for the desired driver branch and module flavor.'',
      pa_commands = commands,
      pa_destructive = True,
      pa_reason = Some ''RHEL 8/9 use module streams to keep the driver on the selected branch.''\<rparr>\<close>

definition act_lock_zypper :: "string list list \<Rightarrow> plan_action" where
  \<open>act_lock_zypper commands =
     \<lparr>pa_id = ''lock.zypper'',
      pa_description = ''Exclude NVIDIA packages newer than the desired driver branch before installation.'',
      pa_commands = commands,
      pa_destructive = True,
      pa_reason = Some ''Zypper locks are exclusion rules; this keeps resolution within the desired branch.''\<rparr>\<close>

definition act_unsupported_package_recipe :: "string \<Rightarrow> plan_action" where
  \<open>act_unsupported_package_recipe reason =
     \<lparr>pa_id = ''unsupported.package-recipe'',
      pa_description = ''Cannot safely converge with the detected distribution/package recipe.'',
      pa_commands = [],
      pa_destructive = False,
      pa_reason = Some reason\<rparr>\<close>

definition act_unsupported_package_policy :: "string \<Rightarrow> plan_action" where
  \<open>act_unsupported_package_policy reason =
     \<lparr>pa_id = ''unsupported.package-policy'',
      pa_description = ''Cannot safely converge the package-policy selector from the observed baseline.'',
      pa_commands = [],
      pa_destructive = False,
      pa_reason = Some reason\<rparr>\<close>

lemma action_facts [actions]:
  "pa_id act_unsupported_package_manager = ''unsupported.package-manager''"
  "pa_commands act_unsupported_package_manager = []"
  "pa_destructive act_unsupported_package_manager = False"
  "pa_id act_unsupported_mig_rollback_baseline = ''unsupported.mig-rollback-baseline''"
  "pa_commands act_unsupported_mig_rollback_baseline = []"
  "pa_destructive act_unsupported_mig_rollback_baseline = False"
  "pa_id act_unsupported_mig_transaction_scope = ''unsupported.mig-transaction-scope''"
  "pa_commands act_unsupported_mig_transaction_scope = []"
  "pa_destructive act_unsupported_mig_transaction_scope = False"
  "pa_id act_unsupported_mig_geometry_unobservable = ''unsupported.mig-geometry-unobservable''"
  "pa_commands act_unsupported_mig_geometry_unobservable = []"
  "pa_destructive act_unsupported_mig_geometry_unobservable = False"
  "pa_id act_unsupported_mig_rollback_geometry = ''unsupported.mig-rollback-geometry''"
  "pa_commands act_unsupported_mig_rollback_geometry = []"
  "pa_destructive act_unsupported_mig_rollback_geometry = False"
  "pa_id (act_unsupported_precondition reason) = ''unsupported.precondition''"
  "pa_commands (act_unsupported_precondition reason) = []"
  "pa_destructive (act_unsupported_precondition reason) = False"
  "pa_id act_unsupported_module_reset_mig_transaction_scope = ''unsupported.module-reset-mig-transaction-scope''"
  "pa_commands act_unsupported_module_reset_mig_transaction_scope = []"
  "pa_destructive act_unsupported_module_reset_mig_transaction_scope = False"
  "pa_id act_unsupported_module_reset_mig_geometry_unobservable = ''unsupported.module-reset-mig-geometry-unobservable''"
  "pa_commands act_unsupported_module_reset_mig_geometry_unobservable = []"
  "pa_destructive act_unsupported_module_reset_mig_geometry_unobservable = False"
  "pa_id act_unsupported_module_reset_mig_rollback_geometry = ''unsupported.module-reset-mig-rollback-geometry''"
  "pa_commands act_unsupported_module_reset_mig_rollback_geometry = []"
  "pa_destructive act_unsupported_module_reset_mig_rollback_geometry = False"
  "pa_id act_unsupported_package_policy_staging = ''unsupported.package-policy-staging''"
  "pa_commands act_unsupported_package_policy_staging = []"
  "pa_destructive act_unsupported_package_policy_staging = False"
  "pa_id act_snapshot_current_state = ''snapshot.current-state''"
  "pa_commands act_snapshot_current_state = [[''nvidia-converge'', ''snapshot'', ''--apply'']]"
  "pa_destructive act_snapshot_current_state = False"
  "pa_id (act_install_packages commands reason) = ''install.packages''"
  "pa_commands (act_install_packages commands reason) = commands"
  "pa_destructive (act_install_packages commands reason) = True"
  "pa_id (act_prepare_mig_geometry_teardown commands) = ''prepare.mig-geometry-teardown''"
  "pa_commands (act_prepare_mig_geometry_teardown commands) = commands"
  "pa_destructive (act_prepare_mig_geometry_teardown commands) = True"
  "pa_id (act_prepare_module reason) = ''prepare.module''"
  "pa_commands (act_prepare_module reason) = []"
  "pa_destructive (act_prepare_module reason) = True"
  "pa_id (act_disable_mig commands) = ''disable.mig''"
  "pa_commands (act_disable_mig commands) = commands"
  "pa_destructive (act_disable_mig commands) = True"
  "pa_id (act_enable_mig commands) = ''enable.mig''"
  "pa_commands (act_enable_mig commands) = commands"
  "pa_destructive (act_enable_mig commands) = True"
  "pa_id (act_configure_mig_geometry commands) = ''configure.mig-geometry''"
  "pa_commands (act_configure_mig_geometry commands) = commands"
  "pa_destructive (act_configure_mig_geometry commands) = True"
  "pa_id act_reconcile_mig_after_module = ''reconcile.mig-after-module''"
  "pa_commands act_reconcile_mig_after_module = []"
  "pa_destructive act_reconcile_mig_after_module = True"
  "pa_id (act_configure_docker_runtime commands) = ''configure.docker-runtime''"
  "pa_commands (act_configure_docker_runtime commands) = commands"
  "pa_destructive (act_configure_docker_runtime commands) = True"
  "pa_id act_verify_stack = ''verify.stack''"
  "pa_commands act_verify_stack = [[''nvidia-converge'', ''verify'']]"
  "pa_destructive act_verify_stack = True"
  "pa_id act_service_docker_enable = ''service.docker''"
  "pa_commands act_service_docker_enable = [[''systemctl'', ''enable'', ''docker.service'']]"
  "pa_destructive act_service_docker_enable = False"
  "pa_id act_service_docker_enable_now = ''service.docker''"
  "pa_commands act_service_docker_enable_now = [[''systemctl'', ''enable'', ''--now'', ''docker.service'']]"
  "pa_destructive act_service_docker_enable_now = True"
  "pa_id act_service_docker_start = ''service.docker''"
  "pa_commands act_service_docker_start = [[''systemctl'', ''start'', ''docker.service'']]"
  "pa_destructive act_service_docker_start = True"
  "pa_id act_service_docker_enable_active = ''service.docker''"
  "pa_commands act_service_docker_enable_active = [[''systemctl'', ''enable'', ''docker.service'']]"
  "pa_destructive act_service_docker_enable_active = False"
  "pa_id act_unsupported_mig_state_unobservable = ''unsupported.mig-state-unobservable''"
  "pa_commands act_unsupported_mig_state_unobservable = []"
  "pa_destructive act_unsupported_mig_state_unobservable = False"
  "pa_id act_unsupported_mig_pending_unobservable = ''unsupported.mig-pending-unobservable''"
  "pa_commands act_unsupported_mig_pending_unobservable = []"
  "pa_destructive act_unsupported_mig_pending_unobservable = False"
  "pa_id act_unsupported_mig_pending_conflict = ''unsupported.mig-pending-conflict''"
  "pa_commands act_unsupported_mig_pending_conflict = []"
  "pa_destructive act_unsupported_mig_pending_conflict = False"
  "pa_id act_unsupported_mig_transaction_scope_now = ''unsupported.mig-transaction-scope''"
  "pa_commands act_unsupported_mig_transaction_scope_now = []"
  "pa_destructive act_unsupported_mig_transaction_scope_now = False"
  "pa_id act_unsupported_mig_geometry_unobservable_now = ''unsupported.mig-geometry-unobservable''"
  "pa_commands act_unsupported_mig_geometry_unobservable_now = []"
  "pa_destructive act_unsupported_mig_geometry_unobservable_now = False"
  "pa_id act_unsupported_mig_rollback_geometry_now = ''unsupported.mig-rollback-geometry''"
  "pa_commands act_unsupported_mig_rollback_geometry_now = []"
  "pa_destructive act_unsupported_mig_rollback_geometry_now = False"
  "pa_id (act_disable_mig_now commands) = ''disable.mig''"
  "pa_commands (act_disable_mig_now commands) = commands"
  "pa_destructive (act_disable_mig_now commands) = True"
  "pa_id (act_enable_mig_now commands) = ''enable.mig''"
  "pa_commands (act_enable_mig_now commands) = commands"
  "pa_destructive (act_enable_mig_now commands) = True"
  "pa_id (act_configure_mig_geometry_now commands) = ''configure.mig-geometry''"
  "pa_commands (act_configure_mig_geometry_now commands) = commands"
  "pa_destructive (act_configure_mig_geometry_now commands) = True"
  "pa_id (act_lock_apt commands) = ''lock.apt''"
  "pa_commands (act_lock_apt commands) = commands"
  "pa_destructive (act_lock_apt commands) = True"
  "pa_id (act_lock_rpm commands) = ''lock.rpm''"
  "pa_commands (act_lock_rpm commands) = commands"
  "pa_destructive (act_lock_rpm commands) = True"
  "pa_id (act_lock_zypper commands) = ''lock.zypper''"
  "pa_commands (act_lock_zypper commands) = commands"
  "pa_destructive (act_lock_zypper commands) = True"
  "pa_id (act_unsupported_package_recipe reason) = ''unsupported.package-recipe''"
  "pa_commands (act_unsupported_package_recipe reason) = []"
  "pa_destructive (act_unsupported_package_recipe reason) = False"
  "pa_id (act_unsupported_package_policy reason) = ''unsupported.package-policy''"
  "pa_commands (act_unsupported_package_policy reason) = []"
  "pa_destructive (act_unsupported_package_policy reason) = False"
  by (simp_all add: act_unsupported_package_manager_def
        act_unsupported_mig_rollback_baseline_def
        act_unsupported_mig_transaction_scope_def
        act_unsupported_mig_geometry_unobservable_def
        act_unsupported_mig_rollback_geometry_def
        act_unsupported_precondition_def
        act_unsupported_module_reset_mig_transaction_scope_def
        act_unsupported_module_reset_mig_geometry_unobservable_def
        act_unsupported_module_reset_mig_rollback_geometry_def
        act_unsupported_package_policy_staging_def
        act_snapshot_current_state_def
        act_install_packages_def
        act_prepare_mig_geometry_teardown_def
        act_prepare_module_def
        act_disable_mig_def
        act_enable_mig_def
        act_configure_mig_geometry_def
        act_reconcile_mig_after_module_def
        act_configure_docker_runtime_def
        act_verify_stack_def
        act_service_docker_enable_def
        act_service_docker_enable_now_def
        act_service_docker_start_def
        act_service_docker_enable_active_def
        act_unsupported_mig_state_unobservable_def
        act_unsupported_mig_pending_unobservable_def
        act_unsupported_mig_pending_conflict_def
        act_unsupported_mig_transaction_scope_now_def
        act_unsupported_mig_geometry_unobservable_now_def
        act_unsupported_mig_rollback_geometry_now_def
        act_disable_mig_now_def
        act_enable_mig_now_def
        act_configure_mig_geometry_now_def
        act_lock_apt_def
        act_lock_rpm_def
        act_lock_zypper_def
        act_unsupported_package_recipe_def
        act_unsupported_package_policy_def)

section \<open>Kinds of action\<close>

definition unsupported :: "plan_action \<Rightarrow> bool" where
  "unsupported act \<longleftrightarrow> startswith (pa_id act) ''unsupported.''"

lemma unsupported_facts [actions]:
  "unsupported act_unsupported_package_manager"
  "unsupported act_unsupported_mig_rollback_baseline"
  "unsupported act_unsupported_mig_transaction_scope"
  "unsupported act_unsupported_mig_geometry_unobservable"
  "unsupported act_unsupported_mig_rollback_geometry"
  "unsupported (act_unsupported_precondition reason)"
  "unsupported act_unsupported_module_reset_mig_transaction_scope"
  "unsupported act_unsupported_module_reset_mig_geometry_unobservable"
  "unsupported act_unsupported_module_reset_mig_rollback_geometry"
  "unsupported act_unsupported_package_policy_staging"
  "\<not> unsupported act_snapshot_current_state"
  "\<not> unsupported (act_install_packages commands reason)"
  "\<not> unsupported (act_prepare_mig_geometry_teardown commands)"
  "\<not> unsupported (act_prepare_module reason)"
  "\<not> unsupported (act_disable_mig commands)"
  "\<not> unsupported (act_enable_mig commands)"
  "\<not> unsupported (act_configure_mig_geometry commands)"
  "\<not> unsupported act_reconcile_mig_after_module"
  "\<not> unsupported (act_configure_docker_runtime commands)"
  "\<not> unsupported act_verify_stack"
  "\<not> unsupported act_service_docker_enable"
  "\<not> unsupported act_service_docker_enable_now"
  "\<not> unsupported act_service_docker_start"
  "\<not> unsupported act_service_docker_enable_active"
  "unsupported act_unsupported_mig_state_unobservable"
  "unsupported act_unsupported_mig_pending_unobservable"
  "unsupported act_unsupported_mig_pending_conflict"
  "unsupported act_unsupported_mig_transaction_scope_now"
  "unsupported act_unsupported_mig_geometry_unobservable_now"
  "unsupported act_unsupported_mig_rollback_geometry_now"
  "\<not> unsupported (act_disable_mig_now commands)"
  "\<not> unsupported (act_enable_mig_now commands)"
  "\<not> unsupported (act_configure_mig_geometry_now commands)"
  "\<not> unsupported (act_lock_apt commands)"
  "\<not> unsupported (act_lock_rpm commands)"
  "\<not> unsupported (act_lock_zypper commands)"
  "unsupported (act_unsupported_package_recipe reason)"
  "unsupported (act_unsupported_package_policy reason)"
  by (simp_all add: unsupported_def actions startswith_def)

end
