(* ===== verification/Doctor.thy ===== *)
theory Doctor
  imports Mig
begin

text \<open>
  Diagnosis (\<open>nvidia_converge/doctor.py\<close>): one constant per finding, with the texts of the
  code, and \<open>diagnose\<close> as the concatenation of the checks in the code's order.  The findings
  that quote an observation take the desired state and the audit.
\<close>

section \<open>The findings\<close>

definition f_package_manager_missing :: "finding" where
  \<open>f_package_manager_missing =
     \<lparr>fi_id = ''package-manager.missing'',
      fi_severity = Error,
      fi_summary = ''No supported package manager found'',
      fi_detail = ''Expected apt, dnf, yum, or zypper to manage NVIDIA stack packages.'',
      fi_evidence = [],
      fi_remediation = None\<rparr>\<close>

definition f_package_inventory_incomplete :: "desired_state \<Rightarrow> host_audit \<Rightarrow> finding" where
  \<open>f_package_inventory_incomplete d a =
     \<lparr>fi_id = ''package-inventory.incomplete'',
      fi_severity = Error,
      fi_summary = ''Installed package inventory is incomplete'',
      fi_detail = ''A complete package inventory is required before convergence so rollback state can be trusted.'',
      fi_evidence =
        (case ha_package_inventory_result a of
           None \<Rightarrow> []
         | Some r \<Rightarrow> [(''returncode'', case cr_returncode r of None \<Rightarrow> JNull | Some n \<Rightarrow> JInt n),
                      (''stderr'', JStr (cr_stderr r))]),
      fi_remediation = Some ''Repair the package database/query tooling and rerun doctor before applying changes.''\<rparr>\<close>

definition f_kernel_headers_missing :: "desired_state \<Rightarrow> host_audit \<Rightarrow> finding" where
  \<open>f_kernel_headers_missing d a =
     \<lparr>fi_id = ''kernel.headers.missing'',
      fi_severity = Error,
      fi_summary = ''Running-kernel headers are not ready'',
      fi_detail = (''A trusted, package-owned, prepared header tree for running kernel '' @ ki_running (ha_kernel a) @ '' is required to compile or install the NVIDIA kernel module.''),
      fi_evidence = [],
      fi_remediation = Some ''Install matching kernel headers, repair the running kernel's build link, or switch to a kernel with available headers.''\<rparr>\<close>

definition f_compiler_missing :: "finding" where
  \<open>f_compiler_missing =
     \<lparr>fi_id = ''compiler.missing'',
      fi_severity = Error,
      fi_summary = ''No C compiler found'',
      fi_detail = ''The NVIDIA kernel module build needs gcc or cc.'',
      fi_evidence = [],
      fi_remediation = Some ''Install build-essential or gcc/make for this distribution.''\<rparr>\<close>

definition f_secure_boot_enabled :: "finding" where
  \<open>f_secure_boot_enabled =
     \<lparr>fi_id = ''secure-boot.enabled'',
      fi_severity = Error,
      fi_summary = ''Secure Boot is enabled'',
      fi_detail = ''Desired state requires Secure Boot disabled.'',
      fi_evidence = [],
      fi_remediation = Some ''Disable Secure Boot in firmware or change desired.secure_boot.''\<rparr>\<close>

definition f_secure_boot_unsigned_module :: "finding" where
  \<open>f_secure_boot_unsigned_module =
     \<lparr>fi_id = ''secure-boot.unsigned-module'',
      fi_severity = Error,
      fi_summary = ''Desired policy requires a verified loaded NVIDIA module'',
      fi_detail = ''The loaded module's kernel taint state did not prove a verified signature.'',
      fi_evidence = [],
      fi_remediation = Some ''Install signed packages, enroll a trusted key if needed, and reload the NVIDIA module.''\<rparr>\<close>

definition f_secure_boot_installed_module_unsigned :: "finding" where
  \<open>f_secure_boot_installed_module_unsigned =
     \<lparr>fi_id = ''secure-boot.installed-module-unsigned'',
      fi_severity = Error,
      fi_summary = ''Desired policy requires a signed on-disk NVIDIA module'',
      fi_detail = ''modinfo did not show a signer for the NVIDIA module selected for the running kernel.'',
      fi_evidence = [],
      fi_remediation = Some ''Install a signed NVIDIA module package or sign it with an enrolled key before reloading.''\<rparr>\<close>

definition f_secure_boot_unknown :: "finding" where
  \<open>f_secure_boot_unknown =
     \<lparr>fi_id = ''secure-boot.unknown'',
      fi_severity = Error,
      fi_summary = ''Secure Boot state could not be determined'',
      fi_detail = ''The desired Secure Boot policy cannot be proven without an observable firmware state.'',
      fi_evidence = [],
      fi_remediation = Some ''Install mokutil and ensure the host exposes its UEFI Secure Boot state.''\<rparr>\<close>

definition f_gpu_open_module_unsupported :: "finding" where
  \<open>f_gpu_open_module_unsupported =
     \<lparr>fi_id = ''gpu.open-module-unsupported'',
      fi_severity = Error,
      fi_summary = ''GPU hardware does not support the open kernel module'',
      fi_detail = ''At least one observed GPU has compute capability older than Turing (7.5).'',
      fi_evidence = [],
      fi_remediation = Some ''Use a closed-module desired driver for Maxwell, Pascal, or Volta GPUs.''\<rparr>\<close>

definition f_gpu_open_module_support_unknown :: "finding" where
  \<open>f_gpu_open_module_support_unknown =
     \<lparr>fi_id = ''gpu.open-module-support-unknown'',
      fi_severity = Error,
      fi_summary = ''Open kernel-module hardware support is unknown'',
      fi_detail = ''The compute capability of every GPU must be observed before selecting the open module flavor.'',
      fi_evidence = [],
      fi_remediation = Some ''Restore nvidia-smi GPU capability queries or select a closed-module desired driver.''\<rparr>\<close>

definition f_module_not_loaded :: "desired_state \<Rightarrow> host_audit \<Rightarrow> finding" where
  \<open>f_module_not_loaded d a =
     \<lparr>fi_id = ''module.not-loaded'',
      fi_severity = Error,
      fi_summary = ''NVIDIA kernel module is not loaded'',
      fi_detail = ''The host has no loaded nvidia kernel module, so GPUs will not be exposed to NVML or containers.'',
      fi_evidence = [(''devices'', JList (map JStr (mi_devices (ha_module a))))],
      fi_remediation = Some ''Install the desired driver, rebuild initramfs if needed, and load nvidia.''\<rparr>\<close>

definition f_driver_loaded_version_unknown :: "finding" where
  \<open>f_driver_loaded_version_unknown =
     \<lparr>fi_id = ''driver.loaded-version-unknown'',
      fi_severity = Error,
      fi_summary = ''Loaded NVIDIA module version is unknown'',
      fi_detail = ''The loaded module is present, but /sys/module/nvidia/version did not provide its version.'',
      fi_evidence = [],
      fi_remediation = Some ''Restore sysfs observability and verify the loaded NVIDIA module before convergence.''\<rparr>\<close>

definition f_driver_installed_version_unknown :: "finding" where
  \<open>f_driver_installed_version_unknown =
     \<lparr>fi_id = ''driver.installed-version-unknown'',
      fi_severity = Error,
      fi_summary = ''On-disk NVIDIA module version is unknown'',
      fi_detail = ''modinfo did not provide the version of the NVIDIA module selected for the running kernel.'',
      fi_evidence = [],
      fi_remediation = Some ''Install working kmod tooling and a complete NVIDIA kernel module package for the running kernel.''\<rparr>\<close>

definition f_driver_module_version_mismatch :: "desired_state \<Rightarrow> host_audit \<Rightarrow> finding" where
  \<open>f_driver_module_version_mismatch d a =
     \<lparr>fi_id = ''driver.module-version-mismatch'',
      fi_severity = Error,
      fi_summary = ''Loaded and on-disk NVIDIA modules differ'',
      fi_detail = (''Loaded module '' @ opt_text (mi_version (ha_module a)) @ '' does not match modinfo-selected module '' @ opt_text (mi_installed_version (ha_module a)) @ ''.''),
      fi_evidence = [],
      fi_remediation = Some ''Drain GPU users and reload the complete NVIDIA module stack, then rerun doctor.''\<rparr>\<close>

definition f_driver_version_mismatch :: "desired_state \<Rightarrow> host_audit \<Rightarrow> finding" where
  \<open>f_driver_version_mismatch d a =
     \<lparr>fi_id = ''driver.version-mismatch'',
      fi_severity = Error,
      fi_summary = ''Loaded NVIDIA module does not match desired driver'',
      fi_detail = (''Loaded module version '' @ opt_text (mi_version (ha_module a)) @ '' does not match desired '' @ driver_match_label d @ ''.''),
      fi_evidence = [],
      fi_remediation = Some ''Replace the installed driver with the desired version or branch.''\<rparr>\<close>

definition f_driver_closed_module :: "finding" where
  \<open>f_driver_closed_module =
     \<lparr>fi_id = ''driver.closed-module'',
      fi_severity = Error,
      fi_summary = ''Closed NVIDIA module detected'',
      fi_detail = ''Desired state requires the open kernel module variant.'',
      fi_evidence = [],
      fi_remediation = Some ''Install the open module package for the desired driver branch.''\<rparr>\<close>

definition f_driver_open_module :: "finding" where
  \<open>f_driver_open_module =
     \<lparr>fi_id = ''driver.open-module'',
      fi_severity = Error,
      fi_summary = ''Open NVIDIA module detected'',
      fi_detail = ''Desired state requires the closed kernel module variant.'',
      fi_evidence = [],
      fi_remediation = Some ''Install the closed module package for the desired driver branch.''\<rparr>\<close>

definition f_driver_module_flavor_unknown :: "finding" where
  \<open>f_driver_module_flavor_unknown =
     \<lparr>fi_id = ''driver.module-flavor-unknown'',
      fi_severity = Error,
      fi_summary = ''Loaded NVIDIA module flavor could not be determined'',
      fi_detail = ''/proc/driver/nvidia/version did not prove whether the loaded module is the open or closed variant.'',
      fi_evidence = [],
      fi_remediation = Some ''Restore NVIDIA procfs observability and reload the desired module variant.''\<rparr>\<close>

definition f_driver_installed_closed_module :: "finding" where
  \<open>f_driver_installed_closed_module =
     \<lparr>fi_id = ''driver.installed-closed-module'',
      fi_severity = Error,
      fi_summary = ''Closed on-disk NVIDIA module detected'',
      fi_detail = ''modinfo shows that the running kernel would load the closed variant, while desired state requires the open variant.'',
      fi_evidence = [],
      fi_remediation = Some ''Install the open module package for the desired driver branch.''\<rparr>\<close>

definition f_driver_installed_open_module :: "finding" where
  \<open>f_driver_installed_open_module =
     \<lparr>fi_id = ''driver.installed-open-module'',
      fi_severity = Error,
      fi_summary = ''Open on-disk NVIDIA module detected'',
      fi_detail = ''modinfo shows that the running kernel would load the open variant, while desired state requires the closed variant.'',
      fi_evidence = [],
      fi_remediation = Some ''Install the closed module package for the desired driver branch.''\<rparr>\<close>

definition f_driver_installed_module_flavor_unknown :: "finding" where
  \<open>f_driver_installed_module_flavor_unknown =
     \<lparr>fi_id = ''driver.installed-module-flavor-unknown'',
      fi_severity = Error,
      fi_summary = ''On-disk NVIDIA module flavor could not be determined'',
      fi_detail = ''modinfo did not prove which NVIDIA module variant is selected for the running kernel.'',
      fi_evidence = [],
      fi_remediation = Some ''Install working kmod tooling and verify the NVIDIA module license metadata.''\<rparr>\<close>

definition f_driver_module_flavor_mismatch :: "finding" where
  \<open>f_driver_module_flavor_mismatch =
     \<lparr>fi_id = ''driver.module-flavor-mismatch'',
      fi_severity = Error,
      fi_summary = ''Loaded and on-disk NVIDIA module flavors differ'',
      fi_detail = ''The loaded NVIDIA module variant differs from the module selected by modinfo for the running kernel.'',
      fi_evidence = [],
      fi_remediation = Some ''Drain GPU users and reload the complete NVIDIA module stack.''\<rparr>\<close>

definition f_nvidia_smi_failed :: "desired_state \<Rightarrow> host_audit \<Rightarrow> finding" where
  \<open>f_nvidia_smi_failed d a =
     \<lparr>fi_id = ''nvidia-smi.failed'',
      fi_severity = Error,
      fi_summary = ''nvidia-smi failed'',
      fi_detail = ''Driver userspace cannot communicate with the NVIDIA stack.'',
      fi_evidence = [(''stdout'', JStr (cr_stdout (ha_nvidia_smi a))), (''stderr'', JStr (cr_stderr (ha_nvidia_smi a)))],
      fi_remediation = Some ''Repair driver/module/userspace version alignment.''\<rparr>\<close>

definition f_nvml_failed :: "desired_state \<Rightarrow> host_audit \<Rightarrow> finding" where
  \<open>f_nvml_failed d a =
     \<lparr>fi_id = ''nvml.failed'',
      fi_severity = Error,
      fi_summary = ''NVML library load failed'',
      fi_detail = ''libnvidia-ml.so.1 is unavailable or not loadable.'',
      fi_evidence = [(''stderr'', JStr (cr_stderr (ha_nvml a)))],
      fi_remediation = Some ''Install the driver userspace libraries for the desired branch.''\<rparr>\<close>

definition f_cuda_compat_deployment_unmodeled :: "finding" where
  \<open>f_cuda_compat_deployment_unmodeled =
     \<lparr>fi_id = ''cuda-compat.deployment-unmodeled'',
      fi_severity = Error,
      fi_summary = ''CUDA forward-compatibility deployment is not modeled'',
      fi_detail = ''Installing a cuda-compat package alone does not configure the application loader path, and this release cannot deploy or roll back that path safely.'',
      fi_evidence = [],
      fi_remediation = Some ''Use cuda_compat: none in this release.''\<rparr>\<close>

definition f_docker_missing :: "finding" where
  \<open>f_docker_missing =
     \<lparr>fi_id = ''docker.missing'',
      fi_severity = Error,
      fi_summary = ''Docker is not installed'',
      fi_detail = ''Desired state requires Docker as the container runtime.'',
      fi_evidence = [],
      fi_remediation = Some ''Install Docker and configure the NVIDIA container toolkit.''\<rparr>\<close>

definition f_docker_service_inactive :: "finding" where
  \<open>f_docker_service_inactive =
     \<lparr>fi_id = ''docker.service-inactive'',
      fi_severity = Error,
      fi_summary = ''Docker service is inactive'',
      fi_detail = ''Desired state requires the Docker daemon to be active so GPU containers can run.'',
      fi_evidence = [],
      fi_remediation = Some ''Start the Docker service and rerun verification.''\<rparr>\<close>

definition f_docker_service_state_unknown :: "finding" where
  \<open>f_docker_service_state_unknown =
     \<lparr>fi_id = ''docker.service-state-unknown'',
      fi_severity = Error,
      fi_summary = ''Docker service activity is unknown'',
      fi_detail = ''The Docker unit's active state could not be observed, so convergence cannot safely decide whether to start it.'',
      fi_evidence = [],
      fi_remediation = Some ''Restore systemd service-state observability and rerun doctor.''\<rparr>\<close>

definition f_docker_service_disabled :: "finding" where
  \<open>f_docker_service_disabled =
     \<lparr>fi_id = ''docker.service-disabled'',
      fi_severity = Error,
      fi_summary = ''Docker service is not enabled at boot'',
      fi_detail = ''A reboot could leave the otherwise healthy GPU container runtime unavailable.'',
      fi_evidence = [],
      fi_remediation = Some ''Enable the Docker service persistently and rerun verification.''\<rparr>\<close>

definition f_docker_service_enablement_unknown :: "finding" where
  \<open>f_docker_service_enablement_unknown =
     \<lparr>fi_id = ''docker.service-enablement-unknown'',
      fi_severity = Error,
      fi_summary = ''Docker boot enablement is unknown'',
      fi_detail = ''The Docker unit's boot-persistent enablement could not be observed.'',
      fi_evidence = [],
      fi_remediation = Some ''Restore systemd enablement observability and rerun doctor.''\<rparr>\<close>

definition f_container_toolkit_missing :: "finding" where
  \<open>f_container_toolkit_missing =
     \<lparr>fi_id = ''container-toolkit.missing'',
      fi_severity = Error,
      fi_summary = ''NVIDIA container toolkit is missing'',
      fi_detail = ''Docker cannot run GPU workloads without the NVIDIA container runtime/toolkit.'',
      fi_evidence = [],
      fi_remediation = Some ''Install nvidia-container-toolkit and run nvidia-ctk runtime configure.''\<rparr>\<close>

definition f_docker_nvidia_runtime_missing :: "finding" where
  \<open>f_docker_nvidia_runtime_missing =
     \<lparr>fi_id = ''docker.nvidia-runtime-missing'',
      fi_severity = Error,
      fi_summary = ''Docker is not configured with the NVIDIA runtime'',
      fi_detail = ''docker info does not list an nvidia runtime.'',
      fi_evidence = [],
      fi_remediation = Some ''Run nvidia-ctk runtime configure --runtime=docker and restart Docker.''\<rparr>\<close>

definition f_docker_runtime_unknown :: "finding" where
  \<open>f_docker_runtime_unknown =
     \<lparr>fi_id = ''docker.runtime-unknown'',
      fi_severity = Error,
      fi_summary = ''Docker runtime state could not be determined'',
      fi_detail = ''docker info failed, so NVIDIA runtime configuration cannot be proven.'',
      fi_evidence = [],
      fi_remediation = Some ''Ensure the Docker daemon is running and accessible, then rerun doctor.''\<rparr>\<close>

definition f_fabric_manager_not_applicable :: "finding" where
  \<open>f_fabric_manager_not_applicable =
     \<lparr>fi_id = ''fabric-manager.not-applicable'',
      fi_severity = Error,
      fi_summary = ''Fabric Manager is not applicable to the observed topology'',
      fi_detail = ''Every GPU reported that the Fabric Manager handshake is unsupported.'',
      fi_evidence = [],
      fi_remediation = Some ''Use fabric_manager: false or deploy this profile only to a qualified NVSwitch system.''\<rparr>\<close>

definition f_fabric_manager_applicability_unknown :: "finding" where
  \<open>f_fabric_manager_applicability_unknown =
     \<lparr>fi_id = ''fabric-manager.applicability-unknown'',
      fi_severity = Error,
      fi_summary = ''Fabric Manager topology could not be qualified'',
      fi_detail = ''The GPU Fabric handshake state was unavailable or malformed.'',
      fi_evidence = [],
      fi_remediation = Some ''Restore `nvidia-smi -q -d FABRIC` observability before using the Fabric Manager profile.''\<rparr>\<close>

definition f_fabric_manager_missing :: "finding" where
  \<open>f_fabric_manager_missing =
     \<lparr>fi_id = ''fabric-manager.missing'',
      fi_severity = Error,
      fi_summary = ''NVIDIA Fabric Manager package is missing'',
      fi_detail = ''This release verifies pre-provisioned Fabric Manager but does not install it automatically.'',
      fi_evidence = [],
      fi_remediation = Some ''Provision the exact driver-matched Fabric Manager package using the platform vendor procedure, then rerun doctor.''\<rparr>\<close>

definition f_fabric_manager_inactive :: "finding" where
  \<open>f_fabric_manager_inactive =
     \<lparr>fi_id = ''fabric-manager.inactive'',
      fi_severity = Error,
      fi_summary = ''NVIDIA Fabric Manager is inactive'',
      fi_detail = ''Desired state requires the pre-provisioned Fabric Manager service to be active.'',
      fi_evidence = [],
      fi_remediation = Some ''Validate the NVSwitch topology and start Fabric Manager using the platform vendor procedure.''\<rparr>\<close>

definition f_fabric_manager_unknown :: "finding" where
  \<open>f_fabric_manager_unknown =
     \<lparr>fi_id = ''fabric-manager.unknown'',
      fi_severity = Error,
      fi_summary = ''Fabric Manager state could not be determined'',
      fi_detail = ''Desired state requires an active Fabric Manager service, but service state is unavailable.'',
      fi_evidence = [],
      fi_remediation = Some ''Run on a systemd host and verify the nvidia-fabricmanager unit.''\<rparr>\<close>

definition f_fabric_manager_disabled :: "finding" where
  \<open>f_fabric_manager_disabled =
     \<lparr>fi_id = ''fabric-manager.disabled'',
      fi_severity = Error,
      fi_summary = ''NVIDIA Fabric Manager is not enabled at boot'',
      fi_detail = ''A reboot would leave the required Fabric Manager service inactive.'',
      fi_evidence = [],
      fi_remediation = Some ''Enable the qualified nvidia-fabricmanager service and rerun doctor.''\<rparr>\<close>

definition f_fabric_manager_enablement_unknown :: "finding" where
  \<open>f_fabric_manager_enablement_unknown =
     \<lparr>fi_id = ''fabric-manager.enablement-unknown'',
      fi_severity = Error,
      fi_summary = ''Fabric Manager boot enablement is unknown'',
      fi_detail = ''The required service's boot-persistent state could not be observed.'',
      fi_evidence = [],
      fi_remediation = Some ''Restore systemd enablement observability and rerun doctor.''\<rparr>\<close>

definition f_fabric_manager_fabric_unhealthy :: "finding" where
  \<open>f_fabric_manager_fabric_unhealthy =
     \<lparr>fi_id = ''fabric-manager.fabric-unhealthy'',
      fi_severity = Error,
      fi_summary = ''GPU Fabric registration is unhealthy'',
      fi_detail = ''At least one GPU did not complete a successful Fabric Manager handshake.'',
      fi_evidence = [],
      fi_remediation = Some ''Repair the NVSwitch/Fabric Manager topology before convergence.''\<rparr>\<close>

definition f_fabric_manager_fabric_health_unknown :: "finding" where
  \<open>f_fabric_manager_fabric_health_unknown =
     \<lparr>fi_id = ''fabric-manager.fabric-health-unknown'',
      fi_severity = Error,
      fi_summary = ''GPU Fabric registration health is unknown'',
      fi_detail = ''A successful Fabric Manager handshake could not be proven for every GPU.'',
      fi_evidence = [],
      fi_remediation = Some ''Restore GPU Fabric health observability and rerun doctor.''\<rparr>\<close>

definition f_fabric_manager_version_unknown :: "finding" where
  \<open>f_fabric_manager_version_unknown =
     \<lparr>fi_id = ''fabric-manager.version-unknown'',
      fi_severity = Error,
      fi_summary = ''Fabric Manager version could not be determined'',
      fi_detail = ''Driver/Fabric Manager compatibility cannot be proven without a version.'',
      fi_evidence = [],
      fi_remediation = Some ''Install a matching versioned Fabric Manager package and ensure nv-fabricmanager -v works.''\<rparr>\<close>

definition f_fabric_manager_version_mismatch :: "desired_state \<Rightarrow> host_audit \<Rightarrow> finding" where
  \<open>f_fabric_manager_version_mismatch d a =
     \<lparr>fi_id = ''fabric-manager.version-mismatch'',
      fi_severity = Error,
      fi_summary = ''Fabric Manager does not match the desired driver'',
      fi_detail = (''Fabric Manager '' @ opt_text (ha_fabric_manager_version a) @ '' does not match desired '' @ driver_match_label d @ ''.''),
      fi_evidence = [],
      fi_remediation = Some ''Install the Fabric Manager build matching the NVIDIA driver.''\<rparr>\<close>

definition f_fabric_manager_version_mismatch_loaded :: "desired_state \<Rightarrow> host_audit \<Rightarrow> finding" where
  \<open>f_fabric_manager_version_mismatch_loaded d a =
     \<lparr>fi_id = ''fabric-manager.version-mismatch'',
      fi_severity = Error,
      fi_summary = ''Fabric Manager does not exactly match the loaded driver'',
      fi_detail = (''Loaded NVIDIA module '' @ opt_text (mi_version (ha_module a)) @ '' and Fabric Manager '' @ opt_text (ha_fabric_manager_version a) @ '' must use the same version.''),
      fi_evidence = [],
      fi_remediation = Some ''Install the Fabric Manager build that exactly matches the loaded NVIDIA driver.''\<rparr>\<close>

definition f_mig_unsupported :: "finding" where
  \<open>f_mig_unsupported =
     \<lparr>fi_id = ''mig.unsupported'',
      fi_severity = Error,
      fi_summary = ''At least one GPU does not support MIG'',
      fi_detail = ''MIG cannot be enabled host-wide because the GPU inventory includes a device reporting MIG N/A.'',
      fi_evidence = [],
      fi_remediation = Some ''Use desired MIG disabled or target only a homogeneous MIG-capable node.''\<rparr>\<close>

definition f_mig_capability_unknown :: "finding" where
  \<open>f_mig_capability_unknown =
     \<lparr>fi_id = ''mig.capability-unknown'',
      fi_severity = Error,
      fi_summary = ''MIG capability could not be determined'',
      fi_detail = ''Every GPU must report a current and pending MIG state before host-wide enablement.'',
      fi_evidence = [],
      fi_remediation = Some ''Restore nvidia-smi MIG capability queries before convergence.''\<rparr>\<close>

definition f_mig_pending_unknown :: "finding" where
  \<open>f_mig_pending_unknown =
     \<lparr>fi_id = ''mig.pending-unknown'',
      fi_severity = Error,
      fi_summary = ''Pending MIG mode could not be determined'',
      fi_detail = ''A pending firmware/driver MIG transition could change state after reboot and must be observable.'',
      fi_evidence = [],
      fi_remediation = Some ''Use a driver that exposes current and pending MIG mode for every GPU.''\<rparr>\<close>

definition f_mig_pending_reboot :: "desired_state \<Rightarrow> host_audit \<Rightarrow> finding" where
  \<open>f_mig_pending_reboot d a =
     \<lparr>fi_id = ''mig.pending-reboot'',
      fi_severity = Error,
      fi_summary = ''A MIG mode transition is pending'',
      fi_detail = (''Current MIG mode is '' @ opt_text (ha_mig_mode a) @ '', while pending mode is '' @ opt_text (ha_mig_mode_pending a) @ ''.''),
      fi_evidence = [],
      fi_remediation = Some ''Reboot the node during the maintenance window, then rerun doctor and applied verification.''\<rparr>\<close>

definition f_mig_unknown :: "finding" where
  \<open>f_mig_unknown =
     \<lparr>fi_id = ''mig.unknown'',
      fi_severity = Error,
      fi_summary = ''MIG mode could not be determined'',
      fi_detail = ''Desired MIG state cannot be proven from nvidia-smi output.'',
      fi_evidence = [],
      fi_remediation = Some ''Ensure nvidia-smi can query every GPU's MIG mode.''\<rparr>\<close>

definition f_mig_mode :: "desired_state \<Rightarrow> host_audit \<Rightarrow> finding" where
  \<open>f_mig_mode d a =
     \<lparr>fi_id = (''mig.'' @ opt_text (ha_mig_mode a)),
      fi_severity = Error,
      fi_summary = (if ha_mig_mode a = Some ''mixed'' then ''MIG mode is mixed across GPUs''
        else ''MIG mode is '' @ opt_text (ha_mig_mode a)),
      fi_detail = (''Desired state requires MIG '' @ ds_mig d @ '' on every GPU.''),
      fi_evidence = [],
      fi_remediation = Some (''Set MIG '' @ ds_mig d @ '' on every GPU during a maintenance window.'')\<rparr>\<close>

definition f_mig_geometry_unobservable :: "finding" where
  \<open>f_mig_geometry_unobservable =
     \<lparr>fi_id = ''mig.geometry-unobservable'',
      fi_severity = Error,
      fi_summary = ''MIG instance geometry could not be determined'',
      fi_detail = ''Rollback and container binding require a complete GI/CI and MIG-device inventory.'',
      fi_evidence = [],
      fi_remediation = Some ''Restore UUID-bound `nvidia-smi mig -lgi`, `-lci`, and `nvidia-smi -L` observations before convergence.''\<rparr>\<close>

definition f_mig_geometry :: "desired_state \<Rightarrow> host_audit \<Rightarrow> finding" where
  \<open>f_mig_geometry d a =
     \<lparr>fi_id = (if ha_mig_geometry a = [] then ''mig.geometry-missing'' else ''mig.geometry-mismatch''),
      fi_severity = Error,
      fi_summary = ''MIG mode does not expose the desired usable instance'',
      fi_detail = ''Desired MIG state requires exactly one full-profile GPU instance containing one full-size compute instance.'',
      fi_evidence = [],
      fi_remediation = Some ''Recreate the UUID-bound MIG geometry with GPU instance profile 0 at placement 0 and its default compute instance.''\<rparr>\<close>

definition f_mig_device_unobservable :: "finding" where
  \<open>f_mig_device_unobservable =
     \<lparr>fi_id = ''mig.device-unobservable'',
      fi_severity = Error,
      fi_summary = ''The desired MIG compute device UUID is not unique'',
      fi_detail = ''Container verification requires exactly one retained MIG device UUID.'',
      fi_evidence = [],
      fi_remediation = Some ''Repair MIG enumeration before running a workload.''\<rparr>\<close>

definition f_mig_disabled_with_instances :: "finding" where
  \<open>f_mig_disabled_with_instances =
     \<lparr>fi_id = ''mig.disabled-with-instances'',
      fi_severity = Error,
      fi_summary = ''MIG devices remain visible while MIG mode is disabled'',
      fi_detail = ''The mode and instance observations are internally inconsistent.'',
      fi_evidence = [],
      fi_remediation = Some ''Reset the GPU and rerun audit before convergence.''\<rparr>\<close>

definition f_stack_healthy :: "finding" where
  \<open>f_stack_healthy =
     \<lparr>fi_id = ''stack.healthy'',
      fi_severity = Info,
      fi_summary = ''NVIDIA stack matches observed desired-state checks'',
      fi_detail = ''No blocking audit issues were detected.'',
      fi_evidence = [],
      fi_remediation = None\<rparr>\<close>

lemma finding_facts [findings]:
  "fi_id f_package_manager_missing = ''package-manager.missing''" "fi_severity f_package_manager_missing = Error"
  "fi_id (f_package_inventory_incomplete d a) = ''package-inventory.incomplete''" "fi_severity (f_package_inventory_incomplete d a) = Error"
  "fi_id (f_kernel_headers_missing d a) = ''kernel.headers.missing''" "fi_severity (f_kernel_headers_missing d a) = Error"
  "fi_id f_compiler_missing = ''compiler.missing''" "fi_severity f_compiler_missing = Error"
  "fi_id f_secure_boot_enabled = ''secure-boot.enabled''" "fi_severity f_secure_boot_enabled = Error"
  "fi_id f_secure_boot_unsigned_module = ''secure-boot.unsigned-module''" "fi_severity f_secure_boot_unsigned_module = Error"
  "fi_id f_secure_boot_installed_module_unsigned = ''secure-boot.installed-module-unsigned''" "fi_severity f_secure_boot_installed_module_unsigned = Error"
  "fi_id f_secure_boot_unknown = ''secure-boot.unknown''" "fi_severity f_secure_boot_unknown = Error"
  "fi_id f_gpu_open_module_unsupported = ''gpu.open-module-unsupported''" "fi_severity f_gpu_open_module_unsupported = Error"
  "fi_id f_gpu_open_module_support_unknown = ''gpu.open-module-support-unknown''" "fi_severity f_gpu_open_module_support_unknown = Error"
  "fi_id (f_module_not_loaded d a) = ''module.not-loaded''" "fi_severity (f_module_not_loaded d a) = Error"
  "fi_id f_driver_loaded_version_unknown = ''driver.loaded-version-unknown''" "fi_severity f_driver_loaded_version_unknown = Error"
  "fi_id f_driver_installed_version_unknown = ''driver.installed-version-unknown''" "fi_severity f_driver_installed_version_unknown = Error"
  "fi_id (f_driver_module_version_mismatch d a) = ''driver.module-version-mismatch''" "fi_severity (f_driver_module_version_mismatch d a) = Error"
  "fi_id (f_driver_version_mismatch d a) = ''driver.version-mismatch''" "fi_severity (f_driver_version_mismatch d a) = Error"
  "fi_id f_driver_closed_module = ''driver.closed-module''" "fi_severity f_driver_closed_module = Error"
  "fi_id f_driver_open_module = ''driver.open-module''" "fi_severity f_driver_open_module = Error"
  "fi_id f_driver_module_flavor_unknown = ''driver.module-flavor-unknown''" "fi_severity f_driver_module_flavor_unknown = Error"
  "fi_id f_driver_installed_closed_module = ''driver.installed-closed-module''" "fi_severity f_driver_installed_closed_module = Error"
  "fi_id f_driver_installed_open_module = ''driver.installed-open-module''" "fi_severity f_driver_installed_open_module = Error"
  "fi_id f_driver_installed_module_flavor_unknown = ''driver.installed-module-flavor-unknown''" "fi_severity f_driver_installed_module_flavor_unknown = Error"
  "fi_id f_driver_module_flavor_mismatch = ''driver.module-flavor-mismatch''" "fi_severity f_driver_module_flavor_mismatch = Error"
  "fi_id (f_nvidia_smi_failed d a) = ''nvidia-smi.failed''" "fi_severity (f_nvidia_smi_failed d a) = Error"
  "fi_id (f_nvml_failed d a) = ''nvml.failed''" "fi_severity (f_nvml_failed d a) = Error"
  "fi_id f_cuda_compat_deployment_unmodeled = ''cuda-compat.deployment-unmodeled''" "fi_severity f_cuda_compat_deployment_unmodeled = Error"
  "fi_id f_docker_missing = ''docker.missing''" "fi_severity f_docker_missing = Error"
  "fi_id f_docker_service_inactive = ''docker.service-inactive''" "fi_severity f_docker_service_inactive = Error"
  "fi_id f_docker_service_state_unknown = ''docker.service-state-unknown''" "fi_severity f_docker_service_state_unknown = Error"
  "fi_id f_docker_service_disabled = ''docker.service-disabled''" "fi_severity f_docker_service_disabled = Error"
  "fi_id f_docker_service_enablement_unknown = ''docker.service-enablement-unknown''" "fi_severity f_docker_service_enablement_unknown = Error"
  "fi_id f_container_toolkit_missing = ''container-toolkit.missing''" "fi_severity f_container_toolkit_missing = Error"
  "fi_id f_docker_nvidia_runtime_missing = ''docker.nvidia-runtime-missing''" "fi_severity f_docker_nvidia_runtime_missing = Error"
  "fi_id f_docker_runtime_unknown = ''docker.runtime-unknown''" "fi_severity f_docker_runtime_unknown = Error"
  "fi_id f_fabric_manager_not_applicable = ''fabric-manager.not-applicable''" "fi_severity f_fabric_manager_not_applicable = Error"
  "fi_id f_fabric_manager_applicability_unknown = ''fabric-manager.applicability-unknown''" "fi_severity f_fabric_manager_applicability_unknown = Error"
  "fi_id f_fabric_manager_missing = ''fabric-manager.missing''" "fi_severity f_fabric_manager_missing = Error"
  "fi_id f_fabric_manager_inactive = ''fabric-manager.inactive''" "fi_severity f_fabric_manager_inactive = Error"
  "fi_id f_fabric_manager_unknown = ''fabric-manager.unknown''" "fi_severity f_fabric_manager_unknown = Error"
  "fi_id f_fabric_manager_disabled = ''fabric-manager.disabled''" "fi_severity f_fabric_manager_disabled = Error"
  "fi_id f_fabric_manager_enablement_unknown = ''fabric-manager.enablement-unknown''" "fi_severity f_fabric_manager_enablement_unknown = Error"
  "fi_id f_fabric_manager_fabric_unhealthy = ''fabric-manager.fabric-unhealthy''" "fi_severity f_fabric_manager_fabric_unhealthy = Error"
  "fi_id f_fabric_manager_fabric_health_unknown = ''fabric-manager.fabric-health-unknown''" "fi_severity f_fabric_manager_fabric_health_unknown = Error"
  "fi_id f_fabric_manager_version_unknown = ''fabric-manager.version-unknown''" "fi_severity f_fabric_manager_version_unknown = Error"
  "fi_id (f_fabric_manager_version_mismatch d a) = ''fabric-manager.version-mismatch''" "fi_severity (f_fabric_manager_version_mismatch d a) = Error"
  "fi_id (f_fabric_manager_version_mismatch_loaded d a) = ''fabric-manager.version-mismatch''" "fi_severity (f_fabric_manager_version_mismatch_loaded d a) = Error"
  "fi_id f_mig_unsupported = ''mig.unsupported''" "fi_severity f_mig_unsupported = Error"
  "fi_id f_mig_capability_unknown = ''mig.capability-unknown''" "fi_severity f_mig_capability_unknown = Error"
  "fi_id f_mig_pending_unknown = ''mig.pending-unknown''" "fi_severity f_mig_pending_unknown = Error"
  "fi_id (f_mig_pending_reboot d a) = ''mig.pending-reboot''" "fi_severity (f_mig_pending_reboot d a) = Error"
  "fi_id f_mig_unknown = ''mig.unknown''" "fi_severity f_mig_unknown = Error"
  "fi_id (f_mig_mode d a) = (''mig.'' @ opt_text (ha_mig_mode a))" "fi_severity (f_mig_mode d a) = Error"
  "fi_id f_mig_geometry_unobservable = ''mig.geometry-unobservable''" "fi_severity f_mig_geometry_unobservable = Error"
  "fi_id (f_mig_geometry d a) = (if ha_mig_geometry a = [] then ''mig.geometry-missing'' else ''mig.geometry-mismatch'')" "fi_severity (f_mig_geometry d a) = Error"
  "fi_id f_mig_device_unobservable = ''mig.device-unobservable''" "fi_severity f_mig_device_unobservable = Error"
  "fi_id f_mig_disabled_with_instances = ''mig.disabled-with-instances''" "fi_severity f_mig_disabled_with_instances = Error"
  "fi_id f_stack_healthy = ''stack.healthy''" "fi_severity f_stack_healthy = Info"
  by (simp_all add: f_package_manager_missing_def f_package_inventory_incomplete_def f_kernel_headers_missing_def f_compiler_missing_def f_secure_boot_enabled_def f_secure_boot_unsigned_module_def f_secure_boot_installed_module_unsigned_def f_secure_boot_unknown_def f_gpu_open_module_unsupported_def f_gpu_open_module_support_unknown_def f_module_not_loaded_def f_driver_loaded_version_unknown_def f_driver_installed_version_unknown_def f_driver_module_version_mismatch_def f_driver_version_mismatch_def f_driver_closed_module_def f_driver_open_module_def f_driver_module_flavor_unknown_def f_driver_installed_closed_module_def f_driver_installed_open_module_def f_driver_installed_module_flavor_unknown_def f_driver_module_flavor_mismatch_def f_nvidia_smi_failed_def f_nvml_failed_def f_cuda_compat_deployment_unmodeled_def f_docker_missing_def f_docker_service_inactive_def f_docker_service_state_unknown_def f_docker_service_disabled_def f_docker_service_enablement_unknown_def f_container_toolkit_missing_def f_docker_nvidia_runtime_missing_def f_docker_runtime_unknown_def f_fabric_manager_not_applicable_def f_fabric_manager_applicability_unknown_def f_fabric_manager_missing_def f_fabric_manager_inactive_def f_fabric_manager_unknown_def f_fabric_manager_disabled_def f_fabric_manager_enablement_unknown_def f_fabric_manager_fabric_unhealthy_def f_fabric_manager_fabric_health_unknown_def f_fabric_manager_version_unknown_def f_fabric_manager_version_mismatch_def f_fabric_manager_version_mismatch_loaded_def f_mig_unsupported_def f_mig_capability_unknown_def f_mig_pending_unknown_def f_mig_pending_reboot_def f_mig_unknown_def f_mig_mode_def f_mig_geometry_unobservable_def f_mig_geometry_def f_mig_device_unobservable_def f_mig_disabled_with_instances_def f_stack_healthy_def)

section \<open>The checks\<close>

definition found_if :: "bool \<Rightarrow> 'a \<Rightarrow> 'a list" where
  "found_if b x = (if b then [x] else [])"

lemma found_if_simps [simp]:
  "found_if True x = [x]" "found_if False x = []"
  "set (found_if b x) = (if b then {x} else {})"
  "found_if b x = [] \<longleftrightarrow> \<not> b"
  unfolding found_if_def by (cases b; simp)+

definition fabric_manager_package_installed :: "host_audit \<Rightarrow> bool" where
  "fabric_manager_package_installed a \<longleftrightarrow>
     list_ex (\<lambda>pkg. pi_installed pkg
       \<and> (pi_name pkg \<in> {''nvidia-fabricmanager'', ''nvidia-fabric-manager''}
          \<or> startswith (pi_name pkg) ''nvidia-fabricmanager-''
          \<or> startswith (pi_name pkg) ''nvidia-fabric-manager-'')) (ha_packages a)"

definition host_findings :: "desired_state \<Rightarrow> host_audit \<Rightarrow> finding list" where
  "host_findings d a =
     found_if (ha_package_manager a = None) f_package_manager_missing
     @ found_if (\<not> ha_package_inventory_complete a) (f_package_inventory_incomplete d a)
     @ found_if (\<not> ki_headers_installed (ha_kernel a)) (f_kernel_headers_missing d a)
     @ found_if (ki_compiler (ha_kernel a) = None) f_compiler_missing
     @ found_if (ds_secure_boot d = ''disabled'' \<and> ki_secure_boot_enabled (ha_kernel a) = Some True)
         f_secure_boot_enabled
     @ found_if (ds_secure_boot d = ''signed'' \<and> mi_signed (ha_module a) \<noteq> Some True)
         f_secure_boot_unsigned_module
     @ found_if (ds_secure_boot d = ''signed'' \<and> mi_installed_signed (ha_module a) \<noteq> Some True)
         f_secure_boot_installed_module_unsigned
     @ found_if (ki_secure_boot_enabled (ha_kernel a) = None) f_secure_boot_unknown"

definition open_support_findings :: "desired_state \<Rightarrow> host_audit \<Rightarrow> finding list" where
  "open_support_findings d a =
     (if open_kernel_module d then
        (if ha_open_kernel_module_supported a = Some False then [f_gpu_open_module_unsupported]
         else if ha_open_kernel_module_supported a = None then [f_gpu_open_module_support_unknown]
         else [])
      else [])"

definition module_findings :: "desired_state \<Rightarrow> host_audit \<Rightarrow> finding list" where
  "module_findings d a =
     (let m = ha_module a
      in if \<not> mi_loaded m then [f_module_not_loaded d a]
         else found_if (mi_version m = None) f_driver_loaded_version_unknown
           @ found_if (mi_installed_version m = None) f_driver_installed_version_unknown
           @ found_if (mi_version m \<noteq> None \<and> mi_installed_version m \<noteq> None
                   \<and> mi_version m \<noteq> mi_installed_version m)
               (f_driver_module_version_mismatch d a))"

definition driver_findings :: "desired_state \<Rightarrow> host_audit \<Rightarrow> finding list" where
  "driver_findings d a =
     (let m = ha_module a
      in found_if (mi_version m \<notin> {None, Some []} \<and> \<not> matches_driver_version d (mi_version m))
           (f_driver_version_mismatch d a)
       @ found_if (open_kernel_module d \<and> mi_open_module m = Some False) f_driver_closed_module
       @ found_if (\<not> open_kernel_module d \<and> mi_open_module m = Some True) f_driver_open_module
       @ found_if (open_kernel_module d \<and> mi_open_module m = None) f_driver_module_flavor_unknown
       @ found_if (\<not> open_kernel_module d \<and> mi_open_module m = None) f_driver_module_flavor_unknown
       @ found_if (open_kernel_module d \<and> mi_installed_open_module m = Some False)
           f_driver_installed_closed_module
       @ found_if (\<not> open_kernel_module d \<and> mi_installed_open_module m = Some True)
           f_driver_installed_open_module
       @ found_if (open_kernel_module d \<and> mi_installed_open_module m = None)
           f_driver_installed_module_flavor_unknown
       @ found_if (\<not> open_kernel_module d \<and> mi_installed_open_module m = None)
           f_driver_installed_module_flavor_unknown
       @ found_if (mi_loaded m \<and> mi_open_module m \<noteq> None \<and> mi_installed_open_module m \<noteq> None
               \<and> mi_open_module m \<noteq> mi_installed_open_module m)
           f_driver_module_flavor_mismatch)"

definition userspace_findings :: "desired_state \<Rightarrow> host_audit \<Rightarrow> finding list" where
  "userspace_findings d a =
     found_if (cr_returncode (ha_nvidia_smi a) \<noteq> Some 0) (f_nvidia_smi_failed d a)
     @ found_if (cr_returncode (ha_nvml a) \<noteq> Some 0) (f_nvml_failed d a)
     @ found_if (ds_cuda_compat d \<noteq> ''none'') f_cuda_compat_deployment_unmodeled"

definition docker_findings :: "desired_state \<Rightarrow> host_audit \<Rightarrow> finding list" where
  "docker_findings d a =
     (if ds_container_runtime d = ''docker'' then
        found_if (\<not> ri_docker_installed (ha_runtime a)) f_docker_missing
        @ (case ha_docker_service_active a of
             Some False \<Rightarrow> [f_docker_service_inactive]
           | None \<Rightarrow> [f_docker_service_state_unknown]
           | Some True \<Rightarrow> [])
        @ (case ha_docker_service_enabled a of
             Some False \<Rightarrow> [f_docker_service_disabled]
           | None \<Rightarrow> [f_docker_service_enablement_unknown]
           | Some True \<Rightarrow> [])
        @ found_if (\<not> ri_nvidia_container_runtime_installed (ha_runtime a)) f_container_toolkit_missing
        @ found_if (ri_docker_gpus_usable (ha_runtime a) = Some False) f_docker_nvidia_runtime_missing
        @ found_if (ri_docker_installed (ha_runtime a) \<and> ri_docker_gpus_usable (ha_runtime a) = None)
            f_docker_runtime_unknown
      else [])"

definition fabric_findings :: "desired_state \<Rightarrow> host_audit \<Rightarrow> finding list" where
  "fabric_findings d a =
     (if ds_fabric_manager d then
        (case ha_fabric_manager_applicable a of
           Some False \<Rightarrow> [f_fabric_manager_not_applicable]
         | None \<Rightarrow> [f_fabric_manager_applicability_unknown]
         | Some True \<Rightarrow> [])
        @ found_if (\<not> fabric_manager_package_installed a) f_fabric_manager_missing
        @ (case ha_fabric_manager_active a of
             Some False \<Rightarrow> [f_fabric_manager_inactive]
           | None \<Rightarrow> [f_fabric_manager_unknown]
           | Some True \<Rightarrow> [])
        @ (case ha_fabric_manager_enabled a of
             Some False \<Rightarrow> [f_fabric_manager_disabled]
           | None \<Rightarrow> [f_fabric_manager_enablement_unknown]
           | Some True \<Rightarrow> [])
        @ (case ha_fabric_manager_healthy a of
             Some False \<Rightarrow> [f_fabric_manager_fabric_unhealthy]
           | None \<Rightarrow> [f_fabric_manager_fabric_health_unknown]
           | Some True \<Rightarrow> [])
      else [])
     @ (if ds_fabric_manager d \<and> fabric_manager_package_installed a then
          (if ha_fabric_manager_version a = None then [f_fabric_manager_version_unknown]
           else if \<not> matches_driver_version d (ha_fabric_manager_version a)
             then [f_fabric_manager_version_mismatch d a]
           else if mi_version (ha_module a) \<noteq> None
                   \<and> ha_fabric_manager_version a \<noteq> mi_version (ha_module a)
             then [f_fabric_manager_version_mismatch_loaded d a]
           else [])
        else [])"

definition mig_findings :: "desired_state \<Rightarrow> host_audit \<Rightarrow> finding list" where
  "mig_findings d a =
     (if ds_mig d = ''enabled'' \<and> ha_mig_capable a = Some False then [f_mig_unsupported]
      else if ds_mig d = ''enabled'' \<and> ha_mig_capable a = None then [f_mig_capability_unknown]
      else [])
     @ (if ha_mig_mode_pending a = None then [f_mig_pending_unknown]
        else if ha_mig_mode a \<noteq> None \<and> ha_mig_mode_pending a \<noteq> ha_mig_mode a
          then [f_mig_pending_reboot d a]
        else [])
     @ (if ha_mig_mode a = None then [f_mig_unknown]
        else if ha_mig_mode a \<noteq> Some (ds_mig d) then [f_mig_mode d a]
        else if ha_mig_mode_pending a = ha_mig_mode a then
          (if \<not> ha_mig_geometry_complete a then [f_mig_geometry_unobservable]
           else if ds_mig d = ''enabled''
                   \<and> \<not> full_mig_geometry_matches (ha_mig_geometry a) (ha_gpu_uuids a)
             then [f_mig_geometry d a]
           else if ds_mig d = ''enabled'' \<and> length (ha_mig_device_uuids a) \<noteq> 1
             then [f_mig_device_unobservable]
           else if ds_mig d = ''disabled'' \<and> (ha_mig_geometry a \<noteq> [] \<or> ha_mig_device_uuids a \<noteq> [])
             then [f_mig_disabled_with_instances]
           else [])
        else [])"

definition audit_findings :: "desired_state \<Rightarrow> host_audit \<Rightarrow> finding list" where
  "audit_findings d a =
     host_findings d a @ open_support_findings d a @ module_findings d a @ driver_findings d a
     @ userspace_findings d a @ docker_findings d a @ fabric_findings d a @ mig_findings d a"

definition diagnose :: "desired_state \<Rightarrow> host_audit \<Rightarrow> finding list" where
  "diagnose d a = (if audit_findings d a = [] then [f_stack_healthy] else audit_findings d a)"

section \<open>A healthy host\<close>

text \<open>
  The promise of an empty diagnosis, stated by component rather than by check: every
  observation is present and equals what the desired state asks for.
\<close>

definition healthy_host :: "desired_state \<Rightarrow> host_audit \<Rightarrow> bool" where
  "healthy_host d a \<longleftrightarrow>
     ha_package_manager a \<noteq> None \<and> ha_package_inventory_complete a
     \<and> ki_headers_installed (ha_kernel a) \<and> ki_compiler (ha_kernel a) \<noteq> None
     \<and> ki_secure_boot_enabled (ha_kernel a) \<noteq> None
     \<and> (ds_secure_boot d = ''disabled'' \<longrightarrow> ki_secure_boot_enabled (ha_kernel a) = Some False)
     \<and> (ds_secure_boot d = ''signed'' \<longrightarrow>
          mi_signed (ha_module a) = Some True \<and> mi_installed_signed (ha_module a) = Some True)"

definition healthy_driver :: "desired_state \<Rightarrow> host_audit \<Rightarrow> bool" where
  "healthy_driver d a \<longleftrightarrow>
     mi_loaded (ha_module a)
     \<and> matches_driver_version d (mi_version (ha_module a))
     \<and> mi_installed_version (ha_module a) = mi_version (ha_module a)
     \<and> mi_open_module (ha_module a) = Some (open_kernel_module d)
     \<and> mi_installed_open_module (ha_module a) = Some (open_kernel_module d)
     \<and> (open_kernel_module d \<longrightarrow> ha_open_kernel_module_supported a = Some True)
     \<and> cr_returncode (ha_nvidia_smi a) = Some 0 \<and> cr_returncode (ha_nvml a) = Some 0"

definition healthy_docker :: "host_audit \<Rightarrow> bool" where
  "healthy_docker a \<longleftrightarrow>
     ri_docker_installed (ha_runtime a) \<and> ri_nvidia_container_runtime_installed (ha_runtime a)
     \<and> ri_docker_gpus_usable (ha_runtime a) = Some True
     \<and> ha_docker_service_active a = Some True \<and> ha_docker_service_enabled a = Some True"

definition healthy_fabric :: "desired_state \<Rightarrow> host_audit \<Rightarrow> bool" where
  "healthy_fabric d a \<longleftrightarrow>
     (ds_fabric_manager d \<longrightarrow>
        ha_fabric_manager_applicable a = Some True \<and> fabric_manager_package_installed a
        \<and> ha_fabric_manager_active a = Some True \<and> ha_fabric_manager_enabled a = Some True
        \<and> ha_fabric_manager_healthy a = Some True
        \<and> ha_fabric_manager_version a = mi_version (ha_module a))"

definition healthy_mig :: "desired_state \<Rightarrow> host_audit \<Rightarrow> bool" where
  "healthy_mig d a \<longleftrightarrow>
     ha_mig_mode a = Some (ds_mig d) \<and> ha_mig_mode_pending a = Some (ds_mig d)
     \<and> ha_mig_geometry_complete a
     \<and> (if ds_mig d = ''enabled''
        then ha_mig_capable a = Some True
             \<and> full_mig_geometry_matches (ha_mig_geometry a) (ha_gpu_uuids a)
             \<and> length (ha_mig_device_uuids a) = 1
        else ha_mig_geometry a = [] \<and> ha_mig_device_uuids a = [])"

definition healthy :: "desired_state \<Rightarrow> host_audit \<Rightarrow> bool" where
  "healthy d a \<longleftrightarrow> healthy_host d a \<and> healthy_driver d a \<and> healthy_docker a
     \<and> healthy_fabric d a \<and> healthy_mig d a"

lemma opt_bool_cases: "(x :: bool option) = None \<or> x = Some True \<or> x = Some False"
  by (cases x) auto

text \<open>The three-way test of an observation: false, unknown, as wanted.\<close>

lemma tri_none: "(case x of None \<Rightarrow> [q] | Some True \<Rightarrow> [] | Some False \<Rightarrow> [p]) = [] \<longleftrightarrow> x = Some True"
  by (simp split: option.split bool.split)

lemma host_findings_none:
  "host_findings d a = [] \<longleftrightarrow> healthy_host d a"
  using opt_bool_cases [of "ki_secure_boot_enabled (ha_kernel a)"]
  by (auto simp: host_findings_def healthy_host_def)

lemma docker_findings_none:
  "ds_container_runtime d = ''docker'' \<Longrightarrow> docker_findings d a = [] \<longleftrightarrow> healthy_docker a"
  using opt_bool_cases [of "ri_docker_gpus_usable (ha_runtime a)"]
  by (auto simp: docker_findings_def healthy_docker_def split: option.splits bool.splits)

lemma driver_part_none:
  assumes "ds_cuda_compat d = ''none''" and "mi_version (ha_module a) \<noteq> Some []"
  shows "open_support_findings d a = [] \<and> module_findings d a = [] \<and> driver_findings d a = []
      \<and> userspace_findings d a = [] \<longleftrightarrow> healthy_driver d a"
proof -
  let ?m = "ha_module a"
  have sup: "open_support_findings d a = [] \<longleftrightarrow>
      (open_kernel_module d \<longrightarrow> ha_open_kernel_module_supported a = Some True)"
    using opt_bool_cases [of "ha_open_kernel_module_supported a"]
    by (auto simp: open_support_findings_def)
  have mod: "module_findings d a = [] \<longleftrightarrow> mi_loaded ?m \<and> mi_version ?m \<noteq> None
      \<and> mi_installed_version ?m = mi_version ?m"
    by (auto simp: module_findings_def Let_def)
  have drv: "driver_findings d a = [] \<longleftrightarrow>
      (mi_version ?m \<noteq> None \<longrightarrow> matches_driver_version d (mi_version ?m))
      \<and> mi_open_module ?m = Some (open_kernel_module d)
      \<and> mi_installed_open_module ?m = Some (open_kernel_module d)"
    using opt_bool_cases [of "mi_open_module ?m"] opt_bool_cases [of "mi_installed_open_module ?m"]
      assms(2)
    by (cases "open_kernel_module d") (auto simp: driver_findings_def Let_def)
  have usr: "userspace_findings d a = [] \<longleftrightarrow>
      cr_returncode (ha_nvidia_smi a) = Some 0 \<and> cr_returncode (ha_nvml a) = Some 0"
    using assms(1) by (auto simp: userspace_findings_def)
  show ?thesis
    unfolding sup mod drv usr healthy_driver_def
    by (cases "mi_version ?m") auto
qed

lemma fabric_findings_none:
  assumes "matches_driver_version d (mi_version (ha_module a))"
  shows "fabric_findings d a = [] \<longleftrightarrow> healthy_fabric d a"
proof (cases "ds_fabric_manager d")
  case False
  then show ?thesis by (simp add: fabric_findings_def healthy_fabric_def)
next
  case True
  have v: "mi_version (ha_module a) \<noteq> None" using assms by (cases "mi_version (ha_module a)") auto
  with True assms show ?thesis
    by (auto simp: fabric_findings_def healthy_fabric_def tri_none simp del: not_None_eq)
qed

lemma mig_findings_none:
  assumes "ds_mig d \<in> {''enabled'', ''disabled''}"
  shows "mig_findings d a = [] \<longleftrightarrow> healthy_mig d a"
proof -
  have parts: "mig_findings d a = [] \<longleftrightarrow>
      (ds_mig d = ''enabled'' \<longrightarrow> ha_mig_capable a = Some True)
      \<and> ha_mig_mode a = Some (ds_mig d) \<and> ha_mig_mode_pending a = Some (ds_mig d)
      \<and> ha_mig_geometry_complete a
      \<and> \<not> (ds_mig d = ''enabled''
             \<and> \<not> full_mig_geometry_matches (ha_mig_geometry a) (ha_gpu_uuids a))
      \<and> \<not> (ds_mig d = ''enabled'' \<and> length (ha_mig_device_uuids a) \<noteq> 1)
      \<and> \<not> (ds_mig d = ''disabled'' \<and> (ha_mig_geometry a \<noteq> [] \<or> ha_mig_device_uuids a \<noteq> []))"
    unfolding mig_findings_def append_is_Nil_conv
    by (cases "ha_mig_mode a = Some (ds_mig d)"; cases "ha_mig_mode_pending a = Some (ds_mig d)";
        use opt_bool_cases [of "ha_mig_capable a"] in \<open>force split: if_splits\<close>)
  show ?thesis
  proof (cases "ds_mig d = ''enabled''")
    case True
    then show ?thesis unfolding parts healthy_mig_def by auto
  next
    case False
    then have "ds_mig d = ''disabled''" using assms by simp
    then show ?thesis unfolding parts healthy_mig_def by auto
  qed
qed

lemma audit_findings_none:
  assumes "ds_cuda_compat d = ''none''" and "ds_container_runtime d = ''docker''"
    and "ds_mig d \<in> {''enabled'', ''disabled''}" and "mi_version (ha_module a) \<noteq> Some []"
  shows "audit_findings d a = [] \<longleftrightarrow> healthy d a"
proof -
  have "audit_findings d a = [] \<longleftrightarrow>
      healthy_host d a \<and> healthy_driver d a \<and> healthy_docker a \<and> fabric_findings d a = []
      \<and> healthy_mig d a"
    using host_findings_none driver_part_none [OF assms(1,4)] docker_findings_none [OF assms(2)]
      mig_findings_none [OF assms(3)]
    by (auto simp: audit_findings_def)
  moreover have "healthy_driver d a \<Longrightarrow> fabric_findings d a = [] \<longleftrightarrow> healthy_fabric d a"
    by (rule fabric_findings_none) (simp add: healthy_driver_def)
  ultimately show ?thesis by (auto simp: healthy_def)
qed

lemma list_all_found_if [simp]: "list_all P (found_if b x) \<longleftrightarrow> (b \<longrightarrow> P x)"
  by (cases b) simp_all

abbreviation errors :: "finding list \<Rightarrow> bool" where
  "errors \<equiv> list_all (\<lambda>f. fi_severity f = Error)"

lemma section_severity:
  "errors (host_findings d a)" "errors (open_support_findings d a)" "errors (module_findings d a)"
  "errors (driver_findings d a)" "errors (userspace_findings d a)" "errors (docker_findings d a)"
  "errors (fabric_findings d a)" "errors (mig_findings d a)"
  by (simp_all add: host_findings_def open_support_findings_def module_findings_def
        driver_findings_def userspace_findings_def docker_findings_def fabric_findings_def
        mig_findings_def Let_def findings split: option.split bool.split)

lemma audit_findings_severity:
  "f \<in> set (audit_findings d a) \<Longrightarrow> fi_severity f = Error"
  using section_severity [of d a] by (auto simp: audit_findings_def list_all_iff)

lemma diagnose_healthy_or_errors:
  "diagnose d a = [f_stack_healthy] \<or> (diagnose d a \<noteq> [] \<and> (\<forall>f \<in> set (diagnose d a). fi_severity f = Error))"
  using audit_findings_severity by (auto simp: diagnose_def)

lemma healthy_not_error: "f_stack_healthy \<notin> set (audit_findings d a)"
  using audit_findings_severity [of f_stack_healthy d a] by (auto simp: findings)

lemma diagnose_healthy_audit: "diagnose d a = [f_stack_healthy] \<longleftrightarrow> audit_findings d a = []"
  using healthy_not_error [of d a] by (auto simp: diagnose_def)

end
