(* ===== verification/DnfModule.thy ===== *)
theory DnfModule
  imports Models
begin

text \<open>
  The DNF module-stream transaction (\<open>nvidia_converge/dnf_module_transaction.py\<close>): the command
  that checks or applies it.  The embedded script is data of the command line; its text is
  the argument \<open>script\<close>, so that every fact holds for any script.
\<close>

datatype plan_error = ValueError | IndexError

text \<open>\<open>[1-9]\d{2,3}-(?:open|dkms)\<close>, the whole text.\<close>

definition module_stream_pattern :: "string \<Rightarrow> bool" where
  "module_stream_pattern s \<longleftrightarrow>
     (case partition_at CHR ''-'' s of
        (branch, found, flavor) \<Rightarrow>
          found \<and> list_all is_digit branch \<and> length branch \<in> {3, 4} \<and> hd branch \<noteq> CHR ''0''
          \<and> (flavor = ''open'' \<or> flavor = ''dkms''))"

definition sha256_pattern :: "string \<Rightarrow> bool" where
  "sha256_pattern = hex_of_length 64"

definition dnf_module_enable_command ::
  "string \<Rightarrow> bool \<Rightarrow> string \<Rightarrow> string option \<Rightarrow> plan_error + string list" where
  "dnf_module_enable_command script apply stream preflight_sha256 =
     (if \<not> module_stream_pattern stream then Inl ValueError
      else if \<not> apply \<and> preflight_sha256 \<noteq> None then Inl ValueError
      else if apply \<and> (case preflight_sha256 of None \<Rightarrow> False | Some h \<Rightarrow> \<not> sha256_pattern h)
        then Inl ValueError
      else Inr
        ([''python3'', ''-I'', ''-c'', script, if apply then ''--apply'' else ''--check'',
          ''nvidia-driver'', stream]
         @ (if apply
            then [case preflight_sha256 of Some (c # cs) \<Rightarrow> c # cs
                  | _ \<Rightarrow> ''unbound-preflight-proof'']
            else [])))"

lemma enable_command_unbound:
  "module_stream_pattern stream \<Longrightarrow> dnf_module_enable_command script True stream None = Inr
    [''python3'', ''-I'', ''-c'', script, ''--apply'', ''nvidia-driver'', stream,
     ''unbound-preflight-proof'']"
  by (simp add: dnf_module_enable_command_def)

end
