(* ===== verification/Planner.thy ===== *)
theory Planner
  imports PlanActions Doctor DnfModule
begin

text \<open>
  The planner (\<open>nvidia_converge/planner.py\<close>): which package recipe applies, the package-policy
  lock, the drifted packages and their install command, and \<open>build_plan\<close>, which either
  refuses with one unsupported action or lists the actions of a convergence in order.
  Python exceptions (\<open>int()\<close> of a branch that is no number, a module stream the DNF command
  rejects, an index out of range) are the left values of type \<open>plan_error\<close>.
\<close>

section \<open>Releases and kernels\<close>

definition apt_releases :: "(string \<times> string list) list" where
  "apt_releases = [(''debian'', [''12'', ''13'']), (''ubuntu'', [''22'', ''24'', ''26''])]"

definition rhel_ids :: "string list" where "rhel_ids = [''almalinux'', ''rhel'', ''rocky'']"
definition rhel_releases :: "string list" where "rhel_releases = [''8'', ''9'']"
definition suse_ids :: "string list" where "suse_ids = [''opensuse-leap'', ''sles'']"
definition suse_releases :: "string list" where "suse_releases = [''15'', ''16'']"
definition suse_kernel_variants :: "string list" where
  "suse_kernel_variants = [''64k'', ''azure'', ''default'']"

definition release_major :: "string option \<Rightarrow> string option" where
  "release_major version =
     (case version of None \<Rightarrow> None
      | Some v \<Rightarrow> if v = [] then None else Some (head_before CHR ''.'' v))"

definition rhel_build_dependencies :: "string \<Rightarrow> string option \<Rightarrow> string list" where
  "rhel_build_dependencies krelease os_version =
     (if release_major os_version = Some ''9'' then [''gcc'', ''make'']
      else [''kernel-devel-'' @ krelease, ''kernel-headers'', ''gcc'', ''make''])"

definition suse_kernel_devel :: "string \<Rightarrow> string option" where
  "suse_kernel_devel krelease =
     (case rpartition_at CHR ''-'' krelease of
        (version, separator, variant) \<Rightarrow>
          if \<not> separator \<or> version = [] \<or> variant \<notin> set suse_kernel_variants then None
          else Some (''kernel-'' @ variant @ ''-devel='' @ version))"

definition kernel_build_targets :: "host_audit \<Rightarrow> string list" where
  "kernel_build_targets a =
     (let pm = ha_package_manager a; running = ki_running (ha_kernel a)
      in if pm = Some ''apt-get'' then [''linux-headers-'' @ running]
         else if pm = Some ''dnf'' \<or> pm = Some ''yum''
           then filter (\<lambda>n. n \<noteq> ''gcc'' \<and> n \<noteq> ''make'')
                  (rhel_build_dependencies running (ha_os_version a))
         else if pm = Some ''zypper''
           then (case suse_kernel_devel running of None \<Rightarrow> [] | Some devel \<Rightarrow> [devel])
         else [])"

section \<open>Drivers\<close>

definition driver_package_name :: "desired_state \<Rightarrow> string" where
  "driver_package_name d = (if open_kernel_module d then ''nvidia-open'' else ''cuda-drivers'')"

definition apt_pinning_package :: "desired_state \<Rightarrow> string" where
  "apt_pinning_package d =
     ''nvidia-driver-pinning-'' @ (if exact_driver_version d then ds_driver d else driver_major d)"

definition dnf_module_stream :: "desired_state \<Rightarrow> string" where
  "dnf_module_stream d = driver_major d @ ''-'' @ (if open_kernel_module d then ''open'' else ''dkms'')"

text \<open>\<open>str((int(driver_major) // 10 + 1) * 10)\<close>\<close>

definition next_driver_branch :: "string \<Rightarrow> plan_error + string" where
  "next_driver_branch major =
     (if isdecimal major then Inr (nat_str ((digits_val major div 10 + 1) * 10)) else Inl ValueError)"

definition on_disk_ready :: "desired_state \<Rightarrow> host_audit \<Rightarrow> bool" where
  "on_disk_ready d a \<longleftrightarrow>
     matches_driver_version d (mi_installed_version (ha_module a))
     \<and> mi_installed_open_module (ha_module a) = Some (open_kernel_module d)
     \<and> (ds_secure_boot d \<noteq> ''signed'' \<or> mi_installed_signed (ha_module a) = Some True)"

definition needs_driver_install :: "desired_state \<Rightarrow> host_audit \<Rightarrow> bool" where
  "needs_driver_install d a \<longleftrightarrow> \<not> on_disk_ready d a"

definition module_reload_required :: "host_audit \<Rightarrow> bool" where
  "module_reload_required a \<longleftrightarrow>
     (let m = ha_module a
      in mi_loaded m \<and>
         ((mi_installed_version m \<noteq> None \<and> mi_version m \<noteq> mi_installed_version m)
          \<or> (mi_installed_open_module m \<noteq> None \<and> mi_open_module m \<noteq> mi_installed_open_module m)
          \<or> (mi_installed_signed m \<noteq> None \<and> mi_signed m \<noteq> mi_installed_signed m)))"

section \<open>The package recipe\<close>

definition or_unknown :: "string option \<Rightarrow> string" where
  "or_unknown x = (case x of None \<Rightarrow> ''unknown'' | Some s \<Rightarrow> if s = [] then ''unknown'' else s)"

definition transition_error :: "desired_state \<Rightarrow> host_audit \<Rightarrow> string option" where
  \<open>transition_error d a =
     (let installed_version = mi_installed_version (ha_module a);
          installed_flavor = mi_installed_open_module (ha_module a)
      in if ds_cuda_compat d \<noteq> ''none'' then
           Some ''CUDA forward-compatibility packages require an explicit loader deployment and workload contract that this release does not model; use cuda_compat: none.''
         else if on_disk_ready d a
                 \<and> (cr_returncode (ha_nvml a) \<noteq> Some 0
                    \<or> (mi_loaded (ha_module a) \<and> cr_returncode (ha_nvidia_smi a) \<noteq> Some 0
                       \<and> \<not> module_reload_required a)) then
           Some ''The installed driver matches desired metadata but its userspace integrity checks fail. Ordinary package installation may be a no-op; candidate-bound reinstall/repair is not qualified in this release.''
         else if installed_version \<noteq> None \<and> \<not> matches_driver_version d installed_version then
           Some ''In-place NVIDIA driver branch or exact-version transitions are not qualified; use a pre-baked image or the vendor migration procedure.''
         else if installed_flavor \<noteq> None \<and> installed_flavor \<noteq> Some (open_kernel_module d) then
           Some ''In-place NVIDIA open/closed kernel-module flavor transitions are not qualified; use a pre-baked image or the vendor migration procedure.''
         else None)\<close>

definition no_recipe :: "string \<Rightarrow> host_audit \<Rightarrow> string" where
  "no_recipe kind a =
     ''No NVIDIA '' @ kind @ '' recipe is defined for '' @ or_unknown (ha_os_id a) @ '' ''
     @ or_unknown (ha_os_version a) @ ''.''"

definition manager_recipe_error :: "desired_state \<Rightarrow> host_audit \<Rightarrow> string option" where
  \<open>manager_recipe_error d a =
     (let pm = ha_package_manager a;
          os_id = lower (case ha_os_id a of None \<Rightarrow> [] | Some s \<Rightarrow> s);
          release = release_major (ha_os_version a);
          running = ki_running (ha_kernel a)
      in if pm = Some ''apt-get'' then
           (case map_of apt_releases os_id of
              None \<Rightarrow> Some (no_recipe ''APT'' a)
            | Some supported \<Rightarrow>
                if release \<notin> Some ` set supported then Some (no_recipe ''APT'' a) else None)
         else if pm = Some ''dnf'' then
           (if os_id \<notin> set rhel_ids \<or> release \<notin> Some ` set rhel_releases
              then Some (no_recipe ''DNF module-stream'' a)
            else if \<not> endswith running ''.x86_64'' then
              Some ''NVIDIA DNF convergence is qualified only for x86_64 kernels; aarch64 and 64K-kernel dependency recipes are not yet supported.''
            else if release = Some ''9'' \<and> \<not> ki_headers_installed (ha_kernel a) then
              Some ''RHEL 9 running-kernel development files must be installed before convergence; kernel-devel-matched can select a newer kernel, so this release refuses to create an implicit kernel transition.''
            else if exact_driver_version d then
              Some ''Exact NVIDIA driver versions require candidate-aware DNF version locking, which this planner cannot safely express.''
            else None)
         else if pm = Some ''yum'' then
           Some ''Current RHEL 8/9 NVIDIA recipes require DNF module streams; yum-only hosts are not supported.''
         else if pm = Some ''zypper'' then
           (if os_id \<notin> set suse_ids \<or> release \<notin> Some ` set suse_releases
              then Some (no_recipe ''Zypper'' a)
            else if exact_driver_version d then
              Some ''Exact NVIDIA driver versions require candidate-aware Zypper constraints, which this planner cannot safely express.''
            else if suse_kernel_devel running = None then
              Some (''Cannot derive a supported SUSE kernel variant and version from '' @ py_repr running @ ''.'')
            else None)
         else Some (''No NVIDIA package recipe is defined for package manager '' @ or_unknown pm @ ''.''))\<close>

definition package_recipe_error :: "desired_state \<Rightarrow> host_audit \<Rightarrow> string option" where
  "package_recipe_error d a =
     (case transition_error d a of Some e \<Rightarrow> Some e | None \<Rightarrow> manager_recipe_error d a)"

section \<open>Drifted packages\<close>

definition package_install_targets :: "desired_state \<Rightarrow> host_audit \<Rightarrow> string list" where
  "package_install_targets d a = dedup
     ((if needs_driver_install d a then [driver_package_name d] else [])
      @ (if \<not> ri_nvidia_container_runtime_installed (ha_runtime a)
         then [''nvidia-container-toolkit''] else [])
      @ (if \<not> ri_docker_installed (ha_runtime a) then [''docker-ce''] else [])
      @ (if \<not> ki_headers_installed (ha_kernel a) then kernel_build_targets a else [])
      @ (if ki_compiler (ha_kernel a) = None
         then (if ha_package_manager a = Some ''apt-get'' then [''build-essential'']
               else [''gcc'', ''make''])
         else []))"

definition branch_bound_packages :: "string list" where
  "branch_bound_packages = [''cuda-drivers'', ''nvidia-fabricmanager'', ''nvidia-open'']"

definition package_install_operands ::
  "desired_state \<Rightarrow> host_audit \<Rightarrow> plan_error + string list" where
  "package_install_operands d a =
     (let targets = package_install_targets d a
      in if ha_package_manager a \<noteq> Some ''zypper'' then Inr targets
         else bind_r (next_driver_branch (driver_major d)) (\<lambda>upper_bound.
           Inr (concat (map (\<lambda>target.
             if target \<in> set branch_bound_packages
             then [target @ ''>='' @ driver_major d, target @ ''<'' @ upper_bound]
             else [target]) targets))))"

definition package_install_commands ::
  "desired_state \<Rightarrow> host_audit \<Rightarrow> plan_error + string list list" where
  "package_install_commands d a =
     bind_r (package_install_operands d a) (\<lambda>operands.
       Inr (if operands = [] then []
            else case ha_package_manager a of
              None \<Rightarrow> []
            | Some pm \<Rightarrow>
                if pm = ''apt-get'' then
                  [[''apt-get'', ''install'', ''-y'', ''--allow-downgrades'',
                    ''--no-install-recommends''] @ operands]
                else if pm = ''dnf'' \<or> pm = ''yum'' then
                  [[pm, ''-C'', ''--setopt=install_weak_deps=False'', ''install'', ''-y''] @ operands]
                else if pm = ''zypper'' then
                  [[''zypper'', ''--non-interactive'', ''--no-refresh'', ''install'',
                    ''--no-recommends''] @ operands]
                else []))"

definition package_policy_staging_required :: "string list \<Rightarrow> bool" where
  "package_policy_staging_required targets \<longleftrightarrow>
     list_ex (\<lambda>t. t \<in> set branch_bound_packages \<or> startswith t ''cuda-compat-'') targets"

section \<open>The package policy\<close>

definition package_policy_error :: "host_audit \<Rightarrow> string option" where
  \<open>package_policy_error a =
     (let policy = ha_package_policy a
      in if ppi_backend policy \<noteq> ha_package_manager a then
           Some (''Observed package-policy backend does not match the detected package manager (''
             @ opt_repr (ppi_backend policy) @ '' != '' @ opt_repr (ha_package_manager a) @ '').'')
         else if \<not> ppi_observable policy then
           Some (''The '' @ opt_text (ha_package_manager a)
             @ '' package-policy state could not be observed completely; refusing to mutate an unknown policy baseline.'')
         else None)\<close>

definition apt_policy_selector_error :: "package_policy_selector list \<Rightarrow> string option" where
  \<open>apt_policy_selector_error selectors =
     (if list_ex (\<lambda>s. startswith (pps_name s) ''nvidia-driver-pinning-''
          \<and> (pps_identifier s \<noteq> pps_name s \<or> pps_kind s \<noteq> ''package'' \<or> pps_relation s \<noteq> None
             \<or> pps_version s \<noteq> None \<or> pps_repositories s \<noteq> [])) selectors
      then Some ''Observed an unsupported NVIDIA APT pin selector shape; refusing to infer package-policy intent.''
      else None)\<close>

definition dnf_policy_selector_error :: "package_policy_selector list \<Rightarrow> string option" where
  \<open>dnf_policy_selector_error selectors =
     (case selectors of
        [] \<Rightarrow> None
      | [s] \<Rightarrow>
          if pps_identifier s \<noteq> ''nvidia-driver'' \<or> pps_name s \<noteq> ''nvidia-driver''
             \<or> pps_kind s \<noteq> ''module'' \<or> pps_relation s \<noteq> Some ''stream'' \<or> pps_version s = None
             \<or> pps_repositories s \<noteq> []
          then Some ''Observed an unsupported NVIDIA DNF module selector shape; refusing to infer module-stream intent.''
          else None
      | _ \<Rightarrow> Some ''Observed multiple NVIDIA DNF module selectors.'')\<close>

definition same_zypper_policy ::
  "package_policy_selector \<Rightarrow> package_policy_selector \<Rightarrow> bool" where
  "same_zypper_policy ob ex \<longleftrightarrow>
     pps_name ob = pps_name ex \<and> pps_kind ob = pps_kind ex \<and> pps_relation ob = pps_relation ex
     \<and> pps_version ob = pps_version ex \<and> pps_repositories ob = pps_repositories ex"

definition apt_lock_actions :: "desired_state \<Rightarrow> host_audit \<Rightarrow> plan_action list" where
  "apt_lock_actions d a =
     (let selectors = ppi_selectors (ha_package_policy a)
      in case apt_policy_selector_error selectors of
           Some e \<Rightarrow> [act_unsupported_package_policy e]
         | None \<Rightarrow>
             (let pinning_package = apt_pinning_package d;
                  installed = filter (\<lambda>n. startswith n ''nvidia-driver-pinning-'')
                                (map pps_name selectors);
                  conflicting = sorted_set (filter (\<lambda>n. n \<noteq> pinning_package) installed)
              in if conflicting = [] \<and> pinning_package \<in> set installed then []
                 else [act_lock_apt
                   [[''apt-get'', ''install'', ''-y'', ''--allow-downgrades'',
                     ''--no-install-recommends'', ''--purge'', pinning_package]
                    @ map (\<lambda>p. p @ ''-'') conflicting]]))"

definition dnf_lock_actions ::
  "string \<Rightarrow> desired_state \<Rightarrow> host_audit \<Rightarrow> plan_error + plan_action list" where
  \<open>dnf_lock_actions script d a =
     (let stream = dnf_module_stream d; selectors = ppi_selectors (ha_package_policy a)
      in case dnf_policy_selector_error selectors of
           Some e \<Rightarrow> Inr [act_unsupported_package_policy e]
         | None \<Rightarrow>
             (let current_stream = (case selectors of [] \<Rightarrow> None | s # _ \<Rightarrow> pps_version s)
              in if current_stream = Some stream then Inr []
                 else if current_stream \<noteq> None then Inr [act_unsupported_package_policy
                   ''Changing an existing NVIDIA DNF module stream requires a vendor switch-to transaction with explicitly bounded removals; this release fails closed instead of resetting the live stream.'']
                 else bind_r (dnf_module_enable_command script True stream None)
                   (\<lambda>command. Inr [act_lock_rpm [command]])))\<close>

definition expected_zypper_lock :: "string \<Rightarrow> package_policy_selector" where
  "expected_zypper_lock upper_bound =
     \<lparr>pps_identifier = '''', pps_name = ''*nvidia*'', pps_kind = ''package'',
      pps_relation = Some ''ge'', pps_version = Some upper_bound, pps_repositories = []\<rparr>"

definition zypper_lock_actions ::
  "desired_state \<Rightarrow> host_audit \<Rightarrow> plan_error + plan_action list" where
  \<open>zypper_lock_actions d a =
     bind_r (next_driver_branch (driver_major d)) (\<lambda>upper_bound.
       let relevant = filter (\<lambda>s. contains ''nvidia'' (lower (pps_name s)))
                        (ppi_selectors (ha_package_policy a))
       in case relevant of
            [] \<Rightarrow> Inr [act_lock_zypper
                   [[''zypper'', ''--non-interactive'', ''addlock'', ''*nvidia* >= '' @ upper_bound]]]
          | s # rest \<Rightarrow>
              if rest = [] \<and> same_zypper_policy s (expected_zypper_lock upper_bound) then Inr []
              else Inr [act_unsupported_package_policy
                ''Observed NVIDIA Zypper locks conflict with the managed branch constraint; refusing to remove or reinterpret administrator locks.''])\<close>

definition lock_actions ::
  "string \<Rightarrow> desired_state \<Rightarrow> host_audit \<Rightarrow> plan_error + plan_action list" where
  "lock_actions script d a =
     (case package_recipe_error d a of
        Some e \<Rightarrow> Inr [act_unsupported_package_recipe e]
      | None \<Rightarrow>
      (case package_policy_error a of
         Some e \<Rightarrow> Inr [act_unsupported_package_policy e]
       | None \<Rightarrow>
         let pm = ha_package_manager a
         in if pm = Some ''apt-get'' then Inr (apt_lock_actions d a)
            else if pm = Some ''dnf'' then dnf_lock_actions script d a
            else if pm = Some ''zypper'' then zypper_lock_actions d a
            else Inr []))"

definition package_policy_package_targets ::
  "string \<Rightarrow> desired_state \<Rightarrow> host_audit \<Rightarrow> plan_error + string list" where
  "package_policy_package_targets script d a =
     (if ha_package_manager a \<noteq> Some ''apt-get'' then Inr []
      else bind_r (lock_actions script d a) (\<lambda>acts.
        Inr (if list_ex unsupported acts then []
             else if apt_pinning_package d \<notin> set (map pps_name (ppi_selectors (ha_package_policy a)))
                     \<and> acts \<noteq> []
               then [apt_pinning_package d]
             else [])))"

section \<open>When a plan is refused\<close>

definition automatically_remediable_findings :: "string list" where
  "automatically_remediable_findings =
     [''compiler.missing'', ''container-toolkit.missing'', ''cuda-compat.library-missing'',
      ''cuda-compat.library-unknown'', ''cuda-compat.library-unusable'',
      ''cuda-compat.package-missing'', ''docker.missing'', ''driver.closed-module'',
      ''driver.installed-version-unknown'', ''driver.installed-closed-module'',
      ''driver.installed-open-module'', ''driver.installed-module-flavor-unknown'',
      ''driver.loaded-version-unknown'', ''driver.module-flavor-unknown'',
      ''driver.module-flavor-mismatch'', ''driver.module-version-mismatch'',
      ''driver.open-module'', ''driver.version-mismatch'', ''kernel.headers.missing'',
      ''module.not-loaded'', ''nvidia-smi.failed'', ''nvml.failed'',
      ''secure-boot.unsigned-module'', ''secure-boot.installed-module-unsigned'',
      ''docker.nvidia-runtime-missing'', ''docker.service-disabled'',
      ''docker.service-inactive'', ''mig.disabled'', ''mig.enabled'',
      ''mig.geometry-mismatch'', ''mig.geometry-missing'']"

definition automatically_remediable :: "finding \<Rightarrow> host_audit \<Rightarrow> bool" where
  "automatically_remediable f a \<longleftrightarrow>
     fi_id f \<in> set automatically_remediable_findings
     \<or> (fi_id f = ''docker.runtime-unknown'' \<and> ha_docker_service_active a = Some False)"

definition unresolved :: "host_audit \<Rightarrow> finding list \<Rightarrow> finding list" where
  "unresolved a fs = filter (\<lambda>f. fi_severity f = Error \<and> \<not> automatically_remediable f a) fs"

definition mig_mode_change_required :: "desired_state \<Rightarrow> host_audit \<Rightarrow> bool" where
  "mig_mode_change_required d a \<longleftrightarrow>
     ha_mig_mode a \<in> {Some ''enabled'', Some ''disabled''} \<and> ha_mig_mode a \<noteq> Some (ds_mig d)"

definition mig_geometry_change_required :: "desired_state \<Rightarrow> host_audit \<Rightarrow> bool" where
  "mig_geometry_change_required d a \<longleftrightarrow>
     ds_mig d = ''enabled'' \<and> ha_mig_mode a = Some ''enabled''
     \<and> \<not> full_mig_geometry_matches (ha_mig_geometry a) (ha_gpu_uuids a)"

definition mig_change_required :: "desired_state \<Rightarrow> host_audit \<Rightarrow> bool" where
  "mig_change_required d a \<longleftrightarrow> mig_mode_change_required d a \<or> mig_geometry_change_required d a"

definition plan_blocker :: "desired_state \<Rightarrow> host_audit \<Rightarrow> finding list \<Rightarrow> plan_action option" where
  "plan_blocker d a fs =
     (if ha_package_manager a = None then Some act_unsupported_package_manager
      else case package_recipe_error d a of
        Some e \<Rightarrow> Some (act_unsupported_package_recipe e)
      | None \<Rightarrow>
      if ha_mig_mode a = Some ''mixed'' then Some act_unsupported_mig_rollback_baseline
      else if mig_change_required d a \<and> length (ha_gpu_uuids a) \<noteq> 1
        then Some act_unsupported_mig_transaction_scope
      else if mig_change_required d a \<and> \<not> ha_mig_geometry_complete a
        then Some act_unsupported_mig_geometry_unobservable
      else if mig_change_required d a
              \<and> \<not> restorable_mig_geometry (ha_mig_geometry a) (ha_gpu_uuids a)
        then Some act_unsupported_mig_rollback_geometry
      else if unresolved a fs \<noteq> []
        then Some (act_unsupported_precondition
               (join ''; '' (map (\<lambda>f. fi_id f @ '': '' @ fi_summary f) (unresolved a fs))))
      else None)"

definition module_reset_required :: "desired_state \<Rightarrow> host_audit \<Rightarrow> bool" where
  "module_reset_required d a \<longleftrightarrow>
     mi_loaded (ha_module a)
     \<and> (driver_package_name d \<in> set (package_install_targets d a) \<or> module_reload_required a)"

definition reset_blocker :: "desired_state \<Rightarrow> host_audit \<Rightarrow> plan_action option" where
  "reset_blocker d a =
     (if module_reset_required d a \<and> ha_mig_mode a = Some ''enabled'' then
        (if length (ha_gpu_uuids a) \<noteq> 1
           then Some act_unsupported_module_reset_mig_transaction_scope
         else if \<not> ha_mig_geometry_complete a
           then Some act_unsupported_module_reset_mig_geometry_unobservable
         else if \<not> restorable_mig_geometry (ha_mig_geometry a) (ha_gpu_uuids a)
           then Some act_unsupported_module_reset_mig_rollback_geometry
         else None)
      else None)"

section \<open>The actions of a plan\<close>

text \<open>\<open>audit.gpu_uuids[0]\<close>\<close>

definition first_uuid :: "host_audit \<Rightarrow> plan_error + string" where
  "first_uuid a = (case ha_gpu_uuids a of [] \<Rightarrow> Inl IndexError | u # _ \<Rightarrow> Inr u)"

definition destroy_if_any :: "host_audit \<Rightarrow> string \<Rightarrow> string list list" where
  "destroy_if_any a uuid =
     (if ha_mig_geometry a \<noteq> [] then mig_geometry_destroy_commands uuid else [])"

definition package_phase ::
  "desired_state \<Rightarrow> host_audit \<Rightarrow> plan_action list \<Rightarrow> plan_error + plan_action list" where
  "package_phase d a policy =
     (let targets = package_install_targets d a
      in if targets \<noteq> [] then
           bind_r (package_install_commands d a) (\<lambda>commands. Inr
             ([act_snapshot_current_state]
              @ (if ds_kernel_policy d = ''pin-compatible'' then policy else [])
              @ [act_install_packages commands (''Drifted targets: '' @ join '', '' targets)]))
         else Inr (if ds_kernel_policy d = ''pin-compatible'' then policy else []))"

definition module_phase :: "desired_state \<Rightarrow> host_audit \<Rightarrow> plan_error + plan_action list" where
  "module_phase d a =
     bind_r (if module_reset_required d a \<and> ha_mig_mode a = Some ''enabled'' \<and> ha_mig_geometry a \<noteq> []
             then bind_r (first_uuid a) (\<lambda>u. Inr
                [act_prepare_mig_geometry_teardown (mig_geometry_destroy_commands u)])
             else Inr []) (\<lambda>teardown. Inr
       (teardown
        @ (if \<not> mi_loaded (ha_module a) \<or> module_reset_required d a
           then [act_prepare_module
             (if \<not> mi_loaded (ha_module a) then ''The NVIDIA module is not loaded.''
              else ''The driver package transaction or observed on-disk module requires an exact module-stack reset.'')]
           else [])))"

definition mig_phase :: "desired_state \<Rightarrow> host_audit \<Rightarrow> plan_error + plan_action list" where
  "mig_phase d a =
     (if \<not> module_reset_required d a \<and> ds_mig d = ''disabled'' \<and> ha_mig_mode a = Some ''enabled''
      then bind_r (first_uuid a) (\<lambda>u. Inr [act_disable_mig
             (destroy_if_any a u @ [[''nvidia-smi'', ''-i'', u, ''-mig'', ''0'']])])
      else if \<not> module_reset_required d a \<and> ds_mig d = ''enabled''
              \<and> ha_mig_mode a = Some ''disabled''
      then bind_r (first_uuid a) (\<lambda>u. Inr [act_enable_mig
             [[''nvidia-smi'', ''-i'', u, ''-mig'', ''1''], desired_full_mig_geometry_command u]])
      else if ds_mig d = ''enabled'' \<and> \<not> module_reset_required d a
              \<and> ha_mig_mode a = Some ''enabled'' \<and> mig_geometry_change_required d a
      then bind_r (first_uuid a) (\<lambda>u. Inr [act_configure_mig_geometry
             (destroy_if_any a u @ [desired_full_mig_geometry_command u])])
      else Inr (if module_reset_required d a then [act_reconcile_mig_after_module] else []))"

definition docker_service_action :: "host_audit \<Rightarrow> bool \<Rightarrow> plan_action option" where
  "docker_service_action a defer_start =
     (let active = ha_docker_service_active a; enabled = ha_docker_service_enabled a
      in if defer_start
         then (if enabled = Some False then Some act_service_docker_enable else None)
         else if active = Some False \<and> enabled = Some False then Some act_service_docker_enable_now
         else if active = Some False then Some act_service_docker_start
         else if enabled = Some False then Some act_service_docker_enable_active
         else None)"

definition docker_phase :: "desired_state \<Rightarrow> host_audit \<Rightarrow> plan_action list" where
  "docker_phase d a =
     (let required = (ds_container_runtime d = ''docker''
                      \<and> ri_docker_gpus_usable (ha_runtime a) \<noteq> Some True)
      in (if ds_container_runtime d = ''docker''
          then (case docker_service_action a required of None \<Rightarrow> [] | Some act \<Rightarrow> [act]) else [])
         @ (if ds_container_runtime d = ''docker'' \<and> required
            then [act_configure_docker_runtime
              ((if ha_docker_service_active a = Some True
                then [[''systemctl'', ''stop'', ''docker.service'']] else [])
               @ [[''nvidia-ctk'', ''runtime'', ''configure'', ''--runtime=docker''],
                  [''systemctl'', ''start'', ''docker.service'']])]
            else []))"

definition build_plan ::
  "string \<Rightarrow> desired_state \<Rightarrow> host_audit \<Rightarrow> finding list \<Rightarrow> plan_error + plan_action list" where
  "build_plan script d a fs =
     (case plan_blocker d a fs of
        Some act \<Rightarrow> Inr [act]
      | None \<Rightarrow>
      (case reset_blocker d a of
         Some act \<Rightarrow> Inr [act]
       | None \<Rightarrow>
       bind_r (if ds_kernel_policy d = ''pin-compatible'' then lock_actions script d a else Inr [])
        (\<lambda>policy.
          if list_ex unsupported policy then Inr policy
          else if package_install_targets d a \<noteq> [] \<and> policy \<noteq> []
                  \<and> package_policy_staging_required (package_install_targets d a)
            then Inr [act_unsupported_package_policy_staging]
          else
            bind_r (package_phase d a policy) (\<lambda>packages.
            bind_r (module_phase d a) (\<lambda>modules.
            bind_r (mig_phase d a) (\<lambda>mig.
              Inr (packages @ modules @ mig @ docker_phase d a @ [act_verify_stack])))))))"

section \<open>Reconciling MIG after a module reset\<close>

definition mig_reconciliation_actions ::
  "desired_state \<Rightarrow> host_audit \<Rightarrow> plan_error + plan_action list" where
  "mig_reconciliation_actions d a =
     (if ha_mig_mode a \<notin> {Some ''enabled'', Some ''disabled''}
        then Inr [act_unsupported_mig_state_unobservable]
      else if ha_mig_mode_pending a \<notin> {Some ''enabled'', Some ''disabled''}
        then Inr [act_unsupported_mig_pending_unobservable]
      else if ha_mig_mode a \<noteq> ha_mig_mode_pending a
        then (if ha_mig_mode_pending a = Some (ds_mig d) then Inr []
              else Inr [act_unsupported_mig_pending_conflict])
      else if \<not> (ha_mig_mode a \<noteq> Some (ds_mig d)) \<and> \<not> mig_geometry_change_required d a then Inr []
      else if length (ha_gpu_uuids a) \<noteq> 1 then Inr [act_unsupported_mig_transaction_scope_now]
      else if \<not> ha_mig_geometry_complete a then Inr [act_unsupported_mig_geometry_unobservable_now]
      else if \<not> restorable_mig_geometry (ha_mig_geometry a) (ha_gpu_uuids a)
        then Inr [act_unsupported_mig_rollback_geometry_now]
      else bind_r (first_uuid a) (\<lambda>u.
        if ds_mig d = ''disabled''
          then Inr [act_disable_mig_now
            (destroy_if_any a u @ [[''nvidia-smi'', ''-i'', u, ''-mig'', ''0'']])]
        else if ha_mig_mode a = Some ''disabled''
          then Inr [act_enable_mig_now
            [[''nvidia-smi'', ''-i'', u, ''-mig'', ''1''], desired_full_mig_geometry_command u]]
        else Inr [act_configure_mig_geometry_now
            (destroy_if_any a u @ [desired_full_mig_geometry_command u])]))"

end
