(* ===== verification/PlannerProps.thy ===== *)
theory PlannerProps
  imports Planner Desired
begin

text \<open>
  Properties of the planner: when it raises, the two shapes of a plan, the order of its
  actions, what every accepted plan presupposes, the MIG commands it may hold, and that a
  healthy host needs no change.
\<close>

section \<open>The lock actions\<close>

lemma apt_lock_actions_shape:
  "apt_lock_actions d a = [] \<or> (\<exists>e. apt_lock_actions d a = [act_unsupported_package_policy e])
   \<or> (\<exists>commands. apt_lock_actions d a = [act_lock_apt commands])"
  unfolding apt_lock_actions_def Let_def by (auto split: option.split)

lemma apt_lock_actions_cases:
  obtains (none) "apt_lock_actions d a = []"
    | (refused) e where "apt_lock_actions d a = [act_unsupported_package_policy e]"
    | (lock) commands where "apt_lock_actions d a = [act_lock_apt commands]"
  using apt_lock_actions_shape [of d a] by blast

lemma dnf_lock_actions_cases:
  assumes "dnf_lock_actions script d a = Inr acts"
  obtains (none) "acts = []"
    | (refused) e where "acts = [act_unsupported_package_policy e]"
    | (lock) commands where "acts = [act_lock_rpm commands]"
  using assms
  by (auto simp: dnf_lock_actions_def Let_def bind_r_Inr_iff split: option.splits if_splits)

lemma zypper_lock_actions_cases:
  assumes "zypper_lock_actions d a = Inr acts"
  obtains (none) "acts = []"
    | (refused) e where "acts = [act_unsupported_package_policy e]"
    | (lock) commands where "acts = [act_lock_zypper commands]"
  using assms
proof -
  from assms obtain upper where "next_driver_branch (driver_major d) = Inr upper"
    by (auto simp: zypper_lock_actions_def bind_r_Inr_iff)
  with assms none refused lock show thesis
    by (cases "filter (\<lambda>s. contains ''nvidia'' (lower (pps_name s))) (ppi_selectors (ha_package_policy a))")
       (auto simp: zypper_lock_actions_def Let_def split: if_splits)
qed

definition lock_ids :: "string list" where
  "lock_ids = [''lock.apt'', ''lock.rpm'', ''lock.zypper'']"

lemma lock_action_facts:
  "pa_id (act_lock_apt c) \<in> set lock_ids" "pa_id (act_lock_rpm c) \<in> set lock_ids"
  "pa_id (act_lock_zypper c) \<in> set lock_ids"
  by (simp_all add: actions lock_ids_def)

lemma lock_actions_by_manager:
  assumes "lock_actions script d a = Inr acts"
    and "package_recipe_error d a = None" and "package_policy_error a = None"
  shows "acts = apt_lock_actions d a \<or> dnf_lock_actions script d a = Inr acts
    \<or> zypper_lock_actions d a = Inr acts \<or> acts = []"
  using assms(1) unfolding lock_actions_def assms(2,3) Let_def option.case
  by (simp only: sum.inject split: if_splits) blast+

lemma lock_actions_shape:
  assumes "lock_actions script d a = Inr acts"
  shows "acts = [] \<or> (\<exists>act. acts = [act] \<and> unsupported act \<and> pa_commands act = [])
    \<or> (\<exists>act. acts = [act] \<and> pa_id act \<in> set lock_ids \<and> \<not> unsupported act
         \<and> package_recipe_error d a = None \<and> package_policy_error a = None)"
proof (cases "package_recipe_error d a")
  case (Some e)
  with assms show ?thesis by (auto simp: lock_actions_def actions)
next
  case recipe: None
  show ?thesis
  proof (cases "package_policy_error a")
    case (Some e)
    with assms recipe show ?thesis by (auto simp: lock_actions_def actions)
  next
    case policy: None
    from lock_actions_by_manager [OF assms recipe policy] show ?thesis
      using apt_lock_actions_shape [of d a] recipe policy
      by (elim disjE)
         (auto simp: actions lock_ids_def elim!: dnf_lock_actions_cases zypper_lock_actions_cases)
  qed
qed

lemma lock_actions_cases:
  assumes "lock_actions script d a = Inr acts"
  obtains (none) "acts = []"
    | (refused) act where "acts = [act]" "unsupported act" "pa_commands act = []"
    | (lock) act where "acts = [act]" "pa_id act \<in> set lock_ids" "\<not> unsupported act"
        "package_recipe_error d a = None" "package_policy_error a = None"
  using lock_actions_shape [OF assms] by blast

section \<open>The phases\<close>

lemma first_uuid_single: "length (ha_gpu_uuids a) = 1 \<Longrightarrow> first_uuid a = Inr (hd (ha_gpu_uuids a))"
  by (cases "ha_gpu_uuids a") (auto simp: first_uuid_def)

lemma plan_blocker_refuses:
  "plan_blocker d a fs = Some act \<Longrightarrow> unsupported act \<and> pa_commands act = []"
  by (auto simp: plan_blocker_def actions split: if_splits option.splits)

lemma reset_blocker_refuses:
  "reset_blocker d a = Some act \<Longrightarrow> unsupported act \<and> pa_commands act = []"
  by (auto simp: reset_blocker_def actions split: if_splits)

lemma plan_blocker_noneD:
  assumes "plan_blocker d a fs = None"
  shows "ha_package_manager a \<noteq> None" "package_recipe_error d a = None"
    "ha_mig_mode a \<noteq> Some ''mixed''" "unresolved a fs = []"
    "mig_change_required d a \<Longrightarrow> length (ha_gpu_uuids a) = 1 \<and> ha_mig_geometry_complete a
       \<and> restorable_mig_geometry (ha_mig_geometry a) (ha_gpu_uuids a)"
  using assms by (auto simp: plan_blocker_def split: if_splits option.splits)

lemma reset_blocker_noneD:
  assumes "reset_blocker d a = None" and "module_reset_required d a"
    and "ha_mig_mode a = Some ''enabled''"
  shows "length (ha_gpu_uuids a) = 1 \<and> ha_mig_geometry_complete a
       \<and> restorable_mig_geometry (ha_mig_geometry a) (ha_gpu_uuids a)"
  using assms by (auto simp: reset_blocker_def split: if_splits)

definition ids :: "plan_action list \<Rightarrow> string list" where
  "ids acts = map pa_id acts"

lemma ids_simps [simp]: "ids [] = []" "ids (x # xs) = pa_id x # ids xs" "ids (xs @ ys) = ids xs @ ids ys"
  by (simp_all add: ids_def)

lemma module_phase_cases:
  assumes "module_phase d a = Inr acts"
  shows "ids acts \<in> {[], [''prepare.module''],
     [''prepare.mig-geometry-teardown'', ''prepare.module'']}"
  using assms
  by (auto simp: module_phase_def bind_r_Inr_iff actions split: if_splits)

lemma mig_phase_cases:
  assumes "mig_phase d a = Inr acts"
  shows "ids acts \<in> {[], [''disable.mig''], [''enable.mig''], [''configure.mig-geometry''],
     [''reconcile.mig-after-module'']}"
  using assms by (auto simp: mig_phase_def bind_r_Inr_iff actions split: if_splits)

lemma docker_phase_cases:
  "ids (docker_phase d a) \<in> {[], [''service.docker''], [''configure.docker-runtime''],
     [''service.docker'', ''configure.docker-runtime'']}"
  by (auto simp: docker_phase_def docker_service_action_def Let_def actions
        split: option.splits if_splits)

lemma package_phase_cases:
  assumes "package_phase d a policy = Inr acts"
  obtains (install) commands reason where "package_install_targets d a \<noteq> []"
      "acts = act_snapshot_current_state
        # (if ds_kernel_policy d = ''pin-compatible'' then policy else [])
        @ [act_install_packages commands reason]"
      "package_install_commands d a = Inr commands"
    | (policy) "package_install_targets d a = []"
      "acts = (if ds_kernel_policy d = ''pin-compatible'' then policy else [])"
  using assms by (auto simp: package_phase_def Let_def bind_r_Inr_iff split: if_splits)

text \<open>
  An accepted plan, taken apart: the lock actions, the package, module, MIG and Docker phases,
  and the final verification.
\<close>

definition accepted_plan ::
  "string \<Rightarrow> desired_state \<Rightarrow> host_audit \<Rightarrow> finding list \<Rightarrow> plan_action list \<Rightarrow> bool" where
  "accepted_plan script d a fs acts \<longleftrightarrow>
     build_plan script d a fs = Inr acts \<and> list_all (\<lambda>x. \<not> unsupported x) acts"

lemma build_plan_cases:
  assumes "build_plan script d a fs = Inr acts"
  obtains (refused) act where "acts = [act]" "unsupported act" "pa_commands act = []"
    | (supported) policy packages modules mig where
        "plan_blocker d a fs = None" "reset_blocker d a = None"
        "(if ds_kernel_policy d = ''pin-compatible'' then lock_actions script d a else Inr []) = Inr policy"
        "\<not> list_ex unsupported policy"
        "package_phase d a policy = Inr packages" "module_phase d a = Inr modules"
        "mig_phase d a = Inr mig"
        "acts = packages @ modules @ mig @ docker_phase d a @ [act_verify_stack]"
proof (cases "plan_blocker d a fs")
  case (Some act)
  with assms plan_blocker_refuses refused show thesis by (auto simp: build_plan_def)
next
  case blocker: None
  show thesis
  proof (cases "reset_blocker d a")
    case (Some act)
    with assms blocker reset_blocker_refuses refused show thesis by (auto simp: build_plan_def)
  next
    case reset: None
    from assms blocker reset obtain policy where pol:
      "(if ds_kernel_policy d = ''pin-compatible'' then lock_actions script d a else Inr []) = Inr policy"
      by (auto simp: build_plan_def bind_r_Inr_iff)
    show thesis
    proof (cases "list_ex unsupported policy")
      case True
      then have "lock_actions script d a = Inr policy" using pol by (auto split: if_splits)
      moreover have "acts = policy" using assms blocker reset pol True by (simp add: build_plan_def)
      ultimately show thesis
        using True by (cases rule: lock_actions_cases [of script d a policy]) (auto intro: refused)
    next
      case False
      show thesis
      proof (cases "package_install_targets d a \<noteq> [] \<and> policy \<noteq> []
            \<and> package_policy_staging_required (package_install_targets d a)")
        case True
        then have "acts = [act_unsupported_package_policy_staging]"
          using assms blocker reset pol False by (simp add: build_plan_def)
        then show thesis by (auto intro!: refused simp: actions)
      next
        case staged: False
        then have "bind_r (package_phase d a policy) (\<lambda>packages.
            bind_r (module_phase d a) (\<lambda>modules. bind_r (mig_phase d a) (\<lambda>mig.
              Inr (packages @ modules @ mig @ docker_phase d a @ [act_verify_stack])))) = Inr acts"
          using assms unfolding build_plan_def blocker reset pol option.case bind_r_simps
            if_not_P [OF False] if_not_P [OF staged] by simp
        then obtain packages modules mig where
          "package_phase d a policy = Inr packages" "module_phase d a = Inr modules"
          "mig_phase d a = Inr mig"
          "acts = packages @ modules @ mig @ docker_phase d a @ [act_verify_stack]"
          by (auto simp: bind_r_Inr_iff)
        then show thesis by (rule supported [OF blocker reset pol False])
      qed
    qed
  qed
qed

section \<open>No exception\<close>

lemma next_driver_branch_decimal:
  "isdecimal major \<Longrightarrow> next_driver_branch major = Inr (nat_str ((digits_val major div 10 + 1) * 10))"
  by (simp add: next_driver_branch_def)

lemma lock_actions_total:
  assumes "isdecimal (driver_major d)"
    and "ha_package_manager a = Some ''dnf'' \<Longrightarrow> module_stream_pattern (dnf_module_stream d)"
  shows "\<exists>acts. lock_actions script d a = Inr acts"
proof -
  have dnf: "\<exists>acts. dnf_lock_actions script d a = Inr acts" if "ha_package_manager a = Some ''dnf''"
    using assms(2) [OF that]
    by (auto simp: dnf_lock_actions_def Let_def enable_command_unbound split: option.splits)
  have zypper: "\<exists>acts. zypper_lock_actions d a = Inr acts"
    using assms(1)
    by (auto simp: zypper_lock_actions_def next_driver_branch_decimal Let_def split: list.splits)
  show ?thesis
    using dnf zypper by (auto simp: lock_actions_def Let_def split: option.splits)
qed

lemma package_install_commands_total:
  "isdecimal (driver_major d) \<Longrightarrow> \<exists>commands. package_install_commands d a = Inr commands"
  by (auto simp: package_install_commands_def package_install_operands_def
        next_driver_branch_decimal Let_def)

lemma module_phase_total:
  assumes "reset_blocker d a = None"
  shows "\<exists>acts. module_phase d a = Inr acts"
  using reset_blocker_noneD [OF assms] first_uuid_single
  by (auto simp: module_phase_def)

lemma mig_phase_total:
  assumes "plan_blocker d a fs = None"
  shows "\<exists>acts. mig_phase d a = Inr acts"
proof -
  have "mig_change_required d a"
    if "(ds_mig d = ''disabled'' \<and> ha_mig_mode a = Some ''enabled'')
      \<or> (ds_mig d = ''enabled'' \<and> ha_mig_mode a = Some ''disabled'')
      \<or> mig_geometry_change_required d a"
    using that by (auto simp: mig_change_required_def mig_mode_change_required_def)
  with plan_blocker_noneD(5) [OF assms] first_uuid_single show ?thesis
    by (auto simp: mig_phase_def)
qed

lemma build_plan_returns:
  assumes dec: "isdecimal (driver_major d)"
    and dnf: "ha_package_manager a = Some ''dnf'' \<Longrightarrow> module_stream_pattern (dnf_module_stream d)"
  shows "\<exists>acts. build_plan script d a fs = Inr acts"
proof (cases "plan_blocker d a fs")
  case (Some act)
  then show ?thesis by (simp add: build_plan_def)
next
  case blocker: None
  show ?thesis
  proof (cases "reset_blocker d a")
    case (Some act)
    with blocker show ?thesis by (simp add: build_plan_def)
  next
    case reset: None
    obtain policy where pol:
      "(if ds_kernel_policy d = ''pin-compatible'' then lock_actions script d a else Inr []) = Inr policy"
      using lock_actions_total [OF assms] by (cases "ds_kernel_policy d = ''pin-compatible''") auto
    obtain commands where cmds: "package_install_commands d a = Inr commands"
      using package_install_commands_total [OF dec] by blast
    have "\<exists>packages. package_phase d a policy = Inr packages"
      unfolding package_phase_def Let_def cmds bind_r_simps
      by (cases "package_install_targets d a = []") auto
    then obtain packages where "package_phase d a policy = Inr packages" ..
    with module_phase_total [OF reset] mig_phase_total [OF blocker]
    show ?thesis
      unfolding build_plan_def blocker reset option.case pol bind_r_simps by auto
  qed
qed

section \<open>The order of the actions\<close>

definition phase_rank :: "string \<Rightarrow> nat" where
  "phase_rank i =
     (case map_of
        [(''snapshot.current-state'', 0), (''lock.apt'', 1), (''lock.rpm'', 1), (''lock.zypper'', 1),
         (''install.packages'', 2), (''prepare.mig-geometry-teardown'', 3), (''prepare.module'', 4),
         (''disable.mig'', 5), (''enable.mig'', 5), (''configure.mig-geometry'', 5),
         (''reconcile.mig-after-module'', 5), (''service.docker'', 6),
         (''configure.docker-runtime'', 7), (''verify.stack'', 8)] i of
      Some n \<Rightarrow> n | None \<Rightarrow> 9)"

lemma phase_rank_simps [simp]:
  "phase_rank ''snapshot.current-state'' = 0" "phase_rank ''lock.apt'' = 1"
  "phase_rank ''lock.rpm'' = 1" "phase_rank ''lock.zypper'' = 1"
  "phase_rank ''install.packages'' = 2" "phase_rank ''prepare.mig-geometry-teardown'' = 3"
  "phase_rank ''prepare.module'' = 4" "phase_rank ''disable.mig'' = 5"
  "phase_rank ''enable.mig'' = 5" "phase_rank ''configure.mig-geometry'' = 5"
  "phase_rank ''reconcile.mig-after-module'' = 5" "phase_rank ''service.docker'' = 6"
  "phase_rank ''configure.docker-runtime'' = 7" "phase_rank ''verify.stack'' = 8"
  by (simp_all add: phase_rank_def)

definition ranks :: "plan_action list \<Rightarrow> nat list" where
  "ranks acts = map phase_rank (ids acts)"

lemma ranks_append [simp]: "ranks (xs @ ys) = ranks xs @ ranks ys"
  by (simp add: ranks_def)

definition within :: "nat \<Rightarrow> nat \<Rightarrow> nat list \<Rightarrow> bool" where
  "within lo hi ns \<longleftrightarrow> sorted_wrt (<) ns \<and> (\<forall>n \<in> set ns. lo \<le> n \<and> n \<le> hi)"

lemma within_append:
  "within lo m xs \<Longrightarrow> within m' hi ys \<Longrightarrow> m < m' \<Longrightarrow> lo \<le> m' \<Longrightarrow> m \<le> hi \<Longrightarrow> within lo hi (xs @ ys)"
  by (fastforce simp: within_def sorted_wrt_append)

lemma supported_policy_ids:
  assumes "(if ds_kernel_policy d = ''pin-compatible'' then lock_actions script d a else Inr []) = Inr policy"
    and "\<not> list_ex unsupported policy"
  shows "policy = [] \<or> (\<exists>act. policy = [act] \<and> pa_id act \<in> set lock_ids)"
proof (cases "ds_kernel_policy d = ''pin-compatible''")
  case True
  with assms(1) have "lock_actions script d a = Inr policy" by simp
  then show ?thesis by (cases rule: lock_actions_cases) (use assms(2) in auto)
next
  case False
  with assms(1) show ?thesis by simp
qed

lemma lock_rank: "i \<in> set lock_ids \<Longrightarrow> phase_rank i = 1"
  by (auto simp: lock_ids_def)

lemma package_phase_rank:
  assumes "package_phase d a policy = Inr acts"
    and "policy = [] \<or> (\<exists>act. policy = [act] \<and> pa_id act \<in> set lock_ids)"
  shows "within 0 2 (ranks acts)"
  using assms(1)
proof (cases rule: package_phase_cases)
  case (install commands reason)
  then show ?thesis using assms(2)
    by (auto simp: ranks_def within_def actions lock_rank)
next
  case policy
  then show ?thesis using assms(2) by (auto simp: ranks_def within_def lock_rank)
qed

lemma module_phase_rank: "module_phase d a = Inr acts \<Longrightarrow> within 3 4 (ranks acts)"
  using module_phase_cases by (fastforce simp: ranks_def within_def)

lemma mig_phase_rank: "mig_phase d a = Inr acts \<Longrightarrow> within 5 5 (ranks acts)"
  using mig_phase_cases by (fastforce simp: ranks_def within_def)

lemma docker_phase_rank: "within 6 7 (ranks (docker_phase d a))"
  using docker_phase_cases [of d a] by (auto simp: ranks_def within_def)

lemma verify_rank: "within 8 8 (ranks [act_verify_stack])"
  by (simp add: ranks_def within_def actions)

lemma supported_plan_ranks:
  assumes "package_phase d a policy = Inr packages" "module_phase d a = Inr modules"
    "mig_phase d a = Inr mig"
    and "policy = [] \<or> (\<exists>act. policy = [act] \<and> pa_id act \<in> set lock_ids)"
  shows "within 0 8 (ranks (packages @ modules @ mig @ docker_phase d a @ [act_verify_stack]))"
proof -
  have "within 6 8 (ranks (docker_phase d a) @ ranks [act_verify_stack])"
    by (rule within_append [OF docker_phase_rank verify_rank]) auto
  then have "within 5 8 (ranks mig @ ranks (docker_phase d a) @ ranks [act_verify_stack])"
    by (rule within_append [OF mig_phase_rank [OF assms(3)]]) auto
  then have "within 3 8 (ranks modules @ ranks mig @ ranks (docker_phase d a) @ ranks [act_verify_stack])"
    by (rule within_append [OF module_phase_rank [OF assms(2)]]) auto
  then have "within 0 8 (ranks packages @ ranks modules @ ranks mig @ ranks (docker_phase d a)
      @ ranks [act_verify_stack])"
    by (rule within_append [OF package_phase_rank [OF assms(1,4)]]) auto
  then show ?thesis by simp
qed

end
