(* ===== verification/PlannerTheorems.thy ===== *)
theory PlannerTheorems
  imports PlannerProps Samples
begin

text \<open>
  The planner's properties, each followed by a witness on the hosts of theory \<open>Samples\<close>.
\<close>

section \<open>Helper facts\<close>

lemma lock_actions_nil_errors:
  assumes "lock_actions script d a = Inr acts" and "\<not> list_ex unsupported acts"
  shows "package_recipe_error d a = None \<and> package_policy_error a = None"
proof (rule ccontr)
  assume "\<not> ?thesis"
  then have "list_ex unsupported acts"
    using assms(1)
    by (auto simp: lock_actions_def actions split: option.splits)
  with assms(2) show False by contradiction
qed

lemma transition_error_noneD:
  assumes "transition_error d a = None"
  shows "mi_installed_version (ha_module a) \<noteq> None \<Longrightarrow>
      matches_driver_version d (mi_installed_version (ha_module a))"
    and "mi_installed_open_module (ha_module a) \<noteq> None \<Longrightarrow>
      mi_installed_open_module (ha_module a) = Some (open_kernel_module d)"
    and "ds_cuda_compat d = ''none''"
  using assms by (auto simp: transition_error_def Let_def split: if_splits)

lemma package_policy_error_noneD:
  assumes "package_policy_error a = None"
  shows "ppi_backend (ha_package_policy a) = ha_package_manager a \<and> ppi_observable (ha_package_policy a)"
  using assms by (auto simp: package_policy_error_def Let_def split: if_splits)

lemma package_recipe_error_noneD:
  assumes "package_recipe_error d a = None"
  shows "transition_error d a = None" "manager_recipe_error d a = None"
  using assms by (auto simp: package_recipe_error_def split: option.splits)

lemma manager_recipe_managers:
  assumes "manager_recipe_error d a = None"
  shows "ha_package_manager a \<in> {Some ''apt-get'', Some ''dnf'', Some ''zypper''}"
  using assms by (auto simp: manager_recipe_error_def Let_def split: if_splits option.splits)

text \<open>The plan of the drifted host.\<close>

definition drifted_actions :: "plan_action list" where
  "drifted_actions =
     (case build_plan [] default_desired drifted_audit [] of Inr acts \<Rightarrow> acts | Inl _ \<Rightarrow> [])"

lemma drifted_plan: "build_plan [] default_desired drifted_audit [] = Inr drifted_actions"
  by code_simp

lemma drifted_accepted: "accepted_plan [] default_desired drifted_audit [] drifted_actions"
  unfolding accepted_plan_def using drifted_plan by (rule conjI) code_simp

lemma drifted_ids:
  "map pa_id drifted_actions =
     [''snapshot.current-state'', ''install.packages'', ''prepare.module'',
      ''configure.docker-runtime'', ''verify.stack'']"
  by code_simp

section \<open>Total on accepted states\<close>

text \<open>C36. \<open>build_plan\<close> raises no exception on any audit and any findings when the desired state
  meets the contract of the validator and, on a DNF host, its branch has the shape of a module
  stream.\<close>

theorem plan_total:
  assumes "desired_contract d"
    and "ha_package_manager a = Some ''dnf'' \<Longrightarrow> module_stream_pattern (dnf_module_stream d)"
  shows "\<exists>acts. build_plan script d a fs = Inr acts"
  using assms by (intro build_plan_returns) (auto simp: desired_contract_def)

lemma default_stream: "module_stream_pattern (dnf_module_stream default_desired)"
  by (simp add: dnf_module_stream_def) code_simp

lemma default_contract: "desired_contract default_desired"
  by (rule validate_desired_contract [OF default_desired_valid])

theorem plan_total_witness: "\<exists>acts. build_plan ''script'' default_desired rhel_audit [] = Inr acts"
  by (rule plan_total [OF default_contract default_stream])

text \<open>The module-stream condition is needed: the validator accepts the driver
  \<open>0580-open\<close>, and on a RHEL 8 host \<open>build_plan\<close> raises \<open>ValueError\<close> for it.\<close>

definition padded_desired :: desired_state where
  "padded_desired = default_desired \<lparr>ds_driver := ''0580-open''\<rparr>"

theorem padded_branch_raises:
  "validate_desired padded_desired = Inr ()
   \<and> build_plan script padded_desired rhel_audit [] = Inl ValueError"
proof
  show "validate_desired padded_desired = Inr ()" by code_simp
next
  have "plan_blocker padded_desired rhel_audit [] = None" by code_simp
  moreover have "reset_blocker padded_desired rhel_audit = None" by code_simp
  moreover have "ds_kernel_policy padded_desired = ''pin-compatible''" by code_simp
  moreover have "lock_actions script padded_desired rhel_audit = Inl ValueError"
  proof -
    have "package_recipe_error padded_desired rhel_audit = None" by code_simp
    moreover have "package_policy_error rhel_audit = None" by code_simp
    moreover have "ha_package_manager rhel_audit = Some ''dnf''" by code_simp
    moreover have "\<not> module_stream_pattern (dnf_module_stream padded_desired)" by code_simp
    moreover have "ppi_selectors (ha_package_policy rhel_audit) = []" by code_simp
    ultimately show ?thesis
      by (simp add: lock_actions_def dnf_lock_actions_def dnf_policy_selector_error_def
          dnf_module_enable_command_def)
  qed
  ultimately show "build_plan script padded_desired rhel_audit [] = Inl ValueError"
    by (simp add: build_plan_def)
qed

section \<open>Two shapes of a plan\<close>

lemma ranked_supported: "phase_rank (pa_id act) \<le> 8 \<Longrightarrow> \<not> unsupported act"
  by (auto simp: phase_rank_def unsupported_def startswith_def split: option.splits if_splits)

lemma supported_acts_supported:
  assumes "package_phase d a policy = Inr packages" "module_phase d a = Inr modules"
    "mig_phase d a = Inr mig"
    and "policy = [] \<or> (\<exists>act. policy = [act] \<and> pa_id act \<in> set lock_ids)"
  shows "list_all (\<lambda>x. \<not> unsupported x) (packages @ modules @ mig @ docker_phase d a @ [act_verify_stack])"
    (is "list_all _ ?acts")
proof -
  have "\<forall>n \<in> set (ranks ?acts). n \<le> 8"
    using supported_plan_ranks [OF assms] unfolding within_def by blast
  then have "\<forall>act \<in> set ?acts. phase_rank (pa_id act) \<le> 8" by (auto simp: ranks_def ids_def)
  then show ?thesis unfolding list_all_iff using ranked_supported by blast
qed

lemma accepted_ranks_within:
  assumes "accepted_plan script d a fs acts"
  shows "within 0 8 (ranks acts) \<and> last acts = act_verify_stack"
  using assms unfolding accepted_plan_def
proof (elim conjE)
  assume acc: "list_all (\<lambda>x. \<not> unsupported x) acts" and plan: "build_plan script d a fs = Inr acts"
  from plan show ?thesis
  proof (cases rule: build_plan_cases)
    case (refused act)
    with acc show ?thesis by simp
  next
    case (supported policy packages modules mig)
    with supported_plan_ranks [OF supported(5-7) supported_policy_ids [OF supported(3,4)]]
    show ?thesis by simp
  qed
qed

text \<open>C25. A plan is refused or complete: either one unsupported action that carries no command, or
  only supported actions, in the fixed order of the phases (snapshot, lock, packages, MIG
  teardown, module, MIG, Docker service, Docker runtime), each phase at most once, with the
  verification of the stack last.\<close>

theorem plan_shape:
  assumes "build_plan script d a fs = Inr acts"
  shows "(\<exists>act. acts = [act] \<and> unsupported act \<and> pa_commands act = [])
    \<or> (list_all (\<lambda>x. \<not> unsupported x) acts \<and> sorted_wrt (<) (map phase_rank (map pa_id acts))
       \<and> last acts = act_verify_stack)"
  using assms
proof (cases rule: build_plan_cases)
  case (refused act)
  then show ?thesis by simp
next
  case (supported policy packages modules mig)
  have ok: "list_all (\<lambda>x. \<not> unsupported x) acts"
    using supported_acts_supported [OF supported(5-7) supported_policy_ids [OF supported(3,4)]]
      supported(8) by simp
  then have "accepted_plan script d a fs acts" using assms by (simp add: accepted_plan_def)
  from accepted_ranks_within [OF this] ok show ?thesis
    by (auto simp: within_def ranks_def ids_def)
qed

theorem plan_shape_witness:
  "list_all (\<lambda>x. \<not> unsupported x) drifted_actions \<and> last drifted_actions = act_verify_stack"
proof -
  have "drifted_actions \<noteq> [act]" for act
  proof
    assume single: "drifted_actions = [act]"
    show False using drifted_ids unfolding single by simp
  qed
  with plan_shape [OF drifted_plan] show ?thesis by blast
qed

section \<open>What an accepted plan presupposes\<close>



section \<open>MIG commands\<close>

text \<open>The five \<open>nvidia-smi\<close> commands a plan may hold, all for one GPU.\<close>

definition mig_commands :: "string \<Rightarrow> string list list" where
  "mig_commands u =
     [[''nvidia-smi'', ''mig'', ''-i'', u, ''-dci''], [''nvidia-smi'', ''mig'', ''-i'', u, ''-dgi''],
      [''nvidia-smi'', ''-i'', u, ''-mig'', ''0''], [''nvidia-smi'', ''-i'', u, ''-mig'', ''1''],
      [''nvidia-smi'', ''mig'', ''-i'', u, ''-cgi'', ''0:0'', ''-C'']]"

definition smi_commands :: "plan_action list \<Rightarrow> string list set" where
  "smi_commands acts = {c. (\<exists>act \<in> set acts. c \<in> set (pa_commands act)) \<and> hd c = ''nvidia-smi''}"

lemma smi_commands_simps [simp]:
  "smi_commands [] = {}"
  "smi_commands (x # xs) = set (filter (\<lambda>c. hd c = ''nvidia-smi'') (pa_commands x)) \<union> smi_commands xs"
  "smi_commands (xs @ ys) = smi_commands xs \<union> smi_commands ys"
  by (auto simp: smi_commands_def)

lemma first_uuid_Inr: "first_uuid a = Inr u \<longleftrightarrow> ha_gpu_uuids a \<noteq> [] \<and> u = hd (ha_gpu_uuids a)"
  by (cases "ha_gpu_uuids a") (auto simp: first_uuid_def)

lemma mig_phase_smi:
  assumes "mig_phase d a = Inr acts"
  shows "smi_commands acts \<subseteq> set (mig_commands (hd (ha_gpu_uuids a)))"
    and "smi_commands acts \<noteq> {} \<Longrightarrow> mig_change_required d a"
  using assms
  by (auto simp: mig_phase_def bind_r_Inr_iff first_uuid_Inr actions mig_change_required_def
        mig_mode_change_required_def mig_commands_def desired_full_mig_geometry_command_def
        destroy_if_any_def mig_geometry_destroy_commands_def split: if_splits)

lemma module_phase_smi:
  assumes "module_phase d a = Inr acts"
  shows "smi_commands acts \<subseteq> set (mig_commands (hd (ha_gpu_uuids a)))
    \<and> (smi_commands acts \<noteq> {} \<longrightarrow> module_reset_required d a \<and> ha_mig_mode a = Some ''enabled'')"
  using assms
  by (cases "module_reset_required d a \<and> ha_mig_mode a = Some ''enabled'' \<and> ha_mig_geometry a \<noteq> []")
     (auto simp: module_phase_def bind_r_Inr_iff first_uuid_Inr actions
        mig_geometry_destroy_commands_def mig_commands_def split: if_splits)

lemma docker_phase_smi: "smi_commands (docker_phase d a) = {}"
proof -
  have "docker_service_action a b \<in> {None, Some act_service_docker_enable,
      Some act_service_docker_enable_now, Some act_service_docker_start,
      Some act_service_docker_enable_active}"
      (is "_ \<in> ?S") for b
    by (simp add: docker_service_action_def Let_def)
  moreover have "\<forall>x \<in> ?S. smi_commands (case x of None \<Rightarrow> [] | Some act \<Rightarrow> [act]) = {}"
    by (simp add: actions)
  ultimately have "smi_commands (case docker_service_action a b of None \<Rightarrow> [] | Some act \<Rightarrow> [act]) = {}" for b
    by blast
  then show ?thesis by (simp add: docker_phase_def Let_def actions)
qed

lemma install_commands_smi:
  assumes "package_install_commands d a = Inr commands" and "c \<in> set commands"
  shows "hd c \<noteq> ''nvidia-smi''"
proof -
  from assms obtain operands where "c \<in> set (if operands = [] then [] else
      case ha_package_manager a of None \<Rightarrow> [] | Some pm \<Rightarrow>
        if pm = ''apt-get'' then
          [[''apt-get'', ''install'', ''-y'', ''--allow-downgrades'', ''--no-install-recommends''] @ operands]
        else if pm = ''dnf'' \<or> pm = ''yum'' then
          [[pm, ''-C'', ''--setopt=install_weak_deps=False'', ''install'', ''-y''] @ operands]
        else if pm = ''zypper'' then
          [[''zypper'', ''--non-interactive'', ''--no-refresh'', ''install'', ''--no-recommends''] @ operands]
        else [])"
    unfolding package_install_commands_def bind_r_Inr_iff by blast
  then show ?thesis
    by (cases "operands = []"; cases "ha_package_manager a") (simp_all split: if_split_asm, blast)
qed

lemma lock_commands_smi:
  assumes "lock_actions script d a = Inr acts"
  shows "smi_commands acts = {}"
proof (cases "package_recipe_error d a = None \<and> package_policy_error a = None")
  case False
  with assms show ?thesis by (auto simp: lock_actions_def actions split: option.splits)
next
  case True
  have dnf: "smi_commands acts = {}" if "dnf_lock_actions script d a = Inr acts"
    using that
    by (auto simp: dnf_lock_actions_def Let_def bind_r_Inr_iff dnf_module_enable_command_def actions
          split: option.splits if_splits)
  have zypper: "smi_commands acts = {}" if "zypper_lock_actions d a = Inr acts"
    using that
    by (cases "filter (\<lambda>s. contains ''nvidia'' (lower (pps_name s))) (ppi_selectors (ha_package_policy a))")
       (auto simp: zypper_lock_actions_def Let_def bind_r_Inr_iff actions split: if_splits)
  have apt: "smi_commands (apt_lock_actions d a) = {}"
    unfolding apt_lock_actions_def Let_def by (auto simp: actions split: option.splits)
  from lock_actions_by_manager [OF assms] True dnf zypper apt show ?thesis by fastforce
qed

lemma module_reset_mig:
  assumes "reset_blocker d a = None" "module_reset_required d a" "ha_mig_mode a = Some ''enabled''"
  shows "length (ha_gpu_uuids a) = 1" "ha_mig_geometry_complete a"
    "restorable_mig_geometry (ha_mig_geometry a) (ha_gpu_uuids a)"
  using reset_blocker_noneD [OF assms] by auto

text \<open>C26. Every \<open>nvidia-smi\<close> command of a plan names the one GPU of the host, is one of the five
  MIG commands, and is planned only when the observed geometry is complete and is one that
  rollback can recreate.\<close>

theorem mig_commands_bound:
  assumes "build_plan script d a fs = Inr acts" and "act \<in> set acts"
    and "c \<in> set (pa_commands act)" and "hd c = ''nvidia-smi''"
  shows "\<exists>u. ha_gpu_uuids a = [u] \<and> c \<in> set (mig_commands u) \<and> ha_mig_geometry_complete a
    \<and> restorable_mig_geometry (ha_mig_geometry a) [u]"
proof -
  have smi: "c \<in> smi_commands acts" using assms(2-4) by (auto simp: smi_commands_def)
  from assms(1) show ?thesis
  proof (cases rule: build_plan_cases)
    case (refused act)
    with smi show ?thesis by simp
  next
    case (supported policy packages modules mig)
    have policy: "smi_commands policy = {}"
      using supported(3) lock_commands_smi by (auto split: if_splits)
    from supported(5) have "smi_commands packages = {}"
      by (cases rule: package_phase_cases)
         (use policy in \<open>auto simp: actions smi_commands_def dest: install_commands_smi\<close>)
    with smi supported(8) consider "c \<in> smi_commands modules" | "c \<in> smi_commands mig"
      by (auto simp: docker_phase_smi actions)
    then have "c \<in> set (mig_commands (hd (ha_gpu_uuids a))) \<and> length (ha_gpu_uuids a) = 1
      \<and> ha_mig_geometry_complete a \<and> restorable_mig_geometry (ha_mig_geometry a) (ha_gpu_uuids a)"
    proof cases
      case 1
      with module_phase_smi [OF supported(6)] reset_blocker_noneD [OF supported(2)] show ?thesis
        by blast
    next
      case 2
      with mig_phase_smi [OF supported(7)] plan_blocker_noneD(5) [OF supported(1)] show ?thesis
        by blast
    qed
    then show ?thesis by (cases "ha_gpu_uuids a") auto
  qed
qed

definition mig_off_actions :: "plan_action list" where
  "mig_off_actions =
     (case build_plan [] default_desired mig_audit [] of Inr acts \<Rightarrow> acts | Inl _ \<Rightarrow> [])"

theorem mig_commands_bound_witness:
  "[''nvidia-smi'', ''-i'', ''GPU-1'', ''-mig'', ''0''] \<in> set (mig_commands ''GPU-1'')
   \<and> restorable_mig_geometry (ha_mig_geometry mig_audit) [''GPU-1'']"
proof -
  have plan: "build_plan [] default_desired mig_audit [] = Inr mig_off_actions" by code_simp
  have act: "mig_off_actions ! 0 \<in> set mig_off_actions" by (rule nth_mem) code_simp
  have cmd: "[''nvidia-smi'', ''-i'', ''GPU-1'', ''-mig'', ''0''] \<in> set (pa_commands (mig_off_actions ! 0))"
    by code_simp
  have "ha_gpu_uuids mig_audit = [''GPU-1'']" by (simp add: mig_audit_def sample_audit_def)
  with mig_commands_bound [OF plan act cmd] show ?thesis by simp
qed

section \<open>A healthy host\<close>

lemma healthy_transition:
  assumes "healthy d a" and "ds_cuda_compat d = ''none''"
  shows "transition_error d a = None"
  using assms
  by (auto simp: healthy_def healthy_driver_def transition_error_def Let_def)

lemma healthy_on_disk:
  "healthy d a \<Longrightarrow> ds_secure_boot d \<in> {''signed'', ''disabled''} \<Longrightarrow> on_disk_ready d a"
  by (auto simp: healthy_def healthy_driver_def healthy_host_def on_disk_ready_def)

lemma healthy_no_targets:
  assumes "healthy d a" and "ds_secure_boot d \<in> {''signed'', ''disabled''}"
  shows "package_install_targets d a = []"
  using assms healthy_on_disk [OF assms]
  by (auto simp: package_install_targets_def needs_driver_install_def healthy_def healthy_host_def
        healthy_docker_def)

lemma healthy_mig_unchanged:
  assumes "healthy d a"
  shows "\<not> mig_change_required d a"
  using assms
  by (auto simp: healthy_def healthy_mig_def mig_change_required_def mig_mode_change_required_def
        mig_geometry_change_required_def)

lemma healthy_docker_phase: "healthy d a \<Longrightarrow> docker_phase d a = []"
  by (simp add: healthy_def healthy_docker_def docker_phase_def docker_service_action_def Let_def)

text \<open>C34. The diagnosis is the single healthy finding exactly when every observation matches the
  desired state, component by component (kernel, driver, Docker, Fabric Manager, MIG); and every
  other finding is an error.\<close>

theorem diagnose_healthy_iff:
  assumes "desired_contract d" and "mi_version (ha_module a) \<noteq> Some []"
  shows "(diagnose d a = [f_stack_healthy] \<longleftrightarrow> healthy d a)
    \<and> (diagnose d a \<noteq> [f_stack_healthy] \<longrightarrow>
         diagnose d a \<noteq> [] \<and> (\<forall>f \<in> set (diagnose d a). fi_severity f = Error))"
  using assms diagnose_healthy_or_errors [of d a]
  by (auto simp: diagnose_healthy_audit audit_findings_none desired_contract_def)

lemma sample_healthy: "healthy default_desired sample_audit"
  by code_simp

theorem diagnose_healthy_iff_witness: "diagnose default_desired sample_audit = [f_stack_healthy]"
  using diagnose_healthy_iff [OF default_contract, of sample_audit] sample_healthy
  by (simp add: sample_audit_def sample_module_def)

text \<open>A healthy host with a package recipe, whose lock is in place and whose loaded module is the
  one on disk, needs no change: its plan is the verification alone.\<close>

theorem healthy_plan_only_verifies:
  assumes "desired_contract d" and "mi_version (ha_module a) \<noteq> Some []"
    and "diagnose d a = [f_stack_healthy]"
    and "manager_recipe_error d a = None" and "lock_actions script d a = Inr []"
    and "\<not> module_reload_required a"
  shows "build_plan script d a (diagnose d a) = Inr [act_verify_stack]"
proof -
  have c: "ds_cuda_compat d = ''none''" "ds_secure_boot d \<in> {''signed'', ''disabled''}"
    "ds_mig d \<in> {''enabled'', ''disabled''}" "ds_container_runtime d = ''docker''"
    using assms(1) by (auto simp: desired_contract_def)
  have h: "healthy d a"
    using assms(2,3) audit_findings_none [OF c(1,4,3)] by (simp add: diagnose_healthy_audit)
  have recipe: "package_recipe_error d a = None"
    using healthy_transition [OF h c(1)] assms(4) by (simp add: package_recipe_error_def)
  have manager: "ha_package_manager a \<noteq> None" and mode: "ha_mig_mode a = Some (ds_mig d)"
    and loaded: "mi_loaded (ha_module a)"
    using h by (auto simp: healthy_def healthy_host_def healthy_mig_def healthy_driver_def)
  have "unresolved a (diagnose d a) = []" by (simp add: assms(3) unresolved_def findings)
  with manager mode recipe healthy_mig_unchanged [OF h] c(3)
  have blocker: "plan_blocker d a (diagnose d a) = None" by (auto simp: plan_blocker_def)
  have no_targets: "package_install_targets d a = []" using healthy_no_targets [OF h c(2)] .
  then have no_reset: "\<not> module_reset_required d a"
    using assms(6) by (simp add: module_reset_required_def)
  have reset: "reset_blocker d a = None" using no_reset by (simp add: reset_blocker_def)
  have policy: "(if ds_kernel_policy d = ''pin-compatible'' then lock_actions script d a else Inr []) = Inr []"
    using assms(5) by simp
  have packages: "package_phase d a [] = Inr []" using no_targets by (simp add: package_phase_def)
  have modules: "module_phase d a = Inr []" using no_reset loaded by (simp add: module_phase_def)
  have mig: "mig_phase d a = Inr []"
    using no_reset mode healthy_mig_unchanged [OF h]
    by (auto simp: mig_phase_def mig_change_required_def)
  show ?thesis
    unfolding build_plan_def blocker reset option.case policy bind_r_simps packages modules mig
    using healthy_docker_phase [OF h] no_targets by simp
qed

theorem healthy_plan_only_verifies_witness:
  "build_plan ''script'' default_desired sample_audit (diagnose default_desired sample_audit)
     = Inr [act_verify_stack]"
proof (rule healthy_plan_only_verifies [OF default_contract])
  show "mi_version (ha_module sample_audit) \<noteq> Some []"
    by (simp add: sample_audit_def sample_module_def)
  show "diagnose default_desired sample_audit = [f_stack_healthy]" by code_simp
  show "manager_recipe_error default_desired sample_audit = None" by code_simp
  show "lock_actions ''script'' default_desired sample_audit = Inr []" by code_simp
  show "\<not> module_reload_required sample_audit" by code_simp
qed

text \<open>With Secure Boot disabled the signature of the module is not diagnosed, but the planner
  still compares the loaded with the installed one: a host diagnosed healthy gets a destructive
  module reset when the two differ.\<close>

definition unsigned_desired :: desired_state where
  "unsigned_desired = default_desired \<lparr>ds_secure_boot := ''disabled''\<rparr>"

definition unsigned_audit :: host_audit where
  "unsigned_audit = sample_audit
     \<lparr>ha_module := sample_module \<lparr>mi_signed := Some False\<rparr>,
      ha_kernel := (ha_kernel sample_audit) \<lparr>ki_secure_boot_enabled := Some False\<rparr>\<rparr>"

theorem healthy_host_module_reset:
  "diagnose unsigned_desired unsigned_audit = [f_stack_healthy]
   \<and> map_sum id (map pa_id)
        (build_plan [] unsigned_desired unsigned_audit (diagnose unsigned_desired unsigned_audit))
      = Inr [''prepare.module'', ''reconcile.mig-after-module'', ''verify.stack'']"
  by (rule conjI) code_simp+

end
