(* ===== verification/PlannerTargets.thy ===== *)
theory PlannerTargets
  imports PlannerTheorems
begin

text \<open>
  What the planner installs and locks: the install targets are the drift, the Zypper bounds, a
  policy already in place needs no lock, and the MIG reconciliation after a module reset.
\<close>

section \<open>Install targets\<close>

text \<open>The install targets have no duplicate, and there are none exactly when the driver on disk is
  the desired one, the container toolkit, Docker and a compiler are installed, and the kernel
  build dependencies are present or unknown.\<close>

theorem install_targets_drift:
  "distinct (package_install_targets d a)
   \<and> (package_install_targets d a = [] \<longleftrightarrow>
        on_disk_ready d a \<and> ri_nvidia_container_runtime_installed (ha_runtime a)
        \<and> ri_docker_installed (ha_runtime a)
        \<and> (ki_headers_installed (ha_kernel a) \<or> kernel_build_targets a = [])
        \<and> ki_compiler (ha_kernel a) \<noteq> None)"
  by (auto simp: package_install_targets_def needs_driver_install_def)

lemma next_driver_branch_bounds:
  assumes "next_driver_branch major = Inr upper"
  shows "digits_val major < digits_val upper \<and> digits_val upper \<le> digits_val major + 10
    \<and> 10 dvd digits_val upper"
proof -
  from assms have "upper = nat_str ((digits_val major div 10 + 1) * 10)"
    by (auto simp: next_driver_branch_def split: if_splits)
  then have "digits_val upper = (digits_val major div 10 + 1) * 10"
    by (simp only: digits_val_nat_str)
  then show ?thesis by presburger
qed


definition suse_audit :: host_audit where
  "suse_audit = rhel_audit \<lparr>ha_os_id := Some ''sles'', ha_os_version := Some ''15.6'',
     ha_package_manager := Some ''zypper''\<rparr>"


section \<open>Locks\<close>

text \<open>The selector each manager reports once the planner's lock is in place.\<close>

definition managed_selectors :: "desired_state \<Rightarrow> string \<Rightarrow> package_policy_selector list" where
  "managed_selectors d pm =
     (if pm = ''apt-get'' then
        [\<lparr>pps_identifier = apt_pinning_package d, pps_name = apt_pinning_package d,
          pps_kind = ''package'', pps_relation = None, pps_version = None, pps_repositories = []\<rparr>]
      else if pm = ''dnf'' then
        [\<lparr>pps_identifier = ''nvidia-driver'', pps_name = ''nvidia-driver'', pps_kind = ''module'',
          pps_relation = Some ''stream'', pps_version = Some (dnf_module_stream d),
          pps_repositories = []\<rparr>]
      else
        [expected_zypper_lock (nat_str ((digits_val (driver_major d) div 10 + 1) * 10))])"

text \<open>Locking is idempotent: once the manager reports the selector the lock creates, the planner
  plans no lock action.\<close>

theorem managed_lock_in_place:
  assumes "package_recipe_error d a = None" and "package_policy_error a = None"
    and "ha_package_manager a = Some pm" and "isdecimal (driver_major d)"
    and "ppi_selectors (ha_package_policy a) = managed_selectors d pm"
  shows "lock_actions script d a = Inr []"
proof -
  have "pm \<in> {''apt-get'', ''dnf'', ''zypper''}"
    using manager_recipe_managers [OF package_recipe_error_noneD(2) [OF assms(1)]] assms(3) by simp
  then consider "pm = ''apt-get''" | "pm = ''dnf''" | "pm = ''zypper''" by blast
  then show ?thesis
  proof cases
    case 1
    have "startswith (apt_pinning_package d) ''nvidia-driver-pinning-''"
      by (simp add: apt_pinning_package_def startswith_def)
    with 1 assms show ?thesis
      by (simp add: lock_actions_def apt_lock_actions_def apt_policy_selector_error_def
          managed_selectors_def Let_def sorted_set_def)
  next
    case 2
    with assms show ?thesis
      by (simp add: lock_actions_def dnf_lock_actions_def dnf_policy_selector_error_def
          managed_selectors_def Let_def)
  next
    case 3
    have "contains ''nvidia'' (lower ''*nvidia*'')" by code_simp
    with 3 assms show ?thesis
      by (simp add: lock_actions_def zypper_lock_actions_def next_driver_branch_decimal
          managed_selectors_def expected_zypper_lock_def same_zypper_policy_def Let_def)
  qed
qed

theorem managed_lock_in_place_witness: "lock_actions ''import dnf'' default_desired sample_audit = Inr []"
proof (rule managed_lock_in_place)
  show "package_recipe_error default_desired sample_audit = None" by code_simp
  show "package_policy_error sample_audit = None" by code_simp
  show "ha_package_manager sample_audit = Some ''apt-get''" by (simp add: sample_audit_def)
  show "isdecimal (driver_major default_desired)" by code_simp
  show "ppi_selectors (ha_package_policy sample_audit) = managed_selectors default_desired ''apt-get''"
    by code_simp
qed

section \<open>MIG reconciliation\<close>

lemma reconciliation_commands:
  "set (destroy_if_any a u @ [[''nvidia-smi'', ''-i'', u, ''-mig'', ''0'']]) \<subseteq> set (mig_commands u)"
  "set [[''nvidia-smi'', ''-i'', u, ''-mig'', ''1''], desired_full_mig_geometry_command u]
     \<subseteq> set (mig_commands u)"
  "set (destroy_if_any a u @ [desired_full_mig_geometry_command u]) \<subseteq> set (mig_commands u)"
  by (auto simp: destroy_if_any_def mig_geometry_destroy_commands_def mig_commands_def
      desired_full_mig_geometry_command_def)

lemma mig_reconciliation_cases:
  assumes "ds_mig d \<in> {''enabled'', ''disabled''}"
  obtains (refused) act where "mig_reconciliation_actions d a = Inr [act]" "pa_commands act = []"
    | (settled) "mig_reconciliation_actions d a = Inr []" "ha_mig_mode_pending a = Some (ds_mig d)"
        "ha_mig_mode a = Some (ds_mig d) \<Longrightarrow> \<not> mig_geometry_change_required d a"
    | (change) act u where "mig_reconciliation_actions d a = Inr [act]" "ha_gpu_uuids a = [u]"
        "set (pa_commands act) \<subseteq> set (mig_commands u)" "ha_mig_geometry_complete a"
        "restorable_mig_geometry (ha_mig_geometry a) [u]"
proof -
  let ?S = "{Some ''enabled'', Some ''disabled''}" and ?m = "ha_mig_mode a" and ?p = "ha_mig_mode_pending a"
  let ?r = "mig_reconciliation_actions d a"
  let ?same = "\<not> ?m \<noteq> Some (ds_mig d) \<and> \<not> mig_geometry_change_required d a"
  let ?rest = "restorable_mig_geometry (ha_mig_geometry a) (ha_gpu_uuids a)"
  note def = mig_reconciliation_actions_def [of d a]
  show thesis
  proof (cases "?m \<notin> ?S")
    case True
    show thesis by (rule refused) (unfold def if_P [OF True], rule refl, simp add: actions)
  next
    case m: False
    show thesis
    proof (cases "?p \<notin> ?S")
      case True
      show thesis by (rule refused) (unfold def if_not_P [OF m] if_P [OF True], rule refl, simp add: actions)
    next
      case p: False
      note def2 = def [unfolded if_not_P [OF m] if_not_P [OF p]]
      show thesis
      proof (cases "?m \<noteq> ?p")
        case True
        show thesis
        proof (cases "?p = Some (ds_mig d)")
          case yes: True
          then show thesis using True by (intro settled) (simp_all add: def2)
        next
          case False
          show thesis
            by (rule refused) (unfold def2 if_P [OF True] if_not_P [OF False], rule refl, simp add: actions)
        qed
      next
        case same: False
        note def3 = def2 [unfolded if_not_P [OF same]]
        show thesis
        proof (cases ?same)
          case True
          then show thesis using same by (intro settled) (simp_all add: def3)
        next
          case False
          note def4 = def3 [unfolded if_not_P [OF False]]
          show thesis
          proof (cases "length (ha_gpu_uuids a) \<noteq> 1 \<or> \<not> ha_mig_geometry_complete a \<or> \<not> ?rest")
            case True
            then obtain act where "?r = Inr [act]" "pa_commands act = []"
              by (cases "length (ha_gpu_uuids a) \<noteq> 1"; cases "ha_mig_geometry_complete a")
                 (simp_all add: def4 actions)
            then show thesis by (rule refused)
          next
            case ok: False
            then obtain u where u: "ha_gpu_uuids a = [u]" by (cases "ha_gpu_uuids a") auto
            have first: "first_uuid a = Inr u" by (simp add: first_uuid_def u)
            from ok have conds: "\<not> length (ha_gpu_uuids a) \<noteq> 1" "\<not> \<not> ha_mig_geometry_complete a"
              "\<not> \<not> ?rest" by simp_all
            note def5 = def4 [unfolded if_not_P [OF conds(1)] if_not_P [OF conds(2)] if_not_P [OF conds(3)]
                first bind_r_simps]
            have "\<exists>act. ?r = Inr [act] \<and> set (pa_commands act) \<subseteq> set (mig_commands u)"
              unfolding def5 using reconciliation_commands(1,3) [of a u] reconciliation_commands(2) [of u]
              by (cases "ds_mig d = ''disabled''"; cases "?m = Some ''disabled''") (simp_all add: actions)
            then obtain act where "?r = Inr [act]" "set (pa_commands act) \<subseteq> set (mig_commands u)" by blast
            then show thesis using ok u by (intro change [of act u]) simp_all
          qed
        qed
      qed
    qed
  qed
qed

text \<open>Reconciling MIG after a module reset raises nothing and returns at most one action.  No
  action means that the mode the next reset activates is the desired one and, when it is already
  active, that the geometry is the desired one; every command names the one GPU, whose complete
  geometry rollback can recreate.\<close>

theorem mig_reconciliation_sound:
  assumes "ds_mig d \<in> {''enabled'', ''disabled''}"
  shows "\<exists>acts. mig_reconciliation_actions d a = Inr acts \<and> length acts \<le> 1
    \<and> (acts = [] \<longrightarrow> ha_mig_mode_pending a = Some (ds_mig d)
         \<and> (ha_mig_mode a = Some (ds_mig d) \<longrightarrow> \<not> mig_geometry_change_required d a))
    \<and> (\<forall>act \<in> set acts. \<forall>c \<in> set (pa_commands act). \<exists>u. ha_gpu_uuids a = [u]
         \<and> c \<in> set (mig_commands u) \<and> ha_mig_geometry_complete a
         \<and> restorable_mig_geometry (ha_mig_geometry a) [u])"
  using assms by (cases rule: mig_reconciliation_cases [of d a]) auto

theorem mig_reconciliation_sound_witness:
  "\<exists>acts. mig_reconciliation_actions default_desired mig_audit = Inr acts \<and> length acts \<le> 1"
proof -
  have "ds_mig default_desired \<in> {''enabled'', ''disabled''}" by (simp add: default_desired_def)
  from mig_reconciliation_sound [OF this, of mig_audit] show ?thesis by blast
qed

end
