(* ===== verification/Recovery.thy ===== *)
theory Recovery
  imports Journal "HOL-Library.AList"
begin

text \<open>
  Recovery of interrupted operations (\<open>nvidia_converge/recovery.py\<close>): the private journals and
  their torn last line, the index of active markers and its bootstrap, the retirement of
  terminal markers, and the one snapshot that recovers all unresolved operations.

  The state is the report directory and its directory of active markers, each a list of named
  files in the order a directory scan returns them.  The directories are quiescent, as the
  operation lock keeps them: a file reads the same twice, and an existing file can be opened,
  read, truncated and removed.  What the code relies on outside this file is a record of
  arguments: the owner, the UTF-8 decoder, \<open>json.loads\<close>, and the cleanup of staged snapshot
  artifacts (an error text when it fails).
\<close>

section \<open>Files\<close>

record private_file =
  pf_regular :: bool
  pf_uid :: int
  pf_nlink :: int
  pf_mode :: nat
  pf_bytes :: string

type_synonym directory = "(string \<times> private_file) list"

record recovery_state =
  rd_reports :: directory
  rd_active :: directory

record recovery_env =
  re_owner_uid :: int
  re_report_dir :: string
  re_decode :: "string \<Rightarrow> string option"
  re_loads :: "journal_error json_loads"
  re_cleanup :: "string \<Rightarrow> bool \<Rightarrow> string option"

datatype recovery_error =
    JournalRefused journal_error
  | CannotOpenJournal string
  | JournalNotPrivate string
  | JournalTooLarge string
  | NoCompleteRecord string
  | FileNotFound string
  | IndexNotTrusted string
  | IndexTooLarge string
  | TooManyIndexEntries
  | UnsafeMarkerName string
  | MarkerInvalid string
  | MarkerFields string
  | MarkerMismatch string
  | MarkerConflict string
  | MarkerChanged string
  | IndexInvalid
  | ReportNameUnderivable
  | UnsafeReportName string
  | FinalReportInvalid string
  | CleanupFailed string
  | TooManyUnresolved
  | TooManyLegacyEntries
  | UnsafeJournalName string
  | TooManyLegacyJournals
  | TooManyLegacyBytes
  | TooManyActive
  | MissingSnapshotBinding "string list"
  | AmbiguousSnapshot
  | IncompleteSnapshotBinding

definition max_recovery_journals :: nat where "max_recovery_journals = 1024"
definition max_journal_bytes :: nat where "max_journal_bytes = 8388608"
definition max_active_marker_bytes :: nat where "max_active_marker_bytes = 1024"
definition max_recovery_report_bytes :: nat where "max_recovery_report_bytes = 33554432"
definition max_legacy_directory_entries :: nat where "max_legacy_directory_entries = 16384"
definition max_legacy_journals :: nat where "max_legacy_journals = 4096"
definition max_legacy_total_bytes :: nat where "max_legacy_total_bytes = 67108864"

definition active_index_name :: string where "active_index_name = ''index-v1.json''"

text \<open>\<open>[A-Za-z0-9][A-Za-z0-9._-]{0,199}\.json\<close>, and the same with \<open>.journal.jsonl\<close> after it.\<close>

definition is_name_char :: "char \<Rightarrow> bool" where
  "is_name_char c \<longleftrightarrow> is_alnum c \<or> c \<in> {CHR ''.'', CHR ''_'', CHR ''-''}"

definition is_report_name :: "string \<Rightarrow> bool" where
  "is_report_name s \<longleftrightarrow>
     endswith s ''.json''
     \<and> (case take (length s - length ''.json'') s of
          [] \<Rightarrow> False
        | c # cs \<Rightarrow> is_alnum c \<and> length cs \<le> 199 \<and> list_all is_name_char cs)"

definition journal_suffix :: string where "journal_suffix = ''.journal.jsonl''"

definition is_journal_name :: "string \<Rightarrow> bool" where
  "is_journal_name s \<longleftrightarrow>
     endswith s journal_suffix \<and> is_report_name (take (length s - length journal_suffix) s)"

text \<open>
  A regular file of the owner with one link, and no permission bit for the group and the
  others (\<open>mode & 0o077\<close>).
\<close>

definition private_to :: "int \<Rightarrow> private_file \<Rightarrow> bool" where
  "private_to uid f \<longleftrightarrow> pf_regular f \<and> pf_uid f = uid \<and> pf_nlink f = 1 \<and> pf_mode f mod 64 = 0"

definition read_private_index_file ::
  "int \<Rightarrow> nat \<Rightarrow> directory \<Rightarrow> string \<Rightarrow> recovery_error + string" where
  "read_private_index_file uid max_bytes dir name =
     (case map_of dir name of
        None \<Rightarrow> Inl (FileNotFound name)
      | Some f \<Rightarrow>
          if \<not> private_to uid f then Inl (IndexNotTrusted name)
          else if max_bytes < length (pf_bytes f) then Inl (IndexTooLarge name)
          else Inr (pf_bytes f))"

definition is_newline :: "char \<Rightarrow> bool" where "is_newline c \<longleftrightarrow> cp c = 10"

text \<open>
  The length of the journal up to its last line feed (\<open>rfind\<close> returns -1 when there is none).
\<close>

definition trusted_length :: "string \<Rightarrow> nat" where
  "trusted_length payload =
     (if payload \<noteq> [] \<and> \<not> is_newline (last payload)
      then length (dropWhile (\<lambda>c. \<not> is_newline c) (rev payload))
      else length payload)"

definition read_private_journal ::
  "int \<Rightarrow> directory \<Rightarrow> string \<Rightarrow> recovery_error + string \<times> nat" where
  "read_private_journal uid dir name =
     (case map_of dir name of
        None \<Rightarrow> Inl (CannotOpenJournal name)
      | Some f \<Rightarrow>
          if \<not> private_to uid f then Inl (JournalNotPrivate name)
          else if max_journal_bytes < length (pf_bytes f) then Inl (JournalTooLarge name)
          else if pf_bytes f \<noteq> [] \<and> trusted_length (pf_bytes f) = 0 then Inl (NoCompleteRecord name)
          else Inr (pf_bytes f, trusted_length (pf_bytes f)))"

definition set_file :: "string \<Rightarrow> private_file \<Rightarrow> directory \<Rightarrow> directory" where
  "set_file name f dir = AList.update name f dir"

definition remove_file :: "string \<Rightarrow> directory \<Rightarrow> directory" where
  "remove_file name dir = AList.delete name dir"

definition truncate_torn_journal :: "string \<Rightarrow> nat \<Rightarrow> directory \<Rightarrow> directory" where
  "truncate_torn_journal name n dir =
     (case map_of dir name of
        None \<Rightarrow> dir
      | Some f \<Rightarrow> set_file name (f\<lparr>pf_bytes := take n (pf_bytes f)\<rparr>) dir)"

section \<open>The active index\<close>

text \<open>
  \<open>json.dumps\<close> with sorted keys and no blanks.  Every text written here is a validated
  journal name, an operation identifier or a version, which JSON quotes unchanged.
\<close>

definition json_quote :: "string \<Rightarrow> string" where
  "json_quote s = char_of (34::nat) # s @ [char_of (34::nat)]"

definition json_fields :: "(string \<times> string) list \<Rightarrow> string" where
  "json_fields fields' =
     ''{'' @ join '','' (map (\<lambda>(k, v). json_quote k @ '':'' @ json_quote v) fields') @ ''}''"

definition active_marker_payload :: "string \<Rightarrow> string \<Rightarrow> string" where
  "active_marker_payload name operation_id =
     json_fields [(''journal'', name), (''operation_id'', operation_id),
       (''schema_version'', ''1.0'')] @ [char_of (10::nat)]"

definition active_index_payload :: string where
  "active_index_payload = json_fields [(''schema_version'', ''1.0'')] @ [char_of (10::nat)]"

definition marker_object :: "string \<Rightarrow> string \<Rightarrow> (string \<times> json) list" where
  "marker_object name operation_id =
     [(''journal'', JStr name), (''operation_id'', JStr operation_id),
      (''schema_version'', JStr ''1.0'')]"

definition parse_active_marker ::
  "recovery_env \<Rightarrow> string \<Rightarrow> string \<Rightarrow> recovery_error + string" where
  "parse_active_marker env name payload =
     (case re_decode env payload of
        None \<Rightarrow> Inl (MarkerInvalid name)
      | Some text \<Rightarrow>
         (case re_loads env (event_without_duplicates []) text of
            Loaded (JObj marker) \<Rightarrow>
              (case jget_or_null ''operation_id'' marker of
                 JStr operation_id \<Rightarrow>
                   if \<not> is_operation_id operation_id
                      \<or> set marker \<noteq> set (marker_object name operation_id)
                   then Inl (MarkerFields name) else Inr operation_id
               | _ \<Rightarrow> Inl (MarkerFields name))
          | Loaded _ \<Rightarrow> Inl (MarkerFields name)
          | RecursionError \<Rightarrow> Inl (JournalRefused PyRecursionError)
          | JSONDecodeError \<Rightarrow> Inl (MarkerInvalid name)
          | HookError (RecoveryStateError e) \<Rightarrow> Inl (MarkerInvalid name)
          | HookError e \<Rightarrow> Inl (JournalRefused e)))"

definition bounded_directory_names :: "directory \<Rightarrow> recovery_error + string list" where
  "bounded_directory_names dir =
     (if max_recovery_journals + 1 < length dir then Inl TooManyIndexEntries
      else Inr (sort (map fst dir)))"

definition read_active_marker ::
  "recovery_env \<Rightarrow> directory \<Rightarrow> string \<Rightarrow> recovery_error + string \<times> string" where
  "read_active_marker env dir name =
     (if \<not> is_journal_name name then Inl (UnsafeMarkerName name)
      else bind_r (read_private_index_file (re_owner_uid env) max_active_marker_bytes dir name)
        (\<lambda>payload. bind_r (parse_active_marker env name payload) (\<lambda>operation_id.
          Inr (name, operation_id))))"

definition read_active_markers ::
  "recovery_env \<Rightarrow> directory \<Rightarrow> recovery_error + (string \<times> string) list" where
  "read_active_markers env dir =
     bind_r (bounded_directory_names dir) (\<lambda>names.
       map_r (read_active_marker env dir) (filter (\<lambda>n. n \<noteq> active_index_name) names))"

definition active_index_present :: "int \<Rightarrow> directory \<Rightarrow> recovery_error + bool" where
  "active_index_present uid dir =
     (case read_private_index_file uid max_active_marker_bytes dir active_index_name of
        Inl (FileNotFound _) \<Rightarrow> Inr False
      | Inl e \<Rightarrow> Inl e
      | Inr payload \<Rightarrow> if payload \<noteq> active_index_payload then Inl IndexInvalid else Inr True)"

definition new_private_file :: "int \<Rightarrow> string \<Rightarrow> private_file" where
  "new_private_file uid payload =
     \<lparr>pf_regular = True, pf_uid = uid, pf_nlink = 1, pf_mode = 384, pf_bytes = payload\<rparr>"

definition create_active_index :: "int \<Rightarrow> directory \<Rightarrow> recovery_error + directory" where
  "create_active_index uid dir =
     bind_r (active_index_present uid dir) (\<lambda>present.
       Inr (if present then dir
            else set_file active_index_name (new_private_file uid active_index_payload) dir))"

definition ensure_active_marker ::
  "int \<Rightarrow> string \<Rightarrow> string \<Rightarrow> directory \<Rightarrow> recovery_error + directory" where
  "ensure_active_marker uid name operation_id dir =
     (if map_of dir name = None
      then Inr (set_file name (new_private_file uid (active_marker_payload name operation_id)) dir)
      else bind_r (read_private_index_file uid max_active_marker_bytes dir name) (\<lambda>existing.
        if existing \<noteq> active_marker_payload name operation_id then Inl (MarkerConflict name)
        else Inr dir))"

definition retire_active_marker ::
  "recovery_env \<Rightarrow> string \<Rightarrow> string \<Rightarrow> directory \<Rightarrow> recovery_error + directory" where
  "retire_active_marker env name operation_id dir =
     bind_r (read_private_index_file (re_owner_uid env) max_active_marker_bytes dir name) (\<lambda>payload.
     bind_r (parse_active_marker env name payload) (\<lambda>found.
       if found \<noteq> operation_id then Inl (MarkerChanged name) else Inr (remove_file name dir)))"

section \<open>Terminal operations\<close>

definition completion_has_final_report ::
  "recovery_env \<Rightarrow> directory \<Rightarrow> string \<Rightarrow> parsed_journal \<Rightarrow> recovery_error + bool" where
  "completion_has_final_report env reports journal_name pj =
     (case pj_completion pj of
        None \<Rightarrow> Inr False
      | Some completion \<Rightarrow>
          if jget_or_null ''incomplete'' completion \<noteq> JBool False \<or> pj_persistence_failed pj
            then Inr False
          else if \<not> endswith journal_name journal_suffix then Inl ReportNameUnderivable
          else
           (let report_name = take (length journal_name - length journal_suffix) journal_name
            in if \<not> is_report_name report_name then Inl (UnsafeReportName journal_name)
               else case read_private_index_file (re_owner_uid env) max_recovery_report_bytes
                           reports report_name of
                 Inl (FileNotFound _) \<Rightarrow> Inr False
               | Inl e \<Rightarrow> Inl e
               | Inr payload \<Rightarrow>
                  (case re_decode env payload of
                     None \<Rightarrow> Inl (FinalReportInvalid report_name)
                   | Some text \<Rightarrow>
                      (case re_loads env (event_without_duplicates []) text of
                         Loaded (JObj report) \<Rightarrow> Inr
                           (jget_or_null ''operation_id'' report = JStr (pj_operation_id pj)
                            \<and> jget_or_null ''mode'' report = JStr ''apply''
                            \<and> jget_or_null ''report_path'' report
                                = JStr (re_report_dir env @ ''/'' @ report_name)
                            \<and> jget_or_null ''incomplete'' report = JBool False
                            \<and> is_jint (jget_or_null ''exit_code'' report)
                            \<and> jget_or_null ''exit_code'' report = jget_or_null ''exit_code'' completion
                            \<and> jget_or_null ''outcome'' report = jget_or_null ''outcome'' completion)
                       | Loaded _ \<Rightarrow> Inr False
                       | RecursionError \<Rightarrow> Inl (JournalRefused PyRecursionError)
                       | JSONDecodeError \<Rightarrow> Inl (FinalReportInvalid report_name)
                       | HookError (RecoveryStateError e) \<Rightarrow> Inl (FinalReportInvalid report_name)
                       | HookError e \<Rightarrow> Inl (JournalRefused e)))))"

definition journal_has_terminal_resolution :: "parsed_journal \<Rightarrow> bool" where
  "journal_has_terminal_resolution pj \<longleftrightarrow>
     pj_recovery_operation_id pj \<noteq> None
     \<or> (case pj_completion pj of
          None \<Rightarrow> False
        | Some completion \<Rightarrow>
            jget_or_null ''incomplete'' completion = JBool False \<and> \<not> pj_persistence_failed pj)"

definition cleanup_private_snapshot_artifacts ::
  "recovery_env \<Rightarrow> parsed_journal \<Rightarrow> recovery_error + unit" where
  "cleanup_private_snapshot_artifacts env pj =
     (if \<not> pj_private_snapshot_artifacts_possible pj then Inr ()
      else case re_cleanup env (pj_operation_id pj) (pj_snapshot_binding_present pj) of
        None \<Rightarrow> Inr () | Some e \<Rightarrow> Inl (CleanupFailed (pj_operation_id pj)))"

text \<open>
  \<open>{parsed.operation_id for ... if _completion_has_final_report(...)}\<close>, and the test the code
  calls \<open>terminal\<close>.
\<close>

fun completed_operations ::
  "recovery_env \<Rightarrow> directory \<Rightarrow> (string \<times> parsed_journal) list \<Rightarrow> recovery_error + string list" where
  "completed_operations env reports [] = Inr []"
| "completed_operations env reports ((name, pj) # rest) =
     bind_r (completion_has_final_report env reports name pj) (\<lambda>final.
     bind_r (completed_operations env reports rest) (\<lambda>ids.
       Inr (if final then pj_operation_id pj # ids else ids)))"

definition terminal_journal :: "string list \<Rightarrow> parsed_journal \<Rightarrow> bool" where
  "terminal_journal completed pj \<longleftrightarrow>
     pj_operation pj = None \<or> pj_operation_id pj \<in> set completed
     \<or> (case pj_recovery_operation_id pj of None \<Rightarrow> False | Some i \<Rightarrow> i \<in> set completed)"

section \<open>Reading the indexed journals\<close>

definition journal_path :: "recovery_env \<Rightarrow> string \<Rightarrow> string" where
  "journal_path env name = re_report_dir env @ ''/'' @ name"

text \<open>One journal: read, parse its trusted part, and only then cut off the torn end.\<close>

definition parse_trusted ::
  "recovery_env \<Rightarrow> string \<Rightarrow> string \<times> nat \<Rightarrow> recovery_error + parsed_journal" where
  "parse_trusted env name = (\<lambda>(payload, n).
     case parse_journal (re_decode env) (re_loads env) (journal_path env name) (take n payload) of
       Inl e \<Rightarrow> Inl (JournalRefused e) | Inr pj \<Rightarrow> Inr pj)"

definition repair_torn :: "string \<Rightarrow> string \<times> nat \<Rightarrow> directory \<Rightarrow> directory" where
  "repair_torn name = (\<lambda>(payload, n) reports.
     if n \<noteq> length payload then truncate_torn_journal name n reports else reports)"

fun read_indexed ::
  "recovery_env \<Rightarrow> directory \<Rightarrow> (string \<times> string) list
   \<Rightarrow> (recovery_error + (string \<times> parsed_journal) list) \<times> directory" where
  "read_indexed env reports [] = (Inr [], reports)"
| "read_indexed env reports ((name, operation_id) # markers) =
     (case read_private_journal (re_owner_uid env) reports name of
        Inl e \<Rightarrow> (Inl e, reports)
      | Inr journal \<Rightarrow>
         (case parse_trusted env name journal of
            Inl e \<Rightarrow> (Inl e, reports)
          | Inr pj \<Rightarrow>
              if pj_operation_id pj \<noteq> operation_id then (Inl (MarkerMismatch name), reports)
              else (case read_indexed env (repair_torn name journal reports) markers of
                      (Inl e, reports') \<Rightarrow> (Inl e, reports')
                    | (Inr rest, reports') \<Rightarrow> (Inr ((name, pj) # rest), reports'))))"

text \<open>The loop that retires terminal markers and collects the unresolved operations.\<close>

fun resolve_indexed ::
  "recovery_env \<Rightarrow> string list \<Rightarrow> (string \<times> parsed_journal) list \<Rightarrow> unresolved_operation list
   \<Rightarrow> directory \<Rightarrow> (recovery_error + unresolved_operation list) \<times> directory" where
  "resolve_indexed env completed [] unresolved active = (Inr unresolved, active)"
| "resolve_indexed env completed ((name, pj) # rest) unresolved active =
     (if terminal_journal completed pj then
        (case (if pj_operation pj = None then cleanup_private_snapshot_artifacts env pj else Inr ()) of
           Inl e \<Rightarrow> (Inl e, active)
         | Inr _ \<Rightarrow>
            (case retire_active_marker env name (pj_operation_id pj) active of
               Inl e \<Rightarrow> (Inl e, active)
             | Inr active' \<Rightarrow> resolve_indexed env completed rest unresolved active'))
      else if \<not> journal_has_terminal_resolution pj then
        (let unresolved' = unresolved @ [the (pj_operation pj)]
         in if max_recovery_journals < length unresolved' then (Inl TooManyUnresolved, active)
            else resolve_indexed env completed rest unresolved' active)
      else resolve_indexed env completed rest unresolved active)"

section \<open>Bootstrapping the index\<close>

definition legacy_reserve_report_name :: "string \<Rightarrow> string option" where
  "legacy_reserve_report_name name =
     (if \<not> startswith name ''.'' \<or> \<not> endswith name ''.emergency-reserve'' then None
      else
       (let report_name =
              take (length name - length ''.emergency-reserve'' - 1) (drop 1 name)
        in if is_report_name report_name then Some report_name else None))"

fun classify_entries ::
  "nat \<Rightarrow> string list \<Rightarrow> string list \<Rightarrow> string list \<Rightarrow> recovery_error + string list \<times> string list" where
  "classify_entries seen journals reserves [] = Inr (journals, reserves)"
| "classify_entries seen journals reserves (name # names) =
     (if max_legacy_directory_entries < Suc seen then Inl TooManyLegacyEntries
      else if legacy_reserve_report_name name \<noteq> None
        then classify_entries (Suc seen) journals (reserves @ [name]) names
      else if \<not> endswith name journal_suffix then classify_entries (Suc seen) journals reserves names
      else if \<not> is_journal_name name then Inl (UnsafeJournalName name)
      else if max_legacy_journals < Suc (length journals) then Inl TooManyLegacyJournals
      else classify_entries (Suc seen) (journals @ [name]) reserves names)"

fun read_legacy ::
  "recovery_env \<Rightarrow> nat \<Rightarrow> directory \<Rightarrow> string list
   \<Rightarrow> (recovery_error + (string \<times> parsed_journal) list) \<times> directory" where
  "read_legacy env seen reports [] = (Inr [], reports)"
| "read_legacy env seen reports (name # names) =
     (case read_private_journal (re_owner_uid env) reports name of
        Inl e \<Rightarrow> (Inl e, reports)
      | Inr journal \<Rightarrow>
          if max_legacy_total_bytes < seen + length (fst journal)
            then (Inl TooManyLegacyBytes, reports)
          else
           (case parse_trusted env name journal of
              Inl e \<Rightarrow> (Inl e, reports)
            | Inr pj \<Rightarrow>
               (case read_legacy env (seen + length (fst journal))
                       (repair_torn name journal reports) names of
                  (Inl e, reports') \<Rightarrow> (Inl e, reports')
                | (Inr rest, reports') \<Rightarrow> (Inr ((name, pj) # rest), reports'))))"

fun mark_active ::
  "recovery_env \<Rightarrow> string list \<Rightarrow> nat \<Rightarrow> (string \<times> parsed_journal) list \<Rightarrow> directory
   \<Rightarrow> (recovery_error + unit) \<times> directory" where
  "mark_active env completed count [] active = (Inr (), active)"
| "mark_active env completed count ((name, pj) # rest) active =
     (if terminal_journal completed pj then
        (case (if pj_operation pj = None then cleanup_private_snapshot_artifacts env pj else Inr ()) of
           Inl e \<Rightarrow> (Inl e, active)
         | Inr _ \<Rightarrow> mark_active env completed count rest active)
      else if max_recovery_journals < Suc count then (Inl TooManyActive, active)
      else
       (case ensure_active_marker (re_owner_uid env) name (pj_operation_id pj) active of
          Inl e \<Rightarrow> (Inl e, active)
        | Inr active' \<Rightarrow> mark_active env completed (Suc count) rest active'))"

text \<open>Each reserve is a private file of the scan; one that has gone is skipped.\<close>

fun unlink_reserves :: "int \<Rightarrow> string list \<Rightarrow> directory \<Rightarrow> (recovery_error + unit) \<times> directory" where
  "unlink_reserves uid [] reports = (Inr (), reports)"
| "unlink_reserves uid (name # names) reports =
     (case map_of reports name of
        None \<Rightarrow> unlink_reserves uid names reports
      | Some f \<Rightarrow>
          if \<not> private_to uid f then (Inl (IndexNotTrusted name), reports)
          else unlink_reserves uid names (remove_file name reports))"

definition bootstrap_active_index ::
  "recovery_env \<Rightarrow> recovery_state \<Rightarrow> (recovery_error + unit) \<times> recovery_state" where
  "bootstrap_active_index env st =
     (case active_index_present (re_owner_uid env) (rd_active st) of
        Inl e \<Rightarrow> (Inl e, st)
      | Inr True \<Rightarrow> (Inr (), st)
      | Inr False \<Rightarrow>
     (case classify_entries 0 [] [] (map fst (rd_reports st)) of
        Inl e \<Rightarrow> (Inl e, st)
      | Inr (journals, reserves) \<Rightarrow>
     (case read_legacy env 0 (rd_reports st) (sort journals) of
        (Inl e, reports) \<Rightarrow> (Inl e, st\<lparr>rd_reports := reports\<rparr>)
      | (Inr parsed, reports) \<Rightarrow>
     (case completed_operations env reports parsed of
        Inl e \<Rightarrow> (Inl e, st\<lparr>rd_reports := reports\<rparr>)
      | Inr completed \<Rightarrow>
     (case mark_active env completed 0 parsed (rd_active st) of
        (Inl e, active) \<Rightarrow> (Inl e, \<lparr>rd_reports = reports, rd_active = active\<rparr>)
      | (Inr _, active) \<Rightarrow>
     (case unlink_reserves (re_owner_uid env) (sort reserves) reports of
        (Inl e, reports') \<Rightarrow> (Inl e, \<lparr>rd_reports = reports', rd_active = active\<rparr>)
      | (Inr _, reports') \<Rightarrow>
     (case create_active_index (re_owner_uid env) active of
        Inl e \<Rightarrow> (Inl e, \<lparr>rd_reports = reports', rd_active = active\<rparr>)
      | Inr active' \<Rightarrow> (Inr (), \<lparr>rd_reports = reports', rd_active = active'\<rparr>))))))))"

section \<open>The unresolved operations\<close>

text \<open>\<open>reports\<close> is absent when the report directory does not exist.\<close>

definition unresolved_operations ::
  "recovery_env \<Rightarrow> recovery_state option
   \<Rightarrow> (recovery_error + unresolved_operation list) \<times> recovery_state option" where
  "unresolved_operations env state =
     (case state of
        None \<Rightarrow> (Inr [], None)
      | Some st0 \<Rightarrow>
     (case bootstrap_active_index env st0 of
        (Inl e, st) \<Rightarrow> (Inl e, Some st)
      | (Inr _, st) \<Rightarrow>
     (case read_active_markers env (rd_active st) of
        Inl e \<Rightarrow> (Inl e, Some st)
      | Inr markers \<Rightarrow>
     (case read_indexed env (rd_reports st) markers of
        (Inl e, reports) \<Rightarrow> (Inl e, Some (st\<lparr>rd_reports := reports\<rparr>))
      | (Inr indexed, reports) \<Rightarrow>
     (case completed_operations env reports indexed of
        Inl e \<Rightarrow> (Inl e, Some (st\<lparr>rd_reports := reports\<rparr>))
      | Inr completed \<Rightarrow>
     (case resolve_indexed env completed indexed [] (rd_active st) of
        (r, active) \<Rightarrow> (r, Some \<lparr>rd_reports = reports, rd_active = active\<rparr>)))))))"

definition active_recovery_journal_names ::
  "recovery_env \<Rightarrow> recovery_state option
   \<Rightarrow> (recovery_error + string list) \<times> recovery_state option" where
  "active_recovery_journal_names env state =
     (case state of
        None \<Rightarrow> (Inr [], None)
      | Some st0 \<Rightarrow>
     (case bootstrap_active_index env st0 of
        (Inl e, st) \<Rightarrow> (Inl e, Some st)
      | (Inr _, st) \<Rightarrow>
          (map_sum id (map fst) (read_active_markers env (rd_active st)), Some st)))"

definition operation_binding ::
  "unresolved_operation \<Rightarrow> string option \<times> string option \<times> string option \<times> string option" where
  "operation_binding op =
     (uo_snapshot_path op, uo_snapshot_integrity_sha256 op, uo_snapshot_operation_id op,
      uo_snapshot_host_id op)"

definition recovery_snapshot_path ::
  "unresolved_operation list \<Rightarrow> recovery_error + string option" where
  "recovery_snapshot_path operations =
     (if operations = [] then Inr None
      else
       (let missing = map uo_operation_id (filter (\<lambda>op. uo_snapshot_path op = None) operations);
            bindings = remdups (map operation_binding operations)
        in if missing \<noteq> [] then Inl (MissingSnapshotBinding missing)
           else if length bindings \<noteq> 1 then Inl AmbiguousSnapshot
           else case last bindings of
             (Some path, Some _, Some _, Some _) \<Rightarrow> Inr (Some path)
           | _ \<Rightarrow> Inl IncompleteSnapshotBinding))"

end
