(* ===== verification/JournalTheorems.thy ===== *)
theory JournalTheorems
  imports JournalProps
begin

text \<open>
  The properties of a validated journal, each with a witness on one concrete journal.
\<close>

section \<open>A concrete journal\<close>

definition sample_id :: string where
  "sample_id = replicate 32 CHR ''a''"

definition sample_event :: "string \<Rightarrow> (string \<times> json) list \<Rightarrow> event" where
  "sample_event name fields' =
     [(''event'', JStr name), (''operation_id'', JStr sample_id),
      (''timestamp'', JStr ''2026-01-02T03:04:05+00:00'')] @ fields'"

definition sample_binding :: "(string \<times> json) list" where
  "sample_binding =
     [(''snapshot_path'', JStr ''/var/lib/nvidia-converge/snapshot.json''),
      (''snapshot_integrity_sha256'', JStr (replicate 64 CHR ''0'')),
      (''snapshot_operation_id'', JStr sample_id),
      (''snapshot_host_id'', JStr (''machine-id-sha256:'' @ replicate 64 CHR ''1''))]"

definition sample_command :: "(string \<times> json) list" where
  "sample_command =
     [(''command'', JList [JStr ''apt-get'', JStr ''install'']), (''mutating'', JBool True)]"

definition ev_started :: event where "ev_started = sample_event ''operation-started'' []"
definition ev_snapshot :: event where
  "ev_snapshot = sample_event ''rollback-snapshot-persisted'' sample_binding"
definition ev_command :: event where "ev_command = sample_event ''command-started'' sample_command"
definition ev_finish :: event where
  "ev_finish = sample_event ''command-finished''
     (sample_command @ [(''returncode'', JInt 0), (''skipped'', JBool False), (''reason'', JNull)])"
definition ev_done :: event where
  "ev_done = sample_event ''operation-completed''
     [(''exit_code'', JInt 0), (''incomplete'', JBool False), (''outcome'', JStr ''succeeded'')]"
definition ev_unsaved :: event where
  "ev_unsaved = sample_event ''report-persistence-failed'' [(''error'', JStr ''ENOSPC'')]"

definition sample_events :: "event list" where
  "sample_events = [ev_started, ev_snapshot, ev_command, ev_finish, ev_done, ev_unsaved]"

lemma sample_valid: "validate_event_stream sample_events = Inr sample_id"
  by code_simp

lemma sample_interrupted: "validate_event_stream (take 3 sample_events) = Inr sample_id"
  by code_simp

section \<open>The stream\<close>

text \<open>C22. In a validated journal every command that may change the host (mutating, and not one of the
  two private-state commands) is preceded by the record of a persisted rollback snapshot with a
  well-formed binding.\<close>

theorem snapshot_before_mutation:
  assumes "validate_event_stream (pre @ ev # post) = Inr operation_id"
    and "event_is ''command-started'' ev" and "unsafe_mutation ev"
  shows "\<exists>s \<in> set pre. event_is ''rollback-snapshot-persisted'' s
    \<and> snapshot_event_binding s = Inr (event_binding s)"
proof -
  from assms(1) obtain st where "fold_e validate_event initial_stream (pre @ ev # post) = Inr st"
    by (rule validate_event_stream_Inr)
  with initial_invs(1) obtain t u where t: "binding_inv pre t" and u: "validate_event t ev = Inr u"
    by (rule binding.run_inv_at)
  from u obtain i st1 where "event_step (t\<lparr>js_operation_id := Some i\<rparr>) ev st1"
    by (rule validate_event_step)
  then have "js_binding t \<noteq> None"
    using assms(2,3)
    by (cases rule: event_step.cases) (auto simp: handler_Inr event_is_unique simp del: not_None_eq)
  with t have ne: "snapshots pre \<noteq> []" and all: "\<forall>s \<in> set (snapshots pre). snapshot_event_binding s = Inr (event_binding s)"
    by (auto simp: binding_inv_def)
  from hd_in_set [OF ne] obtain s where s: "s \<in> set (snapshots pre)" by blast
  with all show ?thesis by (intro bexI [of _ s]) auto
qed

theorem snapshot_before_mutation_witness:
  "\<exists>s \<in> set [ev_started, ev_snapshot]. event_is ''rollback-snapshot-persisted'' s
    \<and> snapshot_event_binding s = Inr (event_binding s)"
proof (rule snapshot_before_mutation)
  show "validate_event_stream ([ev_started, ev_snapshot] @ ev_command # [ev_finish, ev_done, ev_unsaved])
      = Inr sample_id"
    using sample_valid by (simp add: sample_events_def)
  show "event_is ''command-started'' ev_command" by code_simp
  show "unsafe_mutation ev_command" by code_simp
qed

text \<open>A validated journal belongs to one operation, whose well-formed identifier every event
  carries; it starts once, and records at most one snapshot, one completion and one failure to
  persist the report.\<close>

theorem journal_single_operation:
  assumes "validate_event_stream events = Inr operation_id"
  shows "is_operation_id operation_id
    \<and> (\<forall>ev \<in> set events. jget_or_null ''operation_id'' ev = JStr operation_id)
    \<and> filter (event_is ''operation-started'') events = [hd events]
    \<and> length (filter (event_is ''rollback-snapshot-persisted'') events) \<le> 1
    \<and> length (filter (event_is ''operation-completed'') events) \<le> 1
    \<and> length (filter (event_is ''report-persistence-failed'') events) \<le> 1"
  using assms
proof (rule validate_event_stream_Inr)
  fix st
  assume st: "js_operation_id st = Some operation_id" "binding_inv events st" "count_inv events st"
    and ne: "events \<noteq> []" "event_is ''operation-started'' (hd events)"
  from ne obtain e es where events: "events = e # es" by (cases events) auto
  have "filter (event_is ''operation-started'') es = []"
    using st(3) unfolding events count_inv_def by (simp add: filter_empty_conv)
  with st ne show ?thesis unfolding events count_inv_def binding_inv_def by auto
qed

theorem journal_single_operation_witness:
  "list_all (\<lambda>ev. jget_or_null ''operation_id'' ev = JStr sample_id) sample_events"
  using journal_single_operation [OF sample_valid] by (simp add: list_all_iff)

text \<open>C33. Commands are bracketed: a started command is the last event (the process died), or is
  followed at once by the finish of the same command, or the journal ends with the record that a
  later operation recovered it.\<close>

theorem command_bracketed:
  assumes "validate_event_stream (pre @ ev # post) = Inr operation_id"
    and "event_is ''command-started'' ev"
  shows "case post of
      [] \<Rightarrow> True
    | f # rest \<Rightarrow>
        (event_is ''command-finished'' f \<and> event_command f = event_command ev
           \<and> event_mutating f = event_mutating ev)
        \<or> (event_is ''operation-recovered'' f \<and> rest = [])"
proof (cases post)
  case Nil
  then show ?thesis by simp
next
  case (Cons f rest)
  from assms(1) obtain st where run: "fold_e validate_event initial_stream (pre @ ev # f # rest) = Inr st"
    unfolding Cons by (rule validate_event_stream_Inr)
  with initial_invs(2) obtain t u where t: "count_inv pre t" and u: "validate_event t ev = Inr u"
    and uc: "count_inv (pre @ [ev]) u" and rest: "fold_e validate_event u (f # rest) = Inr st"
    by (rule counts.run_inv_at)
  from u obtain i st1 where "event_step (t\<lparr>js_operation_id := Some i\<rparr>) ev st1"
      and u1: "u = st1\<lparr>js_index := Suc (js_index st1)\<rparr>"
    by (rule validate_event_step)
  then have "js_pending st1 = Some (event_command ev, event_mutating ev)"
    using assms(2) by (cases rule: event_step.cases) (auto simp: handler_Inr event_is_unique)
  then have pend: "js_pending u = Some (event_command ev, event_mutating ev)" by (simp add: u1)
  have index: "js_index u \<noteq> 0" using uc by (simp add: count_inv_def)
  from rest obtain v where v: "validate_event u f = Inr v" "fold_e validate_event v rest = Inr st"
    by (auto simp: bind_r_Inr_iff)
  from v(1) obtain j st2 where st2: "event_step (u\<lparr>js_operation_id := Some j\<rparr>) f st2"
      "v = st2\<lparr>js_index := Suc (js_index st2)\<rparr>"
    by (rule validate_event_step)
  from st2(1) have "(event_is ''command-finished'' f \<and> event_command f = event_command ev
           \<and> event_mutating f = event_mutating ev)
        \<or> (event_is ''operation-recovered'' f \<and> js_terminal st2 \<and> \<not> js_terminal_allows_failure st2)"
    using pend index by (cases rule: event_step.cases) (auto simp: handler_Inr)
  moreover have "rest = []" if dead: "js_terminal st2" "\<not> js_terminal_allows_failure st2"
  proof (rule ccontr)
    assume "rest \<noteq> []"
    then obtain g gs where "rest = g # gs" by (cases rest) auto
    with v(2) obtain w where "validate_event v g = Inr w" by (auto simp: bind_r_Inr_iff)
    then show False
      by (rule validate_event_step) (use dead st2(2) in simp)
  qed
  ultimately show ?thesis unfolding Cons by auto
qed

theorem command_bracketed_witness:
  "event_is ''command-finished'' ev_finish \<and> event_command ev_finish = event_command ev_command"
proof -
  have valid: "validate_event_stream ([ev_started, ev_snapshot] @ ev_command # [ev_finish, ev_done, ev_unsaved])
      = Inr sample_id"
    using sample_valid by (simp add: sample_events_def)
  have start: "event_is ''command-started'' ev_command" by code_simp
  have "\<not> event_is ''operation-recovered'' ev_finish" by code_simp
  with command_bracketed [OF valid start] show ?thesis by simp
qed

text \<open>What may follow a terminal state: nothing, one failure to persist the report, and after that
  a recovery.\<close>

lemma nothing_after_closed:
  assumes "fold_e validate_event v xs = Inr st" "js_terminal v" "\<not> js_terminal_allows_failure v"
  shows "xs = []"
proof (rule ccontr)
  assume "xs \<noteq> []"
  then obtain g gs where "xs = g # gs" by (cases xs) auto
  with assms(1) obtain w where "validate_event v g = Inr w" by (auto simp: bind_r_Inr_iff)
  then show False by (rule validate_event_step) (use assms(2,3) in simp)
qed

lemma completion_terminal:
  assumes "validate_event t ev = Inr u"
    and "event_is ''operation-completed'' ev" and "jget_or_null ''incomplete'' ev = JBool False"
  shows "js_terminal u"
proof -
  from assms(1) obtain i v where "event_step (t\<lparr>js_operation_id := Some i\<rparr>) ev v"
      and u: "u = v\<lparr>js_index := Suc (js_index v)\<rparr>"
    by (rule validate_event_step)
  then have "js_terminal v"
    using assms(2,3) by (cases rule: event_step.cases) (auto simp: handler_Inr event_is_unique)
  then show ?thesis by (simp add: u)
qed

lemma terminal_step:
  assumes "validate_event u f = Inr v" "js_terminal u"
  shows "event_is ''report-persistence-failed'' f \<and> js_sealed v \<and> js_persistence_failure_seen v"
proof -
  from assms obtain j w where pf: "event_is ''report-persistence-failed'' f"
      and step: "event_step (u\<lparr>js_operation_id := Some j\<rparr>) f w"
      and v: "v = w\<lparr>js_index := Suc (js_index w)\<rparr>"
    by (rule_tac validate_event_step [OF assms(1)]) blast
  from step pf v show ?thesis by (cases rule: event_step.cases) (auto simp: handler_Inr event_is_unique)
qed

lemma sealed_step:
  assumes "validate_event v r = Inr w" "js_sealed v" "js_persistence_failure_seen v"
  shows "event_is ''operation-recovered'' r \<and> js_terminal w \<and> \<not> js_terminal_allows_failure w"
proof -
  from assms(1) obtain k x where step: "event_step (v\<lparr>js_operation_id := Some k\<rparr>) r x"
      and w: "w = x\<lparr>js_index := Suc (js_index x)\<rparr>"
      and kind: "event_is ''operation-recovered'' r \<or> event_is ''report-persistence-failed'' r"
    by (rule validate_event_step) (use assms(2) in blast)
  from step kind assms(3) w show ?thesis
    by (cases rule: event_step.cases) (auto simp: handler_Inr event_is_unique)
qed

text \<open>A completion without incomplete state is final: nothing follows it but one failure to
  persist the report, and after that at most the recovery of the operation.\<close>

theorem clean_completion_final:
  assumes "validate_event_stream (pre @ ev # post) = Inr operation_id"
    and "event_is ''operation-completed'' ev" and "jget_or_null ''incomplete'' ev = JBool False"
  shows "post = []
    \<or> (\<exists>f. post = [f] \<and> event_is ''report-persistence-failed'' f)
    \<or> (\<exists>f r. post = [f, r] \<and> event_is ''report-persistence-failed'' f
         \<and> event_is ''operation-recovered'' r)"
proof -
  from assms(1) obtain st where run: "fold_e validate_event initial_stream (pre @ ev # post) = Inr st"
    by (rule validate_event_stream_Inr)
  then obtain t u where u: "validate_event t ev = Inr u" and post: "fold_e validate_event u post = Inr st"
    by (rule counts.run_split)
  have terminal: "js_terminal u" by (rule completion_terminal [OF u assms(2,3)])
  show ?thesis
  proof (cases post)
    case f: (Cons f fs)
    from post obtain v where v: "validate_event u f = Inr v" and fs: "fold_e validate_event v fs = Inr st"
      unfolding f by (auto simp: bind_r_Inr_iff)
    note pf = terminal_step [OF v terminal]
    show ?thesis
    proof (cases fs)
      case r: (Cons r rs)
      from fs obtain w where w: "validate_event v r = Inr w" and rs: "fold_e validate_event w rs = Inr st"
        unfolding r by (auto simp: bind_r_Inr_iff)
      with sealed_step [OF w] pf nothing_after_closed [OF rs] f r show ?thesis by simp
    qed (use f pf in simp)
  qed simp
qed

theorem clean_completion_final_witness:
  "event_is ''report-persistence-failed'' ev_unsaved"
proof -
  have valid: "validate_event_stream ([ev_started, ev_snapshot, ev_command, ev_finish] @ ev_done # [ev_unsaved])
      = Inr sample_id"
    using sample_valid by (simp add: sample_events_def)
  have kind: "event_is ''operation-completed'' ev_done" by code_simp
  have clean: "jget_or_null ''incomplete'' ev_done = JBool False" by code_simp
  from clean_completion_final [OF valid kind clean] show ?thesis by simp
qed

section \<open>The parsed journal\<close>

lemma host_mutation_mutated:
  assumes "validate_event_stream events = Inr operation_id" and "host_mutation_possible events"
  shows "mutated events"
proof -
  have "last (completions events) \<in> set (completions events)" if "completions events \<noteq> []"
    using that by (rule last_in_set)
  then show ?thesis
    using assms(2)
    by (auto simp: host_mutation_possible_def mutated_def last_opt_def list_ex_iff split: if_splits)
qed

lemma parse_journal_Inr:
  assumes "parse_journal decode loads path payload = Inr pj"
  obtains events operation_id where "validate_event_stream events = Inr operation_id"
    "summarize_journal path operation_id events = Inr pj"
  using assms
  by (auto simp: parse_journal_def bind_r_Inr_iff split: option.splits if_splits)

lemma remdups_single: "length xs \<le> 1 \<Longrightarrow> remdups xs = xs"
  by (cases xs) auto

lemma parsed_operation_bound:
  assumes "parse_journal decode loads path payload = Inr pj" and "pj_operation pj = Some op"
  shows "\<exists>p i oid h. uo_snapshot_path op = Some p \<and> startswith p ''/''
    \<and> uo_snapshot_integrity_sha256 op = Some i \<and> is_sha256 i
    \<and> uo_snapshot_operation_id op = Some oid \<and> is_operation_id oid
    \<and> uo_snapshot_host_id op = Some h \<and> is_host_id h
    \<and> pj_snapshot_binding_present pj \<and> uo_operation_id op = pj_operation_id pj"
  using assms(1)
proof (rule parse_journal_Inr)
  fix events operation_id
  assume valid: "validate_event_stream events = Inr operation_id"
    and sum: "summarize_journal path operation_id events = Inr pj"
  from sum assms(2) have host: "host_mutation_possible events"
    by (auto simp: summarize_journal_def Let_def split: if_splits)
  from valid obtain st where "binding_inv events st" by (rule validate_event_stream_Inr)
  with host_mutation_mutated [OF valid host] obtain s where one: "snapshots events = [s]"
    and ok: "snapshot_event_binding s = Inr (event_binding s)"
    by (cases "snapshots events") (auto simp: binding_inv_def)
  obtain p i oid h where b: "event_binding s = (p, i, oid, h)" by (cases "event_binding s")
  have wf: "startswith p ''/'' \<and> is_sha256 i \<and> is_operation_id oid \<and> is_host_id h"
    using ok unfolding b
    by (auto simp: snapshot_event_binding_def split: json.splits if_splits)
  show ?thesis
    using sum assms(2) host wf unfolding summarize_journal_def Let_def one by (auto simp: b)
qed

text \<open>A parsed journal that may have changed the host carries the whole rollback binding: the
  snapshot's absolute path, digest, operation and host, each well formed.  So an interrupted
  host mutation can always name the snapshot that undoes it.\<close>

theorem interrupted_mutation_is_bound:
  assumes "parse_journal decode loads path payload = Inr pj" and "pj_operation pj = Some op"
  shows "\<exists>p i oid h. uo_snapshot_path op = Some p \<and> startswith p ''/''
    \<and> uo_snapshot_integrity_sha256 op = Some i \<and> is_sha256 i
    \<and> uo_snapshot_operation_id op = Some oid \<and> is_operation_id oid
    \<and> uo_snapshot_host_id op = Some h \<and> is_host_id h
    \<and> pj_snapshot_binding_present pj \<and> uo_operation_id op = pj_operation_id pj"
  using assms by (rule parsed_operation_bound)

text \<open>A reader of one-digit lines, for the witness: line \<open>n\<close> reads as event \<open>n\<close>.\<close>

definition sample_loads :: "journal_error json_loads" where
  "sample_loads hook line =
     (case hook (if line = ''0'' then ev_started else if line = ''1'' then ev_snapshot else ev_command) of
        Inl e \<Rightarrow> HookError e | Inr v \<Rightarrow> Loaded v)"

definition sample_payload :: string where
  "sample_payload = [CHR ''0'', CHR 0x0A, CHR ''1'', CHR 0x0A, CHR ''2'', CHR 0x0A]"

definition sample_parsed :: "journal_error + parsed_journal" where
  "sample_parsed = summarize_journal ''j'' sample_id [ev_started, ev_snapshot, ev_command]"

lemma sample_lines: "splitlines sample_payload = [''0'', ''1'', ''2'']"
  by code_simp

lemma sample_loaded:
  "map_r (load_event sample_loads) [''0'', ''1'', ''2''] = Inr [ev_started, ev_snapshot, ev_command]"
  by code_simp

lemma sample_parse: "parse_journal Some sample_loads ''j'' sample_payload = sample_parsed"
proof -
  have "cp (last sample_payload) = 10" "sample_payload \<noteq> []" by (simp_all add: sample_payload_def cp_def)
  moreover have "validate_event_stream [ev_started, ev_snapshot, ev_command] = Inr sample_id"
    using sample_interrupted by (simp add: sample_events_def)
  ultimately show ?thesis
    by (simp add: parse_journal_def sample_lines sample_loaded sample_parsed_def max_journal_events_def
        del: map_r.simps)
qed

theorem interrupted_mutation_is_bound_witness:
  "\<exists>pj op p. sample_parsed = Inr pj \<and> pj_operation pj = Some op
     \<and> uo_snapshot_path op = Some p \<and> startswith p ''/''"
proof -
  have "\<exists>pj op. sample_parsed = Inr pj \<and> pj_operation pj = Some op"
  proof -
    have "length (remdups (map event_binding (snapshots [ev_started, ev_snapshot, ev_command]))) = 1"
      by code_simp
    moreover have "host_mutation_possible [ev_started, ev_snapshot, ev_command]" by code_simp
    ultimately show ?thesis by (simp add: sample_parsed_def summarize_journal_def Let_def)
  qed
  then obtain pj op where pj: "sample_parsed = Inr pj" and op: "pj_operation pj = Some op" by blast
  from interrupted_mutation_is_bound [OF sample_parse [unfolded pj] op] pj op show ?thesis by blast
qed

text \<open>A validated stream always has a summary: the parser's own check for conflicting snapshot
  bindings never fires, since the event loop has already refused a second binding.\<close>

theorem no_conflicting_bindings:
  assumes "validate_event_stream events = Inr operation_id"
  shows "\<exists>pj. summarize_journal path operation_id events = Inr pj"
  using assms
proof (rule validate_event_stream_Inr)
  fix st
  assume "binding_inv events st"
  then have "length (snapshots events) \<le> 1" by (simp add: binding_inv_def)
  then have "snapshots events = [] \<or> (\<exists>s. snapshots events = [s])" by (cases "snapshots events") auto
  then show ?thesis by (auto simp: summarize_journal_def Let_def)
qed

theorem no_conflicting_bindings_witness: "\<exists>pj. summarize_journal ''j'' sample_id sample_events = Inr pj"
  using no_conflicting_bindings [OF sample_valid] .

text \<open>A journal line whose event name is a JSON list or object is not refused as an unknown event:
  the membership test raises \<open>TypeError\<close>, which no caller of the parser expects.\<close>

theorem unhashable_event_raises_type_error:
  assumes "unhashable v"
  shows "validate_event_stream [ev_started, (''event'', v) # fields'] = Inl PyTypeError"
proof -
  have start: "validate_event_stream [ev_started] = Inr sample_id" by code_simp
  have head: "jget_or_null ''event'' ev_started = JStr ''operation-started''" by code_simp
  from start obtain st where "validate_event initial_stream ev_started = Inr st"
    by (auto simp: validate_event_stream_def head bind_r_Inr_iff)
  moreover have "event_header ((''event'', v) # fields') = Inl PyTypeError"
    using assms by (simp add: event_header_def Let_def jget_or_null_def)
  ultimately show ?thesis
    by (simp add: validate_event_stream_def head validate_event_def)
qed

theorem unhashable_event_raises_type_error_witness:
  "validate_event_stream [ev_started, [(''event'', JList [])]] = Inl PyTypeError"
  by (rule unhashable_event_raises_type_error) simp

end
