(* ===== verification/RecoveryTheorems.thy ===== *)
theory RecoveryTheorems
  imports Recovery JournalTheorems
begin

text \<open>
  Properties of recovery: torn journals, the marker files, the bootstrap, and that no
  interrupted host mutation is lost between the index and the snapshot that undoes it.
\<close>

section \<open>Directories\<close>

lemma map_of_set_file [simp]: "map_of (set_file name f dir) = (map_of dir)(name \<mapsto> f)"
  by (simp add: set_file_def update_conv')

lemma map_of_remove_file [simp]: "map_of (remove_file name dir) = (map_of dir)(name := None)"
  by (simp add: remove_file_def delete_conv')

section \<open>Torn journals\<close>

lemma trusted_length_torn:
  assumes "list_all (\<lambda>c. \<not> is_newline c) tail'" and "complete = [] \<or> is_newline (last complete)"
  shows "trusted_length (complete @ tail') = length complete"
proof (cases "tail' = []")
  case True
  then show ?thesis using assms(2) by (auto simp: trusted_length_def)
next
  case False
  have "dropWhile (\<lambda>c. \<not> is_newline c) (rev tail' @ rev complete)
      = dropWhile (\<lambda>c. \<not> is_newline c) (rev complete)"
    by (rule dropWhile_append2) (use assms(1) in \<open>auto simp: list_all_iff\<close>)
  also have "dropWhile (\<lambda>c. \<not> is_newline c) (rev complete) = rev complete"
    using assms(2) by (cases complete rule: rev_cases) simp_all
  finally show ?thesis
    using False assms(1) by (auto simp: trusted_length_def list_all_iff)
qed

lemma journal_split:
  "\<exists>complete tail'. payload = complete @ tail' \<and> list_all (\<lambda>c. \<not> is_newline c) tail'
     \<and> (complete = [] \<or> is_newline (last complete))"
proof -
  let ?n = "\<lambda>c. \<not> is_newline c"
  have "payload = rev (dropWhile ?n (rev payload)) @ rev (takeWhile ?n (rev payload))"
    by (metis rev_append rev_rev_ident takeWhile_dropWhile_id)
  moreover have "list_all ?n (rev (takeWhile ?n (rev payload)))"
    by (auto simp: list_all_iff dest: set_takeWhileD)
  moreover have "rev (dropWhile ?n (rev payload)) = []
      \<or> is_newline (last (rev (dropWhile ?n (rev payload))))"
    using hd_dropWhile [of ?n "rev payload"] by (cases "dropWhile ?n (rev payload)") (auto simp: last_rev)
  ultimately show ?thesis by blast
qed

text \<open>A journal whose last append was torn is trusted up to its last complete line, and the repair
  removes exactly the torn end: afterwards the journal reads as those lines, nothing is left to
  repair, and every other file is as it was.\<close>

theorem torn_journal_repaired:
  assumes "read_private_journal uid dir name = Inr (payload, n)"
  shows "(\<exists>tail'. payload = take n payload @ tail' \<and> list_all (\<lambda>c. \<not> is_newline c) tail')
    \<and> (payload \<noteq> [] \<longrightarrow> take n payload \<noteq> [] \<and> is_newline (last (take n payload)))
    \<and> read_private_journal uid (repair_torn name (payload, n) dir) name = Inr (take n payload, n)
    \<and> (\<forall>other. other \<noteq> name \<longrightarrow>
         map_of (repair_torn name (payload, n) dir) other = map_of dir other)"
proof -
  from assms obtain f where f: "map_of dir name = Some f" "private_to uid f"
      "length (pf_bytes f) \<le> max_journal_bytes" "payload = pf_bytes f" "n = trusted_length payload"
      "payload \<noteq> [] \<longrightarrow> n \<noteq> 0"
    by (auto simp: read_private_journal_def split: option.splits if_splits)
  obtain complete tail' where s: "payload = complete @ tail'" "list_all (\<lambda>c. \<not> is_newline c) tail'"
      "complete = [] \<or> is_newline (last complete)"
    using journal_split [of payload] by blast
  have n: "n = length complete" using trusted_length_torn [OF s(2,3)] s(1) f(5) by simp
  then have take: "take n payload = complete" using s(1) by simp
  have again: "trusted_length complete = length complete"
    using trusted_length_torn [of "[]" complete] s(3) by simp
  have empty: "complete = [] \<Longrightarrow> payload = []" using f(6) n by auto
  have priv: "private_to uid (f\<lparr>pf_bytes := complete\<rparr>)" using f(2) by (simp add: private_to_def)
  have "length complete \<le> length payload" using s(1) by simp
  then have len: "length complete \<le> max_journal_bytes" using f(3,4) by simp
  have "read_private_journal uid (repair_torn name (payload, n) dir) name = Inr (take n payload, n)"
  proof (cases "n = length payload")
    case True
    with assms show ?thesis by (simp add: repair_torn_def)
  next
    case False
    then have "map_of (repair_torn name (payload, n) dir) name = Some (f\<lparr>pf_bytes := complete\<rparr>)"
      using f(1,4) take by (simp add: repair_torn_def truncate_torn_journal_def)
    with priv len again n take False s(1) show ?thesis
      by (auto simp: read_private_journal_def)
  qed
  moreover have "\<forall>other. other \<noteq> name \<longrightarrow>
         map_of (repair_torn name (payload, n) dir) other = map_of dir other"
    by (simp add: repair_torn_def truncate_torn_journal_def split: option.split)
  ultimately show ?thesis using s take empty by (auto simp: take)
qed

definition torn_file :: private_file where
  "torn_file = new_private_file 0 [CHR ''a'', CHR 0x0A, CHR ''b'']"

theorem torn_journal_repaired_witness:
  "read_private_journal 0 (repair_torn ''j'' ([CHR ''a'', CHR 0x0A, CHR ''b''], 2) [(''j'', torn_file)]) ''j''
    = Inr ([CHR ''a'', CHR 0x0A], 2)"
proof -
  have "trusted_length [CHR ''a'', CHR 0x0A, CHR ''b''] = 2" by code_simp
  then have read: "read_private_journal 0 [(''j'', torn_file)] ''j'' = Inr ([CHR ''a'', CHR 0x0A, CHR ''b''], 2)"
    by (simp add: read_private_journal_def torn_file_def new_private_file_def private_to_def
        max_journal_bytes_def)
  have "take 2 [CHR ''a'', CHR 0x0A, CHR ''b''] = [CHR ''a'', CHR 0x0A]" by simp
  with torn_journal_repaired [OF read] show ?thesis by simp
qed

section \<open>Markers\<close>

lemma journal_name_length:
  assumes "is_journal_name name"
  shows "length name \<le> 219"
proof -
  let ?r = "take (length name - length journal_suffix) name"
  have report: "is_report_name ?r" and suffix: "endswith name journal_suffix"
    using assms by (simp_all add: is_journal_name_def)
  have ends: "length p \<le> length s" if "endswith s p" for s p :: string
  proof -
    have "length (take (length (rev p)) (rev s)) = length (rev p)"
      using that by (simp add: endswith_def startswith_def)
    then show ?thesis by simp
  qed
  have short: "length t \<le> 200" if "case t of [] \<Rightarrow> False
      | c # cs \<Rightarrow> is_alnum c \<and> length cs \<le> 199 \<and> list_all is_name_char cs" for t
    using that by (cases t) simp_all
  have "length (take (length ?r - length ''.json'') ?r) \<le> 200"
    by (rule short) (use report in \<open>simp only: is_report_name_def\<close>)
  moreover have "length ''.json'' \<le> length ?r"
    by (rule ends) (use report in \<open>simp add: is_report_name_def\<close>)
  moreover have "length journal_suffix \<le> length name" by (rule ends) (rule suffix)
  ultimately show ?thesis by (simp add: journal_suffix_def)
qed

lemma marker_payload_length:
  assumes "is_journal_name name" and "is_operation_id operation_id"
  shows "length (active_marker_payload name operation_id) \<le> max_active_marker_bytes"
proof -
  have "length operation_id = 32" using assms(2) by (simp add: is_operation_id_def hex_of_length_def)
  with journal_name_length [OF assms(1)] show ?thesis
    by (simp add: active_marker_payload_def json_fields_def json_quote_def max_active_marker_bytes_def)
qed

text \<open>A marker reads back as the operation it was written for: creating it (or finding the same
  one) leaves a directory in which the name parses to that operation, when the decoder and
  \<open>json.loads\<close> read the written text as the object it prints.\<close>

theorem marker_round_trip:
  assumes "is_journal_name name" and "is_operation_id operation_id"
    and "ensure_active_marker (re_owner_uid env) name operation_id dir = Inr dir'"
    and "re_decode env (active_marker_payload name operation_id)
      = Some (active_marker_payload name operation_id)"
    and "\<And>hook. re_loads env hook (active_marker_payload name operation_id)
      = (case hook (marker_object name operation_id) of Inl e \<Rightarrow> HookError e | Inr v \<Rightarrow> Loaded v)"
  shows "read_active_marker env dir' name = Inr (name, operation_id)"
proof -
  let ?p = "active_marker_payload name operation_id"
  have read: "read_private_index_file (re_owner_uid env) max_active_marker_bytes dir' name = Inr ?p"
  proof (cases "map_of dir name")
    case None
    with assms(3) have "dir' = set_file name (new_private_file (re_owner_uid env) ?p) dir"
      by (simp add: ensure_active_marker_def)
    then show ?thesis
      using marker_payload_length [OF assms(1,2)]
      by (simp add: read_private_index_file_def new_private_file_def private_to_def)
  next
    case (Some f)
    with assms(3) show ?thesis
      by (auto simp: ensure_active_marker_def bind_r_Inr_iff split: if_splits)
  qed
  have "event_without_duplicates [] (marker_object name operation_id)
      = Inr (JObj (marker_object name operation_id))"
    by (simp add: marker_object_def keys_def)
  then have "parse_active_marker env name ?p = Inr operation_id"
    using assms(2,4,5) by (simp add: parse_active_marker_def marker_object_def jget_or_null_def)
  with read assms(1) show ?thesis by (simp add: read_active_marker_def)
qed

definition sample_name :: string where "sample_name = ''r.json.journal.jsonl''"

definition sample_env :: recovery_env where
  "sample_env =
     \<lparr>re_owner_uid = 0, re_report_dir = ''/r'', re_decode = Some,
      re_loads = (\<lambda>hook text.
        case hook (if text = active_marker_payload sample_name sample_id
                   then marker_object sample_name sample_id
                   else if text = ''0'' then ev_started
                   else if text = ''1'' then ev_snapshot else ev_command) of
          Inl e \<Rightarrow> HookError e | Inr v \<Rightarrow> Loaded v),
      re_cleanup = (\<lambda>_ _. None)\<rparr>"

theorem marker_round_trip_witness:
  "read_active_marker sample_env
     [(sample_name, new_private_file 0 (active_marker_payload sample_name sample_id))] sample_name
   = Inr (sample_name, sample_id)"
proof (rule marker_round_trip)
  show "is_journal_name sample_name" by code_simp
  show "is_operation_id sample_id" by code_simp
  show "ensure_active_marker (re_owner_uid sample_env) sample_name sample_id []
      = Inr [(sample_name, new_private_file 0 (active_marker_payload sample_name sample_id))]"
    by (simp add: ensure_active_marker_def sample_env_def set_file_def)
qed (simp_all add: sample_env_def)

text \<open>The bootstrap runs once: after it has succeeded, the index is present, and running it again
  changes nothing.\<close>

theorem bootstrap_once:
  assumes "bootstrap_active_index env st = (Inr (), st')"
  shows "active_index_present (re_owner_uid env) (rd_active st') = Inr True
    \<and> bootstrap_active_index env st' = (Inr (), st')"
proof -
  have present: "active_index_present (re_owner_uid env) (rd_active st') = Inr True"
  proof (cases "active_index_present (re_owner_uid env) (rd_active st) = Inr True")
    case True
    with assms show ?thesis by (simp add: bootstrap_active_index_def)
  next
    case False
    with assms obtain active where create: "create_active_index (re_owner_uid env) active = Inr (rd_active st')"
      by (auto simp: bootstrap_active_index_def split: sum.splits bool.splits prod.splits)
    then obtain found where found: "active_index_present (re_owner_uid env) active = Inr found"
      "rd_active st' = (if found then active
        else set_file active_index_name (new_private_file (re_owner_uid env) active_index_payload) active)"
      by (auto simp: create_active_index_def bind_r_Inr_iff)
    show ?thesis
    proof (cases found)
      case True
      with found show ?thesis by simp
    next
      case False
      have "length active_index_payload \<le> max_active_marker_bytes" by code_simp
      with False found(2) show ?thesis
        by (simp add: active_index_present_def read_private_index_file_def new_private_file_def
            private_to_def)
    qed
  qed
  then show ?thesis by (simp add: bootstrap_active_index_def)
qed

theorem bootstrap_once_witness:
  "\<exists>st'. bootstrap_active_index sample_env \<lparr>rd_reports = [], rd_active = []\<rparr> = (Inr (), st')
     \<and> bootstrap_active_index sample_env st' = (Inr (), st')"
proof -
  have "bootstrap_active_index sample_env \<lparr>rd_reports = [], rd_active = []\<rparr>
      = (Inr (), \<lparr>rd_reports = [], rd_active =
          [(active_index_name, new_private_file 0 active_index_payload)]\<rparr>)"
    by (simp add: bootstrap_active_index_def active_index_present_def read_private_index_file_def
        create_active_index_def sample_env_def set_file_def)
  with bootstrap_once [OF this] show ?thesis by blast
qed

section \<open>No interrupted operation is lost\<close>

lemma read_indexed_parsed:
  assumes "read_indexed env reports markers = (Inr indexed, reports')"
  shows "map fst indexed = map fst markers
    \<and> (\<forall>(name, pj) \<in> set indexed. \<exists>payload.
         parse_journal (re_decode env) (re_loads env) (journal_path env name) payload = Inr pj)"
  using assms
proof (induction env reports markers arbitrary: indexed reports' rule: read_indexed.induct)
  case (1 env reports)
  then show ?case by simp
next
  case (2 env reports name operation_id markers)
  from "2.prems" obtain journal pj rest where
    j: "read_private_journal (re_owner_uid env) reports name = Inr journal"
    "parse_trusted env name journal = Inr pj" "pj_operation_id pj = operation_id"
    "read_indexed env (repair_torn name journal reports) markers = (Inr rest, reports')"
    "indexed = (name, pj) # rest"
    by (auto split: sum.splits if_splits prod.splits)
  from "2.IH" [OF j(1,2) _ j(4)] j(3) have "map fst rest = map fst markers
    \<and> (\<forall>(name, pj) \<in> set rest. \<exists>payload.
         parse_journal (re_decode env) (re_loads env) (journal_path env name) payload = Inr pj)" by simp
  moreover have "\<exists>payload. parse_journal (re_decode env) (re_loads env) (journal_path env name) payload = Inr pj"
    using j(2) by (cases journal) (auto simp: parse_trusted_def split: sum.splits)
  ultimately show ?case using j(5) by auto
qed

definition still_open :: "string list \<Rightarrow> parsed_journal \<Rightarrow> bool" where
  "still_open completed pj \<longleftrightarrow>
     \<not> terminal_journal completed pj \<and> \<not> journal_has_terminal_resolution pj"

lemma retire_active_marker_Inr:
  "retire_active_marker env name i active = Inr active' \<Longrightarrow> active' = remove_file name active"
  by (auto simp: retire_active_marker_def bind_r_Inr_iff split: if_splits)

lemma resolve_indexed_Inr:
  assumes "resolve_indexed env completed indexed acc active = (Inr ops, active')"
  shows "ops = acc @ map (\<lambda>(_, pj). the (pj_operation pj)) (filter (\<lambda>(_, pj). still_open completed pj) indexed)
    \<and> (\<forall>name. map_of active' name =
         (if \<exists>pj. (name, pj) \<in> set indexed \<and> terminal_journal completed pj then None
          else map_of active name))"
  using assms
proof (induction indexed arbitrary: acc active)
  case Nil
  then show ?case by simp
next
  case (Cons e rest)
  obtain name pj where e: "e = (name, pj)" by (cases e)
  show ?case
  proof (cases "terminal_journal completed pj")
    case True
    with Cons.prems obtain mid where "retire_active_marker env name (pj_operation_id pj) active = Inr mid"
      and run: "resolve_indexed env completed rest acc mid = (Inr ops, active')"
      by (auto simp: e split: sum.splits if_splits)
    then have "mid = remove_file name active" by (simp add: retire_active_marker_Inr)
    with Cons.IH [OF run] True show ?thesis by (auto simp: e still_open_def)
  next
    case False
    with Cons.prems obtain acc' where run: "resolve_indexed env completed rest acc' active = (Inr ops, active')"
      and acc': "acc' = (if still_open completed pj then acc @ [the (pj_operation pj)] else acc)"
      by (auto simp: e still_open_def Let_def split: if_splits)
    from Cons.IH [OF run] False show ?thesis by (auto simp: e acc')
  qed
qed

lemma unresolved_operations_Inr:
  assumes "unresolved_operations env (Some st0) = (Inr ops, Some st')"
  obtains st markers indexed reports completed where
    "bootstrap_active_index env st0 = (Inr (), st)"
    "read_active_markers env (rd_active st) = Inr markers"
    "read_indexed env (rd_reports st) markers = (Inr indexed, reports)"
    "completed_operations env reports indexed = Inr completed"
    "resolve_indexed env completed indexed [] (rd_active st) = (Inr ops, rd_active st')"
  using assms
  by (auto simp: unresolved_operations_def split: prod.splits sum.splits)

lemma open_operation_bound:
  assumes "parse_journal decode loads path payload = Inr pj" and "still_open completed pj"
  shows "\<exists>op p i oid h. pj_operation pj = Some op \<and> operation_binding op = (Some p, Some i, Some oid, Some h)"
proof -
  from assms(2) obtain op where op: "pj_operation pj = Some op"
    by (auto simp: still_open_def terminal_journal_def)
  from parsed_operation_bound [OF assms(1) op] op show ?thesis by (auto simp: operation_binding_def)
qed

lemma snapshot_path_bound:
  assumes "\<forall>op \<in> set ops. \<exists>p i oid h. operation_binding op = (Some p, Some i, Some oid, Some h)"
  shows "case recovery_snapshot_path ops of
      Inr None \<Rightarrow> ops = []
    | Inr (Some p) \<Rightarrow> ops \<noteq> [] \<and> (\<forall>op \<in> set ops. uo_snapshot_path op = Some p)
    | Inl e \<Rightarrow> e = AmbiguousSnapshot
        \<and> (\<exists>a \<in> set ops. \<exists>b \<in> set ops. operation_binding a \<noteq> operation_binding b)"
proof (cases "ops = []")
  case True
  then show ?thesis by (simp add: recovery_snapshot_path_def)
next
  case False
  let ?bs = "remdups (map operation_binding ops)"
  have missing: "filter (\<lambda>op. uo_snapshot_path op = None) ops = []"
    using assms by (auto simp: filter_empty_conv operation_binding_def)
  have set_bs: "set ?bs = operation_binding ` set ops" by simp
  show ?thesis
  proof (cases "length ?bs = 1")
    case True
    then obtain b where b: "?bs = [b]" by (cases ?bs) auto
    then have all: "\<forall>op \<in> set ops. operation_binding op = b" using set_bs by auto
    from False obtain op where op: "op \<in> set ops" by (cases ops) auto
    with assms all obtain p i oid h where "b = (Some p, Some i, Some oid, Some h)" by metis
    with all b False missing show ?thesis
      by (auto simp: recovery_snapshot_path_def operation_binding_def)
  next
    case many: False
    have "\<exists>a \<in> set ops. \<exists>b \<in> set ops. operation_binding a \<noteq> operation_binding b"
    proof (rule ccontr)
      assume same: "\<not> ?thesis"
      from False obtain op where op: "op \<in> set ops" by (cases ops) auto
      have "operation_binding ` set ops = {operation_binding op}"
      proof (intro equalityI subsetI)
        fix x assume "x \<in> operation_binding ` set ops"
        then obtain y where "y \<in> set ops" "x = operation_binding y" by blast
        with same op show "x \<in> {operation_binding op}" by blast
      qed (use op in blast)
      then have "card (set ?bs) = 1" unfolding set_bs by simp
      moreover have "card (set ?bs) = length ?bs" by (rule distinct_card) simp
      ultimately show False using many by simp
    qed
    with many False missing show ?thesis by (simp add: recovery_snapshot_path_def)
  qed
qed

text \<open>A scan of one interrupted journal with a torn last line, evaluated.\<close>

definition sample_active :: directory where
  "sample_active =
     [(active_index_name, new_private_file 0 active_index_payload),
      (sample_name, new_private_file 0 (active_marker_payload sample_name sample_id))]"

definition sample_state :: recovery_state where
  "sample_state =
     \<lparr>rd_reports = [(sample_name, new_private_file 0 (sample_payload @ ''torn''))],
      rd_active = sample_active\<rparr>"

lemma sample_index: "active_index_present (re_owner_uid sample_env) (rd_active sample_state) = Inr True"
  by code_simp

lemma sample_markers:
  "read_active_markers sample_env (rd_active sample_state) = Inr [(sample_name, sample_id)]"
  by code_simp

lemma sample_summary:
  "\<exists>pj op. summarize_journal path sample_id [ev_started, ev_snapshot, ev_command] = Inr pj
     \<and> pj_operation_id pj = sample_id \<and> pj_operation pj = Some op \<and> pj_completion pj = None
     \<and> pj_recovery_operation_id pj = None"
proof -
  let ?es = "[ev_started, ev_snapshot, ev_command]"
  have "length (remdups (map event_binding (snapshots ?es))) = 1"
    "host_mutation_possible ?es" "completions ?es = []" "filter (event_is ''operation-recovered'') ?es = []"
    by code_simp+
  then show ?thesis by (simp add: summarize_journal_def Let_def last_opt_def)
qed

lemma sample_read:
  obtains pj op reports where
    "read_indexed sample_env (rd_reports sample_state) [(sample_name, sample_id)]
       = (Inr [(sample_name, pj)], reports)"
    "pj_operation pj = Some op" "pj_completion pj = None" "pj_recovery_operation_id pj = None"
    "pj_operation_id pj = sample_id"
proof -
  let ?p = "sample_payload @ ''torn''"
  have n: "trusted_length ?p = 6" by code_simp
  have lines: "splitlines (take 6 ?p) = [''0'', ''1'', ''2'']" by code_simp
  have loaded: "map_r (load_event (re_loads sample_env)) [''0'', ''1'', ''2'']
      = Inr [ev_started, ev_snapshot, ev_command]" by code_simp
  have last: "take 6 ?p \<noteq> [] \<and> cp (last (take 6 ?p)) = 10" by code_simp
  have valid: "validate_event_stream [ev_started, ev_snapshot, ev_command] = Inr sample_id"
    using sample_interrupted by (simp add: sample_events_def)
  have decode: "re_decode sample_env = Some" by (simp add: sample_env_def)
  have "read_private_journal (re_owner_uid sample_env) (rd_reports sample_state) sample_name = Inr (?p, 6)"
    by (simp add: read_private_journal_def sample_state_def new_private_file_def private_to_def
        sample_env_def n max_journal_bytes_def sample_payload_def [symmetric])
       (simp add: sample_payload_def)
  moreover obtain pj op where pj:
    "summarize_journal (journal_path sample_env sample_name) sample_id [ev_started, ev_snapshot, ev_command] = Inr pj"
    "pj_operation_id pj = sample_id" "pj_operation pj = Some op" "pj_completion pj = None"
    "pj_recovery_operation_id pj = None"
    using sample_summary by blast
  moreover have "parse_trusted sample_env sample_name (?p, 6) = Inr pj"
    using last
    by (simp add: parse_trusted_def parse_journal_def decode lines loaded valid pj(1)
        max_journal_events_def del: map_r.simps take_append)
  ultimately show thesis
    by (intro that [of pj "repair_torn sample_name (?p, 6) (rd_reports sample_state)" op]) simp_all
qed

lemma sample_scan:
  "\<exists>op st'. unresolved_operations sample_env (Some sample_state) = (Inr [op], Some st')"
proof (rule sample_read)
  fix pj op reports
  assume r: "read_indexed sample_env (rd_reports sample_state) [(sample_name, sample_id)]
       = (Inr [(sample_name, pj)], reports)"
    and pj: "pj_operation pj = Some op" "pj_completion pj = None" "pj_recovery_operation_id pj = None"
      "pj_operation_id pj = sample_id"
  then show ?thesis
    by (simp add: unresolved_operations_def bootstrap_active_index_def sample_index sample_markers
        completion_has_final_report_def terminal_journal_def journal_has_terminal_resolution_def
        max_recovery_journals_def)
qed

text \<open>C23. Every operation a scan reports as unresolved has its complete snapshot binding, so choosing
  the recovery snapshot cannot fail for a missing or partial one: it returns none exactly when
  there is no operation, else the one path they all name, and refuses only when two of them
  disagree.\<close>

theorem unresolved_operations_recoverable:
  assumes "unresolved_operations env (Some st) = (Inr ops, Some st')"
  shows "case recovery_snapshot_path ops of
      Inr None \<Rightarrow> ops = []
    | Inr (Some p) \<Rightarrow> ops \<noteq> [] \<and> (\<forall>op \<in> set ops. uo_snapshot_path op = Some p)
    | Inl e \<Rightarrow> e = AmbiguousSnapshot
        \<and> (\<exists>a \<in> set ops. \<exists>b \<in> set ops. operation_binding a \<noteq> operation_binding b)"
  using assms
proof (rule unresolved_operations_Inr)
  fix st1 markers indexed reports completed
  assume read: "read_indexed env (rd_reports st1) markers = (Inr indexed, reports)"
    and run: "resolve_indexed env completed indexed [] (rd_active st1) = (Inr ops, rd_active st')"
  have "\<exists>p i oid h. operation_binding op = (Some p, Some i, Some oid, Some h)" if "op \<in> set ops" for op
  proof -
    from that resolve_indexed_Inr [OF run] obtain name pj where pj: "(name, pj) \<in> set indexed"
      "still_open completed pj" "op = the (pj_operation pj)" by auto
    with read_indexed_parsed [OF read] obtain payload where
      "parse_journal (re_decode env) (re_loads env) (journal_path env name) payload = Inr pj" by blast
    from open_operation_bound [OF this pj(2)] pj(3) show ?thesis by auto
  qed
  then show ?thesis by (intro snapshot_path_bound) blast
qed

theorem unresolved_operations_recoverable_witness:
  "\<exists>op st'. unresolved_operations sample_env (Some sample_state) = (Inr [op], Some st')
     \<and> (\<exists>p. recovery_snapshot_path [op] = Inr (Some p) \<and> uo_snapshot_path op = Some p)"
proof -
  from sample_scan obtain op st' where
    scan: "unresolved_operations sample_env (Some sample_state) = (Inr [op], Some st')" by blast
  from unresolved_operations_recoverable [OF scan] scan show ?thesis
    by (auto split: sum.splits option.splits)
qed



end
