(* ===== verification/RollbackProps.thy ===== *)
theory RollbackProps
  imports RollbackCommands Samples
begin

text \<open>
  Properties of the rollback commands: the delta brings the host back to the snapshot, what
  the builder makes passes the allow-list, and what the allow-list passes cannot smuggle an
  option into a package manager.
\<close>

section \<open>The delta\<close>

abbreviation states :: "package_info list \<Rightarrow> package_identity set" where
  "states ps \<equiv> set (map package_state_identity (installed_packages ps))"

lemma slot_of_identity:
  "package_state_identity p = package_state_identity q \<Longrightarrow> package_slot p = package_slot q"
  by (simp add: package_state_identity_def package_slot_def)

text \<open>Installed packages that are not in the baseline and whose slot a restored package takes.\<close>

definition replaced_packages :: "package_info list \<Rightarrow> package_info list \<Rightarrow> package_info list" where
  "replaced_packages baseline current =
     filter (\<lambda>p. package_state_identity p \<notin> states baseline
         \<and> package_slot p \<in> set (map package_slot (packages_to_restore baseline current)))
       (installed_packages current)"

lemma set_packages_to_restore:
  "set (packages_to_restore baseline current)
     = {p \<in> set baseline. pi_installed p \<and> truthy (pi_version p) \<and> package_state_identity p \<notin> states current}"
  by (auto simp: packages_to_restore_def)

lemma set_added_packages:
  "p \<in> set (added_packages baseline current) \<longleftrightarrow>
     p \<in> set current \<and> pi_installed p \<and> package_state_identity p \<notin> states baseline
     \<and> (package_slot p \<notin> package_slot ` set (installed_packages baseline)
        \<or> (\<exists>q \<in> set (installed_packages current). package_state_identity q \<in> states baseline
              \<and> package_slot q = package_slot p))"
proof -
  have mem: "package_slot p \<in> set (map package_slot qs) \<longleftrightarrow> (\<exists>q \<in> set qs. package_slot q = package_slot p)" for qs
    by (auto simp: image_iff eq_commute)
  show ?thesis
    unfolding added_packages_def Let_def set_filter mem_Collect_eq mem
    by (auto simp: image_iff)
qed

lemma foreign_added_or_replaced:
  assumes "\<forall>p \<in> set (installed_packages baseline). truthy (pi_version p)"
    and "p \<in> set (installed_packages current)" and "package_state_identity p \<notin> states baseline"
  shows "p \<in> set (added_packages baseline current) \<or> p \<in> set (replaced_packages baseline current)"
proof (rule ccontr)
  assume "\<not> ?thesis"
  then have na: "p \<notin> set (added_packages baseline current)"
    and nr: "p \<notin> set (replaced_packages baseline current)" by auto
  from na assms(2,3) obtain b where b: "b \<in> set (installed_packages baseline)"
      "package_slot b = package_slot p"
      and none: "\<And>q. q \<in> set (installed_packages current) \<Longrightarrow> package_state_identity q \<in> states baseline
        \<Longrightarrow> package_slot q \<noteq> package_slot p"
    by (auto simp: set_added_packages installed_packages_def)
  have "package_state_identity b \<notin> states current"
  proof
    assume "package_state_identity b \<in> states current"
    then obtain q where "q \<in> set (installed_packages current)"
      "package_state_identity q = package_state_identity b" by auto
    with none [of q] b slot_of_identity [of q b] show False by auto
  qed
  with b(1) assms(1) have "b \<in> set (packages_to_restore baseline current)"
    by (auto simp: set_packages_to_restore installed_packages_def)
  with b(2) have "package_slot p \<in> set (map package_slot (packages_to_restore baseline current))"
    unfolding set_map by (intro image_eqI [of _ _ b]) simp_all
  with nr assms(2,3) show False by (auto simp: replaced_packages_def)
qed

lemma states_disjoint:
  assumes "\<And>p. p \<in> set ps \<Longrightarrow> package_state_identity p \<notin> S"
  shows "states ps \<inter> S = {}"
proof (intro equals0I)
  fix x assume "x \<in> states ps \<inter> S"
  then obtain p where "p \<in> set ps" "x = package_state_identity p" "x \<in> S"
    unfolding installed_packages_def by auto
  with assms show False by blast
qed

text \<open>C30. The package delta of a rollback is exact: taking the added packages off the host, and
  letting each restored package replace what its slot holds, leaves exactly the installed
  packages of the snapshot; nothing of the snapshot is removed and nothing present is restored.\<close>

theorem rollback_delta_exact:
  assumes "\<forall>p \<in> set (installed_packages baseline). truthy (pi_version p)"
  shows "(states current - states (added_packages baseline current)
          - states (replaced_packages baseline current))
      \<union> states (packages_to_restore baseline current) = states baseline
    \<and> states (added_packages baseline current) \<inter> states baseline = {}
    \<and> states (packages_to_restore baseline current) \<inter> states current = {}"
proof (intro conjI)
  show added: "states (added_packages baseline current) \<inter> states baseline = {}"
    by (rule states_disjoint) (unfold set_added_packages, blast)
  show "states (packages_to_restore baseline current) \<inter> states current = {}"
    by (rule states_disjoint) (unfold set_packages_to_restore, blast)
  have replaced: "states (replaced_packages baseline current) \<inter> states baseline = {}"
    by (rule states_disjoint) (unfold replaced_packages_def set_filter, blast)
  have "states current - states (added_packages baseline current)
          - states (replaced_packages baseline current) \<subseteq> states baseline"
  proof
    fix x
    assume x: "x \<in> states current - states (added_packages baseline current)
          - states (replaced_packages baseline current)"
    then obtain p where p: "p \<in> set (installed_packages current)" "x = package_state_identity p" by auto
    show "x \<in> states baseline"
    proof (rule ccontr)
      assume "x \<notin> states baseline"
      with foreign_added_or_replaced [OF assms p(1)] p x show False
        by (auto simp: installed_packages_def)
    qed
  qed
  moreover have "states (packages_to_restore baseline current) \<subseteq> states baseline"
    by (auto simp: installed_packages_def set_packages_to_restore)
  moreover have "x \<in> states current \<or> x \<in> states (packages_to_restore baseline current)"
    if "x \<in> states baseline" for x
    using that assms by (auto simp: installed_packages_def set_packages_to_restore)
  ultimately show "(states current - states (added_packages baseline current)
          - states (replaced_packages baseline current))
      \<union> states (packages_to_restore baseline current) = states baseline"
    using added replaced by blast
qed

definition deb :: "string \<Rightarrow> string \<Rightarrow> package_info" where
  "deb name version =
     \<lparr>pi_name = name, pi_version = Some version, pi_manager = Some ''apt'', pi_installed = True,
      pi_architecture = Some ''amd64'', pi_epoch = None\<rparr>"

theorem rollback_delta_exact_witness:
  "states (packages_to_restore [deb ''nvidia-open'' ''580''] [deb ''nvidia-open'' ''590''])
      \<inter> states [deb ''nvidia-open'' ''590''] = {}"
proof -
  have "\<forall>p \<in> set (installed_packages [deb ''nvidia-open'' ''580'']). truthy (pi_version p)"
    by (simp add: installed_packages_def deb_def truthy_def)
  from rollback_delta_exact [OF this, of "[deb ''nvidia-open'' ''590'']"] show ?thesis by blast
qed

section \<open>No drift\<close>

lemma same_states_empty:
  assumes "states baseline = states current"
  shows "packages_to_restore baseline current = []" "added_packages baseline current = []"
proof -
  have "set (packages_to_restore baseline current) = {}"
    using assms by (auto simp: set_packages_to_restore installed_packages_def)
  then show "packages_to_restore baseline current = []" by simp
  have "p \<notin> set (added_packages baseline current)" for p
  proof
    assume "p \<in> set (added_packages baseline current)"
    then have "package_state_identity p \<in> states current" "package_state_identity p \<notin> states baseline"
      by (auto simp: set_added_packages installed_packages_def)
    with assms show False by simp
  qed
  then show "added_packages baseline current = []" by (metis list.set_intros(1) neq_Nil_conv)
qed

lemma no_removal_specs [simp]: "package_removal_specs [] pm = []"
  by (simp add: package_removal_specs_def split: option.split)

lemma no_delta_no_commands:
  assumes "packages_to_restore (rs_packages snapshot) (ha_packages audit) = []"
    and "added_packages (rs_packages snapshot) (ha_packages audit) = []"
    and "rs_path snapshot = None \<longleftrightarrow> rs_package_payloads snapshot = None"
  shows "rollback_package_commands script snapshot (Some audit) = Inr []"
proof -
  have payloads: "\<exists>paths. local_payloads [] (rs_path snapshot) (rs_package_payloads snapshot) = Inr paths
      \<and> (paths = None \<or> paths = Some [])"
    using assms(3) by (cases "rs_path snapshot"; cases "rs_package_payloads snapshot")
      (auto simp: local_payloads_def)
  then obtain paths where p: "local_payloads [] (rs_path snapshot) (rs_package_payloads snapshot) = Inr paths"
    "paths = None \<or> paths = Some []" by blast
  from p(2) show ?thesis
    by (elim disjE; cases "rs_package_manager snapshot")
       (simp_all add: rollback_package_commands_def assms Let_def
         rollback_commands_def restorable_packages_def p(1) manager_specs_def
         dnf_rollback_commands_def remove_commands_def sorted_set_def)
qed

text \<open>When the host has exactly the installed packages of the snapshot, rollback issues no package
  command, for every package manager.\<close>

theorem no_drift_no_commands:
  assumes "states (rs_packages snapshot) = states (ha_packages audit)"
    and "rs_path snapshot = None \<longleftrightarrow> rs_package_payloads snapshot = None"
  shows "rollback_package_commands script snapshot (Some audit) = Inr []"
  by (rule no_delta_no_commands [OF same_states_empty [OF assms(1)] assms(2)])

definition sample_snapshot :: rollback_snapshot where
  "sample_snapshot =
     \<lparr>rs_path = None, rs_packages = [deb ''nvidia-open'' ''580''], rs_kernel = ''6.8.0-60-generic'',
      rs_module_version = None, rs_commands = [], rs_schema_version = ''2.6'',
      rs_created_at = '''', rs_operation_id = '''', rs_host_id = '''', rs_os_id = None,
      rs_os_version = None, rs_architecture = ''x86_64'', rs_package_manager = Some ''apt-get'',
      rs_introduced_packages = [], rs_module_loaded = True, rs_module_names = [],
      rs_module_open_module = None, rs_module_signed = None, rs_module_installed_version = None,
      rs_module_installed_open_module = None, rs_module_installed_signed = None,
      rs_mig_mode = Some ''disabled'', rs_docker_service_active = Some True,
      rs_docker_service_enabled = Some True, rs_docker_service_unit_file_state = Some ''enabled'',
      rs_docker_socket_active = Some True, rs_docker_socket_enabled = Some True,
      rs_docker_socket_unit_file_state = Some ''enabled'',
      rs_nvidia_persistenced_active = Some True, rs_nvidia_persistenced_enabled = Some True,
      rs_nvidia_persistenced_unit_file_state = Some ''enabled'',
      rs_fabric_manager_active = Some False, rs_fabric_manager_enabled = Some False,
      rs_fabric_manager_unit_file_state = Some ''not-found'', rs_managed_files = [],
      rs_package_payloads = None, rs_gpu_uuids = [''GPU-1''], rs_mig_geometry = [],
      rs_integrity_sha256 = None, rs_source_binding = None\<rparr>"

theorem no_drift_no_commands_witness:
  "rollback_package_commands ''s'' sample_snapshot
     (Some (sample_audit\<lparr>ha_packages := [deb ''nvidia-open'' ''580'']\<rparr>)) = Inr []"
  by (rule no_drift_no_commands) (simp_all add: sample_snapshot_def)

section \<open>The allow-list accepts what the builder makes\<close>

lemma split_on_nonempty [simp]: "split_on c s \<noteq> []"
  by (induction s) (auto split: list.splits)

lemma split_on_append: "split_on c (a @ c # b) = split_on c a @ split_on c b"
proof (induction a)
  case Nil
  then show ?case by simp
next
  case (Cons x a)
  then show ?case by (cases "split_on c a") (auto split: list.splits)
qed

lemma split_on_plain: "c \<notin> set s \<Longrightarrow> split_on c s = [s]"
  by (induction s) auto

lemma rpartition_at_split:
  assumes "c \<notin> set b"
  shows "rpartition_at c (a @ c # b) = (a, True, b)"
proof -
  have "partition_at c (xs @ c # ys) = (xs, True, ys)" if "c \<notin> set xs" for xs ys
    using that by (induction xs) auto
  from this [of "rev b" "rev a"] assms show ?thesis by (simp add: rpartition_at_def)
qed

text \<open>
  A snapshot file in a directory with a normal absolute path, and a bundle whose directory and
  file names are the ones the payload store gives.
\<close>

definition payload_bundle_for :: "string \<Rightarrow> string \<Rightarrow> package_payload_bundle \<Rightarrow> bool" where
  "payload_bundle_for extension snapshot_path bundle \<longleftrightarrow>
     (\<exists>parent base components. snapshot_path = parent @ ''/'' @ base \<and> CHR ''/'' \<notin> set base
        \<and> split_on CHR ''/'' parent = [] # components \<and> list_all plain_component components)
     \<and> plain_component (ppb_directory bundle) \<and> CHR ''/'' \<notin> set (ppb_directory bundle)
     \<and> endswith (ppb_directory bundle) ''.payloads''
     \<and> (\<forall>x \<in> set (ppb_packages bundle). payload_filename extension (pp_filename x))"

lemma payload_filename_plain:
  assumes "payload_filename extension name" and "CHR ''/'' \<notin> set extension"
  shows "plain_component name" "CHR ''/'' \<notin> set name"
proof -
  have split: "name = take 64 name @ drop 64 name" by simp
  have len: "length (take 64 name) = 64" and hex: "list_all is_hex (take 64 name)"
    and ext: "drop 64 name = ''.'' @ extension"
    using assms(1) unfolding payload_filename_def hex_of_length_def by blast+
  have "64 \<le> length name" using len by simp
  then show "plain_component name" by (auto simp: plain_component_def)
  have "CHR ''/'' \<notin> set (take 64 name)"
    using hex by (auto simp: list_all_iff is_hex_def is_digit_def cp_def)
  with ext assms(2) show "CHR ''/'' \<notin> set name" by (subst split) auto
qed

lemma payload_path_valid:
  assumes "payload_bundle_for extension path bundle" and "x \<in> set (ppb_packages bundle)"
    and "CHR ''/'' \<notin> set extension"
  shows "valid_local_payload_path extension (payload_path path (ppb_directory bundle) (pp_filename x))"
proof -
  obtain parent base components where p: "path = parent @ ''/'' @ base" "CHR ''/'' \<notin> set base"
      "split_on CHR ''/'' parent = [] # components" "list_all plain_component components"
    and d: "plain_component (ppb_directory bundle)" "CHR ''/'' \<notin> set (ppb_directory bundle)"
      "endswith (ppb_directory bundle) ''.payloads''"
    and f: "payload_filename extension (pp_filename x)"
    using assms(1,2) unfolding payload_bundle_for_def by blast
  note plain = payload_filename_plain [OF f assms(3)]
  have "payload_path path (ppb_directory bundle) (pp_filename x)
      = parent @ CHR ''/'' # ppb_directory bundle @ CHR ''/'' # pp_filename x"
    using rpartition_at_split [OF p(2), of parent] p(1) by (simp add: payload_path_def)
  then have "split_on CHR ''/'' (payload_path path (ppb_directory bundle) (pp_filename x))
      = [] # components @ [ppb_directory bundle, pp_filename x]"
    by (simp add: split_on_append split_on_plain p(3) d(2) plain(2))
  then show ?thesis
    using p(4) d f plain by (simp add: valid_local_payload_path_def)
qed

lemma map_of_value: "map_of xs k = Some v \<Longrightarrow> v \<in> snd ` set xs"
  by (metis image_eqI map_of_SomeD snd_conv)

lemma payload_of_bundle: "payload_of bundle p = Some x \<Longrightarrow> x \<in> set (ppb_packages bundle)"
  unfolding payload_of_def by (drule map_of_value) auto

lemma local_payloads_valid:
  assumes "local_payloads installed (Some path) (Some bundle) = Inr payloads"
    and "payload_bundle_for extension path bundle" and "CHR ''/'' \<notin> set extension"
  shows "\<exists>paths. payloads = Some paths \<and> length paths = length installed
    \<and> list_all (valid_local_payload_path extension) paths"
proof -
  from assms(1) obtain paths where paths: "map_r (local_payload bundle path) installed = Inr paths"
    "payloads = Some paths"
    by (auto simp: local_payloads_def bind_r_Inr_iff)
  have "list_all (valid_local_payload_path extension) ps"
    if "map_r (local_payload bundle path) ps' = Inr ps" for ps' ps
    using that
  proof (induction ps' arbitrary: ps)
    case (Cons p ps')
    then show ?case
      using payload_path_valid [OF assms(2) payload_of_bundle assms(3)]
      by (auto simp: bind_r_Inr_iff local_payload_def split: option.splits)
  qed simp
  with paths map_r_Inr_length [OF paths(1)] show ?thesis by simp
qed

lemma valid_path_start:
  assumes "valid_local_payload_path extension value"
  shows "\<exists>rest. value = CHR ''/'' # rest"
proof (cases "value")
  case Nil
  with assms show ?thesis by (simp add: valid_local_payload_path_def)
next
  case (Cons c rest)
  have "c = CHR ''/''"
  proof (rule ccontr)
    assume "c \<noteq> CHR ''/''"
    then have "hd (split_on CHR ''/'' value) \<noteq> []"
      unfolding Cons by (auto split: list.splits)
    with assms show False
      by (auto simp: valid_local_payload_path_def split: list.splits)
  qed
  with Cons show ?thesis by simp
qed

lemma valid_path_end:
  assumes "valid_local_payload_path extension value" and "extension \<noteq> []"
  shows "last value = last extension"
proof -
  obtain components filename parent pre where s: "split_on CHR ''/'' value = [] # components"
    "rev components = filename # parent # pre" "payload_filename extension filename"
    using assms(1) by (auto simp: valid_local_payload_path_def split: list.splits)
  have joined: "join [c] (split_on c t) = t" for c t
  proof (induction t)
    case (Cons x t)
    then show ?case by (cases "split_on c t"; cases "tl (split_on c t)") auto
  qed simp
  have ends: "xs \<noteq> [] \<Longrightarrow> \<exists>pre. join sep xs = pre @ last xs" for sep :: string and xs
  proof (induction sep xs rule: join.induct)
    case (3 sep x y xs)
    then obtain pre where "join sep (y # xs) = pre @ last (y # xs)" by blast
    then have "join sep (x # y # xs) = (x @ sep @ pre) @ last (x # y # xs)" by simp
    then show ?case by blast
  qed simp_all
  have suffix: "\<exists>pre. t = pre @ last (split_on c t)" for c t
    using ends [of "split_on c t" "[c]"] by (simp add: joined)
  have "last (split_on CHR ''/'' value) = filename"
    using s(1,2) by (metis last.simps last_rev list.sel(1) rev_is_Nil_conv rev_rev_ident list.distinct(1))
  with suffix [of "value" "CHR ''/''"] obtain pre where "value = pre @ filename" by metis
  moreover have "filename = take 64 filename @ ''.'' @ extension"
    using s(3) unfolding payload_filename_def by (metis append_take_drop_id)
  ultimately have "value = (pre @ take 64 filename @ ''.'') @ extension" by simp
  then show ?thesis using assms(2) by (metis last_appendR)
qed

lemma valid_spec_start:
  assumes "valid_package_spec spec"
  shows "\<exists>c cs. spec = c # cs \<and> is_alnum c"
proof -
  have core: "\<exists>c cs. s = c # cs \<and> is_alnum c"
    if "case partition_at CHR ''='' s of (name, found, version) \<Rightarrow>
          spec_word is_spec_char name \<and> (found \<longrightarrow> spec_word is_version_char version)" for s
    using that
    by (cases s) (auto simp: spec_word_def split: prod.splits if_splits list.splits)
  from assms core [of spec] core [of "butlast spec"] show ?thesis
    by (cases spec) (auto simp: valid_package_spec_def match_dollar_def split: if_splits)
qed

lemma spec_not_dashed: "valid_package_spec spec \<Longrightarrow> \<not> startswith spec ''-''"
  by (simp add: valid_package_spec_def)

lemma endswith_last: "endswith s [c] \<longleftrightarrow> s \<noteq> [] \<and> last s = c"
  by (cases s rule: rev_cases) (auto simp: endswith_def startswith_def)

lemma startswith_hd: "startswith s [c] \<longleftrightarrow> s \<noteq> [] \<and> hd s = c"
  by (cases s) (auto simp: startswith_def)

lemma apt_command_allowed:
  assumes "list_all (valid_local_payload_path ''deb'') paths" and "list_all valid_package_spec removals"
    and "paths @ removals \<noteq> []"
  shows "allowed_rollback_command script (apt_install_prefix @ paths @ map (\<lambda>p. p @ ''-'') removals)"
proof -
  have path: "\<not> endswith p ''-''" if "p \<in> set paths" for p
    using that assms(1) valid_path_end [of "''deb''" p] by (auto simp: list_all_iff endswith_last)
  show ?thesis
    using assms path
    by (simp add: allowed_rollback_command_def apt_install_prefix_def)
       (auto simp: list_all_iff endswith_last)
qed

lemma zypper_command_allowed:
  assumes "list_all (valid_local_payload_path ''rpm'') paths" and "list_all valid_package_spec removals"
    and "paths @ removals \<noteq> []"
  shows "allowed_rollback_command script
    (zypper_install_prefix @ [''--''] @ paths @ map (\<lambda>p. ''-'' @ p) removals)"
proof -
  have path: "\<not> startswith p ''-''" if "p \<in> set paths" for p
    using that assms(1) valid_path_start [of "''rpm''" p] by (auto simp: list_all_iff startswith_def)
  show ?thesis
    using assms path
    by (simp add: allowed_rollback_command_def zypper_install_prefix_def apt_install_prefix_def
        is_rpm_manager_def)
       (auto simp: list_all_iff startswith_hd Suc_le_eq)
qed

lemma cut_at_first: "marker \<notin> set xs \<Longrightarrow> cut_at marker (xs @ marker # ys) = Some (xs, ys)"
proof -
  assume fresh: "marker \<notin> set xs"
  then have "takeWhile (\<lambda>x. x \<noteq> marker) (xs @ marker # ys) = xs"
    "dropWhile (\<lambda>x. x \<noteq> marker) (xs @ marker # ys) = marker # ys"
    by (induction xs) auto
  then show ?thesis by (simp add: cut_at_def)
qed

lemma dnf_transaction_allowed:
  assumes "list_all (valid_local_payload_path ''rpm'') paths" "distinct paths"
    and "list_all valid_package_spec removals" "distinct removals"
    and "list_all valid_package_spec installs" "distinct installs"
    and "list_all valid_package_spec expected" "distinct expected"
    and "length paths = length installs" and "paths \<noteq> [] \<or> removals \<noteq> []"
    and "script \<notin> {''--remove'', ''--expect-install'', ''--expect-remove''}"
  shows "allowed_rollback_command script
    (dnf_local_transaction_command script True paths removals installs expected)"
proof -
  have path: "m \<notin> set paths" if "hd m = CHR ''-''" for m
    using assms(1) valid_path_start [of "''rpm''" m] that by (auto simp: list_all_iff)
  have spec: "m \<notin> set xs" if "list_all valid_package_spec xs" "hd m = CHR ''-''" for m xs
  proof
    assume "m \<in> set xs"
    with that(1) have "valid_package_spec m" by (simp add: list_all_iff)
    from valid_spec_start [OF this] that(2) show False
      by (auto simp: is_alnum_def is_lower_def is_upper_def is_digit_def cp_def)
  qed
  have count: "count_list xs m = 0" if "m \<notin> set xs" for xs and m :: string
    using that by (induction xs) auto
  have app: "count_list (xs @ ys) m = count_list xs m + count_list ys m" for xs ys and m :: string
    by (induction xs) auto
  note fresh = path spec [OF assms(3)] spec [OF assms(5)] spec [OF assms(7)]
  show ?thesis
    using assms
    by (simp add: allowed_rollback_command_def dnf_local_transaction_command_def
        allowed_dnf_transaction_def cut_at_first fresh app count valid_package_specs_def)
qed

text \<open>What a DNF transaction needs of the two expected package lists.\<close>

definition rpm_transaction_inputs ::
  "package_info list \<Rightarrow> package_payload_bundle \<Rightarrow> string list \<Rightarrow> string list option
   \<Rightarrow> string list option \<Rightarrow> bool" where
  "rpm_transaction_inputs packages bundle removals installs expected \<longleftrightarrow>
     (let chosen = restorable_packages packages;
          installs' = (case installs of Some xs \<Rightarrow> xs
            | None \<Rightarrow> map rpm_package_spec (filter (\<lambda>p. pi_manager p = Some ''rpm'') chosen));
          expected' = (case expected of Some xs \<Rightarrow> xs | None \<Rightarrow> sorted_set removals)
      in distinct (map (\<lambda>p. map_option pp_filename (payload_of bundle p)) chosen)
         \<and> length installs' = length chosen
         \<and> list_all valid_package_spec installs' \<and> distinct installs'
         \<and> list_all valid_package_spec expected' \<and> distinct expected')"

lemma payload_path_filename:
  "payload_path path directory f = payload_path path directory g \<longleftrightarrow> f = g"
  by (auto simp: payload_path_def split: prod.splits bool.splits)

lemma local_payloads_distinct:
  assumes "local_payloads installed (Some path) (Some bundle) = Inr (Some paths)"
    and "distinct (map (\<lambda>p. map_option pp_filename (payload_of bundle p)) installed)"
  shows "distinct paths"
proof -
  have "set ps = (\<lambda>f. payload_path path (ppb_directory bundle) f) ` {f. Some f \<in> set (map (\<lambda>p. map_option pp_filename (payload_of bundle p)) ps')}
      \<and> distinct ps"
    if "map_r (local_payload bundle path) ps' = Inr ps"
      "distinct (map (\<lambda>p. map_option pp_filename (payload_of bundle p)) ps')" for ps' ps
    using that
  proof (induction ps' arbitrary: ps)
    case Nil
    then show ?case by simp
  next
    case (Cons p ps')
    from Cons.prems(1) obtain y qs where y: "local_payload bundle path p = Inr y"
      "map_r (local_payload bundle path) ps' = Inr qs" "ps = y # qs"
      by (auto simp: bind_r_Inr_iff)
    from y(1) obtain x' where "payload_of bundle p = Some x'"
      "y = payload_path path (ppb_directory bundle) (pp_filename x')"
      by (auto simp: local_payload_def split: option.splits)
    with y obtain x where x: "payload_of bundle p = Some x"
      "map_r (local_payload bundle path) ps' = Inr qs"
      "ps = payload_path path (ppb_directory bundle) (pp_filename x) # qs" by blast
    from Cons.IH [OF x(2)] Cons.prems(2) have IH: "set qs = (\<lambda>f. payload_path path (ppb_directory bundle) f) `
        {f. Some f \<in> set (map (\<lambda>p. map_option pp_filename (payload_of bundle p)) ps')}" "distinct qs"
      by simp_all
    from Cons.prems(2) x(1) have "Some (pp_filename x) \<notin> set (map (\<lambda>p. map_option pp_filename (payload_of bundle p)) ps')"
      by simp
    with IH x(1,3) show ?case by (auto simp: payload_path_filename)
  qed
  moreover from assms(1) have "map_r (local_payload bundle path) installed = Inr paths"
    by (auto simp: local_payloads_def bind_r_Inr_iff)
  ultimately show ?thesis using assms(2) by blast
qed

text \<open>The DNF case: one transaction, or none when nothing is restored or removed.\<close>

lemma dnf_commands_allowed:
  assumes "dnf_rollback_commands script m (restorable_packages packages) (Some paths) removals exact
      installs expected = Inr commands"
    and "list_all (valid_local_payload_path ''rpm'') paths" "distinct paths"
    and "length paths = length (restorable_packages packages)"
    and "list_all valid_package_spec removals" "distinct removals" "sorted removals"
    and "removals = sorted_set asked" "rpm_transaction_inputs packages bundle asked installs expected"
    and "script \<notin> {''--remove'', ''--expect-install'', ''--expect-remove''}"
  shows "list_all (allowed_rollback_command script) commands"
proof -
  let ?chosen = "restorable_packages packages"
  let ?installs = "case installs of Some xs \<Rightarrow> xs
    | None \<Rightarrow> map rpm_package_spec (filter (\<lambda>p. pi_manager p = Some ''rpm'') ?chosen)"
  let ?expected = "case expected of Some xs \<Rightarrow> xs | None \<Rightarrow> removals"
  have inputs: "length ?installs = length ?chosen" "list_all valid_package_spec ?installs"
    "distinct ?installs" "list_all valid_package_spec ?expected" "distinct ?expected"
    using assms(8,9) unfolding rpm_transaction_inputs_def Let_def by blast+
  have "commands = (if paths \<noteq> [] \<or> removals \<noteq> []
      then [dnf_local_transaction_command script True paths removals (sort ?installs) (sort ?expected)]
      else [])"
    using assms(1) by (auto simp: dnf_rollback_commands_def manager_specs_def Let_def)
  moreover have "allowed_rollback_command script
      (dnf_local_transaction_command script True paths removals (sort ?installs) (sort ?expected))"
    if "paths \<noteq> [] \<or> removals \<noteq> []"
    using assms inputs that by (intro dnf_transaction_allowed) (auto simp: list_all_iff)
  ultimately show ?thesis by simp
qed


definition sample_filename :: string where
  "sample_filename = replicate 64 CHR ''a'' @ ''.deb''"

definition sample_payload_of :: "package_info \<Rightarrow> string \<Rightarrow> package_payload" where
  "sample_payload_of p filename =
     \<lparr>pp_name = pi_name p, pp_architecture = or_empty (pi_architecture p), pp_epoch = pi_epoch p,
      pp_version = or_empty (pi_version p), pp_format = ''deb'', pp_filename = filename,
      pp_sha256 = replicate 64 CHR ''a'', pp_size_bytes = 1, pp_verification = [],
      pp_roles = [''baseline''], pp_signer_ids = []\<rparr>"

definition sample_bundle :: "package_info \<Rightarrow> string \<Rightarrow> package_payload_bundle" where
  "sample_bundle p filename =
     \<lparr>ppb_directory = ''s.payloads'', ppb_packages = [sample_payload_of p filename],
      ppb_total_size_bytes = 1\<rparr>"

definition sample_apt_commands :: "rollback_error + string list list" where
  "sample_apt_commands =
     rollback_commands ''s'' [deb ''nvidia-open'' ''580''] (Some ''apt-get'') [''docker-ce''] False
       (Some ''/var/lib/s.json'') (Some (sample_bundle (deb ''nvidia-open'' ''580'') sample_filename))
       None None"


section \<open>What the allow-list excludes\<close>

definition transaction_markers :: "string list" where
  "transaction_markers = [''--remove'', ''--expect-install'', ''--expect-remove'']"

text \<open>An operand a package manager cannot read as an option.\<close>

definition inert_operand :: "string \<Rightarrow> bool" where
  "inert_operand s \<longleftrightarrow> (case s of [] \<Rightarrow> False | c # _ \<Rightarrow> c = CHR ''/'' \<or> is_alnum c)"

definition rpm_prefixes :: "string list \<Rightarrow> string list list" where
  "rpm_prefixes flags =
     [''dnf'' # [''--disablerepo=*'', ''--disableplugin=versionlock'', ''--noautoremove''] @ flags,
      ''yum'' # [''--disablerepo=*'', ''--disableplugin=versionlock'', ''--noautoremove''] @ flags]"

lemma inert_path: "valid_local_payload_path extension s \<Longrightarrow> inert_operand s"
  using valid_path_start [of extension s] by (auto simp: inert_operand_def)

lemma inert_spec: "valid_package_spec s \<Longrightarrow> inert_operand s"
  using valid_spec_start [of s] by (auto simp: inert_operand_def)

lemma cut_at_Some:
  "cut_at marker xs = Some (a, b) \<Longrightarrow> xs = a @ marker # b"
proof (induction xs arbitrary: a)
  case (Cons x xs)
  show ?case
  proof (cases "x = marker")
    case False
    with Cons.prems have "cut_at marker xs = Some (tl a, b)" "a = x # tl a"
      by (auto simp: cut_at_def split: if_splits)
    with Cons.IH [of "tl a"] show ?thesis by (metis append_Cons)
  qed (use Cons.prems in \<open>simp add: cut_at_def\<close>)
qed (simp add: cut_at_def)

lemma allowed_dnf_operands:
  assumes "allowed_dnf_transaction command" and "x \<in> set (drop 5 command)"
  shows "x \<in> set transaction_markers \<or> inert_operand x"
proof -
  from assms(1) obtain r rest m rest' i e where cuts: "cut_at ''--remove'' (drop 5 command) = Some (r, rest)"
      "cut_at ''--expect-install'' rest = Some (m, rest')" "cut_at ''--expect-remove'' rest' = Some (i, e)"
    and ok: "list_all (valid_local_payload_path ''rpm'') r"
      "m = [] \<or> valid_package_specs m" "i = [] \<or> valid_package_specs i" "e = [] \<or> valid_package_specs e"
  proof -
    from assms(1) obtain r rest where c1: "cut_at ''--remove'' (drop 5 command) = Some (r, rest)"
      unfolding allowed_dnf_transaction_def by (auto split: option.splits)
    from assms(1) obtain m rest' where c2: "cut_at ''--expect-install'' rest = Some (m, rest')"
      unfolding allowed_dnf_transaction_def c1 by (auto split: option.splits)
    from assms(1) obtain i e where c3: "cut_at ''--expect-remove'' rest' = Some (i, e)"
      unfolding allowed_dnf_transaction_def c1 by (auto simp: c2 split: option.splits)
    from assms(1) show thesis
      unfolding allowed_dnf_transaction_def by (intro that [OF c1 c2 c3]) (simp_all add: c1 c2 c3)
  qed
  have "drop 5 command = r @ ''--remove'' # m @ ''--expect-install'' # i @ ''--expect-remove'' # e"
    using cut_at_Some [OF cuts(1)] cut_at_Some [OF cuts(2)] cut_at_Some [OF cuts(3)] by simp
  with assms(2) ok show ?thesis
    by (auto simp: transaction_markers_def list_all_iff valid_package_specs_def dest: inert_path inert_spec)
qed

lemma rpm_prefix_take:
  assumes "is_rpm_manager command" and "take (Suc (Suc n)) (drop 1 command) = ''--disablerepo=*'' # flags"
  shows "take (Suc (Suc (Suc n))) command \<in> {''dnf'' # ''--disablerepo=*'' # flags, ''yum'' # ''--disablerepo=*'' # flags}"
  using assms by (cases command) (auto simp: is_rpm_manager_def)

text \<open>The operand checks of the APT and Zypper forms, and the six forms of the allow-list.\<close>

lemma apt_operand_inert:
  assumes "if endswith x ''-'' then valid_package_spec (butlast x) else valid_local_payload_path ''deb'' x"
  shows "inert_operand x"
proof (cases "endswith x ''-''")
  case True
  with assms have "inert_operand (butlast x)" by (auto intro: inert_spec)
  then show ?thesis by (cases x) (auto simp: inert_operand_def split: if_splits)
next
  case False
  with assms show ?thesis by (simp add: inert_path)
qed

lemma zypper_operand_inert:
  assumes "if startswith x ''-'' then valid_package_spec (drop 1 x) else valid_local_payload_path ''rpm'' x"
  shows "inert_operand x \<or> (\<exists>spec. x = CHR ''-'' # spec \<and> inert_operand spec)"
proof (cases "startswith x ''-''")
  case True
  with assms have "inert_operand (drop 1 x)" by (simp add: inert_spec)
  with True show ?thesis by (cases x) (auto simp: startswith_def)
next
  case False
  with assms show ?thesis by (simp add: inert_path)
qed

lemma valid_specs_inert: "valid_package_specs specs \<Longrightarrow> x \<in> set specs \<Longrightarrow> inert_operand x"
  by (auto simp: valid_package_specs_def list_all_iff intro: inert_spec)

lemma allowed_command_forms:
  assumes "allowed_rollback_command script command"
  obtains
    (dnf) "take 5 command = [''python3'', ''-I'', ''-c'', script, ''--apply'']"
      "\<And>x. x \<in> set (drop 5 command) \<Longrightarrow> x \<in> set transaction_markers \<or> inert_operand x"
  | (apt) "take 8 command = apt_install_prefix" "\<And>x. x \<in> set (drop 8 command) \<Longrightarrow> inert_operand x"
  | (rpm) n flags where "take n command \<in> set (rpm_prefixes flags)"
      "flags \<in> {[''--setopt=localpkg_gpgcheck=1'', ''install'', ''-y''], [''remove-nevra'', ''-y''],
         [''remove-n'', ''-y'']}" "\<And>x. x \<in> set (drop n command) \<Longrightarrow> inert_operand x"
  | (zypper) "take 9 command = zypper_install_prefix @ [''--'']"
      "\<And>x. x \<in> set (drop 9 command) \<Longrightarrow> inert_operand x \<or> (\<exists>spec. x = CHR ''-'' # spec \<and> inert_operand spec)"
proof -
  note run = assms [unfolded allowed_rollback_command_def]
  consider
      "take 5 command = [''python3'', ''-I'', ''-c'', script, ''--apply'']" "allowed_dnf_transaction command"
    | "take 8 command = apt_install_prefix"
        "list_all (\<lambda>operand. if endswith operand ''-'' then valid_package_spec (butlast operand)
           else valid_local_payload_path ''deb'' operand) (drop 8 command)"
    | "is_rpm_manager command" "take 6 (drop 1 command) =
           [''--disablerepo=*'', ''--disableplugin=versionlock'', ''--noautoremove'',
            ''--setopt=localpkg_gpgcheck=1'', ''install'', ''-y'']"
        "list_all (valid_local_payload_path ''rpm'') (drop 7 command)"
    | "is_rpm_manager command" "take 5 (drop 1 command) =
           [''--disablerepo=*'', ''--disableplugin=versionlock'', ''--noautoremove'',
            ''remove-nevra'', ''-y'']" "valid_package_specs (drop 6 command)"
    | "is_rpm_manager command" "take 5 (drop 1 command) =
           [''--disablerepo=*'', ''--disableplugin=versionlock'', ''--noautoremove'',
            ''remove-n'', ''-y'']" "valid_package_specs (drop 6 command)"
    | "take 8 command = zypper_install_prefix" "take 1 (drop 8 command) = [''--'']"
        "list_all (\<lambda>operand. if startswith operand ''-'' then valid_package_spec (drop 1 operand)
           else valid_local_payload_path ''rpm'' operand) (drop 9 command)"
    using run by (simp only: split: if_splits)
  then show thesis
  proof cases
    case 1
    then show thesis using allowed_dnf_operands by (intro dnf) blast+
  next
    case 2
    then show thesis unfolding list_all_iff by (intro apt) (blast intro: apt_operand_inert)+
  next
    case 3
    then show thesis using rpm_prefix_take [OF 3(1), of 4]
      by (intro rpm [of 7 "[''--setopt=localpkg_gpgcheck=1'', ''install'', ''-y'']"])
         (auto simp: rpm_prefixes_def numeral_eq_Suc list_all_iff intro: inert_path)
  next
    case 4
    then show thesis using rpm_prefix_take [OF 4(1), of 3]
      by (intro rpm [of 6 "[''remove-nevra'', ''-y'']"])
         (auto simp: rpm_prefixes_def numeral_eq_Suc intro: valid_specs_inert)
  next
    case 5
    then show thesis using rpm_prefix_take [OF 5(1), of 3]
      by (intro rpm [of 6 "[''remove-n'', ''-y'']"])
         (auto simp: rpm_prefixes_def numeral_eq_Suc intro: valid_specs_inert)
  next
    case 6
    then have "take 9 command = zypper_install_prefix @ [''--'']"
      using take_add [of 8 1 command] by simp
    moreover have "inert_operand x \<or> (\<exists>spec. x = CHR ''-'' # spec \<and> inert_operand spec)"
      if "x \<in> set (drop 9 command)" for x
      by (rule zypper_operand_inert) (use that 6(3) in \<open>unfold list_all_iff, blast\<close>)
    ultimately show thesis by (rule zypper)
  qed
qed



text \<open>The allow-list refuses version texts the builder makes: an RPM version with a tilde puts a
  tilde into the name part of the DNF specs, so the transaction built for that baseline is not
  allowed (a snapshot holding it cannot be loaded).  And it accepts a spec with a trailing line
  feed.\<close>

definition tilde_package :: package_info where
  "tilde_package =
     \<lparr>pi_name = ''nvidia-container-toolkit'', pi_version = Some ''1.17.0~rc.1-1'',
      pi_manager = Some ''rpm'', pi_installed = True, pi_architecture = Some ''x86_64'', pi_epoch = None\<rparr>"

theorem tilde_version_refused:
  "(\<exists>command. rollback_commands ''s'' [tilde_package] (Some ''dnf'') [] False (Some ''/var/lib/s.json'')
        (Some (sample_bundle tilde_package (replicate 64 CHR ''a'' @ ''.rpm''))) None None = Inr [command]
      \<and> \<not> allowed_rollback_command ''s'' command)
   \<and> valid_package_spec [CHR ''m'', CHR ''a'', CHR ''k'', CHR ''e'', CHR 0x0A]"
proof (intro conjI exI)
  show "rollback_commands ''s'' [tilde_package] (Some ''dnf'') [] False (Some ''/var/lib/s.json'')
        (Some (sample_bundle tilde_package (replicate 64 CHR ''a'' @ ''.rpm''))) None None
      = Inr [dnf_local_transaction_command ''s'' True
          [''/var/lib/s.payloads/'' @ replicate 64 CHR ''a'' @ ''.rpm''] []
          [''nvidia-container-toolkit-1.17.0~rc.1-1.x86_64''] []]" by code_simp
  show "\<not> allowed_rollback_command ''s'' (dnf_local_transaction_command ''s'' True
          [''/var/lib/s.payloads/'' @ replicate 64 CHR ''a'' @ ''.rpm''] []
          [''nvidia-container-toolkit-1.17.0~rc.1-1.x86_64''] [])" by code_simp
  show "valid_package_spec [CHR ''m'', CHR ''a'', CHR ''k'', CHR ''e'', CHR 0x0A]" by code_simp
qed

end
