(* ===== verification/RollbackTheorems.thy ===== *)
theory RollbackTheorems
  imports RollbackSafety RollbackSample
begin

text \<open>
  What the accepted traces of a rollback mean for its events, and the two rollbacks that change
  nothing: the one that is not applied, and the one that is refused.
\<close>

section \<open>The accepted trace\<close>

lemma rollback_trace:
  assumes "\<And>es p. run_protocol protocol_start es = Some p \<Longrightarrow> Q es"
  shows "emits (apply_rollback H snapshot current enablement activity) (\<lambda>_ es. Q es)"
proof (rule emits_weaken [OF follows_accepted [OF follows_apply_rollback]])
  show "Q es" if "accepted es" for es
    using that assms by (auto simp: accepted_def)
qed

lemma protocol_start_simps [simp]:
  "pt_quarantined protocol_start = []" "pt_failed protocol_start = None"
  by (simp_all add: protocol_start_def)

text \<open>Every change carried out finds every launcher proved masked and inactive; \<open>qs\<close> are the units
  proved so before the events.\<close>

fun changes_quarantined :: "string list \<Rightarrow> runner_event list \<Rightarrow> bool" where
  "changes_quarantined qs [] = True"
| "changes_quarantined qs (e # es) =
     ((case e of
         Finished r True \<Rightarrow>
           mutation_phase (cr_command r) = None \<or> cr_skipped r \<or> list_all (\<lambda>u. u \<in> set qs) service_stop_order
       | _ \<Rightarrow> True)
      \<and> changes_quarantined (quarantine_after qs [e]) es)"

lemma accepted_changes_quarantined:
  "run_protocol p es = Some p' \<Longrightarrow> changes_quarantined (pt_quarantined p) es"
proof (induction es arbitrary: p)
  case (Cons e es)
  from Cons.prems obtain q where q: "protocol_step p e = Some q" "run_protocol q es = Some p'"
    by (rule run_protocol_Cons)
  from q(1) have "pt_quarantined q = quarantine_after (pt_quarantined p) [e]"
    using run_quarantine [of p "[e]" q] by simp
  with q(1) Cons.IH [OF q(2)] show ?case
    by (auto simp: launchers_quarantined_def split: runner_event.splits bool.splits if_splits)
qed simp

text \<open>C6. In every rollback a change of packages, files, modules or MIG that is carried out is made
  while the latest observation of each of the four launchers proves it masked and inactive and no
  launcher has been unmasked, started or enabled since.\<close>

theorem rollback_changes_quarantined:
  "emits (apply_rollback H snapshot current enablement activity) (\<lambda>_ es. changes_quarantined [] es)"
  by (rule rollback_trace) (drule accepted_changes_quarantined, simp)

text \<open>The changes of a rollback are begun in the order packages, managed files, kernel modules, MIG.\<close>

theorem rollback_phases_sorted:
  "emits (apply_rollback H snapshot current enablement activity) (\<lambda>_ es. sorted (phases_begun es))"
  by (rule rollback_trace) (drule sorted_phases, simp)


section \<open>A rollback that is not applied\<close>

text \<open>It announces its changes and skips them: it neither observes nor changes the world.\<close>

fun dry_event :: "runner_event \<Rightarrow> bool" where
  "dry_event (Started c m) = m"
| "dry_event (Finished r m) = (m \<and> cr_skipped r)"

named_theorems dry_intros "actions that run nothing"

definition dry :: "(('w, 'z) session_scheme, 'a) state \<Rightarrow> bool" where
  "dry m \<longleftrightarrow> emits m (\<lambda>_ es. list_all dry_event es) \<and> (\<forall>s. se_world (snd (run_state m s)) = se_world s)"

lemma dry_bind [dry_intros]: "dry m \<Longrightarrow> (\<And>a. dry (f a)) \<Longrightarrow> dry (State_Monad.bind m f)"
  unfolding dry_def by (auto intro!: emits_bind elim!: emits_weaken split: prod.splits) (metis snd_conv)

lemma dry_basic [dry_intros]:
  "dry (give a)" "dry (asks f)" "dry (record_external_start c True)"
  unfolding dry_def by (auto intro!: emits_intros)

lemma dry_result [dry_intros]: "cr_skipped r \<Longrightarrow> dry (record_external_result r True)"
  unfolding dry_def by (auto intro!: emits_intros)

lemma dry_cases [dry_intros]:
  "(b \<Longrightarrow> dry m) \<Longrightarrow> (\<not> b \<Longrightarrow> dry n) \<Longrightarrow> dry (if b then m else n)"
  "dry (f x) \<Longrightarrow> dry (Let x f)"
  "dry m \<Longrightarrow> (\<And>a. dry (g a)) \<Longrightarrow> dry (case y of None \<Rightarrow> m | Some a \<Rightarrow> g a)"
  "(\<And>e. dry (h e)) \<Longrightarrow> (\<And>a. dry (k a)) \<Longrightarrow> dry (case z of Inl e \<Rightarrow> h e | Inr a \<Rightarrow> k a)"
  "(\<And>a b. dry (l a b)) \<Longrightarrow> dry (case c of (a, b) \<Rightarrow> l a b)"
  by (simp_all split: option.splits sum.splits prod.splits)

lemma dry_proceed [dry_intros]: "dry m \<Longrightarrow> (\<And>a. dry (f a)) \<Longrightarrow> dry (proceed m f)"
  unfolding proceed_def by (intro dry_intros) (simp_all split: flow.splits add: dry_basic)

lemma dry_run_program:
  "\<not> ru_apply R \<Longrightarrow> dry (run_program R timeout True input program args)"
  unfolding run_program_def by (simp, intro dry_intros) (simp add: skipped_result_def)

lemma dry_run_command [dry_intros]: "\<not> ru_apply R \<Longrightarrow> dry (run_command R True allow None c)"
  unfolding run_command_def run_within_def
  by (cases c) (auto intro!: dry_intros dry_run_program simp: skipped_result_def)

lemma dry_systemctl [dry_intros]: "\<not> ru_apply R \<Longrightarrow> dry (systemctl R verbs u)"
  unfolding systemctl_def run_known_def by (rule dry_run_program)

lemma dry_run_mutations [dry_intros]: "\<not> ru_apply R \<Longrightarrow> dry (run_mutations R cs results)"
  by (induction cs arbitrary: results) (auto intro!: dry_intros)

lemma dry_quiesce [dry_intros]: "\<not> ru_apply H \<Longrightarrow> dry (quiesce_units H units us results)"
  by (induction units arbitrary: us results)
    (auto simp: quiesce_unit_def dry_stop_def intro!: dry_intros)

lemma dry_restore_file [dry_intros]:
  assumes "\<not> ru_apply H"
  shows "dry (restore_managed_file H f)"
  unfolding restore_managed_file_def
  by (intro dry_bind [of "asks f" for f] dry_bind [of "record_external_start c m" for c m] dry_basic)
    (auto simp: assms skipped_result_def intro!: dry_intros)

lemma dry_restore_files [dry_intros]: "\<not> ru_apply H \<Longrightarrow> dry (restore_files H fs)"
  by (induction fs) (auto intro!: dry_intros)

lemma dry_mutation [dry_intros]:
  "\<not> ru_apply H \<Longrightarrow> dry (launcher_mutation H u allow verbs)"
  "\<not> ru_apply H \<Longrightarrow> dry (unmask_launcher H u target)"
  unfolding launcher_mutation_def unmask_launcher_def validate_launcher_mutation_def
  by (auto intro!: dry_intros)

lemma dry_unit_pass [dry_intros]:
  "(\<And>u us. dry (step u us)) \<Longrightarrow> dry (unit_pass step update units us results)"
  by (induction units arbitrary: us results) (auto simp: extend_or_return_def intro!: dry_intros)

lemma dry_service_stage [dry_intros]:
  "\<not> ru_apply H \<Longrightarrow> dry (service_stage H snapshot enablement activity us results)"
  unfolding service_stage_def prepare_pass_def activity_pass_def enablement_pass_def activity_step_def
    prepare_service_for_activity_def restore_service_activity_def restore_service_unit_file_state_def Let_def
  by (intro dry_intros)

lemma dry_mig_stage [dry_intros]: "\<not> ru_apply H \<Longrightarrow> dry (mig_stage H snapshot current plan results)"
proof -
  assume no: "\<not> ru_apply H"
  then have refresh: "dry (refresh_stage H snapshot stage view rs)" for stage view rs
    by (simp add: refresh_stage_def dry_basic)
  have destroy: "dry (destroy_stage H snapshot cs view rs)" for cs view rs
    using no by (induction cs arbitrary: view rs) (auto intro!: dry_intros refresh)
  have "dry (mig_restore_stage H snapshot reset view rs)" for reset view rs
    unfolding mig_restore_stage_def mode_stage_def create_stage_def
    using no by (auto split: list.splits intro!: dry_intros refresh destroy)
  with no refresh show ?thesis
    unfolding mig_stage_def Let_def by (intro dry_intros) simp_all
qed

lemma dry_apply_rollback:
  assumes "\<not> ru_apply H"
  shows "dry (apply_rollback H snapshot current enablement activity)"
proof -
  have gates: "dry (initial_gates H snapshot current)" "dry (current_modules H snapshot current)"
    "dry (state_gates H snapshot current restore)" "dry (mig_gates snapshot plan)"
    "dry (service_gates H snapshot current plan results)" for restore plan results
    using assms unfolding initial_gates_def current_modules_def state_gates_def mig_gates_def
      service_gates_def refuse_if_give
    by (auto intro!: dry_intros)
  have "dry (perform_rollback H snapshot current enablement activity plan results)" for plan results
    using assms unfolding perform_rollback_def check_payloads_def restore_stage_def restore_managed_files_def
      second_look_def module_stage_def extend_or_return_def
    by (auto intro!: dry_intros)
  with gates show ?thesis
    unfolding apply_rollback_def gated_rollback_def Let_def by (intro dry_intros)
qed

text \<open>C16. A rollback that is not applied runs nothing, not even an observation: the world stays as it was,
  and each change is announced as one and reported as skipped.\<close>

theorem rollback_dry_run:
  assumes "\<not> ru_apply H" "se_journaled s"
    and "run_state (apply_rollback H snapshot current enablement activity) s = (r, s')"
  shows "se_world s' = se_world s
    \<and> (\<exists>es. se_events s' = se_events s @ es \<and> list_all dry_event es)"
  using dry_apply_rollback [OF assms(1), of snapshot current enablement activity] assms(2,3)
  unfolding dry_def by (metis emitsD snd_conv)

theorem rollback_dry_run_witness:
  "case run_state (apply_rollback (sample_host False) sample_snapshot (Some rollback_audit) True True)
      sample_session of (r, s') \<Rightarrow> se_world s' = 0 \<and> list_all dry_event (se_events s')"
proof -
  obtain r s' where run: "run_state (apply_rollback (sample_host False) sample_snapshot (Some rollback_audit)
      True True) sample_session = (r, s')" by fastforce
  have "\<not> ru_apply (sample_host False)" "se_journaled sample_session"
    by (simp_all add: sample_host_def sample_session_def)
  from rollback_dry_run [OF this run] run show ?thesis
    by (simp add: sample_session_def)
qed

section \<open>A rollback that is refused\<close>

text \<open>What an applied rollback is refused for before it looks at the host.\<close>

definition rollback_refused ::
  "rollback_snapshot \<Rightarrow> host_audit option \<Rightarrow> bool \<Rightarrow> bool \<Rightarrow> bool" where
  "rollback_refused snapshot current enablement activity \<longleftrightarrow>
     (case current of
        None \<Rightarrow> True
      | Some a \<Rightarrow>
          rs_path snapshot = None \<or> enablement \<or> activity
          \<or> ha_gpu_uuids a \<noteq> rs_gpu_uuids snapshot
          \<or> \<not> ha_mig_geometry_complete a
          \<or> (ha_mig_mode a = Some ''disabled'' \<and> (ha_mig_geometry a \<noteq> [] \<or> ha_mig_device_uuids a \<noteq> [])))"

fun read_event :: "runner_event \<Rightarrow> bool" where
  "read_event (Started c m) = (\<not> m)"
| "read_event (Finished r m) = (\<not> m)"

lemma quiet_reads: "quiet es \<Longrightarrow> list_all read_event es"
proof (induction es)
  case (Cons e es)
  then show ?case by (cases e) auto
qed simp

lemma emits_initial_gates:
  "emits (initial_gates H snapshot current) (\<lambda>_ es. list_all read_event es)"
  by (rule emits_silent [OF silent_initial_gates quiet_reads])

text \<open>An action that only ends the function.\<close>

definition refuses :: "('s, 'a flow) state \<Rightarrow> bool" where
  "refuses m \<longleftrightarrow> (\<exists>r. m = give r \<and> \<not> goes_on r)"

lemma refuses_simps [simp]: "refuses (refuse_with names text)" "refuses (give (Return rs))" "refuses (give (Raise e))"
  by (auto simp: refuses_def refuse_with_def)

lemma refuses_proceed: "refuses m \<Longrightarrow> refuses (proceed m f)"
proof -
  assume "refuses m"
  then obtain r where "m = give r" "\<not> goes_on r" by (auto simp: refuses_def)
  then show ?thesis by (cases r) simp_all
qed

lemma refuse_if_then [simp]:
  "proceed (refuse_if b names text) f = (if b then give (Return [precondition names text]) else f ())"
  by (simp add: refuse_if_give)

lemma state_gates_refuse:
  assumes "ru_apply H" "rollback_refused snapshot (Some audit) enablement activity" "rs_path snapshot \<noteq> None"
  shows "refuses (state_gates H snapshot (Some audit) (enablement \<or> activity))"
proof (cases "enablement \<or> activity \<or> ha_gpu_uuids audit \<noteq> rs_gpu_uuids snapshot")
  case True
  then show ?thesis by (auto simp: state_gates_def assms(1))
next
  case False
  with assms(2,3) have "\<not> ha_mig_geometry_complete audit \<or> ha_mig_mode audit = Some ''disabled''
      \<and> (ha_mig_geometry audit \<noteq> [] \<or> ha_mig_device_uuids audit \<noteq> [])"
    by (auto simp: rollback_refused_def)
  with False assms(1) show ?thesis
    by (cases "rollback_package_commands (sn_script H) snapshot (Some audit)";
        cases "ha_mig_geometry_complete audit") (auto simp: state_gates_def)
qed

lemma emits_refused:
  assumes refuse: "\<And>rs. refuses (f rs)"
  shows "emits (proceed (initial_gates H snapshot (Some audit)) f)
    (\<lambda>r es. \<not> goes_on r \<and> list_all read_event es)"
  unfolding proceed_def
proof (rule emits_then [OF emits_initial_gates])
  fix r :: "command_result list flow" and xs
  assume "list_all read_event xs"
  moreover obtain r' where "(case r of Go a \<Rightarrow> f a | Return rs \<Rightarrow> give (Return rs)
      | Raise e \<Rightarrow> give (Raise e)) = give r'" "\<not> goes_on r'"
    using refuse by (cases r) (auto simp: refuses_def)
  ultimately show "emits (case r of Go a \<Rightarrow> f a | Return rs \<Rightarrow> give (Return rs) | Raise e \<Rightarrow> give (Raise e))
      (\<lambda>r ys. \<not> goes_on r \<and> list_all read_event (xs @ ys))"
    by (simp only:) (rule emits_give, simp)
qed



section \<open>The GPU a rollback reconfigures\<close>

definition names_gpu :: "string \<Rightarrow> string list \<Rightarrow> bool" where
  "names_gpu gpu c \<longleftrightarrow>
     take 3 c = [''nvidia-smi'', ''-i'', gpu] \<or> take 4 c = [''nvidia-smi'', ''mig'', ''-i'', gpu]"

fun begun_on :: "string \<Rightarrow> runner_event \<Rightarrow> bool" where
  "begun_on gpu (Started c m) = (m \<longrightarrow> names_gpu gpu c)"
| "begun_on gpu (Finished r m) = True"

definition one_gpu :: "string \<Rightarrow> (('w, 'z) session_scheme, 'a) state \<Rightarrow> bool" where
  "one_gpu gpu m \<longleftrightarrow> emits m (\<lambda>_ es. list_all (begun_on gpu) es)"

lemma one_gpu_silent: "silent m \<Longrightarrow> one_gpu gpu m"
  unfolding one_gpu_def
proof (erule emits_silent)
  show "quiet es \<Longrightarrow> list_all (begun_on gpu) es" for es
  proof (induction es)
    case (Cons e es)
    then show ?case by (cases e) auto
  qed simp
qed

lemma one_gpu_bind: "one_gpu gpu m \<Longrightarrow> (\<And>a. one_gpu gpu (f a)) \<Longrightarrow> one_gpu gpu (State_Monad.bind m f)"
  unfolding one_gpu_def by (auto intro!: emits_bind elim!: emits_weaken)

lemma one_gpu_cases:
  "(b \<Longrightarrow> one_gpu gpu m) \<Longrightarrow> (\<not> b \<Longrightarrow> one_gpu gpu n) \<Longrightarrow> one_gpu gpu (if b then m else n)"
  "(\<And>a b. one_gpu gpu (l a b)) \<Longrightarrow> one_gpu gpu (case c of (a, b) \<Rightarrow> l a b)"
  "one_gpu gpu (give a)"
  by (auto simp: one_gpu_def intro: emits_give split: prod.splits)

lemma one_gpu_proceed:
  "one_gpu gpu m \<Longrightarrow> (\<And>a. one_gpu gpu (f a)) \<Longrightarrow> one_gpu gpu (proceed m f)"
  unfolding proceed_def by (rule one_gpu_bind) (auto intro: one_gpu_cases split: flow.splits)

lemma one_gpu_commands:
  "list_all (names_gpu gpu) cs \<Longrightarrow> one_gpu gpu (run_mutations R cs results)"
proof (induction cs arbitrary: results)
  case (Cons c cs)
  have "one_gpu gpu (run_command R True True None c)"
    using Cons.prems unfolding one_gpu_def run_command_def run_within_def
    by (cases c) (auto intro!: emits_intros)
  with Cons show ?case
    by (auto intro!: one_gpu_bind one_gpu_cases split: sum.splits)
qed (auto intro: one_gpu_cases)

lemmas one_gpu_steps =
  one_gpu_proceed one_gpu_cases one_gpu_commands one_gpu_silent [OF silent_refresh_stage]

lemma one_gpu_destroy:
  "list_all (names_gpu gpu) cs \<Longrightarrow> one_gpu gpu (destroy_stage H snapshot cs view results)"
  by (induction cs arbitrary: view results) (auto intro!: one_gpu_steps simp del: run_mutations.simps)

lemma one_gpu_restore:
  assumes "rs_gpu_uuids snapshot = gpu # rest"
  shows "one_gpu gpu (mig_restore_stage H snapshot reset view results)"
proof -
  have create: "one_gpu gpu (create_stage H snapshot gpu view results)" for view results
  proof (cases "mig_geometry_create_command gpu (rs_mig_geometry snapshot)")
    case (Inr c)
    then have "names_gpu gpu x" if "c = Some x" for x
      using that by (auto simp: mig_geometry_create_command_def names_gpu_def split: list.splits if_splits)
    with Inr show ?thesis
      unfolding create_stage_def
      by (auto intro!: one_gpu_steps one_gpu_silent [OF silent_bind] quiet_intros simp: precondition_def
          simp del: run_mutations.simps split: option.splits)
  qed (auto simp: create_stage_def intro: one_gpu_steps)
  have "list_all (names_gpu gpu) (mig_geometry_destroy_commands gpu)"
    by (simp add: mig_geometry_destroy_commands_def names_gpu_def)
  then show ?thesis
    unfolding mig_restore_stage_def mode_stage_def assms list.case
    by (intro one_gpu_steps one_gpu_destroy create) (simp_all add: names_gpu_def)
qed

text \<open>The MIG changes of a rollback all name the first GPU of the snapshot, whatever the number of its
  GPUs: only the gate before the changes asks for a single one, and only about the MIG state it knows.\<close>

theorem rollback_mig_first_gpu:
  "emits (mig_stage H snapshot current plan results)
    (\<lambda>_ es. list_all (begun_on (hd (rs_gpu_uuids snapshot))) es)"
proof -
  have "one_gpu (hd (rs_gpu_uuids snapshot)) (mig_restore_stage H snapshot reset view results)"
    for reset view results
  proof (cases "rs_gpu_uuids snapshot")
    case Nil
    then show ?thesis by (auto simp: mig_restore_stage_def intro: one_gpu_cases)
  next
    case (Cons gpu rest)
    then show ?thesis using one_gpu_restore by simp
  qed
  then show ?thesis
    unfolding one_gpu_def [symmetric] mig_stage_def Let_def
    by (intro one_gpu_steps)
qed

end
