(* ===== verification/RollbackVerify.thy ===== *)
theory RollbackVerify
  imports RollbackApply
begin

text \<open>
  The checks after a rollback (\<open>verify_rollback\<close> of \<open>nvidia_converge/rollback.py\<close>): the audit against
  the snapshot, one verification per aspect.
\<close>

definition check :: "string \<Rightarrow> bool \<Rightarrow> string \<Rightarrow> verification" where
  "check name ok detail = \<lparr>vf_name = ''rollback.'' @ name, vf_ok = ok, vf_command = None, vf_detail = Some detail\<rparr>"

definition installed_identities :: "package_info list \<Rightarrow> package_identity list" where
  "installed_identities ps = map package_state_identity (filter pi_installed ps)"

definition expected_identities :: "package_info list \<Rightarrow> package_identity list" where
  "expected_identities ps = map package_state_identity (filter (\<lambda>p. pi_installed p \<and> truthy (pi_version p)) ps)"

text \<open>The identities of one set that the other lacks, as sorted texts\<close>

definition missing_identities :: "package_identity list \<Rightarrow> package_identity list \<Rightarrow> string list" where
  "missing_identities xs ys = sort (map format_package_identity (remdups (filter (\<lambda>x. x \<notin> set ys) xs)))"

definition module_names_restored ::
  "('w, 'r) rollback_host_scheme \<Rightarrow> 'w \<Rightarrow> rollback_snapshot \<Rightarrow> bool" where
  "module_names_restored H w s \<longleftrightarrow> rs_module_names s = [] \<or> unload_order H w = Inr (rs_module_names s)"

definition module_restored :: "('w, 'r) rollback_host_scheme \<Rightarrow> 'w \<Rightarrow> rollback_snapshot \<Rightarrow> module_info \<Rightarrow> bool" where
  "module_restored H w s m \<longleftrightarrow>
     mi_loaded m = rs_module_loaded s \<and> mi_version m = rs_module_version s
     \<and> mi_open_module m = rs_module_open_module s \<and> mi_signed m = rs_module_signed s
     \<and> mi_installed_version m = rs_module_installed_version s
     \<and> mi_installed_open_module m = rs_module_installed_open_module s
     \<and> mi_installed_signed m = rs_module_installed_signed s \<and> module_names_restored H w s"

definition host_checks ::
  "('w, 'r) rollback_host_scheme \<Rightarrow> 'w \<Rightarrow> rollback_snapshot \<Rightarrow> host_audit \<Rightarrow> verification list" where
  "host_checks H w s a =
     (let mismatched = missing_identities (expected_identities (rs_packages s)) (installed_identities (ha_packages a));
          remaining = missing_identities (installed_identities (ha_packages a)) (expected_identities (rs_packages s))
      in [check ''gpu-inventory'' (ha_gpu_uuids a = rs_gpu_uuids s)
            ''GPU UUID inventory must exactly match the rollback snapshot.'',
          check ''kernel'' (ki_running (ha_kernel a) = rs_kernel s)
            (''Running kernel must match snapshot kernel '' @ rs_kernel s @ ''.''),
          check ''module-version'' (module_restored H w s (ha_module a))
            (''Loaded and on-disk module version, flavor, signature, and dependent-module set must match ''
             @ ''snapshot value ''
             @ (if truthy (rs_module_version s) then or_empty (rs_module_version s) else ''not loaded'') @ ''.''),
          check ''packages-restored'' (ha_package_inventory_complete a \<and> mismatched = [])
            (if mismatched = [] then ''Snapshot package versions restored.''
             else ''Package versions not restored: '' @ join '', '' mismatched @ ''.''),
          check ''added-packages-removed'' (remaining = [])
            (if remaining = [] then ''Packages added by convergence removed.''
             else ''Added packages still installed: '' @ join '', '' remaining @ ''.'')])"

definition mig_checks :: "rollback_snapshot \<Rightarrow> host_audit \<Rightarrow> verification list" where
  "mig_checks s a =
     (case rs_mig_mode s of
        None \<Rightarrow> []
      | Some mode \<Rightarrow>
         [check ''mig-mode'' (ha_mig_mode a = Some mode) (''MIG mode must match snapshot state '' @ mode @ ''.''),
          check ''mig-pending'' (ha_mig_mode_pending a = Some mode)
            ''Pending MIG mode must match the snapshot baseline so reboot cannot reintroduce drift.'',
          check ''mig-geometry''
            (ha_mig_geometry_complete a \<and> ha_mig_geometry a = rs_mig_geometry s
             \<and> (mode = ''enabled'' \<or> ha_mig_device_uuids a = []))
            (''Stable GPU-instance and compute-instance geometry must exactly match the rollback baseline.'')])"

text \<open>The checks of one launcher; a state the snapshot does not know is not checked.\<close>

definition flag_check :: "string \<Rightarrow> bool option \<Rightarrow> bool option \<Rightarrow> verification list" where
  "flag_check name expected actual =
     (case expected of
        None \<Rightarrow> []
      | Some b \<Rightarrow> [check name (actual = Some b) (''Observed service state must match snapshot value ''
          @ (if b then ''True'' else ''False'') @ ''.'')])"

definition file_state_check :: "string \<Rightarrow> string option \<Rightarrow> string option \<Rightarrow> verification list" where
  "file_state_check name expected actual =
     (case expected of
        None \<Rightarrow> []
      | Some x \<Rightarrow> [check name (actual = Some x)
          (''Observed service state must match snapshot value '' @ x @ ''.'')])"

definition unit_checks :: "string \<Rightarrow> unit_state \<Rightarrow> unit_state \<Rightarrow> verification list" where
  "unit_checks name expected actual =
     flag_check (name @ ''-active'') (us_active expected) (us_active actual)
     @ flag_check (name @ ''-enabled'') (us_enabled expected) (us_enabled actual)
     @ file_state_check (name @ ''-unit-file-state'') (us_file_state expected) (us_file_state actual)"

definition checked_units :: "(string \<times> string) list" where
  "checked_units =
     [(''docker-service'', docker_service_unit), (''docker-socket'', docker_socket_unit),
      (''nvidia-persistenced'', nvidia_persistenced_unit), (''fabric-manager'', fabric_manager_unit)]"

definition service_checks :: "rollback_snapshot \<Rightarrow> host_audit \<Rightarrow> verification list" where
  "service_checks s a = concat (map (\<lambda>(name, u).
     unit_checks name (unit_of (snapshot_units s) u) (unit_of (audit_units a) u)) checked_units)"

definition files_check :: "('w, 'r) rollback_host_scheme \<Rightarrow> 'w \<Rightarrow> rollback_snapshot \<Rightarrow> verification" where
  "files_check H w s =
     (let mismatched = map fs_path (filter (\<lambda>f. \<not> managed_file_matches H w f) (rs_managed_files s))
      in check ''managed-files'' (mismatched = [])
           (if mismatched = [] then ''Managed configuration and package-policy files restored.''
            else ''Managed files not restored: '' @ join '', '' mismatched))"

definition verify_rollback ::
  "('w, 'r) rollback_host_scheme \<Rightarrow> 'w \<Rightarrow> rollback_snapshot \<Rightarrow> host_audit \<Rightarrow> bool \<Rightarrow> verification list" where
  "verify_rollback H w s a include_service_state =
     host_checks H w s a @ mig_checks s a
     @ (if include_service_state then service_checks s a else []) @ [files_check H w s]"

section \<open>What passing means\<close>

abbreviation passes :: "verification list \<Rightarrow> bool" where
  "passes checks \<equiv> list_all vf_ok checks"

lemma check_ok [simp]: "vf_ok (check name ok detail) = ok"
  by (simp add: check_def)

lemma flag_check_passes [simp]: "passes (flag_check name x y) \<longleftrightarrow> x = None \<or> y = x"
  by (auto simp: flag_check_def split: option.split)

lemma file_state_check_passes [simp]: "passes (file_state_check name x y) \<longleftrightarrow> x = None \<or> y = x"
  by (auto simp: file_state_check_def split: option.split)

lemma unit_checks_passes:
  "passes (unit_checks name x y) \<Longrightarrow> unit_state_known x \<Longrightarrow> y = x"
  by (cases x; cases y) (auto simp: unit_checks_def unit_state_known_def)

lemma missing_identities_Nil [simp]: "missing_identities xs ys = [] \<longleftrightarrow> set xs \<subseteq> set ys"
proof -
  have "length (missing_identities xs ys) = length (remdups (filter (\<lambda>x. x \<notin> set ys) xs))"
    by (simp add: missing_identities_def)
  then have "missing_identities xs ys = [] \<longleftrightarrow> filter (\<lambda>x. x \<notin> set ys) xs = []"
    by (metis length_0_conv remdups_eq_nil_iff)
  then show ?thesis by (auto simp: filter_empty_conv)
qed

lemma host_checks_pass:
  "passes (host_checks H w s a) \<longleftrightarrow>
     ha_gpu_uuids a = rs_gpu_uuids s \<and> ki_running (ha_kernel a) = rs_kernel s
     \<and> module_restored H w s (ha_module a) \<and> ha_package_inventory_complete a
     \<and> set (expected_identities (rs_packages s)) = set (installed_identities (ha_packages a))"
  by (auto simp: host_checks_def Let_def)

lemma passes_concat: "passes (concat xss) \<longleftrightarrow> (\<forall>xs \<in> set xss. passes xs)"
  by (induction xss) auto

lemma checked_unit:
  assumes "u \<in> set service_stop_order"
  obtains name where "(name, u) \<in> set checked_units"
proof -
  have "set service_stop_order \<subseteq> snd ` set checked_units"
    by (simp add: service_stop_order_def checked_units_def)
  then show thesis using assms that by force
qed

lemma service_checks_pass:
  assumes "passes (service_checks s a)"
  shows "\<not> service_state_changed s (Some a)"
proof -
  have "unit_of (audit_units a) u = unit_of (snapshot_units s) u"
    if u: "u \<in> set service_stop_order" "unit_state_known (unit_of (snapshot_units s) u)" for u
  proof -
    obtain name where "(name, u) \<in> set checked_units" using u(1) by (rule checked_unit)
    then have "passes (unit_checks name (unit_of (snapshot_units s) u) (unit_of (audit_units a) u))"
      using assms unfolding service_checks_def passes_concat by (metis (mono_tags, lifting) case_prod_conv imageI set_map)
    then show ?thesis using u(2) by (rule unit_checks_passes)
  qed
  then show ?thesis
    unfolding service_state_changed_def units_of_audit_def Let_def list_ex_iff option.case by metis
qed

lemma mig_checks_pass: "passes (mig_checks s a) \<Longrightarrow> \<not> mig_changed s (Some a)"
  by (auto simp: mig_checks_def mig_changed_def)

end
