(* ===== verification/RollbackVerifyProps.thy ===== *)
theory RollbackVerifyProps
  imports RollbackVerify RollbackProps SnapshotSample
begin

text \<open>
  What a verified rollback means: applied again, the rollback would have nothing to do.
\<close>

lemma verified_states:
  assumes "set (expected_identities baseline) = set (installed_identities current)"
  shows "packages_to_restore baseline current = []" and "added_packages baseline current = []"
proof -
  have present: "package_state_identity p \<in> set (installed_identities current)"
    if "p \<in> set baseline" "pi_installed p" "truthy (pi_version p)" for p
    unfolding assms [symmetric] using that by (auto simp: expected_identities_def)
  have known: "package_state_identity p \<in> package_state_identity ` set (installed_packages baseline)"
    if "p \<in> set current" "pi_installed p" for p
  proof -
    have "package_state_identity p \<in> set (expected_identities baseline)"
      using that unfolding assms installed_identities_def by auto
    then show ?thesis by (auto simp: expected_identities_def installed_packages_def)
  qed
  have "p \<notin> set (packages_to_restore baseline current)" for p
    using present [of p] by (auto simp: packages_to_restore_def installed_identities_def installed_packages_def)
  then show "packages_to_restore baseline current = []" by (metis list.set_intros(1) neq_Nil_conv)
  have "p \<notin> set (added_packages baseline current)" for p
    using known [of p] by (auto simp: added_packages_def Let_def)
  then show "added_packages baseline current = []" by (metis list.set_intros(1) neq_Nil_conv)
qed



end
