(* ===== verification/DeviceUsers.thy ===== *)
theory DeviceUsers
  imports SnapshotLoad
begin

text \<open>
  Which processes use an NVIDIA device (\<open>nvidia_converge/gpu_safety.py\<close>): the inventory of the
  character devices under \<open>/dev\<close>, and the scan of \<open>/proc\<close>, descriptor by descriptor and memory map
  by memory map, with its limits.

  What the system calls return is a value: a directory is the list of its entries with the error
  that ended it, a process its descriptors and the chunks of its maps.  The clock is read at every
  process and descriptor, and the entry says whether the time was up then.
\<close>

section \<open>Observations\<close>

text \<open>\<open>ENOENT\<close> and \<open>ESRCH\<close>, or the text of another \<open>OSError\<close>\<close>

datatype os_error = Gone | OsError string

type_synonym ('e, 'a) listing = "'a list \<times> 'e option"

record device_stat =
  dv_character :: bool
  dv_directory :: bool
  dv_rdev :: nat
  dv_device :: nat
  dv_inode :: nat

text \<open>An entry of \<open>/dev\<close> is inspected, then inspected again as a node, or listed when it is a directory.\<close>

record device_entry =
  de_name :: string
  de_stat :: "string + device_stat"
  de_node :: "string + device_stat"
  de_listing :: "(string, string \<times> (string + device_stat)) listing"

record fd_entry =
  fd_late :: bool
  fd_stat :: "os_error + device_stat"

text \<open>The maps of a process: not opened, no regular file, or chunks and the error that ended the reading.\<close>

datatype maps_read =
    MapsClosed os_error
  | MapsIrregular
  | MapsChunks "string list" "os_error option"

record process_entry =
  pe_name :: string
  pe_late :: bool
  pe_descriptors :: "(os_error, fd_entry) listing"
  pe_maps :: maps_read
  pe_mapped_file :: "string \<Rightarrow> os_error + device_stat"
  pe_map_files :: "os_error option"
  pe_directory :: "os_error option"

section \<open>Limits\<close>

definition max_processes :: nat where "max_processes = 131072"
definition max_fds_per_process :: nat where "max_fds_per_process = 65536"
definition max_total_fds :: nat where "max_total_fds = 1048576"
definition max_map_bytes_per_process :: nat where "max_map_bytes_per_process = 8388608"
definition max_total_map_bytes :: nat where "max_total_map_bytes = 134217728"
definition max_map_file_stats_per_process :: nat where "max_map_file_stats_per_process = 65536"
definition max_total_map_file_stats :: nat where "max_total_map_file_stats = 262144"
definition max_device_root_entries :: nat where "max_device_root_entries = 65536"
definition max_nvidia_device_nodes :: nat where "max_nvidia_device_nodes = 4096"
definition max_proc_map_line_bytes :: nat where "max_proc_map_line_bytes = 65536"

section \<open>The devices\<close>

record device_identity =
  dd_rdev :: nat
  dd_backing_device :: nat
  dd_inode :: nat

text \<open>\<open>os.major\<close> and \<open>os.minor\<close> of Linux device numbers\<close>

definition os_major :: "nat \<Rightarrow> nat" where
  "os_major d = d div 256 mod 4096 + d div 17592186044416 * 4096"

definition os_minor :: "nat \<Rightarrow> nat" where
  "os_minor d = d mod 256 + d div 1048576 mod 16777216 * 256"

record device_inventory =
  di_entries :: nat
  di_nodes :: nat
  di_identities :: "device_identity list"

definition device_path :: "string \<Rightarrow> string" where
  "device_path name = ''/dev/'' @ name"

definition add_device ::
  "string \<Rightarrow> string + device_stat \<Rightarrow> device_inventory \<Rightarrow> string + device_inventory" where
  "add_device path node found =
     (if max_nvidia_device_nodes < Suc (di_nodes found)
        then Inl ''NVIDIA device inventory exceeded the bounded node limit''
      else case node of
        Inl e \<Rightarrow> Inl (''cannot inspect NVIDIA device node '' @ path @ '': '' @ e)
      | Inr m \<Rightarrow>
          if \<not> dv_character m then Inl (''NVIDIA device path is not a character device: '' @ path)
          else Inr (found\<lparr>di_nodes := Suc (di_nodes found),
            di_identities := di_identities found @ [\<lparr>dd_rdev = dv_rdev m, dd_backing_device = dv_device m,
              dd_inode = dv_inode m\<rparr>]\<rparr>))"

definition add_capabilities ::
  "string \<Rightarrow> (string, string \<times> (string + device_stat)) listing \<Rightarrow> device_inventory
   \<Rightarrow> string + device_inventory" where
  "add_capabilities path entries found =
     bind_r (fold_e (\<lambda>found (name, node). add_device (path @ ''/'' @ name) node found) found (fst entries)) (\<lambda>found'.
       case snd entries of
         Some e \<Rightarrow> Inl (''cannot enumerate NVIDIA capability devices '' @ path @ '': '' @ e)
       | None \<Rightarrow> Inr found')"

definition add_entry :: "device_inventory \<Rightarrow> device_entry \<Rightarrow> string + device_inventory" where
  "add_entry found e =
     (let found' = found\<lparr>di_entries := Suc (di_entries found)\<rparr>; path = device_path (de_name e)
      in if max_device_root_entries < di_entries found'
           then Inl ''device-root inventory exceeded the bounded scan limit''
         else if \<not> startswith (de_name e) ''nvidia'' then Inr found'
         else case de_stat e of
           Inl x \<Rightarrow> Inl (''cannot inspect NVIDIA device path '' @ path @ '': '' @ x)
         | Inr m \<Rightarrow>
             if de_name e = ''nvidia-caps'' \<and> dv_directory m then add_capabilities path (de_listing e) found'
             else add_device path (de_node e) found')"

definition no_identities_text :: string where
  "no_identities_text = ''NVIDIA stack is loaded or device-present, but no NVIDIA ''
     @ ''character-device identities could be established''"

definition nvidia_character_device_identities ::
  "(string, device_entry) listing \<Rightarrow> string + device_identity list" where
  "nvidia_character_device_identities root =
     bind_r (fold_e add_entry \<lparr>di_entries = 0, di_nodes = 0, di_identities = []\<rparr> (fst root)) (\<lambda>found.
       case snd root of
         Some e \<Rightarrow> Inl (''cannot enumerate NVIDIA devices in /dev: '' @ e)
       | None \<Rightarrow> if di_identities found = [] then Inl no_identities_text else Inr (di_identities found))"

definition nvidia_device :: "device_identity list \<Rightarrow> device_stat \<Rightarrow> bool" where
  "nvidia_device devices m \<longleftrightarrow> dv_character m \<and> dv_rdev m \<in> set (map dd_rdev devices)"

section \<open>The memory maps of a process\<close>

text \<open>\<open>bytes.split(None, n)\<close>\<close>

definition is_byte_space :: "char \<Rightarrow> bool" where
  "is_byte_space c \<longleftrightarrow> cp c \<in> {9, 10, 11, 12, 13, 32}"

fun split_fields :: "nat \<Rightarrow> string \<Rightarrow> string list" where
  "split_fields 0 s =
     (let rest = dropWhile is_byte_space s in if rest = [] then [] else [rest])"
| "split_fields (Suc n) s =
     (let rest = dropWhile is_byte_space s
      in if rest = [] then []
         else takeWhile (\<lambda>c. \<not> is_byte_space c) rest
           # split_fields n (dropWhile (\<lambda>c. \<not> is_byte_space c) rest))"

definition is_hex_digit :: "char \<Rightarrow> bool" where
  "is_hex_digit c \<longleftrightarrow> is_hex c \<or> (65 \<le> cp c \<and> cp c \<le> 70)"

definition hex_number :: "string \<Rightarrow> bool" where
  "hex_number s \<longleftrightarrow> s \<noteq> [] \<and> list_all is_hex_digit s"

definition hex_digit_value :: "char \<Rightarrow> nat" where
  "hex_digit_value c = (if is_digit c then cp c - 48 else if cp c < 97 then cp c - 55 else cp c - 87)"

definition hex_value :: "string \<Rightarrow> nat" where
  "hex_value s = foldl (\<lambda>n c. 16 * n + hex_digit_value c) 0 s"

definition address_range :: "string \<Rightarrow> bool" where
  "address_range s \<longleftrightarrow>
     (case partition_at CHR ''-'' s of (low, found, high) \<Rightarrow> found \<and> hex_number low \<and> hex_number high)"

definition device_field :: "string \<Rightarrow> (nat \<times> nat) option" where
  "device_field s =
     (case split_on CHR '':'' s of
        [major, minor] \<Rightarrow>
          if hex_number major \<and> hex_number minor \<and> length major \<le> 8 \<and> length minor \<le> 8
          then Some (hex_value major, hex_value minor) else None
      | _ \<Rightarrow> None)"

definition backing_identity :: "device_identity \<Rightarrow> nat \<times> nat \<times> nat" where
  "backing_identity d = (os_major (dd_backing_device d), os_minor (dd_backing_device d), dd_inode d)"

text \<open>What is known of a map line: that it maps a device or not, or the reason why it cannot be told.\<close>

type_synonym map_verdict = "nat \<times> (string + bool)"

definition vanished_verdict :: "process_entry \<Rightarrow> string \<Rightarrow> string + bool" where
  "vanished_verdict p addresses =
     (case pe_map_files p of
        None \<Rightarrow> Inr False
      | Some (OsError e) \<Rightarrow>
          Inl (''cannot inspect procfs map_files while classifying mapping '' @ addresses @ '': '' @ e)
      | Some Gone \<Rightarrow>
         (case pe_directory p of
            Some Gone \<Rightarrow> Inr False
          | Some (OsError e) \<Rightarrow>
              Inl (''cannot establish process state while classifying mapped file '' @ addresses @ '': '' @ e)
          | None \<Rightarrow>
              Inl (''procfs map_files inventory is unavailable for a potentially relevant mapping '' @ addresses)))"

definition mapped_file_verdict :: "device_identity list \<Rightarrow> process_entry \<Rightarrow> string \<Rightarrow> string + bool" where
  "mapped_file_verdict devices p addresses =
     (case pe_mapped_file p addresses of
        Inl Gone \<Rightarrow> vanished_verdict p addresses
      | Inl (OsError e) \<Rightarrow>
          Inl (''cannot classify potentially relevant mapped file '' @ addresses @ '': '' @ e)
      | Inr m \<Rightarrow> Inr (nvidia_device devices m))"

definition potentially_relevant ::
  "device_identity list \<Rightarrow> nat \<times> nat \<Rightarrow> nat \<Rightarrow> string \<Rightarrow> bool" where
  "potentially_relevant devices numbers inode pathname \<longleftrightarrow>
     0 < inode \<and> numbers \<in> set (map (\<lambda>d. (os_major (dd_backing_device d), os_minor (dd_backing_device d))) devices)
     \<or> contains ''nvidia'' (lower pathname)"

definition maps_line_uses_nvidia :: "device_identity list \<Rightarrow> process_entry \<Rightarrow> string \<Rightarrow> map_verdict" where
  "maps_line_uses_nvidia devices p line =
     (if line = [] then (0, Inl ''memory map contains an empty record'')
      else if max_proc_map_line_bytes < length line then (0, Inl ''memory map contains an overlong record'')
      else case split_fields 5 line of
        addresses # _ # _ # device # inode # path \<Rightarrow>
          if \<not> address_range addresses then (0, Inl ''memory map contains an invalid address range'')
          else (case device_field device of
            None \<Rightarrow> (0, Inl ''memory map contains an invalid device identity'')
          | Some (major, minor) \<Rightarrow>
              if \<not> isdecimal inode \<or> 20 < length inode
                then (0, Inl ''memory map contains an invalid inode identity'')
              else if (major, minor, digits_val inode) \<in> set (map backing_identity devices) then (0, Inr True)
              else if \<not> potentially_relevant devices (major, minor) (digits_val inode)
                  (case path of [] \<Rightarrow> [] | x # _ \<Rightarrow> x) then (0, Inr False)
              else (1, mapped_file_verdict devices p addresses))
      | _ \<Rightarrow> (0, Inl ''memory map contains a malformed record''))"

text \<open>The bytes that were read, the mapped files that were inspected, and the verdict on the process.\<close>

type_synonym maps_verdict = "nat \<times> nat \<times> (string + bool)"

definition stats_text :: string where
  "stats_text = ''mapped-file identity inspection exceeded the per-process limit''"

text \<open>Lines until one decides; the number of inspected files, and the verdict if there is one.\<close>

fun scan_lines ::
  "device_identity list \<Rightarrow> process_entry \<Rightarrow> nat \<Rightarrow> string list \<Rightarrow> nat \<times> (string + bool) option" where
  "scan_lines devices p stats [] = (stats, None)"
| "scan_lines devices p stats (line # lines) =
     (case maps_line_uses_nvidia devices p line of
        (inspected, verdict) \<Rightarrow>
          if max_map_file_stats_per_process < stats + inspected then (stats + inspected, Some (Inl stats_text))
          else (case verdict of
            Inr False \<Rightarrow> scan_lines devices p (stats + inspected) lines
          | _ \<Rightarrow> (stats + inspected, Some verdict)))"

definition end_of_maps :: "device_identity list \<Rightarrow> process_entry \<Rightarrow> nat \<Rightarrow> string \<Rightarrow> nat \<times> (string + bool)" where
  "end_of_maps devices p stats buffered =
     (case scan_lines devices p stats (if buffered = [] then [] else [buffered]) of
        (stats', None) \<Rightarrow> (stats', Inr False) | (stats', Some verdict) \<Rightarrow> (stats', verdict))"

fun scan_chunks ::
  "device_identity list \<Rightarrow> process_entry \<Rightarrow> string list \<Rightarrow> os_error option \<Rightarrow> nat \<Rightarrow> nat \<Rightarrow> string \<Rightarrow> maps_verdict" where
  "scan_chunks devices p [] ended amount stats buffered =
     (case ended of
        None \<Rightarrow> (amount, end_of_maps devices p stats buffered)
      | Some Gone \<Rightarrow> (amount, stats, Inr False)
      | Some (OsError e) \<Rightarrow> (amount, stats, Inl e))"
| "scan_chunks devices p (chunk # chunks) ended amount stats buffered =
     (let amount' = amount + length chunk; pieces = split_on CHR 0x0A (buffered @ chunk)
      in if max_map_bytes_per_process < amount'
           then (amount', stats, Inl ''memory map exceeded the per-process scan limit'')
         else if max_proc_map_line_bytes < length (last pieces)
           then (amount', stats, Inl ''memory map contains an overlong record'')
         else case scan_lines devices p stats (butlast pieces) of
           (stats', Some verdict) \<Rightarrow> (amount', stats', verdict)
         | (stats', None) \<Rightarrow> scan_chunks devices p chunks ended amount' stats' (last pieces))"

definition process_maps_use_nvidia :: "device_identity list \<Rightarrow> process_entry \<Rightarrow> maps_verdict" where
  "process_maps_use_nvidia devices p =
     (case pe_maps p of
        MapsClosed Gone \<Rightarrow> (0, 0, Inr False)
      | MapsClosed (OsError e) \<Rightarrow> (0, 0, Inl e)
      | MapsIrregular \<Rightarrow> (0, 0, Inl ''maps is not a regular procfs file'')
      | MapsChunks chunks ended \<Rightarrow> scan_chunks devices p chunks ended 0 0 [])"

section \<open>The descriptors of a process\<close>

datatype fd_verdict = HoldsDevice | HoldsNone | Vanished | FdRefused string

definition time_limit_text :: string where
  "time_limit_text = ''GPU device-user inspection exceeded its time limit''"

text \<open>\<open>own\<close> and \<open>amount\<close>: the descriptors seen so far, of this process and of all\<close>

fun scan_descriptors ::
  "device_identity list \<Rightarrow> string \<Rightarrow> fd_entry list \<Rightarrow> os_error option \<Rightarrow> nat \<Rightarrow> nat \<Rightarrow> nat \<times> fd_verdict" where
  "scan_descriptors devices name [] ended own amount =
     (amount, case ended of
        None \<Rightarrow> HoldsNone
      | Some Gone \<Rightarrow> Vanished
      | Some (OsError e) \<Rightarrow> FdRefused (''cannot inspect file descriptors for PID '' @ name @ '': '' @ e))"
| "scan_descriptors devices name (fd # fds) ended own amount =
     (if max_fds_per_process < Suc own
        then (Suc amount, FdRefused (''PID '' @ name @ '' exceeded the bounded descriptor scan limit''))
      else if max_total_fds < Suc amount
        then (Suc amount, FdRefused ''file-descriptor inventory exceeded the bounded scan limit'')
      else if fd_late fd then (Suc amount, FdRefused time_limit_text)
      else case fd_stat fd of
        Inl Gone \<Rightarrow> scan_descriptors devices name fds ended (Suc own) (Suc amount)
      | Inl (OsError e) \<Rightarrow>
          (Suc amount, FdRefused (''cannot inspect PID '' @ name @ '' descriptor: '' @ e))
      | Inr m \<Rightarrow>
          if nvidia_device devices m then (Suc amount, HoldsDevice)
          else scan_descriptors devices name fds ended (Suc own) (Suc amount))"

section \<open>All processes\<close>

record proc_scan =
  ps_processes :: nat
  ps_fds :: nat
  ps_map_bytes :: nat
  ps_map_stats :: nat
  ps_users :: "string list"

definition scan_maps ::
  "device_identity list \<Rightarrow> process_entry \<Rightarrow> proc_scan \<Rightarrow> string + proc_scan" where
  "scan_maps devices p st =
     (case process_maps_use_nvidia devices p of
        (bytes, stats, verdict) \<Rightarrow>
         (let st' = st\<lparr>ps_map_bytes := ps_map_bytes st + bytes, ps_map_stats := ps_map_stats st + stats\<rparr>
          in if max_total_map_bytes < ps_map_bytes st'
               then Inl ''process memory-map inventory exceeded the bounded scan limit''
             else case verdict of
               Inl e \<Rightarrow> Inl (''cannot inspect memory maps for PID '' @ pe_name p @ '': '' @ e)
             | Inr mapped \<Rightarrow>
                 if max_total_map_file_stats < ps_map_stats st'
                   then Inl ''mapped-file identity inspection exceeded the bounded scan limit''
                 else Inr (if mapped then st'\<lparr>ps_users := ps_users st' @ [pe_name p]\<rparr> else st')))"

definition scan_process ::
  "device_identity list \<Rightarrow> proc_scan \<Rightarrow> process_entry \<Rightarrow> string + proc_scan" where
  "scan_process devices st p =
     (if \<not> isdecimal (pe_name p) then Inr st
      else if max_processes < Suc (ps_processes st)
        then Inl ''process inventory exceeded the bounded scan limit''
      else if pe_late p then Inl time_limit_text
      else case scan_descriptors devices (pe_name p) (fst (pe_descriptors p)) (snd (pe_descriptors p)) 0 (ps_fds st) of
        (fds, verdict) \<Rightarrow>
         (let st' = st\<lparr>ps_processes := Suc (ps_processes st), ps_fds := fds\<rparr>
          in case verdict of
               FdRefused e \<Rightarrow> Inl e
             | Vanished \<Rightarrow> Inr st'
             | HoldsDevice \<Rightarrow> Inr (st'\<lparr>ps_users := ps_users st' @ [pe_name p]\<rparr>)
             | HoldsNone \<Rightarrow> scan_maps devices p st'))"

text \<open>\<open>sorted(\<dots>, key=int)\<close> of a set of decimal texts\<close>

definition sorted_pids :: "string list \<Rightarrow> string list" where
  "sorted_pids pids = sort_key digits_val (dedup pids)"

definition device_users ::
  "device_identity list \<Rightarrow> (string, process_entry) listing \<Rightarrow> string + string list" where
  "device_users devices root =
     bind_r (fold_e (scan_process devices)
       \<lparr>ps_processes = 0, ps_fds = 0, ps_map_bytes = 0, ps_map_stats = 0, ps_users = []\<rparr> (fst root)) (\<lambda>st.
       case snd root of
         Some e \<Rightarrow> Inl (''cannot enumerate /proc: '' @ e)
       | None \<Rightarrow> Inr (sorted_pids (ps_users st)))"

end
