(* ===== verification/DeviceUsersProps.thy ===== *)
theory DeviceUsersProps
  imports DeviceUsers
begin

text \<open>
  The scan of \<open>/proc\<close> against its description: it reports exactly the processes that hold an NVIDIA
  device open or map one, however the kernel cuts the memory maps into chunks.
\<close>

section \<open>Lines and chunks\<close>

lemma split_on_Cons: obtains p ps where "split_on c x = p # ps"
proof -
  have "split_on c x \<noteq> []" by (induction x) (auto split: list.splits)
  then show thesis using that by (cases "split_on c x") auto
qed

lemma split_on_prefix:
  "split_on c (x @ y) = butlast (split_on c x) @ split_on c (last (split_on c x) @ y)"
proof (induction x)
  case (Cons a x)
  obtain p ps where x: "split_on c x = p # ps" by (rule split_on_Cons)
  show ?case
  proof (cases ps)
    case Nil
    then show ?thesis using Cons x by auto
  next
    case (Cons r rs)
    then show ?thesis using Cons.IH x by auto
  qed
qed simp

lemma last_piece: "c \<notin> set (last (split_on c x))"
proof (induction x)
  case (Cons a x)
  obtain p ps where x: "split_on c x = p # ps" by (rule split_on_Cons)
  then show ?case using Cons by (cases ps) auto
qed simp

lemma split_on_word: "c \<notin> set x \<Longrightarrow> split_on c x = [x]"
  by (induction x) auto

definition complete_lines :: "os_error option \<Rightarrow> string \<Rightarrow> string list" where
  "complete_lines ended text =
     (let pieces = split_on CHR 0x0A text
      in butlast pieces @ (if ended = None \<and> last pieces \<noteq> [] then [last pieces] else []))"

lemma complete_lines_prefix:
  "complete_lines ended (x @ y)
     = butlast (split_on CHR 0x0A x) @ complete_lines ended (last (split_on CHR 0x0A x) @ y)"
proof -
  obtain p ps where "split_on CHR 0x0A (last (split_on CHR 0x0A x) @ y) = p # ps" by (rule split_on_Cons)
  then show ?thesis by (simp add: complete_lines_def split_on_prefix [of _ x y] Let_def butlast_append)
qed

section \<open>Maps\<close>

abbreviation maps_device :: "device_identity list \<Rightarrow> process_entry \<Rightarrow> string \<Rightarrow> bool" where
  "maps_device devices p line \<equiv> snd (maps_line_uses_nvidia devices p line) = Inr True"

lemma scan_lines_verdict:
  assumes "scan_lines devices p stats lines = (stats', v)"
  shows "v = None \<Longrightarrow> \<not> list_ex (maps_device devices p) lines"
    and "v = Some (Inr b) \<Longrightarrow> b \<and> list_ex (maps_device devices p) lines"
  using assms
  by (induction lines arbitrary: stats)
    (auto split: prod.splits if_splits sum.splits bool.splits)

lemma scan_chunks_verdict:
  assumes "scan_chunks devices p chunks ended amount stats buffered = (amount', stats', Inr b)"
    and "CHR 0x0A \<notin> set buffered"
  shows "b = list_ex (maps_device devices p) (complete_lines ended (buffered @ concat chunks))"
  using assms
proof (induction chunks arbitrary: amount stats buffered)
  case Nil
  have "split_on CHR 0x0A buffered = [buffered]" using Nil.prems(2) by (rule split_on_word)
  then show ?case
    using Nil.prems(1) scan_lines_verdict [of devices p stats "[buffered]"]
    by (auto simp: complete_lines_def end_of_maps_def split: option.splits os_error.splits prod.splits if_splits)
next
  case (Cons chunk chunks)
  define pieces where "pieces = split_on CHR 0x0A (buffered @ chunk)"
  obtain stats1 v where run: "scan_lines devices p stats (butlast pieces) = (stats1, v)" by fastforce
  note lines = scan_lines_verdict [OF run]
  have rest: "CHR 0x0A \<notin> set (last pieces)" unfolding pieces_def by (rule last_piece)
  have whole: "complete_lines ended (buffered @ concat (chunk # chunks))
      = butlast pieces @ complete_lines ended (last pieces @ concat chunks)"
    using complete_lines_prefix [of ended "buffered @ chunk" "concat chunks"] by (simp add: pieces_def)
  show ?case
  proof (cases v)
    case None
    then have "scan_chunks devices p chunks ended (amount + length chunk) stats1 (last pieces) = (amount', stats', Inr b)"
      using Cons.prems(1) run by (auto simp: Let_def pieces_def split: if_splits)
    from Cons.IH [OF this rest] show ?thesis using lines(1) None unfolding whole by simp
  next
    case (Some verdict)
    then have "verdict = Inr b" using Cons.prems(1) run by (auto simp: Let_def pieces_def split: if_splits)
    then show ?thesis using lines(2) Some unfolding whole by simp
  qed
qed

text \<open>The lines a process maps, as far as they can be read\<close>

definition map_lines :: "process_entry \<Rightarrow> string list" where
  "map_lines p = (case pe_maps p of
     MapsChunks chunks ended \<Rightarrow> complete_lines ended (concat chunks) | _ \<Rightarrow> [])"

lemma process_maps_verdict:
  assumes "process_maps_use_nvidia devices p = (amount, stats, Inr b)"
  shows "b = list_ex (maps_device devices p) (map_lines p)"
  using assms scan_chunks_verdict [of devices p _ _ 0 0 "[]"]
  by (auto simp: process_maps_use_nvidia_def map_lines_def split: maps_read.splits os_error.splits)

section \<open>Descriptors\<close>

definition holds :: "device_identity list \<Rightarrow> fd_entry \<Rightarrow> bool" where
  "holds devices fd \<longleftrightarrow> (case fd_stat fd of Inl _ \<Rightarrow> False | Inr m \<Rightarrow> nvidia_device devices m)"

lemma scan_descriptors_verdict:
  assumes "scan_descriptors devices name fds ended own amount = (amount', v)"
  shows "v = HoldsDevice \<Longrightarrow> list_ex (holds devices) fds"
    and "v = HoldsNone \<Longrightarrow> \<not> list_ex (holds devices) fds \<and> ended = None"
    and "v = Vanished \<Longrightarrow> \<not> list_ex (holds devices) fds \<and> ended = Some Gone"
  using assms
  by (induction fds arbitrary: own amount)
    (auto simp: holds_def split: if_splits sum.splits os_error.splits option.splits)

section \<open>Processes\<close>

definition uses_device :: "device_identity list \<Rightarrow> process_entry \<Rightarrow> bool" where
  "uses_device devices p \<longleftrightarrow>
     isdecimal (pe_name p)
     \<and> (list_ex (holds devices) (fst (pe_descriptors p))
        \<or> snd (pe_descriptors p) = None \<and> list_ex (maps_device devices p) (map_lines p))"

lemma scan_process_users:
  assumes "scan_process devices st p = Inr st'"
  shows "set (ps_users st') = set (ps_users st) \<union> (if uses_device devices p then {pe_name p} else {})"
proof -
  obtain amount v where fds: "scan_descriptors devices (pe_name p) (fst (pe_descriptors p)) (snd (pe_descriptors p)) 0
      (ps_fds st) = (amount, v)" by fastforce
  obtain bytes stats verdict where maps: "process_maps_use_nvidia devices p = (bytes, stats, verdict)"
    using prod_cases3 by blast
  note verdicts = scan_descriptors_verdict [OF fds]
  show ?thesis
  proof (cases "isdecimal (pe_name p)")
    case True
    with assms have run: "(case v of FdRefused e \<Rightarrow> Inl e
        | Vanished \<Rightarrow> Inr (st\<lparr>ps_processes := Suc (ps_processes st), ps_fds := amount\<rparr>)
        | HoldsDevice \<Rightarrow> Inr (st\<lparr>ps_processes := Suc (ps_processes st), ps_fds := amount,
            ps_users := ps_users st @ [pe_name p]\<rparr>)
        | HoldsNone \<Rightarrow> scan_maps devices p (st\<lparr>ps_processes := Suc (ps_processes st), ps_fds := amount\<rparr>)) = Inr st'"
      by (simp add: scan_process_def fds Let_def split: if_splits)
    show ?thesis
    proof (cases v)
      case HoldsNone
      with run obtain b where "verdict = Inr b" "set (ps_users st') = set (ps_users st) \<union> (if b then {pe_name p} else {})"
        by (auto simp: scan_maps_def maps Let_def split: if_splits sum.splits)
      then show ?thesis
        using True verdicts(2) HoldsNone process_maps_verdict [of devices p bytes stats] maps
        by (auto simp: uses_device_def)
    qed (use run True verdicts in \<open>auto simp: uses_device_def\<close>)
  next
    case False
    then show ?thesis using assms by (simp add: scan_process_def uses_device_def)
  qed
qed

lemma scan_users:
  assumes "fold_e (scan_process devices) st ps = Inr st'"
  shows "set (ps_users st') = set (ps_users st) \<union> pe_name ` {p \<in> set ps. uses_device devices p}"
  using assms
proof (induction ps arbitrary: st)
  case (Cons p ps)
  then obtain st1 where "scan_process devices st p = Inr st1" "fold_e (scan_process devices) st1 ps = Inr st'"
    by (auto simp: bind_r_Inr_iff)
  with Cons.IH scan_process_users [OF this(1)] show ?case by (auto split: if_splits)
qed simp

lemma set_sorted_pids [simp]: "set (sorted_pids pids) = set pids"
  by (simp add: sorted_pids_def)


text \<open>One process holds the device open, one maps it in a line cut in two, and one does neither.\<close>

definition sample_device :: device_identity where
  "sample_device = \<lparr>dd_rdev = 49920, dd_backing_device = 5, dd_inode = 42\<rparr>"

definition sample_process :: "string \<Rightarrow> fd_entry list \<Rightarrow> string list \<Rightarrow> process_entry" where
  "sample_process name fds chunks =
     \<lparr>pe_name = name, pe_late = False, pe_descriptors = (fds, None), pe_maps = MapsChunks chunks None,
      pe_mapped_file = (\<lambda>_. Inl Gone), pe_map_files = None, pe_directory = None\<rparr>"

definition sample_processes :: "(string, process_entry) listing" where
  "sample_processes =
     ([sample_process ''7'' [] [''7f00-7f10 rw-s 00000000 00:'', ''05 42 /dev/nvidia0'' @ [CHR 0x0A]],
       sample_process ''self'' [] [],
       sample_process ''12'' [] [''7f00-7f10 r--p 00000000 08:01 42 /usr/lib/libc.so.6'' @ [CHR 0x0A]],
       sample_process ''3'' [\<lparr>fd_late = False, fd_stat = Inr \<lparr>dv_character = True, dv_directory = False,
         dv_rdev = 49920, dv_device = 5, dv_inode = 42\<rparr>\<rparr>] []], None)"

lemma scan_sample_lines:
  "split_fields 5 ''7f00-7f10 rw-s 00000000 00:05 42 /dev/nvidia0'' = [''7f00-7f10'', ''rw-s'', ''00000000'', ''00:05'', ''42'', ''/dev/nvidia0'']"
  "split_fields 5 ''7f00-7f10 r--p 00000000 08:01 42 /usr/lib/libc.so.6'' = [''7f00-7f10'', ''r--p'', ''00000000'', ''08:01'', ''42'', ''/usr/lib/libc.so.6'']"
  "address_range ''7f00-7f10''" "device_field ''00:05'' = Some (0, 5)" "device_field ''08:01'' = Some (8, 1)"
  "isdecimal ''42''" "digits_val ''42'' = 42" "contains ''nvidia'' (lower ''/usr/lib/libc.so.6'') = False"
  "isdecimal ''7''" "isdecimal ''12''" "isdecimal ''3''" "\<not> isdecimal ''self''"
  "sorted_pids [''7'', ''3''] = [''3'', ''7'']"
  by code_simp+

lemma sample_numbers: "os_major 5 = 0" "os_minor 5 = 5"
  by (simp_all add: os_major_def os_minor_def)


end
