(* ===== verification/GpuGuard.thy ===== *)
theory GpuGuard
  imports UnitSafety "HOL-Library.AList"
begin

text \<open>
  The guard that stops the trusted GPU services while disruptive work is in progress and starts again
  only those it stopped (\<open>TrustedGpuServiceGuard\<close> and \<open>quiesce_trusted_gpu_services\<close> of
  \<open>nvidia_converge/gpu_safety.py\<close>), with the check before a service is started.  A method is an action
  that returns the changed guard; a dictionary is an association list in insertion order.
\<close>

section \<open>The check before a start\<close>

definition judge_startable :: "trusted_service_spec \<Rightarrow> service_observation \<Rightarrow> string + string" where
  "judge_startable spec ob =
     (case so_fragment_path ob of
        Some fragment \<Rightarrow>
          if so_load_state ob \<noteq> ''loaded'' \<or> so_active_state ob \<noteq> ''inactive'' \<or> so_sub_state ob \<noteq> ''dead''
             \<or> so_active ob \<or> so_main_pid ob \<noteq> 0
          then Inl (''cannot start '' @ ts_unit spec @ '': expected an exact loaded, inactive, dead unit with MainPID 0'')
          else Inr fragment
      | None \<Rightarrow> Inl (''cannot start '' @ ts_unit spec @ '': expected an exact loaded, inactive, dead unit with MainPID 0''))"

definition start_validation_result ::
  "string \<Rightarrow> command_result list \<Rightarrow> string option \<Rightarrow> ('w, 'z, command_result list \<times> string option) action" where
  "start_validation_result u results error = do {
     verdict \<leftarrow> report_result (verdict_result [''validate-trusted-gpu-service-start'', u] [] error);
     give (results @ [verdict], error)
   }"

definition validate_trusted_gpu_service_spec_start ::
  "('w, 'r) unit_host_scheme \<Rightarrow> trusted_service_spec \<Rightarrow> ('w, 'z, command_result list \<times> string option) action" where
  "validate_trusted_gpu_service_spec_start H spec = do {
     available \<leftarrow> exists_executable H ''systemctl'';
     (results, error) \<leftarrow>
       (if \<not> available then
          give ([], Some ''trusted systemctl executable is required to validate service start'')
        else do {
          (results, judged) \<leftarrow> observe_trusted_service H spec;
          (case judged of
             Inl e \<Rightarrow> give (results, Some e)
           | Inr ob \<Rightarrow>
               (case judge_startable spec ob of
                  Inl e \<Rightarrow> give (results, Some e)
                | Inr fragment \<Rightarrow> do {
                    (bound, _, error) \<leftarrow> validate_trusted_service_binding H spec fragment None (so_properties ob);
                    give (results @ [bound], error)
                  }))
        });
     start_validation_result (ts_unit spec) results error
   }"

definition validate_trusted_gpu_service_start ::
  "('w, 'r) unit_host_scheme \<Rightarrow> string \<Rightarrow> ('w, 'z, command_result list \<times> string option) action" where
  "validate_trusted_gpu_service_start H u =
     (case trusted_service_by_unit u of
        None \<Rightarrow> start_validation_result u [] (Some unsupported_service_text)
      | Some spec \<Rightarrow> validate_trusted_gpu_service_spec_start H spec)"

section \<open>The guard\<close>

record gpu_guard =
  gg_specs :: "trusted_service_spec list"
  gg_results :: "command_result list"
  gg_originally_active :: "(string \<times> trusted_service_spec) list"
  gg_pending_restore :: "(string \<times> trusted_service_spec) list"
  gg_error :: "string option"
  gg_restore_errors :: "string list"
  gg_requiesce_errors :: "string list"
  gg_mutation_started :: bool

definition new_guard :: "trusted_service_spec list \<Rightarrow> gpu_guard" where
  "new_guard specs =
     \<lparr>gg_specs = specs, gg_results = [], gg_originally_active = [], gg_pending_restore = [], gg_error = None,
      gg_restore_errors = [], gg_requiesce_errors = [], gg_mutation_started = False\<rparr>"

definition guard_ok :: "gpu_guard \<Rightarrow> bool" where
  "guard_ok g \<longleftrightarrow> gg_error g = None \<and> gg_restore_errors g = [] \<and> gg_requiesce_errors g = []"

definition quiesced_service_names :: "gpu_guard \<Rightarrow> string list" where
  "quiesced_service_names g = sort (map fst (gg_pending_restore g))"

definition mark_mutation_started :: "gpu_guard \<Rightarrow> gpu_guard" where
  "mark_mutation_started g = g\<lparr>gg_mutation_started := True\<rparr>"

definition relinquish :: "string list \<Rightarrow> gpu_guard \<Rightarrow> gpu_guard" where
  "relinquish units g =
     g\<lparr>gg_pending_restore := filter (\<lambda>(u, _). u \<notin> set units) (gg_pending_restore g),
       gg_originally_active := filter (\<lambda>(u, _). u \<notin> set units) (gg_originally_active g)\<rparr>"

definition with_results :: "command_result list \<Rightarrow> gpu_guard \<Rightarrow> gpu_guard" where
  "with_results rs g = g\<lparr>gg_results := gg_results g @ rs\<rparr>"

definition requiesce_failed :: "string \<Rightarrow> gpu_guard \<Rightarrow> gpu_guard" where
  "requiesce_failed e g = g\<lparr>gg_requiesce_errors := gg_requiesce_errors g @ [e]\<rparr>"

definition restore_failed :: "string \<Rightarrow> gpu_guard \<Rightarrow> gpu_guard" where
  "restore_failed e g = g\<lparr>gg_restore_errors := gg_restore_errors g @ [e]\<rparr>"

subsection \<open>Stopping again\<close>

text \<open>A service that was active at first waits for its restoration; one that was not is not adopted.\<close>

definition settle_service :: "trusted_service_spec \<Rightarrow> gpu_guard \<Rightarrow> gpu_guard" where
  "settle_service spec g =
     (if ts_unit spec \<in> set (map fst (gg_originally_active g))
      then g\<lparr>gg_pending_restore := AList.update (ts_unit spec) spec (gg_pending_restore g)\<rparr> else g)"

definition requiesce_stopped ::
  "('w, 'r) unit_host_scheme \<Rightarrow> trusted_service_spec \<Rightarrow> gpu_guard \<Rightarrow> ('w, 'z, gpu_guard) action" where
  "requiesce_stopped H spec g = do {
     (results, judged) \<leftarrow> observe_trusted_service H spec;
     let g = with_results results g;
     give (case judged of
         Inl e \<Rightarrow> requiesce_failed e g
       | Inr ob \<Rightarrow>
           if so_active ob then requiesce_failed (ts_unit spec @ '' remained active after re-quiesce'') g
           else settle_service spec g)
   }"

definition requiesce_service ::
  "('w, 'r) unit_host_scheme \<Rightarrow> trusted_service_spec \<Rightarrow> gpu_guard \<Rightarrow> ('w, 'z, gpu_guard) action" where
  "requiesce_service H spec g = do {
     (results, judged) \<leftarrow> observe_trusted_service H spec;
     let g = with_results results g;
     (case judged of
        Inl e \<Rightarrow> give (requiesce_failed e g)
      | Inr ob \<Rightarrow>
          if \<not> so_active ob then give (settle_service spec g)
          else do {
            r \<leftarrow> run_known H True ''systemctl'' [''stop'', ts_unit spec];
            let g = with_results [r] g;
            (if failed r then give (requiesce_failed (''could not re-quiesce '' @ ts_unit spec @ '': ''
               @ command_error ''systemctl stop failed'' r) g)
             else requiesce_stopped H spec g)
          })
   }"

fun requiesce_services ::
  "('w, 'r) unit_host_scheme \<Rightarrow> trusted_service_spec list \<Rightarrow> gpu_guard \<Rightarrow> ('w, 'z, gpu_guard) action" where
  "requiesce_services H [] g = give g"
| "requiesce_services H (spec # specs) g = do {
     g' \<leftarrow> requiesce_service H spec g;
     requiesce_services H specs g'
   }"

definition requiesce ::
  "('w, 'r) unit_host_scheme \<Rightarrow> gpu_guard \<Rightarrow> ('w, 'z, bool \<times> gpu_guard) action" where
  "requiesce H g = do {
     g' \<leftarrow> requiesce_services H (gg_specs g) (g\<lparr>gg_requiesce_errors := []\<rparr>);
     give (gg_requiesce_errors g' = [], g')
   }"

subsection \<open>Starting again\<close>

definition service_restored :: "trusted_service_spec \<Rightarrow> service_observation \<Rightarrow> gpu_guard \<Rightarrow> gpu_guard" where
  "service_restored spec ob g =
     (if \<not> so_active ob then restore_failed (ts_unit spec @ '' did not return to its original active state'') g
      else g\<lparr>gg_pending_restore := AList.delete (ts_unit spec) (gg_pending_restore g)\<rparr>)"

definition start_service ::
  "('w, 'r) unit_host_scheme \<Rightarrow> trusted_service_spec \<Rightarrow> gpu_guard \<Rightarrow> ('w, 'z, gpu_guard) action" where
  "start_service H spec g = do {
     (checks, error) \<leftarrow> validate_trusted_gpu_service_spec_start H spec;
     let g = with_results checks g;
     (case error of
        Some e \<Rightarrow> give (restore_failed e g)
      | None \<Rightarrow> do {
          r \<leftarrow> run_known H True ''systemctl'' [''start'', ts_unit spec];
          let g = with_results [r] g;
          (if failed r then give (restore_failed (''could not restart '' @ ts_unit spec @ '': ''
             @ command_error ''systemctl start failed'' r) g)
           else do {
             (results, judged) \<leftarrow> observe_trusted_service H spec;
             let g = with_results results g;
             give (case judged of Inl e \<Rightarrow> restore_failed e g | Inr ob \<Rightarrow> service_restored spec ob g)
           })
        })
   }"

definition restore_service ::
  "('w, 'r) unit_host_scheme \<Rightarrow> trusted_service_spec \<Rightarrow> gpu_guard \<Rightarrow> ('w, 'z, gpu_guard) action" where
  "restore_service H spec g = do {
     (results, judged) \<leftarrow> observe_trusted_service H spec;
     let g = with_results results g;
     (case judged of
        Inl e \<Rightarrow> give (restore_failed e g)
      | Inr ob \<Rightarrow> if so_active ob then give (service_restored spec ob g) else start_service H spec g)
   }"

fun restore_services ::
  "('w, 'r) unit_host_scheme \<Rightarrow> trusted_service_spec list \<Rightarrow> gpu_guard \<Rightarrow> ('w, 'z, gpu_guard) action" where
  "restore_services H [] g = give g"
| "restore_services H (spec # specs) g = do {
     g' \<leftarrow> restore_service H spec g;
     restore_services H specs g'
   }"

definition selected :: "string list option \<Rightarrow> string \<Rightarrow> bool" where
  "selected units u \<longleftrightarrow> (case units of None \<Rightarrow> True | Some us \<Rightarrow> u \<in> set us)"

definition restore_guarded ::
  "('w, 'r) unit_host_scheme \<Rightarrow> string list option \<Rightarrow> gpu_guard \<Rightarrow> ('w, 'z, bool \<times> gpu_guard) action" where
  "restore_guarded H units g = do {
     g' \<leftarrow> restore_services H (map snd (filter (\<lambda>(u, _). selected units u) (rev (gg_pending_restore g)))) g;
     give (gg_restore_errors g' = [] \<and> filter (\<lambda>(u, _). selected units u) (gg_pending_restore g') = [], g')
   }"

subsection \<open>Stopping at first\<close>

definition quiesce_failed ::
  "('w, 'r) unit_host_scheme \<Rightarrow> bool \<Rightarrow> string \<Rightarrow> gpu_guard \<Rightarrow> ('w, 'z, gpu_guard) action" where
  "quiesce_failed H restore e g =
     (if restore then do { (_, g') \<leftarrow> restore_guarded H None (g\<lparr>gg_error := Some e\<rparr>); give g' }
      else give (g\<lparr>gg_error := Some e\<rparr>))"

definition adopt_service :: "trusted_service_spec \<Rightarrow> gpu_guard \<Rightarrow> gpu_guard" where
  "adopt_service spec g =
     g\<lparr>gg_originally_active := AList.update (ts_unit spec) spec (gg_originally_active g),
       gg_pending_restore := AList.update (ts_unit spec) spec (gg_pending_restore g)\<rparr>"

fun quiesce_services ::
  "('w, 'r) unit_host_scheme \<Rightarrow> bool \<Rightarrow> trusted_service_spec list \<Rightarrow> gpu_guard \<Rightarrow> ('w, 'z, gpu_guard) action" where
  "quiesce_services H restore [] g = give g"
| "quiesce_services H restore (spec # specs) g = do {
     (results, judged) \<leftarrow> observe_trusted_service H spec;
     (let g = with_results results g in case judged of
        Inl e \<Rightarrow> quiesce_failed H restore e g
      | Inr ob \<Rightarrow>
          if \<not> so_active ob then quiesce_services H restore specs g
          else do {
            r \<leftarrow> run_known H True ''systemctl'' [''stop'', ts_unit spec];
            (let g = with_results [r] (adopt_service spec g) in
             if failed r then quiesce_failed H restore (''could not quiesce '' @ ts_unit spec @ '': ''
               @ command_error ''systemctl stop failed'' r) g
             else do {
               (results, judged) \<leftarrow> observe_trusted_service H spec;
               (let g = with_results results g in case judged of
                  Inl e \<Rightarrow> quiesce_failed H restore e g
                | Inr stopped \<Rightarrow>
                    if so_active stopped
                    then quiesce_failed H restore (ts_unit spec @ '' remained active after systemctl stop'') g
                    else quiesce_services H restore specs g)
             })
          })
   }"

definition quiesce_trusted_gpu_services ::
  "('w, 'r) unit_host_scheme \<Rightarrow> bool \<Rightarrow> ('w, 'z, gpu_guard) action" where
  "quiesce_trusted_gpu_services H restore = do {
     available \<leftarrow> exists_executable H ''systemctl'';
     (if \<not> available then give ((new_guard trusted_gpu_services)\<lparr>gg_error :=
        Some ''trusted systemctl executable is required to qualify GPU services''\<rparr>)
      else quiesce_services H restore trusted_gpu_services (new_guard trusted_gpu_services))
   }"

end
