(* ===== verification/GpuGuardProps.thy ===== *)
theory GpuGuardProps
  imports GpuGuard UnitChecks
begin

text \<open>
  The guard as a state machine: its methods are steps, and an invariant over all reachable states says
  which services it may start again.
\<close>

section \<open>The invariant\<close>

text \<open>A guard waits to restore only services that it found active itself.\<close>

definition guard_inv :: "gpu_guard \<Rightarrow> bool" where
  "guard_inv g \<longleftrightarrow>
     distinct (map ts_unit (gg_specs g))
     \<and> set (gg_pending_restore g) \<subseteq> set (gg_originally_active g)
     \<and> (\<forall>(u, spec) \<in> set (gg_originally_active g). ts_unit spec = u \<and> spec \<in> set (gg_specs g))
     \<and> distinct (map fst (gg_originally_active g)) \<and> distinct (map fst (gg_pending_restore g))"

lemma trusted_gpu_services_distinct: "distinct (map ts_unit trusted_gpu_services)"
  by (simp add: trusted_gpu_services_def)

lemma guard_inv_new: "distinct (map ts_unit specs) \<Longrightarrow> guard_inv (new_guard specs)"
  by (simp add: guard_inv_def new_guard_def)

text \<open>Fields that the invariant does not mention\<close>

lemma guard_inv_fields [simp]:
  "guard_inv (with_results rs g) = guard_inv g" "guard_inv (requiesce_failed e g) = guard_inv g"
  "guard_inv (restore_failed e g) = guard_inv g" "guard_inv (mark_mutation_started g) = guard_inv g"
  "guard_inv (g\<lparr>gg_error := x\<rparr>) = guard_inv g" "guard_inv (g\<lparr>gg_requiesce_errors := ys\<rparr>) = guard_inv g"
  by (simp_all add: guard_inv_def with_results_def requiesce_failed_def restore_failed_def mark_mutation_started_def)

lemma guard_specs_fields [simp]:
  "gg_specs (with_results rs g) = gg_specs g" "gg_specs (requiesce_failed e g) = gg_specs g"
  "gg_specs (restore_failed e g) = gg_specs g" "gg_specs (mark_mutation_started g) = gg_specs g"
  "gg_specs (settle_service spec g) = gg_specs g" "gg_specs (adopt_service spec g) = gg_specs g"
  "gg_specs (service_restored spec ob g) = gg_specs g" "gg_specs (relinquish units g) = gg_specs g"
  by (simp_all add: with_results_def requiesce_failed_def restore_failed_def mark_mutation_started_def
      settle_service_def adopt_service_def service_restored_def relinquish_def)

lemma set_update_subset: "set (AList.update k v xs) \<subseteq> insert (k, v) (set xs)"
  by (induction xs) auto

lemma update_distinct: "distinct (map fst xs) \<Longrightarrow> distinct (map fst (AList.update k v xs))"
  by (rule distinct_update)

lemma guard_inv_settle:
  assumes "guard_inv g" and "spec \<in> set (gg_specs g)"
  shows "guard_inv (settle_service spec g)"
proof (cases "ts_unit spec \<in> set (map fst (gg_originally_active g))")
  case True
  then obtain spec' where active: "(ts_unit spec, spec') \<in> set (gg_originally_active g)" by auto
  then have "ts_unit spec' = ts_unit spec" "spec' \<in> set (gg_specs g)"
    using assms(1) by (auto simp: guard_inv_def)
  then have "spec' = spec" using assms by (auto simp: guard_inv_def distinct_map dest: inj_onD)
  then show ?thesis
    using assms active True set_update_subset [of "ts_unit spec" spec "gg_pending_restore g"]
    by (auto simp: guard_inv_def settle_service_def update_distinct)
qed (use assms in \<open>simp add: settle_service_def\<close>)

lemma set_update_same:
  "(\<And>x. (k, x) \<in> set xs \<Longrightarrow> x = v) \<Longrightarrow> set (AList.update k v xs) = insert (k, v) (set xs)"
proof (induction xs)
  case (Cons p xs)
  obtain k' v' where "p = (k', v')" by force
  then show ?case using Cons by (cases "k' = k") auto
qed simp

lemma guard_inv_adopt:
  assumes "guard_inv g" and "spec \<in> set (gg_specs g)"
  shows "guard_inv (adopt_service spec g)"
proof -
  let ?u = "ts_unit spec"
  have same: "x = spec" if "(?u, x) \<in> set (gg_originally_active g)" for x
  proof -
    have "ts_unit x = ?u" "x \<in> set (gg_specs g)" using that assms(1) by (auto simp: guard_inv_def)
    then show ?thesis using assms by (auto simp: guard_inv_def distinct_map dest: inj_onD)
  qed
  have "set (AList.update ?u spec (gg_originally_active g)) = insert (?u, spec) (set (gg_originally_active g))"
    using same by (rule set_update_same)
  moreover have "set (AList.update ?u spec (gg_pending_restore g))
      \<subseteq> insert (?u, spec) (set (gg_pending_restore g))"
    by (rule set_update_subset)
  ultimately show ?thesis
    using assms by (fastforce simp: guard_inv_def adopt_service_def update_distinct)
qed

lemma guard_inv_restored: "guard_inv g \<Longrightarrow> guard_inv (service_restored spec ob g)"
  by (auto simp: guard_inv_def service_restored_def restore_failed_def AList.delete_eq distinct_map_filter)

lemma guard_inv_relinquish: "guard_inv g \<Longrightarrow> guard_inv (relinquish units g)"
  by (auto simp: guard_inv_def relinquish_def distinct_map_filter)

section \<open>Ownership\<close>

definition stop_command :: "string \<Rightarrow> string list" where "stop_command u = [''systemctl'', ''stop'', u]"

definition start_command :: "string \<Rightarrow> string list" where "start_command u = [''systemctl'', ''start'', u]"

definition stopped_in :: "runner_event list \<Rightarrow> string \<Rightarrow> bool" where
  "stopped_in es u \<longleftrightarrow> Started (stop_command u) True \<in> set es"

text \<open>Every unit that is started was stopped before.\<close>

definition owns_restarts :: "runner_event list \<Rightarrow> bool" where
  "owns_restarts es \<longleftrightarrow> (\<forall>xs u ys. es = xs @ Started (start_command u) True # ys \<longrightarrow> stopped_in xs u)"

lemma stopped_in_append [simp]: "stopped_in (xs @ ys) u \<longleftrightarrow> stopped_in xs u \<or> stopped_in ys u"
  by (auto simp: stopped_in_def)

lemma owns_restarts_Nil: "owns_restarts []"
  by (simp add: owns_restarts_def)

lemma owns_restarts_snoc:
  "owns_restarts (xs @ [e]) \<longleftrightarrow>
     owns_restarts xs \<and> (\<forall>u. e = Started (start_command u) True \<longrightarrow> stopped_in xs u)"
proof -
  have split: "xs @ [e] = as @ b # bs \<longleftrightarrow>
      bs = [] \<and> as = xs \<and> b = e \<or> (\<exists>cs. bs = cs @ [e] \<and> xs = as @ b # cs)" for as b bs
    by (cases bs rule: rev_cases) auto
  show ?thesis unfolding owns_restarts_def split by blast
qed

text \<open>Events among which no unit is started.\<close>

definition no_start :: "runner_event list \<Rightarrow> bool" where
  "no_start es \<longleftrightarrow> (\<forall>u. Started (start_command u) True \<notin> set es)"

lemma no_start_simps [simp]:
  "no_start []" "no_start (e # es) \<longleftrightarrow> (\<forall>u. e \<noteq> Started (start_command u) True) \<and> no_start es"
  by (auto simp: no_start_def)

lemma owns_restarts_no_start: "no_start ys \<Longrightarrow> owns_restarts xs \<Longrightarrow> owns_restarts (xs @ ys)"
proof (induction ys rule: rev_induct)
  case (snoc y ys)
  then have "no_start ys" by (simp add: no_start_def)
  with snoc show ?case
    by (auto simp: owns_restarts_snoc no_start_def simp flip: append_assoc)
qed simp

lemma quiet_no_start: "quiet es \<Longrightarrow> no_start es"
  by (induction es) auto

definition guards :: "trusted_service_spec list \<Rightarrow> runner_event list \<Rightarrow> gpu_guard \<Rightarrow> bool" where
  "guards specs es g \<longleftrightarrow>
     gg_specs g = specs \<and> guard_inv g \<and> owns_restarts es
     \<and> (\<forall>u \<in> fst ` set (gg_originally_active g). stopped_in es u)"

lemma guards_more: "guards specs es g \<Longrightarrow> no_start xs \<Longrightarrow> guards specs (es @ xs) g"
  by (auto simp: guards_def owns_restarts_no_start)

lemma guards_fields [simp]:
  "guards specs es (with_results rs g) = guards specs es g"
  "guards specs es (requiesce_failed e g) = guards specs es g"
  "guards specs es (restore_failed e g) = guards specs es g"
  "guards specs es (mark_mutation_started g) = guards specs es g"
  "guards specs es (g\<lparr>gg_error := x\<rparr>) = guards specs es g"
  "guards specs es (g\<lparr>gg_requiesce_errors := ys\<rparr>) = guards specs es g"
  by (simp_all add: guards_def) (simp_all add: with_results_def requiesce_failed_def restore_failed_def
      mark_mutation_started_def)

lemma guards_settle: "guards specs es g \<Longrightarrow> spec \<in> set specs \<Longrightarrow> guards specs es (settle_service spec g)"
  by (simp add: guards_def guard_inv_settle) (simp add: settle_service_def)

lemma guards_restored: "guards specs es g \<Longrightarrow> guards specs es (service_restored spec ob g)"
  by (simp add: guards_def guard_inv_restored) (simp add: service_restored_def restore_failed_def)

lemma guards_relinquish: "guards specs es g \<Longrightarrow> guards specs es (relinquish units g)"
  by (simp add: guards_def guard_inv_relinquish) (auto simp: relinquish_def)

lemma guards_adopt:
  assumes "guards specs es g" and "spec \<in> set specs" and "stopped_in es (ts_unit spec)"
  shows "guards specs es (adopt_service spec g)"
proof -
  have "fst ` set (gg_originally_active (adopt_service spec g))
      \<subseteq> insert (ts_unit spec) (fst ` set (gg_originally_active g))"
    using set_update_subset [of "ts_unit spec" spec "gg_originally_active g"]
    by (fastforce simp: adopt_service_def)
  moreover have "\<forall>u \<in> insert (ts_unit spec) (fst ` set (gg_originally_active g)). stopped_in es u"
    using assms(1,3) by (simp add: guards_def)
  ultimately have "\<forall>u \<in> fst ` set (gg_originally_active (adopt_service spec g)). stopped_in es u"
    by (meson subsetD)
  then show ?thesis
    using assms(1,2) guard_inv_adopt [of g spec] unfolding guards_def by simp
qed

lemma adopt_with_results [simp]:
  "adopt_service spec (with_results rs g) = with_results rs (adopt_service spec g)"
  by (simp add: adopt_service_def with_results_def)

section \<open>The methods keep it\<close>

lemma guards_emits_silent:
  assumes "silent m" and "guards specs es g" and "\<And>a xs. guards specs (es @ xs) g \<Longrightarrow> Q a xs"
  shows "emits m Q"
  by (rule emits_silent [OF assms(1)]) (rule assms(3), rule guards_more [OF assms(2) quiet_no_start])

lemma emits_guard_silent:
  assumes "silent m" and "guards specs es g"
    and "\<And>a xs. guards specs (es @ xs) g \<Longrightarrow> emits (f a) (\<lambda>b ys. guards specs (es @ xs @ ys) (h b))"
  shows "emits (State_Monad.bind m f) (\<lambda>b ys. guards specs (es @ ys) (h b))"
  by (rule emits_after_silent [OF assms(1)])
    (rule assms(3), rule guards_more [OF assms(2) quiet_no_start], assumption)

lemma emits_guard_command:
  assumes "guards specs es g" and "\<forall>u. program # args = start_command u \<longrightarrow> stopped_in es u"
    and "\<And>a xs. guards specs (es @ xs) g \<Longrightarrow> Started (program # args) True \<in> set xs
      \<Longrightarrow> emits (f a) (\<lambda>b ys. guards specs (es @ xs @ ys) (h b))"
  shows "emits (State_Monad.bind (run_known R True program args) f) (\<lambda>b ys. guards specs (es @ ys) (h b))"
proof -
  have "guards specs (es @ [Started (program # args) True, Finished r True]) g" for r
  proof -
    have "guards specs (es @ [Started (program # args) True]) g"
      using assms(1,2) by (auto simp: guards_def owns_restarts_snoc)
    from guards_more [OF this, of "[Finished r True]"] show ?thesis by simp
  qed
  then show ?thesis
    by (intro emits_then [OF emits_run_known [where Q = "\<lambda>r xs. guards specs (es @ xs) g
      \<and> Started (program # args) True \<in> set xs"]]) (auto intro: assms(3))
qed

lemma emits_guard_give: "guards specs es g \<Longrightarrow> emits (give g) (\<lambda>g' ys. guards specs (es @ ys) g')"
  by (intro emits_intros) simp

lemma silent_validate_start [quiet_intros]: "silent (validate_trusted_gpu_service_spec_start H spec)"
  unfolding validate_trusted_gpu_service_spec_start_def start_validation_result_def
  by (intro quiet_intros) (simp_all add: verdict_result_def unit_query_def)

lemma emits_requiesce_stopped:
  assumes "guards specs es g" and "spec \<in> set specs"
  shows "emits (requiesce_stopped H spec g) (\<lambda>g' ys. guards specs (es @ ys) g')"
  unfolding requiesce_stopped_def Let_def
  by (rule emits_guard_silent [where h = "\<lambda>g. g", OF silent_observe_service assms(1)], intro emits_intros)
    (simp add: guards_settle assms(2) split: sum.split)

lemma emits_requiesce_service:
  assumes "guards specs es g" and "spec \<in> set specs"
  shows "emits (requiesce_service H spec g) (\<lambda>g' ys. guards specs (es @ ys) g')"
  unfolding requiesce_service_def Let_def
  apply (rule emits_guard_silent [where h = "\<lambda>g. g", OF silent_observe_service assms(1)])
  apply (simp only: flip: append_assoc)
  apply (intro emits_prod emits_sum emits_if)
  subgoal by (intro emits_intros) simp
  subgoal by (intro emits_intros) (simp add: guards_settle assms(2))
  subgoal
    apply (rule emits_guard_command [where h = "\<lambda>g. g"], assumption, simp add: start_command_def)
    apply (simp only: flip: append_assoc)
    apply (intro emits_if)
    subgoal by (intro emits_intros) simp
    subgoal by (rule emits_requiesce_stopped) (simp_all add: assms(2))
    done
  done

lemma emits_requiesce_services:
  assumes "guards specs es g" and "set todo \<subseteq> set specs"
  shows "emits (requiesce_services H todo g) (\<lambda>g' ys. guards specs (es @ ys) g')"
  using assms
proof (induction todo arbitrary: es g)
  case (Cons spec todo)
  show ?case
    unfolding requiesce_services.simps
    by (rule emits_then [OF emits_requiesce_service [OF Cons.prems(1)]])
      (use Cons in \<open>simp_all flip: append_assoc\<close>)
qed (simp add: emits_guard_give)

lemma emits_requiesce:
  assumes "guards specs es g"
  shows "emits (requiesce H g) (\<lambda>(_, g') ys. guards specs (es @ ys) g')"
  unfolding requiesce_def
  by (rule emits_then [OF emits_requiesce_services [where specs = specs and es = es]], use assms in \<open>simp_all add: guards_def\<close>)
    (intro emits_intros, simp)

lemma emits_start_service:
  assumes "guards specs es g" and "stopped_in es (ts_unit spec)"
  shows "emits (start_service H spec g) (\<lambda>g' ys. guards specs (es @ ys) g')"
  unfolding start_service_def Let_def
  apply (rule emits_guard_silent [where h = "\<lambda>g. g", OF silent_validate_start assms(1)])
  apply (simp only: flip: append_assoc)
  apply (intro emits_prod emits_option)
  subgoal
    apply (rule emits_guard_command [where h = "\<lambda>g. g"], assumption)
    subgoal using assms(2) by (simp add: start_command_def)
    apply (simp only: flip: append_assoc)
    apply (intro emits_if)
    subgoal by (intro emits_intros) simp
    subgoal
      apply (rule emits_guard_silent [where h = "\<lambda>g. g", OF silent_observe_service], assumption)
      apply (intro emits_intros)
      apply (simp add: guards_restored split: sum.split)
      done
    done
  subgoal by (intro emits_intros) simp
  done

lemma emits_restore_service:
  assumes "guards specs es g" and "stopped_in es (ts_unit spec)"
  shows "emits (restore_service H spec g) (\<lambda>g' ys. guards specs (es @ ys) g')"
  unfolding restore_service_def Let_def
  apply (rule emits_guard_silent [where h = "\<lambda>g. g", OF silent_observe_service assms(1)])
  apply (simp only: flip: append_assoc)
  apply (intro emits_prod emits_sum emits_if)
  subgoal by (intro emits_intros) simp
  subgoal by (intro emits_intros) (simp add: guards_restored)
  subgoal by (rule emits_start_service) (simp_all add: assms(2))
  done

lemma emits_restore_services:
  assumes "guards specs es g" and "\<forall>spec \<in> set todo. stopped_in es (ts_unit spec)"
  shows "emits (restore_services H todo g) (\<lambda>g' ys. guards specs (es @ ys) g')"
  using assms
proof (induction todo arbitrary: es g)
  case (Cons spec todo)
  show ?case
    unfolding restore_services.simps
    by (rule emits_then [OF emits_restore_service [OF Cons.prems(1)]])
      (use Cons in \<open>simp_all flip: append_assoc\<close>)
qed (simp add: emits_guard_give)

lemma pending_stopped:
  assumes "guards specs es g" and "(u, spec) \<in> set (gg_pending_restore g)"
  shows "stopped_in es (ts_unit spec)"
proof -
  from assms have "(u, spec) \<in> set (gg_originally_active g)" by (auto simp: guards_def guard_inv_def)
  moreover from this assms have "ts_unit spec = u" by (auto simp: guards_def guard_inv_def)
  ultimately show ?thesis using assms(1) unfolding guards_def by force
qed

lemma emits_restore_guarded:
  assumes "guards specs es g"
  shows "emits (restore_guarded H units g) (\<lambda>(_, g') ys. guards specs (es @ ys) g')"
  unfolding restore_guarded_def
  by (rule emits_then [OF emits_restore_services [OF assms]])
    (auto intro: pending_stopped [OF assms] intro!: emits_intros)

lemma emits_quiesce_failed:
  assumes "guards specs es g"
  shows "emits (quiesce_failed H restore e g) (\<lambda>g' ys. guards specs (es @ ys) g')"
proof -
  have "emits (restore_guarded H None (g\<lparr>gg_error := Some e\<rparr>)) (\<lambda>(_, g') ys. guards specs (es @ ys) g')"
    by (rule emits_restore_guarded) (simp add: assms)
  then show ?thesis
    unfolding quiesce_failed_def
    by (intro emits_if emits_then [where P = "\<lambda>(_, g') ys. guards specs (es @ ys) g'"])
      (auto intro!: emits_intros simp: assms)
qed

lemma emits_quiesce_services:
  assumes "guards specs es g" and "set todo \<subseteq> set specs"
  shows "emits (quiesce_services H restore todo g :: ('w, 'z, gpu_guard) action) (\<lambda>g' ys. guards specs (es @ ys) g')"
  using assms
proof (induction todo arbitrary: es g)
  case (Cons spec todo)
  have spec: "spec \<in> set specs" and todo: "set todo \<subseteq> set specs" using Cons.prems(2) by auto
  have go: "emits (quiesce_services H restore todo (with_results rs g) :: ('w, 'z, gpu_guard) action)
      (\<lambda>g' ys. guards specs (es @ ys) g')"
    if "guards specs es g" for rs es g
    by (rule Cons.IH [OF _ todo]) (simp add: that)
  have stop: "emits (quiesce_failed H restore e (with_results rs g) :: ('w, 'z, gpu_guard) action)
      (\<lambda>g' ys. guards specs (es @ ys) g')"
    if "guards specs es g" for rs e es g
    by (rule emits_quiesce_failed) (simp add: that)
  show ?case
    unfolding quiesce_services.simps Let_def
    apply (rule emits_guard_silent [where h = "\<lambda>g. g", OF silent_observe_service Cons.prems(1)])
    apply (simp only: flip: append_assoc)
    apply (intro emits_prod emits_sum emits_if)
    subgoal by (rule stop)
    subgoal by (rule go)
    subgoal premises p for a es'
      apply (rule emits_guard_command [where h = "\<lambda>g. g", OF p(1)], simp add: start_command_def)
      subgoal premises q for r xs
      proof -
        have adopted: "guards specs ((es @ es') @ xs) (adopt_service spec (with_results rs g))" for rs
          using q by (intro guards_adopt spec) (simp_all add: stopped_in_def stop_command_def)
        show ?thesis
          unfolding append_assoc [symmetric]
          apply (rule emits_if)
          subgoal by (rule stop [OF adopted])
          apply (rule emits_guard_silent [where h = "\<lambda>g. g", OF silent_observe_service adopted])
          apply (unfold append_assoc [symmetric])
          apply (rule emits_prod, rule emits_sum)
          subgoal by (rule stop) simp
          apply (rule emits_if)
          subgoal by (rule stop) simp
          subgoal by (rule go) simp
          done
      qed
      done
    done
qed (simp add: emits_guard_give)

lemma guards_new:
  "distinct (map ts_unit specs) \<Longrightarrow> owns_restarts es \<Longrightarrow> guards specs es (new_guard specs)"
  by (simp add: guards_def guard_inv_new) (simp add: new_guard_def)

lemma emits_quiesce:
  assumes "owns_restarts es"
  shows "emits (quiesce_trusted_gpu_services H restore) (\<lambda>g ys. guards trusted_gpu_services (es @ ys) g)"
proof -
  have new: "guards trusted_gpu_services es (new_guard trusted_gpu_services)"
    by (rule guards_new [OF trusted_gpu_services_distinct assms])
  show ?thesis
    unfolding quiesce_trusted_gpu_services_def
    apply (rule emits_guard_silent [where h = "\<lambda>g. g", OF silent_exists new])
    apply (simp only: flip: append_assoc)
    apply (rule emits_if)
    subgoal by (intro emits_intros) simp
    subgoal by (rule emits_quiesce_services) simp_all
    done
qed

section \<open>Every reachable guard\<close>

text \<open>
  The life of a guard over a journaled session: it is made by the first quiescence, and then its
  methods and other actions, which start no unit, follow in any order.
\<close>

inductive guard_reachable ::
  "('w, 'r) unit_host_scheme \<Rightarrow> gpu_guard \<Rightarrow> ('w, 'z) session_scheme \<Rightarrow> bool"
  for H :: "('w, 'r) unit_host_scheme" where
  Quiesce: "se_journaled s \<Longrightarrow> no_start (se_events s)
     \<Longrightarrow> run_state (quiesce_trusted_gpu_services H restore) s = (g, s') \<Longrightarrow> guard_reachable H g s'"
| Requiesce: "guard_reachable H g s \<Longrightarrow> run_state (requiesce H g) s = ((ok, g'), s') \<Longrightarrow> guard_reachable H g' s'"
| Restore: "guard_reachable H g s \<Longrightarrow> run_state (restore_guarded H units g) s = ((ok, g'), s')
     \<Longrightarrow> guard_reachable H g' s'"
| Relinquish: "guard_reachable H g s \<Longrightarrow> guard_reachable H (relinquish units g) s"
| Mark: "guard_reachable H g s \<Longrightarrow> guard_reachable H (mark_mutation_started g) s"
| Elsewhere: "guard_reachable H g s \<Longrightarrow> se_journaled s' \<Longrightarrow> se_events s' = se_events s @ es \<Longrightarrow> no_start es
     \<Longrightarrow> guard_reachable H g s'"

lemma reachable_guards:
  assumes "guard_reachable H g s"
  shows "se_journaled s \<and> guards trusted_gpu_services (se_events s) g"
  using assms
proof induction
  case (Quiesce s restore g s')
  then have "owns_restarts (se_events s)"
    using owns_restarts_no_start [of "se_events s" "[]"] by (simp add: owns_restarts_Nil)
  from emitsD [OF emits_quiesce [OF this] Quiesce(1,3)] show ?case by metis
next
  case (Requiesce g s ok g' s')
  then have "guards trusted_gpu_services (se_events s) g" "se_journaled s" by simp_all
  from emitsD [OF emits_requiesce [OF this(1)] this(2) Requiesce(2)] show ?case by (metis case_prod_conv)
next
  case (Restore g s units ok g' s')
  then have "guards trusted_gpu_services (se_events s) g" "se_journaled s" by simp_all
  from emitsD [OF emits_restore_guarded [OF this(1)] this(2) Restore(2)] show ?case by (metis case_prod_conv)
next
  case (Relinquish g s units)
  then show ?case by (simp add: guards_relinquish)
next
  case (Elsewhere g s s' es)
  then show ?case by (simp add: guards_more)
qed simp

lemma subset_holds: "A \<subseteq> B \<Longrightarrow> \<forall>u \<in> B. P u \<Longrightarrow> A \<subseteq> {u. P u}"
  by blast


section \<open>A host\<close>

text \<open>
  A host whose persistence daemon runs while its world is true, and whose fabric manager is not
  installed.
\<close>

definition unit_report :: "(string \<times> string) list \<Rightarrow> string" where
  "unit_report known = join [CHR 0x0A]
     (map (\<lambda>name. name @ ''='' @ (case map_of known name of Some v \<Rightarrow> v | None \<Rightarrow> [])) service_properties)"

definition persistenced_report :: "bool \<Rightarrow> string" where
  "persistenced_report running = unit_report
     [(''Id'', ''nvidia-persistenced.service''), (''LoadState'', ''loaded''),
      (''ActiveState'', if running then ''active'' else ''inactive''),
      (''SubState'', if running then ''running'' else ''dead''), (''MainPID'', if running then ''7'' else ''0''),
      (''FragmentPath'', ''/lib/systemd/system/nvidia-persistenced.service''),
      (''ExecStart'', ''{ path=/usr/bin/nvidia-persistenced ; }'')]"

definition absent_report :: "string \<Rightarrow> string" where
  "absent_report u = unit_report [(''Id'', u), (''LoadState'', ''not-found''), (''ActiveState'', ''inactive''),
     (''SubState'', ''dead''), (''MainPID'', ''0'')]"

definition systemctl_run :: "process_request \<Rightarrow> bool \<Rightarrow> process_outcome \<times> bool" where
  "systemctl_run p running =
     (let u = last (pr_command p)
      in if pr_command p ! 1 = ''show'' then
           (Exited 0 [if u = ''nvidia-persistenced.service'' then persistenced_report running else absent_report u] [],
            running)
         else (Exited 0 [] [], pr_command p ! 1 = ''start''))"

definition guarded_host :: "bool unit_host" where
  "guarded_host =
     \<lparr>ru_apply = True, ru_timeout = 30, ru_mutation_timeout = 600, ru_executable_path = ''/usr/bin'',
      ru_environ = [], ru_home = None, ru_trusted_directory = (\<lambda>d _. Some d),
      ru_which = (\<lambda>name _. Some (''/usr/bin/'' @ name)), ru_trusted_executable = (\<lambda>p _. Some p),
      ru_decode = (\<lambda>s. s), ru_execute = systemctl_run,
      uh_trusted_file = (\<lambda>_ _ w. (Inr \<lparr>fm_device = 1, fm_inode = 2, fm_mode = 0, fm_owner_uid = 0, fm_size = 1,
        fm_modified_ns = 0, fm_changed_ns = 0\<rparr>, w)),
      uh_mask_path = (\<lambda>_ _ w. (Inr (), w)),
      uh_process_stat = (\<lambda>_ w. (Inr ''7 (nv) S 1 1 1 0 0 0 0 0 0 0 0 0 0 0 20 0 1 0 55 0'', w)),
      uh_process_executable = (\<lambda>_ w. (Inr (1, 2), w)),
      uh_process_cgroup = (\<lambda>_ w. (Inr ''0::/system.slice/nvidia-persistenced.service'', w))\<rparr>"

definition guarded_session :: "bool session" where
  "guarded_session = \<lparr>se_world = True, se_events = [], se_results = [], se_scope = None, se_journaled = True\<rparr>"

text \<open>The guard of that host after the first quiescence, and after the restoration that follows.\<close>

definition quiesced_run :: "gpu_guard \<times> bool session" where
  "quiesced_run = run_state (quiesce_trusted_gpu_services guarded_host True) guarded_session"

definition restored_run :: "(bool \<times> gpu_guard) \<times> bool session" where
  "restored_run = run_state (restore_guarded guarded_host None (fst quiesced_run)) (snd quiesced_run)"


end
