(* ===== verification/SnapshotCreate.thy ===== *)
theory SnapshotCreate
  imports RollbackApply Planner
begin

text \<open>
  Taking a snapshot (\<open>create_snapshot\<close> of \<open>nvidia_converge/rollback.py\<close> with the helpers before it):
  the refusals in their order, the packages a convergence would introduce, the commands that undo
  it, the capture of the managed files, and the writing of the document.
\<close>

section \<open>The host\<close>

text \<open>
  What the inventory of a directory gives: an \<open>OSError\<close> or \<open>BoundedFileError\<close>, a directory that is
  missing or no directory, one that changed between its inspection and its opening or is writable
  by others, or two listings and whether its metadata stayed the same meanwhile.
\<close>

datatype directory_inventory =
    InventoryFailed string
  | InventoryUntrusted
  | InventoryChanged
  | Inventory "string list" "string list" bool

text \<open>
  \<open>cr_now\<close>, \<open>cr_uuid\<close>: \<open>utc_now()\<close> and \<open>uuid4().hex\<close>; \<open>cr_private_directory\<close> and \<open>cr_write\<close>:
  \<open>ensure_private_directory\<close> and \<open>atomic_write_text_trusted\<close>, with the text of their exceptions.
\<close>

record 'w create_host = "'w rollback_host" +
  cr_inventory :: "string \<Rightarrow> 'w \<Rightarrow> directory_inventory"
  cr_now :: "'w \<Rightarrow> string \<times> 'w"
  cr_uuid :: "'w \<Rightarrow> string \<times> 'w"
  cr_private_directory :: "string \<Rightarrow> 'w \<Rightarrow> (string + unit) \<times> 'w"
  cr_write :: "string \<Rightarrow> string \<Rightarrow> 'w \<Rightarrow> (string + unit) \<times> 'w"

datatype create_error =
    CreateRefused string
  | CreateSystem string
  | CreatePlan plan_error
  | CreateBuilder rollback_error

definition checked :: "check_error + 'a \<Rightarrow> create_error + 'a" where
  "checked r = (case r of
     Inl (Refused e) \<Rightarrow> Inl (CreateRefused e) | Inl (SystemError e) \<Rightarrow> Inl (CreateSystem e) | Inr a \<Rightarrow> Inr a)"

section \<open>The fail-safe file of the DNF module\<close>

definition canonical_module_selector :: "package_policy_selector \<Rightarrow> bool" where
  "canonical_module_selector x \<longleftrightarrow>
     pps_identifier x = ''nvidia-driver'' \<and> pps_name x = ''nvidia-driver'' \<and> pps_kind x = ''module''
     \<and> pps_relation x = Some ''stream'' \<and> pps_repositories x = []
     \<and> (case pps_version x of None \<Rightarrow> False | Some stream \<Rightarrow> failsafe_stream stream)"

definition failsafe_name :: "string \<Rightarrow> string \<Rightarrow> bool" where
  "failsafe_name stream name \<longleftrightarrow>
     (let prefix = ''nvidia-driver:'' @ stream @ '':''
      in startswith name prefix \<and> failsafe_file (drop (length prefix) name))"

definition failsafe_target :: "string \<Rightarrow> directory_inventory \<Rightarrow> create_error + string" where
  "failsafe_target stream inventory =
     (case inventory of
        InventoryFailed e \<Rightarrow>
          Inl (CreateRefused (''cannot inventory DNF module fail-safe target: '' @ e))
      | InventoryUntrusted \<Rightarrow>
          Inl (CreateRefused ''DNF module fail-safe directory is not a trusted directory'')
      | InventoryChanged \<Rightarrow>
          Inl (CreateRefused ''DNF module fail-safe directory changed or is not trusted'')
      | Inventory names again same \<Rightarrow>
          (case filter (failsafe_name stream) (sort names) of
             [target] \<Rightarrow>
               if sort again \<noteq> sort names
               then Inl (CreateRefused ''cannot identify one stable DNF module fail-safe target'')
               else if \<not> same
               then Inl (CreateRefused ''DNF module fail-safe directory changed during inventory'')
               else if \<not> is_managed_path (dnf_module_failsafe_directory @ ''/'' @ target)
               then Inl (CreateRefused ''derived DNF module fail-safe target is unsafe'')
               else Inr (dnf_module_failsafe_directory @ ''/'' @ target)
           | _ \<Rightarrow> Inl (CreateRefused ''cannot identify one stable DNF module fail-safe target'')))"

definition dnf_module_failsafe_path_from_audit ::
  "('w, 'r) create_host_scheme \<Rightarrow> 'w \<Rightarrow> host_audit \<Rightarrow> create_error + string option" where
  "dnf_module_failsafe_path_from_audit H w a =
     (let policy = ha_package_policy a
      in if ha_package_manager a \<noteq> Some ''dnf'' then Inr None
         else if \<not> ppi_observable policy \<or> ppi_backend policy \<noteq> Some ''dnf'' then Inr None
         else case ppi_selectors policy of
           [] \<Rightarrow> Inr None
         | [selector] \<Rightarrow>
             if \<not> canonical_module_selector selector
             then Inl (CreateRefused
               ''cannot derive DNF fail-safe target from a noncanonical module selector'')
             else bind_r (failsafe_target (or_empty (pps_version selector))
                 (cr_inventory H dnf_module_failsafe_directory w)) (\<lambda>path. Inr (Some path))
         | _ \<Rightarrow> Inl (CreateRefused
             ''cannot derive one DNF module fail-safe target from package policy''))"

section \<open>The path of a snapshot\<close>

definition new_snapshot_path ::
  "('w, 'r) create_host_scheme \<Rightarrow> string option \<Rightarrow> string option
   \<Rightarrow> ('w, 'z, create_error + string) action" where
  "new_snapshot_path H path operation_id =
     (case (path, operation_id) of
        (None, Some i) \<Rightarrow>
          give (if hex_of_length 32 i then Inr (snapshot_dir @ ''/snapshot-'' @ i @ ''.json'')
            else Inl (CreateRefused
              ''snapshot path operation_id must be a 32-character lowercase hex identifier''))
      | _ \<Rightarrow> do {
          now \<leftarrow> on_world (cr_now H);
          (if or_empty path \<noteq> [] then give (Inr (path_text (abspath (sn_cwd H) (or_empty path))))
           else do {
             uuid \<leftarrow> on_world (cr_uuid H);
             give (Inr (path_text (abspath (sn_cwd H) (snapshot_dir @ ''/''
               @ map (\<lambda>c. if c = CHR '':'' \<or> c = CHR ''+'' then CHR ''-'' else c) now
               @ ''-'' @ uuid @ ''.json''))))
           })
        })"

section \<open>The refusals\<close>

text \<open>A guard: when it holds, the snapshot is refused with the text.  The first that holds decides.\<close>

type_synonym guard = "bool \<times> string"

fun first_refusal :: "guard list \<Rightarrow> string option" where
  "first_refusal [] = None"
| "first_refusal ((refused, text) # gs) = (if refused then Some text else first_refusal gs)"

definition failsafe_guards :: "bool \<Rightarrow> host_audit \<Rightarrow> string option \<Rightarrow> guard list" where
  "failsafe_guards persist a failsafe =
     [(persist \<and> ha_package_manager a = Some ''dnf'' \<and> failsafe = None,
       ''schema-v2.6 DNF snapshot requires one exact module fail-safe target''),
      (case failsafe of
         None \<Rightarrow> False
       | Some path \<Rightarrow> ha_package_manager a \<noteq> Some ''dnf'' \<or> \<not> is_managed_path path
           \<or> \<not> startswith path (dnf_module_failsafe_directory @ ''/''),
       ''DNF module fail-safe rollback target is not an exact managed path'')]"

definition mig_change_requested :: "desired_state option \<Rightarrow> host_audit \<Rightarrow> bool" where
  "mig_change_requested desired a =
     (case desired of
        None \<Rightarrow> False
      | Some d \<Rightarrow> ha_mig_mode a \<noteq> Some (ds_mig d)
          \<or> (ds_mig d = ''enabled'' \<and> \<not> full_mig_geometry_matches (ha_mig_geometry a) (ha_gpu_uuids a)))"

definition mig_guards :: "bool \<Rightarrow> desired_state option \<Rightarrow> host_audit \<Rightarrow> guard list" where
  "mig_guards persist desired a =
     [(ha_mig_mode a = Some ''mixed'',
       ''cannot snapshot a mixed per-GPU MIG baseline; normalize MIG mode before convergence''),
      (persist \<and> ha_mig_mode_pending a = None,
       ''cannot persist an applicable rollback snapshot without an observable pending MIG mode''),
      (persist \<and> ha_mig_mode_pending a \<noteq> ha_mig_mode a,
       ''cannot persist an applicable rollback snapshot while a MIG transition is pending''),
      (persist \<and> \<not> ha_mig_geometry_complete a,
       ''cannot persist an applicable rollback snapshot without a complete MIG GI/CI geometry observation''),
      (persist \<and> ha_mig_mode a = Some ''disabled'' \<and> (ha_mig_geometry a \<noteq> [] \<or> ha_mig_device_uuids a \<noteq> []),
       ''cannot snapshot MIG devices while current MIG mode is disabled''),
      (persist \<and> mig_change_requested desired a
         \<and> \<not> restorable_mig_geometry (ha_mig_geometry a) (ha_gpu_uuids a),
       ''cannot mutate MIG from a baseline whose exact GI/CI geometry is not safely restorable'')]"

definition identity_guards :: "bool \<Rightarrow> host_audit \<Rightarrow> guard list" where
  "identity_guards persist a =
     [(persist \<and> ha_gpu_uuids a = [],
       ''cannot persist an applicable rollback snapshot without an observable GPU UUID inventory''),
      (persist \<and> ha_package_manager a = None,
       ''cannot persist an applicable rollback snapshot without a supported package manager''),
      (persist \<and> or_empty (ha_os_id a) = [],
       ''cannot persist an applicable rollback snapshot without an observable OS identity''),
      (persist \<and> \<not> ha_package_inventory_complete a,
       ''cannot persist an applicable rollback snapshot from an incomplete package inventory'')]"

definition unknown_fields :: "string \<times> unit_state \<Rightarrow> string list" where
  "unknown_fields = (\<lambda>(u, x).
     (if us_active x = None then [u @ '' active''] else [])
     @ (if us_enabled x = None then [u @ '' enabled''] else [])
     @ (if us_file_state x = None then [u @ '' unit-file''] else []))"

definition unknown_service_states :: "host_audit \<Rightarrow> string list" where
  "unknown_service_states a = sort (concat (map unknown_fields (audit_units a)))"

definition service_guards :: "bool \<Rightarrow> host_audit \<Rightarrow> guard list" where
  "service_guards persist a =
     [(persist \<and> unknown_service_states a \<noteq> [],
       ''cannot persist an applicable rollback snapshot without exact transactional service state: ''
         @ join '', '' (unknown_service_states a)),
      (persist \<and> service_state_consistency_error a \<noteq> None,
       ''cannot persist an applicable rollback snapshot with inconsistent transactional service state: ''
         @ or_empty (service_state_consistency_error a))]"

definition incomplete_versions :: "host_audit \<Rightarrow> string list" where
  "incomplete_versions a =
     map pi_name (filter (\<lambda>p. pi_installed p \<and> or_empty (pi_version p) = []) (ha_packages a))"

definition version_guards :: "bool \<Rightarrow> string \<Rightarrow> host_audit \<Rightarrow> guard list" where
  "version_guards persist operation_id a =
     [(\<not> hex_of_length 32 operation_id,
       ''rollback snapshot operation_id must be a 32-character lowercase hex identifier''),
      (persist \<and> incomplete_versions a \<noteq> [],
       ''cannot persist an applicable rollback snapshot with unknown package versions: ''
         @ join '', '' (sort (incomplete_versions a)))]"

definition refuse_by :: "guard list \<Rightarrow> create_error + unit" where
  "refuse_by gs = (case first_refusal gs of Some e \<Rightarrow> Inl (CreateRefused e) | None \<Rightarrow> Inr ())"

section \<open>The content\<close>

definition snapshot_module_names ::
  "('w, 'r) create_host_scheme \<Rightarrow> 'w \<Rightarrow> bool \<Rightarrow> host_audit \<Rightarrow> create_error + string list" where
  "snapshot_module_names H w persist a =
     (case unload_order H w of
        Inl e \<Rightarrow>
          if persist
          then Inl (CreateRefused (''cannot capture a restorable NVIDIA module graph: '' @ module_error_text e))
          else Inr []
      | Inr names \<Rightarrow>
          if persist \<and> mi_loaded (ha_module a) \<noteq> (''nvidia'' \<in> set names)
          then Inl (CreateRefused ''loaded NVIDIA module audit does not match the observable sysfs module graph'')
          else Inr names)"

definition toolkit_package_closure :: "string list" where
  "toolkit_package_closure =
     [''nvidia-container-toolkit'', ''nvidia-container-toolkit-base'', ''libnvidia-container-tools'',
      ''libnvidia-container1'']"

definition with_toolkit_closure :: "string list \<Rightarrow> string list" where
  "with_toolkit_closure names =
     (if ''nvidia-container-toolkit'' \<in> set names then dedup (names @ toolkit_package_closure) else names)"

text \<open>The packages the convergence may introduce, which a rollback removes.\<close>

definition remove_packages ::
  "string \<Rightarrow> desired_state option \<Rightarrow> host_audit \<Rightarrow> plan_error + string list" where
  "remove_packages script desired a =
     (case (desired, ha_package_manager a) of
        (Some d, Some pm) \<Rightarrow>
          if pm = [] then Inr []
          else bind_r (package_policy_package_targets script d a) (\<lambda>policy_targets.
            let installed_names = map pi_name (filter pi_installed (ha_packages a));
                names = with_toolkit_closure
                  (package_tracking_names pm (package_install_targets d a @ policy_targets)
                    (ki_running (ha_kernel a)))
            in Inr (filter (\<lambda>n. n \<notin> set installed_names) names))
      | _ \<Rightarrow> Inr [])"

definition bind_payloads ::
  "('w, 'r) create_host_scheme \<Rightarrow> bool \<Rightarrow> string \<Rightarrow> package_payload_bundle option \<Rightarrow> host_audit
   \<Rightarrow> ('w, 'z, create_error + unit) action" where
  "bind_payloads H persist path payloads a =
     (if \<not> persist then give (Inr ())
      else case payloads of
        None \<Rightarrow> give (Inl (CreateRefused
          ''cannot persist an applicable rollback snapshot without a complete package payload bundle''))
      | Some bundle \<Rightarrow> do {
          r \<leftarrow> validate_package_payloads H False path bundle (filter pi_installed (ha_packages a))
                (or_empty (ha_package_manager a)) None;
          give (case r of
            Inl (Refused e) \<Rightarrow> Inl (CreateRefused (''cannot bind rollback package payloads: '' @ e))
          | Inl (SystemError e) \<Rightarrow> Inl (CreateSystem e)
          | Inr _ \<Rightarrow> Inr ())
        })"

definition snapshot_error_text :: "snapshot_error \<Rightarrow> string" where
  "snapshot_error_text e =
     (case e of
        FailsafeNotManaged \<Rightarrow> ''DNF module fail-safe rollback target is not managed''
      | CaptureFailed path text \<Rightarrow>
          ''cannot capture managed state file '' @ py_repr path @ '': '' @ text)"

definition snapshot_managed_files ::
  "('w, 'r) create_host_scheme \<Rightarrow> 'w \<Rightarrow> bool \<Rightarrow> string option \<Rightarrow> string option
   \<Rightarrow> create_error + file_snapshot list" where
  "snapshot_managed_files H w persist pm failsafe =
     (if \<not> persist then Inr []
      else case capture_managed_files H w pm failsafe of
        Inl e \<Rightarrow> Inl (CreateRefused (snapshot_error_text e))
      | Inr files \<Rightarrow> Inr files)"

text \<open>The record before its digest is set.\<close>

definition snapshot_record ::
  "('w, 'r) create_host_scheme \<Rightarrow> host_audit \<Rightarrow> string option \<Rightarrow> string \<Rightarrow> string list list
   \<Rightarrow> string list \<Rightarrow> string list \<Rightarrow> string \<Rightarrow> string \<Rightarrow> file_snapshot list \<Rightarrow> package_payload_bundle option
   \<Rightarrow> rollback_snapshot" where
  "snapshot_record H a path operation_id commands introduced modules now host files payloads =
     \<lparr>rs_path = path, rs_packages = filter pi_installed (ha_packages a), rs_kernel = ki_running (ha_kernel a),
      rs_module_version = mi_version (ha_module a), rs_commands = commands,
      rs_schema_version = snapshot_schema_version, rs_created_at = now, rs_operation_id = operation_id,
      rs_host_id = host, rs_os_id = ha_os_id a, rs_os_version = ha_os_version a,
      rs_architecture = sn_machine H, rs_package_manager = ha_package_manager a,
      rs_introduced_packages = introduced, rs_module_loaded = mi_loaded (ha_module a),
      rs_module_names = modules, rs_module_open_module = mi_open_module (ha_module a),
      rs_module_signed = mi_signed (ha_module a),
      rs_module_installed_version = mi_installed_version (ha_module a),
      rs_module_installed_open_module = mi_installed_open_module (ha_module a),
      rs_module_installed_signed = mi_installed_signed (ha_module a), rs_mig_mode = ha_mig_mode a,
      rs_docker_service_active = ha_docker_service_active a,
      rs_docker_service_enabled = ha_docker_service_enabled a,
      rs_docker_service_unit_file_state = ha_docker_service_unit_file_state a,
      rs_docker_socket_active = ha_docker_socket_active a,
      rs_docker_socket_enabled = ha_docker_socket_enabled a,
      rs_docker_socket_unit_file_state = ha_docker_socket_unit_file_state a,
      rs_nvidia_persistenced_active = ha_nvidia_persistenced_active a,
      rs_nvidia_persistenced_enabled = ha_nvidia_persistenced_enabled a,
      rs_nvidia_persistenced_unit_file_state = ha_nvidia_persistenced_unit_file_state a,
      rs_fabric_manager_active = ha_fabric_manager_active a,
      rs_fabric_manager_enabled = ha_fabric_manager_enabled a,
      rs_fabric_manager_unit_file_state = ha_fabric_manager_unit_file_state a,
      rs_managed_files = files, rs_package_payloads = payloads, rs_gpu_uuids = ha_gpu_uuids a,
      rs_mig_geometry = ha_mig_geometry a, rs_integrity_sha256 = None, rs_source_binding = None\<rparr>"

definition with_integrity :: "('w, 'r) create_host_scheme \<Rightarrow> rollback_snapshot \<Rightarrow> rollback_snapshot" where
  "with_integrity H s = s\<lparr>rs_integrity_sha256 := Some (snapshot_integrity (sn_sha256 H) s)\<rparr>"

section \<open>Writing the document\<close>

text \<open>\<open>json.dumps(value, indent=2, sort_keys=True)\<close>; \<open>n\<close> is the depth.\<close>

definition json_line :: "nat \<Rightarrow> string" where
  "json_line n = CHR 0x0A # replicate (2 * n) CHR '' ''"

fun json_pretty :: "nat \<Rightarrow> json \<Rightarrow> string" where
  "json_pretty n (JList xs) =
     (if xs = [] then ''[]''
      else ''['' @ json_line (Suc n) @ join ('','' @ json_line (Suc n)) (map (json_pretty (Suc n)) xs)
        @ json_line n @ '']'')"
| "json_pretty n (JObj kvs) =
     (if kvs = [] then ''{}''
      else ''{'' @ json_line (Suc n) @ join ('','' @ json_line (Suc n)) (map snd (sort_key fst
          (map (\<lambda>(k, v). (k, json_string k @ '': '' @ json_pretty (Suc n) v)) kvs)))
        @ json_line n @ ''}'')"
| "json_pretty n v = json_dumps v"

definition snapshot_document :: "rollback_snapshot \<Rightarrow> string" where
  "snapshot_document s = json_pretty 0 (JObj (snapshot_fields s)) @ [CHR 0x0A]"

definition persist_snapshot ::
  "('w, 'r) create_host_scheme \<Rightarrow> string \<Rightarrow> rollback_snapshot \<Rightarrow> ('w, 'z, create_error + unit) action" where
  "persist_snapshot H path s = do {
     directory \<leftarrow> on_world (cr_private_directory H (path_parent path));
     (case directory of
        Inl e \<Rightarrow> give (Inl (CreateRefused (''cannot create rollback snapshot directory ''
          @ py_repr (path_parent path) @ '': '' @ e)))
      | Inr _ \<Rightarrow>
          if max_snapshot_bytes < int (length (snapshot_document s))
          then give (Inl (CreateRefused ''rollback snapshot exceeds the supported serialized size''))
          else do {
            written \<leftarrow> on_world (cr_write H path (snapshot_document s));
            give (case written of
              Inl e \<Rightarrow> Inl (CreateRefused (''cannot persist rollback snapshot '' @ py_repr path @ '': '' @ e))
            | Inr _ \<Rightarrow> Inr ())
          })
   }"

section \<open>\<open>create_snapshot\<close>\<close>

definition chosen_operation_id ::
  "('w, 'r) create_host_scheme \<Rightarrow> string option \<Rightarrow> ('w, 'z, string) action" where
  "chosen_operation_id H operation_id =
     (if or_empty operation_id = [] then on_world (cr_uuid H) else give (or_empty operation_id))"

definition create_commands ::
  "('w, 'r) create_host_scheme \<Rightarrow> host_audit \<Rightarrow> string option \<Rightarrow> string list \<Rightarrow> package_payload_bundle option
   \<Rightarrow> create_error + string list list" where
  "create_commands H a path introduced payloads =
     (case rollback_commands (sn_script H) (ha_packages a) (ha_package_manager a) introduced False path payloads
        None None of
      Inl e \<Rightarrow> Inl (CreateBuilder e) | Inr commands \<Rightarrow> Inr commands)"

text \<open>From the module graph on: everything that goes into the record, then the record.\<close>

definition assemble_snapshot ::
  "('w, 'r) create_host_scheme \<Rightarrow> host_audit \<Rightarrow> string option \<Rightarrow> desired_state option \<Rightarrow> bool \<Rightarrow> string
   \<Rightarrow> package_payload_bundle option \<Rightarrow> string option \<Rightarrow> ('w, 'z, create_error + string \<times> rollback_snapshot) action" where
  "assemble_snapshot H a path desired persist operation_id payloads failsafe =
     and_then (asks (\<lambda>s. snapshot_module_names H (se_world s) persist a)) (\<lambda>modules.
     and_then (new_snapshot_path H path None) (\<lambda>target.
     and_then (bind_payloads H persist target payloads a) (\<lambda>_.
     and_then (give (case remove_packages (sn_script H) desired a of
         Inl e \<Rightarrow> Inl (CreatePlan e) | Inr names \<Rightarrow> Inr names)) (\<lambda>introduced.
     and_then (give (create_commands H a (if persist then Some target else None) introduced payloads))
       (\<lambda>commands. do {
         now \<leftarrow> on_world (cr_now H);
         and_then (do { r \<leftarrow> host_identity H; give (checked r) }) (\<lambda>host.
         and_then (asks (\<lambda>s. snapshot_managed_files H (se_world s) persist (ha_package_manager a) failsafe))
           (\<lambda>files. give (Inr (target, with_integrity H (snapshot_record H a
             (if persist then Some target else None) operation_id commands introduced modules now host
             files payloads)))))
       })))))"

definition create_snapshot ::
  "('w, 'r) create_host_scheme \<Rightarrow> host_audit \<Rightarrow> string option \<Rightarrow> desired_state option \<Rightarrow> bool \<Rightarrow> string option
   \<Rightarrow> package_payload_bundle option \<Rightarrow> string option \<Rightarrow> ('w, 'z, create_error + rollback_snapshot) action" where
  "create_snapshot H a path desired persist operation_id payloads failsafe =
     and_then (asks (\<lambda>s. if persist \<and> failsafe = None
       then dnf_module_failsafe_path_from_audit H (se_world s) a else Inr failsafe)) (\<lambda>failsafe.
     and_then (give (refuse_by (failsafe_guards persist a failsafe @ mig_guards persist desired a
       @ identity_guards persist a @ service_guards persist a))) (\<lambda>_. do {
         chosen \<leftarrow> chosen_operation_id H operation_id;
         and_then (give (refuse_by (version_guards persist chosen a))) (\<lambda>_.
         and_then (assemble_snapshot H a path desired persist chosen payloads failsafe) (\<lambda>(target, s).
           if \<not> persist then give (Inr s)
           else and_then (persist_snapshot H target s) (\<lambda>_. give (Inr s))))
       }))"

end
