(* ===== verification/WorkloadProbe.thy ===== *)
theory WorkloadProbe
  imports SnapshotCreate DeviceUsers
begin

text \<open>
  The probe for active GPU workloads (\<open>probe_active_gpu_workloads\<close> of \<open>nvidia_converge/gpu_safety.py\<close>):
  the compute processes \<open>nvidia-smi\<close> reports, the device users of theory \<open>DeviceUsers\<close>, and the
  running containers that were given a GPU.

  \<open>pr_devices\<close> and \<open>pr_processes\<close> observe \<open>/dev\<close> and \<open>/proc\<close>; \<open>pr_loads\<close> is \<open>json.loads\<close>, nothing for
  a \<open>JSONDecodeError\<close>, whose objects have distinct keys.
\<close>

record 'w probe_host = "'w create_host" +
  pr_devices :: "'w \<Rightarrow> (string, device_entry) listing"
  pr_processes :: "'w \<Rightarrow> (string, process_entry) listing"
  pr_loads :: "string \<Rightarrow> json option"

section \<open>Compute processes\<close>

text \<open>
  \<open>str.isdigit\<close> also accepts the superscripts of Latin-1, and \<open>int\<close> refuses them, and texts of more than
  4300 digits, with a \<open>ValueError\<close> that nothing catches.
\<close>

definition isdigit :: "string \<Rightarrow> bool" where
  "isdigit s \<longleftrightarrow> s \<noteq> [] \<and> list_all (\<lambda>c. is_digit c \<or> cp c \<in> {178, 179, 185}) s"

definition decimal_int :: "string \<Rightarrow> nat option" where
  "decimal_int s = (if isdecimal s \<and> length s \<le> 4300 then Some (digits_val s) else None)"

datatype pid_verdict = PidsInvalid | PidsRaise | PidsValid

fun judge_pids :: "string list \<Rightarrow> pid_verdict" where
  "judge_pids [] = PidsValid"
| "judge_pids (line # lines) =
     (if \<not> isdigit line then PidsInvalid
      else case decimal_int line of
        None \<Rightarrow> PidsRaise
      | Some n \<Rightarrow> if n = 0 then PidsInvalid else judge_pids lines)"

datatype compute_pids =
    ComputePids "string list"
  | ComputeUnknown string
  | ComputeRaised

definition truncated :: "command_result \<Rightarrow> bool" where
  "truncated r \<longleftrightarrow> contains output_truncated (cr_stdout r) \<or> contains output_truncated (cr_stderr r)"

definition stripped_lines :: "string \<Rightarrow> string list" where
  "stripped_lines text = filter (\<lambda>l. l \<noteq> []) (map strip (splitlines text))"

definition read_compute_pids :: "bool \<Rightarrow> command_result \<Rightarrow> compute_pids" where
  "read_compute_pids driver_absent r =
     (let lines = stripped_lines (cr_stdout r)
      in if cr_returncode r \<noteq> Some 0 then
           (if driver_absent then ComputePids []
            else ComputeUnknown (command_error ''nvidia-smi compute-process query failed'' r))
         else if truncated r then ComputeUnknown ''nvidia-smi compute-process output was truncated''
         else if list_all (\<lambda>l. contains ''no running processes'' (lower l)) lines then ComputePids []
         else case judge_pids lines of
           PidsInvalid \<Rightarrow> ComputeUnknown ''nvidia-smi returned an invalid compute-process inventory''
         | PidsRaise \<Rightarrow> ComputeRaised
         | PidsValid \<Rightarrow> ComputePids (sorted_pids lines))"

definition driver_absent :: "host_audit option \<Rightarrow> bool" where
  "driver_absent audit \<longleftrightarrow>
     (case audit of None \<Rightarrow> False | Some a \<Rightarrow> \<not> mi_loaded (ha_module a) \<and> mi_devices (ha_module a) = [])"

definition probe_compute_pids ::
  "('w, 'r) probe_host_scheme \<Rightarrow> host_audit option \<Rightarrow> ('w, 'z, compute_pids) action" where
  "probe_compute_pids H audit = do {
     present \<leftarrow> exists_executable H ''nvidia-smi'';
     (if \<not> present then
        give (if driver_absent audit then ComputePids []
          else ComputeUnknown ''trusted nvidia-smi executable not found'')
      else do {
        r \<leftarrow> run_known H False ''nvidia-smi'' [''--query-compute-apps=pid'', ''--format=csv,noheader,nounits''];
        give (read_compute_pids (driver_absent audit) r)
      })
   }"

section \<open>Device users\<close>

definition identity_evidence :: "device_identity list \<Rightarrow> string list" where
  "identity_evidence devices =
     map (\<lambda>d. nat_str (os_major d) @ '':'' @ nat_str (os_minor d)) (sorted_set (map dd_rdev devices))"

text \<open>The evidence on the devices, and the users or the reason they are unknown\<close>

definition probe_device_users ::
  "('w, 'r) probe_host_scheme \<Rightarrow> host_audit option \<Rightarrow> 'w \<Rightarrow> string list \<times> (string + string list)" where
  "probe_device_users H audit w =
     (if driver_absent audit then ([], Inr [])
      else case nvidia_character_device_identities (pr_devices H w) of
        Inl e \<Rightarrow> ([], Inl e)
      | Inr devices \<Rightarrow> (identity_evidence devices, device_users devices (pr_processes H w)))"

section \<open>Containers\<close>

definition container_id :: "string \<Rightarrow> bool" where
  "container_id s \<longleftrightarrow> 12 \<le> length s \<and> length s \<le> 64 \<and> list_all is_hex s"

text \<open>Verdicts: malformed, or whether a GPU is used.  The first one that is not \<open>False\<close> decides.\<close>

definition or_else :: "bool option \<Rightarrow> bool option \<Rightarrow> bool option" where
  "or_else x y = (if x = Some False then y else x)"

fun first_use :: "('a \<Rightarrow> bool option) \<Rightarrow> 'a list \<Rightarrow> bool option" where
  "first_use f [] = Some False"
| "first_use f (x # xs) = or_else (f x) (first_use f xs)"

text \<open>\<open>d.get(k, [])\<close>, and with \<open>None\<close> read as an empty list\<close>

definition get_list :: "string \<Rightarrow> (string \<times> json) list \<Rightarrow> json" where
  "get_list k d = (case jget k d of None \<Rightarrow> JList [] | Some v \<Rightarrow> v)"

definition get_list_or_null :: "string \<Rightarrow> (string \<times> json) list \<Rightarrow> json" where
  "get_list_or_null k d = (case get_list k d of JNull \<Rightarrow> JList [] | v \<Rightarrow> v)"

definition runtime_verdict :: "json \<Rightarrow> bool option" where
  "runtime_verdict v =
     (case v of JNull \<Rightarrow> Some False | JStr s \<Rightarrow> Some (lower s = ''nvidia'') | _ \<Rightarrow> None)"

definition capability_verdict :: "json \<Rightarrow> bool option" where
  "capability_verdict v =
     (case v of
        JList cs \<Rightarrow>
          if \<not> list_all is_jstr cs then None
          else Some (list_ex (\<lambda>c. lower (the_jstr c) = ''gpu'') cs)
      | _ \<Rightarrow> None)"

definition request_verdict :: "json \<Rightarrow> bool option" where
  "request_verdict v =
     (case v of
        JObj d \<Rightarrow>
          (case (case jget ''Driver'' d of None \<Rightarrow> JStr [] | Some x \<Rightarrow> x, get_list ''Capabilities'' d) of
             (JStr driver, JList capabilities) \<Rightarrow>
               if lower driver = ''nvidia'' then Some True else first_use capability_verdict capabilities
           | _ \<Rightarrow> None)
      | _ \<Rightarrow> None)"

definition nvidia_path :: "json \<Rightarrow> bool" where
  "nvidia_path v = (case v of JStr s \<Rightarrow> startswith s ''/dev/nvidia'' | _ \<Rightarrow> False)"

definition paths_verdict :: "string \<Rightarrow> string \<Rightarrow> json \<Rightarrow> bool option" where
  "paths_verdict k1 k2 v =
     (case v of
        JObj d \<Rightarrow> Some (nvidia_path (jget_or_null k1 d) \<or> nvidia_path (jget_or_null k2 d))
      | _ \<Rightarrow> None)"

definition list_verdict :: "(json \<Rightarrow> bool option) \<Rightarrow> json \<Rightarrow> bool option" where
  "list_verdict f v = (case v of JList xs \<Rightarrow> first_use f xs | _ \<Rightarrow> None)"

definition strings_verdict :: "(string \<Rightarrow> bool) \<Rightarrow> json \<Rightarrow> bool option" where
  "strings_verdict f v =
     (case v of
        JList xs \<Rightarrow> if \<not> list_all is_jstr xs then None else Some (list_ex (\<lambda>x. f (the_jstr x)) xs)
      | _ \<Rightarrow> None)"

definition visible_devices :: "string \<Rightarrow> bool" where
  "visible_devices value \<longleftrightarrow>
     (case partition_at CHR ''='' value of
        (name, found, setting) \<Rightarrow>
          name = ''NVIDIA_VISIBLE_DEVICES'' \<and> found \<and> lower (strip setting) \<notin> {'''', ''none'', ''void''})"

definition container_uses_gpu :: "(string \<times> json) list \<Rightarrow> bool option" where
  "container_uses_gpu container =
     (case (jget_or_null ''HostConfig'' container, jget_or_null ''Config'' container,
         get_list ''Mounts'' container) of
        (JObj host_config, JObj config, JList mounts) \<Rightarrow>
          or_else (runtime_verdict (jget_or_null ''Runtime'' host_config))
         (or_else (list_verdict request_verdict (get_list_or_null ''DeviceRequests'' host_config))
         (or_else (list_verdict (paths_verdict ''PathOnHost'' ''PathInContainer'')
             (get_list_or_null ''Devices'' host_config))
         (or_else (strings_verdict (\<lambda>b. startswith b ''/dev/nvidia'') (get_list_or_null ''Binds'' host_config))
         (or_else (first_use (paths_verdict ''Source'' ''Destination'') mounts)
           (strings_verdict visible_devices (get_list_or_null ''Env'' config))))))
      | _ \<Rightarrow> None)"

text \<open>The containers that were inspected so far, and those that use a GPU\<close>

definition inspect_container ::
  "string list \<Rightarrow> string list \<times> string list \<Rightarrow> json \<Rightarrow> string + string list \<times> string list" where
  "inspect_container expected = (\<lambda>(observed, gpu) container.
     (case container of
        JObj d \<Rightarrow>
         (case jget_or_null ''Id'' d of
            JStr i \<Rightarrow>
              if i \<notin> set expected then Inl ''Docker inspection did not match the requested containers''
              else if i \<in> set observed then Inl ''Docker returned duplicate container inspection state''
              else (case jget_or_null ''State'' d of
                JObj state \<Rightarrow>
                  if jget_or_null ''Running'' state \<noteq> JBool True
                  then Inl ''Docker container state changed during workload inspection''
                  else (case container_uses_gpu d of
                    None \<Rightarrow> Inl (''Docker container '' @ take 12 i @ '' has malformed GPU allocation state'')
                  | Some uses \<Rightarrow> Inr (observed @ [i], if uses then gpu @ [i] else gpu))
              | _ \<Rightarrow> Inl ''Docker container state changed during workload inspection'')
          | _ \<Rightarrow> Inl ''Docker inspection did not match the requested containers'')
      | _ \<Rightarrow> Inl ''Docker returned a malformed container inspection''))"

definition judge_containers :: "string list \<Rightarrow> json option \<Rightarrow> string + string list" where
  "judge_containers ids inspection =
     (case inspection of
        None \<Rightarrow> Inl ''Docker returned invalid container inspection JSON''
      | Some (JList containers) \<Rightarrow>
          if length containers \<noteq> length ids then Inl ''Docker returned an incomplete container inspection''
          else bind_r (fold_e (inspect_container ids) ([], []) containers) (\<lambda>(observed, gpu).
            if set observed \<noteq> set ids then Inl ''Docker returned an incomplete container inspection''
            else Inr (sort gpu))
      | Some _ \<Rightarrow> Inl ''Docker returned an incomplete container inspection'')"

definition max_running_containers :: nat where "max_running_containers = 256"

definition judge_container_ids :: "command_result \<Rightarrow> string + string list" where
  "judge_container_ids listed =
     (let ids = stripped_lines (cr_stdout listed)
      in if cr_returncode listed \<noteq> Some 0
           then Inl (command_error ''running Docker containers are not observable'' listed)
         else if truncated listed then Inl ''Docker container inventory was truncated''
         else if max_running_containers < length ids
           then Inl ''running Docker container inventory exceeded the bounded scan limit''
         else if \<not> distinct ids \<or> \<not> list_all container_id ids
           then Inl ''Docker returned an invalid running-container inventory''
         else Inr ids)"

definition inspect_containers ::
  "('w, 'r) probe_host_scheme \<Rightarrow> string list \<Rightarrow> ('w, 'z, string + string list) action" where
  "inspect_containers H ids =
     (if ids = [] then give (Inr [])
      else do {
        inspected \<leftarrow> run_known H False ''docker'' ([''inspect'', ''--type=container''] @ ids);
        give (if cr_returncode inspected \<noteq> Some 0
            then Inl (command_error ''running Docker containers could not be inspected'' inspected)
          else if truncated inspected then Inl ''Docker container inspection output was truncated''
          else judge_containers ids (pr_loads H (cr_stdout inspected)))
      })"

text \<open>A client request could start a socket-activated daemon, so an inactive or unproven one is not asked.\<close>

definition docker_gate :: "host_audit option \<Rightarrow> (string + string list) option" where
  "docker_gate audit =
     (case audit of
        None \<Rightarrow> None
      | Some a \<Rightarrow>
          if ha_docker_service_active a = Some False then Some (Inr [])
          else if ha_docker_service_active a \<noteq> Some True
            then Some (Inl ''Docker service activity is not proven; refusing a client probe'')
          else None)"

definition docker_installed :: "host_audit option \<Rightarrow> bool" where
  "docker_installed audit = (case audit of None \<Rightarrow> False | Some a \<Rightarrow> ri_docker_installed (ha_runtime a))"

definition probe_docker_gpu_allocations ::
  "('w, 'r) probe_host_scheme \<Rightarrow> host_audit option \<Rightarrow> ('w, 'z, string + string list) action" where
  "probe_docker_gpu_allocations H audit =
     (case docker_gate audit of
        Some verdict \<Rightarrow> give verdict
      | None \<Rightarrow> do {
          present \<leftarrow> exists_executable H ''docker'';
          (if \<not> present then
             give (if docker_installed audit
               then Inl ''Docker is installed but its trusted client executable is unavailable'' else Inr [])
           else do {
             listed \<leftarrow> run_known H False ''docker'' [''ps'', ''--quiet'', ''--no-trunc''];
             (case judge_container_ids listed of
                Inl e \<Rightarrow> give (Inl e)
              | Inr ids \<Rightarrow> inspect_containers H ids)
           })
        })"

section \<open>The probe\<close>

definition workload_probe_command :: "string list" where
  "workload_probe_command = [''probe-active-gpu-workloads'']"

definition is_workload_probe :: "string list \<Rightarrow> bool" where
  "is_workload_probe command \<longleftrightarrow>
     command = workload_probe_command \<or> take 2 command = [''nvidia-smi'', ''--query-compute-apps=pid'']"

text \<open>The outcome: the journalled result with the workloads, or nothing when they are unknown.\<close>

type_synonym workloads = "command_result \<times> string list option"

definition finish_probe :: "(string \<times> json) list \<Rightarrow> string \<Rightarrow> ('w, 'z, workloads) action" where
  "finish_probe evidence error = do {
     let result = command_result_of workload_probe_command (Some 1) error
         \<lparr>cr_stdout := json_dumps (JObj evidence)\<rparr>;
     record_external_result result False;
     give (result, None)
   }"

definition compute_evidence :: "compute_pids \<Rightarrow> (string \<times> json) list" where
  "compute_evidence c =
     (case c of
        ComputePids pids \<Rightarrow> [(''compute_pids'', json_strs pids)]
      | ComputeUnknown e \<Rightarrow> [(''compute_pids'', JNull), (''compute_query_error'', JStr e)]
      | ComputeRaised \<Rightarrow> [])"

definition known_pids :: "compute_pids \<Rightarrow> string list" where
  "known_pids c = (case c of ComputePids pids \<Rightarrow> pids | _ \<Rightarrow> [])"

definition workload_names :: "string list \<Rightarrow> string list \<Rightarrow> string list" where
  "workload_names pids containers =
     map (\<lambda>p. ''pid:'' @ p) (sorted_pids pids) @ map (\<lambda>c. ''docker:'' @ take 12 c) containers"

text \<open>An uncaught exception has no outcome.\<close>

definition probe_active_gpu_workloads ::
  "('w, 'r) probe_host_scheme \<Rightarrow> host_audit option \<Rightarrow> ('w, 'z, workloads option) action" where
  "probe_active_gpu_workloads H audit = do {
     record_external_start workload_probe_command False;
     compute \<leftarrow> probe_compute_pids H audit;
     (if compute = ComputeRaised then give None
      else do {
        (identities, users) \<leftarrow> asks (\<lambda>s. probe_device_users H audit (se_world s));
        let evidence = compute_evidence compute @ [(''nvidia_device_identities'', json_strs identities)];
        (case users of
           Inl e \<Rightarrow> do { r \<leftarrow> finish_probe evidence e; give (Some r) }
         | Inr pids \<Rightarrow> do {
             containers \<leftarrow> probe_docker_gpu_allocations H audit;
             let evidence' = evidence @ [(''device_user_pids'', json_strs pids)];
             (case containers of
                Inl e \<Rightarrow> do { r \<leftarrow> finish_probe evidence' e; give (Some r) }
              | Inr ids \<Rightarrow> do {
                  let result = command_result_of workload_probe_command (Some 0) []
                      \<lparr>cr_stdout := json_dumps (JObj (evidence' @ [(''docker_gpu_containers'', json_strs ids)]))\<rparr>;
                  record_external_result result False;
                  give (Some (result, Some (workload_names (known_pids compute @ pids) ids)))
                })
           })
      })
   }"

end
