(* ===== verification/LauncherQuarantine.thy ===== *)
theory LauncherQuarantine
  imports WorkloadProbe GpuGuard
begin

text \<open>
  The applied operations of the command line (\<open>nvidia_converge/cli.py\<close>), first part: their session,
  the persistent quarantine of all four launchers, the workload checkpoints on either side of it, and
  the boundary every GPU mutation has to pass.

  An operation works on the runner's session extended by the report it fills, the guard of the GPU
  services, and the process identities it has committed to.  \<open>audit_host\<close> is a component of the host:
  an observer that runs commands of its own and returns an audit or raises; it sees the session of the
  runner alone.
\<close>

section \<open>The session of an operation\<close>

record 'w cli_session = "'w session" +
  cs_report :: report
  cs_guard :: "gpu_guard option"
  cs_identities :: "(string \<times> gpu_service_identity) list"

type_synonym ('w, 'a) cli_action = "('w cli_session, 'a) state"

record 'w cli_host = "'w probe_host" +
  ch_audit :: "'w session \<Rightarrow> (string + host_audit) \<times> 'w session"

text \<open>A report or journal that could not be written, or one whose end is uncertain after that\<close>

datatype report_error = WriteFailed string | IntegrityLost string

text \<open>What escapes an operation; \<open>SnapshotRaised\<close> is an \<open>OSError\<close> of the snapshot checks.\<close>

datatype cli_exception =
    AuditRaised string
  | ProbeRaised
  | RollbackEscaped rollback_exception
  | PreflightEscaped preflight_error
  | SnapshotRaised string
  | ReportRaised report_error

definition audited :: "('w, 'r) cli_host_scheme \<Rightarrow> ('w, cli_exception + host_audit) cli_action" where
  "audited H = State (\<lambda>s.
     case ch_audit H (session.truncate s) of (r, t) \<Rightarrow>
       (map_sum AuditRaised (\<lambda>a. a) r, session.extend t (session.more s)))"

definition report_finding :: "finding \<Rightarrow> ('w, unit) cli_action" where
  "report_finding f = tells (\<lambda>s. s\<lparr>cs_report := (cs_report s)\<lparr>rp_findings := rp_findings (cs_report s) @ [f]\<rparr>\<rparr>)"

definition report_results :: "command_result list \<Rightarrow> ('w, unit) cli_action" where
  "report_results rs = tells (\<lambda>s.
     s\<lparr>cs_report := (cs_report s)\<lparr>rp_command_results := rp_command_results (cs_report s) @ rs\<rparr>\<rparr>)"

definition report_checks :: "verification list \<Rightarrow> ('w, unit) cli_action" where
  "report_checks vs = tells (\<lambda>s.
     s\<lparr>cs_report := (cs_report s)\<lparr>rp_verification := rp_verification (cs_report s) @ vs\<rparr>\<rparr>)"

definition error_finding ::
  "string \<Rightarrow> string \<Rightarrow> string \<Rightarrow> (string \<times> json) list \<Rightarrow> string option \<Rightarrow> finding" where
  "error_finding name summary detail evidence remediation =
     \<lparr>fi_id = name, fi_severity = Error, fi_summary = summary, fi_detail = detail, fi_evidence = evidence,
      fi_remediation = remediation\<rparr>"

definition json_flag :: "bool option \<Rightarrow> json" where "json_flag = json_opt JBool"

definition json_text :: "string option \<Rightarrow> json" where "json_text = json_opt JStr"

definition commands_succeeded :: "command_result list \<Rightarrow> bool" where
  "commands_succeeded rs \<longleftrightarrow> \<not> list_ex failed rs"

text \<open>
  The boundary of a step: whether it succeeded, with the newest audit.  A step that did not hold
  appends its finding.
\<close>

type_synonym boundary = "bool \<times> host_audit"

definition refuse_step :: "finding \<Rightarrow> host_audit \<Rightarrow> ('w, cli_exception + boundary) cli_action" where
  "refuse_step f a = do { report_finding f; give (Inr (False, a)) }"

section \<open>The launchers\<close>

definition launcher_state :: "host_audit \<Rightarrow> string \<Rightarrow> bool option \<times> string option" where
  "launcher_state a u = (let x = unit_of (audit_units a) u in (us_active x, us_file_state x))"

definition launcher_target :: "rollback_snapshot \<Rightarrow> string \<Rightarrow> bool option \<times> string option" where
  "launcher_target s u = (let x = unit_of (snapshot_units s) u in (us_active x, us_file_state x))"

definition launcher_evidence :: "bool option \<times> string option \<Rightarrow> json" where
  "launcher_evidence x = JObj [(''active'', json_flag (fst x)), (''unit_file_state'', json_text (snd x))]"

text \<open>The probe, journalled in the report\<close>

definition probe_workloads ::
  "('w, 'r) cli_host_scheme \<Rightarrow> host_audit \<Rightarrow> ('w, cli_exception + string list option) cli_action" where
  "probe_workloads H a = do {
     r \<leftarrow> probe_active_gpu_workloads H (Some a);
     (case r of
        None \<Rightarrow> give (Inl ProbeRaised)
      | Some (result, workloads) \<Rightarrow> do { report_results [result]; give (Inr workloads) })
   }"

definition workloads_block :: "bool \<Rightarrow> string list option \<Rightarrow> bool" where
  "workloads_block allow_active w \<longleftrightarrow> (case w of None \<Rightarrow> False | Some ws \<Rightarrow> ws \<noteq> [] \<and> \<not> allow_active)"

section \<open>Quarantine\<close>

definition launcher_quarantined :: "host_audit \<Rightarrow> string \<Rightarrow> bool" where
  "launcher_quarantined a u \<longleftrightarrow> launcher_state a u = (Some False, Some ''masked'')"

text \<open>Authenticate the three services and the socket: the first failure as a finding\<close>

fun trust_services ::
  "('w, 'r) cli_host_scheme \<Rightarrow> string list \<Rightarrow> ('w, finding option) cli_action" where
  "trust_services H [] = give None"
| "trust_services H (u # units) = do {
     (results, error) \<leftarrow> validate_trusted_gpu_service_unit H u True;
     report_results results;
     (case error of
        Some e \<Rightarrow> give (Some (error_finding ''install.launcher-quarantine-service-untrusted''
          ''Active launcher cannot be safely stopped'' e [(''unit'', JStr u)] None))
      | None \<Rightarrow> trust_services H units)
   }"

definition trust_launchers :: "('w, 'r) cli_host_scheme \<Rightarrow> ('w, finding option) cli_action" where
  "trust_launchers H = do {
     untrusted \<leftarrow> trust_services H [docker_service_unit, nvidia_persistenced_unit, fabric_manager_unit];
     (if untrusted \<noteq> None then give untrusted
      else do {
        (results, error) \<leftarrow> validate_docker_socket_unit H True;
        report_results results;
        give (map_option (\<lambda>e. error_finding ''install.launcher-quarantine-socket-untrusted''
          ''Docker socket cannot be safely quarantined'' e [(''unit'', JStr docker_socket_unit)] None) error)
      })
   }"

text \<open>Quarantine the units in order, up to the first that fails: the results that failed\<close>

fun quarantine_services ::
  "('w, 'r) cli_host_scheme \<Rightarrow> string list \<Rightarrow> ('w, command_result list) cli_action" where
  "quarantine_services H [] = give []"
| "quarantine_services H (u # units) = do {
     results \<leftarrow> quarantine_service H u;
     report_results results;
     (let failures = filter failed results
      in if failures \<noteq> [] then give failures else quarantine_services H units)
   }"

definition quarantine_evidence :: "host_audit \<Rightarrow> command_result list \<Rightarrow> (string \<times> json) list" where
  "quarantine_evidence a failures =
     [(''unsafe_units'', JObj (map (\<lambda>u. (u, launcher_evidence (launcher_state a u)))
         (filter (\<lambda>u. \<not> launcher_quarantined a u) service_stop_order))),
      (''failed_commands'', JList (map (\<lambda>r. JObj [(''command'', json_strs (cr_command r)),
         (''returncode'', json_opt JInt (cr_returncode r)), (''stderr'', JStr (cr_stderr r))]) failures))]"

definition defer_launcher_enablement ::
  "('w, 'r) cli_host_scheme \<Rightarrow> host_audit \<Rightarrow> ('w, cli_exception + boundary) cli_action" where
  "defer_launcher_enablement H a =
     (let unknown = filter (\<lambda>u. snd (launcher_state a u) = None) service_stop_order
      in if unknown \<noteq> [] then
           refuse_step (error_finding ''install.launcher-enablement-unknown''
             ''Launcher unit-file state is unknown at a transaction boundary''
             (''Unknown units: '' @ join '', '' unknown) [] None) a
         else do {
           untrusted \<leftarrow> trust_launchers H;
           (case untrusted of
              Some f \<Rightarrow> refuse_step f a
            | None \<Rightarrow> do {
                failures \<leftarrow> quarantine_services H service_stop_order;
                and_then (audited H) (\<lambda>a'.
                  if failures \<noteq> [] \<or> \<not> list_all (launcher_quarantined a') service_stop_order then
                    refuse_step (error_finding ''install.launcher-quarantine-unverified''
                      ''Launchers are not persistently quarantined''
                      (''Every launcher must be observably inactive and masked ''
                       @ ''before the transaction can continue.'')
                      (quarantine_evidence a' failures) None) a'
                  else give (Inr (True, a')))
              })
         })"

text \<open>A second runner, which records nothing, masks the four launchers whatever their state.\<close>

definition trusted_executable_path :: string where
  "trusted_executable_path = ''/usr/sbin:/usr/bin:/sbin:/bin''"

definition emergency_runner :: "('w, 'r) runner_scheme \<Rightarrow> ('w, 'r) runner_scheme" where
  "emergency_runner R = R\<lparr>ru_apply := True, ru_timeout := 120, ru_mutation_timeout := 1800,
     ru_executable_path := trusted_executable_path\<rparr>"

fun mask_now :: "('w, 'r) runner_scheme \<Rightarrow> string list \<Rightarrow> ('w, 'z, unit) action" where
  "mask_now R [] = give ()"
| "mask_now R (u # units) = do {
     _ \<leftarrow> run_known R True ''systemctl'' [''mask'', ''--now'', u];
     mask_now R units
   }"

definition emergency_quarantine_launchers :: "('w, 'r) cli_host_scheme \<Rightarrow> ('w, unit) cli_action" where
  "emergency_quarantine_launchers H = on_world (\<lambda>w.
     case run_state (mask_now (emergency_runner H) service_stop_order)
       \<lparr>se_world = w, se_events = [], se_results = [], se_scope = None, se_journaled = False\<rparr> of
       (_, t) \<Rightarrow> ((), se_world t))"

text \<open>\<open>except BaseException: _emergency_quarantine_launchers(); raise\<close>\<close>

definition or_emergency ::
  "('w, 'r) cli_host_scheme \<Rightarrow> ('w, cli_exception + 'a) cli_action \<Rightarrow> ('w, cli_exception + 'a) cli_action" where
  "or_emergency H m = do {
     r \<leftarrow> m;
     (case r of
        Inl e \<Rightarrow> do { emergency_quarantine_launchers H; give (Inl e) }
      | Inr x \<Rightarrow> give (Inr x))
   }"

definition quarantine_failed_maintenance_gate ::
  "('w, 'r) cli_host_scheme \<Rightarrow> ('w, cli_exception + boundary) cli_action" where
  "quarantine_failed_maintenance_gate H =
     or_emergency H (and_then (audited H) (defer_launcher_enablement H))"

section \<open>The guard\<close>

definition requiesce_services_for_compensation ::
  "('w, 'r) cli_host_scheme \<Rightarrow> ('w, bool) cli_action" where
  "requiesce_services_for_compensation H = do {
     guard \<leftarrow> asks cs_guard;
     (case guard of
        None \<Rightarrow> give True
      | Some g \<Rightarrow> do {
          (ok, g') \<leftarrow> requiesce H g;
          tells (\<lambda>s. s\<lparr>cs_guard := Some g'\<rparr>);
          known \<leftarrow> asks (\<lambda>s. list_ex (\<lambda>f. fi_id f = ''gpu-services.requiesce-failed'') (rp_findings (cs_report s)));
          (if ok \<or> known then give ok
           else do {
             report_finding (error_finding ''gpu-services.requiesce-failed''
               ''Trusted NVIDIA services could not be safely re-quiesced'' (join ''; '' (gg_requiesce_errors g')) []
               (Some (''Isolate the node and inspect only the originally-active ''
                 @ ''trusted services before applying the private rollback snapshot.'')));
             give False
           })
        })
   }"

section \<open>Workload checkpoints\<close>

definition docker_checkpoint_unavailable :: "string \<Rightarrow> finding" where
  "docker_checkpoint_unavailable operation = error_finding (operation @ ''.docker-checkpoint-unavailable'')
     ''Docker did not reach a proven active state''
     (''The planned Docker start/restart completed without an ''
      @ ''observable active daemon, so module preparation and ''
      @ ''container verification are blocked.'') []
     (Some (''Keep the node drained, repair Docker service state, and ''
       @ ''apply the original private snapshot before retrying.''))"

definition docker_checkpoint_unknown :: "string \<Rightarrow> finding" where
  "docker_checkpoint_unknown operation = error_finding (operation @ ''.docker-checkpoint-workloads-unknown'')
     ''GPU workloads became unobservable after Docker started''
     (''The required post-start workload checkpoint could not prove ''
      @ ''that queued GPU containers remained stopped.'') []
     (Some (''Keep the node drained and restore complete process/container ''
       @ ''observability before retrying.''))"

definition docker_checkpoint_active :: "string \<Rightarrow> string list \<Rightarrow> finding" where
  "docker_checkpoint_active operation workloads = error_finding (operation @ ''.docker-checkpoint-workloads-active'')
     ''Queued GPU workloads started with Docker'' (''Observed GPU workloads: '' @ join '', '' workloads) []
     (Some (''Drain or disable the queued containers before retrying, or ''
       @ ''explicitly acknowledge them with --allow-active-workloads.''))"

definition post_docker_workload_checkpoint ::
  "('w, 'r) cli_host_scheme \<Rightarrow> bool \<Rightarrow> string \<Rightarrow> ('w, cli_exception + boundary) cli_action" where
  "post_docker_workload_checkpoint H allow_active operation =
     and_then (audited H) (\<lambda>a.
       if ha_docker_service_active a \<noteq> Some True then refuse_step (docker_checkpoint_unavailable operation) a
       else and_then (probe_workloads H a) (\<lambda>workloads.
         case workloads of
           None \<Rightarrow> refuse_step (docker_checkpoint_unknown operation) a
         | Some ws \<Rightarrow>
             if ws \<noteq> [] \<and> \<not> allow_active then refuse_step (docker_checkpoint_active operation ws) a
             else give (Inr (True, a))))"

section \<open>The boundary before a GPU mutation\<close>

definition pre_gpu_docker_unknown :: finding where
  "pre_gpu_docker_unknown = error_finding ''install.pre-gpu-docker-state-unknown''
     ''Docker state is unknown before GPU mutation''
     (''Package maintainer scripts may have changed Docker, but the ''
      @ ''socket/service active states could not both be observed.'') []
     (Some ''Keep the node drained and restore systemd observability before retrying.'')"

definition pre_gpu_workloads_unknown :: finding where
  "pre_gpu_workloads_unknown = error_finding ''install.pre-gpu-workloads-unknown''
     ''GPU workloads are not fully observable before mutation''
     (''The package/module boundary could not prove an idle GPU, so ''
      @ ''MIG and module preparation are refused.'') [] None"

definition pre_gpu_workloads_active :: finding where
  "pre_gpu_workloads_active = error_finding ''install.pre-gpu-workloads-active''
     ''GPU workloads appeared before module/MIG mutation''
     ''Observed GPU workloads were not explicitly acknowledged.'' []
     (Some (''Drain queued containers/processes or rerun with ''
       @ ''--allow-active-workloads after assessing disruption.''))"

definition report_when :: "bool \<Rightarrow> finding \<Rightarrow> ('w, unit) cli_action" where
  "report_when b f = (if b then report_finding f else give ())"

text \<open>Whether the boundary is safe, the audit of it, and whether Docker was running\<close>

definition pre_gpu_mutation_checkpoint ::
  "('w, 'r) cli_host_scheme \<Rightarrow> bool \<Rightarrow> ('w, cli_exception + bool \<times> host_audit \<times> bool) cli_action" where
  "pre_gpu_mutation_checkpoint H allow_active = do {
     quiesced \<leftarrow> requiesce_services_for_compensation H;
     and_then (audited H) (\<lambda>a. do {
       let docker_unknown = (ha_docker_socket_active a = None \<or> ha_docker_service_active a = None);
       report_when docker_unknown pre_gpu_docker_unknown;
       and_then (probe_workloads H a) (\<lambda>workloads.
       and_then (defer_launcher_enablement H a) (\<lambda>(deferred, a').
       and_then (probe_workloads H a') (\<lambda>remaining. do {
         let unknown = (workloads = None \<or> remaining = None);
         let blocked = (workloads_block allow_active workloads \<or> workloads_block allow_active remaining);
         report_when unknown pre_gpu_workloads_unknown;
         report_when blocked pre_gpu_workloads_active;
         give (Inr (quiesced \<and> \<not> docker_unknown \<and> deferred \<and> \<not> unknown \<and> \<not> blocked, a',
           ha_docker_socket_active a = Some True \<or> ha_docker_service_active a = Some True))
       })))
     })
   }"

definition quiesce_launchers_for_reboot ::
  "('w, 'r) cli_host_scheme \<Rightarrow> bool \<Rightarrow> ('w, cli_exception + bool \<times> host_audit \<times> bool) cli_action" where
  "quiesce_launchers_for_reboot H allow_active = pre_gpu_mutation_checkpoint H allow_active"

end
