(* ===== verification/Compensation.thy ===== *)
theory Compensation
  imports LauncherQuarantine RollbackVerify
begin

text \<open>
  What \<open>install\<close> does after a failed mutation (\<open>nvidia_converge/cli.py\<close>): the drained boundary is
  established again, a verification container that may be left is removed, and the snapshot taken before
  the mutation is applied.  Before each mutation phase \<open>fresh_gpu_boundary_is_safe\<close> compares the
  newest audit with that snapshot.
\<close>

section \<open>Findings\<close>

definition mutation_failure_detail :: "bool \<Rightarrow> string" where
  "mutation_failure_detail command_failed =
     (if command_failed then ''Applied convergence stopped after a mutating command failed; ''
        @ ''automatic rollback will use the pre-install snapshot.''
      else ''Applied convergence could not prepare a healthy kernel-module ''
        @ ''stack; automatic rollback will use the pre-install snapshot.'')"

definition failed_command_evidence :: "command_result \<Rightarrow> (string \<times> json) list" where
  "failed_command_evidence r =
     [(''command'', json_strs (cr_command r)), (''returncode'', json_opt JInt (cr_returncode r)),
      (''reason'', json_text (cr_reason r))]"

definition install_mutation_failure_finding :: "command_result list \<Rightarrow> verification option \<Rightarrow> finding" where
  "install_mutation_failure_finding results preparation =
     error_finding ''install.mutation-failed'' ''Applied convergence failed''
       (mutation_failure_detail (list_ex failed results))
       (case find failed results of
          Some r \<Rightarrow> failed_command_evidence r
        | None \<Rightarrow>
            [(''verification'', json_text (map_option vf_name preparation)),
             (''ok'', JBool (case preparation of Some v \<Rightarrow> vf_ok v | None \<Rightarrow> False))]) None"

definition has_error :: "finding list \<Rightarrow> bool" where
  "has_error fs \<longleftrightarrow> list_ex (\<lambda>f. fi_severity f = Error) fs"

definition install_verification_failure_finding :: "report \<Rightarrow> finding" where
  "install_verification_failure_finding r =
     error_finding ''install.verification-failed'' ''Post-convergence verification failed''
       (''The applied host did not pass every non-deferrable convergence ''
        @ ''invariant; automatic rollback will use the pre-install snapshot.'')
       [(''failed_verifications'', json_strs (map vf_name (filter (\<lambda>v. \<not> vf_ok v) (rp_verification r)))),
        (''error_findings'', json_strs (map fi_id (filter (\<lambda>f. fi_severity f = Error) (rp_findings r))))]
       (Some (''Keep the node drained until the compensating rollback is fully ''
         @ ''verified or the original private snapshot is applied manually.''))"

definition install_target_verified :: "report \<Rightarrow> bool" where
  "install_target_verified r \<longleftrightarrow>
     rp_verification r \<noteq> [] \<and> commands_succeeded (rp_command_results r) \<and> list_all vf_ok (rp_verification r)
     \<and> \<not> has_error (rp_findings r)"

definition preflight_checks :: "string \<Rightarrow> command_result list \<Rightarrow> string \<Rightarrow> bool \<Rightarrow> verification list" where
  "preflight_checks name results detail ok =
     (if results = [] then [\<lparr>vf_name = name, vf_ok = ok, vf_command = None, vf_detail = Some detail\<rparr>]
      else map (\<lambda>r. \<lparr>vf_name = name, vf_ok = ok, vf_command = Some r, vf_detail = Some detail\<rparr>) results)"

section \<open>The verification container\<close>

text \<open>\<open>command[command.index(''--name'') + 1]\<close>\<close>

definition container_name :: "string list \<Rightarrow> string option" where
  "container_name command =
     (case dropWhile (\<lambda>x. x \<noteq> ''--name'') command of _ # name # _ \<Rightarrow> Some name | _ \<Rightarrow> None)"

definition container_probe :: "verification list \<Rightarrow> string list option" where
  "container_probe checks =
     (case find (\<lambda>v. vf_name v = ''container.gpu''
        \<and> (case vf_command v of None \<Rightarrow> False | Some r \<Rightarrow> take 2 (cr_command r) = [''docker'', ''run''])) checks of
        None \<Rightarrow> None
      | Some v \<Rightarrow> map_option cr_command (vf_command v))"

definition probe_named_container_absence ::
  "('w, 'r) runner_scheme \<Rightarrow> string \<Rightarrow> ('w, 'z, command_result) action" where
  "probe_named_container_absence R name = run_known R False ''docker''
     [''ps'', ''--all'', ''--quiet'', ''--no-trunc'', ''--filter'', ''name=^/'' @ name @ ''$'']"

definition container_absent :: "command_result \<Rightarrow> bool" where
  "container_absent r \<longleftrightarrow> cr_returncode r = Some 0 \<and> strip (cr_stdout r) = []"

definition retry_failed_probe_container_cleanup ::
  "('w, 'r) cli_host_scheme \<Rightarrow> bool option \<Rightarrow> ('w, bool) cli_action" where
  "retry_failed_probe_container_cleanup H docker_active = do {
     checks \<leftarrow> asks (\<lambda>s. rp_verification (cs_report s));
     (if \<not> list_ex (\<lambda>v. vf_name v = ''container.probe-absent'' \<and> \<not> vf_ok v) checks then give True
      else if docker_active \<noteq> Some True then give False
      else case Option.bind (container_probe checks) container_name of
        None \<Rightarrow> give False
      | Some name \<Rightarrow> do {
          cleanup \<leftarrow> run_known H True ''docker'' [''rm'', ''--force'', name];
          absence \<leftarrow> probe_named_container_absence H name;
          report_checks
            [\<lparr>vf_name = ''install.compensation.container-cleanup-command'', vf_ok = (cr_returncode cleanup = Some 0),
              vf_command = Some cleanup,
              vf_detail = Some ''Retry forced removal of the failed verification container.''\<rparr>,
             \<lparr>vf_name = ''install.compensation.container-probe-absent'', vf_ok = container_absent absence,
              vf_command = Some absence,
              vf_detail = Some ''The failed verification container must be absent before rollback.''\<rparr>];
          give (container_absent absence)
        })
   }"

section \<open>The drained boundary\<close>

definition lingering_container_finding :: finding where
  "lingering_container_finding = error_finding ''install.compensation.probe-container-lingering''
     ''The verification container could not be proven absent''
     (''Automatic rollback is refused because a uniquely named GPU ''
      @ ''probe container remained after a forced-removal retry.'') []
     (Some (''Keep Docker and the node drained, remove the named probe ''
       @ ''container, then apply the original private snapshot.''))"

definition compensation_workloads_unknown :: finding where
  "compensation_workloads_unknown = error_finding ''install.compensation.workloads-unknown''
     ''GPU workloads are not observable before automatic rollback''
     ''The post-quiescence GPU workload inventory remained incomplete.'' []
     (Some (''Keep the node drained and restore workload observability ''
       @ ''before applying the private rollback snapshot.''))"

definition compensation_workloads_active :: "string list \<Rightarrow> finding" where
  "compensation_workloads_active ws = error_finding ''install.compensation.workloads-active''
     ''GPU workloads still block automatic rollback'' (''Observed GPU workloads: '' @ join '', '' ws) []
     (Some (''Keep the node drained, stop the named workloads, and apply ''
       @ ''the original private snapshot.''))"

definition refuse_compensation :: "finding \<Rightarrow> ('w, cli_exception + host_audit option) cli_action" where
  "refuse_compensation f = do { report_finding f; give (Inr None) }"

definition compensation_verdict ::
  "bool \<Rightarrow> bool \<Rightarrow> string list option \<Rightarrow> host_audit \<Rightarrow> ('w, cli_exception + host_audit option) cli_action" where
  "compensation_verdict lingering allow_active workloads a =
     (if lingering then refuse_compensation lingering_container_finding
      else case workloads of
        None \<Rightarrow> refuse_compensation compensation_workloads_unknown
      | Some ws \<Rightarrow>
          if ws \<noteq> [] \<and> \<not> allow_active then refuse_compensation (compensation_workloads_active ws)
          else give (Inr (Some a)))"

text \<open>The audit the rollback starts from, or nothing when it must not start.\<close>

definition prepare_install_compensation ::
  "('w, 'r) cli_host_scheme \<Rightarrow> bool \<Rightarrow> ('w, cli_exception + host_audit option) cli_action" where
  "prepare_install_compensation H allow_active = do {
     requiesced \<leftarrow> requiesce_services_for_compensation H;
     (if \<not> requiesced then and_then (quarantine_failed_maintenance_gate H) (\<lambda>_. give (Inr None))
      else and_then (or_emergency H (audited H)) (\<lambda>a. do {
        absent \<leftarrow> retry_failed_probe_container_cleanup H (ha_docker_service_active a);
        and_then (probe_workloads H a) (\<lambda>_.
        and_then (or_emergency H (defer_launcher_enablement H a)) (\<lambda>(quarantined, a').
          if \<not> quarantined then give (Inr None)
          else and_then (probe_workloads H a') (\<lambda>workloads.
            compensation_verdict (\<not> absent) allow_active workloads a')))
      }))
   }"

section \<open>The rollback\<close>

definition compensation_inventory_incomplete :: finding where
  "compensation_inventory_incomplete = error_finding ''install.compensation.inventory-incomplete''
     ''Automatic rollback requires a complete package inventory''
     (''The post-failure package inventory is incomplete, so an ''
      @ ''exact rollback delta cannot be derived safely.'') []
     (Some (''Repair the package database while the node remains drained, ''
       @ ''then apply the original private rollback snapshot.''))"

definition compensation_preflight_failed :: "string \<Rightarrow> (string \<times> json) list \<Rightarrow> finding" where
  "compensation_preflight_failed e evidence = error_finding ''install.compensation.preflight-failed''
     ''Automatic rollback package preflight failed'' e evidence
     (Some (''Restore the original private snapshot and its paired retained ''
       @ ''payload bundle while the node remains drained, then retry rollback.''))"

definition compensation_rollback_failed :: "command_result list \<Rightarrow> finding" where
  "compensation_rollback_failed results = error_finding ''install.compensation.rollback-failed''
     ''Automatic rollback failed''
     (case find failed results of
        None \<Rightarrow> ''The compensating rollback command did not complete safely.''
      | Some r \<Rightarrow> ''Rollback command exited '' @ opt_text (map_option int_str (cr_returncode r)) @ '': ''
          @ join '' '' (cr_command r))
     (case find failed results of None \<Rightarrow> [] | Some r \<Rightarrow> failed_command_evidence r)
     (Some (''Keep the node drained and complete rollback from the original ''
       @ ''private snapshot before restarting GPU services.''))"

definition compensation_preflight_name :: string where
  "compensation_preflight_name = ''install.compensation.packages-preflight''"

text \<open>The end of the rollback: its results, and whether all of them succeeded.\<close>

definition conclude_compensation ::
  "command_result list flow \<Rightarrow> ('w, cli_exception + bool) cli_action" where
  "conclude_compensation outcome =
     (let conclude = (\<lambda>results. do {
           report_results results;
           (if commands_succeeded results then give (Inr True)
            else do { report_finding (compensation_rollback_failed results); give (Inr False) })
         })
      in case outcome of
        Go results \<Rightarrow> conclude results
      | Return results \<Rightarrow> conclude results
      | Raise e \<Rightarrow> give (Inl (RollbackEscaped e)))"

text \<open>
  The evidence of a \<open>PackagePreflightError\<close> names packages that theory \<open>PreflightRollback\<close> does not
  keep; it is the argument \<open>evidence\<close>.
\<close>

definition attempt_install_compensation ::
  "('w, 'r) cli_host_scheme \<Rightarrow> (string \<Rightarrow> command_result list \<Rightarrow> (string \<times> json) list) \<Rightarrow> rollback_snapshot
   \<Rightarrow> host_audit option \<Rightarrow> ('w, cli_exception + bool) cli_action" where
  "attempt_install_compensation H evidence s current =
     and_then (case current of None \<Rightarrow> audited H | Some a \<Rightarrow> give (Inr a)) (\<lambda>a.
       if \<not> ha_package_inventory_complete a then do {
         report_finding compensation_inventory_incomplete;
         give (Inr False)
       }
       else do {
         preflight \<leftarrow> preflight_package_rollback H s a;
         (case preflight of
            Inl (SolverRefused e results) \<Rightarrow> do {
              report_checks (preflight_checks compensation_preflight_name results
                ''The exact compensating package transaction did not resolve safely.'' False);
              report_finding (compensation_preflight_failed e (evidence e results));
              give (Inr False)
            }
          | Inl e \<Rightarrow> give (Inl (PreflightEscaped e))
          | Inr results \<Rightarrow> do {
              report_checks (preflight_checks compensation_preflight_name results
                (''The exact compensating package transaction resolves solely from the ''
                 @ ''snapshot-bound retained local payloads.'') True);
              outcome \<leftarrow> apply_rollback H s (Some a) False False;
              conclude_compensation outcome
            })
       })"

section \<open>The boundary before a mutation phase\<close>

definition package_boundary_finding :: "string \<Rightarrow> finding" where
  "package_boundary_finding phase =
     error_finding (''install.'' @ phase @ ''.package-inventory-incomplete'') ''Fresh package inventory is incomplete''
       (''The '' @ phase @ '' audit cannot prove the exact installed ''
        @ ''package state, so the transaction cannot continue.'') [] None"

definition baseline_changed_finding :: "string list \<Rightarrow> finding" where
  "baseline_changed_finding failed_checks =
     error_finding ''install.pre-package.snapshot-baseline-changed''
       ''The rollback baseline changed before host mutation''
       (''The fresh post-quarantine audit no longer matches the ''
        @ ''private snapshot: '' @ join '', '' failed_checks) []
       (Some (''Keep the node drained, investigate the concurrent state ''
         @ ''change, and restart convergence from a fresh snapshot.''))"

definition inventory_changed_finding :: "string \<Rightarrow> rollback_snapshot \<Rightarrow> host_audit \<Rightarrow> finding" where
  "inventory_changed_finding phase s a =
     error_finding (''install.'' @ phase @ ''.gpu-inventory-changed'') ''GPU identity changed during convergence''
       (''The '' @ phase @ '' GPU UUID inventory differs from the ''
        @ ''private rollback snapshot.'')
       [(''snapshot'', json_strs (rs_gpu_uuids s)), (''observed'', json_strs (ha_gpu_uuids a))] None"

definition launchers_not_quarantined_finding :: finding where
  "launchers_not_quarantined_finding =
     error_finding ''install.pre-service-commit.docker-not-quiesced''
       ''Launchers are not quarantined before core verification''
       (''Every launcher must be observably inactive and masked ''
        @ ''before launcher commit begins.'') [] None"

definition quarantined_boundaries :: "string list" where
  "quarantined_boundaries =
     [''pre-package'', ''post-package'', ''pre-mutation'', ''post-module'', ''pre-service-commit'', ''rollback-pre-apply'']"

definition refuse_boundary :: "finding \<Rightarrow> ('w, bool) cli_action" where
  "refuse_boundary f = do { report_finding f; give False }"

text \<open>The first test of the boundary that follows the snapshot: nothing of the baseline has changed.\<close>

definition baseline_unchanged ::
  "('w, 'r) cli_host_scheme \<Rightarrow> rollback_snapshot \<Rightarrow> host_audit \<Rightarrow> ('w, bool) cli_action" where
  "baseline_unchanged H s a = do {
     checks \<leftarrow> asks (\<lambda>st. verify_rollback H (se_world st) s a False);
     report_checks (map (\<lambda>v. v\<lparr>vf_name := ''install.pre-package.'' @ vf_name v\<rparr>) checks);
     (let failed_checks = map vf_name (filter (\<lambda>v. \<not> vf_ok v) checks)
      in if failed_checks \<noteq> [] then refuse_boundary (baseline_changed_finding failed_checks) else give True)
   }"

definition fresh_gpu_boundary_is_safe ::
  "('w, 'r) cli_host_scheme \<Rightarrow> rollback_snapshot \<Rightarrow> host_audit \<Rightarrow> string \<Rightarrow> ('w, bool) cli_action" where
  "fresh_gpu_boundary_is_safe H s a phase =
     (if \<not> ha_package_inventory_complete a then refuse_boundary (package_boundary_finding phase)
      else do {
        unchanged \<leftarrow> (if phase = ''pre-package'' then baseline_unchanged H s a else give True);
        (if \<not> unchanged then give False
         else if rs_gpu_uuids s = [] \<or> ha_gpu_uuids a \<noteq> rs_gpu_uuids s
           then refuse_boundary (inventory_changed_finding phase s a)
         else if phase \<in> set quarantined_boundaries \<and> \<not> list_all (launcher_quarantined a) service_stop_order
           then refuse_boundary launchers_not_quarantined_finding
         else give True)
      })"

end
