(* ===== verification/LauncherCommit.thy ===== *)
theory LauncherCommit
  imports LauncherQuarantine
begin

text \<open>
  The release of the launchers (\<open>nvidia_converge/cli.py\<close>): each unit is prepared, made active and
  given its unit-file state in steps, a fresh audit behind every step; Docker and its socket are
  released together around the workload checkpoint; a joint verification ends the commit, and
  whatever fails on the way leads back into the quarantine.
\<close>

section \<open>Targets\<close>

definition dependency_activatable_unit_file_states :: "string list" where
  "dependency_activatable_unit_file_states = [''enabled'', ''static'']"

definition snapshot_with_launcher_activity :: "rollback_snapshot \<Rightarrow> string \<Rightarrow> bool \<Rightarrow> rollback_snapshot" where
  "snapshot_with_launcher_activity s u active =
     (if u = fabric_manager_unit then s\<lparr>rs_fabric_manager_active := Some active\<rparr>
      else if u = nvidia_persistenced_unit then s\<lparr>rs_nvidia_persistenced_active := Some active\<rparr>
      else if u = docker_service_unit then s\<lparr>rs_docker_service_active := Some active\<rparr>
      else s\<lparr>rs_docker_socket_active := Some active\<rparr>)"

definition snapshot_with_docker_socket_target :: "rollback_snapshot \<Rightarrow> bool \<Rightarrow> string \<Rightarrow> rollback_snapshot" where
  "snapshot_with_docker_socket_target s active file_state =
     s\<lparr>rs_docker_socket_active := Some active, rs_docker_socket_enabled := Some (file_state = ''enabled''),
       rs_docker_socket_unit_file_state := Some file_state\<rparr>"

definition inactive_launcher_requires_activation_proof :: "rollback_snapshot \<Rightarrow> string \<Rightarrow> bool" where
  "inactive_launcher_requires_activation_proof s u \<longleftrightarrow>
     fst (launcher_target s u) = Some False
     \<and> snd (launcher_target s u) \<in> Some ` set dependency_activatable_unit_file_states"

definition install_launcher_target_snapshot :: "rollback_snapshot \<Rightarrow> desired_state \<Rightarrow> rollback_snapshot" where
  "install_launcher_target_snapshot s d =
     (let fabric_state = (if ds_fabric_manager d then Some ''enabled''
            else if rs_fabric_manager_unit_file_state s = Some ''enabled'' then Some ''disabled''
            else rs_fabric_manager_unit_file_state s)
      in s\<lparr>rs_fabric_manager_active := Some (ds_fabric_manager d),
           rs_fabric_manager_enabled := Some (fabric_state = Some ''enabled''),
           rs_fabric_manager_unit_file_state := fabric_state,
           rs_docker_service_active := Some True, rs_docker_service_enabled := Some True,
           rs_docker_service_unit_file_state := Some ''enabled''\<rparr>)"

section \<open>Composing the steps\<close>

text \<open>Go on with the newest audit while the steps hold.\<close>

definition and_hold ::
  "('w, cli_exception + boundary) cli_action \<Rightarrow> (host_audit \<Rightarrow> ('w, cli_exception + boundary) cli_action)
   \<Rightarrow> ('w, cli_exception + boundary) cli_action" where
  "and_hold m f = and_then m (\<lambda>(ok, a). if ok then f a else give (Inr (False, a)))"

definition unit_finding :: "string \<Rightarrow> string \<Rightarrow> string \<Rightarrow> string \<Rightarrow> (string \<times> json) list \<Rightarrow> finding" where
  "unit_finding operation kind summary detail evidence =
     error_finding (operation @ ''.'' @ kind) summary detail evidence None"

definition commands_step ::
  "('w, command_result list) cli_action \<Rightarrow> finding \<Rightarrow> host_audit
   \<Rightarrow> ('w, cli_exception + boundary) cli_action \<Rightarrow> ('w, cli_exception + boundary) cli_action" where
  "commands_step m f a next_step = do {
     results \<leftarrow> m;
     report_results results;
     (if \<not> commands_succeeded results then refuse_step f a else next_step)
   }"

text \<open>A check of a trusted service, which goes on with what it returns or refuses with its error.\<close>

definition check_step ::
  "('w, command_result list \<times> string option) cli_action \<Rightarrow> (string \<Rightarrow> finding) \<Rightarrow> host_audit
   \<Rightarrow> ('w, cli_exception + boundary) cli_action \<Rightarrow> ('w, cli_exception + boundary) cli_action" where
  "check_step m f a next_step = do {
     (results, error) \<leftarrow> m;
     report_results results;
     (case error of Some e \<Rightarrow> refuse_step (f e) a | None \<Rightarrow> next_step)
   }"

section \<open>The steps of one unit\<close>

definition prepare_rollback_unit_safely ::
  "('w, 'r) cli_host_scheme \<Rightarrow> rollback_snapshot \<Rightarrow> host_audit \<Rightarrow> string \<Rightarrow> string
   \<Rightarrow> ('w, cli_exception + boundary) cli_action" where
  "prepare_rollback_unit_safely H s a u operation =
     (let (target_active, target_state) = launcher_target s u;
          (current_active, current_state) = launcher_state a u
      in if target_active = None \<or> target_state = None \<or> current_active = None \<or> current_state = None then
           refuse_step (unit_finding operation ''service-state-unknown''
             ''Launcher preparation state is incomplete''
             (''Current or target state is unknown for '' @ u @ ''.'') []) a
         else commands_step (prepare_rollback_service_activity H s a {u})
           (unit_finding operation ''service-prepare-failed'' ''Launcher activity preparation failed''
             (''Could not safely unmask and prepare '' @ u @ ''.'') []) a
           (and_then (audited H) (\<lambda>a'.
             if launcher_state a' u \<noteq> (Some False, prepared_file_state target_state) then
               refuse_step (unit_finding operation ''service-prepare-unverified''
                 ''Launcher activity preparation is unverified''
                 (''Fresh audit does not show '' @ u @ '' inactive/'' @ opt_text (prepared_file_state target_state) @ ''.'')
                 [(''unit'', JStr u), (''active'', json_flag (fst (launcher_state a' u))),
                  (''unit_file_state'', json_text (snd (launcher_state a' u)))]) a'
             else give (Inr (True, a')))))"

definition trusted_transactional_launchers :: "string list" where
  "trusted_transactional_launchers = [fabric_manager_unit, nvidia_persistenced_unit, docker_service_unit]"

definition transactional_launchers :: "string list" where
  "transactional_launchers = trusted_transactional_launchers @ [docker_socket_unit]"

definition fabric_manager_bound :: "host_audit \<Rightarrow> bool" where
  "fabric_manager_bound a \<longleftrightarrow>
     ha_fabric_manager_healthy a = Some True \<and> ha_fabric_manager_version a \<noteq> None
     \<and> ha_fabric_manager_version a = mi_version (ha_module a)"

definition unit_evidence :: "string \<Rightarrow> (string \<times> json) list" where
  "unit_evidence u = [(''unit'', JStr u)]"

text \<open>The check before a start or a stop of a trusted service\<close>

definition activity_gate ::
  "('w, 'r) cli_host_scheme \<Rightarrow> string \<Rightarrow> string \<Rightarrow> bool \<Rightarrow> bool \<Rightarrow> host_audit
   \<Rightarrow> ('w, cli_exception + boundary) cli_action \<Rightarrow> ('w, cli_exception + boundary) cli_action" where
  "activity_gate H u operation target current a next_step =
     (if u \<notin> set trusted_transactional_launchers then next_step
      else if target \<and> \<not> current then
        check_step (validate_trusted_gpu_service_start H u) (\<lambda>e. unit_finding operation
          ''trusted-service-start-refused'' ''Trusted service start validation failed'' e (unit_evidence u)) a next_step
      else if current \<and> \<not> target then
        check_step (do {
            (results, _, error) \<leftarrow> validate_active_trusted_gpu_service_identity H u None;
            give (results, error)
          }) (\<lambda>e. unit_finding operation ''trusted-service-stop-refused''
            ''Trusted service stop validation failed'' e (unit_evidence u)) a next_step
      else next_step)"

text \<open>
  The binding of a started service, taken before and again after the audit; \<open>keep\<close> stores the identity.
\<close>

definition identity_refusal :: "string option \<Rightarrow> gpu_service_identity option \<Rightarrow> string + gpu_service_identity" where
  "identity_refusal error identity =
     (case (error, identity) of
        (None, Some i) \<Rightarrow> Inr i
      | (None, None) \<Rightarrow> Inl ''trusted service identity was not returned''
      | (Some e, _) \<Rightarrow> Inl (if e = [] then ''trusted service identity was not returned'' else e))"

definition bound_audit ::
  "('w, 'r) cli_host_scheme \<Rightarrow> string \<Rightarrow> string \<Rightarrow> bool \<Rightarrow> host_audit \<Rightarrow> ('w, cli_exception + boundary) cli_action" where
  "bound_audit H u operation keep a = do {
     (results, identity, error) \<leftarrow> validate_active_trusted_gpu_service_identity H u None;
     report_results results;
     (case identity_refusal error identity of
        Inl e \<Rightarrow> refuse_step (unit_finding operation ''trusted-service-active-unverified''
          ''Trusted service binding is unverified after start'' e (unit_evidence u)) a
      | Inr i \<Rightarrow> and_then (audited H) (\<lambda>a'.
          check_step (do {
              (results, _, error) \<leftarrow> validate_active_trusted_gpu_service_identity H u (Some i);
              give (results, error)
            }) (\<lambda>e. unit_finding operation ''trusted-service-identity-changed''
              ''Trusted service identity changed during validation'' e (unit_evidence u)) a' (do {
              tells (\<lambda>s. if keep then s\<lparr>cs_identities := AList.update u i (cs_identities s)\<rparr> else s);
              give (Inr (True, a'))
            })))
   }"

definition restore_rollback_unit_activity_safely ::
  "('w, 'r) cli_host_scheme \<Rightarrow> rollback_snapshot \<Rightarrow> host_audit \<Rightarrow> string \<Rightarrow> string \<Rightarrow> bool
   \<Rightarrow> ('w, cli_exception + boundary) cli_action" where
  "restore_rollback_unit_activity_safely H s a u operation keep =
     (case (fst (launcher_target s u), fst (launcher_state a u)) of
        (Some target, Some current) \<Rightarrow>
          activity_gate H u operation target current a
         (commands_step (restore_rollback_service_activity H s a {u})
           (unit_finding operation ''service-restore-failed'' ''Launcher activity restoration failed''
             (''Could not restore exact activity for '' @ u @ ''.'') []) a
         (and_hold (if u \<in> set trusted_transactional_launchers \<and> target then bound_audit H u operation keep a
             else and_then (audited H) (\<lambda>a'. give (Inr (True, a')))) (\<lambda>a'.
           if fst (launcher_state a' u) \<noteq> Some target then
             refuse_step (unit_finding operation ''service-restore-unverified''
               ''Launcher activity restoration is unverified''
               (''Fresh audit does not match '' @ u @ '' target activity.'') []) a'
           else if target \<and> u = fabric_manager_unit \<and> \<not> fabric_manager_bound a' then
             refuse_step (unit_finding operation ''fabric-manager-health-failed''
               ''Fabric Manager is not healthy after restore''
               (''Fabric health and exact loaded-driver version binding must ''
                @ ''pass before another launcher is restored.'') []) a'
           else give (Inr (True, a')))))
      | _ \<Rightarrow> refuse_step (unit_finding operation ''service-state-unknown''
          ''Launcher activity cannot be restored exactly''
          (''Current or target activity is unknown for '' @ u @ ''.'') []) a)"

definition final_state_evidence :: "rollback_snapshot \<Rightarrow> host_audit \<Rightarrow> string \<Rightarrow> (string \<times> json) list" where
  "final_state_evidence s a u =
     [(''expected_active'', json_flag (fst (launcher_target s u))),
      (''observed_active'', json_flag (fst (launcher_state a u))),
      (''expected_unit_file_state'', json_text (snd (launcher_target s u))),
      (''observed_unit_file_state'', json_text (snd (launcher_state a u)))]"

text \<open>\<open>require_activity\<close> is true at every call.\<close>

definition finalize_rollback_unit_state ::
  "('w, 'r) cli_host_scheme \<Rightarrow> rollback_snapshot \<Rightarrow> host_audit \<Rightarrow> string \<Rightarrow> string
   \<Rightarrow> ('w, cli_exception + boundary) cli_action" where
  "finalize_rollback_unit_state H s a u operation =
     commands_step (restore_rollback_service_enablement H s a {u})
       (unit_finding operation ''service-enable-restore-failed'' ''Launcher persistent state restoration failed''
         (''Could not finalize the exact unit-file state for '' @ u @ ''.'') []) a
     (and_then (audited H) (\<lambda>a'.
       if launcher_state a' u \<noteq> launcher_target s u then
         refuse_step (unit_finding operation ''service-final-state-unverified''
           ''Launcher final state is unverified''
           (''Fresh audit does not match the exact '' @ u @ '' target.'') (final_state_evidence s a' u)) a'
       else give (Inr (True, a'))))"

definition restore_rollback_unit_staged ::
  "('w, 'r) cli_host_scheme \<Rightarrow> rollback_snapshot \<Rightarrow> host_audit \<Rightarrow> string \<Rightarrow> string
   \<Rightarrow> ('w, cli_exception + boundary) cli_action" where
  "restore_rollback_unit_staged H s a u operation =
     and_hold (prepare_rollback_unit_safely H s a u operation) (\<lambda>a.
     and_hold (if inactive_launcher_requires_activation_proof s u then
         and_hold (restore_rollback_unit_activity_safely H (snapshot_with_launcher_activity s u True) a u operation False)
           (\<lambda>a. restore_rollback_unit_activity_safely H s a u operation False)
       else restore_rollback_unit_activity_safely H s a u operation True) (\<lambda>a.
       finalize_rollback_unit_state H s a u operation))"

section \<open>Back into the quarantine\<close>

definition not_quarantined_finding :: "string list option \<Rightarrow> finding" where
  "not_quarantined_finding workloads =
     error_finding ''launcher-commit.quarantine-unverified'' ''Failed launcher commit is not fully quarantined''
       (if workloads \<noteq> Some [] then ''All four launchers were re-masked, but the fresh service/''
          @ ''workload proof did not establish a completely idle boundary.''
        else ''One or more launchers could not be re-masked.'')
       [(''active_gpu_workloads'', json_opt json_strs workloads)]
       (Some (''Keep the node drained and rerun the exact private snapshot ''
         @ ''rollback before releasing any launcher.''))"

definition quarantine_failed_launcher_commit ::
  "('w, 'r) cli_host_scheme \<Rightarrow> ('w, cli_exception + boundary) cli_action" where
  "quarantine_failed_launcher_commit H = do {
     _ \<leftarrow> requiesce_services_for_compensation H;
     and_then (audited H) (\<lambda>a.
     and_then (defer_launcher_enablement H a) (\<lambda>(quarantined, a').
     and_then (probe_workloads H a') (\<lambda>workloads. do {
       report_when (\<not> quarantined \<or> workloads \<noteq> Some []) (not_quarantined_finding workloads);
       give (Inr (False, a'))
     })))
   }"

text \<open>Go on while the steps hold, else quarantine: the shape of every step of the commit.\<close>

definition or_quarantine ::
  "('w, 'r) cli_host_scheme \<Rightarrow> ('w, cli_exception + boundary) cli_action
   \<Rightarrow> (host_audit \<Rightarrow> ('w, cli_exception + boundary) cli_action) \<Rightarrow> ('w, cli_exception + boundary) cli_action" where
  "or_quarantine H m f =
     and_then m (\<lambda>(ok, a). if ok then f a else quarantine_failed_launcher_commit H)"

section \<open>The joint verification\<close>

definition final_identity_finding :: "string \<Rightarrow> string \<Rightarrow> string \<Rightarrow> finding" where
  "final_identity_finding operation u e = unit_finding operation ''launcher-final-identity-unverified''
     ''Final trusted NVIDIA service identity is unverified'' e (unit_evidence u)"

text \<open>The identities of the services that are to be active, or the finding against one of them\<close>

fun final_identities ::
  "('w, 'r) cli_host_scheme \<Rightarrow> rollback_snapshot \<Rightarrow> string \<Rightarrow> string list
   \<Rightarrow> (string \<times> gpu_service_identity) list \<Rightarrow> ('w, finding + (string \<times> gpu_service_identity) list) cli_action" where
  "final_identities H s operation [] found = give (Inr found)"
| "final_identities H s operation (u # units) found =
     (if fst (launcher_target s u) \<noteq> Some True then final_identities H s operation units found
      else do {
        kept \<leftarrow> asks cs_identities;
        (case map_of kept u of
           None \<Rightarrow> give (Inl (final_identity_finding operation u
             ''The staged launcher commit did not retain its identity token.''))
         | Some expected \<Rightarrow> do {
             (results, identity, error) \<leftarrow> validate_active_trusted_gpu_service_identity H u (Some expected);
             report_results results;
             (case identity_refusal error identity of
                Inl e \<Rightarrow> give (Inl (final_identity_finding operation u e))
              | Inr i \<Rightarrow> final_identities H s operation units (AList.update u i found))
           })
      })"

fun revalidate_identities ::
  "('w, 'r) cli_host_scheme \<Rightarrow> string \<Rightarrow> (string \<times> gpu_service_identity) list \<Rightarrow> ('w, finding option) cli_action" where
  "revalidate_identities H operation [] = give None"
| "revalidate_identities H operation ((u, i) # identities) = do {
     (results, _, error) \<leftarrow> validate_active_trusted_gpu_service_identity H u (Some i);
     report_results results;
     (case error of
        Some e \<Rightarrow> give (Some (unit_finding operation ''launcher-final-identity-changed''
          ''Trusted NVIDIA service identity changed during final commit'' e (unit_evidence u)))
      | None \<Rightarrow> revalidate_identities H operation identities)
   }"

definition launcher_matches :: "rollback_snapshot \<Rightarrow> host_audit \<Rightarrow> string \<Rightarrow> bool" where
  "launcher_matches s a u \<longleftrightarrow>
     fst (launcher_target s u) \<noteq> None \<and> snd (launcher_target s u) \<noteq> None \<and> launcher_state a u = launcher_target s u"

definition fabric_mismatch :: "rollback_snapshot \<Rightarrow> host_audit \<Rightarrow> bool" where
  "fabric_mismatch s a \<longleftrightarrow> rs_fabric_manager_active s = Some True \<and> \<not> fabric_manager_bound a"

definition fabric_evidence :: "host_audit \<Rightarrow> (string \<times> json) list" where
  "fabric_evidence a =
     [(''fabric_manager_healthy'', json_flag (ha_fabric_manager_healthy a)),
      (''fabric_manager_version'', json_text (ha_fabric_manager_version a)),
      (''loaded_module_version'', json_text (mi_version (ha_module a)))]"

text \<open>The mismatches by unit, in the order in which the dictionary receives them\<close>

definition final_mismatches :: "rollback_snapshot \<Rightarrow> host_audit \<Rightarrow> (string \<times> json) list" where
  "final_mismatches s a =
     (let mismatched = filter (\<lambda>u. \<not> launcher_matches s a u) transactional_launchers;
          fabric = (if fabric_mismatch s a then fabric_evidence a else [])
      in map (\<lambda>u. (u, JObj (final_state_evidence s a u @ (if u = fabric_manager_unit then fabric else [])))) mismatched
         @ (if fabric \<noteq> [] \<and> fabric_manager_unit \<notin> set mismatched
            then [(fabric_manager_unit, JObj fabric)] else []))"

definition final_checkpoint_required :: "rollback_snapshot \<Rightarrow> bool" where
  "final_checkpoint_required s \<longleftrightarrow>
     fst (launcher_target s docker_service_unit) = Some True
     \<and> launcher_target s docker_socket_unit \<noteq> (Some False, Some ''masked'')"

definition verify_joint_launcher_commit ::
  "('w, 'r) cli_host_scheme \<Rightarrow> bool \<Rightarrow> rollback_snapshot \<Rightarrow> host_audit \<Rightarrow> string
   \<Rightarrow> ('w, cli_exception + boundary) cli_action" where
  "verify_joint_launcher_commit H allow_active s a operation = do {
     identities \<leftarrow> final_identities H s operation trusted_transactional_launchers [];
     (case identities of
        Inl f \<Rightarrow> refuse_step f a
      | Inr bound \<Rightarrow>
          and_hold (if final_checkpoint_required s then post_docker_workload_checkpoint H allow_active operation
            else give (Inr (True, a))) (\<lambda>_.
          and_then (audited H) (\<lambda>a'. do {
            changed \<leftarrow> revalidate_identities H operation bound;
            (case changed of
               Some f \<Rightarrow> refuse_step f a'
             | None \<Rightarrow>
                 if final_mismatches s a' \<noteq> [] then
                   refuse_step (unit_finding operation ''launcher-final-state-unverified''
                     ''Joint launcher commit is unverified''
                     (''The final fresh audit does not match the exact all-four ''
                      @ ''launcher target after the last release mutation.'')
                     [(''mismatches'', JObj (final_mismatches s a'))]) a'
                 else give (Inr (True, a')))
          })))
   }"

section \<open>The commit\<close>

definition temporary_masked_socket :: "rollback_snapshot \<Rightarrow> bool" where
  "temporary_masked_socket s \<longleftrightarrow>
     fst (launcher_target s docker_service_unit) = Some True
     \<and> launcher_target s docker_socket_unit = (Some False, Some ''masked'')"

definition socket_dependency_snapshot :: "rollback_snapshot \<Rightarrow> rollback_snapshot" where
  "socket_dependency_snapshot s =
     (if temporary_masked_socket s then snapshot_with_docker_socket_target s True ''disabled'' else s)"

definition prove_socket_activation :: "rollback_snapshot \<Rightarrow> bool" where
  "prove_socket_activation s \<longleftrightarrow>
     temporary_masked_socket s \<or> fst (launcher_target s docker_socket_unit) = Some True
     \<or> inactive_launcher_requires_activation_proof s docker_socket_unit"

definition prove_docker_activation :: "rollback_snapshot \<Rightarrow> bool" where
  "prove_docker_activation s \<longleftrightarrow>
     fst (launcher_target s docker_service_unit) = Some True
     \<or> inactive_launcher_requires_activation_proof s docker_service_unit \<or> prove_socket_activation s"

definition relinquish_unit :: "string \<Rightarrow> ('w, unit) cli_action" where
  "relinquish_unit u = tells (\<lambda>s. s\<lparr>cs_guard := map_option (relinquish [u]) (cs_guard s)\<rparr>)"

fun commit_gpu_services ::
  "('w, 'r) cli_host_scheme \<Rightarrow> rollback_snapshot \<Rightarrow> string \<Rightarrow> string list \<Rightarrow> host_audit
   \<Rightarrow> ('w, cli_exception + boundary) cli_action" where
  "commit_gpu_services H s operation [] a = give (Inr (True, a))"
| "commit_gpu_services H s operation (u # units) a =
     and_hold (restore_rollback_unit_staged H s a u operation) (\<lambda>a. do {
       relinquish_unit u;
       commit_gpu_services H s operation units a
     })"

definition docker_targets_known :: "rollback_snapshot \<Rightarrow> bool" where
  "docker_targets_known s \<longleftrightarrow>
     list_all (\<lambda>u. fst (launcher_target s u) \<noteq> None \<and> snd (launcher_target s u) \<noteq> None)
       [docker_service_unit, docker_socket_unit]"

definition hold :: "host_audit \<Rightarrow> ('w, cli_exception + boundary) cli_action" where
  "hold a = give (Inr (True, a))"

text \<open>Docker and its socket: prepared, proved able to run, and brought to their targets\<close>

definition socket_activation ::
  "('w, 'r) cli_host_scheme \<Rightarrow> rollback_snapshot \<Rightarrow> string \<Rightarrow> host_audit \<Rightarrow> ('w, cli_exception + boundary) cli_action" where
  "socket_activation H s operation a =
     (if prove_socket_activation s then
        restore_rollback_unit_activity_safely H
          (if temporary_masked_socket s then socket_dependency_snapshot s
           else snapshot_with_launcher_activity s docker_socket_unit True)
          a docker_socket_unit operation False
      else hold a)"

definition docker_activation ::
  "('w, 'r) cli_host_scheme \<Rightarrow> bool \<Rightarrow> rollback_snapshot \<Rightarrow> string \<Rightarrow> host_audit
   \<Rightarrow> ('w, cli_exception + boundary) cli_action" where
  "docker_activation H allow_active s operation a =
     and_hold (restore_rollback_unit_activity_safely H
        (if prove_docker_activation s then snapshot_with_launcher_activity s docker_service_unit True else s)
        a docker_service_unit operation True) (\<lambda>a.
     and_hold (if prove_docker_activation s then post_docker_workload_checkpoint H allow_active operation else hold a) (\<lambda>a.
       if fst (launcher_target s docker_service_unit) = Some False \<and> prove_docker_activation s
       then restore_rollback_unit_activity_safely H s a docker_service_unit operation False else hold a))"

definition socket_target ::
  "('w, 'r) cli_host_scheme \<Rightarrow> rollback_snapshot \<Rightarrow> string \<Rightarrow> host_audit \<Rightarrow> ('w, cli_exception + boundary) cli_action" where
  "socket_target H s operation a =
     (let current = fst (launcher_state a docker_socket_unit)
      in if current = None then give (Inr (False, a))
         else if current \<noteq> fst (launcher_target s docker_socket_unit)
         then restore_rollback_unit_activity_safely H s a docker_socket_unit operation False else hold a)"

definition prepared_socket_state :: "rollback_snapshot \<Rightarrow> string option" where
  "prepared_socket_state s =
     (if temporary_masked_socket s then Some ''disabled''
      else prepared_file_state (snd (launcher_target s docker_socket_unit)))"

definition docker_activity_evidence :: "rollback_snapshot \<Rightarrow> host_audit \<Rightarrow> (string \<times> json) list" where
  "docker_activity_evidence s a =
     [(''expected_service_active'', json_flag (fst (launcher_target s docker_service_unit))),
      (''observed_service_active'', json_flag (fst (launcher_state a docker_service_unit))),
      (''expected_service_prepared_state'',
        json_text (prepared_file_state (snd (launcher_target s docker_service_unit)))),
      (''observed_service_state'', json_text (snd (launcher_state a docker_service_unit))),
      (''expected_socket_active'', json_flag (fst (launcher_target s docker_socket_unit))),
      (''observed_socket_active'', json_flag (fst (launcher_state a docker_socket_unit))),
      (''expected_socket_prepared_state'', json_text (prepared_socket_state s)),
      (''observed_socket_state'', json_text (snd (launcher_state a docker_socket_unit)))]"

definition docker_activity_verified ::
  "rollback_snapshot \<Rightarrow> string \<Rightarrow> host_audit \<Rightarrow> ('w, cli_exception + boundary) cli_action" where
  "docker_activity_verified s operation a =
     (if launcher_state a docker_socket_unit \<noteq> (fst (launcher_target s docker_socket_unit), prepared_socket_state s)
         \<or> launcher_state a docker_service_unit
             \<noteq> (fst (launcher_target s docker_service_unit),
                prepared_file_state (snd (launcher_target s docker_service_unit)))
      then refuse_step (unit_finding operation ''docker-activity-commit-unverified''
        ''Docker activity commit is unverified''
        (''Fresh audit does not match the exact Docker activity target ''
         @ ''and safely prepared unit-file states.'') (docker_activity_evidence s a)) a
      else hold a)"

definition masked_socket_restored ::
  "('w, 'r) cli_host_scheme \<Rightarrow> rollback_snapshot \<Rightarrow> string \<Rightarrow> host_audit \<Rightarrow> ('w, cli_exception + boundary) cli_action" where
  "masked_socket_restored H s operation a = do {
     results \<leftarrow> quarantine_service H docker_socket_unit;
     report_results results;
     (if \<not> commands_succeeded results then give (Inr (False, a))
      else and_then (audited H) (\<lambda>a'.
        if launcher_state a' docker_socket_unit \<noteq> launcher_target s docker_socket_unit then
          refuse_step (unit_finding operation ''docker-socket-final-state-unverified''
            ''Docker socket final state is unverified''
            ''Fresh audit does not prove the exact masked socket target.'' []) a'
        else hold a'))
   }"

definition commit_rollback_service_activity_impl ::
  "('w, 'r) cli_host_scheme \<Rightarrow> bool \<Rightarrow> rollback_snapshot \<Rightarrow> host_audit \<Rightarrow> string
   \<Rightarrow> ('w, cli_exception + boundary) cli_action" where
  "commit_rollback_service_activity_impl H allow_active s a operation = do {
     tells (\<lambda>st. st\<lparr>cs_identities := []\<rparr>);
     or_quarantine H (commit_gpu_services H s operation [fabric_manager_unit, nvidia_persistenced_unit] a) (\<lambda>a.
     or_quarantine H (give (Inr (docker_targets_known s, a))) (\<lambda>a.
     or_quarantine H (prepare_rollback_unit_safely H (socket_dependency_snapshot s) a docker_socket_unit operation) (\<lambda>a.
     or_quarantine H (prepare_rollback_unit_safely H s a docker_service_unit operation) (\<lambda>a.
     or_quarantine H (socket_activation H s operation a) (\<lambda>a.
     or_quarantine H (docker_activation H allow_active s operation a) (\<lambda>a.
     or_quarantine H (socket_target H s operation a) (\<lambda>a.
     or_quarantine H (docker_activity_verified s operation a) (\<lambda>a.
     or_quarantine H (finalize_rollback_unit_state H s a docker_service_unit operation) (\<lambda>a.
     or_quarantine H (if temporary_masked_socket s then masked_socket_restored H s operation a
         else finalize_rollback_unit_state H s a docker_socket_unit operation) (\<lambda>a.
     or_quarantine H (verify_joint_launcher_commit H allow_active s a operation) hold))))))))))
   }"

text \<open>
  An exception quarantines, or masks in an emergency when that fails too, and is raised again.
\<close>

definition commit_rollback_service_activity ::
  "('w, 'r) cli_host_scheme \<Rightarrow> bool \<Rightarrow> rollback_snapshot \<Rightarrow> host_audit \<Rightarrow> string
   \<Rightarrow> ('w, cli_exception + boundary) cli_action" where
  "commit_rollback_service_activity H allow_active s a operation = do {
     r \<leftarrow> commit_rollback_service_activity_impl H allow_active s a operation;
     (case r of
        Inr x \<Rightarrow> give (Inr x)
      | Inl e \<Rightarrow> do {
          _ \<leftarrow> or_emergency H (quarantine_failed_launcher_commit H);
          give (Inl e)
        })
   }"

end
