(* ===== verification/SnapshotCreateProps.thy ===== *)
theory SnapshotCreateProps
  imports SnapshotCreate SnapshotWhole
begin

text \<open>
  What a persisted snapshot is worth: it describes a baseline a rollback can restore, its commands and
  digest are its own, and its document is on disk; and when the loader will not take it back.
\<close>

section \<open>Successful runs\<close>

lemma ran_and_then:
  "run_state (and_then m f) s = (Inr b, t) \<longleftrightarrow>
     (\<exists>a s'. run_state m s = (Inr a, s') \<and> run_state (f a) s' = (Inr b, t))"
  by (auto simp: and_then_def split: prod.split sum.split)

lemma ran_on_world:
  "run_state (State_Monad.bind (on_world f) g) s = r \<longleftrightarrow>
     (\<exists>a w. f (se_world s) = (a, w) \<and> run_state (g a) (s\<lparr>se_world := w\<rparr>) = r)"
  by (auto split: prod.split)

lemma ran_asks: "run_state (asks f) s = (x, t) \<longleftrightarrow> f s = x \<and> s = t"
  by simp

lemma ran_give: "run_state (give x) s = (y, t) \<longleftrightarrow> x = y \<and> s = t"
  by simp

lemma first_refusal_None: "first_refusal gs = None \<longleftrightarrow> list_all (\<lambda>(refused, _). \<not> refused) gs"
  by (induction gs rule: first_refusal.induct) auto

lemma refuse_by_Inr: "refuse_by gs = Inr u \<longleftrightarrow> list_all (\<lambda>(refused, _). \<not> refused) gs"
  by (auto simp: refuse_by_def first_refusal_None [symmetric] split: option.split)

lemma restorable_installed [simp]: "restorable_packages (filter pi_installed ps) = restorable_packages ps"
  by (simp add: restorable_packages_def conj_commute)

lemma rollback_commands_installed:
  "rollback_commands script (filter pi_installed ps) = rollback_commands script ps"
  by (intro ext) (simp add: rollback_commands_def)

lemma integrity_with_integrity [simp]:
  "snapshot_integrity f (s\<lparr>rs_integrity_sha256 := x\<rparr>) = snapshot_integrity f s"
  by (simp add: snapshot_integrity_def snapshot_fields_def del: json_dumps.simps)

section \<open>The baseline\<close>

definition restorable_baseline :: "host_audit \<Rightarrow> rollback_snapshot \<Rightarrow> bool" where
  "restorable_baseline a s \<longleftrightarrow>
     rs_packages s = filter pi_installed (ha_packages a)
     \<and> list_all (\<lambda>p. or_empty (pi_version p) \<noteq> []) (rs_packages s)
     \<and> rs_package_manager s \<noteq> None \<and> or_empty (rs_os_id s) \<noteq> [] \<and> rs_gpu_uuids s \<noteq> []
     \<and> rs_mig_mode s \<notin> {None, Some ''mixed''} \<and> ha_mig_mode_pending a = rs_mig_mode s
     \<and> (rs_mig_mode s = Some ''disabled'' \<longrightarrow> rs_mig_geometry s = [])
     \<and> snapshot_service_state_consistency_error s = None
     \<and> rs_module_loaded s = (''nvidia'' \<in> set (rs_module_names s))
     \<and> set (rs_introduced_packages s) \<inter> set (map pi_name (rs_packages s)) = {}
     \<and> rs_package_payloads s \<noteq> None \<and> hex_of_length 32 (rs_operation_id s)
     \<and> rs_source_binding s = None"

definition self_consistent :: "string \<Rightarrow> (string \<Rightarrow> string) \<Rightarrow> rollback_snapshot \<Rightarrow> bool" where
  "self_consistent script sha256 s \<longleftrightarrow>
     rollback_commands script (rs_packages s) (rs_package_manager s) (rs_introduced_packages s) False
       (rs_path s) (rs_package_payloads s) None None = Inr (rs_commands s)
     \<and> rs_integrity_sha256 s = Some (snapshot_integrity sha256 s)"

lemma remove_packages_new:
  assumes "remove_packages script desired a = Inr names"
  shows "set names \<inter> set (map pi_name (filter pi_installed (ha_packages a))) = {}"
  using assms by (auto simp: remove_packages_def Let_def bind_r_Inr_iff split: option.split_asm if_splits)

lemma create_commands_Inr:
  "create_commands H a path introduced payloads = Inr commands \<longleftrightarrow>
     rollback_commands (sn_script H) (filter pi_installed (ha_packages a)) (ha_package_manager a) introduced False
       path payloads None None = Inr commands"
  by (auto simp: create_commands_def rollback_commands_installed split: sum.split)

lemma module_names_loaded:
  "snapshot_module_names H w True a = Inr modules \<Longrightarrow> mi_loaded (ha_module a) = (''nvidia'' \<in> set modules)"
  by (auto simp: snapshot_module_names_def split: sum.split_asm if_splits)

lemma bind_payloads_given:
  "run_state (bind_payloads H True path payloads a) st = (Inr u, t) \<Longrightarrow> payloads \<noteq> None"
  by (cases payloads) (auto simp: bind_payloads_def)

lemma managed_files_captured:
  "snapshot_managed_files H w True pm failsafe = Inr files \<Longrightarrow> capture_managed_files H w pm failsafe = Inr files"
  by (auto simp: snapshot_managed_files_def split: sum.split_asm)

lemma planned_Inr: "(case r of Inl e \<Rightarrow> Inl (CreatePlan e) | Inr names \<Rightarrow> Inr names) = Inr x \<longleftrightarrow> r = Inr x"
  by (auto split: sum.split)

lemma assemble_persisted:
  assumes "run_state (assemble_snapshot H a path desired True i payloads failsafe) st = (Inr (target, s), t)"
  shows "\<exists>commands introduced modules now host files.
    s = with_integrity H (snapshot_record H a (Some target) i commands introduced modules now host files payloads)
    \<and> mi_loaded (ha_module a) = (''nvidia'' \<in> set modules) \<and> payloads \<noteq> None
    \<and> remove_packages (sn_script H) desired a = Inr introduced
    \<and> create_commands H a (Some target) introduced payloads = Inr commands
    \<and> capture_managed_files H (se_world t) (ha_package_manager a) failsafe = Inr files"
  using assms
  unfolding assemble_snapshot_def ran_and_then ran_on_world ran_give ran_asks if_True planned_Inr sum.inject
    prod.inject
  by (elim exE conjE, hypsubst)
    (intro exI conjI, rule refl, erule module_names_loaded, erule bind_payloads_given, assumption, assumption,
     erule managed_files_captured)

definition stored_by :: "('w, 'r) create_host_scheme \<Rightarrow> rollback_snapshot \<Rightarrow> 'w \<Rightarrow> bool" where
  "stored_by H s w \<longleftrightarrow>
     (\<exists>w0. cr_write H (or_empty (rs_path s)) (snapshot_document s) w0 = (Inr (), w))"

lemma persist_snapshot_stored:
  assumes "run_state (persist_snapshot H target s) st = (Inr u, t)" and "rs_path s = Some target"
  shows "stored_by H s (se_world t)"
  using assms by (auto simp: persist_snapshot_def stored_by_def or_empty_def
      split: prod.split_asm sum.split_asm if_splits)

section \<open>Creation\<close>

lemma create_persisted:
  assumes "run_state (create_snapshot H a path desired True operation_id payloads failsafe) st = (Inr s, t)"
  shows "\<exists>chosen failsafe target st1 st2.
    refuse_by (failsafe_guards True a failsafe @ mig_guards True desired a @ identity_guards True a
      @ service_guards True a) = Inr ()
    \<and> refuse_by (version_guards True chosen a) = Inr ()
    \<and> run_state (assemble_snapshot H a path desired True chosen payloads failsafe) st1 = (Inr (target, s), st2)
    \<and> run_state (persist_snapshot H target s) st2 = (Inr (), t)"
proof -
  have known: "run_state (State_Monad.bind m g) s = r \<longleftrightarrow> (\<exists>x s'. run_state m s = (x, s') \<and> run_state (g x) s' = r)"
    for m :: "(('b, 'c) session_scheme, string) state" and g s r
    by (auto split: prod.split)
  show ?thesis
    using assms
    unfolding create_snapshot_def ran_and_then known ran_give ran_asks if_False not_True_eq_False
    by (elim exE conjE, auto simp: ran_and_then split: prod.split_asm, blast)
qed

lemma snapshot_record_units: "snapshot_units (with_integrity H (snapshot_record H a p i c n m now h f b)) = audit_units a"
  by (simp add: with_integrity_def snapshot_record_def snapshot_units_def audit_units_def)

lemma with_integrity_field: "rs_integrity_sha256 (with_integrity H s) = Some (snapshot_integrity (sn_sha256 H) (with_integrity H s))"
  by (simp add: with_integrity_def)

lemma versions_known:
  "incomplete_versions a = [] \<longleftrightarrow>
     list_all (\<lambda>p. or_empty (pi_version p) \<noteq> []) (filter pi_installed (ha_packages a))"
  by (auto simp: incomplete_versions_def filter_empty_conv list_all_iff)

text \<open>C13. A persisted snapshot is a baseline a rollback can restore: exactly the installed packages, each with
  its version, a package manager, an operating system and GPUs, a settled MIG mode without stray instances,
  launcher states without contradiction, modules that agree with the audit, and nothing to be removed
  that was there before.  Its commands are the ones the builder makes of its own fields, its digest is its
  own, and what was written is its document.\<close>

theorem created_snapshot_restorable:
  assumes "run_state (create_snapshot H a path desired True operation_id payloads failsafe) st = (Inr s, t)"
  shows "restorable_baseline a s \<and> self_consistent (sn_script H) (sn_sha256 H) s \<and> stored_by H s (se_world t)"
proof -
  obtain chosen failsafe' target st1 st2 where
    guards: "refuse_by (failsafe_guards True a failsafe' @ mig_guards True desired a @ identity_guards True a
      @ service_guards True a) = Inr ()"
    and versions: "refuse_by (version_guards True chosen a) = Inr ()"
    and run: "run_state (assemble_snapshot H a path desired True chosen payloads failsafe') st1 = (Inr (target, s), st2)"
    and persisted: "run_state (persist_snapshot H target s) st2 = (Inr (), t)"
    using create_persisted [OF assms] by blast
  obtain commands introduced modules now host files where
    s: "s = with_integrity H (snapshot_record H a (Some target) chosen commands introduced modules now host files payloads)"
    and modules: "mi_loaded (ha_module a) = (''nvidia'' \<in> set modules)" and payloads: "payloads \<noteq> None"
    and introduced: "remove_packages (sn_script H) desired a = Inr introduced"
    and commands: "create_commands H a (Some target) introduced payloads = Inr commands"
    using assemble_persisted [OF run] by blast
  have fields: "rs_path s = Some target" "rs_packages s = filter pi_installed (ha_packages a)"
    "rs_package_manager s = ha_package_manager a" "rs_introduced_packages s = introduced" "rs_commands s = commands"
    "rs_package_payloads s = payloads" "rs_operation_id s = chosen" "rs_os_id s = ha_os_id a"
    "rs_gpu_uuids s = ha_gpu_uuids a" "rs_mig_mode s = ha_mig_mode a" "rs_mig_geometry s = ha_mig_geometry a"
    "rs_module_loaded s = mi_loaded (ha_module a)" "rs_module_names s = modules" "rs_source_binding s = None"
    by (simp_all add: s with_integrity_def snapshot_record_def)
  have settled: "ha_mig_mode a \<notin> {None, Some ''mixed''}" "ha_mig_mode_pending a = ha_mig_mode a"
    "ha_mig_mode a = Some ''disabled'' \<longrightarrow> ha_mig_geometry a = []" "ha_gpu_uuids a \<noteq> []"
    "ha_package_manager a \<noteq> None" "or_empty (ha_os_id a) \<noteq> []"
    "service_state_consistency_error a = None"
    using guards by (auto simp: refuse_by_Inr mig_guards_def identity_guards_def service_guards_def)
  have "hex_of_length 32 chosen" "incomplete_versions a = []"
    using versions by (auto simp: refuse_by_Inr version_guards_def)
  moreover have "snapshot_service_state_consistency_error s = None"
    using settled(7) by (simp add: s snapshot_service_state_consistency_error_def service_state_consistency_error_def
        snapshot_record_units)
  ultimately have "restorable_baseline a s"
    using settled modules payloads remove_packages_new [OF introduced]
    by (simp add: restorable_baseline_def fields versions_known)
  moreover have "self_consistent (sn_script H) (sn_sha256 H) s"
    using commands unfolding self_consistent_def fields create_commands_Inr by (simp add: s with_integrity_field)
  ultimately show ?thesis
    using persist_snapshot_stored [OF persisted fields(1)] by blast
qed

end
