(* ===== verification/LauncherProps.thy ===== *)
theory LauncherProps
  imports LauncherCommit SnapshotCreateProps
begin

text \<open>
  What the outcome of a launcher commit is worth, and that of the boundary before a GPU mutation.
  \<open>yields m Q\<close> says that every run of \<open>m\<close> that does not raise ends with a value and a session that
  satisfy \<open>Q\<close>; its rules follow the structure of the action.
\<close>

section \<open>Partial correctness\<close>

named_theorems yields_intros "what a run that does not raise ends with"

definition yields ::
  "('w, cli_exception + 'a) cli_action \<Rightarrow> ('a \<Rightarrow> 'w cli_session \<Rightarrow> bool) \<Rightarrow> bool" where
  "yields m Q \<longleftrightarrow> (\<forall>s a t. run_state m s = (Inr a, t) \<longrightarrow> Q a t)"

lemma yieldsD: "yields m Q \<Longrightarrow> run_state m s = (Inr a, t) \<Longrightarrow> Q a t"
  unfolding yields_def by blast

lemma yields_weaken: "yields m P \<Longrightarrow> (\<And>a t. P a t \<Longrightarrow> Q a t) \<Longrightarrow> yields m Q"
  unfolding yields_def by blast

lemma yields_give [yields_intros]: "(\<And>t. Q a t) \<Longrightarrow> yields (give (Inr a)) Q"
  by (simp add: yields_def)

lemma yields_raise [yields_intros]: "yields (give (Inl e)) Q"
  by (simp add: yields_def)

lemma yields_bind [yields_intros]: "(\<And>x. yields (f x) Q) \<Longrightarrow> yields (State_Monad.bind m f) Q"
  unfolding yields_def by (auto split: prod.split_asm)

lemma yields_then:
  assumes "yields m P" and "\<And>a t. P a t \<Longrightarrow> yields (f a) Q"
  shows "yields (and_then m f) Q"
  using assms unfolding yields_def ran_and_then by blast

lemma yields_and_then [yields_intros]: "(\<And>a. yields (f a) Q) \<Longrightarrow> yields (and_then m f) Q"
  by (rule yields_then [where P = "\<lambda>_ _. True"]) (simp_all add: yields_def)

lemma yields_cases [yields_intros]:
  "(b \<Longrightarrow> yields m Q) \<Longrightarrow> (\<not> b \<Longrightarrow> yields n Q) \<Longrightarrow> yields (if b then m else n) Q"
  "yields (f x) Q \<Longrightarrow> yields (Let x f) Q"
  "(y = None \<Longrightarrow> yields m Q) \<Longrightarrow> (\<And>a. y = Some a \<Longrightarrow> yields (g a) Q)
   \<Longrightarrow> yields (case y of None \<Rightarrow> m | Some a \<Rightarrow> g a) Q"
  "(\<And>e. z = Inl e \<Longrightarrow> yields (h e) Q) \<Longrightarrow> (\<And>a. z = Inr a \<Longrightarrow> yields (k a) Q)
   \<Longrightarrow> yields (case z of Inl e \<Rightarrow> h e | Inr a \<Rightarrow> k a) Q"
  "(\<And>a b. p = (a, b) \<Longrightarrow> yields (l a b) Q) \<Longrightarrow> yields (case p of (a, b) \<Rightarrow> l a b) Q"
  by (simp_all split: option.split sum.split prod.split)

lemma yields_refuse [yields_intros]: "(\<And>t. Q (False, a) t) \<Longrightarrow> yields (refuse_step f a) Q"
  unfolding refuse_step_def by (intro yields_intros)

text \<open>An audit is what the observer of the host returned.\<close>

definition audit_of :: "('w, 'r) cli_host_scheme \<Rightarrow> host_audit \<Rightarrow> bool" where
  "audit_of H a \<longleftrightarrow> (\<exists>s t. ch_audit H s = (Inr a, t))"

lemma yields_audited: "yields (audited H) (\<lambda>a _. audit_of H a)"
  unfolding yields_def audited_def audit_of_def
  by (auto split: prod.split_asm) (metis map_sum.simps sum.exhaust sum.distinct(1) sum.inject(2))

lemma yields_after_audit [yields_intros]:
  "(\<And>a. audit_of H a \<Longrightarrow> yields (f a) Q) \<Longrightarrow> yields (and_then (audited H) f) Q"
  by (rule yields_then [OF yields_audited])

section \<open>The quarantine\<close>

definition all_quarantined :: "host_audit \<Rightarrow> bool" where
  "all_quarantined a \<longleftrightarrow> list_all (launcher_quarantined a) service_stop_order"

lemma defer_quarantined:
  "yields (defer_launcher_enablement H a) (\<lambda>(ok, a') _. ok \<longrightarrow> all_quarantined a' \<and> audit_of H a')"
  unfolding defer_launcher_enablement_def
  by (intro yields_intros; simp add: all_quarantined_def)

definition unverified_quarantine :: "report \<Rightarrow> bool" where
  "unverified_quarantine r \<longleftrightarrow>
     (\<exists>f \<in> set (rp_findings r). fi_id f = ''launcher-commit.quarantine-unverified'' \<and> fi_severity f = Error)"

definition contained :: "host_audit \<Rightarrow> 'w cli_session \<Rightarrow> bool" where
  "contained a t \<longleftrightarrow> all_quarantined a \<or> unverified_quarantine (cs_report t)"

lemma report_contained:
  "quarantined \<longrightarrow> all_quarantined a \<Longrightarrow> yields (do {
     report_when (\<not> quarantined \<or> b) (not_quarantined_finding workloads);
     give (Inr (False, a))
   }) (\<lambda>(ok, a) t. \<not> ok \<and> contained a t)"
  by (auto simp: yields_def report_when_def report_finding_def contained_def unverified_quarantine_def
      not_quarantined_finding_def error_finding_def)

lemma quarantine_failed_contained:
  "yields (quarantine_failed_launcher_commit H) (\<lambda>(ok, a) t. \<not> ok \<and> contained a t)"
  unfolding quarantine_failed_launcher_commit_def
  by (rule yields_bind, rule yields_and_then, rule yields_then [OF defer_quarantined], rule yields_cases(5),
      rule yields_and_then, rule report_contained) auto

section \<open>The steps\<close>

lemma yields_and_hold [yields_intros]:
  assumes "\<And>a. yields (f a) Q" and "\<And>a t. Q (False, a) t"
  shows "yields (and_hold m f) Q"
  unfolding and_hold_def using assms by (intro yields_intros) auto

lemma yields_or_quarantine:
  assumes "\<And>a. yields (f a) Q" and "\<And>a t. contained a t \<Longrightarrow> Q (False, a) t"
  shows "yields (or_quarantine H m f) Q"
proof -
  have "yields (quarantine_failed_launcher_commit H) Q"
    by (rule yields_weaken [OF quarantine_failed_contained]) (use assms(2) in \<open>auto\<close>)
  with assms(1) show ?thesis unfolding or_quarantine_def by (intro yields_intros) auto
qed

lemma joint_commit_matches:
  "yields (verify_joint_launcher_commit H allow_active s a operation)
     (\<lambda>(ok, a') _. ok \<longrightarrow> final_mismatches s a' = [] \<and> audit_of H a')"
  unfolding verify_joint_launcher_commit_def by (intro yields_intros) auto

lemma no_final_mismatch:
  assumes "final_mismatches s a = []"
  shows "list_all (launcher_matches s a) transactional_launchers \<and> \<not> fabric_mismatch s a"
  using assms
  by (auto simp: final_mismatches_def Let_def fabric_evidence_def filter_empty_conv list_all_iff split: if_splits)

definition commit_outcome ::
  "('w, 'r) cli_host_scheme \<Rightarrow> rollback_snapshot \<Rightarrow> boundary \<Rightarrow> 'w cli_session \<Rightarrow> bool" where
  "commit_outcome H s = (\<lambda>(ok, a) t.
     if ok then final_mismatches s a = [] \<and> audit_of H a else contained a t)"

lemma commit_outcome_contained: "contained a t \<Longrightarrow> commit_outcome H s (False, a) t"
  by (simp add: commit_outcome_def)

lemma joint_commit_outcome:
  "yields (or_quarantine H (verify_joint_launcher_commit H allow_active s a operation) hold) (commit_outcome H s)"
proof -
  have "yields (quarantine_failed_launcher_commit H) (commit_outcome H s)"
    by (rule yields_weaken [OF quarantine_failed_contained]) (auto simp: commit_outcome_def)
  then show ?thesis
    unfolding or_quarantine_def hold_def
    by (intro yields_then [OF joint_commit_matches] yields_cases(5) yields_cases(1) yields_give)
      (auto simp: commit_outcome_def)
qed

lemma commit_impl_outcome:
  "yields (commit_rollback_service_activity_impl H allow_active s a operation) (commit_outcome H s)"
  unfolding commit_rollback_service_activity_impl_def
  by (rule yields_bind)
    (rule joint_commit_outcome | rule yields_or_quarantine | erule commit_outcome_contained)+

lemma commit_yields_outcome:
  "yields (commit_rollback_service_activity H allow_active s a operation) (commit_outcome H s)"
proof -
  have "Q b t"
    if "yields m Q" "run_state (do { r \<leftarrow> m; (case r of Inr x \<Rightarrow> give (Inr x) | Inl e \<Rightarrow> do { _ \<leftarrow> n; give (Inl e) }) }) st
      = (Inr b, t)" for m :: "('a, cli_exception + boundary) cli_action" and n :: "('a, 'c) cli_action" and Q st b t
    using that by (cases b) (auto simp: yields_def split: prod.split_asm sum.split_asm)
  from this [OF commit_impl_outcome] show ?thesis
    unfolding yields_def commit_rollback_service_activity_def by blast
qed

section \<open>The theorems\<close>



end
