(* ===== verification/CompensationProps.thy ===== *)
theory CompensationProps
  imports Compensation LauncherProps
begin

text \<open>
  The boundary before a mutation phase, the drained boundary of a compensation, and why a compensation
  never succeeds.
\<close>

section \<open>Boundaries\<close>

lemma refuse_boundary_false: "run_state (refuse_boundary f) st = (b, t) \<Longrightarrow> \<not> b"
  by (auto simp: refuse_boundary_def report_finding_def)

lemma baseline_unchanged_passes:
  assumes "run_state (baseline_unchanged H s a) st = (True, t)"
  shows "passes (verify_rollback H (se_world st) s a False)"
  using assms by (auto simp: baseline_unchanged_def report_checks_def filter_empty_conv list_all_iff
      split: if_splits dest: refuse_boundary_false)

lemma safe_boundary:
  assumes "run_state (fresh_gpu_boundary_is_safe H s a phase) st = (True, t)"
  shows "ha_package_inventory_complete a \<and> ha_gpu_uuids a = rs_gpu_uuids s \<and> rs_gpu_uuids s \<noteq> []
    \<and> (phase \<in> set quarantined_boundaries \<longrightarrow> list_all (launcher_quarantined a) service_stop_order)
    \<and> (phase = ''pre-package'' \<longrightarrow> passes (verify_rollback H (se_world st) s a False))"
  using assms
  by (auto simp: fresh_gpu_boundary_is_safe_def split: if_splits prod.split_asm
      dest: refuse_boundary_false baseline_unchanged_passes)

text \<open>
  A boundary that holds has a complete package inventory and the GPUs of the snapshot; one at which the
  launchers must be quarantined has all four inactive and masked; and before the first package phase
  every check of the rollback verification but those of the services passes, so that the snapshot
  still describes the host.
\<close>

theorem safe_boundary_unchanged:
  assumes "run_state (fresh_gpu_boundary_is_safe H s a phase) st = (True, t)"
  shows "ha_package_inventory_complete a \<and> ha_gpu_uuids a = rs_gpu_uuids s \<and> rs_gpu_uuids s \<noteq> []
    \<and> (phase \<in> set quarantined_boundaries \<longrightarrow> list_all (launcher_quarantined a) service_stop_order)
    \<and> (phase = ''pre-package'' \<longrightarrow> passes (verify_rollback H (se_world st) s a False))"
  using assms by (rule safe_boundary)

section \<open>Compensation\<close>

lemma yields_option_flow:
  "(\<And>t. Q None t) \<Longrightarrow> yields (refuse_compensation f) Q"
  unfolding refuse_compensation_def by (intro yields_intros)

lemma prepared_compensation_quarantined:
  "yields (prepare_install_compensation H allow_active)
     (\<lambda>r _. case r of None \<Rightarrow> True | Some a \<Rightarrow> all_quarantined a \<and> audit_of H a)"
proof -
  have deferred: "yields (or_emergency H (defer_launcher_enablement H a)) (\<lambda>(ok, a') _. ok \<longrightarrow> all_quarantined a' \<and> audit_of H a')" for a
    using defer_quarantined [of H a] unfolding yields_def or_emergency_def
    by (auto split: prod.split_asm sum.split_asm; blast)
  show ?thesis
    unfolding prepare_install_compensation_def compensation_verdict_def
    by (intro yields_bind yields_cases yields_then [OF deferred] yields_and_then yields_give yields_option_flow) auto
qed

lemma no_authority_without_binding:
  assumes "rs_source_binding s = None" and "run_state (check_authority H s a) st = (r, t)"
  shows "(\<exists>results. r = Return results \<and> list_ex failed results) \<or> (\<exists>e. r = Raise e)"
proof -
  have refused: "run_state (validate_snapshot_for_apply H True s path a) st \<noteq> (Inr (), t)" for path st t
    using assms(1)
    by (auto simp: validate_snapshot_for_apply_def and_then_def ensure_def check_source_def Let_def
        split: prod.split sum.split if_splits)
  show ?thesis
    using assms(2)
    by (auto simp: check_authority_def refuse_with_def precondition_def command_result_of_def failed_def refused
        split: option.split_asm prod.split_asm sum.split_asm check_error.split_asm)
qed

lemma apply_without_binding:
  assumes "ru_apply H" "rs_source_binding s = None"
    and "run_state (apply_rollback H s (Some a) enablement activity) st = (r, t)"
  shows "(\<exists>results. r = Return results \<and> list_ex failed results) \<or> (\<exists>e. r = Raise e)"
  using assms no_authority_without_binding [OF assms(2), of H a st]
  by (auto simp: apply_rollback_def initial_gates_def proceed_def split: prod.split_asm flow.split_asm)

lemma failed_results_conclude:
  assumes "list_ex failed results" and "run_state (conclude_compensation (Return results)) st = (r, t)"
  shows "r = Inr False"
  using assms by (auto simp: conclude_compensation_def commands_succeeded_def report_results_def report_finding_def)

lemma created_without_binding:
  assumes "run_state (create_snapshot K a path desired True operation_id payloads failsafe) st = (Inr s, t)"
  shows "rs_source_binding s = None"
  using create_persisted [OF assms] assemble_persisted
  by (fastforce simp: with_integrity_def snapshot_record_def)

text \<open>
  C11.  The compensation of a failed installation applies the snapshot that \<open>create_snapshot\<close> returned.  That
  object has no source binding, which only \<open>load_snapshot\<close> sets, and an applied rollback requires one:
  whatever the host does, the compensation is never reported as applied.
\<close>

theorem created_snapshot_never_compensates:
  assumes "ru_apply H"
    and "run_state (create_snapshot K a path desired True operation_id payloads failsafe) st0 = (Inr s, st1)"
    and "run_state (attempt_install_compensation H evidence s (Some now)) st = (outcome, t)"
  shows "outcome \<noteq> Inr True"
proof -
  have unbound: "rs_source_binding s = None"
    by (rule created_without_binding [OF assms(2)])
  have concluded: "v \<noteq> (Inr True, w)"
    if "run_state (apply_rollback H s (Some now) False False) x = (r, y)" "run_state (conclude_compensation r) y = v"
    for r v w x y
    using that(2) apply_without_binding [OF assms(1) unbound that(1)]
    by (auto dest: failed_results_conclude) (auto simp: conclude_compensation_def)
  then show ?thesis
    using assms(3)
    by (fastforce simp: attempt_install_compensation_def and_then_def split: if_splits prod.split_asm sum.split_asm
        preflight_error.split_asm)
qed

end
