(* ===== verification/LauncherSample.thy ===== *)
theory LauncherSample
  imports LauncherProps RollbackSample
begin

text \<open>Hosts on which the theorems about the launchers are evaluated.\<close>

definition blank_report :: report where
  "blank_report =
     \<lparr>rp_schema_version = [], rp_generated_at = [], rp_desired = default_desired, rp_audit = None, rp_findings = [],
      rp_plan = [], rp_command_results = [], rp_verification = [], rp_rollback = None, rp_sbom = [], rp_command = None,
      rp_mode = ''apply'', rp_tool_version = [], rp_operation_id = [], rp_host_id = None, rp_started_at = None,
      rp_completed_at = None, rp_duration_seconds = None, rp_outcome = [], rp_exit_code = None,
      rp_reboot_required = None, rp_incomplete = False, rp_report_path = None\<rparr>"

definition launcher_session :: "nat cli_session" where
  "launcher_session = session.extend sample_session
     \<lparr>cs_report = blank_report, cs_guard = None, cs_identities = []\<rparr>"

text \<open>A host that is always observed in the same state\<close>

definition observed_host :: "host_audit \<Rightarrow> nat cli_host" where
  "observed_host a = probe_host.extend (create_host.extend (rollback_host.extend (sample_host True)
      (create_host.fields (\<lambda>_ _. InventoryUntrusted) (\<lambda>w. ([], w)) (\<lambda>w. ([], w)) (\<lambda>_ w. (Inr (), w)) (\<lambda>_ _ w. (Inr (), w))))
      (probe_host.fields (\<lambda>_. ([], None)) (\<lambda>_. ([], None)) (\<lambda>_. None)))
    (cli_host.fields (\<lambda>s. (Inr a, s)))"

lemma observed_host_audit [simp]: "ch_audit (observed_host a) = (\<lambda>s. (Inr a, s))"
  by (simp add: observed_host_def probe_host.defs cli_host.defs create_host.defs rollback_host.defs)

lemma run_audited [simp]: "run_state (audited (observed_host a)) s = (Inr a, s)"
  by (cases s) (simp add: audited_def session.defs)

definition masked_audit :: host_audit where
  "masked_audit = rollback_audit
     \<lparr>ha_docker_service_unit_file_state := Some ''masked'', ha_docker_socket_unit_file_state := Some ''masked'',
      ha_nvidia_persistenced_unit_file_state := Some ''masked'', ha_fabric_manager_unit_file_state := Some ''masked''\<rparr>"

definition masked_snapshot :: rollback_snapshot where
  "masked_snapshot = sample_snapshot
     \<lparr>rs_module_version := Some ''580.95.05'', rs_module_installed_version := Some ''580.95.05'',
      rs_docker_service_unit_file_state := Some ''masked'', rs_docker_socket_unit_file_state := Some ''masked'',
      rs_nvidia_persistenced_unit_file_state := Some ''masked'', rs_fabric_manager_unit_file_state := Some ''masked''\<rparr>"

lemma masked_target [simp]:
  "u \<in> set transactional_launchers \<Longrightarrow> launcher_target masked_snapshot u = (Some False, Some ''masked'')"
  by (auto simp: transactional_launchers_def trusted_transactional_launchers_def launcher_target_def unit_of_def
      snapshot_units_def masked_snapshot_def sample_snapshot_def Let_def fabric_manager_unit_def
      nvidia_persistenced_unit_def docker_service_unit_def docker_socket_unit_def)

lemma masked_state [simp]:
  "u \<in> set transactional_launchers \<Longrightarrow> launcher_state masked_audit u = (Some False, Some ''masked'')"
  by (auto simp: transactional_launchers_def trusted_transactional_launchers_def launcher_state_def unit_of_def
      audit_units_def masked_audit_def rollback_audit_def sample_audit_def Let_def fabric_manager_unit_def
      nvidia_persistenced_unit_def docker_service_unit_def docker_socket_unit_def)

lemma masked_units [simp]:
  assumes "u \<in> set transactional_launchers"
  shows "us_active (unit_of (snapshot_units masked_snapshot) u) = Some False"
    "us_file_state (unit_of (snapshot_units masked_snapshot) u) = Some ''masked''"
    "us_active (unit_of (audit_units masked_audit) u) = Some False"
    "us_file_state (unit_of (audit_units masked_audit) u) = Some ''masked''"
  using masked_target [OF assms] masked_state [OF assms]
  by (simp_all add: launcher_target_def launcher_state_def Let_def)

lemma masked_file_states [simp]:
  "known_file_state (Some ''masked'')" "prepared_file_state (Some ''masked'') = Some ''masked''"
  by (simp_all add: known_file_state_def snapshot_unit_file_states_def prepared_file_state_def
      prepared_unit_file_state_def)

lemma supported_launcher [simp]: "u \<in> set transactional_launchers \<Longrightarrow> unsupported_units {u} = []"
  by (auto simp: unsupported_units_def service_activity_restore_order_def transactional_launchers_def
      trusted_transactional_launchers_def)

lemma run_report_nothing [simp]: "run_state (report_results []) s = ((), s)"
  by (simp add: report_results_def)

lemma commands_step_nothing:
  "run_state (commands_step (give []) f a next_step) s = run_state next_step s"
  by (simp add: commands_step_def commands_succeeded_def)

text \<open>On a host that is always observed masked each step towards the masked target holds and changes nothing.\<close>

lemma masked_steps:
  fixes H :: "('w, 'r) cli_host_scheme"
  assumes audits: "\<And>s. run_state (audited H) s = (Inr masked_audit, s)"
    and u: "u \<in> set transactional_launchers"
  shows "run_state (prepare_rollback_unit_safely H masked_snapshot masked_audit u op) s = (Inr (True, masked_audit), s)"
    "run_state (restore_rollback_unit_activity_safely H masked_snapshot masked_audit u op keep) s
      = (Inr (True, masked_audit), s)"
    "run_state (finalize_rollback_unit_state H masked_snapshot masked_audit u op) s = (Inr (True, masked_audit), s)"
    "run_state (restore_rollback_unit_staged H masked_snapshot masked_audit u op) s = (Inr (True, masked_audit), s)"
proof -
  show prepare: "run_state (prepare_rollback_unit_safely H masked_snapshot masked_audit u op) s
      = (Inr (True, masked_audit), s)" for s
    using u by (simp add: prepare_rollback_unit_safely_def prepare_rollback_service_activity_def single_unit_def
        prepare_service_for_activity_def commands_step_nothing and_then_def audits)
  show activity: "run_state (restore_rollback_unit_activity_safely H masked_snapshot masked_audit u op keep) s
      = (Inr (True, masked_audit), s)" for s keep
    using u by (simp add: restore_rollback_unit_activity_safely_def restore_rollback_service_activity_def
        single_unit_def restore_one_activity_def restore_service_activity_def commands_step_nothing and_then_def
        and_hold_def activity_gate_def audits)
  show final: "run_state (finalize_rollback_unit_state H masked_snapshot masked_audit u op) s
      = (Inr (True, masked_audit), s)" for s
    using u by (simp add: finalize_rollback_unit_state_def restore_rollback_service_enablement_def single_unit_def
        restore_service_unit_file_state_def commands_step_nothing and_then_def audits)
  have "\<not> inactive_launcher_requires_activation_proof masked_snapshot u"
    using u by (simp add: inactive_launcher_requires_activation_proof_def
        dependency_activatable_unit_file_states_def)
  then show "run_state (restore_rollback_unit_staged H masked_snapshot masked_audit u op) s
      = (Inr (True, masked_audit), s)"
    by (simp add: restore_rollback_unit_staged_def and_hold_def and_then_def prepare activity final)
qed

lemma masked_members [simp]:
  "fabric_manager_unit \<in> set transactional_launchers" "nvidia_persistenced_unit \<in> set transactional_launchers"
  "docker_service_unit \<in> set transactional_launchers" "docker_socket_unit \<in> set transactional_launchers"
  by (simp_all add: transactional_launchers_def trusted_transactional_launchers_def)

lemma masked_flags [simp]:
  "\<not> temporary_masked_socket masked_snapshot" "\<not> prove_socket_activation masked_snapshot"
  "\<not> prove_docker_activation masked_snapshot" "docker_targets_known masked_snapshot"
  "\<not> final_checkpoint_required masked_snapshot"
  by (auto simp: temporary_masked_socket_def prove_socket_activation_def prove_docker_activation_def
      docker_targets_known_def final_checkpoint_required_def inactive_launcher_requires_activation_proof_def
      dependency_activatable_unit_file_states_def)

lemma masked_final [simp]: "final_mismatches masked_snapshot masked_audit = []"
proof -
  have "\<not> fabric_mismatch masked_snapshot masked_audit"
    by (simp add: fabric_mismatch_def masked_snapshot_def sample_snapshot_def)
  moreover have "launcher_matches masked_snapshot masked_audit u" if "u \<in> set transactional_launchers" for u
    using that by (auto simp: launcher_matches_def)
  ultimately show ?thesis by (simp add: final_mismatches_def Let_def filter_empty_conv)
qed

text \<open>The commit that leaves every launcher masked\<close>

definition masked_commit :: "(cli_exception + boundary) \<times> nat cli_session" where
  "masked_commit = run_state (commit_rollback_service_activity (observed_host masked_audit) False masked_snapshot
     masked_audit ''rollback'') launcher_session"

lemma masked_commit_holds:
  assumes "\<And>s. run_state (audited H) s = (Inr masked_audit, s)"
  shows "\<exists>t. run_state (commit_rollback_service_activity H allow_active masked_snapshot masked_audit op) s
    = (Inr (True, masked_audit), t)"
  unfolding commit_rollback_service_activity_def commit_rollback_service_activity_impl_def
  by (simp add: or_quarantine_def and_then_def and_hold_def masked_steps [OF assms] socket_dependency_snapshot_def
      socket_activation_def docker_activation_def socket_target_def docker_activity_verified_def
      prepared_socket_state_def hold_def verify_joint_launcher_commit_def trusted_transactional_launchers_def
      relinquish_unit_def assms)

lemma masked_commit_run: "\<exists>t. masked_commit = (Inr (True, masked_audit), t)"
  unfolding masked_commit_def by (rule masked_commit_holds) simp


section \<open>A commit that fails\<close>

text \<open>
  Here the state of Fabric Manager is unknown, so that neither the commit nor the quarantine after it
  can go on; no executable is trusted, and there are no device nodes.
\<close>

definition bare_host :: "nat cli_host" where
  "bare_host = (observed_host sample_audit)\<lparr>ru_which := (\<lambda>_ _. None)\<rparr>"

lemma bare_host_fields [simp]:
  "ch_audit bare_host = (\<lambda>s. (Inr sample_audit, s))" "ru_which bare_host = (\<lambda>_ _. None)"
  "pr_devices bare_host = (\<lambda>_. ([], None))"
  by (simp_all add: bare_host_def observed_host_def probe_host.defs cli_host.defs create_host.defs rollback_host.defs)

lemma run_bare_audited [simp]: "run_state (audited bare_host) s = (Inr sample_audit, s)"
  by (cases s) (simp add: audited_def session.defs)

lemma bare_executable [simp]:
  "run_state (exists_executable bare_host ''nvidia-smi'') s = (False, s)"
  by (simp add: exists_executable_def resolve_executable_def executable_candidate_def startswith_def
      split: option.split)

lemma run_refuse: "\<exists>t. run_state (refuse_step f a) s = (Inr (False, a), t) \<and> cs_guard t = cs_guard s"
  by (simp add: refuse_step_def report_finding_def)

lemma unknown_launcher: "launcher_state sample_audit fabric_manager_unit = (None, None)"
  by (simp add: launcher_state_def unit_of_def audit_units_def sample_audit_def Let_def fabric_manager_unit_def
      nvidia_persistenced_unit_def docker_service_unit_def docker_socket_unit_def)

lemma unknown_defer:
  "\<exists>t. run_state (defer_launcher_enablement bare_host sample_audit) s = (Inr (False, sample_audit), t)"
proof -
  have "filter (\<lambda>u. snd (launcher_state sample_audit u) = None) service_stop_order \<noteq> []"
    by (simp add: service_stop_order_def unknown_launcher)
  then show ?thesis unfolding defer_launcher_enablement_def Let_def using run_refuse by (simp only: if_True not_False_eq_True) blast
qed

lemma bare_probe: "\<exists>t. run_state (probe_workloads bare_host sample_audit) s = (Inr None, t)"
proof -
  have "\<not> driver_absent (Some sample_audit)"
    by (simp add: driver_absent_def sample_audit_def sample_module_def)
  then show ?thesis
    by (simp add: probe_workloads_def probe_active_gpu_workloads_def probe_compute_pids_def probe_device_users_def
        nvidia_character_device_identities_def finish_probe_def record_external_start_def record_external_result_def
        report_results_def Let_def)
qed

definition unknown_commit :: "(cli_exception + boundary) \<times> nat cli_session" where
  "unknown_commit = run_state (commit_rollback_service_activity bare_host False masked_snapshot
     sample_audit ''rollback'') launcher_session"

lemma unknown_commit_run: "\<exists>t. unknown_commit = (Inr (False, sample_audit), t)"
proof -
  have guard: "cs_guard launcher_session = None" by (simp add: launcher_session_def session.defs)
  obtain t1 where prepared: "run_state (prepare_rollback_unit_safely bare_host masked_snapshot sample_audit
      fabric_manager_unit ''rollback'') (launcher_session\<lparr>cs_identities := []\<rparr>) = (Inr (False, sample_audit), t1)"
    "cs_guard t1 = None"
    using run_refuse guard unfolding prepare_rollback_unit_safely_def unknown_launcher Let_def
    by (auto simp: refuse_step_def report_finding_def)
  obtain t2 where deferred: "run_state (defer_launcher_enablement bare_host sample_audit) t1
      = (Inr (False, sample_audit), t2)" using unknown_defer by blast
  obtain t3 where "run_state (probe_workloads bare_host sample_audit) t2 = (Inr None, t3)" using bare_probe by blast
  with prepared deferred show ?thesis
    unfolding unknown_commit_def commit_rollback_service_activity_def commit_rollback_service_activity_impl_def
    by (simp add: or_quarantine_def and_then_def and_hold_def restore_rollback_unit_staged_def
        quarantine_failed_launcher_commit_def requiesce_services_for_compensation_def report_when_def
        report_finding_def)
qed


end
