(* ===== verification/SnapshotCreateSample.thy ===== *)
theory SnapshotCreateSample
  imports SnapshotCreateProps SnapshotRoundtrip SnapshotSample "HOL-Library.Multiset"
begin

text \<open>
  A snapshot that is created and written on the host of \<open>SnapshotSample\<close>: with no container
  configuration it is the stored snapshot; with an empty one the loader refuses what was written.
\<close>

section \<open>The length of a document\<close>

lemma length_json_char: "length (json_char c) \<le> 6"
  by (auto simp: json_char_def short_escape_def map_of_Cons_code split: option.split if_splits)

lemma length_json_string: "length (json_string s) \<le> 2 + 6 * length s"
proof -
  have "length (concat (map json_char s)) \<le> 6 * length s"
    using length_json_char by (induction s) (auto intro: add_mono)
  then show ?thesis by (simp add: json_string_def)
qed

lemma length_join: "length (join sep xs) = sum_list (map length xs) + (length xs - 1) * length sep"
  by (induction xs rule: join.induct) auto

text \<open>An upper bound of the length of a document, without sorting its keys\<close>

fun pretty_bound :: "nat \<Rightarrow> json \<Rightarrow> nat" where
  "pretty_bound n (JList xs) = 8 + 8 * n + (\<Sum>x\<leftarrow>xs. pretty_bound (Suc n) x + 4 + 2 * n)"
| "pretty_bound n (JObj kvs) =
     8 + 8 * n + (\<Sum>(k, v)\<leftarrow>kvs. 4 + 6 * length k + pretty_bound (Suc n) v + 4 + 2 * n)"
| "pretty_bound n (JStr s) = 2 + 6 * length s"
| "pretty_bound n v = length (json_dumps v)"

lemma length_join_le:
  "length (join sep xs) \<le> (\<Sum>x\<leftarrow>xs. length x + length sep)"
  by (auto simp: length_join sum_list_addf sum_list_triv algebra_simps)

lemma length_joined_pairs:
  "length (join sep (map snd (sort_key fst kvs))) \<le> (\<Sum>(k, x)\<leftarrow>kvs. length x + length sep)"
proof -
  have "(\<Sum>x\<leftarrow>map snd (sort_key fst kvs). length x + length sep) = (\<Sum>(k, x)\<leftarrow>kvs. length x + length sep)"
    by (rule trans [OF sum_mset_sum_list [symmetric] trans [OF _ sum_mset_sum_list]])
      (simp add: case_prod_unfold o_def image_mset.compositionality)
  then show ?thesis
    using length_join_le [of sep "map snd (sort_key fst kvs)"] by simp
qed

lemma length_json_pretty: "length (json_pretty n v) \<le> pretty_bound n v"
proof (induction n v rule: pretty_bound.induct)
  case (1 n xs)
  have "length (join ('','' @ json_line (Suc n)) (map (json_pretty (Suc n)) xs))
      \<le> (\<Sum>x\<leftarrow>xs. length (json_pretty (Suc n) x) + length ('','' @ json_line (Suc n)))"
    by (rule order_trans [OF length_join_le]) (simp add: o_def)
  also have "\<dots> \<le> (\<Sum>x\<leftarrow>xs. pretty_bound (Suc n) x + 4 + 2 * n)"
    using 1 by (intro sum_list_mono) (auto simp: json_line_def)
  finally show ?case by (cases xs) (auto simp: json_line_def)
next
  case (2 n kvs)
  have entry: "length (json_string k) + length (json_pretty (Suc n) v) \<le> 2 + 6 * length k + pretty_bound (Suc n) v"
    if "(k, v) \<in> set kvs" for k v
    using 2 [OF that refl] length_json_string [of k] by simp
  have "length (join ('','' @ json_line (Suc n)) (map snd (sort_key fst (map (\<lambda>(k, v). (k, json_string k
        @ '': '' @ json_pretty (Suc n) v)) kvs))))
      \<le> (\<Sum>(k, v)\<leftarrow>kvs. length (json_string k @ '': '' @ json_pretty (Suc n) v) + length ('','' @ json_line (Suc n)))"
    by (rule order_trans [OF length_joined_pairs]) (simp add: o_def case_prod_unfold)
  also have "\<dots> \<le> (\<Sum>(k, v)\<leftarrow>kvs. 4 + 6 * length k + pretty_bound (Suc n) v + 4 + 2 * n)"
    by (intro sum_list_mono) (auto simp: json_line_def dest: entry)
  finally show ?case by (cases kvs) (auto simp: json_line_def)
qed (use length_json_string in simp_all)

definition stored_with :: "file_snapshot \<Rightarrow> rollback_snapshot" where
  "stored_with f = stored_snapshot\<lparr>rs_managed_files := [f], rs_source_binding := None\<rparr>"

lemma stored_document_fits:
  assumes "pretty_bound 2 (managed_file_json f) < 1000"
  shows "int (length (snapshot_document (stored_with f))) \<le> max_snapshot_bytes"
proof -
  have evaluated: "payload_path stored_path ''op.json.payloads'' (payload_digest @ ''.deb'')
      = ''/var/lib/nvidia-converge/snapshots/op.json.payloads/'' @ payload_digest @ ''.deb''"
    "int_str 7 = ''7''"
    by code_simp+
  have "pretty_bound 0 (JObj (snapshot_fields (stored_with f))) < 100000"
    using assms
    by (simp add: snapshot_fields_def stored_with_def stored_snapshot_def sample_snapshot_def json_opt_def
        json_strs_def package_json_def bundle_json_def payload_json_def stored_payload_def apt_install_prefix_def
        evaluated [unfolded payload_digest_def stored_path_def] payload_digest_def stored_path_def numeral_2_eq_2)
  then show ?thesis
    using length_json_pretty [of 0 "JObj (snapshot_fields (stored_with f))"]
    by (simp add: snapshot_document_def max_snapshot_bytes_def)
qed

section \<open>The creation\<close>

text \<open>The host of the stored snapshot, with the operations a creation needs\<close>

definition creating_host :: "file_read \<Rightarrow> nat create_host" where
  "creating_host configuration = rollback_host.extend (stored_host\<lparr>fh_read := (\<lambda>_ _. configuration)\<rparr>)
     \<lparr>cr_inventory = (\<lambda>_ _. InventoryUntrusted), cr_now = (\<lambda>w. (''2026-01-02T03:04:05+00:00'', w)),
      cr_uuid = (\<lambda>w. (replicate 32 CHR ''0'', w)), cr_private_directory = (\<lambda>_ w. (Inr (), w)),
      cr_write = (\<lambda>_ _ w. (Inr (), Suc w))\<rparr>"

lemma creating_host_fields [simp]:
  "sn_cwd (creating_host c) = ''/''" "sn_node (creating_host c) = ''node''" "sn_machine (creating_host c) = ''x86_64''"
  "sn_script (creating_host c) = ''import dnf''" "sn_sha256 (creating_host c) = (\<lambda>_. payload_digest)"
  "sn_machine_id (creating_host c) = (\<lambda>w. (Inl ''no such file'', w))" "fh_read (creating_host c) = (\<lambda>_ _. c)"
  "ph_open (creating_host c) = (\<lambda>_ w. (Inr 3, w))" "ph_fingerprint (creating_host c) = (\<lambda>_ w. (Inr [], w))"
  "ph_list (creating_host c) = (\<lambda>_ w. (Inr [payload_digest @ ''.deb''], w))"
  "ph_hash (creating_host c) = (\<lambda>_ _ w. (Inr (payload_digest, 7), w))"
  "rh_sysfs (creating_host c) = rh_sysfs stored_host"
  "cr_now (creating_host c) = (\<lambda>w. (''2026-01-02T03:04:05+00:00'', w))"
  "cr_private_directory (creating_host c) = (\<lambda>_ w. (Inr (), w))" "cr_write (creating_host c) = (\<lambda>_ _ w. (Inr (), Suc w))"
  by (simp_all add: creating_host_def rollback_host.defs stored_host_def sample_host_def)

abbreviation zeros :: string where "zeros \<equiv> replicate 32 CHR ''0''"

lemma creating_checks:
  "refuse_by (failsafe_guards True stored_audit None @ mig_guards True None stored_audit
     @ identity_guards True stored_audit @ service_guards True stored_audit) = Inr ()"
  "refuse_by (version_guards True zeros stored_audit) = Inr ()"
  "dnf_module_failsafe_path_from_audit (creating_host c) w stored_audit = Inr None"
  "snapshot_module_names (creating_host c) w True stored_audit = Inr [''nvidia'']"
  "remove_packages ''import dnf'' None stored_audit = Inr []"
  "create_commands (creating_host c) stored_audit (Some stored_path) [] (Some stored_bundle)
     = Inr (rs_commands stored_snapshot)"
  "captured_paths (Some ''apt-get'') None = Inr [docker_config_path]"
  "filter pi_installed (ha_packages stored_audit) = rs_packages stored_snapshot"
  "ha_package_manager stored_audit = Some ''apt-get''"
  "or_empty (Some zeros) = zeros" "zeros \<noteq> []"
  by code_simp+

lemma creating_entry:
  "fst (run_state (validate_entry (creating_host c) False 3 path ''apt-get'' stored_payload) s) = Inr 7"
proof -
  have "pp_sha256 stored_payload = payload_digest" "pp_size_bytes stored_payload = 7"
    by (simp_all add: stored_payload_def)
  then show ?thesis
    by (simp add: validate_entry_def run_and_then hash_payload_def stored_checks)
qed

lemma creating_validate:
  "\<exists>paths. fst (run_state (validate_package_payloads (creating_host c) False stored_path stored_bundle
     (rs_packages stored_snapshot) ''apt-get'' None) s) = Inr paths"
proof -
  have "pp_filename stored_payload = payload_digest @ ''.deb''" by (simp add: stored_payload_def)
  then show ?thesis
    by (simp add: validate_package_payloads_def stored_checks validate_bundle_def run_and_then creating_entry
        max_package_payload_total_bytes_def)
qed

lemma creating_identity:
  "fst (run_state (host_identity (creating_host c)) s) = Inr (''hostname-sha256:'' @ payload_digest)"
proof -
  have "\<not> hex_of_length 32 []" "strip ''node'' = ''node''" by code_simp+
  then show ?thesis by (simp add: host_identity_def)
qed

lemma created_record:
  "with_integrity (creating_host c) (snapshot_record (creating_host c) stored_audit (Some stored_path) zeros
     (rs_commands stored_snapshot) [] [''nvidia''] ''2026-01-02T03:04:05+00:00'' (''hostname-sha256:'' @ payload_digest)
     [f] (Some stored_bundle)) = stored_with f"
  by (simp add: with_integrity_def snapshot_record_def stored_with_def snapshot_integrity_def stored_snapshot_def
      sample_snapshot_def stored_audit_def rollback_audit_def sample_audit_def sample_module_def
      snapshot_schema_version_def
      del: json_dumps.simps)

lemma creating_assembles:
  assumes "\<And>w. capture_file (creating_host c) w docker_config_path = Inr f"
  shows "fst (run_state (assemble_snapshot (creating_host c) stored_audit (Some stored_path) None True zeros
    (Some stored_bundle) None) s) = Inr (stored_path, stored_with f)"
proof -
  have path: "run_state (new_snapshot_path (creating_host c) (Some stored_path) None) s
      = (Inr stored_path, s\<lparr>se_world := se_world s\<rparr>)" for s :: "(nat, 'b) session_scheme"
    by (simp add: new_snapshot_path_def stored_checks or_empty_def)
  have payloads: "fst (run_state (bind_payloads (creating_host c) True stored_path (Some stored_bundle) stored_audit) s)
      = Inr ()" for s :: "(nat, 'b) session_scheme"
    using creating_validate [of c s]
    by (auto simp: bind_payloads_def creating_checks or_empty_def split: prod.split)
  have identity: "fst (run_state (do { r \<leftarrow> host_identity (creating_host c); give (checked r) }) s)
      = Inr (''hostname-sha256:'' @ payload_digest)" for s :: "(nat, 'b) session_scheme"
    using creating_identity [of c s] by (auto simp: checked_def split: prod.split)
  have files: "snapshot_managed_files (creating_host c) w True (Some ''apt-get'') None = Inr [f]" for w
    by (simp add: snapshot_managed_files_def capture_managed_files_def creating_checks assms)
  show ?thesis
    by (simp add: assemble_snapshot_def run_and_then creating_checks path payloads
        run_and_then [OF identity] files
        created_record [unfolded append_Cons append_Nil])
qed

lemma creation:
  assumes "\<And>w. capture_file (creating_host c) w docker_config_path = Inr f"
    and "pretty_bound 2 (managed_file_json f) < 1000"
  shows "fst (run_state (create_snapshot (creating_host c) stored_audit (Some stored_path) None True (Some zeros)
    (Some stored_bundle) None) s) = Inr (stored_with f)"
proof -
  have persisted: "fst (run_state (persist_snapshot (creating_host c) stored_path (stored_with f)) s) = Inr ()"
    for s :: "(nat, 'b) session_scheme"
    using stored_document_fits [OF assms(2)] by (simp add: persist_snapshot_def)
  show ?thesis
    by (simp add: create_snapshot_def run_and_then creating_checks chosen_operation_id_def
        creating_assembles [OF assms(1)] persisted)
qed

lemma creation_without_configuration:
  "fst (run_state (create_snapshot (creating_host FileMissing) stored_audit (Some stored_path) None True (Some zeros)
    (Some stored_bundle) None) s) = Inr (without_binding stored_snapshot)"
proof -
  have "without_binding stored_snapshot = stored_with \<lparr>fs_path = docker_config_path, fs_existed = False,
      fs_content_base64 = None, fs_mode = None\<rparr>"
    by (simp add: without_binding_def stored_with_def stored_snapshot_def sample_snapshot_def)
  then show ?thesis
    by (auto intro: creation simp: capture_file_def managed_file_json_def json_opt_def docker_config_path_def)
qed

theorem created_snapshot_restorable_witness:
  "restorable_baseline stored_audit (without_binding stored_snapshot)
   \<and> self_consistent ''import dnf'' (\<lambda>_. payload_digest) (without_binding stored_snapshot)"
proof -
  define run where "run = run_state (create_snapshot (creating_host FileMissing) stored_audit (Some stored_path) None
    True (Some zeros) (Some stored_bundle) None) sample_session"
  have "run = (Inr (without_binding stored_snapshot), snd run)"
    using creation_without_configuration [of sample_session] by (simp add: run_def prod_eq_iff)
  from created_snapshot_restorable [OF this [unfolded run_def]] show ?thesis by simp
qed

section \<open>An empty managed file\<close>

lemma json_text: "JStr x = (case y of None \<Rightarrow> JNull | Some z \<Rightarrow> JStr z) \<longleftrightarrow> y = Some x"
  by (cases y) auto

lemma empty_content_refused:
  assumes "fs_content_base64 f = Some []"
  shows "load_managed_file i (managed_file_json f) \<noteq> Inr g"
  using assms
  by (simp add: load_managed_file_def managed_file_json_def json_opt_def chain_iffs worded_Inr_iff
      optional_string_Inr_iff jget_or_null_def filled_def Let_def json_text)

lemma map_r_refused:
  assumes "x \<in> set xs" and "\<And>i y. f i x \<noteq> Inr y"
  shows "map_r (\<lambda>(i, v). f i v) (enumerate n xs) \<noteq> Inr ys"
  using assms by (induction xs arbitrary: n ys) (auto simp: bind_r_Inr_iff)

lemma empty_file_unreadable:
  assumes "f \<in> set (rs_managed_files s)" and "fs_content_base64 f = Some []"
  shows "read_snapshot sha256 timestamp script source (JObj (snapshot_fields s)) \<noteq> Inr s'"
proof
  assume "read_snapshot sha256 timestamp script source (JObj (snapshot_fields s)) = Inr s'"
  then obtain s4 s5 where "read_packages script (snapshot_fields s) s4 = Inr s5"
    by (auto simp: read_snapshot_def chain_iffs)
  then obtain pm files where "load_managed_files (JList (map managed_file_json (rs_managed_files s))) pm = Inr files"
    unfolding read_packages_def Let_def chain_iffs snapshot_reads by blast
  then obtain files' where "map_r (\<lambda>(i, f). load_managed_file i f)
      (enumerate 0 (map managed_file_json (rs_managed_files s))) = Inr files'"
    by (auto simp: load_managed_files_def chain_iffs)
  then show False
    using map_r_refused [of "managed_file_json f" "map managed_file_json (rs_managed_files s)" load_managed_file]
      assms empty_content_refused by auto
qed

lemma captured_configuration:
  assumes "\<And>w. fh_read H docker_config_path w = FileText [] mode"
    and "capture_managed_files H w pm failsafe = Inr files"
  shows "\<exists>f \<in> set files. fs_content_base64 f = Some []"
proof -
  obtain paths where "captured_paths pm failsafe = Inr (docker_config_path # paths)"
    using assms(2) by (auto simp: capture_managed_files_def captured_paths_def bind_r_Inr_iff
        split: if_splits option.split_asm)
  then show ?thesis
    using assms by (auto simp: capture_managed_files_def bind_r_Inr_iff capture_file_def)
qed



end
