(* ===== verification/CompensationSample.thy ===== *)
theory CompensationSample
  imports CompensationProps LauncherSample SnapshotCreateSample
begin

text \<open>The theorems about boundaries and compensation on concrete hosts.\<close>

lemma masked_boundary:
  "run_state (fresh_gpu_boundary_is_safe (observed_host masked_audit) masked_snapshot masked_audit ''pre-mutation'')
     launcher_session = (True, launcher_session)"
proof -
  have "list_all (launcher_quarantined masked_audit) service_stop_order"
    by (simp add: service_stop_order_def launcher_quarantined_def)
  then show ?thesis
    by (simp add: fresh_gpu_boundary_is_safe_def masked_audit_def masked_snapshot_def rollback_audit_def
        sample_audit_def sample_snapshot_def)
qed

theorem safe_boundary_unchanged_witness:
  "ha_gpu_uuids masked_audit = rs_gpu_uuids masked_snapshot
   \<and> list_all (launcher_quarantined masked_audit) service_stop_order"
  using safe_boundary_unchanged [OF masked_boundary] by (simp add: quarantined_boundaries_def)

lemma observed_host_applies [simp]: "ru_apply (observed_host a)"
  by (simp add: observed_host_def sample_host_def probe_host.defs cli_host.defs create_host.defs rollback_host.defs)

theorem created_snapshot_never_compensates_witness:
  "fst (run_state (attempt_install_compensation (observed_host stored_audit) (\<lambda>_ _. [])
     (without_binding stored_snapshot) (Some stored_audit)) launcher_session) \<noteq> Inr True"
proof -
  define run where "run = run_state (create_snapshot (creating_host FileMissing) stored_audit (Some stored_path) None
    True (Some zeros) (Some stored_bundle) None) sample_session"
  have created: "run = (Inr (without_binding stored_snapshot), snd run)"
    using creation_without_configuration [of sample_session] by (simp add: run_def prod_eq_iff)
  show ?thesis
    by (rule created_snapshot_never_compensates
        [OF observed_host_applies created [unfolded run_def] prod.collapse [symmetric]])
qed

end
