(* ===== verification/CommandStatus.thy ===== *)
theory CommandStatus
  imports Compensation
begin

text \<open>
  The verdict on a command (\<open>nvidia_converge/cli.py\<close>): its exit status, whether what is missing can
  still be completed by a reboot, and the last fields of the report.
\<close>

section \<open>Exit status\<close>

definition error_free :: "finding list \<Rightarrow> bool" where
  "error_free fs \<longleftrightarrow> list_all (\<lambda>f. fi_severity f \<noteq> Error) fs"

definition status_from_results :: "command_result list \<Rightarrow> int" where
  "status_from_results rs = (if filter failed rs \<noteq> [] then 2 else 0)"

definition plan_status :: "report \<Rightarrow> int" where
  "plan_status r =
     (if rp_plan r = [] \<or> list_ex (\<lambda>a. startswith (pa_id a) ''unsupported.'') (rp_plan r) then 2 else 0)"

definition install_status :: "report \<Rightarrow> int" where
  "install_status r =
     (if commands_succeeded (rp_command_results r) \<and> list_all vf_ok (rp_verification r) \<and> error_free (rp_findings r)
      then 0 else 2)"

definition verification_status :: "report \<Rightarrow> int" where
  "verification_status r =
     (if rp_verification r \<noteq> [] \<and> list_all vf_ok (rp_verification r) \<and> error_free (rp_findings r) then 0 else 2)"

definition lock_refusals :: "string list" where
  "lock_refusals =
     [''gpu-workloads.active'', ''gpu-workloads.unknown'', ''maintenance-window.required'', ''snapshot.failed'']"

definition lock_status :: "report \<Rightarrow> int" where
  "lock_status r =
     (if list_ex (\<lambda>a. startswith (pa_id a) ''unsupported.'') (rp_plan r) then 2
      else if list_ex (\<lambda>v. \<not> vf_ok v) (rp_verification r) then 2
      else if list_ex (\<lambda>f. fi_id f \<in> set lock_refusals) (rp_findings r) then 2
      else status_from_results (rp_command_results r))"

definition report_status :: "string \<Rightarrow> report \<Rightarrow> int" where
  "report_status command r =
     (if command = ''doctor'' then (if error_free (rp_findings r) then 0 else 2)
      else if command = ''plan'' then plan_status r
      else if command = ''install'' then install_status r
      else if command = ''verify'' then verification_status r
      else if command = ''lock'' then lock_status r
      else if command = ''snapshot'' then (if rp_rollback r \<noteq> None then 0 else 2)
      else if command = ''rollback'' then
        (if commands_succeeded (rp_command_results r) \<and> list_all vf_ok (rp_verification r)
            \<and> error_free (rp_findings r) then 0 else 2)
      else 2)"

section \<open>What a reboot can complete\<close>

definition known_modules :: "string list" where
  "known_modules = [''nvidia'', ''nvidia_drm'', ''nvidia_fs'', ''nvidia_modeset'', ''nvidia_peermem'', ''nvidia_uvm'']"

definition is_module_char :: "char \<Rightarrow> bool" where
  "is_module_char c \<longleftrightarrow> is_alnum c \<or> c = CHR 0x5F"

definition word_then :: "string \<Rightarrow> (string \<Rightarrow> bool) \<Rightarrow> string option" where
  "word_then s rest =
     (let word = takeWhile is_module_char s
      in if word \<noteq> [] \<and> rest (dropWhile is_module_char s) then Some word else None)"

definition without_quote :: "string \<Rightarrow> string" where
  "without_quote s = (case s of c # t \<Rightarrow> (if c = CHR 0x27 \<or> c = CHR 0x22 then t else s) | [] \<Rightarrow> [])"

text \<open>\<open>is in use\.?(?: by: [A-Za-z0-9_, -]+)?\<close> after the name of the module\<close>

definition in_use_end :: "string \<Rightarrow> bool" where
  "in_use_end s \<longleftrightarrow>
     startswith s '' is in use''
     \<and> (let rest = drop (length '' is in use'') s;
            users = (if startswith rest ''.'' then tl rest else rest)
        in users = []
           \<or> (startswith users '' by: ''
              \<and> (let names = drop (length '' by: '') users
                 in names \<noteq> [] \<and> list_all (\<lambda>c. is_module_char c \<or> c \<in> {CHR 0x2C, CHR 0x20, CHR 0x2D}) names)))"

definition in_use_module :: "string \<Rightarrow> string option" where
  "in_use_module s =
     (let lead = ''modprobe: FATAL: Module ''
      in if startswith s lead then word_then (drop (length lead) s) in_use_end else None)"

definition busy_module :: "string \<Rightarrow> string option" where
  "busy_module s =
     (let lead = ''modprobe: ERROR: could not remove ''
      in if startswith s lead
         then word_then (without_quote (drop (length lead) s))
           (\<lambda>rest. without_quote rest = '': Device or resource busy'')
         else None)"

definition reboot_resolvable_module_command_failure :: "command_result \<Rightarrow> bool" where
  "reboot_resolvable_module_command_failure r \<longleftrightarrow>
     failed r \<and> \<not> cr_skipped r \<and> cr_reason r = None \<and> cr_stdout r = []
     \<and> (case cr_command r of
          program # option # modules \<Rightarrow>
            program = ''modprobe'' \<and> modules \<noteq> [] \<and> option = ''-r'' \<and> set modules \<subseteq> set known_modules
            \<and> list_ex (\<lambda>m. case m of None \<Rightarrow> False | Some name \<Rightarrow> name \<in> set modules)
                [in_use_module (strip (cr_stderr r)), busy_module (strip (cr_stderr r))]
        | _ \<Rightarrow> False)"

definition target_on_disk :: "desired_state \<Rightarrow> module_info \<Rightarrow> bool" where
  "target_on_disk d m \<longleftrightarrow>
     matches_driver_version d (mi_installed_version m) \<and> mi_installed_open_module m = Some (open_kernel_module d)
     \<and> (ds_secure_boot d \<noteq> ''signed'' \<or> mi_installed_signed m = Some True)"

definition target_loaded :: "desired_state \<Rightarrow> module_info \<Rightarrow> bool" where
  "target_loaded d m \<longleftrightarrow>
     mi_loaded m \<and> matches_driver_version d (mi_version m) \<and> mi_open_module m = Some (open_kernel_module d)
     \<and> (ds_secure_boot d \<noteq> ''signed'' \<or> mi_signed m = Some True)"

definition mig_supported :: "desired_state \<Rightarrow> host_audit \<Rightarrow> bool" where
  "mig_supported d a \<longleftrightarrow> ds_mig d \<noteq> ''enabled'' \<or> ha_mig_capable a = Some True"

definition mig_pending :: "desired_state \<Rightarrow> host_audit \<Rightarrow> bool" where
  "mig_pending d a \<longleftrightarrow>
     ha_mig_mode a \<in> {Some ''enabled'', Some ''disabled''} \<and> ha_mig_mode_pending a = Some (ds_mig d)
     \<and> ha_mig_mode_pending a \<noteq> ha_mig_mode a \<and> mig_supported d a"

definition module_pending :: "report \<Rightarrow> host_audit \<Rightarrow> bool" where
  "module_pending r a \<longleftrightarrow>
     list_ex (\<lambda>v. vf_name v = ''module.reload'' \<and> \<not> vf_ok v) (rp_verification r)
     \<and> mi_loaded (ha_module a) \<and> \<not> target_loaded (rp_desired r) (ha_module a)
     \<and> (mig_pending (rp_desired r) a
        \<or> (ha_mig_mode a = Some (ds_mig (rp_desired r)) \<and> ha_mig_mode_pending a = ha_mig_mode a
           \<and> mig_supported (rp_desired r) a))"

definition mig_pending_checks :: "string list" where
  "mig_pending_checks =
     [''mig.mode'', ''mig.no-pending-transition'', ''mig.geometry'', ''mig.device-uuid'', ''container.device-binding'']"

definition module_pending_checks :: "string list" where
  "module_pending_checks =
     [''module.reload'', ''module.loaded-version'', ''module.provenance'', ''module.open-variant'',
      ''module.closed-variant'', ''module.flavor-provenance'', ''secure-boot.module-signed'', ''nvidia-smi'',
      ''container.cuda-driver-compatibility'']"

definition mig_pending_findings :: "host_audit \<Rightarrow> string list" where
  "mig_pending_findings a = [''mig.pending-reboot'', ''mig.'' @ opt_text (ha_mig_mode a)]"

definition module_pending_findings :: "string list" where
  "module_pending_findings =
     [''driver.loaded-version-unknown'', ''driver.module-version-mismatch'', ''driver.version-mismatch'',
      ''driver.closed-module'', ''driver.open-module'', ''driver.module-flavor-unknown'',
      ''driver.module-flavor-mismatch'', ''secure-boot.unsigned-module'']"

definition target_verification_can_complete_after_reboot :: "report \<Rightarrow> bool" where
  "target_verification_can_complete_after_reboot r =
     (case rp_audit r of
        None \<Rightarrow> False
      | Some a \<Rightarrow>
         (let mig = mig_pending (rp_desired r) a; module = module_pending r a;
              checks = (if mig then mig_pending_checks else []) @ (if module then module_pending_checks else []);
              findings = (if mig then mig_pending_findings a else [])
                @ (if module then module_pending_findings else [])
          in ha_package_inventory_complete a \<and> target_on_disk (rp_desired r) (ha_module a) \<and> (mig \<or> module)
             \<and> list_all (\<lambda>v. vf_ok v \<or> vf_name v \<in> set checks
                 \<or> (vf_name v = ''container.gpu'' \<and> vf_command v = None)) (rp_verification r)
             \<and> list_all (\<lambda>f. fi_severity f = Error \<longrightarrow> fi_id f \<in> set findings) (rp_findings r)
             \<and> list_all (\<lambda>x. cr_returncode x = Some 0
                 \<or> (module \<and> reboot_resolvable_module_command_failure x))
                 (rp_command_results r @ List.map_filter vf_command (rp_verification r))))"

definition verification_can_complete_after_reboot :: "report \<Rightarrow> bool" where
  "verification_can_complete_after_reboot r \<longleftrightarrow>
     rp_mode r = ''apply'' \<and> target_verification_can_complete_after_reboot r"

definition preparation_failure_can_complete_after_reboot ::
  "desired_state \<Rightarrow> host_audit \<Rightarrow> verification \<Rightarrow> bool" where
  "preparation_failure_can_complete_after_reboot d a preparation =
     (case vf_command preparation of
        None \<Rightarrow> False
      | Some command \<Rightarrow>
          \<not> vf_ok preparation \<and> ha_package_inventory_complete a \<and> target_on_disk d (ha_module a)
          \<and> ha_mig_mode a \<in> {Some ''enabled'', Some ''disabled''} \<and> ha_mig_mode_pending a = Some (ds_mig d)
          \<and> mig_supported d a
          \<and> (ds_mig d = ''enabled'' \<and> ha_mig_mode a = Some ''enabled'' \<longrightarrow>
             ha_mig_geometry_complete a \<and> full_mig_geometry_matches (ha_mig_geometry a) (ha_gpu_uuids a)
             \<and> length (ha_mig_device_uuids a) = 1)
          \<and> reboot_resolvable_module_command_failure command)"

definition rollback_state_can_complete_after_reboot ::
  "rollback_snapshot \<Rightarrow> host_audit \<Rightarrow> verification list \<Rightarrow> bool" where
  "rollback_state_can_complete_after_reboot s a checks \<longleftrightarrow>
     ha_package_inventory_complete a \<and> rs_mig_mode s \<noteq> None \<and> ha_mig_mode a \<noteq> rs_mig_mode s
     \<and> ha_mig_mode_pending a = rs_mig_mode s
     \<and> set (map vf_name (filter (\<lambda>v. \<not> vf_ok v) checks)) = {''rollback.mig-mode''}
     \<and> list_all (\<lambda>v. case vf_command v of None \<Rightarrow> True | Some r \<Rightarrow> cr_returncode r = Some 0) checks"

definition rollback_can_complete_after_reboot :: "report \<Rightarrow> bool" where
  "rollback_can_complete_after_reboot r =
     (case (rp_audit r, rp_rollback r) of
        (Some a, Some s) \<Rightarrow>
          rp_mode r = ''apply'' \<and> list_all (\<lambda>x. cr_returncode x = Some 0) (rp_command_results r)
          \<and> error_free (rp_findings r) \<and> rollback_state_can_complete_after_reboot s a (rp_verification r)
      | _ \<Rightarrow> False)"

definition rollback_reboot_recovery_finding :: "rollback_snapshot \<Rightarrow> string \<Rightarrow> string \<Rightarrow> finding" where
  "rollback_reboot_recovery_finding s path operation =
     (let command = [''nvidia-converge'', ''rollback'', ''--apply'', ''--allow-disruption'', ''--snapshot'', path]
      in \<lparr>fi_id = operation @ ''.reboot-required'', fi_severity = Warning,
          fi_summary = ''Rollback is staged and requires a reboot'',
          fi_detail = ''All GPU launchers remain persistently masked. Reboot, then rerun ''
            @ ''the exact rollback command with the same private snapshot before '' @ ''re-enabling workloads.'',
          fi_evidence = [(''snapshot_path'', JStr path),
            (''snapshot_integrity_sha256'', json_text (rs_integrity_sha256 s)),
            (''recovery_command'', json_strs command)],
          fi_remediation = Some (join '' '' command)\<rparr>)"

section \<open>The report\<close>

definition sbom_from_audit :: "host_audit \<Rightarrow> package_info list" where
  "sbom_from_audit a =
     (let kernel_package = (\<lambda>name version installed. \<lparr>pi_name = name, pi_version = Some version,
            pi_manager = Some ''kernel'', pi_installed = installed, pi_architecture = None, pi_epoch = None\<rparr>)
      in ha_packages a
         @ (if or_empty (mi_version (ha_module a)) \<noteq> [] then [kernel_package ''nvidia-kernel-module''
              (or_empty (mi_version (ha_module a))) (mi_loaded (ha_module a))] else [])
         @ [kernel_package ''linux-kernel'' (ki_running (ha_kernel a)) True])"

definition is_read_only_probe :: "string list \<Rightarrow> bool" where
  "is_read_only_probe command \<longleftrightarrow>
     is_workload_probe command \<or> take 2 command = [''systemctl'', ''show'']
     \<or> (command \<noteq> [] \<and> hd command \<in>
          {''validate-trusted-gpu-service'', ''validate-trusted-gpu-service-start'',
           ''validate-active-trusted-gpu-service'', ''inspect-module-dependencies'', ''rollback-precondition''})"

definition uncertain_reasons :: "string list" where
  "uncertain_reasons = [''timeout-process-group-terminated'', ''lingering-process-group-terminated'']"

definition mutation_results :: "report \<Rightarrow> command_result list" where
  "mutation_results r =
     rp_command_results r
     @ List.map_filter vf_command (filter (\<lambda>v. vf_name v \<in> {''container.gpu'', ''module.load'', ''module.reload''})
         (rp_verification r))"

definition operation_incomplete :: "bool \<Rightarrow> int \<Rightarrow> report \<Rightarrow> bool" where
  "operation_incomplete applied status r \<longleftrightarrow>
     (let started = list_ex (\<lambda>x. \<not> cr_skipped x \<and> cr_returncode x \<noteq> None \<and> \<not> is_read_only_probe (cr_command x))
            (mutation_results r);
          uncertain = list_ex (\<lambda>x. cr_reason x \<in> Some ` set uncertain_reasons) (mutation_results r);
          compensated = list_ex (\<lambda>f. fi_id f = ''install.compensation.succeeded'') (rp_findings r)
      in applied \<and> status \<noteq> 0 \<and> (started \<or> uncertain) \<and> \<not> (compensated \<and> \<not> uncertain))"

definition reboot_verdict :: "string \<Rightarrow> int \<Rightarrow> report \<Rightarrow> bool option" where
  "reboot_verdict command status r =
     (if command \<in> {''install'', ''verify''} \<and> rp_verification r \<noteq> [] then
        (if status = 0 \<and> verification_status r = 0 then Some False
         else if list_ex (\<lambda>f. fi_id f = ''install.compensation.reboot-required'') (rp_findings r)
           \<or> verification_can_complete_after_reboot r then Some True
         else None)
      else if command = ''rollback'' \<and> rp_verification r \<noteq> [] then
        (if status = 0 then Some False
         else if rollback_can_complete_after_reboot r then Some True
         else None)
      else rp_reboot_required r)"

text \<open>
  \<open>now\<close>, \<open>identity\<close> and \<open>version\<close> are the clock, the identity of the host if it has one, and the
  version of the program; \<open>elapsed\<close> prints the seconds between two time stamps, if they can be read.
\<close>

definition finalize_report ::
  "string \<Rightarrow> (string \<Rightarrow> string \<Rightarrow> string option) \<Rightarrow> string \<Rightarrow> string option \<Rightarrow> string \<Rightarrow> string option \<Rightarrow> bool
   \<Rightarrow> report \<Rightarrow> report" where
  "finalize_report version elapsed now identity command out applied r =
     (let started = (if or_empty (rp_started_at r) \<noteq> [] then or_empty (rp_started_at r) else rp_generated_at r);
          r1 = r\<lparr>rp_command := Some command, rp_mode := (if applied then ''apply'' else ''dry-run''),
            rp_tool_version := version, rp_started_at := Some started, rp_completed_at := Some now,
            rp_duration_seconds := elapsed started now, rp_host_id := identity, rp_report_path := out\<rparr>;
          status = report_status command r1
      in r1\<lparr>rp_exit_code := Some status, rp_outcome := (if status = 0 then ''succeeded'' else ''failed''),
            rp_incomplete := operation_incomplete applied status r1,
            rp_reboot_required := reboot_verdict command status r1\<rparr>)"

text \<open>\<open>_inherit_operation\<close>\<close>

definition inherit_operation :: "report option \<Rightarrow> report \<Rightarrow> report" where
  "inherit_operation operation r =
     (case operation of
        None \<Rightarrow> r
      | Some x \<Rightarrow> r\<lparr>rp_generated_at := rp_generated_at x, rp_operation_id := rp_operation_id x,
          rp_started_at := rp_started_at x, rp_host_id := rp_host_id x, rp_report_path := rp_report_path x\<rparr>)"

end
