(* ===== verification/RollbackCommand.thy ===== *)
theory RollbackCommand
  imports Recovery CommandStatus LauncherCommit RollbackJournal
begin

text \<open>
  The \<open>rollback\<close> command (\<open>nvidia_converge/cli.py\<close>): from the snapshot it is given to the exit status, with
  the gates before the first change, the rollback, its verification, the release of the launchers, and
  the records in the journals of its own and of the operations it recovers.
\<close>

section \<open>Host and arguments\<close>

text \<open>
  \<open>ch_append\<close> appends an event to the journal of a report, \<open>ch_write\<close> writes a report (\<open>report.py\<close>); both
  may fail.  \<open>ch_elapsed\<close> prints the seconds between two time stamps, \<open>ch_version\<close> is the version of
  the program, \<open>ch_fresh_id\<close> is \<open>uuid4().hex\<close>.
\<close>

record 'w command_host = "'w cli_host" +
  ch_append :: "string \<Rightarrow> event \<Rightarrow> 'w \<Rightarrow> (report_error + unit) \<times> 'w"
  ch_write :: "report \<Rightarrow> string \<Rightarrow> 'w \<Rightarrow> (report_error + unit) \<times> 'w"
  ch_elapsed :: "string \<Rightarrow> string \<Rightarrow> string option"
  ch_version :: string
  ch_fresh_id :: "'w \<Rightarrow> string \<times> 'w"

record cli_args =
  ca_allow_disruption :: bool
  ca_allow_active_workloads :: bool
  ca_snapshot :: string
  ca_out :: "string option"

definition update_report :: "(report \<Rightarrow> report) \<Rightarrow> ('w, unit) cli_action" where
  "update_report f = tells (\<lambda>s. s\<lparr>cs_report := f (cs_report s)\<rparr>)"

definition audit_recorded :: "host_audit \<Rightarrow> report \<Rightarrow> report" where
  "audit_recorded a r = r\<lparr>rp_audit := Some a, rp_sbom := sbom_from_audit a\<rparr>"

section \<open>Journal and report\<close>

definition append_report_journal ::
  "('w, 'r) command_host_scheme \<Rightarrow> string \<Rightarrow> string \<Rightarrow> string \<Rightarrow> (string \<times> json) list
   \<Rightarrow> ('w, cli_exception + unit) cli_action" where
  "append_report_journal H path operation_id name details = do {
     now \<leftarrow> on_world (cr_now H);
     r \<leftarrow> on_world (ch_append H path (journal_event operation_id now name details));
     give (map_sum ReportRaised (\<lambda>x. x) r)
   }"

definition binding_details :: "string \<Rightarrow> string \<Rightarrow> rollback_snapshot \<Rightarrow> (string \<times> json) list" where
  "binding_details path integrity s =
     [(''snapshot_path'', JStr path), (''snapshot_integrity_sha256'', JStr integrity),
      (''snapshot_operation_id'', JStr (rs_operation_id s)), (''snapshot_host_id'', JStr (rs_host_id s))]"

text \<open>As the \<open>rollback\<close> command calls it: the path of the snapshot is given, the operation is the report's.\<close>

definition append_snapshot_binding ::
  "('w, 'r) command_host_scheme \<Rightarrow> string option \<Rightarrow> rollback_snapshot \<Rightarrow> ('w, cli_exception + unit) cli_action" where
  "append_snapshot_binding H report_path s = do {
     operation_id \<leftarrow> asks (\<lambda>st. rp_operation_id (cs_report st));
     (case (report_path, rs_integrity_sha256 s) of
        (Some out, Some integrity) \<Rightarrow>
          if or_empty (rs_path s) \<noteq> [] \<and> path_is_absolute (or_empty (rs_path s))
          then append_report_journal H out operation_id ''rollback-snapshot-persisted''
            (binding_details (or_empty (rs_path s)) integrity s)
          else give (Inl (ReportRaised (WriteFailed
            ''cannot durably bind an incomplete rollback snapshot authority'')))
      | _ \<Rightarrow> give (Inl (ReportRaised (WriteFailed
            ''cannot durably bind an incomplete rollback snapshot authority''))))
   }"

definition append_launcher_release_authorization ::
  "('w, 'r) command_host_scheme \<Rightarrow> string option \<Rightarrow> rollback_snapshot \<Rightarrow> string
   \<Rightarrow> ('w, cli_exception + unit) cli_action" where
  "append_launcher_release_authorization H report_path s release_target = do {
     operation_id \<leftarrow> asks (\<lambda>st. rp_operation_id (cs_report st));
     (case report_path of
        None \<Rightarrow> give (Inr ())
      | Some out \<Rightarrow>
         (case (rs_path s, rs_integrity_sha256 s) of
            (Some path, Some integrity) \<Rightarrow> append_report_journal H out operation_id ''launcher-release-authorized''
              ((''release_target'', JStr release_target) # binding_details path integrity s)
          | _ \<Rightarrow> give (Inl (ReportRaised (WriteFailed
              ''cannot authorize launcher release without exact snapshot evidence'')))))
   }"

text \<open>Recovery reads only journals whose name is longer than the suffix (\<open>is_journal_name\<close>).\<close>

definition report_path_of :: "string \<Rightarrow> string option" where
  "report_path_of path =
     (if endswith (path_name path) journal_suffix
      then Some (take (length path - length journal_suffix) path) else None)"

definition recovered_event :: "string \<Rightarrow> rollback_snapshot \<Rightarrow> (string \<times> json) list" where
  "recovered_event recovery_operation_id s =
     [(''recovery_operation_id'', JStr recovery_operation_id), (''snapshot_path'', json_text (rs_path s)),
      (''snapshot_integrity_sha256'', json_text (rs_integrity_sha256 s)),
      (''snapshot_operation_id'', JStr (rs_operation_id s)), (''snapshot_host_id'', JStr (rs_host_id s))]"

fun mark_operations_recovered ::
  "('w, 'r) command_host_scheme \<Rightarrow> unresolved_operation list \<Rightarrow> string \<Rightarrow> rollback_snapshot
   \<Rightarrow> ('w, cli_exception + unit) cli_action" where
  "mark_operations_recovered H [] recovery_operation_id s = give (Inr ())"
| "mark_operations_recovered H (op # ops) recovery_operation_id s =
     (case report_path_of (uo_journal_path op) of
        None \<Rightarrow> give (Inl (ReportRaised (WriteFailed ''cannot resolve an unsafe recovery journal path'')))
      | Some path \<Rightarrow>
          and_then (append_report_journal H path (uo_operation_id op) ''operation-recovered''
            (recovered_event recovery_operation_id s))
            (\<lambda>_. mark_operations_recovered H ops recovery_operation_id s))"

text \<open>
  Whether the operation is in \<open>_MUTATING_OPERATION_IDS\<close>: it has announced a command that may change the host
  to its journal.
\<close>

definition operation_mutating :: "'w cli_session \<Rightarrow> bool" where
  "operation_mutating s \<longleftrightarrow>
     list_ex (\<lambda>e. case e of
         Started command mutate \<Rightarrow> mutate \<and> command \<notin> set safe_private_state_commands
       | Finished _ _ \<Rightarrow> False) (se_events s)"

definition emergency_if_mutating :: "('w, 'r) command_host_scheme \<Rightarrow> bool \<Rightarrow> ('w, unit) cli_action" where
  "emergency_if_mutating H mutating = (if mutating then emergency_quarantine_launchers H else give ())"

definition write_report ::
  "('w, 'r) command_host_scheme \<Rightarrow> string \<Rightarrow> ('w, cli_exception + unit) cli_action" where
  "write_report H path = do {
     report \<leftarrow> asks cs_report;
     r \<leftarrow> on_world (ch_write H report path);
     give (map_sum ReportRaised (\<lambda>x. x) r)
   }"

definition seal_failed :: "bool \<Rightarrow> report \<Rightarrow> report" where
  "seal_failed incomplete r =
     r\<lparr>rp_exit_code := Some 2, rp_outcome := ''failed'', rp_incomplete := incomplete\<rparr>"

definition completion_details :: "report \<Rightarrow> (string \<times> json) list" where
  "completion_details r =
     [(''exit_code'', json_opt JInt (rp_exit_code r)), (''incomplete'', JBool (rp_incomplete r)),
      (''outcome'', JStr (rp_outcome r))]"

text \<open>
  The report is written and the journal completed.  When the journal cannot be, the report is written again
  as failed; the flag of the result tells that the end of the journal is uncertain.
\<close>

definition complete_report ::
  "('w, 'r) command_host_scheme \<Rightarrow> string \<Rightarrow> bool \<Rightarrow> ('w, (cli_exception \<times> bool) + unit) cli_action" where
  "complete_report H path applied = do {
     written \<leftarrow> write_report H path;
     (case written of
        Inl e \<Rightarrow> give (Inl (e, False))
      | Inr _ \<Rightarrow>
          if \<not> applied then give (Inr ())
          else do {
            report \<leftarrow> asks cs_report;
            appended \<leftarrow> append_report_journal H path (rp_operation_id report) ''operation-completed''
              (completion_details report);
            (case appended of
               Inr _ \<Rightarrow> give (Inr ())
             | Inl e \<Rightarrow> do {
                 mutating \<leftarrow> asks operation_mutating;
                 emergency_if_mutating H mutating;
                 update_report (seal_failed True);
                 again \<leftarrow> write_report H path;
                 (let uncertain = (case e of ReportRaised (IntegrityLost _) \<Rightarrow> True | _ \<Rightarrow> False)
                  in give (Inl (case again of Inl e' \<Rightarrow> e' | Inr _ \<Rightarrow> e, uncertain)))
               })
          })
   }"

definition report_error_text :: "cli_exception \<Rightarrow> string" where
  "report_error_text e = (case e of ReportRaised (WriteFailed t) \<Rightarrow> t | ReportRaised (IntegrityLost t) \<Rightarrow> t | _ \<Rightarrow> [])"

definition emit_report ::
  "('w, 'r) command_host_scheme \<Rightarrow> string \<Rightarrow> string option \<Rightarrow> bool \<Rightarrow> ('w, cli_exception + unit) cli_action" where
  "emit_report H command out applied = do {
     now \<leftarrow> on_world (cr_now H);
     identity \<leftarrow> host_identity H;
     update_report (finalize_report (ch_version H) (ch_elapsed H) now
       (case identity of Inr x \<Rightarrow> Some x | Inl _ \<Rightarrow> None) command out applied);
     (case out of
        None \<Rightarrow> give (Inr ())
      | Some path \<Rightarrow> do {
          completed \<leftarrow> complete_report H path applied;
          (case completed of
             Inr _ \<Rightarrow> give (Inr ())
           | Inl (e, uncertain) \<Rightarrow> do {
               mutating \<leftarrow> asks operation_mutating;
               emergency_if_mutating H mutating;
               update_report (seal_failed applied);
               operation_id \<leftarrow> asks (\<lambda>s. rp_operation_id (cs_report s));
               (if applied \<and> \<not> uncertain then do {
                  marker \<leftarrow> append_report_journal H path operation_id ''report-persistence-failed''
                    [(''error'', JStr (report_error_text e))];
                  give (Inl (case marker of Inl (ReportRaised (IntegrityLost t)) \<Rightarrow> ReportRaised (IntegrityLost t)
                    | _ \<Rightarrow> e))
                }
                else give (Inl e))
             })
        })
   }"

section \<open>The maintenance gate\<close>

record maintenance =
  mo_guard :: "gpu_guard option"
  mo_before :: "command_result list"
  mo_probe :: "command_result option"
  mo_after :: "command_result list"
  mo_findings :: "finding list"

definition mo_results :: "maintenance \<Rightarrow> command_result list" where
  "mo_results m = mo_before m @ (case mo_probe m of Some r \<Rightarrow> [r] | None \<Rightarrow> []) @ mo_after m"

text \<open>\<open>str.capitalize\<close> of an ASCII text\<close>

definition capitalize :: "string \<Rightarrow> string" where
  "capitalize s = (case s of
     [] \<Rightarrow> [] | c # cs \<Rightarrow> (if is_lower c then char_of (cp c - 32) else c) # lower cs)"

definition window_required :: "string \<Rightarrow> string \<Rightarrow> finding" where
  "window_required operation detail = error_finding ''maintenance-window.required''
     (capitalize operation @ '' requires an explicit maintenance window'')
     (if detail \<noteq> [] then detail else capitalize operation @ '' may load modules, exercise a ''
        @ ''GPU, or change package policy.'') []
     (Some ''Drain the node, then rerun with --allow-disruption.'')"

definition workload_findings :: "bool \<Rightarrow> string \<Rightarrow> string list option \<Rightarrow> finding list" where
  "workload_findings allow_active operation workloads =
     (case workloads of
        None \<Rightarrow> [error_finding ''gpu-workloads.unknown'' ''Active GPU workloads could not be determined''
          (''The compute-process, GPU-device-user, or Docker GPU-allocation '' @ ''inventory was not fully observable.'') []
          (Some (''Repair nvidia-smi workload observability before '' @ operation @ ''.''))]
      | Some ws \<Rightarrow> if ws \<noteq> [] \<and> \<not> allow_active
          then [error_finding ''gpu-workloads.active'' (''Active GPU workloads block '' @ operation)
            (''Observed GPU workloads: '' @ join '', '' ws) []
            (Some (''Drain the GPU workloads or explicitly use '' @ ''--allow-active-workloads.''))]
          else [])"

definition quiesce_failed_finding :: "gpu_guard \<Rightarrow> finding" where
  "quiesce_failed_finding g = error_finding ''gpu-services.quiesce-failed''
     ''Trusted NVIDIA services could not be safely quiesced''
     (if or_empty (gg_error g) \<noteq> [] then or_empty (gg_error g)
      else ''Trusted NVIDIA service state was not observable.'') []
     (Some (''Repair the exact systemd unit, executable, and cgroup binding ''
       @ ''for Fabric Manager or NVIDIA Persistence Daemon before retrying.''))"

definition probed ::
  "('w, 'r) command_host_scheme \<Rightarrow> host_audit
   \<Rightarrow> ('w, cli_exception + command_result \<times> string list option) cli_action" where
  "probed H a = do {
     r \<leftarrow> probe_active_gpu_workloads H (Some a);
     give (case r of None \<Rightarrow> Inl ProbeRaised | Some x \<Rightarrow> Inr x)
   }"

definition maintenance_gate ::
  "('w, 'r) command_host_scheme \<Rightarrow> cli_args \<Rightarrow> host_audit \<Rightarrow> string \<Rightarrow> string \<Rightarrow> bool
   \<Rightarrow> ('w, cli_exception + maintenance) cli_action" where
  "maintenance_gate H args a operation detail quiesce =
     (if \<not> ca_allow_disruption args then
        and_then (probed H a) (\<lambda>(probe, _). give (Inr
          \<lparr>mo_guard = None, mo_before = [], mo_probe = Some probe, mo_after = [],
           mo_findings = [window_required operation detail]\<rparr>))
      else if \<not> quiesce then
        and_then (probed H a) (\<lambda>(probe, workloads). give (Inr
          \<lparr>mo_guard = None, mo_before = [], mo_probe = Some probe, mo_after = [],
           mo_findings = workload_findings (ca_allow_active_workloads args) operation workloads\<rparr>))
      else do {
        guard \<leftarrow> quiesce_trusted_gpu_services H False;
        (if \<not> guard_ok guard then give (Inr
           \<lparr>mo_guard = Some guard, mo_before = gg_results guard, mo_probe = None, mo_after = [],
            mo_findings = [quiesce_failed_finding guard]\<rparr>)
         else and_then (or_emergency H (probed H a)) (\<lambda>(probe, workloads). give (Inr
           \<lparr>mo_guard = Some guard, mo_before = gg_results guard, mo_probe = Some probe, mo_after = [],
            mo_findings = workload_findings (ca_allow_active_workloads args) operation workloads\<rparr>)))
      })"

section \<open>Services left stopped\<close>

definition requiesce_unproven :: "gpu_guard \<Rightarrow> finding" where
  "requiesce_unproven g = error_finding ''gpu-services.requiesce-failed''
     ''Trusted NVIDIA services could not be proven quiesced'' (join ''; '' (gg_requiesce_errors g)) []
     (Some (''Isolate the node and inspect only the named trusted systemd ''
       @ ''services before attempting any restart.''))"

definition intentionally_quiesced :: "gpu_guard \<Rightarrow> finding" where
  "intentionally_quiesced g = error_finding ''gpu-services.intentionally-quiesced''
     ''Trusted NVIDIA services were not restarted after mutation failure''
     (''The stack may be inconsistent, so nvidia-converge intentionally ''
      @ ''did not restart: '' @ join '', '' (quiesced_service_names g)) []
     (Some (''Inspect and repair the failed package/module transaction before ''
       @ ''securely validating and restarting the named services.''))"

definition record_intentionally_quiesced_services :: "('w, 'r) command_host_scheme \<Rightarrow> ('w, unit) cli_action" where
  "record_intentionally_quiesced_services H = do {
     guard \<leftarrow> asks cs_guard;
     (case guard of
        None \<Rightarrow> give ()
      | Some g \<Rightarrow>
          if quiesced_service_names g = [] then give ()
          else do {
            (ok, g') \<leftarrow> requiesce H g;
            tells (\<lambda>s. s\<lparr>cs_guard := Some g'\<rparr>);
            report_finding (if ok then intentionally_quiesced g' else requiesce_unproven g')
          })
   }"

definition service_fields :: "host_audit \<Rightarrow> (string \<times> json) list" where
  "service_fields a =
     [(''docker_service_active'', json_flag (ha_docker_service_active a)),
      (''docker_service_enabled'', json_flag (ha_docker_service_enabled a)),
      (''docker_service_unit_file_state'', json_text (ha_docker_service_unit_file_state a)),
      (''docker_socket_active'', json_flag (ha_docker_socket_active a)),
      (''docker_socket_enabled'', json_flag (ha_docker_socket_enabled a)),
      (''docker_socket_unit_file_state'', json_text (ha_docker_socket_unit_file_state a)),
      (''nvidia_persistenced_active'', json_flag (ha_nvidia_persistenced_active a)),
      (''nvidia_persistenced_enabled'', json_flag (ha_nvidia_persistenced_enabled a)),
      (''nvidia_persistenced_unit_file_state'', json_text (ha_nvidia_persistenced_unit_file_state a)),
      (''fabric_manager_active'', json_flag (ha_fabric_manager_active a)),
      (''fabric_manager_enabled'', json_flag (ha_fabric_manager_enabled a)),
      (''fabric_manager_unit_file_state'', json_text (ha_fabric_manager_unit_file_state a))]"

definition changed_services :: "host_audit \<Rightarrow> host_audit \<Rightarrow> (string \<times> json) list" where
  "changed_services prior later =
     map (\<lambda>((name, x), (_, y)). (name, JObj [(''before'', x), (''after'', y)]))
       (filter (\<lambda>((_, x), (_, y)). x \<noteq> y) (zip (service_fields prior) (service_fields later)))"

definition record_failed_rollback_service_changes :: "host_audit \<Rightarrow> host_audit \<Rightarrow> ('w, unit) cli_action" where
  "record_failed_rollback_service_changes prior later =
     (let changed = changed_services prior later
      in report_when (changed \<noteq> []) (error_finding ''rollback.service-state-altered''
        ''Rollback failed after changing service state''
        (''The post-failure audit, rather than the pre-rollback baseline, ''
         @ ''records Docker/Fabric Manager state. Changed fields: '' @ join '', '' (sort (map fst changed)))
        changed
        (Some (''Keep the node drained and use the post-failure audit plus the ''
          @ ''private snapshot to finish restoring exact service state.''))))"

section \<open>Gates before the first change\<close>

text \<open>A gate that refuses emits the report and ends the command with status 2: nothing.\<close>

type_synonym ('w, 'a) gate = "('w, cli_exception + 'a option) cli_action"

definition stopped :: "('w, 'r) command_host_scheme \<Rightarrow> cli_args \<Rightarrow> ('w, 'a) gate" where
  "stopped H args = and_then (emit_report H ''rollback'' (ca_out args) True) (\<lambda>_. give (Inr None))"

definition and_pass :: "('w, 'a) gate \<Rightarrow> ('a \<Rightarrow> ('w, 'b) gate) \<Rightarrow> ('w, 'b) gate" where
  "and_pass m f = and_then m (\<lambda>r. case r of None \<Rightarrow> give (Inr None) | Some x \<Rightarrow> f x)"

definition refuse_gate ::
  "('w, 'r) command_host_scheme \<Rightarrow> cli_args \<Rightarrow> finding \<Rightarrow> ('w, 'a) gate" where
  "refuse_gate H args f = do { report_finding f; stopped H args }"

definition rollback_inventory_incomplete :: finding where
  "rollback_inventory_incomplete = error_finding ''rollback.package-inventory-incomplete''
     ''Rollback requires a complete package inventory''
     ''The current package inventory is incomplete, so rollback cannot safely derive a state difference.'' []
     (Some ''Repair package inventory queries before retrying rollback.'')"

definition rollback_snapshot_untrusted :: "string \<Rightarrow> finding" where
  "rollback_snapshot_untrusted e = error_finding ''rollback.snapshot-untrusted''
     ''Rollback snapshot trust validation failed'' e []
     (Some ''Use the original private snapshot on the host where it was created.'')"

definition rollback_preflight_failed :: "string \<Rightarrow> (string \<times> json) list \<Rightarrow> finding" where
  "rollback_preflight_failed e evidence = error_finding ''rollback.packages-preflight-failed''
     ''Rollback package preflight failed'' e evidence
     (Some (''Restore the original private snapshot and its paired retained ''
       @ ''payload bundle from trusted backup before retrying rollback.''))"

definition trust_gate ::
  "('w, 'r) command_host_scheme \<Rightarrow> cli_args \<Rightarrow> rollback_snapshot \<Rightarrow> host_audit \<Rightarrow> ('w, unit) gate" where
  "trust_gate H args s a = do {
     r \<leftarrow> validate_snapshot_for_apply H False s (ca_snapshot args) a;
     (case r of
        Inr _ \<Rightarrow> give (Inr (Some ()))
      | Inl (Refused e) \<Rightarrow> refuse_gate H args (rollback_snapshot_untrusted e)
      | Inl (SystemError e) \<Rightarrow> give (Inl (SnapshotRaised e)))
   }"

text \<open>The evidence of a \<open>PackagePreflightError\<close> is an argument, as in theory \<open>Compensation\<close>.\<close>

type_synonym preflight_evidence = "string \<Rightarrow> command_result list \<Rightarrow> (string \<times> json) list"

definition preflight_gate ::
  "('w, 'r) command_host_scheme \<Rightarrow> preflight_evidence \<Rightarrow> cli_args \<Rightarrow> rollback_snapshot \<Rightarrow> host_audit
   \<Rightarrow> ('w, unit) gate" where
  "preflight_gate H evidence args s a = do {
     r \<leftarrow> preflight_package_rollback H s a;
     (case r of
        Inr results \<Rightarrow> do {
          report_checks (preflight_checks ''rollback.packages-preflight'' results
            ''Every exact rollback package resolves before host mutation.'' True);
          give (Inr (Some ()))
        }
      | Inl (SolverRefused e results) \<Rightarrow> do {
          report_checks (preflight_checks ''rollback.packages-preflight'' results
            ''An exact rollback package transaction did not resolve safely.'' False);
          refuse_gate H args (rollback_preflight_failed e (evidence e results))
        }
      | Inl e \<Rightarrow> give (Inl (PreflightEscaped e)))
   }"

definition rollback_maintenance_detail :: string where
  "rollback_maintenance_detail = ''Rollback may change packages, modules, MIG mode, managed ''
     @ ''files, Docker, and Fabric Manager.''"

text \<open>The results of the gate, and how many results the guard had then.\<close>

definition rollback_maintenance ::
  "('w, 'r) command_host_scheme \<Rightarrow> cli_args \<Rightarrow> host_audit \<Rightarrow> ('w, command_result list \<times> nat) gate" where
  "rollback_maintenance H args a =
     and_then (maintenance_gate H args a ''rollback'' rollback_maintenance_detail True) (\<lambda>m. do {
       tells (\<lambda>s. s\<lparr>cs_guard := mo_guard m\<rparr>);
       update_report (\<lambda>r. r\<lparr>rp_findings := rp_findings r @ mo_findings m\<rparr>);
       (if mo_findings m \<noteq> [] then do {
          update_report (\<lambda>r. r\<lparr>rp_command_results := mo_results m\<rparr>);
          and_then (if mo_guard m = None then give (Inr ())
            else and_then (quarantine_failed_maintenance_gate H) (\<lambda>(_, a'). do {
              update_report (audit_recorded a');
              give (Inr ())
            })) (\<lambda>_. stopped H args)
        }
        else do {
          tells (\<lambda>s. s\<lparr>cs_guard := map_option mark_mutation_started (mo_guard m)\<rparr>);
          give (Inr (Some (mo_results m, case mo_guard m of Some g \<Rightarrow> length (gg_results g) | None \<Rightarrow> 0)))
        })
     })"

definition fresh_preflight_failed :: "string \<Rightarrow> (string \<times> json) list \<Rightarrow> finding" where
  "fresh_preflight_failed e evidence = error_finding ''rollback.post-quarantine-preflight-failed''
     ''Fresh rollback preflight failed'' e evidence
     (Some (''Keep all launchers masked and rerun the exact '' @ ''private snapshot rollback after repairing the ''
       @ ''reported precondition.''))"

text \<open>The errors of the command builder that are a \<open>RollbackSnapshotError\<close>; the others are assertions.\<close>

definition builder_refusal :: "rollback_error \<Rightarrow> bool" where
  "builder_refusal e \<longleftrightarrow> e \<notin> {AptRemovalAssertion, ZypperRemovalAssertion}"

definition fresh_preflight ::
  "('w, 'r) command_host_scheme \<Rightarrow> preflight_evidence \<Rightarrow> rollback_snapshot \<Rightarrow> host_audit
   \<Rightarrow> ('w, cli_exception + bool) cli_action" where
  "fresh_preflight H evidence s a = do {
     r \<leftarrow> preflight_package_rollback H s a;
     (case r of
        Inr results \<Rightarrow> do {
          report_checks (preflight_checks ''rollback.post-quarantine-packages-preflight'' results
            (''The exact rollback delta resolves from the fresh '' @ ''post-quarantine audit.'') True);
          give (Inr True)
        }
      | Inl (SolverRefused e results) \<Rightarrow> do {
          report_checks (preflight_checks ''rollback.post-quarantine-packages-preflight'' results
            (''The fresh post-quarantine rollback delta did not '' @ ''resolve safely.'') False);
          report_finding (fresh_preflight_failed e (evidence e results));
          give (Inr False)
        }
      | Inl (BuilderRaised e) \<Rightarrow>
          if builder_refusal e then do {
            report_finding (fresh_preflight_failed (rollback_error_text e) []);
            give (Inr False)
          }
          else give (Inl (PreflightEscaped (BuilderRaised e)))
      | Inl e \<Rightarrow> give (Inl (PreflightEscaped e)))
   }"

definition fresh_authority ::
  "('w, 'r) command_host_scheme \<Rightarrow> preflight_evidence \<Rightarrow> cli_args \<Rightarrow> rollback_snapshot \<Rightarrow> host_audit
   \<Rightarrow> ('w, cli_exception + bool) cli_action" where
  "fresh_authority H evidence args s a = do {
     r \<leftarrow> validate_snapshot_for_apply H False s (ca_snapshot args) a;
     (case r of
        Inr _ \<Rightarrow> fresh_preflight H evidence s a
      | Inl (Refused e) \<Rightarrow> do { report_finding (fresh_preflight_failed e []); give (Inr False) }
      | Inl (SystemError e) \<Rightarrow> give (Inl (SnapshotRaised e)))
   }"

text \<open>What the guard did after the gate\<close>

definition later_results :: "nat \<Rightarrow> 'w cli_session \<Rightarrow> command_result list" where
  "later_results offset s = (case cs_guard s of Some g \<Rightarrow> drop offset (gg_results g) | None \<Rightarrow> [])"

definition rollback_boundary ::
  "('w, 'r) command_host_scheme \<Rightarrow> preflight_evidence \<Rightarrow> cli_args \<Rightarrow> rollback_snapshot
   \<Rightarrow> command_result list \<times> nat \<Rightarrow> ('w, host_audit) gate" where
  "rollback_boundary H evidence args s = (\<lambda>(maintenance, offset).
     and_then (pre_gpu_mutation_checkpoint H (ca_allow_active_workloads args)) (\<lambda>(idle, a, _). do {
       safe \<leftarrow> (if idle then fresh_gpu_boundary_is_safe H s a ''rollback-pre-apply'' else give False);
       and_then (if safe then fresh_authority H evidence args s a else give (Inr False)) (\<lambda>ok.
         if ok then give (Inr (Some a))
         else do {
           report_finding (rollback_reboot_recovery_finding s (ca_snapshot args) ''rollback'');
           later \<leftarrow> asks (later_results offset);
           update_report (\<lambda>r. audit_recorded a (r\<lparr>rp_command_results := maintenance @ rp_command_results r @ later\<rparr>));
           stopped H args
         })
     }))"

definition rollback_gates ::
  "('w, 'r) command_host_scheme \<Rightarrow> preflight_evidence \<Rightarrow> cli_args \<Rightarrow> rollback_snapshot
   \<Rightarrow> ('w, host_audit \<times> command_result list \<times> nat) gate" where
  "rollback_gates H evidence args s =
     and_then (audited H) (\<lambda>a. do {
       update_report (audit_recorded a);
       (if \<not> ha_package_inventory_complete a then refuse_gate H args rollback_inventory_incomplete
        else and_pass (trust_gate H args s a) (\<lambda>_.
          and_pass (preflight_gate H evidence args s a) (\<lambda>_.
          and_then (append_snapshot_binding H (ca_out args) s) (\<lambda>_.
          and_pass (rollback_maintenance H args a) (\<lambda>maintenance.
          and_pass (rollback_boundary H evidence args s maintenance) (\<lambda>a'.
            give (Inr (Some (a', maintenance)))))))))
     })"

section \<open>After the rollback\<close>

definition core_verification_failed :: finding where
  "core_verification_failed = error_finding ''rollback.core-verification-failed''
     ''Rollback core state could not be verified''
     (''All launchers remain quiesced; use the original '' @ ''private snapshot after repairing the core stack.'') []
     None"

definition verified_release ::
  "('w, 'r) command_host_scheme \<Rightarrow> cli_args \<Rightarrow> rollback_snapshot \<Rightarrow> host_audit
   \<Rightarrow> ('w, cli_exception + boundary) cli_action" where
  "verified_release H args s a = do {
     core \<leftarrow> asks (\<lambda>st. verify_rollback H (se_world st) s a False);
     report_checks core;
     (if list_all vf_ok core then
        and_then (append_launcher_release_authorization H (ca_out args) s ''rollback-baseline'') (\<lambda>_.
        and_then (commit_rollback_service_activity H (ca_allow_active_workloads args) s a ''rollback'') (\<lambda>(ok, a').
          if ok then do {
            full \<leftarrow> asks (\<lambda>st. verify_rollback H (se_world st) s a' True);
            report_checks (drop (length core) full);
            give (Inr (list_all vf_ok full, a'))
          }
          else give (Inr (False, a'))))
      else if rollback_state_can_complete_after_reboot s a core then
        and_then (quiesce_launchers_for_reboot H (ca_allow_active_workloads args)) (\<lambda>(quiesced, a', _). do {
          report_when quiesced (rollback_reboot_recovery_finding s (ca_snapshot args) ''rollback'');
          give (Inr (quiesced, a'))
        })
      else and_then (quiesce_launchers_for_reboot H (ca_allow_active_workloads args)) (\<lambda>_. do {
          report_finding core_verification_failed;
          give (Inr (False, a))
        }))
   }"

definition settle_rollback ::
  "('w, 'r) command_host_scheme \<Rightarrow> cli_args \<Rightarrow> rollback_snapshot \<Rightarrow> host_audit \<Rightarrow> bool
   \<Rightarrow> ('w, cli_exception + boundary) cli_action" where
  "settle_rollback H args s prior fine =
     and_then (audited H) (\<lambda>a.
       if fine then verified_release H args s a
       else and_then (quiesce_launchers_for_reboot H (ca_allow_active_workloads args)) (\<lambda>_.
         and_then (audited H) (\<lambda>a'. do {
           record_failed_rollback_service_changes prior a';
           give (Inr (False, a'))
         })))"

text \<open>The report of an applied rollback, once the services are settled\<close>

definition close_rollback ::
  "('w, 'r) command_host_scheme \<Rightarrow> nat \<Rightarrow> boundary \<Rightarrow> ('w, cli_exception + bool) cli_action" where
  "close_rollback H offset = (\<lambda>(fine, a). do {
     (if fine then give () else record_intentionally_quiesced_services H);
     later \<leftarrow> asks (later_results offset);
     report_results later;
     update_report (audit_recorded a);
     give (Inr fine)
   })"

definition rollback_fully_verified :: "bool \<Rightarrow> report \<Rightarrow> bool" where
  "rollback_fully_verified fine r \<longleftrightarrow>
     fine \<and> rp_verification r \<noteq> [] \<and> list_all vf_ok (rp_verification r) \<and> error_free (rp_findings r)"

definition conclude_rollback ::
  "('w, 'r) command_host_scheme \<Rightarrow> cli_args \<Rightarrow> rollback_snapshot \<Rightarrow> unresolved_operation list \<Rightarrow> bool
   \<Rightarrow> ('w, cli_exception + int) cli_action" where
  "conclude_rollback H args s pending fine = do {
     report \<leftarrow> asks cs_report;
     and_then (if ru_apply H \<and> rollback_fully_verified fine report \<and> pending \<noteq> []
         then mark_operations_recovered H pending (rp_operation_id report) s else give (Inr ())) (\<lambda>_.
     and_then (emit_report H ''rollback'' (ca_out args) (ru_apply H)) (\<lambda>_. do {
       status \<leftarrow> asks (\<lambda>st. report_status ''rollback'' (cs_report st));
       give (Inr status)
     }))
   }"

definition rollback_results ::
  "('w, 'r) command_host_scheme \<Rightarrow> rollback_snapshot \<Rightarrow> host_audit option \<Rightarrow> command_result list
   \<Rightarrow> ('w, cli_exception + command_result list) cli_action" where
  "rollback_results H s current maintenance = do {
     outcome \<leftarrow> apply_rollback H s current False False;
     (case outcome of
        Raise e \<Rightarrow> give (Inl (RollbackEscaped e))
      | Go results \<Rightarrow> do {
          update_report (\<lambda>r. r\<lparr>rp_command_results := maintenance @ rp_command_results r @ results\<rparr>);
          give (Inr results)
        }
      | Return results \<Rightarrow> do {
          update_report (\<lambda>r. r\<lparr>rp_command_results := maintenance @ rp_command_results r @ results\<rparr>);
          give (Inr results)
        })
   }"

definition applied_rollback ::
  "('w, 'r) command_host_scheme \<Rightarrow> preflight_evidence \<Rightarrow> cli_args \<Rightarrow> rollback_snapshot
   \<Rightarrow> unresolved_operation list \<Rightarrow> ('w, cli_exception + int) cli_action" where
  "applied_rollback H evidence args s pending =
     and_then (rollback_gates H evidence args s) (\<lambda>gate. case gate of
       None \<Rightarrow> give (Inr 2)
     | Some (prior, maintenance, offset) \<Rightarrow>
         and_then (rollback_results H s (Some prior) maintenance) (\<lambda>results.
         and_then (settle_rollback H args s prior (commands_succeeded results)) (\<lambda>settled.
         and_then (close_rollback H offset settled) (conclude_rollback H args s pending))))"

definition announced_rollback ::
  "('w, 'r) command_host_scheme \<Rightarrow> cli_args \<Rightarrow> rollback_snapshot \<Rightarrow> unresolved_operation list
   \<Rightarrow> ('w, cli_exception + int) cli_action" where
  "announced_rollback H args s pending =
     and_then (rollback_results H s None []) (\<lambda>results.
       conclude_rollback H args s pending (commands_succeeded results))"

section \<open>The whole command\<close>

definition recovery_binding :: "unresolved_operation \<Rightarrow> string option \<times> string option \<times> string option" where
  "recovery_binding op =
     (uo_snapshot_integrity_sha256 op, uo_snapshot_operation_id op, uo_snapshot_host_id op)"

definition recovers :: "rollback_snapshot \<Rightarrow> unresolved_operation list \<Rightarrow> bool" where
  "recovers s pending \<longleftrightarrow>
     pending = []
     \<or> set (map recovery_binding pending)
         = {(rs_integrity_sha256 s, Some (rs_operation_id s), Some (rs_host_id s))}"

definition rollback_report :: "string \<Rightarrow> string \<Rightarrow> desired_state \<Rightarrow> rollback_snapshot \<Rightarrow> report" where
  "rollback_report now fresh_id d s =
     \<lparr>rp_schema_version = ''1.2'', rp_generated_at = now, rp_desired = d, rp_audit = None, rp_findings = [],
      rp_plan = [], rp_command_results = [], rp_verification = [], rp_rollback = Some s, rp_sbom = [],
      rp_command = None, rp_mode = ''dry-run'', rp_tool_version = [], rp_operation_id = fresh_id, rp_host_id = None,
      rp_started_at = None, rp_completed_at = None, rp_duration_seconds = None, rp_outcome = ''running'',
      rp_exit_code = None, rp_reboot_required = None, rp_incomplete = False, rp_report_path = None\<rparr>"

definition rollback_command ::
  "('w, 'r) command_host_scheme \<Rightarrow> preflight_evidence \<Rightarrow> cli_args \<Rightarrow> desired_state \<Rightarrow> report option
   \<Rightarrow> unresolved_operation list \<Rightarrow> ('w, cli_exception + int) cli_action" where
  "rollback_command H evidence args d operation pending = do {
     loaded \<leftarrow> load_snapshot H (ca_snapshot args) False;
     (case loaded of
        Inl (Refused e) \<Rightarrow> give (Inr 2)
      | Inl (SystemError e) \<Rightarrow> give (Inl (SnapshotRaised e))
      | Inr s \<Rightarrow>
          if \<not> recovers s pending then give (Inr 2)
          else do {
            now \<leftarrow> on_world (cr_now H);
            fresh_id \<leftarrow> on_world (ch_fresh_id H);
            tells (\<lambda>st. st\<lparr>cs_report := inherit_operation operation (rollback_report now fresh_id d s),
              cs_guard := None\<rparr>);
            (if ru_apply H then applied_rollback H evidence args s pending
             else announced_rollback H args s pending)
          })
   }"

end
