(* ===== verification/RollbackCommandProps.thy ===== *)
theory RollbackCommandProps
  imports RollbackCommand CompensationProps
begin

text \<open>
  What the \<open>rollback\<close> command guarantees: no change without a proven boundary, no success without a
  restored host, and which of its final checks the report keeps.
\<close>

section \<open>Rules\<close>

lemma yields_asks: "(\<And>st. yields (f (g st)) Q) \<Longrightarrow> yields (State_Monad.bind (asks g) f) Q"
  by (simp add: yields_def)

lemma yields_flag:
  assumes "\<And>st t. run_state m st = (True, t) \<Longrightarrow> P" and "\<And>b. (b \<Longrightarrow> P) \<Longrightarrow> yields (f b) Q"
  shows "yields (State_Monad.bind m f) Q"
  unfolding yields_def
proof (intro allI impI)
  fix s a t
  assume run: "run_state (State_Monad.bind m f) s = (Inr a, t)"
  obtain b u where m: "run_state m s = (b, u)" by (cases "run_state m s")
  have "yields (f b) Q" using assms(1) [of s u] m by (intro assms(2)) simp
  then show "Q a t" using run m by (simp add: yields_def)
qed

lemma yields_and_pass:
  assumes "yields m (\<lambda>r _. case r of None \<Rightarrow> True | Some x \<Rightarrow> P x)" and "\<And>x. P x \<Longrightarrow> yields (f x) Q" and "\<And>t. Q None t"
  shows "yields (and_pass m f) Q"
  unfolding and_pass_def
  by (rule yields_then [OF assms(1)]) (auto split: option.split intro: assms(2) yields_give assms(3))

section \<open>The boundary of a rollback\<close>

definition rollback_boundary_holds :: "('w, 'r) cli_host_scheme \<Rightarrow> rollback_snapshot \<Rightarrow> host_audit \<Rightarrow> bool" where
  "rollback_boundary_holds H s a \<longleftrightarrow>
     audit_of H a \<and> all_quarantined a \<and> ha_package_inventory_complete a \<and> ha_gpu_uuids a = rs_gpu_uuids s"

lemma checkpoint_quarantined:
  "yields (pre_gpu_mutation_checkpoint H allow_active)
     (\<lambda>(ok, a, _) _. ok \<longrightarrow> all_quarantined a \<and> audit_of H a)"
  unfolding pre_gpu_mutation_checkpoint_def Let_def
  by (intro yields_bind yields_after_audit yields_and_then yields_then [OF defer_quarantined] yields_cases(5)
      yields_give) auto

lemma stopped_None: "yields (stopped H args) (\<lambda>r _. r = None)"
  unfolding stopped_def by (intro yields_intros) simp

lemma boundary_flag:
  assumes "run_state (if idle then fresh_gpu_boundary_is_safe H s a ''rollback-pre-apply'' else give False) st = (True, t)"
  shows "idle \<and> ha_package_inventory_complete a \<and> ha_gpu_uuids a = rs_gpu_uuids s"
  using assms safe_boundary [of H s a "''rollback-pre-apply''"] by (cases idle) auto

lemma boundary_gate:
  "yields (rollback_boundary H evidence args s m)
     (\<lambda>r _. case r of None \<Rightarrow> True | Some a \<Rightarrow> rollback_boundary_holds H s a)"
proof -
  have stops: "yields (stopped H args) (\<lambda>r _. case r of None \<Rightarrow> True | Some a \<Rightarrow> rollback_boundary_holds H s a)"
    by (rule yields_weaken [OF stopped_None]) simp
  have refused: "run_state (and_then (give (Inr False)) f) = run_state (f False)"
    for f :: "bool \<Rightarrow> ('w, cli_exception + host_audit option) cli_action"
    by (simp add: and_then_def fun_eq_iff)
  have authority: "yields (and_then (if safe then fresh_authority H evidence args s a else give (Inr False)) (\<lambda>ok.
      if ok then give (Inr (Some a)) else m2)) (\<lambda>r _. case r of None \<Rightarrow> True | Some a \<Rightarrow> rollback_boundary_holds H s a)"
    if "yields m2 (\<lambda>r _. case r of None \<Rightarrow> True | Some a \<Rightarrow> rollback_boundary_holds H s a)"
      and "safe \<Longrightarrow> rollback_boundary_holds H s a" for safe a m2
  proof (cases safe)
    case True
    with that show ?thesis by (auto intro!: yields_intros)
  next
    case False
    then show ?thesis using that(1) by (simp add: yields_def refused)
  qed
  show ?thesis
    unfolding rollback_boundary_def
    by (intro yields_cases(5) yields_then [OF checkpoint_quarantined] yields_flag [OF boundary_flag] authority
        yields_bind stops)
      (auto simp: rollback_boundary_holds_def)
qed

lemma gates_hold_boundary:
  "yields (rollback_gates H evidence args s)
     (\<lambda>r _. case r of None \<Rightarrow> True | Some (a, _) \<Rightarrow> rollback_boundary_holds H s a)"
proof -
  have refused: "yields (refuse_gate H args f) (\<lambda>r _. case r of None \<Rightarrow> True | Some (a, _) \<Rightarrow> rollback_boundary_holds H s a)" for f
    unfolding refuse_gate_def by (intro yields_bind yields_weaken [OF stopped_None]) simp
  have any: "yields m (\<lambda>r _. case r of None \<Rightarrow> True | Some x \<Rightarrow> True)" for m
    by (simp add: yields_def split: option.split)
  show ?thesis
    unfolding rollback_gates_def
    by (intro yields_and_then yields_bind yields_cases(1) refused yields_and_pass [OF any]
        yields_and_pass [OF boundary_gate] yields_give)
      auto
qed

section \<open>After the rollback\<close>

text \<open>The host is verified as restored and every launcher is where the snapshot wants it.\<close>

definition restored_and_released :: "('w, 'r) cli_host_scheme \<Rightarrow> rollback_snapshot \<Rightarrow> host_audit \<Rightarrow> bool" where
  "restored_and_released H s a \<longleftrightarrow>
     audit_of H a \<and> list_all (launcher_matches s a) transactional_launchers \<and> \<not> fabric_mismatch s a
     \<and> (\<exists>w. passes (verify_rollback H w s a True))"

text \<open>Only the MIG mode is pending until the next boot, and the launchers are masked.\<close>

definition awaits_reboot :: "('w, 'r) cli_host_scheme \<Rightarrow> rollback_snapshot \<Rightarrow> host_audit \<Rightarrow> bool" where
  "awaits_reboot H s a \<longleftrightarrow>
     audit_of H a \<and> all_quarantined a
     \<and> (\<exists>w a0. audit_of H a0
          \<and> rollback_state_can_complete_after_reboot s a0 (verify_rollback H w s a0 False))"

lemma verified_release_settles:
  assumes "audit_of H a"
  shows "yields (verified_release H args s a)
    (\<lambda>(ok, a') _. ok \<longrightarrow> restored_and_released H s a' \<or> awaits_reboot H s a')"
  unfolding verified_release_def
  by (intro yields_asks yields_bind yields_cases(1) yields_and_then yields_then [OF commit_yields_outcome]
      yields_then [OF checkpoint_quarantined, folded quiesce_launchers_for_reboot_def] yields_cases(5) yields_give)
    (use assms no_final_mismatch in
      \<open>auto simp: commit_outcome_def restored_and_released_def awaits_reboot_def\<close>)

lemma settle_rollback_outcome:
  "yields (settle_rollback H args s prior fine)
    (\<lambda>(ok, a') _. ok \<longrightarrow> fine \<and> (restored_and_released H s a' \<or> awaits_reboot H s a'))"
proof (cases fine)
  case True
  then show ?thesis
    unfolding settle_rollback_def by (auto intro!: yields_after_audit intro: yields_weaken [OF verified_release_settles])
next
  case False
  then show ?thesis
    unfolding settle_rollback_def by (auto intro!: yields_intros)
qed

text \<open>
  C3.  An applied rollback counts as a success only when every command of it succeeded and the host was then
  observed either restored, with all checks of the verification, services included, passing and every
  launcher in the exact state of the snapshot, or restored but for a MIG mode that the next boot
  brings, with every launcher inactive and masked.
\<close>

theorem successful_rollback_restored:
  assumes "run_state (settle_rollback H args s prior (commands_succeeded results)) st = (Inr (True, a), t)"
  shows "\<not> list_ex failed results \<and> (restored_and_released H s a \<or> awaits_reboot H s a)"
  using yieldsD [OF settle_rollback_outcome assms] by (simp add: commands_succeeded_def)

text \<open>
  C10.  A rollback changes nothing on a host without a proven boundary: when no audit of it shows, together,
  the four launchers inactive and masked, a complete package inventory and the GPUs of the snapshot,
  the command ends with status 2 in front of the rollback, or raises.
\<close>

theorem unbounded_rollback_refused:
  assumes "\<And>a. audit_of H a \<Longrightarrow> \<not> (all_quarantined a \<and> ha_package_inventory_complete a
      \<and> ha_gpu_uuids a = rs_gpu_uuids s)"
    and "run_state (applied_rollback H evidence args s pending) st = (Inr status, t)"
  shows "status = 2 \<and> (\<exists>u. run_state (rollback_gates H evidence args s) st = (Inr None, u))"
proof -
  have none: "gate = None" if "run_state (rollback_gates H evidence args s) st = (Inr gate, u)" for gate u
    using yieldsD [OF gates_hold_boundary that] assms(1)
    by (auto simp: rollback_boundary_holds_def split: option.split_asm prod.split_asm)
  obtain gate u where gate: "run_state (rollback_gates H evidence args s) st = (Inr gate, u)"
    and rest: "run_state (case gate of None \<Rightarrow> give (Inr 2)
     | Some (prior, maintenance, offset) \<Rightarrow>
         and_then (rollback_results H s (Some prior) maintenance) (\<lambda>results.
         and_then (settle_rollback H args s prior (commands_succeeded results)) (\<lambda>settled.
         and_then (close_rollback H offset settled) (conclude_rollback H args s pending)))) u = (Inr status, t)"
    using assms(2) unfolding applied_rollback_def ran_and_then by blast
  show ?thesis using none [OF gate] gate rest by simp
qed

section \<open>The checks the report keeps\<close>

lemma length_verified: "length (verify_rollback H w s a False) = length (host_checks H w s a) + length (mig_checks s a) + 1"
  by (simp add: verify_rollback_def)

lemma same_length:
  "length (host_checks H w s a) = length (host_checks H w' s a')" "length (mig_checks s a) = length (mig_checks s a')"
  by (simp_all add: host_checks_def mig_checks_def Let_def split: option.split)

lemma flag_check_name: "v \<in> set (flag_check name x y) \<Longrightarrow> vf_name v = ''rollback.'' @ name"
  by (auto simp: flag_check_def check_def split: option.split_asm)

lemma file_state_check_name: "v \<in> set (file_state_check name x y) \<Longrightarrow> vf_name v = ''rollback.'' @ name"
  by (auto simp: file_state_check_def check_def split: option.split_asm)

lemma unit_check_name:
  assumes "v \<in> set (unit_checks name x y)"
  shows "vf_name v \<in> {''rollback.'' @ name @ ''-active'', ''rollback.'' @ name @ ''-enabled'',
    ''rollback.'' @ name @ ''-unit-file-state''}"
  using assms by (auto simp: unit_checks_def dest: flag_check_name file_state_check_name)

lemma unit_of_docker:
  "unit_of (snapshot_units s) docker_service_unit = \<lparr>us_active = rs_docker_service_active s,
     us_enabled = rs_docker_service_enabled s, us_file_state = rs_docker_service_unit_file_state s\<rparr>"
  "unit_of (audit_units a) docker_service_unit = \<lparr>us_active = ha_docker_service_active a,
     us_enabled = ha_docker_service_enabled a, us_file_state = ha_docker_service_unit_file_state a\<rparr>"
  by (simp_all add: unit_of_def snapshot_units_def audit_units_def docker_service_unit_def docker_socket_unit_def)


end
