(* ===== verification/RecoveryClosing.thy ===== *)
theory RecoveryClosing
  imports RollbackCommand RecoveryTheorems
begin

text \<open>
  The record that a verified rollback appends to the journal of an interrupted operation is one the
  journal accepts, and it ends the operation.
\<close>

section \<open>When a journal has ended\<close>

abbreviation recoveries :: "event list \<Rightarrow> event list" where
  "recoveries \<equiv> filter (event_is ''operation-recovered'')"

definition terminal_inv :: "event list \<Rightarrow> stream_state \<Rightarrow> bool" where
  "terminal_inv events st \<longleftrightarrow>
     (js_terminal st \<longrightarrow> recoveries events \<noteq> []
       \<or> (completions events \<noteq> [] \<and> jget_or_null ''incomplete'' (last (completions events)) = JBool False
          \<and> persistence_failures events = []))
     \<and> (persistence_failures events \<noteq> [] \<longrightarrow> js_sealed st)"

lemma terminal_step_inv:
  assumes "event_step st ev st'" and "terminal_inv xs st"
    and "js_terminal st \<longrightarrow> event_is ''report-persistence-failed'' ev"
    and "js_sealed st \<longrightarrow> event_is ''operation-recovered'' ev \<or> event_is ''report-persistence-failed'' ev"
  shows "terminal_inv (xs @ [ev]) st'"
  using assms
  by (induction rule: event_step.induct)
    (auto simp: terminal_inv_def handler_Inr event_is_unique simp del: not_None_eq split: if_splits)

interpretation terminals: checked_run validate_event terminal_inv
proof
  fix xs st ev st'
  assume inv: "terminal_inv xs st" and step: "validate_event st ev = Inr st'"
  from step show "terminal_inv (xs @ [ev]) st'"
  proof (rule validate_event_step)
    fix i st1
    assume run: "event_step (st\<lparr>js_operation_id := Some i\<rparr>) ev st1"
      and guards: "js_terminal st \<longrightarrow> js_terminal_allows_failure st \<and> event_is ''report-persistence-failed'' ev"
      "js_sealed st \<longrightarrow> event_is ''operation-recovered'' ev \<or> event_is ''report-persistence-failed'' ev"
      and st': "st' = st1\<lparr>js_index := Suc (js_index st1)\<rparr>"
    have "terminal_inv xs (st\<lparr>js_operation_id := Some i\<rparr>)" using inv by (simp add: terminal_inv_def)
    then have "terminal_inv (xs @ [ev]) st1" by (rule terminal_step_inv [OF run]) (use guards in auto)
    then show ?thesis unfolding st' by (simp add: terminal_inv_def)
  qed
qed

lemma open_journal_not_terminal:
  assumes "fold_e validate_event initial_stream events = Inr st"
    and "summarize_journal path op_id events = Inr pj" and "\<not> journal_has_terminal_resolution pj"
  shows "\<not> js_terminal st"
proof
  assume "js_terminal st"
  moreover have "terminal_inv [] initial_stream" by (simp add: terminal_inv_def initial_stream_def)
  then have "terminal_inv ([] @ events) st" using assms(1) by (rule terminals.run_inv)
  then have "terminal_inv events st" by simp
  ultimately have "recoveries events \<noteq> []
      \<or> (completions events \<noteq> [] \<and> jget_or_null ''incomplete'' (last (completions events)) = JBool False
         \<and> persistence_failures events = [])"
    by (simp add: terminal_inv_def)
  then show False
    using assms(2,3)
    by (auto simp: summarize_journal_def journal_has_terminal_resolution_def Let_def last_opt_def list_ex_iff
        filter_empty_conv split: if_splits)
qed

section \<open>The record\<close>

definition recovery_record :: "string \<Rightarrow> string \<Rightarrow> string \<Rightarrow> rollback_snapshot \<Rightarrow> event" where
  "recovery_record operation_id now recovery_id s =
     journal_event operation_id now ''operation-recovered'' (recovered_event recovery_id s)"

lemma recovery_record_fields:
  "jget_or_null ''event'' (recovery_record op now i s) = JStr ''operation-recovered''"
  "jget_or_null ''operation_id'' (recovery_record op now i s) = JStr op"
  "jget_or_null ''timestamp'' (recovery_record op now i s) = JStr now"
  "jget_or_null ''recovery_operation_id'' (recovery_record op now i s) = JStr i"
  "jget_or_null ''snapshot_path'' (recovery_record op now i s) = json_text (rs_path s)"
  "jget_or_null ''snapshot_integrity_sha256'' (recovery_record op now i s) = json_text (rs_integrity_sha256 s)"
  "jget_or_null ''snapshot_operation_id'' (recovery_record op now i s) = JStr (rs_operation_id s)"
  "jget_or_null ''snapshot_host_id'' (recovery_record op now i s) = JStr (rs_host_id s)"
  by (simp_all add: recovery_record_def journal_event_def recovered_event_def jget_or_null_def)

lemma recovery_record_header:
  assumes "is_operation_id op" "now \<noteq> []"
  shows "event_header (recovery_record op now i s) = Inr (''operation-recovered'', op)"
proof -
  have "set (keys (recovery_record op now i s))
      = {''event'', ''operation_id'', ''timestamp''} \<union> set (event_details ''operation-recovered'')"
    by (auto simp: recovery_record_def journal_event_def recovered_event_def event_details_def binding_fields_def
        keys_def)
  then show ?thesis
    using assms
    by (simp add: event_header_def recovery_record_fields known_events_def validate_event_fields_def)
qed

lemma bound_record:
  assumes "recovers s [op]" "rs_path s = uo_snapshot_path op"
    and "uo_snapshot_path op = Some p" "uo_snapshot_integrity_sha256 op = Some i"
    "uo_snapshot_operation_id op = Some oid" "uo_snapshot_host_id op = Some h"
    and "startswith p ''/''" "is_sha256 i" "is_operation_id oid" "is_host_id h"
  shows "snapshot_event_binding (recovery_record op_id now recovery_id s) = Inr (p, i, oid, h)"
    "event_binding (recovery_record op_id now recovery_id s) = (p, i, oid, h)"
proof -
  have s: "rs_integrity_sha256 s = Some i" "rs_operation_id s = oid" "rs_host_id s = h" "rs_path s = Some p"
    using assms by (auto simp: recovers_def recovery_binding_def)
  then show "snapshot_event_binding (recovery_record op_id now recovery_id s) = Inr (p, i, oid, h)"
    "event_binding (recovery_record op_id now recovery_id s) = (p, i, oid, h)"
    using assms
    by (simp_all add: snapshot_event_binding_def event_binding_def event_text_def recovery_record_fields
        json_text_def json_opt_def)
qed

lemma operation_of_journal:
  assumes "validate_event_stream events = Inr op_id" "fold_e validate_event initial_stream events = Inr st"
    and "summarize_journal path op_id events = Inr pj" "pj_operation pj = Some op"
  shows "js_host_mutation st" "uo_operation_id op = op_id"
    "\<exists>p i oid h. uo_snapshot_path op = Some p \<and> uo_snapshot_integrity_sha256 op = Some i
       \<and> uo_snapshot_operation_id op = Some oid \<and> uo_snapshot_host_id op = Some h
       \<and> startswith p ''/'' \<and> is_sha256 i \<and> is_operation_id oid \<and> is_host_id h
       \<and> js_binding st = Some (p, i, oid, h)"
proof -
  have inv: "binding_inv events st" using binding.run_inv [OF initial_invs(1) assms(2)] by simp
  from assms(3,4) have host: "host_mutation_possible events"
    by (auto simp: summarize_journal_def Let_def split: if_splits)
  note mutated = host_mutation_mutated [OF assms(1) host]
  then show "js_host_mutation st" using inv by (simp add: binding_inv_def)
  show "uo_operation_id op = op_id"
    using assms(3,4) by (auto simp: summarize_journal_def Let_def split: if_splits)
  from inv mutated obtain e where one: "snapshots events = [e]"
    and ok: "snapshot_event_binding e = Inr (event_binding e)" and bound: "js_binding st = Some (event_binding e)"
    by (cases "snapshots events") (auto simp: binding_inv_def)
  obtain p i oid h where b: "event_binding e = (p, i, oid, h)" by (cases "event_binding e")
  have wf: "startswith p ''/'' \<and> is_sha256 i \<and> is_operation_id oid \<and> is_host_id h"
    using ok unfolding b by (auto simp: snapshot_event_binding_def split: json.splits if_splits)
  show "\<exists>p i oid h. uo_snapshot_path op = Some p \<and> uo_snapshot_integrity_sha256 op = Some i
       \<and> uo_snapshot_operation_id op = Some oid \<and> uo_snapshot_host_id op = Some h
       \<and> startswith p ''/'' \<and> is_sha256 i \<and> is_operation_id oid \<and> is_host_id h
       \<and> js_binding st = Some (p, i, oid, h)"
    using assms(3,4) host wf bound unfolding summarize_journal_def Let_def one by (auto simp: b)
qed

text \<open>
  C5.  An interrupted operation can always be closed: whatever its journal holds, when recovery reports it
  unresolved, the record that a rollback to its snapshot appends is a valid next event, also after a
  command that never finished or a completion that was sealed as incomplete, and with it the journal
  is resolved, so that no later scan reports the operation again.
\<close>

theorem recovery_record_closes:
  assumes "validate_event_stream events = Inr op_id" "summarize_journal path op_id events = Inr pj"
    and "pj_operation pj = Some op" "\<not> journal_has_terminal_resolution pj"
    and "recovers s [op]" "rs_path s = uo_snapshot_path op"
    and "is_operation_id recovery_id" "recovery_id \<noteq> op_id" "now \<noteq> []"
  shows "validate_event_stream (events @ [recovery_record (uo_operation_id op) now recovery_id s]) = Inr op_id
    \<and> (\<exists>pj'. summarize_journal path op_id (events @ [recovery_record (uo_operation_id op) now recovery_id s]) = Inr pj'
         \<and> pj_recovery_operation_id pj' = Some recovery_id \<and> journal_has_terminal_resolution pj')"
proof -
  define r where "r = recovery_record op_id now recovery_id s"
  from assms(1) obtain st where run: "fold_e validate_event initial_stream events = Inr st"
    and id: "js_operation_id st = Some op_id" and counted: "count_inv events st"
    and started: "events \<noteq> []" "event_is ''operation-started'' (hd events)"
    by (rule validate_event_stream_Inr)
  note op = operation_of_journal [OF assms(1) run assms(2,3)]
  have open_journal: "\<not> js_terminal st" by (rule open_journal_not_terminal [OF run assms(2,4)])
  have "hd events \<in> set events" using started(1) by simp
  then have "is_operation_id op_id" using counted id by (auto simp: count_inv_def)
  then have header: "event_header r = Inr (''operation-recovered'', op_id)"
    unfolding r_def using assms(9) by (rule recovery_record_header)
  obtain p i oid h where uo: "uo_snapshot_path op = Some p" "uo_snapshot_integrity_sha256 op = Some i"
      "uo_snapshot_operation_id op = Some oid" "uo_snapshot_host_id op = Some h"
      "startswith p ''/''" "is_sha256 i" "is_operation_id oid" "is_host_id h"
    and bound: "js_binding st = Some (p, i, oid, h)"
    using op(3) by blast
  note closing = bound_record [OF assms(5,6) uo, of op_id now recovery_id, folded r_def]
  have "on_recovered (st\<lparr>js_operation_id := Some op_id\<rparr>) r
      = Inr (st\<lparr>js_operation_id := Some op_id, js_terminal := True, js_terminal_allows_failure := False\<rparr>)"
    unfolding on_recovered_Inr using closing op(1) bound assms(7,8)
    by (simp add: r_def recovery_record_fields)
  then have "\<exists>st'. validate_event st r = Inr st' \<and> js_operation_id st' = Some op_id"
    by (simp add: validate_event_def header id open_journal dispatch_event_def)
  then obtain st' where "fold_e validate_event initial_stream (events @ [r]) = Inr st'"
      "js_operation_id st' = Some op_id"
    by (auto simp: terminals.run_append run)
  then have valid: "validate_event_stream (events @ [r]) = Inr op_id"
    using started by (auto simp: validate_event_stream_def event_is_def neq_Nil_conv)
  then obtain pj' where pj': "summarize_journal path op_id (events @ [r]) = Inr pj'"
    using no_conflicting_bindings [of "events @ [r]"] by blast
  have "event_is ''operation-recovered'' r" by (simp add: event_is_def r_def recovery_record_fields)
  then have "pj_recovery_operation_id pj' = Some recovery_id"
    using pj' by (auto simp: summarize_journal_def Let_def event_text_def r_def recovery_record_fields split: if_splits)
  then show ?thesis
    unfolding op(2) r_def [symmetric] using valid pj' by (auto simp: journal_has_terminal_resolution_def)
qed

end
