(* ===== verification/RollbackCommandSample.thy ===== *)
theory RollbackCommandSample
  imports RollbackCommandProps RecoveryClosing LauncherSample
begin

text \<open>The theorems about the \<open>rollback\<close> command on concrete hosts and journals.\<close>

section \<open>Hosts\<close>

definition command_host :: "host_audit \<Rightarrow> nat command_host" where
  "command_host a = cli_host.extend ((observed_host a)\<lparr>fh_read := (\<lambda>_ _. FileMissing)\<rparr>)
     (command_host.fields (\<lambda>_ _ w. (Inr (), w)) (\<lambda>_ _ w. (Inr (), w)) (\<lambda>_ _. Some ''0'') ''1.0''
       (\<lambda>w. (replicate 32 CHR ''a'', w)))"

definition command_args :: cli_args where
  "command_args = \<lparr>ca_allow_disruption = True, ca_allow_active_workloads = False,
     ca_snapshot = ''/var/lib/nvidia-converge/op.json'', ca_out = None\<rparr>"

lemma command_host_fields [simp]:
  "ch_audit (command_host a) = (\<lambda>s. (Inr a, s))" "cr_now (command_host a) = (\<lambda>w. ([], w))"
  "sn_machine_id (command_host a) = (\<lambda>w. (Inl ''no such file'', w))"
  by (simp_all add: command_host_def observed_host_def sample_host_def probe_host.defs cli_host.defs create_host.defs
      rollback_host.defs command_host.defs)

lemma command_host_audit [simp]: "run_state (audited (command_host a)) s = (Inr a, s)"
  by (cases s) (simp add: audited_def session.defs)

section \<open>Success\<close>

lemma masked_verified: "passes (verify_rollback (command_host masked_audit) w masked_snapshot masked_audit services)"
proof (cases services)
  case True
  then show ?thesis by (simp only: True) code_simp
next
  case False
  then show ?thesis by (simp only: False) code_simp
qed

lemma masked_settles:
  "\<exists>t. run_state (settle_rollback (command_host masked_audit) command_args masked_snapshot prior
     (commands_succeeded [])) s = (Inr (True, masked_audit), t)"
proof -
  have commit: "\<exists>t. run_state (commit_rollback_service_activity (command_host masked_audit) allow masked_snapshot
      masked_audit op) s = (Inr (True, masked_audit), t)" for allow op s
    by (rule masked_commit_holds) simp
  obtain t1 where reported: "run_state (report_checks (verify_rollback (command_host masked_audit) (se_world s)
      masked_snapshot masked_audit False)) s = ((), t1)" by (cases "run_state (report_checks (verify_rollback
      (command_host masked_audit) (se_world s) masked_snapshot masked_audit False)) s") simp
  obtain t2 where committed: "run_state (commit_rollback_service_activity (command_host masked_audit) False
      masked_snapshot masked_audit ''rollback'') t1 = (Inr (True, masked_audit), t2)" using commit by blast
  show ?thesis
    unfolding settle_rollback_def verified_release_def
    by (simp add: and_then_def commands_succeeded_def masked_verified reported append_launcher_release_authorization_def
        command_args_def committed split: prod.split)
qed

theorem successful_rollback_restored_witness:
  "restored_and_released (command_host masked_audit) masked_snapshot masked_audit
   \<or> awaits_reboot (command_host masked_audit) masked_snapshot masked_audit"
proof -
  obtain t where "run_state (settle_rollback (command_host masked_audit) command_args masked_snapshot masked_audit
      (commands_succeeded [])) launcher_session = (Inr (True, masked_audit), t)"
    using masked_settles by blast
  from successful_rollback_restored [OF this] show ?thesis by blast
qed

section \<open>Refusal\<close>

definition partial_audit :: host_audit where
  "partial_audit = masked_audit\<lparr>ha_package_inventory_complete := False\<rparr>"

lemma partial_only: "audit_of (command_host partial_audit) a \<longleftrightarrow> a = partial_audit"
  by (auto simp: audit_of_def)

lemma partial_stopped:
  "\<exists>t. run_state (stopped (command_host partial_audit) command_args) s = (Inr None, t)"
  by (simp add: stopped_def emit_report_def and_then_def command_args_def host_identity_def update_report_def)

definition partial_rollback :: "(cli_exception + int) \<times> nat cli_session" where
  "partial_rollback = run_state (applied_rollback (command_host partial_audit) (\<lambda>_ _. []) command_args
     masked_snapshot []) launcher_session"

lemma partial_rollback_run: "\<exists>t. partial_rollback = (Inr 2, t)"
proof -
  have "\<exists>t. run_state (rollback_gates (command_host partial_audit) (\<lambda>_ _. []) command_args masked_snapshot)
      launcher_session = (Inr None, t)"
    using partial_stopped
    by (simp add: rollback_gates_def and_then_def refuse_gate_def update_report_def report_finding_def partial_audit_def)
  then show ?thesis unfolding partial_rollback_def applied_rollback_def by (auto simp: and_then_def)
qed

theorem unbounded_rollback_refused_witness:
  "fst partial_rollback = Inr 2
   \<and> (\<exists>u. run_state (rollback_gates (command_host partial_audit) (\<lambda>_ _. []) command_args masked_snapshot)
        launcher_session = (Inr None, u))"
proof -
  obtain t where run: "partial_rollback = (Inr 2, t)" using partial_rollback_run by blast
  have "\<not> (all_quarantined a \<and> ha_package_inventory_complete a \<and> ha_gpu_uuids a = rs_gpu_uuids masked_snapshot)"
    if "audit_of (command_host partial_audit) a" for a
    using that unfolding partial_only by (simp add: partial_audit_def)
  from unbounded_rollback_refused [OF this run [unfolded partial_rollback_def]] show ?thesis by (simp add: run)
qed

section \<open>The report\<close>


section \<open>Recovery\<close>

definition interrupted_events :: "event list" where
  "interrupted_events = [ev_started, ev_snapshot, ev_command]"

definition interrupted_operation :: unresolved_operation where
  "interrupted_operation = (case summarize_journal ''j'' sample_id interrupted_events of Inr pj \<Rightarrow> the (pj_operation pj))"

definition recovery_snapshot :: rollback_snapshot where
  "recovery_snapshot = sample_snapshot\<lparr>rs_path := Some ''/var/lib/nvidia-converge/snapshot.json'',
     rs_integrity_sha256 := Some (replicate 64 CHR ''0''), rs_operation_id := sample_id,
     rs_host_id := ''machine-id-sha256:'' @ replicate 64 CHR ''1''\<rparr>"

definition recovery_id :: string where "recovery_id = replicate 32 CHR ''b''"

definition closed_events :: "event list" where
  "closed_events = interrupted_events
     @ [recovery_record (uo_operation_id interrupted_operation) ''2026-01-03T00:00:00+00:00'' recovery_id
          recovery_snapshot]"

theorem recovery_record_closes_witness:
  "validate_event_stream closed_events = Inr sample_id
   \<and> (\<exists>pj. summarize_journal ''j'' sample_id closed_events = Inr pj
        \<and> pj_recovery_operation_id pj = Some recovery_id \<and> journal_has_terminal_resolution pj)"
proof -
  have valid: "validate_event_stream interrupted_events = Inr sample_id" unfolding interrupted_events_def by code_simp
  have "length (remdups (map event_binding (snapshots interrupted_events))) = 1"
    "host_mutation_possible interrupted_events" "recoveries interrupted_events = []"
    "completions interrupted_events = []" "persistence_failures interrupted_events = []"
    unfolding interrupted_events_def by code_simp+
  then obtain pj where pj: "summarize_journal ''j'' sample_id interrupted_events = Inr pj"
    and op: "pj_operation pj = Some interrupted_operation" and open_journal: "\<not> journal_has_terminal_resolution pj"
    by (simp add: interrupted_operation_def summarize_journal_def Let_def journal_has_terminal_resolution_def last_opt_def)
  have same: "recovers recovery_snapshot [interrupted_operation]"
    "rs_path recovery_snapshot = uo_snapshot_path interrupted_operation"
    by code_simp+
  have ids: "is_operation_id recovery_id" "recovery_id \<noteq> sample_id" by code_simp+
  from recovery_record_closes [OF valid pj op open_journal same ids, of "''2026-01-03T00:00:00+00:00''"]
  show ?thesis unfolding closed_events_def by simp
qed

end
