(* ===== verification/KernelHeaders.thy ===== *)
theory KernelHeaders
  imports UnitTrust
begin

text \<open>
  Whether the running kernel has a trusted, prepared header tree (\<open>nvidia_converge/kernel_headers.py\<close>).
  Paths are absolute and given by their names below the root.  \<open>file_tree\<close> is the file system as the
  checks observe it: \<open>lstat\<close>, \<open>resolve(strict=True)\<close>, \<open>is_dir\<close>, and the metadata and bytes of a file
  that is opened without following a link; nothing is an \<open>OSError\<close> or a loop of links.  The trusted
  owner is root, as in every call.
\<close>

section \<open>The file system\<close>

type_synonym location = "string list"

datatype header_kind = RegularFile | DirectoryFile | LinkFile | OtherFile

record header_file =
  hf_kind :: header_kind
  hf_uid :: int
  hf_mode :: int

record file_tree =
  ft_lstat :: "location \<Rightarrow> header_file option"
  ft_resolve :: "location \<Rightarrow> location option"
  ft_is_dir :: "location \<Rightarrow> bool"
  ft_open :: "location \<Rightarrow> (header_file \<times> string) option"
  ft_decode :: "string \<Rightarrow> string option"

definition location_text :: "location \<Rightarrow> string" where
  "location_text p = CHR ''/'' # join ''/'' p"

definition max_header_marker_bytes :: int where "max_header_marker_bytes = 16384"

definition modules_root :: location where "modules_root = [''lib'', ''modules'']"
definition source_root :: location where "source_root = [''usr'', ''src'']"

text \<open>\<open>[A-Za-z0-9][A-Za-z0-9._+-]{0,254}\<close>\<close>

definition safe_kernel_release :: "string \<Rightarrow> bool" where
  "safe_kernel_release s =
     (case s of
        [] \<Rightarrow> False
      | c # cs \<Rightarrow> is_alnum c \<and> length cs \<le> 254
          \<and> list_all (\<lambda>x. is_alnum x \<or> x \<in> {CHR ''.'', CHR 0x5F, CHR ''+'', CHR ''-''}) cs)"

section \<open>Owners and modes\<close>

text \<open>\<open>mode & (S_IWGRP | S_IWOTH)\<close>: bits 4 and 1\<close>

definition writable_by_group_or_other :: "int \<Rightarrow> bool" where
  "writable_by_group_or_other mode \<longleftrightarrow> mode div 16 mod 2 = 1 \<or> mode div 2 mod 2 = 1"

definition root_only :: "header_file \<Rightarrow> bool" where
  "root_only m \<longleftrightarrow> hf_uid m = 0 \<and> \<not> writable_by_group_or_other (hf_mode m)"

definition trusted_link_or_directory :: "header_file \<Rightarrow> bool" where
  "trusted_link_or_directory m \<longleftrightarrow>
     hf_uid m = 0
     \<and> (hf_kind m = LinkFile \<or> (hf_kind m = DirectoryFile \<and> \<not> writable_by_group_or_other (hf_mode m)))"

definition trusted_directory :: "file_tree \<Rightarrow> location \<Rightarrow> bool" where
  "trusted_directory T p =
     (case ft_lstat T p of None \<Rightarrow> False | Some m \<Rightarrow> hf_kind m = DirectoryFile \<and> root_only m)"

text \<open>\<open>relative_to\<close> succeeds\<close>

definition below :: "location \<Rightarrow> location \<Rightarrow> bool" where
  "below root p \<longleftrightarrow> take (length root) p = root"

fun trusted_below :: "file_tree \<Rightarrow> location \<Rightarrow> location \<Rightarrow> bool" where
  "trusted_below T current [] = True"
| "trusted_below T current (c # cs) =
     (trusted_directory T (current @ [c]) \<and> trusted_below T (current @ [c]) cs)"

definition trusted_directory_chain :: "file_tree \<Rightarrow> location \<Rightarrow> location \<Rightarrow> bool" where
  "trusted_directory_chain T root p \<longleftrightarrow>
     below root p \<and> trusted_directory T root \<and> trusted_below T root (drop (length root) p)"

text \<open>The first of the longest roots the path is below\<close>

definition containing_root :: "location \<Rightarrow> location list \<Rightarrow> location option" where
  "containing_root p roots =
     (case filter (\<lambda>r. below r p) roots of
        [] \<Rightarrow> None
      | r # rs \<Rightarrow> Some (foldl (\<lambda>best x. if length best < length x then x else best) r rs))"

definition trusted_step :: "bool \<Rightarrow> header_file \<Rightarrow> bool" where
  "trusted_step final m \<longleftrightarrow>
     (if hf_kind m = LinkFile then hf_uid m = 0
      else if final then hf_kind m = RegularFile \<and> root_only m
      else hf_kind m = DirectoryFile \<and> root_only m)"

fun lexical_below :: "file_tree \<Rightarrow> location \<Rightarrow> location \<Rightarrow> bool" where
  "lexical_below T current [] = True"
| "lexical_below T current (c # cs) =
     (case ft_lstat T (current @ [c]) of
        None \<Rightarrow> False
      | Some m \<Rightarrow> trusted_step (cs = []) m \<and> lexical_below T (current @ [c]) cs)"

definition trusted_lexical_chain :: "file_tree \<Rightarrow> location \<Rightarrow> location \<Rightarrow> bool" where
  "trusted_lexical_chain T root p \<longleftrightarrow> below root p \<and> lexical_below T root (drop (length root) p)"

definition trusted_regular_file :: "file_tree \<Rightarrow> location list \<Rightarrow> location \<Rightarrow> location option" where
  "trusted_regular_file T roots p =
     (case containing_root p roots of
        None \<Rightarrow> None
      | Some lexical_root \<Rightarrow>
          if \<not> trusted_lexical_chain T lexical_root p then None
          else (case ft_resolve T p of
              None \<Rightarrow> None
            | Some canonical \<Rightarrow>
               (case containing_root canonical roots of
                  None \<Rightarrow> None
                | Some root \<Rightarrow>
                    if \<not> trusted_directory_chain T root (butlast canonical) then None
                    else (case ft_lstat T canonical of
                        None \<Rightarrow> None
                      | Some m \<Rightarrow> if hf_kind m = RegularFile \<and> root_only m then Some canonical else None))))"

section \<open>The release marker\<close>

definition read_small_regular_file :: "file_tree \<Rightarrow> location \<Rightarrow> string option" where
  "read_small_regular_file T p =
     (case ft_open T p of
        None \<Rightarrow> None
      | Some (m, content) \<Rightarrow>
          if hf_kind m \<noteq> RegularFile \<or> \<not> root_only m then None
          else if max_header_marker_bytes < int (length content) then None
          else ft_decode T content)"

text \<open>\<open>^\s*#\s*define\s+UTS_RELEASE\s+"([^"\\\r\n]+)"\s*$\<close>: the group\<close>

definition after_word :: "string \<Rightarrow> string \<Rightarrow> string option" where
  "after_word word s = (if startswith s word then Some (drop (length word) s) else None)"

definition after_space :: "string \<Rightarrow> string option" where
  "after_space s = (case s of c # _ \<Rightarrow> if py_isspace c then Some (lstrip s) else None | [] \<Rightarrow> None)"

definition release_char :: "char \<Rightarrow> bool" where
  "release_char c \<longleftrightarrow> c \<notin> {CHR 0x22, CHR 0x5C, CHR 0x0D, CHR 0x0A}"

definition quoted_release :: "string \<Rightarrow> string option" where
  "quoted_release s =
     (case s of
        [] \<Rightarrow> None
      | q # t \<Rightarrow>
         (let release = takeWhile release_char t
          in case dropWhile release_char t of
               [] \<Rightarrow> None
             | e # rest \<Rightarrow> if q = CHR 0x22 \<and> release \<noteq> [] \<and> e = CHR 0x22 \<and> list_all py_isspace rest
                 then Some release else None))"

definition uts_release :: "string \<Rightarrow> string option" where
  "uts_release content =
     Option.bind (after_word ''#'' (lstrip content)) (\<lambda>s.
     Option.bind (after_word ''define'' (lstrip s)) (\<lambda>s.
     Option.bind (after_space s) (\<lambda>s.
     Option.bind (after_word ''UTS_RELEASE'' s) (\<lambda>s.
     Option.bind (after_space s) quoted_release))))"

definition marker_names_release :: "bool \<Rightarrow> string \<Rightarrow> string \<Rightarrow> bool" where
  "marker_names_release plain release content \<longleftrightarrow>
     (if plain then strip content = release else uts_release content = Some release)"

definition marker_candidates :: "(location \<times> bool) list" where
  "marker_candidates =
     [([''include'', ''config'', ''kernel.release''], True),
      ([''include'', ''generated'', ''utsrelease.h''], False),
      ([''include'', ''linux'', ''utsrelease.h''], False)]"

fun first_marker ::
  "file_tree \<Rightarrow> location \<Rightarrow> string \<Rightarrow> location list \<Rightarrow> (location \<times> bool) list \<Rightarrow> location option" where
  "first_marker T build release roots [] = None"
| "first_marker T build release roots ((candidate, plain) # rest) =
     (case trusted_regular_file T roots (build @ candidate) of
        None \<Rightarrow> first_marker T build release roots rest
      | Some canonical \<Rightarrow>
         (case read_small_regular_file T canonical of
            None \<Rightarrow> first_marker T build release roots rest
          | Some content \<Rightarrow>
              if marker_names_release plain release content then Some canonical
              else first_marker T build release roots rest))"

definition kernel_release_marker ::
  "file_tree \<Rightarrow> location \<Rightarrow> string \<Rightarrow> location list \<Rightarrow> location option" where
  "kernel_release_marker T build release roots = first_marker T build release roots marker_candidates"

section \<open>The tree\<close>

definition canonical_directory_or_none :: "file_tree \<Rightarrow> location \<Rightarrow> location option" where
  "canonical_directory_or_none T p =
     (case ft_resolve T p of None \<Rightarrow> None | Some c \<Rightarrow> if ft_is_dir T c then Some c else None)"

definition path_mentions_release :: "location \<Rightarrow> string \<Rightarrow> bool" where
  "path_mentions_release p release \<longleftrightarrow>
     list_ex (\<lambda>c. contains release c) p
     \<or> (case rpartition_at CHR ''-'' release of
          (base, separator, flavor) \<Rightarrow>
            separator \<and> base \<noteq> [] \<and> flavor \<noteq> [] \<and> list_ex (\<lambda>c. contains base c) p \<and> flavor \<in> set p)"

text \<open>The module directory of the release: its canonical path\<close>

definition inspect_release_directory :: "file_tree \<Rightarrow> string \<Rightarrow> string + location" where
  "inspect_release_directory T release =
     (case ft_resolve T modules_root of
        None \<Rightarrow> Inl ''The kernel module root is missing or cannot be canonicalized.''
      | Some modules \<Rightarrow>
          if \<not> trusted_directory T modules then Inl ''The kernel module root is not a trusted directory.''
          else (case (ft_lstat T (modules_root @ [release]), ft_resolve T (modules_root @ [release])) of
              (Some m, Some canonical) \<Rightarrow>
                if hf_kind m = LinkFile then Inl ''The running kernel module directory must not be a symlink.''
                else if butlast canonical \<noteq> modules
                  then Inl ''The running kernel module directory escaped its trusted root.''
                else if \<not> trusted_directory T canonical
                  then Inl ''The running kernel module directory is not trusted.''
                else Inr canonical
            | _ \<Rightarrow> Inl ''The running kernel module directory is missing or unsafe.''))"

definition inspect_build_entry :: "file_tree \<Rightarrow> string \<Rightarrow> string + location" where
  "inspect_build_entry T release =
     (let entry = modules_root @ [release, ''build'']
      in case (ft_lstat T entry, ft_resolve T entry) of
           (Some m, Some build) \<Rightarrow>
             if \<not> trusted_link_or_directory m then Inl ''The running kernel build entry is not trusted.''
             else if \<not> ft_is_dir T build
               then Inl ''The running kernel build entry does not resolve to a directory.''
             else Inr build
         | _ \<Rightarrow> Inl ''The running kernel build entry is missing or dangling.'')"

definition header_roots :: "file_tree \<Rightarrow> location \<Rightarrow> location list" where
  "header_roots T directory =
     directory # (case canonical_directory_or_none T source_root of Some s \<Rightarrow> [s] | None \<Rightarrow> [])"

definition inspect_build_tree :: "file_tree \<Rightarrow> string \<Rightarrow> location list \<Rightarrow> location \<Rightarrow> string + location" where
  "inspect_build_tree T release roots build =
     (case containing_root build roots of
        None \<Rightarrow> Inl ''The running kernel build tree resolves outside trusted kernel source roots.''
      | Some root \<Rightarrow>
          if Some root = canonical_directory_or_none T source_root \<and> \<not> path_mentions_release build release
            then Inl ''The running kernel build tree is unrelated to the running kernel release.''
          else if \<not> trusted_directory_chain T root build
            then Inl ''The running kernel build tree has unsafe ownership or mode.''
          else if trusted_regular_file T roots (build @ [''Makefile'']) = None
            then Inl ''The kernel header tree has no trusted top-level Makefile.''
          else (case kernel_release_marker T build release roots of
              None \<Rightarrow> Inl ''The kernel header tree does not contain a trusted marker for the running release.''
            | Some marker \<Rightarrow>
                if trusted_regular_file T roots (build @ [''include'', ''generated'', ''autoconf.h'']) = None
                   \<and> trusted_regular_file T roots (build @ [''include'', ''config'', ''auto.conf'']) = None
                then Inl ''The kernel header tree is not prepared for an external module build.''
                else Inr marker))"

text \<open>The canonical build directory and the marker, or why the headers are not ready.\<close>

definition inspect_headers :: "file_tree \<Rightarrow> string \<Rightarrow> string + location \<times> location" where
  "inspect_headers T release =
     (if \<not> safe_kernel_release release then Inl ''Running kernel release is not a safe path component.''
      else bind_r (inspect_release_directory T release) (\<lambda>directory.
        bind_r (inspect_build_entry T release) (\<lambda>build.
        bind_r (inspect_build_tree T release (header_roots T directory) build) (\<lambda>marker.
          Inr (build, marker)))))"

section \<open>The package that owns the marker\<close>

text \<open>\<open>str.partition\<close> with a word\<close>

fun partition_word :: "string \<Rightarrow> string \<Rightarrow> string \<times> bool \<times> string" where
  "partition_word word [] = ([], False, [])"
| "partition_word word (c # cs) =
     (if startswith (c # cs) word then ([], True, drop (length word) (c # cs))
      else case partition_word word cs of (a, found, b) \<Rightarrow> (c # a, found, b))"

definition dpkg_owner_line :: "string \<Rightarrow> location \<Rightarrow> string \<Rightarrow> bool" where
  "dpkg_owner_line release marker line =
     (case partition_word '': '' line of
        (field, separator, owned) \<Rightarrow>
          separator \<and> owned = location_text marker \<and> head_before CHR '':'' field = ''linux-headers-'' @ release)"

definition dpkg_header_owner ::
  "('w, 'r) runner_scheme \<Rightarrow> string \<Rightarrow> location \<Rightarrow> ('w, 'z, string option) action" where
  "dpkg_header_owner R release marker = do {
     available \<leftarrow> exists_executable R ''dpkg-query'';
     (if \<not> available then give None
      else do {
        r \<leftarrow> run_known R False ''dpkg-query'' [''-S'', location_text marker];
        (let lines = splitlines (cr_stdout r)
         in give (if cr_returncode r = Some 0 \<and> list_all (dpkg_owner_line release marker) lines \<and> lines \<noteq> []
             then Some (''linux-headers-'' @ release) else None))
      })
   }"

definition flavor_char :: "char \<Rightarrow> bool" where
  "flavor_char c \<longleftrightarrow> is_alnum c \<or> c \<in> {CHR 0x5F, CHR ''+'', CHR ''.'', CHR ''-''}"

text \<open>\<open>kernel-([A-Za-z0-9_+.-]+)-devel\<close>: the group\<close>

definition devel_flavor :: "string \<Rightarrow> string option" where
  "devel_flavor name =
     (let body = drop (length ''kernel-'') name; flavor = take (length body - length ''-devel'') body
      in if startswith name ''kernel-'' \<and> endswith body ''-devel'' \<and> flavor \<noteq> [] \<and> list_all flavor_char flavor
         then Some flavor else None)"

definition rpm_devel_package :: "string \<Rightarrow> bool" where
  "rpm_devel_package name \<longleftrightarrow> name = ''kernel-devel'' \<or> devel_flavor name \<noteq> None"

definition rpm_owner_matches :: "string \<Rightarrow> string \<Rightarrow> string \<Rightarrow> string \<Rightarrow> bool" where
  "rpm_owner_matches release name version_release architecture \<longleftrightarrow>
     rpm_devel_package name
     \<and> (release = version_release @ ''.'' @ architecture
        \<or> (case devel_flavor name of
             None \<Rightarrow> False
           | Some flavor \<Rightarrow>
              (case rpartition_at CHR ''-'' release of
                 (kernel_version, separator, running_flavor) \<Rightarrow>
                   separator \<and> running_flavor = flavor
                   \<and> (version_release = kernel_version \<or> startswith version_release (kernel_version @ ''.'')))))"

definition rpm_header_owner ::
  "('w, 'r) runner_scheme \<Rightarrow> string \<Rightarrow> location \<Rightarrow> ('w, 'z, string option) action" where
  "rpm_header_owner R release marker = do {
     available \<leftarrow> exists_executable R ''rpm'';
     (if \<not> available then give None
      else do {
        r \<leftarrow> run_known R False ''rpm''
          [''-qf'', ''--qf'', ''%{NAME}'' @ [CHR 0x5C] @ ''t%{VERSION}-%{RELEASE}'' @ [CHR 0x5C] @ ''t%{ARCH}''
             @ [CHR 0x5C] @ ''n'', location_text marker];
        give (case map (split_on CHR 0x09) (filter (\<lambda>l. l \<noteq> []) (splitlines (cr_stdout r))) of
            [[name, version_release, architecture]] \<Rightarrow>
              if cr_returncode r = Some 0 \<and> rpm_owner_matches release name version_release architecture
              then Some name else None
          | _ \<Rightarrow> None)
      })
   }"

definition header_package_owner ::
  "('w, 'r) runner_scheme \<Rightarrow> string option \<Rightarrow> string \<Rightarrow> location \<Rightarrow> ('w, 'z, string option) action" where
  "header_package_owner R manager release marker =
     (if manager = Some ''apt-get'' then dpkg_header_owner R release marker
      else if manager \<in> {Some ''dnf'', Some ''yum'', Some ''zypper''} then rpm_header_owner R release marker
      else give None)"

section \<open>The verdict\<close>

record header_readiness =
  hr_ready :: bool
  hr_detail :: string
  hr_build_path :: "string option"
  hr_binding_marker :: "string option"
  hr_package_owner :: "string option"

definition not_ready :: "string \<Rightarrow> header_readiness" where
  "not_ready detail = \<lparr>hr_ready = False, hr_detail = detail, hr_build_path = None, hr_binding_marker = None,
     hr_package_owner = None\<rparr>"

definition headers_unowned :: string where
  "headers_unowned =
     ''The running-release header marker is not owned by the matching kernel header package.''"

definition assess_running_kernel_headers ::
  "('w, 'r) runner_scheme \<Rightarrow> ('w \<Rightarrow> file_tree) \<Rightarrow> string \<Rightarrow> string option \<Rightarrow> ('w, 'z, header_readiness) action" where
  "assess_running_kernel_headers R tree release manager = do {
     inspected \<leftarrow> asks (\<lambda>s. inspect_headers (tree (se_world s)) release);
     (case inspected of
        Inl detail \<Rightarrow> give (not_ready detail)
      | Inr (build, marker) \<Rightarrow> do {
          owner \<leftarrow> header_package_owner R manager release marker;
          give (if manager \<in> {Some ''apt-get'', Some ''dnf'', Some ''yum'', Some ''zypper''} \<and> owner = None
            then not_ready headers_unowned
            else \<lparr>hr_ready = True,
              hr_detail = ''Running kernel headers are trusted, release-matched, and prepared.'',
              hr_build_path = Some (location_text build), hr_binding_marker = Some (location_text marker),
              hr_package_owner = owner\<rparr>)
        })
   }"

end
