(* ===== verification/VerifyStack.thy ===== *)
theory VerifyStack
  imports KernelHeaders RollbackCommand
begin

text \<open>
  Loading the driver and verifying the stack (\<open>nvidia_converge/verify.py\<close>): the modules are loaded or
  reloaded in dependency order, and the checks of the host, its services and its containers are made.
\<close>

section \<open>The host\<close>

text \<open>
  \<open>vh_files\<close> is the file system the header checks see and \<open>vh_release\<close> the running kernel;
  \<open>vh_probe_source\<close> is \<open>read_bounded_utf8\<close> of the packaged probe source, or its error, \<open>vh_probe_sha256\<close>
  the digest it must have, and \<open>vh_probe_script\<close> the script that builds and runs it in the container.
\<close>

record 'w verify_host = "'w command_host" +
  vh_files :: "'w \<Rightarrow> file_tree"
  vh_release :: "'w \<Rightarrow> string"
  vh_probe_source :: "'w \<Rightarrow> string + string"
  vh_probe_sha256 :: string
  vh_probe_script :: string

text \<open>\<open>_check\<close>, and a check with the command it rests on\<close>

definition judged :: "string \<Rightarrow> bool \<Rightarrow> string \<Rightarrow> verification" where
  "judged name ok detail = \<lparr>vf_name = name, vf_ok = ok, vf_command = None, vf_detail = Some detail\<rparr>"

definition judged_by :: "string \<Rightarrow> bool \<Rightarrow> command_result option \<Rightarrow> string \<Rightarrow> verification" where
  "judged_by name ok r detail = \<lparr>vf_name = name, vf_ok = ok, vf_command = r, vf_detail = Some detail\<rparr>"

text \<open>\<open>runner.run([\<dots>]) if runner.exists(\<dots>) else None\<close>\<close>

definition run_if_found ::
  "('w, 'r) runner_scheme \<Rightarrow> string \<Rightarrow> string list \<Rightarrow> ('w, 'z, command_result option) action" where
  "run_if_found R program args = do {
     available \<leftarrow> exists_executable R program;
     (if available then do { r \<leftarrow> run_known R False program args; give (Some r) } else give None)
   }"

definition zero_exit :: "command_result option \<Rightarrow> bool" where
  "zero_exit r \<longleftrightarrow> (case r of None \<Rightarrow> False | Some x \<Rightarrow> cr_returncode x = Some 0)"

section \<open>Loading the modules\<close>

definition run_modprobe :: "('w, 'r) runner_scheme \<Rightarrow> string list \<Rightarrow> ('w, 'z, command_result) action" where
  "run_modprobe R args = do {
     available \<leftarrow> exists_executable R ''modprobe'';
     (if available then run_known R True ''modprobe'' args
      else give (command_result_of (''modprobe'' # args) (Some 127) ''trusted modprobe executable not found''))
   }"

fun load_modules ::
  "('w, 'r) runner_scheme \<Rightarrow> string list \<Rightarrow> command_result option \<Rightarrow> ('w, 'z, command_result option) action" where
  "load_modules R [] prior = give prior"
| "load_modules R (m # ms) prior = do {
     r \<leftarrow> run_modprobe R [m];
     (if failed r then give (Some r) else load_modules R ms (Some r))
   }"

definition reload_unsafe :: "string \<Rightarrow> verification" where
  "reload_unsafe e = judged_by ''module.reload'' False
     (Some (command_result_of [''modprobe'', ''-r'', ''nvidia-stack''] (Some 1) e))
     ''Refuses to unload the NVIDIA stack unless every loaded module holder is recognized.''"

definition unload_failed :: "command_result \<Rightarrow> verification" where
  "unload_failed r = judged_by ''module.reload'' False (Some r)
     ''Unload every recognized NVIDIA dependent before loading the selected on-disk module.''"

definition load_verdict :: "bool \<Rightarrow> command_result option \<Rightarrow> verification" where
  "load_verdict reload r = judged_by (if reload then ''module.reload'' else ''module.load'') (zero_exit r) r
     (if reload then ''Unloads recognized NVIDIA dependents, then restores every previously loaded module in ''
        @ ''dependency order when --apply is used.''
      else ''Loads nvidia module when --apply is used; dry-run records the command without marking it verified.'')"

definition reload_stack :: "('w, 'r) rollback_host_scheme \<Rightarrow> ('w, 'z, verification) action" where
  "reload_stack H = do {
     walked \<leftarrow> asks (\<lambda>s. unload_order H (se_world s));
     (case walked of
        Inl e \<Rightarrow> give (reload_unsafe (module_error_text e))
      | Inr [] \<Rightarrow> do { r \<leftarrow> load_modules H [''nvidia''] None; give (load_verdict True r) }
      | Inr order \<Rightarrow> do {
          unload \<leftarrow> run_modprobe H (''-r'' # order);
          (if failed unload then give (unload_failed unload)
           else do { r \<leftarrow> load_modules H (rev order) None; give (load_verdict True r) })
        })
   }"

definition prepare_stack ::
  "('w, 'r) rollback_host_scheme \<Rightarrow> host_audit option \<Rightarrow> bool \<Rightarrow> ('w, 'z, verification) action" where
  "prepare_stack H audit force_reload =
     (if (case audit of Some a \<Rightarrow> mi_loaded (ha_module a) | None \<Rightarrow> False) \<and> \<not> force_reload
      then give (judged ''module.load'' True ''NVIDIA module is already loaded.'')
      else if force_reload then reload_stack H
      else do { r \<leftarrow> load_modules H [''nvidia''] None; give (load_verdict False r) })"

section \<open>Checks of the audit\<close>

definition audited_module :: "host_audit option \<Rightarrow> (module_info \<Rightarrow> bool) \<Rightarrow> bool" where
  "audited_module audit P \<longleftrightarrow> (case audit of None \<Rightarrow> False | Some a \<Rightarrow> P (ha_module a))"

definition module_version_checks :: "desired_state \<Rightarrow> host_audit option \<Rightarrow> verification list" where
  "module_version_checks d audit =
     [judged ''module.loaded-version''
        (audited_module audit (\<lambda>m. mi_loaded m \<and> matches_driver_version d (mi_version m)))
        (''Loaded NVIDIA module version must be observable and match desired '' @ driver_match_label d @ ''.''),
      judged ''module.on-disk-version'' (audited_module audit (\<lambda>m. matches_driver_version d (mi_installed_version m)))
        (''modinfo-selected NVIDIA module version must be observable and match desired '' @ driver_match_label d @ ''.''),
      judged ''module.provenance'' (audited_module audit (\<lambda>m.
          truthy (mi_version m) \<and> truthy (mi_installed_version m) \<and> mi_version m = mi_installed_version m))
        ''Loaded /sys NVIDIA module and modinfo-selected on-disk module versions must match exactly.'']"

definition secure_boot_checks :: "desired_state \<Rightarrow> host_audit \<Rightarrow> verification list" where
  "secure_boot_checks d a =
     [judged ''secure-boot.observable'' (ki_secure_boot_enabled (ha_kernel a) \<noteq> None)
        ''Secure Boot firmware state must be observable.'']
     @ (if ds_secure_boot d = ''disabled''
        then [judged ''secure-boot.policy'' (ki_secure_boot_enabled (ha_kernel a) \<noteq> Some True)
          ''Secure Boot must be disabled by desired policy.''] else [])
     @ (if ds_secure_boot d = ''signed''
        then [judged ''secure-boot.module-signed'' (mi_signed (ha_module a) = Some True)
            ''Loaded NVIDIA module must have a kernel-verified signature by desired policy.'',
          judged ''secure-boot.on-disk-module-signed'' (mi_installed_signed (ha_module a) = Some True)
            ''modinfo-selected NVIDIA module must carry a signature by desired policy.''] else [])"

definition mig_mode_checks :: "desired_state \<Rightarrow> host_audit \<Rightarrow> verification list" where
  "mig_mode_checks d a =
     [judged ''mig.mode'' (ha_mig_mode a = Some (ds_mig d))
        (''MIG mode must be observable and match desired state '' @ ds_mig d @ ''.''),
      judged ''mig.pending-observable'' (ha_mig_mode_pending a \<noteq> None)
        ''Pending MIG mode must be observable for every GPU.'',
      judged ''mig.no-pending-transition'' (ha_mig_mode a \<noteq> None \<and> ha_mig_mode_pending a = ha_mig_mode a)
        ''Current and pending MIG modes must match; otherwise a reboot boundary remains.'']"

definition mig_enabled_checks :: "host_audit \<Rightarrow> verification list" where
  "mig_enabled_checks a =
     [judged ''mig.capable'' (ha_mig_capable a = Some True)
        ''Every GPU must explicitly report MIG capability before host-wide enablement.'',
      judged ''mig.geometry-observable'' (ha_mig_geometry_complete a)
        ''GPU-instance, compute-instance, and MIG-device geometry must be completely observable.'',
      judged ''mig.geometry''
        (ha_mig_geometry_complete a \<and> full_mig_geometry_matches (ha_mig_geometry a) (ha_gpu_uuids a))
        ''MIG must expose one full-profile GI containing one full-size CI.'',
      judged ''mig.device-uuid'' (ha_mig_geometry_complete a \<and> length (ha_mig_device_uuids a) = 1)
        ''Exactly one container-addressable MIG compute-device UUID must be observed.'']"

definition mig_disabled_checks :: "host_audit \<Rightarrow> verification list" where
  "mig_disabled_checks a =
     [judged ''mig.geometry-observable'' (ha_mig_geometry_complete a)
        ''Disabled MIG state must have a complete empty geometry observation.'',
      judged ''mig.geometry''
        (ha_mig_geometry_complete a \<and> ha_mig_geometry a = [] \<and> ha_mig_device_uuids a = [])
        ''Disabled MIG mode must expose no GPU or compute instances.'']"

definition flavor_checks :: "desired_state \<Rightarrow> host_audit \<Rightarrow> verification list" where
  "flavor_checks d a =
     (let m = ha_module a
      in (if open_kernel_module d
          then [judged ''gpu.open-module-supported'' (ha_open_kernel_module_supported a = Some True)
              (''Every GPU must be Turing (compute capability 7.5) or newer '' @ ''for the open kernel module.''),
            judged ''module.open-variant'' (mi_open_module m = Some True)
              ''Loaded NVIDIA module must be the open kernel module variant.'',
            judged ''module.on-disk-open-variant'' (mi_installed_open_module m = Some True)
              ''modinfo-selected NVIDIA module must be the open kernel module variant.'']
          else [judged ''module.closed-variant'' (mi_open_module m = Some False)
              ''Loaded NVIDIA module must be the closed kernel module variant.'',
            judged ''module.on-disk-closed-variant'' (mi_installed_open_module m = Some False)
              ''modinfo-selected NVIDIA module must be the closed kernel module variant.''])
         @ [judged ''module.flavor-provenance''
              (mi_open_module m \<noteq> None \<and> mi_installed_open_module m \<noteq> None
               \<and> mi_open_module m = mi_installed_open_module m)
              ''Loaded and modinfo-selected NVIDIA module flavors must match.''])"

definition audit_checks :: "desired_state \<Rightarrow> host_audit option \<Rightarrow> verification list" where
  "audit_checks d audit =
     module_version_checks d audit
     @ (case audit of
          None \<Rightarrow> []
        | Some a \<Rightarrow> secure_boot_checks d a @ mig_mode_checks d a
            @ (if ds_mig d = ''enabled'' then mig_enabled_checks a else mig_disabled_checks a)
            @ flavor_checks d a)"

section \<open>Checks of the driver\<close>

text \<open>\<open>re.search(r"Driver Version:\s*([0-9]+(?:\.[0-9]+)+)", output, re.IGNORECASE)\<close>: the group\<close>

function dotted_digits :: "string \<Rightarrow> string" where
  "dotted_digits (c # d # s) =
     (if c = CHR ''.'' \<and> is_digit d
      then c # takeWhile is_digit (d # s) @ dotted_digits (dropWhile is_digit s)
      else [])"
| "dotted_digits [] = []"
| "dotted_digits [c] = []"
  by pat_completeness auto
termination
  by (relation "measure length") (simp_all add: length_dropWhile_le less_Suc_eq_le le_SucI)

definition dotted_version :: "string \<Rightarrow> string option" where
  "dotted_version s =
     (let major = takeWhile is_digit s; minor = dotted_digits (dropWhile is_digit s)
      in if major \<noteq> [] \<and> minor \<noteq> [] then Some (major @ minor) else None)"

definition version_here :: "string \<Rightarrow> string option" where
  "version_here s =
     (let lead = ''driver version:''
      in if startswith (lower s) lead then dotted_version (lstrip (drop (length lead) s)) else None)"

fun find_version :: "string \<Rightarrow> string option" where
  "find_version [] = None"
| "find_version (c # s) = (case version_here (c # s) of Some v \<Rightarrow> Some v | None \<Rightarrow> find_version s)"

definition nvidia_smi_matches_driver :: "desired_state \<Rightarrow> string \<Rightarrow> bool" where
  "nvidia_smi_matches_driver d output = matches_driver_version d (find_version output)"

definition header_check ::
  "('w, 'r) verify_host_scheme \<Rightarrow> host_audit option \<Rightarrow> ('w, 'z, verification list) action" where
  "header_check H audit = do {
     release \<leftarrow> asks (\<lambda>s. vh_release H (se_world s));
     readiness \<leftarrow> assess_running_kernel_headers H (vh_files H) release (Option.bind audit ha_package_manager);
     give [judged ''kernel.headers'' (hr_ready readiness) (hr_detail readiness)]
   }"

definition dkms_check :: "('w, 'r) runner_scheme \<Rightarrow> ('w, 'z, verification list) action" where
  "dkms_check R = do {
     r \<leftarrow> run_if_found R ''dkms'' [''status'', ''-m'', ''nvidia''];
     give (case r of
         None \<Rightarrow> []
       | Some x \<Rightarrow> [judged_by ''module.dkms-build''
           (cr_returncode x = Some 0 \<and> contains ''installed'' (lower (cr_stdout x))) (Some x)
           ''DKMS reports an installed NVIDIA module build for the running kernel.''])
   }"

definition modprobe_check :: "('w, 'r) runner_scheme \<Rightarrow> ('w, 'z, verification list) action" where
  "modprobe_check R = do {
     r \<leftarrow> run_if_found R ''modprobe'' [''-n'', ''-v'', ''nvidia''];
     give [judged_by ''module.compile-or-loadable'' (zero_exit r) r ''modprobe dry-run can resolve nvidia module.'']
   }"

definition smi_check :: "('w, 'r) runner_scheme \<Rightarrow> desired_state \<Rightarrow> ('w, 'z, verification list) action" where
  "smi_check R d = do {
     r \<leftarrow> run_if_found R ''nvidia-smi'' [];
     give [judged_by ''nvidia-smi''
       (case r of None \<Rightarrow> False
        | Some x \<Rightarrow> cr_returncode x = Some 0 \<and> nvidia_smi_matches_driver d (cr_stdout x)) r
       (''nvidia-smi must run and show driver '' @ driver_match_label d @ ''.'')]
   }"

definition nvml_program :: string where
  "nvml_program = ''import ctypes; ctypes.CDLL('' @ [CHR 0x27] @ ''libnvidia-ml.so.1'' @ [CHR 0x27]
     @ ''); print('' @ [CHR 0x27] @ ''NVML load ok'' @ [CHR 0x27] @ '')''"

definition nvml_check :: "('w, 'r) runner_scheme \<Rightarrow> ('w, 'z, verification list) action" where
  "nvml_check R = do {
     r \<leftarrow> run_known R False ''python3'' [''-I'', ''-S'', ''-c'', nvml_program];
     give [judged_by ''nvml'' (cr_returncode r = Some 0) (Some r) ''NVML shared library loads.'']
   }"

definition cuda_compat_check :: "desired_state \<Rightarrow> verification" where
  "cuda_compat_check d =
     (if ds_cuda_compat d = ''none''
      then judged ''cuda-compat.policy'' True
        (''No host CUDA forward-compatibility deployment is requested; ''
         @ ''the container probe rejects compatibility-library paths.'')
      else judged ''cuda-compat.deployment-policy'' False
        (''Non-none CUDA forward-compatibility is unsupported because a ''
         @ ''reversible loader-path deployment is not modeled.''))"

definition active_service_trust_check ::
  "('w, 'r) unit_host_scheme \<Rightarrow> string \<Rightarrow> string \<Rightarrow> bool \<Rightarrow> ('w, 'z, verification) action" where
  "active_service_trust_check H u name observed_active = do {
     (results, identity, error) \<leftarrow>
       (if observed_active then validate_active_trusted_gpu_service_identity H u None
        else give ([], None, Some ''service activity must be observed before trust validation''));
     give (judged_by name (error = None \<and> identity \<noteq> None)
       (if results = [] then None else Some (last results))
       (''The active service must bind to trusted effective systemd unit inputs, ''
        @ ''its exact executable, and its system.slice process identity.''))
   }"

end
