(* ===== verification/VerifyContainers.thy ===== *)
theory VerifyContainers
  imports Desired VerifyStack
begin

text \<open>
  The container side of the verification (\<open>nvidia_converge/verify.py\<close>): one container per audited device runs
  the packaged probe, and each is proven absent afterwards; then the checks of Fabric Manager, and
  \<open>verify_stack\<close> as a whole.  An exception that is thrown into a running command from outside (a
  signal) is not modelled.
\<close>

section \<open>Devices and images\<close>

definition selector_char :: "char \<Rightarrow> bool" where
  "selector_char c \<longleftrightarrow> is_hex (lower_char c) \<or> c = CHR ''-''"

definition selector_uuid :: "string \<Rightarrow> string \<Rightarrow> bool" where
  "selector_uuid lead s \<longleftrightarrow>
     startswith s lead \<and> 16 \<le> length (drop (length lead) s) \<and> list_all selector_char (drop (length lead) s)"

text \<open>The devices that get a container each: the one MIG device, or every GPU\<close>

definition container_device_selectors :: "desired_state \<Rightarrow> host_audit option \<Rightarrow> string list option" where
  "container_device_selectors d audit =
     (case audit of
        None \<Rightarrow> None
      | Some a \<Rightarrow>
          if \<not> ha_mig_geometry_complete a then None
          else if ds_mig d = ''enabled'' then
            (case ha_mig_device_uuids a of
               [u] \<Rightarrow> if full_mig_geometry_matches (ha_mig_geometry a) (ha_gpu_uuids a) \<and> selector_uuid ''MIG-'' u
                 then Some [u] else None
             | _ \<Rightarrow> None)
          else if ha_mig_mode a = Some ''disabled'' \<and> ha_mig_mode_pending a = Some ''disabled''
            \<and> ha_mig_geometry a = [] \<and> ha_mig_device_uuids a = [] \<and> ha_gpu_uuids a \<noteq> []
            \<and> distinct (ha_gpu_uuids a) \<and> list_all (selector_uuid ''GPU-'') (ha_gpu_uuids a)
          then Some (ha_gpu_uuids a)
          else None)"

definition docker_image_id :: "string \<Rightarrow> bool" where
  "docker_image_id s \<longleftrightarrow> startswith s ''sha256:'' \<and> hex_of_length 64 (drop (length ''sha256:'') s)"

definition digest_pinned_cuda_image :: "string \<Rightarrow> bool" where
  "digest_pinned_cuda_image s \<longleftrightarrow>
     startswith s ''nvidia/cuda:''
     \<and> (case partition_at CHR ''@'' (drop (length ''nvidia/cuda:'') s) of
          (tag, found, digest) \<Rightarrow> found \<and> is_image_tag tag \<and> docker_image_id digest)"

definition image_arguments :: "string \<Rightarrow> string list" where
  "image_arguments img = [''image'', ''inspect'', ''--format'', ''{{.Id}}'', img]"

text \<open>The result is changed in place, so that the runner's own list holds the changed one.\<close>

definition inspect_local_digest_image ::
  "('w, 'r) runner_scheme \<Rightarrow> string \<Rightarrow> ('w, 'z, command_result) action" where
  "inspect_local_digest_image R img =
     (if \<not> digest_pinned_cuda_image img then
        give ((command_result_of (''docker'' # image_arguments img) (Some 2)
          ''CUDA verification image is not bound to an exact sha256 digest'')
          \<lparr>cr_reason := Some ''container-image-not-digest-pinned''\<rparr>)
      else do {
        r \<leftarrow> run_known R False ''docker'' (image_arguments img);
        (if cr_returncode r = Some 0 \<and> \<not> docker_image_id (strip (cr_stdout r)) then do {
           let r' = r\<lparr>cr_reason := Some ''container-image-inspection-malformed''\<rparr>;
           tells (\<lambda>s. s\<lparr>se_results := butlast (se_results s) @ [r']\<rparr>);
           give r'
         }
         else give r)
      })"

section \<open>The probe\<close>

definition container_probe_arguments ::
  "('w, 'r) verify_host_scheme \<Rightarrow> string \<Rightarrow> string \<Rightarrow> string \<Rightarrow> string \<Rightarrow> string list" where
  "container_probe_arguments H name device img expected_cuda =
     [''run'', ''--pull=never'', ''--rm'', ''--name'', name,
      ''--label'', ''io.nvidia-converge.verification=true'',
      ''--label'', ''io.nvidia-converge.cuda-probe-sha256='' @ vh_probe_sha256 H,
      ''--network=none'', ''--read-only'', ''--cap-drop=ALL'', ''--security-opt=no-new-privileges'',
      ''--pids-limit=128'', ''--memory=1g'', ''--cpus=1'',
      ''--tmpfs=/tmp:rw,exec,nosuid,nodev,size=64m,mode=1777'', ''--user=65534:65534'',
      ''--gpus'', ''device='' @ device,
      ''--env'', ''NVIDIA_DRIVER_CAPABILITIES=compute'',
      ''--env'', ''NVIDIA_CONVERGE_PROBE_SHA256='' @ vh_probe_sha256 H,
      ''--env'', ''NVIDIA_CONVERGE_EXPECTED_CUDA_VERSION='' @ expected_cuda,
      ''--interactive'', ''--entrypoint=/bin/bash'', img, ''-ceu'', vh_probe_script H]"

definition absence_arguments :: "string \<Rightarrow> string list" where
  "absence_arguments name =
     [''ps'', ''--all'', ''--quiet'', ''--no-trunc'', ''--filter'', ''name=^/'' @ name @ ''$'']"

definition probe_container_absence :: "('w, 'r) runner_scheme \<Rightarrow> string \<Rightarrow> ('w, 'z, command_result) action" where
  "probe_container_absence R name = run_known R False ''docker'' (absence_arguments name)"

definition load_cuda_driver_probe_source :: "('w, 'r) verify_host_scheme \<Rightarrow> 'w \<Rightarrow> string + string" where
  "load_cuda_driver_probe_source H w =
     (case vh_probe_source H w of
        Inl e \<Rightarrow> Inl (''cannot read packaged CUDA Driver API probe source: '' @ e)
      | Inr source \<Rightarrow>
          if sn_sha256 H source \<noteq> vh_probe_sha256 H
          then Inl ''packaged CUDA Driver API probe source failed its SHA256 integrity check''
          else Inr source)"

text \<open>\<open>CUDA_DRIVER_API_OK driver_version=[1-9]\d* device_count=1\<close>, the whole line\<close>

definition probe_success_line :: "string \<Rightarrow> bool" where
  "probe_success_line line \<longleftrightarrow>
     (let lead = ''CUDA_DRIVER_API_OK driver_version=''; rest = drop (length lead) line;
          version = takeWhile is_digit rest
      in startswith line lead \<and> version \<noteq> [] \<and> hd version \<noteq> CHR ''0''
         \<and> dropWhile is_digit rest = '' device_count=1'')"

definition cuda_driver_probe_succeeded :: "string \<Rightarrow> bool" where
  "cuda_driver_probe_succeeded output \<longleftrightarrow> list_ex probe_success_line (splitlines output)"

record device_probe =
  dp_device :: string
  dp_result :: command_result
  dp_cleanup :: "command_result option"
  dp_absence :: command_result

definition container_name_of :: "string \<Rightarrow> string" where
  "container_name_of fresh = ''nvidia-converge-verify-'' @ fresh"

definition needs_cleanup :: "command_result \<Rightarrow> bool" where
  "needs_cleanup r \<longleftrightarrow> failed r \<or> cr_reason r \<in> Some ` set uncertain_reasons"

definition probe_device ::
  "('w, 'r) verify_host_scheme \<Rightarrow> string \<Rightarrow> string \<Rightarrow> string \<Rightarrow> string \<Rightarrow> ('w, 'z, device_probe) action" where
  "probe_device H source img expected_cuda device = do {
     fresh \<leftarrow> on_world (ch_fresh_id H);
     r \<leftarrow> run_program H (run_timeout H True) True (Some source) ''docker''
       (container_probe_arguments H (container_name_of fresh) device img expected_cuda);
     cleanup \<leftarrow> (if needs_cleanup r then do {
         x \<leftarrow> run_known H True ''docker'' [''rm'', ''--force'', container_name_of fresh];
         give (Some x)
       } else give None);
     absence \<leftarrow> probe_container_absence H (container_name_of fresh);
     give \<lparr>dp_device = device, dp_result = r, dp_cleanup = cleanup, dp_absence = absence\<rparr>
   }"

fun probe_devices ::
  "('w, 'r) verify_host_scheme \<Rightarrow> string \<Rightarrow> string \<Rightarrow> string \<Rightarrow> string list \<Rightarrow> ('w, 'z, device_probe list) action" where
  "probe_devices H source img expected_cuda [] = give []"
| "probe_devices H source img expected_cuda (device # devices) = do {
     p \<leftarrow> probe_device H source img expected_cuda device;
     ps \<leftarrow> probe_devices H source img expected_cuda devices;
     give (p # ps)
   }"

section \<open>The verdicts\<close>

definition probe_failed :: "command_result \<Rightarrow> bool" where
  "probe_failed r \<longleftrightarrow> cr_returncode r \<noteq> Some 0 \<or> \<not> cuda_driver_probe_succeeded (cr_stdout r)"

definition absence_failed :: "command_result \<Rightarrow> bool" where
  "absence_failed r \<longleftrightarrow> cr_returncode r \<noteq> Some 0 \<or> strip (cr_stdout r) \<noteq> []"

definition failing_devices :: "(command_result \<Rightarrow> bool) \<Rightarrow> (string \<times> command_result) list \<Rightarrow> string list" where
  "failing_devices bad results = map fst (filter (bad \<circ> snd) results)"

definition aggregate_command_result ::
  "(string \<times> command_result) list \<Rightarrow> string list \<Rightarrow> command_result option" where
  "aggregate_command_result results failed_devices =
     (if results = [] then None
      else if failed_devices \<noteq> [] then map_option snd (find (\<lambda>(device, _). device \<in> set failed_devices) results)
      else Some (snd (last results)))"

definition failure_suffix :: "string \<Rightarrow> string list \<Rightarrow> string" where
  "failure_suffix lead devices = (if devices = [] then [] else lead @ join '', '' devices @ ''.'')"

definition probe_results :: "device_probe list \<Rightarrow> (string \<times> command_result) list" where
  "probe_results ps = map (\<lambda>p. (dp_device p, dp_result p)) ps"

definition absence_results :: "device_probe list \<Rightarrow> (string \<times> command_result) list" where
  "absence_results ps = map (\<lambda>p. (dp_device p, dp_absence p)) ps"

definition cleanup_results :: "device_probe list \<Rightarrow> (string \<times> command_result) list" where
  "cleanup_results ps = List.map_filter (\<lambda>p. map_option (Pair (dp_device p)) (dp_cleanup p)) ps"

definition gpu_verdict ::
  "string list option \<Rightarrow> command_result option \<Rightarrow> device_probe list \<Rightarrow> verification" where
  "gpu_verdict devices synthetic ps =
     (let bad = failing_devices probe_failed (probe_results ps)
      in judged_by ''container.gpu''
           (devices \<notin> {None, Some []} \<and> length ps = length (the devices) \<and> bad = [])
           (case synthetic of Some r \<Rightarrow> Some r | None \<Rightarrow> aggregate_command_result (probe_results ps) bad)
           (''Builds the audited probe in tmpfs and requires cuInit plus ''
            @ ''cuDeviceGetCount to expose exactly one GPU inside the ''
            @ ''locally present digest-pinned CUDA container once for every ''
            @ ''audited physical GPU UUID, or once for the retained MIG UUID; ''
            @ ''dry-run records but does not execute the probe.'' @ failure_suffix '' Failed UUIDs: '' bad))"

definition cleanup_verdict :: "device_probe list \<Rightarrow> verification list" where
  "cleanup_verdict ps =
     (let results = cleanup_results ps; bad = failing_devices (\<lambda>r. cr_returncode r \<noteq> Some 0) results
      in if results = [] then []
         else [judged_by ''container.cleanup-command'' (bad = []) (aggregate_command_result results bad)
           (''Every failed or interrupted verification container must be forcibly removed.''
            @ failure_suffix '' Cleanup failed for UUIDs: '' bad)])"

definition absence_verdict :: "device_probe list \<Rightarrow> verification" where
  "absence_verdict ps =
     (let bad = failing_devices absence_failed (absence_results ps)
      in judged_by ''container.probe-absent'' (ps = [] \<or> bad = [])
           (aggregate_command_result (absence_results ps) bad)
           (''Every uniquely named verification container must be proven absent after its probe.''
            @ failure_suffix '' Absence proof failed for UUIDs: '' bad))"

section \<open>Docker\<close>

definition unknown_text :: "string option \<Rightarrow> string" where
  "unknown_text x = (if truthy x then or_empty x else ''unknown'')"

definition observed_driver_major :: "host_audit option \<Rightarrow> string option" where
  "observed_driver_major audit =
     (case audit of
        None \<Rightarrow> None
      | Some a \<Rightarrow>
         (case mi_version (ha_module a) of None \<Rightarrow> None | Some v \<Rightarrow> if v = [] then None else version_branch v))"

definition docker_active :: "host_audit option \<Rightarrow> bool" where
  "docker_active audit \<longleftrightarrow> Option.bind audit ha_docker_service_active = Some True"

definition container_compatible :: "desired_state \<Rightarrow> host_audit option \<Rightarrow> bool" where
  "container_compatible d audit \<longleftrightarrow>
     ds_cuda_compat d = ''none''
     \<and> container_cuda_minor_compatibility_status d (Some (unknown_text (observed_driver_major audit))) = Compatible"

definition docker_service_checks :: "host_audit option \<Rightarrow> verification list" where
  "docker_service_checks audit =
     [judged ''docker.service-active'' (docker_active audit)
        ''Docker service activity must be observable and active.'',
      judged ''docker.service-enabled'' (Option.bind audit ha_docker_service_enabled = Some True)
        ''Docker must be enabled persistently so GPU containers remain available after reboot.'']"

definition container_binding_checks :: "desired_state \<Rightarrow> host_audit option \<Rightarrow> verification list" where
  "container_binding_checks d audit =
     [judged ''container.cuda-driver-compatibility'' (container_compatible d audit)
        (''Observed driver branch '' @ unknown_text (observed_driver_major audit)
         @ '' must natively support CUDA '' @ unknown_text (container_cuda_version (ds_container_test_image d))
         @ ''; forward-compatibility libraries are not permitted.''),
      judged ''container.device-binding'' (container_device_selectors d audit \<noteq> None)
        (if ds_mig d = ''enabled'' then ''Container verification must bind the single retained MIG UUID.''
         else ''Container verification must bind every exact audited physical GPU UUID.'')]"

definition image_present :: "command_result option \<Rightarrow> bool" where
  "image_present r \<longleftrightarrow>
     (case r of None \<Rightarrow> False | Some x \<Rightarrow> cr_returncode x = Some 0 \<and> docker_image_id (strip (cr_stdout x)))"

text \<open>The synthetic result of a probe that could not be loaded, and the probes of the containers\<close>

definition run_probes ::
  "('w, 'r) verify_host_scheme \<Rightarrow> desired_state \<Rightarrow> string list option \<Rightarrow> bool
   \<Rightarrow> ('w, 'z, command_result option \<times> device_probe list) action" where
  "run_probes H d devices possible = do {
     loaded \<leftarrow> asks (\<lambda>s. load_cuda_driver_probe_source H (se_world s));
     let img = ds_container_test_image d;
     let cuda = unknown_text (container_cuda_full_version img);
     (case loaded of
        Inl e \<Rightarrow> do {
          fresh \<leftarrow> on_world (ch_fresh_id H);
          give (Some ((command_result_of (''docker'' # container_probe_arguments H (container_name_of fresh)
              (case devices of Some (u # _) \<Rightarrow> u | _ \<Rightarrow> ''unavailable'') img cuda) (Some 126) e)
            \<lparr>cr_reason := Some ''cuda-driver-probe-source-invalid''\<rparr>), [])
        }
      | Inr source \<Rightarrow>
         (case devices of
            Some us \<Rightarrow> if possible then do { ps \<leftarrow> probe_devices H source img cuda us; give (None, ps) }
              else give (None, [])
          | None \<Rightarrow> give (None, [])))
   }"

definition container_verdicts ::
  "desired_state \<Rightarrow> host_audit option \<Rightarrow> verification \<Rightarrow> command_result option \<Rightarrow> command_result option
   \<Rightarrow> device_probe list \<Rightarrow> verification list" where
  "container_verdicts d audit trusted inspected synthetic ps =
     docker_service_checks audit @ [trusted] @ container_binding_checks d audit
     @ [judged_by ''container.image-present'' (image_present inspected) inspected
         (''The exact digest-bound CUDA image must already be present locally; '' @ ''verification never pulls it.''),
        gpu_verdict (container_device_selectors d audit) synthetic ps]
     @ cleanup_verdict ps @ [absence_verdict ps]"

definition docker_checks ::
  "('w, 'r) verify_host_scheme \<Rightarrow> desired_state \<Rightarrow> host_audit option \<Rightarrow> ('w, 'z, verification list) action" where
  "docker_checks H d audit = do {
     trusted \<leftarrow> active_service_trust_check H docker_service_unit ''docker.service-trust'' (docker_active audit);
     found \<leftarrow> exists_executable H ''docker'';
     let devices = container_device_selectors d audit;
     let possible = found \<and> docker_active audit \<and> vf_ok trusted \<and> container_compatible d audit
       \<and> devices \<noteq> None;
     inspected \<leftarrow> (if possible then do {
         r \<leftarrow> inspect_local_digest_image H (ds_container_test_image d);
         give (Some r)
       } else give None);
     (synthetic, ps) \<leftarrow> run_probes H d devices (possible \<and> image_present inspected);
     give (container_verdicts d audit trusted inspected synthetic ps)
   }"

section \<open>Fabric Manager\<close>

definition fabric_state_checks :: "desired_state \<Rightarrow> host_audit option \<Rightarrow> verification list" where
  "fabric_state_checks d audit =
     [judged ''fabric-manager.enabled'' (Option.bind audit ha_fabric_manager_enabled = Some True)
        ''Fabric Manager must be enabled persistently at boot.'',
      judged ''fabric-manager.applicable'' (Option.bind audit ha_fabric_manager_applicable = Some True)
        ''Every GPU must expose an applicable Fabric Manager handshake.'',
      judged ''fabric-manager.fabric-health'' (Option.bind audit ha_fabric_manager_healthy = Some True)
        ''Every GPU must complete a successful Fabric Manager handshake.'',
      judged ''fabric-manager.version''
        (case audit of
           None \<Rightarrow> False
         | Some a \<Rightarrow> matches_driver_version d (ha_fabric_manager_version a) \<and> truthy (mi_version (ha_module a))
             \<and> ha_fabric_manager_version a = mi_version (ha_module a))
        ''Fabric Manager must match both the desired selector and the loaded driver version exactly.'']"

definition fabric_checks ::
  "('w, 'r) verify_host_scheme \<Rightarrow> desired_state \<Rightarrow> host_audit option \<Rightarrow> ('w, 'z, verification list) action" where
  "fabric_checks H d audit = do {
     trusted \<leftarrow> active_service_trust_check H fabric_manager_unit ''fabric-manager.service-trust''
       (Option.bind audit ha_fabric_manager_active = Some True);
     r \<leftarrow> run_if_found H ''systemctl'' [''is-active'', ''nvidia-fabricmanager''];
     give ([trusted, judged_by ''fabric-manager'' (zero_exit r) r ''Fabric Manager service is active.'']
       @ fabric_state_checks d audit)
   }"

section \<open>The whole verification\<close>

definition driver_checks ::
  "('w, 'r) verify_host_scheme \<Rightarrow> desired_state \<Rightarrow> host_audit option \<Rightarrow> ('w, 'z, verification list) action" where
  "driver_checks H d audit = do {
     headers \<leftarrow> header_check H audit;
     dkms \<leftarrow> dkms_check H;
     modprobe \<leftarrow> modprobe_check H;
     smi \<leftarrow> smi_check H d;
     nvml \<leftarrow> nvml_check H;
     give (headers @ dkms @ modprobe @ smi @ nvml @ [cuda_compat_check d])
   }"

definition verify_stack ::
  "('w, 'r) verify_host_scheme \<Rightarrow> desired_state \<Rightarrow> host_audit option \<Rightarrow> bool \<Rightarrow> bool
   \<Rightarrow> ('w, 'z, verification list) action" where
  "verify_stack H d audit include_docker include_fabric_manager = do {
     driver \<leftarrow> driver_checks H d audit;
     docker \<leftarrow> (if include_docker \<and> ds_container_runtime d = ''docker'' then docker_checks H d audit else give []);
     fabric \<leftarrow> (if include_fabric_manager \<and> ds_fabric_manager d then fabric_checks H d audit else give []);
     give (audit_checks d audit @ driver @ docker @ fabric)
   }"

end
