(* ===== verification/VerifyProps.thy ===== *)
theory VerifyProps
  imports VerifyContainers UnitChecks Doctor
begin

text \<open>
  What a verification that passes shows: the host is as the diagnosis wants it, but for what only the
  diagnosis looks at, and every device ran the probe in a container that is gone.
\<close>

section \<open>Rules\<close>

lemma ran_bind:
  "run_state (State_Monad.bind m f) s = x \<longleftrightarrow> (\<exists>a u. run_state m s = (a, u) \<and> run_state (f a) u = x)"
  by (cases "run_state m s") auto

lemma judged_ok [simp]: "vf_ok (judged name ok detail) = ok" "vf_ok (judged_by name ok r detail) = ok"
  by (simp_all add: judged_def judged_by_def)

lemma emits_tells [emits_intros]:
  "(\<And>s. se_journaled (f s) = se_journaled s \<and> se_events (f s) = se_events s) \<Longrightarrow> Q () [] \<Longrightarrow> emits (tells f) Q"
  by (simp add: emits_def)

lemma silent_tells:
  "(\<And>s. se_journaled (f s) = se_journaled s \<and> se_events (f s) = se_events s) \<Longrightarrow> silent (tells f)"
  unfolding silent_def by (intro emits_intros) simp_all

section \<open>The checks of a passed verification\<close>

lemma verify_stack_checks:
  assumes "run_state (verify_stack H d audit include_docker include_fabric) s = (checks, t)"
  shows "set (audit_checks d audit) \<subseteq> set checks"
    "include_docker \<and> ds_container_runtime d = ''docker'' \<Longrightarrow> set (docker_service_checks audit) \<subseteq> set checks"
    "include_fabric \<and> ds_fabric_manager d \<Longrightarrow> set (fabric_state_checks d audit) \<subseteq> set checks
       \<and> (list_all vf_ok checks \<longrightarrow> Option.bind audit ha_fabric_manager_active = Some True)"
proof -
  obtain driver docker fabric u v w where
    docker: "run_state (if include_docker \<and> ds_container_runtime d = ''docker'' then docker_checks H d audit
      else give []) u = (docker, v)"
    and fabric: "run_state (if include_fabric \<and> ds_fabric_manager d then fabric_checks H d audit else give []) v
      = (fabric, w)"
    and "run_state (give (audit_checks d audit @ driver @ docker @ fabric)) w = (checks, t)"
    using assms unfolding verify_stack_def ran_bind by blast
  then have checks: "checks = audit_checks d audit @ driver @ docker @ fabric" by simp
  show "set (audit_checks d audit) \<subseteq> set checks" unfolding checks by simp
  show "include_docker \<and> ds_container_runtime d = ''docker'' \<Longrightarrow> set (docker_service_checks audit) \<subseteq> set checks"
    using docker unfolding checks docker_checks_def by (auto simp: Let_def container_verdicts_def split: prod.split_asm)
  show "include_fabric \<and> ds_fabric_manager d \<Longrightarrow> set (fabric_state_checks d audit) \<subseteq> set checks
       \<and> (list_all vf_ok checks \<longrightarrow> Option.bind audit ha_fabric_manager_active = Some True)"
    using fabric unfolding checks
    by (auto simp: fabric_checks_def active_service_trust_check_def split: if_split_asm prod.split_asm)
qed

text \<open>What the diagnosis wants of a host beyond the verification\<close>

definition unverified_healthy :: "desired_state \<Rightarrow> host_audit \<Rightarrow> bool" where
  "unverified_healthy d a \<longleftrightarrow>
     ha_package_manager a \<noteq> None \<and> ha_package_inventory_complete a
     \<and> ki_headers_installed (ha_kernel a) \<and> ki_compiler (ha_kernel a) \<noteq> None
     \<and> cr_returncode (ha_nvidia_smi a) = Some 0 \<and> cr_returncode (ha_nvml a) = Some 0
     \<and> ri_docker_installed (ha_runtime a) \<and> ri_nvidia_container_runtime_installed (ha_runtime a)
     \<and> ri_docker_gpus_usable (ha_runtime a) = Some True
     \<and> (ds_fabric_manager d \<longrightarrow> fabric_manager_package_installed a)"

lemma audit_checks_pass:
  assumes "list_all vf_ok (audit_checks d (Some a))" "ds_mig d \<in> {''enabled'', ''disabled''}"
  shows "healthy_mig d a"
    "mi_loaded (ha_module a)" "matches_driver_version d (mi_version (ha_module a))"
    "mi_installed_version (ha_module a) = mi_version (ha_module a)" "mi_version (ha_module a) \<noteq> Some []"
    "mi_open_module (ha_module a) = Some (open_kernel_module d)"
    "mi_installed_open_module (ha_module a) = Some (open_kernel_module d)"
    "open_kernel_module d \<longrightarrow> ha_open_kernel_module_supported a = Some True"
    "ki_secure_boot_enabled (ha_kernel a) \<noteq> None"
    "ds_secure_boot d = ''disabled'' \<longrightarrow> ki_secure_boot_enabled (ha_kernel a) = Some False"
    "ds_secure_boot d = ''signed'' \<longrightarrow> mi_signed (ha_module a) = Some True \<and> mi_installed_signed (ha_module a) = Some True"
proof -
  have versions: "list_all vf_ok (module_version_checks d (Some a))" and boot: "list_all vf_ok (secure_boot_checks d a)"
    and mode: "list_all vf_ok (mig_mode_checks d a)"
    and geometry: "list_all vf_ok (if ds_mig d = ''enabled'' then mig_enabled_checks a else mig_disabled_checks a)"
    and flavor: "list_all vf_ok (flavor_checks d a)"
    using assms(1) by (auto simp: audit_checks_def)
  show "healthy_mig d a"
    using mode geometry assms(2)
    by (auto simp: healthy_mig_def mig_mode_checks_def mig_enabled_checks_def mig_disabled_checks_def split: if_split_asm)
  show "mi_loaded (ha_module a)" "matches_driver_version d (mi_version (ha_module a))"
    "mi_installed_version (ha_module a) = mi_version (ha_module a)" "mi_version (ha_module a) \<noteq> Some []"
    using versions by (auto simp: module_version_checks_def audited_module_def matches_driver_version_def
        split: option.split_asm if_split_asm)
  show "mi_open_module (ha_module a) = Some (open_kernel_module d)"
    "mi_installed_open_module (ha_module a) = Some (open_kernel_module d)"
    "open_kernel_module d \<longrightarrow> ha_open_kernel_module_supported a = Some True"
    using flavor by (auto simp: flavor_checks_def Let_def split: if_split_asm)
  show "ki_secure_boot_enabled (ha_kernel a) \<noteq> None"
    "ds_secure_boot d = ''disabled'' \<longrightarrow> ki_secure_boot_enabled (ha_kernel a) = Some False"
    "ds_secure_boot d = ''signed'' \<longrightarrow> mi_signed (ha_module a) = Some True \<and> mi_installed_signed (ha_module a) = Some True"
    using boot by (auto simp: secure_boot_checks_def)
qed

text \<open>
  C9.  The verification and the diagnosis agree: on a host whose full verification passes, the diagnosis of
  the audit finds nothing exactly when what it asks beyond the verification holds, that is the package
  manager and inventory, the header flag, compiler and tool results the audit itself recorded, the
  container toolkit, and the Fabric Manager package.
\<close>

theorem verification_covers_diagnosis:
  assumes "desired_contract d" and "run_state (verify_stack H d (Some a) True True) s = (checks, t)"
    and "list_all vf_ok checks"
  shows "diagnose d a = [f_stack_healthy] \<longleftrightarrow> unverified_healthy d a"
proof -
  from assms(1) have d: "ds_container_runtime d = ''docker''" "ds_mig d \<in> {''enabled'', ''disabled''}"
    by (auto simp: desired_contract_def)
  note parts = verify_stack_checks [OF assms(2)]
  have passed: "list_all vf_ok xs" if "set xs \<subseteq> set checks" for xs using that assms(3) by (auto simp: list_all_iff)
  note audit = audit_checks_pass [OF passed [OF parts(1)] d(2)]
  have docker: "ha_docker_service_active a = Some True" "ha_docker_service_enabled a = Some True"
    using passed [OF parts(2)] d(1) by (auto simp: docker_service_checks_def docker_active_def)
  have fabric: "ha_fabric_manager_applicable a = Some True \<and> ha_fabric_manager_active a = Some True
      \<and> ha_fabric_manager_enabled a = Some True \<and> ha_fabric_manager_healthy a = Some True
      \<and> ha_fabric_manager_version a = mi_version (ha_module a)" if "ds_fabric_manager d"
    using parts(3) passed [of "fabric_state_checks d (Some a)"] that assms(3) by (auto simp: fabric_state_checks_def)
  have "healthy d a \<longleftrightarrow> unverified_healthy d a"
    using audit docker fabric
    by (auto simp: healthy_def healthy_host_def healthy_driver_def healthy_docker_def healthy_fabric_def
        unverified_healthy_def)
  then show ?thesis
    using audit_findings_none [of d a] assms(1) d audit(5) by (simp add: diagnose_healthy_audit desired_contract_def)
qed

section \<open>The containers\<close>

definition run_arguments ::
  "('w, 'r) verify_host_scheme \<Rightarrow> desired_state \<Rightarrow> string \<Rightarrow> string \<Rightarrow> string list" where
  "run_arguments H d fresh u =
     container_probe_arguments H (container_name_of fresh) u (ds_container_test_image d)
       (unknown_text (container_cuda_full_version (ds_container_test_image d)))"

text \<open>The events of one device: the container, its removal if that was needed, and the proof that it is gone\<close>

definition probe_trace ::
  "('w, 'r) verify_host_scheme \<Rightarrow> desired_state \<Rightarrow> string \<Rightarrow> device_probe \<Rightarrow> runner_event list" where
  "probe_trace H d fresh p =
     [Started (''docker'' # run_arguments H d fresh (dp_device p)) True, Finished (dp_result p) True]
     @ (case dp_cleanup p of
          None \<Rightarrow> []
        | Some r \<Rightarrow> [Started [''docker'', ''rm'', ''--force'', container_name_of fresh] True, Finished r True])
     @ [Started (''docker'' # absence_arguments (container_name_of fresh)) False, Finished (dp_absence p) False]"

definition probe_results_of ::
  "('w, 'r) verify_host_scheme \<Rightarrow> desired_state \<Rightarrow> string \<Rightarrow> device_probe \<Rightarrow> bool" where
  "probe_results_of H d fresh p \<longleftrightarrow>
     cr_command (dp_result p) = ''docker'' # run_arguments H d fresh (dp_device p)
     \<and> cr_command (dp_absence p) = ''docker'' # absence_arguments (container_name_of fresh)"

fun probe_traces ::
  "('w, 'r) verify_host_scheme \<Rightarrow> desired_state \<Rightarrow> device_probe list \<Rightarrow> runner_event list \<Rightarrow> bool" where
  "probe_traces H d [] es \<longleftrightarrow> es = []"
| "probe_traces H d (p # ps) es \<longleftrightarrow>
     (\<exists>fresh rest. es = probe_trace H d fresh p @ rest \<and> probe_results_of H d fresh p \<and> probe_traces H d ps rest)"

lemma emits_probe_device:
  "emits (probe_device H source (ds_container_test_image d)
       (unknown_text (container_cuda_full_version (ds_container_test_image d))) u)
     (\<lambda>p es. dp_device p = u \<and> (\<exists>fresh. es = probe_trace H d fresh p \<and> probe_results_of H d fresh p))"
  unfolding probe_device_def probe_container_absence_def
  by (intro emits_intros)
    (auto simp: probe_trace_def probe_results_of_def run_arguments_def result_of_run_def)

lemma emits_probe_devices:
  "emits (probe_devices H source (ds_container_test_image d)
       (unknown_text (container_cuda_full_version (ds_container_test_image d))) us)
     (\<lambda>ps es. map dp_device ps = us \<and> probe_traces H d ps es)"
proof (induction us)
  case (Cons u us)
  show ?case
    unfolding probe_devices.simps
    by (rule emits_then [OF emits_probe_device], rule emits_then [OF Cons.IH], rule emits_give) (simp, blast)
qed (auto intro!: emits_intros)

lemma silent_inspect_image: "silent (inspect_local_digest_image R img)"
  unfolding inspect_local_digest_image_def by (intro quiet_intros silent_tells) simp_all

lemma silent_trust_check: "silent (active_service_trust_check H u name b)"
  unfolding active_service_trust_check_def by (intro quiet_intros service_identity.quiet_check)

lemma emits_run_probes:
  "emits (run_probes H d devices possible)
     (\<lambda>(synthetic, ps) es. probe_traces H d ps es \<and> (ps \<noteq> [] \<longrightarrow> Some (map dp_device ps) = devices))"
  unfolding run_probes_def Let_def
  by (intro emits_intros emits_then [OF emits_probe_devices]) auto

definition docker_evidence ::
  "('w, 'r) verify_host_scheme \<Rightarrow> desired_state \<Rightarrow> host_audit option \<Rightarrow> verification list \<Rightarrow> runner_event list \<Rightarrow> bool" where
  "docker_evidence H d audit checks es \<longleftrightarrow> (\<exists>before synthetic ps during.
     es = before @ during \<and> quiet before \<and> probe_traces H d ps during
     \<and> (ps \<noteq> [] \<longrightarrow> Some (map dp_device ps) = container_device_selectors d audit)
     \<and> gpu_verdict (container_device_selectors d audit) synthetic ps \<in> set checks \<and> absence_verdict ps \<in> set checks)"

lemma verdicts_evidence:
  assumes "probe_traces H d ps es" "ps \<noteq> [] \<longrightarrow> Some (map dp_device ps) = container_device_selectors d audit"
  shows "docker_evidence H d audit (container_verdicts d audit trusted inspected synthetic ps) es"
  unfolding docker_evidence_def
  by (rule exI [of _ "[]"], rule exI [of _ synthetic], rule exI [of _ ps], rule exI [of _ es])
    (use assms in \<open>simp add: container_verdicts_def\<close>)

lemma evidence_after: "docker_evidence H d audit checks es \<Longrightarrow> quiet xs \<Longrightarrow> docker_evidence H d audit checks (xs @ es)"
  unfolding docker_evidence_def by (metis append.assoc quiet_simps(3))

lemma emits_evidence:
  assumes "silent m" "\<And>a. emits (f a) (docker_evidence H d audit)"
  shows "emits (State_Monad.bind m f) (docker_evidence H d audit)"
  by (rule emits_after_silent [OF assms(1)], rule emits_weaken [OF assms(2)]) (rule evidence_after)

lemma emits_docker_checks: "emits (docker_checks H d audit) (docker_evidence H d audit)"
  unfolding docker_checks_def Let_def
proof (rule emits_evidence [OF silent_trust_check], rule emits_evidence [OF silent_exists], rule emits_evidence)
  fix trusted found inspected
  let ?devices = "container_device_selectors d audit"
  show "emits (State_Monad.bind (run_probes H d ?devices
        ((found \<and> docker_active audit \<and> vf_ok trusted \<and> container_compatible d audit \<and> ?devices \<noteq> None)
          \<and> image_present inspected))
      (\<lambda>(synthetic, ps). give (container_verdicts d audit trusted inspected synthetic ps))) (docker_evidence H d audit)"
    by (rule emits_then [OF emits_run_probes])
      (auto intro!: emits_give verdicts_evidence)
qed (intro quiet_intros silent_inspect_image)

text \<open>A device is proven usable: its container ran the probe with success and is then found to be gone.\<close>

definition device_proven ::
  "('w, 'r) verify_host_scheme \<Rightarrow> desired_state \<Rightarrow> string \<Rightarrow> runner_event list \<Rightarrow> bool" where
  "device_proven H d u es \<longleftrightarrow> (\<exists>fresh r gone pre mid post.
     es = pre @ [Started (''docker'' # run_arguments H d fresh u) True, Finished r True] @ mid
       @ [Started (''docker'' # absence_arguments (container_name_of fresh)) False, Finished gone False] @ post
     \<and> cr_returncode r = Some 0 \<and> cuda_driver_probe_succeeded (cr_stdout r)
     \<and> cr_returncode gone = Some 0 \<and> strip (cr_stdout gone) = []
     \<and> list_all (\<lambda>e. case e of Started c _ \<Rightarrow> c = [''docker'', ''rm'', ''--force'', container_name_of fresh]
         | Finished _ _ \<Rightarrow> True) mid)"

lemma traces_prove:
  assumes "probe_traces H d ps es" "\<forall>p \<in> set ps. \<not> probe_failed (dp_result p) \<and> \<not> absence_failed (dp_absence p)"
    and "p \<in> set ps"
  shows "device_proven H d (dp_device p) (before @ es)"
  using assms
proof (induction ps arbitrary: es before)
  case (Cons q qs)
  obtain fresh rest where es: "es = probe_trace H d fresh q @ rest" and traces: "probe_traces H d qs rest"
    using Cons.prems(1) by auto
  show ?case
  proof (cases "p \<in> set qs")
    case True
    from Cons.IH [OF traces _ True, of "before @ probe_trace H d fresh q"] Cons.prems(2) show ?thesis
      unfolding es by simp
  next
    case False
    with Cons.prems(3) have p: "p = q" by simp
    let ?mid = "case dp_cleanup q of None \<Rightarrow> []
      | Some r \<Rightarrow> [Started [''docker'', ''rm'', ''--force'', container_name_of fresh] True, Finished r True]"
    have "before @ es = before
        @ [Started (''docker'' # run_arguments H d fresh (dp_device p)) True, Finished (dp_result p) True] @ ?mid
        @ [Started (''docker'' # absence_arguments (container_name_of fresh)) False, Finished (dp_absence p) False] @ rest"
      by (simp add: es p probe_trace_def)
    moreover have "list_all (\<lambda>e. case e of Started c _ \<Rightarrow> c = [''docker'', ''rm'', ''--force'', container_name_of fresh]
        | Finished _ _ \<Rightarrow> True) ?mid"
      by (simp split: option.split)
    moreover have "\<not> probe_failed (dp_result p) \<and> \<not> absence_failed (dp_absence p)" using Cons.prems(2) p by simp
    ultimately show ?thesis unfolding device_proven_def probe_failed_def absence_failed_def by blast
  qed
qed simp

lemma passed_verdicts:
  assumes "vf_ok (gpu_verdict devices synthetic ps)" "vf_ok (absence_verdict ps)"
  shows "devices \<notin> {None, Some []} \<and> length ps = length (the devices)
    \<and> (\<forall>p \<in> set ps. \<not> probe_failed (dp_result p) \<and> \<not> absence_failed (dp_absence p))"
  using assms
  by (auto simp: gpu_verdict_def absence_verdict_def Let_def failing_devices_def probe_results_def absence_results_def
      filter_empty_conv)

lemma docker_checks_prove:
  "emits (docker_checks H d audit) (\<lambda>checks es. list_all vf_ok checks \<longrightarrow>
     (\<exists>us. container_device_selectors d audit = Some us \<and> us \<noteq> [] \<and> (\<forall>u \<in> set us. device_proven H d u es)))"
proof (rule emits_weaken [OF emits_docker_checks], unfold docker_evidence_def, elim exE conjE, intro impI)
  fix checks es before synthetic ps during
  assume es: "es = before @ during" and traces: "probe_traces H d ps during"
    and devices: "ps \<noteq> [] \<longrightarrow> Some (map dp_device ps) = container_device_selectors d audit"
    and verdicts: "gpu_verdict (container_device_selectors d audit) synthetic ps \<in> set checks"
      "absence_verdict ps \<in> set checks" "list_all vf_ok checks"
  have passed: "container_device_selectors d audit \<notin> {None, Some []}
      \<and> length ps = length (the (container_device_selectors d audit))
      \<and> (\<forall>p \<in> set ps. \<not> probe_failed (dp_result p) \<and> \<not> absence_failed (dp_absence p))"
    by (rule passed_verdicts) (use verdicts in \<open>auto simp: list_all_iff\<close>)
  then have "ps \<noteq> []" by auto
  with devices have us: "container_device_selectors d audit = Some (map dp_device ps)" by simp
  have "device_proven H d u es" if "u \<in> set (map dp_device ps)" for u
    using that traces_prove [OF traces] passed unfolding es by auto
  with us \<open>ps \<noteq> []\<close> show "\<exists>us. container_device_selectors d audit = Some us \<and> us \<noteq> []
      \<and> (\<forall>u \<in> set us. device_proven H d u es)" by auto
qed

lemma device_proven_mono: "device_proven H d u es \<Longrightarrow> device_proven H d u (xs @ es @ ys)"
  unfolding device_proven_def
proof (elim exE conjE)
  fix fresh r gone pre mid post
  assume "es = pre @ [Started (''docker'' # run_arguments H d fresh u) True, Finished r True] @ mid
      @ [Started (''docker'' # absence_arguments (container_name_of fresh)) False, Finished gone False] @ post"
    "cr_returncode r = Some 0" "cuda_driver_probe_succeeded (cr_stdout r)"
    "cr_returncode gone = Some 0" "strip (cr_stdout gone) = []"
    "list_all (\<lambda>e. case e of Started c _ \<Rightarrow> c = [''docker'', ''rm'', ''--force'', container_name_of fresh]
      | Finished _ _ \<Rightarrow> True) mid"
  then show "\<exists>fresh r gone pre mid post.
      xs @ es @ ys = pre @ [Started (''docker'' # run_arguments H d fresh u) True, Finished r True] @ mid
        @ [Started (''docker'' # absence_arguments (container_name_of fresh)) False, Finished gone False] @ post
      \<and> cr_returncode r = Some 0 \<and> cuda_driver_probe_succeeded (cr_stdout r)
      \<and> cr_returncode gone = Some 0 \<and> strip (cr_stdout gone) = []
      \<and> list_all (\<lambda>e. case e of Started c _ \<Rightarrow> c = [''docker'', ''rm'', ''--force'', container_name_of fresh]
          | Finished _ _ \<Rightarrow> True) mid"
    by (intro exI [of _ fresh] exI [of _ r] exI [of _ gone] exI [of _ "xs @ pre"] exI [of _ mid] exI [of _ "post @ ys"])
      simp
qed

lemma silent_driver_checks: "silent (driver_checks H d audit)"
  unfolding driver_checks_def header_check_def dkms_check_def modprobe_check_def smi_check_def nvml_check_def
    run_if_found_def assess_running_kernel_headers_def header_package_owner_def dpkg_header_owner_def
    rpm_header_owner_def Let_def
  by (intro quiet_intros) simp_all

lemma silent_fabric_checks: "silent (fabric_checks H d audit)"
  unfolding fabric_checks_def run_if_found_def by (intro quiet_intros silent_trust_check) (simp add: unit_query_def)

text \<open>
  C4.  A verification that passes has proven the containers: for every device the audit names, one container
  ran the probe bound to exactly that device, it printed that the driver API shows one GPU, nothing but the
  removal of that container came between, and the container was then found to be gone.
\<close>

theorem verified_devices_proven:
  assumes "run_state (verify_stack H d audit True fabric) s = (checks, t)" "se_journaled s"
    and "list_all vf_ok checks" "ds_container_runtime d = ''docker''"
  shows "\<exists>us es. container_device_selectors d audit = Some us \<and> us \<noteq> []
    \<and> se_events t = se_events s @ es \<and> (\<forall>u \<in> set us. device_proven H d u es)"
proof -
  let ?Q = "\<lambda>checks es. list_all vf_ok checks \<longrightarrow>
     (\<exists>us. container_device_selectors d audit = Some us \<and> us \<noteq> [] \<and> (\<forall>u \<in> set us. device_proven H d u es))"
  have "emits (verify_stack H d audit True fabric) ?Q"
    unfolding verify_stack_def
  proof (rule emits_after_silent [OF silent_driver_checks], rule emits_then)
    show "emits (if True \<and> ds_container_runtime d = ''docker'' then docker_checks H d audit else give []) ?Q"
      using docker_checks_prove assms(4) by simp
  next
    fix driver docker :: "verification list" and xs ys
    assume proven: "?Q docker ys"
    have "silent (if fabric \<and> ds_fabric_manager d then fabric_checks H d audit else give [])"
      by (intro quiet_intros silent_fabric_checks)
    then show "emits (State_Monad.bind (if fabric \<and> ds_fabric_manager d then fabric_checks H d audit else give [])
        (\<lambda>fabric. give (audit_checks d audit @ driver @ docker @ fabric))) (\<lambda>b zs. ?Q b (xs @ ys @ zs))"
      by (rule emits_after_silent) (use proven device_proven_mono [of H d _ ys xs] in \<open>auto intro!: emits_intros\<close>)
  qed
  then obtain es where "se_events t = se_events s @ es" "?Q checks es" using assms(2,1) by (rule emitsD)
  with assms(3) show ?thesis by blast
qed

section \<open>Reloading the modules\<close>

fun mutating_commands :: "runner_event list \<Rightarrow> string list list" where
  "mutating_commands [] = []"
| "mutating_commands (Started c mutate # es) = (if mutate then c # mutating_commands es else mutating_commands es)"
| "mutating_commands (Finished _ _ # es) = mutating_commands es"

lemma mutating_commands_append [simp]: "mutating_commands (xs @ ys) = mutating_commands xs @ mutating_commands ys"
  by (induction xs rule: mutating_commands.induct) simp_all

definition load_commands_of :: "string list \<Rightarrow> string list list" where
  "load_commands_of ms = map (\<lambda>m. [''modprobe'', m]) ms"

definition reload_plan :: "string list \<Rightarrow> string list list" where
  "reload_plan order =
     (if order = [] then load_commands_of [''nvidia'']
      else (''modprobe'' # ''-r'' # order) # load_commands_of (rev order))"

lemma emits_run_modprobe:
  "emits (run_modprobe R args) (\<lambda>r es. (mutating_commands es = [] \<and> failed r)
     \<or> mutating_commands es = [''modprobe'' # args])"
  unfolding run_modprobe_def exists_executable_def by (intro emits_intros) (simp_all add: failed_def)

lemma emits_load_modules:
  fixes R :: "('w, 'r) runner_scheme"
  shows "emits (load_modules R ms prior :: ('w, 'z, command_result option) action) (\<lambda>r es. prefix (mutating_commands es) (load_commands_of ms)
     \<and> (zero_exit r \<and> ms \<noteq> [] \<longrightarrow> mutating_commands es = load_commands_of ms))"
proof (induction ms arbitrary: prior)
  case (Cons m ms)
  let ?Q = "\<lambda>r es. prefix (mutating_commands es) (load_commands_of (m # ms))
     \<and> (zero_exit r \<and> m # ms \<noteq> [] \<longrightarrow> mutating_commands es = load_commands_of (m # ms))"
  show ?case
    unfolding load_modules.simps
  proof (rule emits_then [OF emits_run_modprobe], rule emits_if)
    fix r xs
    assume "(mutating_commands xs = [] \<and> failed r) \<or> mutating_commands xs = [''modprobe'' # [m]]" "failed r"
    then show "emits (give (Some r)) (\<lambda>b ys. ?Q b (xs @ ys))"
      by (intro emits_give) (auto simp: load_commands_of_def zero_exit_def failed_def)
  next
    fix r xs
    assume ran: "(mutating_commands xs = [] \<and> failed r) \<or> mutating_commands xs = [''modprobe'' # [m]]" "\<not> failed r"
    show "emits (load_modules R ms (Some r) :: ('w, 'z, command_result option) action) (\<lambda>b ys. ?Q b (xs @ ys))"
    proof (cases "ms = []")
      case True
      then show ?thesis using ran by (auto simp: load_commands_of_def intro!: emits_give)
    next
      case False
      show ?thesis by (rule emits_weaken [OF Cons.IH]) (use False ran in \<open>auto simp: load_commands_of_def\<close>)
    qed
  qed
qed (auto simp: load_commands_of_def intro!: emits_give)

lemma judged_verdicts [simp]:
  "\<not> vf_ok (reload_unsafe e)" "\<not> vf_ok (unload_failed r)" "vf_ok (load_verdict reload x) = zero_exit x"
  by (simp_all add: reload_unsafe_def unload_failed_def load_verdict_def)

definition follows_plan :: "string list \<Rightarrow> verification \<Rightarrow> runner_event list \<Rightarrow> bool" where
  "follows_plan order v es \<longleftrightarrow>
     prefix (mutating_commands es) (reload_plan order) \<and> (vf_ok v \<longrightarrow> mutating_commands es = reload_plan order)"

lemma emits_reload:
  assumes "order \<noteq> []"
  shows "emits (do { unload \<leftarrow> run_modprobe H (''-r'' # order);
          (if failed unload then give (unload_failed unload)
           else do { r \<leftarrow> load_modules H (rev order) None; give (load_verdict True r) }) }) (follows_plan order)"
proof (rule emits_then [OF emits_run_modprobe], rule emits_if)
  fix r xs
  assume "(mutating_commands xs = [] \<and> failed r) \<or> mutating_commands xs = [''modprobe'' # ''-r'' # order]"
  then show "emits (give (unload_failed r)) (\<lambda>b ys. follows_plan order b (xs @ ys))"
    by (intro emits_give) (auto simp: follows_plan_def reload_plan_def assms)
next
  fix r xs
  assume "(mutating_commands xs = [] \<and> failed r) \<or> mutating_commands xs = [''modprobe'' # ''-r'' # order]" "\<not> failed r"
  then show "emits (do { r \<leftarrow> load_modules H (rev order) None; give (load_verdict True r) })
      (\<lambda>b ys. follows_plan order b (xs @ ys))"
    by (intro emits_then [OF emits_load_modules] emits_give) (auto simp: follows_plan_def reload_plan_def assms)
qed

text \<open>
  C29.  A reload of the driver keeps to the order of the module walk: whatever fails, the commands that were
  run are a beginning of the plan that unloads all modules in one command, holders first, and loads them
  again one by one in the reverse order; and the reload is verified only when the whole plan was run.
  A walk that refuses runs nothing.
\<close>

theorem reload_follows_walk:
  assumes "run_state (prepare_stack H audit True) s = (v, t)" "se_journaled s"
  shows "\<exists>es. se_events t = se_events s @ es
    \<and> (case unload_order H (se_world s) of
         Inl e \<Rightarrow> mutating_commands es = [] \<and> \<not> vf_ok v
       | Inr order \<Rightarrow> follows_plan order v es)"
proof -
  have reload: "run_state (reload_stack H) s = (v, t)" using assms(1) by (simp add: prepare_stack_def)
  show ?thesis
  proof (cases "unload_order H (se_world s)")
    case (Inl e)
    then show ?thesis using reload by (auto simp: reload_stack_def)
  next
    case (Inr order)
    have load: "emits (do { r \<leftarrow> load_modules H [''nvidia''] None; give (load_verdict True r) }) (follows_plan [])"
      by (intro emits_then [OF emits_load_modules] emits_give) (auto simp: follows_plan_def reload_plan_def)
    show ?thesis
    proof (cases order)
      case Nil
      have "run_state (do { r \<leftarrow> load_modules H [''nvidia''] None; give (load_verdict True r) }) s = (v, t)"
        using reload Inr Nil by (simp add: reload_stack_def)
      then obtain es where "se_events t = se_events s @ es" "follows_plan [] v es" by (rule emitsD [OF load assms(2)])
      then show ?thesis using Inr Nil by auto
    next
      case (Cons m ms)
      then have "order \<noteq> []" by simp
      have "run_state (do { unload \<leftarrow> run_modprobe H (''-r'' # order);
          (if failed unload then give (unload_failed unload)
           else do { r \<leftarrow> load_modules H (rev order) None; give (load_verdict True r) }) }) s = (v, t)"
        using reload Inr unfolding Cons by (simp add: reload_stack_def)
      then obtain es where "se_events t = se_events s @ es" "follows_plan order v es"
        by (rule emitsD [OF emits_reload [OF \<open>order \<noteq> []\<close>] assms(2)])
      then show ?thesis using Inr by auto
    qed
  qed
qed

end
