(* ===== verification/KernelHeadersProps.thy ===== *)
theory KernelHeadersProps
  imports KernelHeaders
begin

text \<open>What it means that the headers of the running kernel are ready.\<close>

section \<open>Directories only root may write\<close>

lemma trusted_below_take:
  "trusted_below T current cs \<Longrightarrow> 0 < n \<Longrightarrow> n \<le> length cs \<Longrightarrow> trusted_directory T (current @ take n cs)"
proof (induction cs arbitrary: current n)
  case (Cons c cs)
  then show ?case by (cases "n = 1") (auto simp: take_Cons' dest: Cons.IH [of "current @ [c]" "n - 1"])
qed simp

lemma trusted_chain_take:
  assumes "trusted_directory_chain T root p" "length root \<le> n" "n \<le> length p"
  shows "trusted_directory T (take n p)"
proof -
  have p: "p = root @ drop (length root) p"
    using assms(1) append_take_drop_id [of "length root" p] by (simp add: trusted_directory_chain_def below_def)
  then have n: "take n p = root @ take (n - length root) (drop (length root) p)"
    using assms(2) by (metis take_append take_all)
  show ?thesis
  proof (cases "n = length root")
    case True
    then show ?thesis using assms(1) n by (simp add: trusted_directory_chain_def)
  next
    case False
    then show ?thesis unfolding n using assms by (intro trusted_below_take) (auto simp: trusted_directory_chain_def)
  qed
qed

lemma longest_in: "foldl (\<lambda>best x. if length best < length x then x else best) r rs \<in> insert r (set rs)"
proof (induction rs arbitrary: r)
  case (Cons x xs)
  show ?case using Cons.IH [of "if length r < length x then x else r"] by (auto split: if_split_asm)
qed simp

lemma containing_root_SomeD:
  assumes "containing_root p roots = Some r"
  shows "r \<in> set roots \<and> below r p"
proof -
  obtain x xs where xs: "filter (\<lambda>r. below r p) roots = x # xs"
    and r: "r = foldl (\<lambda>best x. if length best < length x then x else best) x xs"
    using assms by (auto simp: containing_root_def split: list.split_asm)
  have "r \<in> insert x (set xs)" unfolding r by (rule longest_in)
  also have "\<dots> = set (filter (\<lambda>r. below r p) roots)" by (simp add: xs)
  finally show ?thesis by simp
qed

text \<open>
  A file only root can change: it is a regular file of root that no other user may write, and so is every
  directory from one of the roots down to it.
\<close>

definition guarded :: "file_tree \<Rightarrow> location list \<Rightarrow> location \<Rightarrow> bool" where
  "guarded T roots p \<longleftrightarrow>
     (\<exists>m. ft_lstat T p = Some m \<and> hf_kind m = RegularFile \<and> root_only m)
     \<and> (\<exists>root \<in> set roots. below root p
          \<and> (\<forall>n. length root \<le> n \<and> n < length p \<longrightarrow> trusted_directory T (take n p)))"

lemma trusted_file_guarded:
  assumes "trusted_regular_file T roots p = Some c"
  shows "ft_resolve T p = Some c \<and> guarded T roots c"
proof -
  obtain root m where c: "ft_resolve T p = Some c" and root: "containing_root c roots = Some root"
    and chain: "trusted_directory_chain T root (butlast c)"
    and m: "ft_lstat T c = Some m" "hf_kind m = RegularFile" "root_only m"
    using assms by (auto simp: trusted_regular_file_def split: option.split_asm if_split_asm)
  have "trusted_directory T (take n c)" if "length root \<le> n" "n < length c" for n
    using trusted_chain_take [OF chain that(1)] that(2) by (simp add: take_butlast)
  with c m containing_root_SomeD [OF root] show ?thesis unfolding guarded_def by blast
qed

section \<open>The marker\<close>

definition marker_binds :: "file_tree \<Rightarrow> string \<Rightarrow> location \<Rightarrow> bool" where
  "marker_binds T release p \<longleftrightarrow>
     (\<exists>m content body. ft_open T p = Some (m, content) \<and> hf_kind m = RegularFile \<and> root_only m
        \<and> int (length content) \<le> max_header_marker_bytes \<and> ft_decode T content = Some body
        \<and> (strip body = release \<or> uts_release body = Some release))"

lemma first_marker_candidate:
  "first_marker T build release roots candidates = Some c
   \<Longrightarrow> \<exists>(candidate, plain) \<in> set candidates. \<exists>body. trusted_regular_file T roots (build @ candidate) = Some c
     \<and> read_small_regular_file T c = Some body \<and> marker_names_release plain release body"
proof (induction candidates)
  case (Cons x xs)
  then show ?case by (cases x) (auto split: option.split_asm if_split_asm)
qed simp

lemma first_marker_binds:
  assumes "first_marker T build release roots candidates = Some c"
  shows "guarded T roots c \<and> marker_binds T release c"
proof -
  obtain candidate plain body where found: "trusted_regular_file T roots (build @ candidate) = Some c"
    and body: "read_small_regular_file T c = Some body" "marker_names_release plain release body"
    using first_marker_candidate [OF assms] by auto
  from body have "marker_binds T release c"
    by (auto simp: marker_binds_def read_small_regular_file_def marker_names_release_def
        split: option.split_asm if_split_asm)
  with trusted_file_guarded [OF found] show ?thesis by simp
qed

lemma inspected_headers:
  assumes "inspect_headers T release = Inr (build, marker)"
  shows "\<exists>modules directory. ft_resolve T modules_root = Some modules \<and> trusted_directory T modules
    \<and> ft_resolve T (modules_root @ [release]) = Some directory \<and> butlast directory = modules
    \<and> safe_kernel_release release
    \<and> ft_resolve T (modules_root @ [release, ''build'']) = Some build
    \<and> (\<exists>makefile. ft_resolve T (build @ [''Makefile'']) = Some makefile
         \<and> guarded T (header_roots T directory) makefile)
    \<and> guarded T (header_roots T directory) marker \<and> marker_binds T release marker"
proof -
  obtain directory where directory: "inspect_release_directory T release = Inr directory"
    and build: "inspect_build_entry T release = Inr build"
    and tree: "inspect_build_tree T release (header_roots T directory) build = Inr marker"
    and safe: "safe_kernel_release release"
    using assms by (auto simp: inspect_headers_def bind_r_Inr_iff split: if_split_asm)
  have "ft_resolve T modules_root = Some (butlast directory)" "trusted_directory T (butlast directory)"
    "ft_resolve T (modules_root @ [release]) = Some directory"
    using directory by (auto simp: inspect_release_directory_def split: option.split_asm if_split_asm)
  moreover have "ft_resolve T (modules_root @ [release, ''build'']) = Some build"
    using build by (auto simp: inspect_build_entry_def Let_def split: option.split_asm if_split_asm)
  moreover obtain makefile where "trusted_regular_file T (header_roots T directory) (build @ [''Makefile'']) = Some makefile"
    and marker: "kernel_release_marker T build release (header_roots T directory) = Some marker"
    using tree by (auto simp: inspect_build_tree_def split: option.split_asm if_split_asm)
  moreover have "guarded T (header_roots T directory) marker \<and> marker_binds T release marker"
    using marker first_marker_binds unfolding kernel_release_marker_def by blast
  ultimately show ?thesis using safe trusted_file_guarded by blast
qed

section \<open>The owner\<close>

definition owner_matches :: "string option \<Rightarrow> string \<Rightarrow> string option \<Rightarrow> bool" where
  "owner_matches manager release owner \<longleftrightarrow>
     (manager = Some ''apt-get'' \<longrightarrow> owner = Some (''linux-headers-'' @ release))
     \<and> (manager \<in> {Some ''dnf'', Some ''yum'', Some ''zypper''} \<longrightarrow>
         (\<exists>name version_release architecture. owner = Some name
            \<and> rpm_owner_matches release name version_release architecture))"

lemma run_dpkg_owner:
  assumes "run_state (dpkg_header_owner R release marker) s = (Some owner, t)"
  shows "owner = ''linux-headers-'' @ release"
  using assms by (cases "run_state (run_known R False ''dpkg-query'' [''-S'', location_text marker]) s")
    (simp add: dpkg_header_owner_def Let_def exists_executable_def split: if_split_asm)

lemma run_rpm_owner:
  fixes s :: "('w, 'z) session_scheme"
  assumes "run_state (rpm_header_owner R release marker) s = (Some owner, t)"
  shows "\<exists>version_release architecture. rpm_owner_matches release owner version_release architecture"
proof -
  define query :: "('w, 'z, command_result) action" where "query = run_known R False ''rpm''
    [''-qf'', ''--qf'', ''%{NAME}'' @ [CHR 0x5C] @ ''t%{VERSION}-%{RELEASE}'' @ [CHR 0x5C] @ ''t%{ARCH}''
       @ [CHR 0x5C] @ ''n'', location_text marker]"
  obtain r u where "run_state query s = (r, u)" by (cases "run_state query s") simp
  with assms show ?thesis
    unfolding rpm_header_owner_def query_def [symmetric]
    by (simp add: exists_executable_def split: if_split_asm list.split_asm) blast
qed

lemma owned_headers_match:
  assumes "run_state (header_package_owner R manager release marker) s = (owner, t)"
    and "manager \<in> {Some ''apt-get'', Some ''dnf'', Some ''yum'', Some ''zypper''} \<longrightarrow> owner \<noteq> None"
  shows "owner_matches manager release owner"
  unfolding owner_matches_def
proof (intro conjI impI)
  assume "manager = Some ''apt-get''"
  then have "run_state (dpkg_header_owner R release marker) s = (owner, t)" "owner \<noteq> None"
    using assms by (simp_all add: header_package_owner_def)
  then show "owner = Some (''linux-headers-'' @ release)" using run_dpkg_owner by (cases owner) auto
next
  assume "manager \<in> {Some ''dnf'', Some ''yum'', Some ''zypper''}"
  then have "run_state (rpm_header_owner R release marker) s = (owner, t)" "owner \<noteq> None"
    using assms by (auto simp: header_package_owner_def)
  then show "\<exists>name version_release architecture. owner = Some name
      \<and> rpm_owner_matches release name version_release architecture"
    using run_rpm_owner by (cases owner) auto
qed


end
