(* ===== verification/VerifySample.thy ===== *)
theory VerifySample
  imports VerifyProps KernelHeadersProps GpuGuardProps RollbackCommandSample
begin

text \<open>A host whose verification passes, on which the theorems about it are evaluated.\<close>

section \<open>The host\<close>

definition sample_release :: string where "sample_release = ''6.8.0-60-generic''"

definition sample_marker :: location where
  "sample_marker = modules_root @ [sample_release, ''build'', ''include'', ''config'', ''kernel.release'']"

text \<open>Every path is its own canonical path; the files and directories are those of root.\<close>

definition sample_file :: "location \<Rightarrow> header_file" where
  "sample_file p =
     (if p \<noteq> [] \<and> last p \<in> {''Makefile'', ''kernel.release'', ''auto.conf''}
      then \<lparr>hf_kind = RegularFile, hf_uid = 0, hf_mode = 420\<rparr>
      else \<lparr>hf_kind = DirectoryFile, hf_uid = 0, hf_mode = 493\<rparr>)"

definition sample_tree :: file_tree where
  "sample_tree =
     \<lparr>ft_lstat = (\<lambda>p. Some (sample_file p)), ft_resolve = Some, ft_is_dir = (\<lambda>_. True),
      ft_open = (\<lambda>p. Some (sample_file p, sample_release @ [CHR 0x0A])), ft_decode = Some\<rparr>"

definition docker_known :: properties where
  "docker_known =
     [(''Id'', ''docker.service''), (''LoadState'', ''loaded''), (''ActiveState'', ''active''),
      (''SubState'', ''running''), (''MainPID'', ''7''),
      (''FragmentPath'', ''/lib/systemd/system/docker.service''),
      (''ExecStart'', ''{ path=/usr/bin/dockerd ; }'')]"

definition docker_report :: string where
  "docker_report = unit_report docker_known"

definition printed :: "string list \<Rightarrow> string" where
  "printed command =
     (let program = hd command; verb = (if length command < 2 then [] else command ! 1)
      in if program = ''systemctl'' \<and> verb = ''show'' then docker_report
         else if program = ''nvidia-smi'' then ''NVIDIA-SMI 580.95.05  Driver Version: 580.95.05''
         else if program = ''dkms'' then ''nvidia/580.95.05: installed''
         else if program = ''dpkg-query'' then ''linux-headers-'' @ sample_release @ '': '' @ location_text sample_marker
         else if program = ''docker'' \<and> verb = ''image'' then ''sha256:'' @ replicate 64 CHR ''0''
         else if program = ''docker'' \<and> verb = ''run'' then ''CUDA_DRIVER_API_OK driver_version=13000 device_count=1''
         else [])"

definition verified_host :: "nat verify_host" where
  "verified_host = command_host.extend
     ((command_host sample_audit)
       \<lparr>ru_execute := (\<lambda>p w. (Exited 0 [printed (pr_command p)] [], w)),
        uh_trusted_file := (\<lambda>_ _ w. (Inr \<lparr>fm_device = 1, fm_inode = 2, fm_mode = 0, fm_owner_uid = 0, fm_size = 1,
          fm_modified_ns = 0, fm_changed_ns = 0\<rparr>, w)),
        uh_process_stat := (\<lambda>_ w. (Inr ''7 (nv) S 1 1 1 0 0 0 0 0 0 0 0 0 0 0 20 0 1 0 55 0'', w)),
        uh_process_executable := (\<lambda>_ w. (Inr (1, 2), w)),
        uh_process_cgroup := (\<lambda>_ w. (Inr ''0::/system.slice/docker.service'', w))\<rparr>)
     (verify_host.fields (\<lambda>_. sample_tree) (\<lambda>_. sample_release) (\<lambda>_. Inr ''int main'') ''int main'' ''exec'')"

definition verified_audit :: host_audit where
  "verified_audit = sample_audit\<lparr>ha_gpu_uuids := [''GPU-0123456789abcdef'']\<rparr>"

lemma verified_host_fields [simp]:
  "ru_apply verified_host" "ru_executable_path verified_host = ''/usr/bin''"
  "ru_trusted_directory verified_host = (\<lambda>d _. Some d)" "ru_trusted_executable verified_host = (\<lambda>p _. Some p)"
  "ru_which verified_host = (\<lambda>name _. Some (''/usr/bin/'' @ name))" "ru_decode verified_host = (\<lambda>s. s)"
  "ru_execute verified_host = (\<lambda>p w. (Exited 0 [printed (pr_command p)] [], w))"
  "vh_files verified_host = (\<lambda>_. sample_tree)" "vh_release verified_host = (\<lambda>_. sample_release)"
  "load_cuda_driver_probe_source verified_host = (\<lambda>_. Inr ''int main'')"
  "ch_fresh_id verified_host = (\<lambda>w. (replicate 32 CHR ''a'', w))"
  by (simp_all add: verified_host_def command_host_def observed_host_def sample_host_def probe_host.defs cli_host.defs
      create_host.defs rollback_host.defs command_host.defs verify_host.defs load_cuda_driver_probe_source_def fun_eq_iff)

definition printed_result :: "string list \<Rightarrow> command_result" where
  "printed_result c = \<lparr>cr_command = c, cr_returncode = Some 0, cr_stdout = strip (printed c), cr_stderr = [],
     cr_skipped = False, cr_reason = None\<rparr>"

lemma docker_report_length: "int (length docker_report) \<le> 1000"
  by code_simp

lemma printed_length: "int (length (printed c)) \<le> 1000"
  using docker_report_length
  by (simp add: printed_def Let_def sample_release_def sample_marker_def location_text_def modules_root_def)

lemma capture_printed: "capture verified_host [printed c] = strip (printed c)"
  using printed_length [of c] by (simp add: capture_def capture_add_def capture_text_def max_capture_bytes_def Let_def)

lemma capture_nothing: "capture verified_host [] = []"
  by (simp add: capture_def capture_text_def max_capture_bytes_def strip_def lstrip_def rstrip_def Let_def)

definition verify_programs :: "string list" where
  "verify_programs = [''dkms'', ''modprobe'', ''nvidia-smi'', ''python3'', ''docker'', ''dpkg-query'', ''systemctl'']"

lemma found_programs: "list_all (\<lambda>p. resolve_executable verified_host p w = Some (''/usr/bin/'' @ p)) verify_programs"
  by (simp add: verify_programs_def resolve_executable_def trusted_executable_directories_def path_parent_def
      rpartition_at_def executable_candidate_def startswith_def)

lemma found_program: "p \<in> set verify_programs \<Longrightarrow> resolve_executable verified_host p w = Some (''/usr/bin/'' @ p)"
  using found_programs [of w] by (simp only: list_all_iff)

lemma run_found: "p \<in> set verify_programs \<Longrightarrow> run_state (exists_executable verified_host p) s = (True, s)"
  by (simp add: exists_executable_def found_program)

lemma run_printed:
  assumes "p \<in> set verify_programs"
  shows "\<exists>t. run_state (run_program verified_host timeout mutate input p args) s = (printed_result (p # args), t)"
  by (simp add: run_program_def found_program [OF assms] printed_result_def outcome_result_def capture_printed
      capture_nothing split: prod.split)

lemma known_printed:
  assumes "p \<in> set verify_programs"
  shows "\<exists>t. run_state (run_known verified_host mutate p args) s = (printed_result (p # args), t)"
  unfolding run_known_def by (rule run_printed [OF assms])

lemma if_found_printed:
  assumes "p \<in> set verify_programs"
  shows "\<exists>t. run_state (run_if_found verified_host p args) s = (Some (printed_result (p # args)), t)"
proof -
  obtain t where "run_state (run_known verified_host False p args) s = (printed_result (p # args), t)"
    using known_printed [OF assms] by blast
  then show ?thesis by (simp add: run_if_found_def run_found [OF assms])
qed

section \<open>Its checks\<close>

lemma sample_inspected:
  "inspect_headers sample_tree sample_release = Inr (modules_root @ [sample_release, ''build''], sample_marker)"
  by code_simp

lemma sample_owner: "list_all (dpkg_owner_line sample_release sample_marker)
    (splitlines (strip (printed [''dpkg-query'', ''-S'', location_text sample_marker])))
  \<and> splitlines (strip (printed [''dpkg-query'', ''-S'', location_text sample_marker])) \<noteq> []"
  by code_simp

lemma headers_ready:
  "\<exists>h t. run_state (assess_running_kernel_headers verified_host (vh_files verified_host) sample_release
     (Some ''apt-get'')) s = (h, t) \<and> hr_ready h"
proof -
  obtain t where "run_state (run_known verified_host False ''dpkg-query'' [''-S'', location_text sample_marker]) s
      = (printed_result (''dpkg-query'' # [''-S'', location_text sample_marker]), t)"
    using known_printed [of "''dpkg-query''" False "[''-S'', location_text sample_marker]" s]
    by (auto simp: verify_programs_def)
  then show ?thesis
    using sample_owner
    by (simp add: assess_running_kernel_headers_def sample_inspected header_package_owner_def dpkg_header_owner_def
        run_found verify_programs_def Let_def printed_result_def)
qed

text \<open>A run whose checks all pass, from any session\<close>

definition checks_pass :: "(nat session, verification list) state \<Rightarrow> bool" where
  "checks_pass m \<longleftrightarrow> (\<forall>s. list_all vf_ok (fst (run_state m s)))"

lemma header_check_passes: "checks_pass (header_check verified_host (Some verified_audit))"
  unfolding checks_pass_def
proof (intro allI)
  fix s :: "nat session"
  have manager: "ha_package_manager verified_audit = Some ''apt-get''" by (simp add: verified_audit_def sample_audit_def)
  obtain h t where "run_state (assess_running_kernel_headers verified_host (vh_files verified_host) sample_release
      (Some ''apt-get'')) s = (h, t)" "hr_ready h"
    using headers_ready by blast
  then show "list_all vf_ok (fst (run_state (header_check verified_host (Some verified_audit)) s))"
    by (simp add: header_check_def manager)
qed

lemma printed_checks:
  "contains ''installed'' (lower (strip (printed [''dkms'', ''status'', ''-m'', ''nvidia''])))"
  "nvidia_smi_matches_driver default_desired (strip (printed [''nvidia-smi'']))"
  "docker_image_id (strip (strip (printed (''docker'' # image_arguments (ds_container_test_image default_desired)))))"
  "digest_pinned_cuda_image (ds_container_test_image default_desired)"
  by code_simp+

lemma tool_checks_pass:
  "checks_pass (dkms_check verified_host)" "checks_pass (modprobe_check verified_host)"
  "checks_pass (smi_check verified_host default_desired)" "checks_pass (nvml_check verified_host)"
proof -
  show "checks_pass (dkms_check verified_host)"
    unfolding checks_pass_def
  proof (intro allI)
    fix s :: "nat session"
    obtain t where "run_state (run_if_found verified_host ''dkms'' [''status'', ''-m'', ''nvidia'']) s
        = (Some (printed_result [''dkms'', ''status'', ''-m'', ''nvidia'']), t)"
      using if_found_printed [of "''dkms''"] by (auto simp: verify_programs_def)
    then show "list_all vf_ok (fst (run_state (dkms_check verified_host) s))"
      using printed_checks(1) by (simp add: dkms_check_def printed_result_def)
  qed
  show "checks_pass (modprobe_check verified_host)"
    unfolding checks_pass_def
  proof (intro allI)
    fix s :: "nat session"
    obtain t where "run_state (run_if_found verified_host ''modprobe'' [''-n'', ''-v'', ''nvidia'']) s
        = (Some (printed_result [''modprobe'', ''-n'', ''-v'', ''nvidia'']), t)"
      using if_found_printed [of "''modprobe''"] by (auto simp: verify_programs_def)
    then show "list_all vf_ok (fst (run_state (modprobe_check verified_host) s))"
      by (simp add: modprobe_check_def printed_result_def zero_exit_def)
  qed
  show "checks_pass (smi_check verified_host default_desired)"
    unfolding checks_pass_def
  proof (intro allI)
    fix s :: "nat session"
    obtain t where "run_state (run_if_found verified_host ''nvidia-smi'' []) s = (Some (printed_result [''nvidia-smi'']), t)"
      using if_found_printed [of "''nvidia-smi''"] by (auto simp: verify_programs_def)
    then show "list_all vf_ok (fst (run_state (smi_check verified_host default_desired) s))"
      using printed_checks(2) by (simp add: smi_check_def printed_result_def)
  qed
  show "checks_pass (nvml_check verified_host)"
    unfolding checks_pass_def
  proof (intro allI)
    fix s :: "nat session"
    obtain t where "run_state (run_known verified_host False ''python3'' [''-I'', ''-S'', ''-c'', nvml_program]) s
        = (printed_result [''python3'', ''-I'', ''-S'', ''-c'', nvml_program], t)"
      using known_printed [of "''python3''" False "[''-I'', ''-S'', ''-c'', nvml_program]" s]
      by (auto simp: verify_programs_def)
    then show "list_all vf_ok (fst (run_state (nvml_check verified_host) s))"
      by (simp add: nvml_check_def printed_result_def)
  qed
qed

section \<open>Its containers\<close>

text \<open>A run whose value has a property, from any session\<close>

definition settles :: "(nat session, 'a) state \<Rightarrow> ('a \<Rightarrow> bool) \<Rightarrow> bool" where
  "settles m P \<longleftrightarrow> (\<forall>s. se_journaled s \<longrightarrow> P (fst (run_state m s)) \<and> se_journaled (snd (run_state m s)))"

lemma settles_bind:
  assumes "settles m P" "\<And>a. P a \<Longrightarrow> settles (f a) Q"
  shows "settles (State_Monad.bind m f) Q"
  unfolding settles_def
proof (intro allI impI)
  fix s :: "nat session"
  assume s: "se_journaled s"
  obtain a t where run: "run_state m s = (a, t)" by (cases "run_state m s") simp
  with assms(1) s have "P a" "se_journaled t" by (auto simp: settles_def)
  with assms(2) have "Q (fst (run_state (f a) t)) \<and> se_journaled (snd (run_state (f a) t))" by (auto simp: settles_def)
  with run show "Q (fst (run_state (State_Monad.bind m f) s)) \<and> se_journaled (snd (run_state (State_Monad.bind m f) s))"
    by simp
qed

lemma settles_give: "P a \<Longrightarrow> settles (give a) P"
  by (simp add: settles_def)

lemma settles_value:
  assumes "emits m Q" "\<And>s. \<exists>a t. run_state m s = (a, t) \<and> P a"
  shows "settles m P"
  unfolding settles_def
proof (intro allI impI)
  fix s :: "nat session"
  assume s: "se_journaled s"
  obtain a t where run: "run_state m s = (a, t)" "P a" using assms(2) by blast
  moreover have "se_journaled t" by (rule emitsD [OF assms(1) s run(1)])
  ultimately show "P (fst (run_state m s)) \<and> se_journaled (snd (run_state m s))" by simp
qed

lemma silentD: "silent m \<Longrightarrow> emits m (\<lambda>_. quiet)"
  by (simp add: silent_def)

text \<open>The unit of Docker is trusted.\<close>

definition docker_props :: properties where
  "docker_props = map (\<lambda>name. (name, case map_of docker_known name of Some v \<Rightarrow> v | None \<Rightarrow> [])) service_properties"

lemma docker_parsed: "parse_service_properties (strip docker_report) = Some docker_props"
  by code_simp

lemma docker_states:
  "pval docker_props ''Id'' = ''docker.service''" "isdecimal (pval docker_props ''MainPID'')"
  "digits_val (pval docker_props ''MainPID'') = 7" "pval docker_props ''ActiveState'' = ''active''"
  "pval docker_props ''SubState'' = ''running''" "pval docker_props ''LoadState'' = ''loaded''"
  "pval docker_props ''FragmentPath'' = ''/lib/systemd/system/docker.service''"
  "path_text ''/lib/systemd/system/docker.service'' = ''/lib/systemd/system/docker.service''"
  by code_simp+

definition docker_process :: gpu_service_identity where
  "docker_process = \<lparr>gi_unit = ''docker.service'', gi_main_pid = 7, gi_process_start_time_ticks = 55,
     gi_executable_device = 1, gi_executable_inode = 2, gi_cgroup_path = ''/system.slice/docker.service''\<rparr>"

lemma docker_bound_here:
  "run_state (bind_service verified_host docker_service_spec ''/lib/systemd/system/docker.service'' (Some 7) docker_props)
     \<lparr>se_world = w, se_events = es, se_results = rs, se_scope = sc, se_journaled = j\<rparr>
   = (Inr (Some docker_process),
      \<lparr>se_world = w, se_events = es, se_results = rs, se_scope = sc, se_journaled = j\<rparr>)"
  by code_simp

lemma docker_bound:
  "run_state (bind_service verified_host docker_service_spec ''/lib/systemd/system/docker.service'' (Some 7) docker_props)
     (s :: nat session) = (Inr (Some docker_process), s)"
  using docker_bound_here by (cases s) simp

lemma docker_binding:
  "\<exists>r t. run_state (validate_trusted_service_binding verified_host docker_service_spec
     ''/lib/systemd/system/docker.service'' (Some 7) docker_props) (s :: nat session)
     = ((r, Some docker_process, None), t)"
  by (simp add: validate_trusted_service_binding_def Let_def docker_bound split: prod.split)

lemma docker_shown:
  "\<exists>t. run_state (show_unit verified_host service_properties ''docker.service'') (s :: nat session)
     = (printed_result (''systemctl'' # [''show'', ''--all'', ''--full'', ''--no-pager'',
         ''--property='' @ join '','' service_properties, ''docker.service'']), t)"
  unfolding show_unit_def by (rule known_printed) (simp add: verify_programs_def)

lemma docker_observed:
  "\<exists>rs ob t. run_state (observe_trusted_service verified_host docker_service_spec) (s :: nat session) = ((rs, Inr ob), t)
     \<and> judge_active_service u None ob = (Some docker_process, None)"
proof -
  have spec: "ts_unit docker_service_spec = ''docker.service''" by (simp add: docker_service_spec_def)
  obtain t1 where shown: "run_state (show_unit verified_host service_properties ''docker.service'') s
      = (printed_result (''systemctl'' # [''show'', ''--all'', ''--full'', ''--no-pager'',
         ''--property='' @ join '','' service_properties, ''docker.service'']), t1)"
    using docker_shown by blast
  obtain r t2 where bound: "run_state (validate_trusted_service_binding verified_host docker_service_spec
     ''/lib/systemd/system/docker.service'' (Some 7) docker_props) t1 = ((r, Some docker_process, None), t2)"
    using docker_binding by blast
  have out: "cr_stdout (printed_result (''systemctl'' # ''show'' # args)) = strip docker_report"
    "cr_returncode (printed_result c) = Some 0" for args c
    by (simp_all add: printed_result_def printed_def Let_def)
  show ?thesis
    unfolding observe_trusted_service_def
    by (simp add: spec shown out docker_parsed docker_states judge_service_def Let_def bound
        judge_active_service_def observation_of_def)
qed

lemma docker_identity:
  "\<exists>rs t. run_state (validate_active_trusted_gpu_service_identity verified_host docker_service_unit None)
     (s :: nat session) = ((rs, Some docker_process, None), t)"
proof -
  have spec: "trusted_service_by_unit docker_service_unit = Some docker_service_spec" by code_simp
  obtain rs ob t where observed: "run_state (observe_trusted_service verified_host docker_service_spec) s = ((rs, Inr ob), t)"
    and judged: "judge_active_service docker_service_unit None ob = (Some docker_process, None)"
    using docker_observed by blast
  show ?thesis
    by (simp add: validate_active_trusted_gpu_service_identity_def run_found verify_programs_def spec observed judged
        split: prod.split)
qed

lemma docker_trusted:
  "settles (active_service_trust_check verified_host docker_service_unit name True) vf_ok"
proof (rule settles_value [OF silentD [OF silent_trust_check]])
  fix s :: "nat session"
  obtain rs t where "run_state (validate_active_trusted_gpu_service_identity verified_host docker_service_unit None) s
      = ((rs, Some docker_process, None), t)"
    using docker_identity by blast
  then show "\<exists>a t. run_state (active_service_trust_check verified_host docker_service_unit name True) s = (a, t) \<and> vf_ok a"
    by (simp add: active_service_trust_check_def)
qed

text \<open>The image is present, and every container runs the probe and is gone.\<close>

lemma image_inspected:
  "settles (do { r \<leftarrow> inspect_local_digest_image verified_host (ds_container_test_image default_desired); give (Some r) })
     image_present"
proof (rule settles_value [OF silentD])
  show "silent (do { r \<leftarrow> inspect_local_digest_image verified_host (ds_container_test_image default_desired);
      give (Some r) })"
    by (intro quiet_intros silent_inspect_image)
  fix s :: "nat session"
  let ?args = "image_arguments (ds_container_test_image default_desired)"
  obtain t where "run_state (run_known verified_host False ''docker'' ?args) s = (printed_result (''docker'' # ?args), t)"
    using known_printed [of "''docker''" False ?args s] by (auto simp: verify_programs_def)
  moreover have "image_present (Some (printed_result (''docker'' # ?args)))" "docker_image_id (strip (cr_stdout
      (printed_result (''docker'' # ?args))))"
    using printed_checks(3) by (simp_all add: image_present_def printed_result_def)
  ultimately show "\<exists>a t. run_state (do { r \<leftarrow> inspect_local_digest_image verified_host
      (ds_container_test_image default_desired); give (Some r) }) s = (a, t) \<and> image_present a"
    using printed_checks(4) by (simp add: inspect_local_digest_image_def)
qed

definition probe_passed :: "device_probe \<Rightarrow> bool" where
  "probe_passed p \<longleftrightarrow> \<not> probe_failed (dp_result p) \<and> dp_cleanup p = None \<and> \<not> absence_failed (dp_absence p)"

lemma run_output: "probe_failed (printed_result (''docker'' # ''run'' # args)) = False"
  "absence_failed (printed_result (''docker'' # ''ps'' # args)) = False"
proof -
  have "cuda_driver_probe_succeeded (strip ''CUDA_DRIVER_API_OK driver_version=13000 device_count=1'')" "strip [] = []"
    by code_simp+
  then show "probe_failed (printed_result (''docker'' # ''run'' # args)) = False"
    "absence_failed (printed_result (''docker'' # ''ps'' # args)) = False"
    by (simp_all add: probe_failed_def absence_failed_def printed_result_def printed_def Let_def)
qed

lemma device_probed:
  "\<exists>p t. run_state (probe_device verified_host source img cuda device) (s :: nat session) = (p, t) \<and> probe_passed p"
proof -
  let ?name = "container_name_of (replicate 32 CHR ''a'')"
  let ?run = "container_probe_arguments verified_host ?name device img cuda"
  obtain t1 where run: "run_state (run_program verified_host (run_timeout verified_host True) True (Some source) ''docker'' ?run) s
      = (printed_result (''docker'' # ?run), t1)"
    using run_printed [of "''docker''" "run_timeout verified_host True" True "Some source" ?run s]
    by (auto simp: verify_programs_def)
  obtain t2 where gone: "run_state (probe_container_absence verified_host ?name) t1
      = (printed_result (''docker'' # absence_arguments ?name), t2)"
    using known_printed [of "''docker''" False "absence_arguments ?name" t1]
    by (auto simp: verify_programs_def probe_container_absence_def)
  have "\<not> probe_failed (printed_result (''docker'' # ?run))" "\<not> needs_cleanup (printed_result (''docker'' # ?run))"
    "\<not> absence_failed (printed_result (''docker'' # absence_arguments ?name))"
    by (simp_all add: container_probe_arguments_def absence_arguments_def run_output)
      (simp add: needs_cleanup_def printed_result_def failed_def uncertain_reasons_def)
  then show ?thesis
    by (simp add: probe_device_def run gone probe_passed_def)
qed

definition probes_passed :: "command_result option \<times> device_probe list \<Rightarrow> bool" where
  "probes_passed x \<longleftrightarrow> fst x = None \<and> length (snd x) = 1 \<and> list_all probe_passed (snd x)"

lemma devices_probed: "settles (run_probes verified_host default_desired (Some [u]) True) probes_passed"
proof (rule settles_value [OF emits_run_probes])
  fix s :: "nat session"
  let ?img = "ds_container_test_image default_desired"
  obtain p t where "run_state (probe_device verified_host ''int main'' ?img
      (unknown_text (container_cuda_full_version ?img)) u) s = (p, t)" "probe_passed p"
    using device_probed by blast
  then show "\<exists>a t. run_state (run_probes verified_host default_desired (Some [u]) True) s = (a, t) \<and> probes_passed a"
    by (simp add: run_probes_def Let_def probes_passed_def)
qed

lemma verified_audit_checks:
  "container_device_selectors default_desired (Some verified_audit) = Some [''GPU-0123456789abcdef'']"
  "docker_active (Some verified_audit)" "container_compatible default_desired (Some verified_audit)"
  "list_all vf_ok (docker_service_checks (Some verified_audit))"
  "list_all vf_ok (container_binding_checks default_desired (Some verified_audit))"
  "list_all vf_ok (audit_checks default_desired (Some verified_audit))"
  "vf_ok (cuda_compat_check default_desired)" "ds_container_runtime default_desired = ''docker''"
  "ds_fabric_manager default_desired = False"
  by code_simp+

lemma verdicts_pass:
  assumes "vf_ok trusted" "image_present inspected" "probes_passed (synthetic, ps)"
  shows "list_all vf_ok (container_verdicts default_desired (Some verified_audit) trusted inspected synthetic ps)"
proof -
  obtain p where ps: "ps = [p]" "synthetic = None" "probe_passed p"
    using assms(3) by (cases ps) (auto simp: probes_passed_def)
  then have "vf_ok (gpu_verdict (Some [''GPU-0123456789abcdef'']) synthetic ps)" "cleanup_verdict ps = []"
    "vf_ok (absence_verdict ps)"
    by (simp_all add: gpu_verdict_def cleanup_verdict_def absence_verdict_def Let_def failing_devices_def probe_results_def
        absence_results_def cleanup_results_def probe_passed_def List.map_filter_def)
  with assms verified_audit_checks show ?thesis by (simp add: container_verdicts_def)
qed

lemma docker_checks_pass:
  "settles (docker_checks verified_host default_desired (Some verified_audit)) (list_all vf_ok)"
proof -
  have found: "settles (exists_executable verified_host ''docker'') (\<lambda>found. found)"
    by (rule settles_value [OF silentD [OF silent_exists]]) (auto simp: run_found verify_programs_def)
  have active: "docker_active (Some verified_audit) = True" using verified_audit_checks(2) by simp
  show ?thesis
    unfolding docker_checks_def Let_def active simp_thms
  proof (rule settles_bind [OF docker_trusted], rule settles_bind [OF found], rule settles_bind)
    fix trusted :: verification and found
    assume *: "vf_ok trusted" "found"
    show "settles (if found \<and> vf_ok trusted \<and> container_compatible default_desired (Some verified_audit)
        \<and> container_device_selectors default_desired (Some verified_audit) \<noteq> None
        then do { r \<leftarrow> inspect_local_digest_image verified_host (ds_container_test_image default_desired); give (Some r) }
        else give None) image_present"
      using * verified_audit_checks image_inspected by simp
  next
    fix trusted :: verification and found inspected
    assume *: "vf_ok trusted" "found" "image_present inspected"
    show "settles (State_Monad.bind (run_probes verified_host default_desired
          (container_device_selectors default_desired (Some verified_audit))
          ((found \<and> vf_ok trusted \<and> container_compatible default_desired (Some verified_audit)
             \<and> container_device_selectors default_desired (Some verified_audit) \<noteq> None) \<and> image_present inspected))
        (\<lambda>(synthetic, ps). give (container_verdicts default_desired (Some verified_audit) trusted inspected synthetic ps)))
        (list_all vf_ok)"
      using * verified_audit_checks
      by (auto intro!: settles_bind [OF devices_probed] settles_give verdicts_pass)
  qed
qed

lemma checks_bind:
  assumes "checks_pass m" "\<And>a. list_all vf_ok a \<Longrightarrow> checks_pass (f a)"
  shows "checks_pass (State_Monad.bind m f)"
  unfolding checks_pass_def
proof (intro allI)
  fix s :: "nat session"
  obtain a t where run: "run_state m s = (a, t)" by (cases "run_state m s") simp
  with assms(1) have "list_all vf_ok a" by (metis checks_pass_def fst_conv)
  with assms(2) run show "list_all vf_ok (fst (run_state (State_Monad.bind m f) s))" by (simp add: checks_pass_def)
qed

lemma checks_give: "list_all vf_ok a \<Longrightarrow> checks_pass (give a)"
  by (simp add: checks_pass_def)

lemma driver_checks_pass: "settles (driver_checks verified_host default_desired (Some verified_audit)) (list_all vf_ok)"
proof (rule settles_value [OF silentD [OF silent_driver_checks]])
  fix s :: "nat session"
  have "checks_pass (driver_checks verified_host default_desired (Some verified_audit))"
    unfolding driver_checks_def
    by (intro checks_bind [OF header_check_passes] checks_bind [OF tool_checks_pass(1)]
        checks_bind [OF tool_checks_pass(2)] checks_bind [OF tool_checks_pass(3)] checks_bind [OF tool_checks_pass(4)]
        checks_give) (simp add: verified_audit_checks)
  then show "\<exists>a t. run_state (driver_checks verified_host default_desired (Some verified_audit)) s = (a, t) \<and> list_all vf_ok a"
    by (cases "run_state (driver_checks verified_host default_desired (Some verified_audit)) s")
      (simp add: checks_pass_def, metis fst_conv)
qed

lemma verification_passes:
  "settles (verify_stack verified_host default_desired (Some verified_audit) True True) (list_all vf_ok)"
  unfolding verify_stack_def verified_audit_checks(8,9)
  by (rule settles_bind [OF driver_checks_pass], rule settles_bind [where P = "list_all vf_ok"])
    (auto intro!: settles_bind [where P = "list_all vf_ok"] settles_give simp: docker_checks_pass verified_audit_checks)

section \<open>The theorems on this host\<close>

definition sample_run :: "verification list \<times> nat session" where
  "sample_run = run_state (verify_stack verified_host default_desired (Some verified_audit) True True) sample_session"

lemma sample_run_passes: "\<exists>checks t. sample_run = (checks, t) \<and> list_all vf_ok checks"
proof -
  have "list_all vf_ok (fst sample_run)"
    using verification_passes by (simp add: settles_def sample_run_def sample_session_def)
  then show ?thesis using surjective_pairing [of sample_run] by blast
qed


theorem verification_covers_diagnosis_witness:
  "list_all vf_ok (fst sample_run)
   \<and> (diagnose default_desired verified_audit = [f_stack_healthy] \<longleftrightarrow> unverified_healthy default_desired verified_audit)"
proof -
  obtain checks t where run: "sample_run = (checks, t)" and ok: "list_all vf_ok checks"
    using sample_run_passes by blast
  have contract: "desired_contract default_desired" by (rule validate_desired_contract [OF default_desired_valid])
  from verification_covers_diagnosis [OF contract run [unfolded sample_run_def] ok] ok show ?thesis
    unfolding run fst_conv by blast
qed

theorem verified_devices_proven_witness:
  "\<exists>es. se_events (snd sample_run) = se_events sample_session @ es
     \<and> device_proven verified_host default_desired ''GPU-0123456789abcdef'' es"
proof -
  obtain checks t where run: "sample_run = (checks, t)" and ok: "list_all vf_ok checks"
    using sample_run_passes by blast
  have "se_journaled sample_session" by (simp add: sample_session_def)
  from verified_devices_proven [OF run [unfolded sample_run_def] this ok verified_audit_checks(8)] show ?thesis
    unfolding run snd_conv verified_audit_checks(1) by auto
qed

definition reload_host :: "nat verify_host" where
  "reload_host = verified_host\<lparr>rh_sysfs := (\<lambda>_. sample_sysfs)\<rparr>"

definition sample_reload :: "verification \<times> nat session" where
  "sample_reload = run_state (prepare_stack reload_host (Some verified_audit) True) sample_session"

lemma reload_walk: "\<exists>order. unload_order reload_host w = Inr order \<and> order \<noteq> []"
  by (simp add: unload_order_def reload_host_def sample_unload_order)

theorem reload_follows_walk_witness:
  "\<exists>order es. unload_order reload_host 0 = Inr order \<and> order \<noteq> []
     \<and> se_events (snd sample_reload) = se_events sample_session @ es \<and> follows_plan order (fst sample_reload) es"
proof -
  obtain v t where run: "sample_reload = (v, t)" by (cases sample_reload)
  have "se_journaled sample_session" "se_world sample_session = 0" by (simp_all add: sample_session_def)
  with reload_follows_walk [OF run [unfolded sample_reload_def]] reload_walk [of 0] show ?thesis
    unfolding run fst_conv snd_conv by auto
qed

end
