(* ===== verification/Spec2Isabelle.thy ===== *)
theory Spec2Isabelle
  imports RollbackJournal SnapshotProps DesiredTheorems PlannerTargets ModuleSafety RecoveryTheorems RollbackProps
    RollbackTheorems RollbackVerifyProps DeviceUsersProps GpuGuardProps CompensationSample RollbackCommandSample VerifySample
begin

text \<open>
  A model of nvidia-converge, the program that brings the NVIDIA driver stack of one Linux host
  to a desired state, and the properties that make it safe to run.

  \<^bold>\<open>The program.\<close>  One invocation reads a desired state (\<open>desired.py\<close>), audits the host
  (\<open>audit.py\<close>), diagnoses the audit (\<open>doctor.py\<close>) and plans actions (\<open>planner.py\<close>).  An applied run
  (\<open>cli.py\<close>) first looks for interrupted operations (\<open>recovery.py\<close>), persists a rollback snapshot
  with the packages needed to return to it (\<open>rollback.py\<close>, \<open>package_payloads.py\<close>), stops and masks the
  units that can start GPU work (\<open>gpu_safety.py\<close>, \<open>cli.py\<close>), proves that no process uses a device,
  runs the actions through the command runner (\<open>runner.py\<close>), which journals every command, resets the
  kernel modules in the order of \<open>module_safety.py\<close>, verifies the result and releases the units again.
  On a failure it rolls back to the snapshot.

  \<^bold>\<open>Base.\<close>  \<open>Prelude\<close>: Python strings and JSON values, results with an error, and the interface
  \<open>checked_run\<close> of a loop whose step may fail.  \<open>Models\<close>: the dataclasses of \<open>models.py\<close> as records.
  \<open>Samples\<close>: the hosts the witnesses are evaluated on.

  \<^bold>\<open>Desired state, diagnosis, plan.\<close>  \<open>CudaCompat\<close>, \<open>Mig\<close>, \<open>Desired\<close>: \<open>cuda_compat.py\<close>, \<open>mig.py\<close>,
  \<open>desired.py\<close>; \<open>DesiredRoundtrip\<close> and \<open>DesiredTheorems\<close> hold their properties.  \<open>Doctor\<close>:
  \<open>diagnose\<close>, one definition per section of the function and one per finding, with the
  independent description of a healthy host.  \<open>PlanActions\<close>, \<open>DnfModule\<close>, \<open>Planner\<close>:
  \<open>planner.py\<close>, one definition per action, per helper and per phase of \<open>build_plan\<close>;
  \<open>PlannerProps\<close>, \<open>PlannerTheorems\<close>, \<open>PlannerTargets\<close> hold the lemmas and properties.
  \<open>ModuleSafety\<close>: the walk over \<open>/sys/module\<close>.

  \<^bold>\<open>Journal and recovery.\<close>  \<open>Journal\<close>: the event stream of an operation (\<open>_validate_event_stream\<close>,
  \<open>_parse_journal\<close>), a state record for the loop's variables and one handler per event; \<open>JournalProps\<close>
  and \<open>JournalTheorems\<close>.  \<open>Recovery\<close>: the journal files, the marker index, its bootstrap and the
  choice of the recovery snapshot; \<open>RecoveryTheorems\<close>.

  \<^bold>\<open>Runner and observations.\<close>  \<open>Runner\<close>: \<open>CommandRunner\<close> as actions on a session, which holds the
  world, the clock's reading, the events told to the journal and the commands issued; the start of a
  process is the host's \<open>ru_exec\<close>.  \<open>Emits\<close>: what an action may emit, as a calculus over its events.
  \<open>UnitTrust\<close>, \<open>UnitSafety\<close>: the identity and integrity checks of the launcher units
  (\<open>gpu_safety.py\<close>); \<open>UnitChecks\<close>.  \<open>DeviceUsers\<close>: the scan of \<open>/proc\<close> for users of NVIDIA devices, with
  \<open>DeviceUsersProps\<close>; \<open>WorkloadProbe\<close>: the compute processes, the containers and the probe that joins
  them with the scan.  \<open>GpuGuard\<close>: \<open>TrustedGpuServiceGuard\<close>, the services it stopped and may start
  again, and \<open>GpuGuardProps\<close>.  \<open>MigAudit\<close>: the observation of the MIG geometry.

  \<^bold>\<open>Rollback.\<close>  \<open>RollbackCommands\<close>: package specs, the package delta, the command builder and the
  allow-list; \<open>RollbackProps\<close>.  \<open>ManagedFiles\<close>, \<open>RollbackUnits\<close>, \<open>Payloads\<close>, \<open>PreflightRollback\<close>: files,
  launchers, retained packages and the simulated package transaction.  \<open>RollbackApply\<close>:
  \<open>apply_rollback\<close> with its gates and phases; \<open>RollbackProtocol\<close>, \<open>RollbackTrace\<close>, \<open>RollbackSteps\<close>,
  \<open>RollbackSafety\<close>, \<open>PayloadChecks\<close>, \<open>RollbackTheorems\<close>, \<open>RollbackJournal\<close>, \<open>RollbackSample\<close>: the protocol
  automaton its events must follow, the refinement, and what follows from it.  \<open>RollbackVerify\<close>:
  \<open>verify_rollback\<close>, with \<open>RollbackVerifyProps\<close>.  \<open>SnapshotLoad\<close>, \<open>SnapshotTrust\<close>, \<open>SnapshotTypes\<close>,
  \<open>SnapshotWhole\<close>, \<open>SnapshotRoundtrip\<close>, \<open>SnapshotProps\<close>, \<open>SnapshotSample\<close>: the loader field by field, the trust
  checks before a snapshot is applied, the type of a snapshot, and the round trip.  \<open>SnapshotCreate\<close>,
  \<open>SnapshotCreateProps\<close>, \<open>SnapshotCreateSample\<close>: \<open>create_snapshot\<close> and what it guarantees.

  \<^bold>\<open>Command line.\<close>  \<open>LauncherQuarantine\<close>: the report and guard a command carries, stopping and
  masking the launchers, and the workload checkpoints.  \<open>LauncherCommit\<close>: their release unit by unit
  and the joint verification; \<open>LauncherProps\<close>, \<open>LauncherSample\<close>.  \<open>Compensation\<close>: the checks at a
  boundary and the automatic rollback of a failed installation; \<open>CompensationProps\<close>,
  \<open>CompensationSample\<close>.  \<open>CommandStatus\<close>: the exit status of every command, what a reboot can complete,
  and the last fields of a report.  \<open>RollbackCommand\<close>: the \<open>rollback\<close> command from the snapshot it is given
  to the exit status, with its gates, its records in the journals and its report; \<open>RollbackCommandProps\<close>,
  \<open>RecoveryClosing\<close> (the record that ends an interrupted operation), \<open>RollbackCommandSample\<close>.

  \<^bold>\<open>Verification.\<close>  \<open>KernelHeaders\<close>: \<open>kernel_headers.py\<close>, the chains of directories only root may write,
  the marker of the running release and the package that owns it; \<open>KernelHeadersProps\<close>.
  \<open>VerifyStack\<close>: \<open>prepare_stack\<close> (\<open>verify.py\<close>), which loads or reloads the modules, and the checks of the audit and
  of the tools.  \<open>VerifyContainers\<close>: the container of each device, its removal and the proof that it is gone,
  Fabric Manager, and \<open>verify_stack\<close> as a whole.  \<open>VerifyProps\<close> holds their properties, \<open>VerifySample\<close> a host
  that passes every check.

  \<^bold>\<open>How state and errors are modelled.\<close>  A dataclass is a record, an optional value an \<open>option\<close>,
  a raised exception the left value of a sum with a constructor per message or exception type.
  Loops are structural recursions or \<open>fold_e\<close>; mutated state (the walk's sets, the event loop's
  variables, the report and marker directories, the session and report of a command) is a record
  passed through, in the state monad where it goes through many calls.  Strings are lists of
  code points up to 255.  What the code takes from outside the repository is an argument, or a
  field of the host record an action gets: the text of a file, \<open>json.loads\<close>, the UTF-8 decoder,
  observations of \<open>/sys/module\<close> and \<open>/proc\<close>, SHA-256, the start of a process, the texts of the embedded
  DNF scripts.  Each takes the world and returns a new one, so that nothing is assumed to stay as it was
  between two observations.

  \<^bold>\<open>Fuel.\<close>  Only the module walk is not structural: its call depth is bounded by an argument, as
  Python bounds it; six suffices, since every nested call marks one more of the six known
  modules.

  \<^bold>\<open>What the lemmas show.\<close>  The rollback: every run follows a protocol in which the launchers are
  proved inert before the first change, the phases come in order, nothing follows a failure, and a dry
  run changes nothing; what verifies as rolled back is a fixed point of it.  Snapshots: what the loader
  returns has the snapshot type, every snapshot of that type is loaded as it was written, and what is
  created is a baseline a rollback can restore.  The launchers: the guard starts only what it stopped, a
  commit that succeeds has reached the target of every launcher, one that fails is contained or says
  that it is not.  The rollback command: it changes nothing on a host without a proven boundary, and counts as a
  success only a host observed as restored, or restored but for a MIG mode the next boot brings.  The
  verification: a host that passes it is healthy but for what only the diagnosis looks at, every device of
  the audit ran the probe in a container that is then gone, the accepted headers are those of the running
  kernel and only root can change them, and a reload keeps to the module walk.  The journal: a validated
  stream has the snapshot before any command that may change the host, brackets its commands, and ends as it should; so every operation recovery reports can name
  the snapshot that undoes it, no interrupted one is forgotten, and each can be closed: the record a
  rollback to its snapshot appends is always a valid next event and resolves the journal.  The planner: it returns, refuses or
  orders its phases, names only the one GPU in MIG commands, presupposes an observed baseline, and
  leaves a healthy host alone.  The module walk: holders first, always ending.  Commands: the package
  delta is exact, the builder and the allow-list agree, and no stored command can smuggle an option.
  The desired state: what is loaded meets the contract, and is read back as it is printed.

  \<^bold>\<open>Divergences found.\<close>  An automatic compensation can never be applied, since the snapshot that
  \<open>create_snapshot\<close> returns lacks the source binding an applied rollback asks for; an applied rollback
  that retains packages leaves a journal recovery refuses; a snapshot of a host with an empty managed
  file cannot be loaded; a second look at the MIG state reconfigures the first of several GPUs; the
  builder makes commands for RPM versions with a tilde that the allow-list refuses; the report of a
  rollback drops the check of the Docker daemon's activity.  Smaller ones, as
  lemmas: a final line feed in the driver, a padded driver branch on DNF hosts, \<open>TypeError\<close> for a
  malformed journal event, and a module reset planned for a host diagnosed healthy.

  \<^bold>\<open>Not modelled.\<close>  Process execution and system calls (\<open>files.py\<close>, \<open>locking.py\<close>, the pipes of
  \<open>runner.py\<close>); most parsers of tool output in \<open>audit.py\<close>, whose result is an argument; the sequences
  of the \<open>install\<close>, \<open>verify\<close> and \<open>lock\<close> commands in \<open>cli.py\<close> and its argument parser; the forward transactions of \<open>preflight.py\<close>;
  download and staging of payloads; an exception thrown from outside into a running probe of
  \<open>verify.py\<close>; repository checks, report output, and the release scripts.
\<close>

end
